(* ===== verification/Py_Prelude.thy ===== *)
theory Py_Prelude
  imports Complex_Main "HOL-Library.AList"
begin

text \<open>
  The Python substrate of the development: dynamic values, dictionaries, string
  functions, the conversion \<open>float\<close>, truthiness, \<open>round\<close> and clamping.

  Numbers. A Python \<open>float\<close> is modelled by a \<^typ>\<open>real\<close>: sums, products and quotients are
  exact and the non-finite values are outside the model. \<open>round(x, n)\<close> is kept as an
  operation of its own (round half to even on the n-th decimal, as the language
  defines it), since the source rounds nearly everything it stores. Python ints are
  \<^typ>\<open>int\<close> (or \<^typ>\<open>nat\<close> for counters that only grow).

  Dictionaries. A dict is an association list in insertion order; \<open>d[k] = v\<close> is
  \<open>AList.update\<close>, which overwrites in place or appends, as Python does.
\<close>

named_theorems py_simps \<open>unfolding rules of the Python substrate\<close>
named_theorems py_round_bounds \<open>bounds that rounding keeps\<close>

section \<open>Values and errors\<close>

datatype pyval =
    PNone
  | PBool bool
  | PInt int
  | PFloat real
  | PStr string
  | PList "pyval list"
  | PDict "(string \<times> pyval) list"

type_synonym pydict = "(string \<times> pyval) list"

datatype py_exc =
    TypeError
  | ValueError
  | KeyError string
  | IndexError
  | ZeroDivisionError
  | AttributeError
  | RuntimeError string

type_synonym 'a pyres = "py_exc + 'a"

definition truthy :: "pyval \<Rightarrow> bool" where
  "truthy v = (case v of PNone \<Rightarrow> False | PBool b \<Rightarrow> b | PInt i \<Rightarrow> i \<noteq> 0 | PFloat x \<Rightarrow> x \<noteq> 0
     | PStr s \<Rightarrow> s \<noteq> [] | PList l \<Rightarrow> l \<noteq> [] | PDict d \<Rightarrow> d \<noteq> [])"

text \<open>\<open>a or b\<close>\<close>
definition py_or :: "pyval \<Rightarrow> pyval \<Rightarrow> pyval" where
  "py_or a b = (if truthy a then a else b)"

lemma truthy_simps [simp]:
  "truthy PNone = False" "truthy (PBool b) = b" "truthy (PInt i) = (i \<noteq> 0)"
  "truthy (PFloat x) = (x \<noteq> 0)" "truthy (PStr s) = (s \<noteq> [])"
  "truthy (PList l) = (l \<noteq> [])" "truthy (PDict d) = (d \<noteq> [])"
  by (simp_all add: truthy_def)

section \<open>Dictionaries\<close>

text \<open>\<open>d.get(k)\<close>, \<open>d.get(k, x)\<close> and \<open>d[k] = v\<close>\<close>
definition py_get :: "pydict \<Rightarrow> string \<Rightarrow> pyval" where
  "py_get d k = (case map_of d k of None \<Rightarrow> PNone | Some v \<Rightarrow> v)"

definition dget :: "('k \<times> 'v) list \<Rightarrow> 'k \<Rightarrow> 'v \<Rightarrow> 'v" where
  "dget d k x = (case map_of d k of None \<Rightarrow> x | Some v \<Rightarrow> v)"

abbreviation dset :: "'k \<Rightarrow> 'v \<Rightarrow> ('k \<times> 'v) list \<Rightarrow> ('k \<times> 'v) list" where
  "dset \<equiv> AList.update"

text \<open>\<open>{**a, **b}\<close>\<close>
definition dmerge :: "('k \<times> 'v) list \<Rightarrow> ('k \<times> 'v) list \<Rightarrow> ('k \<times> 'v) list" where
  "dmerge a b = fold (\<lambda>(k, v). dset k v) b a"

text \<open>\<open>d.setdefault(k, v)\<close>\<close>
definition setdefault :: "'k \<Rightarrow> 'v \<Rightarrow> ('k \<times> 'v) list \<Rightarrow> ('k \<times> 'v) list" where
  "setdefault k v d = (case map_of d k of None \<Rightarrow> d @ [(k, v)] | Some _ \<Rightarrow> d)"

lemma py_get_simps [simp]:
  "py_get [] k = PNone"
  "py_get ((k', v) # d) k = (if k = k' then v else py_get d k)"
  by (simp_all add: py_get_def)

lemma dget_simps [simp]:
  "dget [] k x = x"
  "dget ((k', v) # d) k x = (if k = k' then v else dget d k x)"
  by (simp_all add: dget_def)

lemma set_dset: "set (dset k v d) \<subseteq> insert (k, v) (set d)"
  by (induction d) auto

lemma dset_all: "P (k, v) \<Longrightarrow> (\<forall>x \<in> set d. P x) \<Longrightarrow> \<forall>x \<in> set (dset k v d). P x"
  using set_dset [of k v d] by blast

lemma map_of_dset [simp]: "map_of (dset k v d) k' = (if k = k' then Some v else map_of d k')"
  by (simp add: update_conv')

lemma dget_dset [simp]: "dget (dset k v d) k' x = (if k = k' then v else dget d k' x)"
  by (simp add: dget_def)

lemma py_get_dset [simp]: "py_get (dset k v d) k' = (if k = k' then v else py_get d k')"
  by (simp add: py_get_def)

lemma dget_map [simp]: "k \<in> set ks \<Longrightarrow> dget (map (\<lambda>k. (k, f k)) ks) k x = f k"
  by (induction ks) auto

lemma map_of_tabulate: "map_of (map (\<lambda>k. (k, f k)) ks) k = (if k \<in> set ks then Some (f k) else None)"
  by (induction ks) auto

section \<open>Strings\<close>

definition is_space :: "char \<Rightarrow> bool" where
  "is_space c = (c \<in> {CHR '' '', CHR 0x09, CHR 0x0A, CHR 0x0B, CHR 0x0C, CHR 0x0D, CHR 0x1C, CHR 0x1D, CHR 0x1E, CHR 0x1F})"

definition py_strip :: "string \<Rightarrow> string" where
  "py_strip s = rev (dropWhile is_space (rev (dropWhile is_space s)))"

definition lower_char :: "char \<Rightarrow> char" where
  "lower_char c = (let n = of_char c :: nat in if 65 \<le> n \<and> n \<le> 90 then char_of (n + 32) else c)"

definition py_lower :: "string \<Rightarrow> string" where
  "py_lower s = map lower_char s"

definition upper_char :: "char \<Rightarrow> char" where
  "upper_char c = (let n = of_char c :: nat in if 97 \<le> n \<and> n \<le> 122 then char_of (n - 32) else c)"

definition py_upper :: "string \<Rightarrow> string" where
  "py_upper s = map upper_char s"

text \<open>\<open>str(n)\<close> of a non-negative int\<close>
fun nat_str :: "nat \<Rightarrow> string" where
  "nat_str n = (if n < 10 then [char_of (48 + n)] else nat_str (n div 10) @ [char_of (48 + n mod 10)])"

declare nat_str.simps [simp del]

fun is_prefix :: "string \<Rightarrow> string \<Rightarrow> bool" where
  "is_prefix [] s = True"
| "is_prefix (c # p) [] = False"
| "is_prefix (c # p) (d # s) = (c = d \<and> is_prefix p s)"

text \<open>\<open>p in s\<close> for strings\<close>
fun is_infix :: "string \<Rightarrow> string \<Rightarrow> bool" where
  "is_infix p [] = (p = [])"
| "is_infix p (c # s) = (is_prefix p (c # s) \<or> is_infix p s)"

lemma length_py_lower [simp]: "length (py_lower s) = length s"
  by (simp add: py_lower_def)

lemma py_lower_Nil_iff [simp]: "py_lower s = [] \<longleftrightarrow> s = []"
  by (simp add: py_lower_def)

text \<open>
  \<open>str(v)\<close>: a string is itself. The text of any other value is Python's \<open>repr\<close>, a
  parameter of the model (\<open>rp\<close>).
\<close>
definition py_str :: "(pyval \<Rightarrow> string) \<Rightarrow> pyval \<Rightarrow> string" where
  "py_str rp v = (case v of PStr s \<Rightarrow> s | _ \<Rightarrow> rp v)"

lemma py_str_PStr [simp]: "py_str rp (PStr s) = s"
  by (simp add: py_str_def)

lemma lower_literals [simp]:
  "py_lower ''buy'' = ''buy''" "py_lower ''sell'' = ''sell''" "py_lower ''long'' = ''long''"
  "py_lower ''short'' = ''short''" "py_lower ''flat'' = ''flat''" "py_lower ''hold'' = ''hold''"
  "py_lower ''BUY'' = ''buy''" "py_lower ''SELL'' = ''sell''" "py_lower ''bearish'' = ''bearish''"
  "py_lower ''bullish'' = ''bullish''" "py_lower ''paper'' = ''paper''"
  "py_lower ''risk_off'' = ''risk_off''" "py_lower ''risk_on'' = ''risk_on''"
  by code_simp+

lemma strip_literals [simp]:
  "py_strip ''buy'' = ''buy''" "py_strip ''sell'' = ''sell''" "py_strip ''long'' = ''long''"
  "py_strip ''short'' = ''short''" "py_strip ''flat'' = ''flat''"
  by code_simp+

section \<open>The conversion float()\<close>

definition is_digit :: "char \<Rightarrow> bool" where
  "is_digit c = (let n = of_char c :: nat in 48 \<le> n \<and> n \<le> 57)"

definition digits_val :: "string \<Rightarrow> nat" where
  "digits_val s = foldl (\<lambda>a c. 10 * a + (of_char c - 48)) 0 s"

text \<open>An optional exponent: nothing, or \<open>e\<close> with an optional sign and digits.\<close>
definition parse_exponent :: "string \<Rightarrow> real option" where
  "parse_exponent s = (case s of [] \<Rightarrow> Some 1
     | c # t \<Rightarrow>
        if c \<noteq> CHR ''e'' \<and> c \<noteq> CHR ''E'' then None
        else let neg = (t \<noteq> [] \<and> hd t = CHR ''-'');
                 ds = (if t \<noteq> [] \<and> (hd t = CHR ''-'' \<or> hd t = CHR ''+'') then tl t else t)
             in if ds = [] \<or> \<not> list_all is_digit ds then None
                else Some (if neg then 1 / 10 ^ digits_val ds else 10 ^ digits_val ds))"

definition parse_unsigned :: "string \<Rightarrow> real option" where
  "parse_unsigned s =
     (let ip = takeWhile is_digit s; r = dropWhile is_digit s;
          dot = (r \<noteq> [] \<and> hd r = CHR ''.'');
          fp = (if dot then takeWhile is_digit (tl r) else []);
          r2 = (if dot then dropWhile is_digit (tl r) else r)
      in if ip = [] \<and> fp = [] then None
         else map_option (\<lambda>e. (real (digits_val ip) + real (digits_val fp) / 10 ^ length fp) * e)
                (parse_exponent r2))"

definition float_of_string :: "string \<Rightarrow> real option" where
  "float_of_string s =
     (let t = py_strip s in
      if t = [] then None
      else if hd t = CHR ''-'' then map_option uminus (parse_unsigned (tl t))
      else if hd t = CHR ''+'' then parse_unsigned (tl t)
      else parse_unsigned t)"

definition py_float :: "pyval \<Rightarrow> real pyres" where
  "py_float v = (case v of
       PBool b \<Rightarrow> Inr (if b then 1 else 0)
     | PInt i \<Rightarrow> Inr (of_int i)
     | PFloat x \<Rightarrow> Inr x
     | PStr s \<Rightarrow> (case float_of_string s of None \<Rightarrow> Inl ValueError | Some x \<Rightarrow> Inr x)
     | _ \<Rightarrow> Inl TypeError)"

lemma py_float_simps [simp]:
  "py_float PNone = Inl TypeError" "py_float (PBool b) = Inr (if b then 1 else 0)"
  "py_float (PInt i) = Inr (of_int i)" "py_float (PFloat x) = Inr x"
  "py_float (PList l) = Inl TypeError" "py_float (PDict d) = Inl TypeError"
  by (simp_all add: py_float_def)

lemma py_float_err: "py_float v = Inl e \<Longrightarrow> e = TypeError \<or> e = ValueError"
  by (auto simp: py_float_def split: pyval.splits option.splits)

text \<open>\<open>try: float(v) except (TypeError, ValueError): None\<close>\<close>
definition safe_float :: "pyval \<Rightarrow> real option" where
  "safe_float v = (case py_float v of Inl _ \<Rightarrow> None | Inr x \<Rightarrow> Some x)"

lemma safe_float_simps [simp]:
  "safe_float PNone = None" "safe_float (PFloat x) = Some x" "safe_float (PInt i) = Some (of_int i)"
  "safe_float (PBool b) = Some (if b then 1 else 0)" "safe_float (PList l) = None"
  "safe_float (PDict d) = None"
  by (simp_all add: safe_float_def)

definition trunc_real :: "real \<Rightarrow> int" where
  "trunc_real x = (if x \<ge> 0 then \<lfloor>x\<rfloor> else \<lceil>x\<rceil>)"

definition int_of_string :: "string \<Rightarrow> int option" where
  "int_of_string s =
     (let t = py_strip s; neg = (t \<noteq> [] \<and> hd t = CHR ''-'');
          ds = (if t \<noteq> [] \<and> (hd t = CHR ''-'' \<or> hd t = CHR ''+'') then tl t else t)
      in if ds = [] \<or> \<not> list_all is_digit ds then None
         else Some (if neg then - int (digits_val ds) else int (digits_val ds)))"

text \<open>\<open>int(v)\<close>\<close>
definition py_int :: "pyval \<Rightarrow> int pyres" where
  "py_int v = (case v of
       PBool b \<Rightarrow> Inr (if b then 1 else 0)
     | PInt i \<Rightarrow> Inr i
     | PFloat x \<Rightarrow> Inr (trunc_real x)
     | PStr s \<Rightarrow> (case int_of_string s of None \<Rightarrow> Inl ValueError | Some i \<Rightarrow> Inr i)
     | _ \<Rightarrow> Inl TypeError)"

lemma py_int_simps [simp]:
  "py_int PNone = Inl TypeError" "py_int (PInt i) = Inr i" "py_int (PList l) = Inl TypeError"
  "py_int (PDict d) = Inl TypeError"
  by (simp_all add: py_int_def)

text \<open>\<open>(v or {})\<close> used as a dict: a truthy value that is no dict has no \<open>.get\<close>.\<close>
definition dict_or_empty :: "pyval \<Rightarrow> pydict pyres" where
  "dict_or_empty v =
     (if \<not> truthy v then Inr [] else case v of PDict d \<Rightarrow> Inr d | _ \<Rightarrow> Inl AttributeError)"

section \<open>Error propagation\<close>

definition res_bind :: "'a pyres \<Rightarrow> ('a \<Rightarrow> 'b pyres) \<Rightarrow> 'b pyres" where
  "res_bind m f = (case m of Inl e \<Rightarrow> Inl e | Inr x \<Rightarrow> f x)"

lemma res_bind_simps [simp]:
  "res_bind (Inl e) f = Inl e" "res_bind (Inr x) f = f x"
  by (simp_all add: res_bind_def)

lemma res_bind_Inr_iff: "res_bind m f = Inr y \<longleftrightarrow> (\<exists>x. m = Inr x \<and> f x = Inr y)"
  by (cases m) auto

section \<open>Rounding\<close>

definition round_half_even :: "real \<Rightarrow> int" where
  "round_half_even x =
     (let f = \<lfloor>x\<rfloor>; d = x - of_int f
      in if d < 1 / 2 then f else if 1 / 2 < d then f + 1 else if even f then f else f + 1)"

text \<open>\<open>round(x, n)\<close>\<close>
definition py_round :: "nat \<Rightarrow> real \<Rightarrow> real" where
  "py_round n x = of_int (round_half_even (x * 10 ^ n)) / 10 ^ n"

lemma round_half_even_of_int [simp]: "round_half_even (of_int k) = k"
  by (simp add: round_half_even_def)

lemma round_half_even_near: "\<bar>of_int (round_half_even x) - x\<bar> \<le> 1 / 2"
  unfolding round_half_even_def Let_def by auto

lemma round_half_even_mono:
  assumes "x \<le> y"
  shows "round_half_even x \<le> round_half_even y"
proof (cases "\<lfloor>x\<rfloor> = \<lfloor>y\<rfloor>")
  case True
  then show ?thesis using assms unfolding round_half_even_def Let_def by auto
next
  case False
  with assms have "\<lfloor>x\<rfloor> + 1 \<le> \<lfloor>y\<rfloor>" by (meson floor_mono le_less zless_imp_add1_zle)
  moreover have "round_half_even x \<le> \<lfloor>x\<rfloor> + 1" "\<lfloor>y\<rfloor> \<le> round_half_even y"
    by (auto simp: round_half_even_def Let_def)
  ultimately show ?thesis by linarith
qed

lemma py_round_mono: "x \<le> y \<Longrightarrow> py_round n x \<le> py_round n y"
  by (simp add: py_round_def divide_right_mono round_half_even_mono)

lemma py_round_near: "\<bar>py_round n x - x\<bar> \<le> 1 / (2 * 10 ^ n)"
proof -
  have "py_round n x - x = (of_int (round_half_even (x * 10 ^ n)) - x * 10 ^ n) / 10 ^ n"
    by (simp add: py_round_def field_simps)
  then have "\<bar>py_round n x - x\<bar> = \<bar>of_int (round_half_even (x * 10 ^ n)) - x * 10 ^ n\<bar> / 10 ^ n"
    by (simp add: abs_divide)
  also have "\<dots> \<le> (1 / 2) / 10 ^ n"
    by (intro divide_right_mono round_half_even_near) simp
  finally show ?thesis by simp
qed

text \<open>A value with at most \<open>n\<close> decimals is a fixed point.\<close>
definition decimals :: "nat \<Rightarrow> real \<Rightarrow> bool" where
  "decimals n x \<longleftrightarrow> (\<exists>k::int. x * 10 ^ n = of_int k)"

lemma decimals_of_int [simp, intro]: "decimals n (of_int k)"
  unfolding decimals_def by (metis of_int_mult of_int_numeral of_int_power)

lemma decimals_simple [simp, intro]:
  "decimals n 0" "decimals n 1" "decimals n (-1)" "decimals n (numeral w)" "decimals n (- numeral w)"
  using decimals_of_int [of n 0] decimals_of_int [of n 1] decimals_of_int [of n "-1"]
    decimals_of_int [of n "numeral w"] decimals_of_int [of n "- numeral w"] by simp_all

lemma decimals_uminus [simp]: "decimals n (- x) \<longleftrightarrow> decimals n x"
  unfolding decimals_def by (metis minus_mult_left minus_minus of_int_minus)

lemma decimals_add: "decimals n x \<Longrightarrow> decimals n y \<Longrightarrow> decimals n (x + y)"
  unfolding decimals_def by (metis distrib_right of_int_add)

lemma decimals_diff: "decimals n x \<Longrightarrow> decimals n y \<Longrightarrow> decimals n (x - y)"
  using decimals_add [of n x "- y"] by simp

lemma decimals_py_round [simp, intro]: "decimals n (py_round n x)"
  by (auto simp: decimals_def py_round_def)

lemma py_round_decimals: "decimals n x \<Longrightarrow> py_round n x = x"
  by (auto simp: decimals_def py_round_def field_simps)

lemma py_round_idem [simp]: "py_round n (py_round n x) = py_round n x"
  by (simp add: py_round_decimals)

lemma py_round_simple [simp]: "py_round n 0 = 0" "py_round n 1 = 1" "py_round n (-1) = -1"
  by (simp_all add: py_round_decimals)

lemma py_round_ge [py_round_bounds]: "decimals n a \<Longrightarrow> a \<le> x \<Longrightarrow> a \<le> py_round n x"
  using py_round_mono [of a x n] by (simp add: py_round_decimals)

lemma py_round_le [py_round_bounds]: "decimals n b \<Longrightarrow> x \<le> b \<Longrightarrow> py_round n x \<le> b"
  using py_round_mono [of x b n] by (simp add: py_round_decimals)

lemma round_half_even_minus: "round_half_even (- x) = - round_half_even x"
proof (cases "x = of_int \<lfloor>x\<rfloor>")
  case True
  then have "round_half_even (- x) = round_half_even (of_int (- \<lfloor>x\<rfloor>))"
    and "round_half_even x = round_half_even (of_int \<lfloor>x\<rfloor>)" by simp_all
  then show ?thesis by (simp only: round_half_even_of_int)
next
  case False
  then have f: "\<lfloor>- x\<rfloor> = - \<lfloor>x\<rfloor> - 1" by linarith
  show ?thesis unfolding round_half_even_def Let_def f by auto
qed

lemma py_round_minus: "py_round n (- x) = - py_round n x"
  by (simp add: py_round_def round_half_even_minus)

section \<open>Clamping and small list functions\<close>

text \<open>\<open>max(lo, min(hi, value))\<close>, the idiom the source repeats in several modules\<close>
definition clamp_to :: "real \<Rightarrow> real \<Rightarrow> real \<Rightarrow> real" where
  "clamp_to lo hi v = max lo (min hi v)"

lemma clamp_to_bounds: "lo \<le> hi \<Longrightarrow> lo \<le> clamp_to lo hi v \<and> clamp_to lo hi v \<le> hi"
  by (auto simp: clamp_to_def)

lemma clamp_to_mono: "v \<le> w \<Longrightarrow> clamp_to lo hi v \<le> clamp_to lo hi w"
  by (auto simp: clamp_to_def)

lemma clamp_to_id: "lo \<le> v \<Longrightarrow> v \<le> hi \<Longrightarrow> clamp_to lo hi v = v"
  by (auto simp: clamp_to_def)

text \<open>\<open>xs[-n:]\<close>: the last \<open>n\<close> elements; \<open>xs[-0:]\<close> is the whole list.\<close>
definition last_n :: "nat \<Rightarrow> 'a list \<Rightarrow> 'a list" where
  "last_n n xs = (if n = 0 then xs else drop (length xs - n) xs)"

lemma length_last_n: "0 < n \<Longrightarrow> length (last_n n xs) = min n (length xs)"
  by (simp add: last_n_def)

lemma set_last_n: "set (last_n n xs) \<subseteq> set xs"
  by (simp add: last_n_def set_drop_subset)

text \<open>\<open>xs.append(x)\<close>, then \<open>xs = xs[-n:]\<close> when the list is longer than \<open>n\<close>\<close>
definition push_capped :: "nat \<Rightarrow> 'a \<Rightarrow> 'a list \<Rightarrow> 'a list" where
  "push_capped n x xs =
     (let ys = xs @ [x] in if n < length ys then last_n n ys else ys)"

lemma length_push_capped: "0 < n \<Longrightarrow> length xs \<le> n \<Longrightarrow> length (push_capped n x xs) \<le> n"
  by (auto simp: push_capped_def Let_def length_last_n)

lemma last_push_capped: "0 < n \<Longrightarrow> push_capped n x xs \<noteq> [] \<and> last (push_capped n x xs) = x"
  by (auto simp: push_capped_def Let_def last_n_def)

lemma set_push_capped: "set (push_capped n x xs) \<subseteq> insert x (set xs)"
  using set_last_n [of n "xs @ [x]"] by (auto simp: push_capped_def Let_def)

definition sign :: "real \<Rightarrow> int" where
  "sign x = (if x > 0 then 1 else if x < 0 then - 1 else 0)"

definition fmean :: "real list \<Rightarrow> real" where
  "fmean xs = sum_list xs / real (length xs)"

text \<open>population standard deviation (\<open>statistics.pstdev\<close>)\<close>
definition pstdev :: "real list \<Rightarrow> real" where
  "pstdev xs = sqrt (sum_list (map (\<lambda>x. (x - fmean xs)\<^sup>2) xs) / real (length xs))"

lemma pstdev_nonneg: "0 \<le> pstdev xs"
  unfolding pstdev_def by (auto intro!: divide_nonneg_nonneg sum_list_nonneg)

lemmas [py_simps] = py_or_def res_bind_def clamp_to_def

end
