(* ===== verification/Regime_Risk.thy ===== *)
theory Regime_Risk
  imports Py_Prelude
begin

text \<open>
  The regime-aware risk posture (\<open>api/services/regime_risk.py\<close>): every risk parameter
  that a macro regime may change is resolved here. A regime is whatever the payload
  carries under \<open>regime\<close>, so it is a dynamic value. The constants are those of
  \<open>api/constants.py\<close>. The locale \<open>risk_posture\<close> is the contract the consumers rely on: a
  parameter tightens in the direction of its order and equals the default everywhere
  outside the risk-off regime.
\<close>

definition STOP_LOSS_PCT :: real where "STOP_LOSS_PCT = 5 / 100"
definition RISK_OFF_STOP_LOSS_PCT :: real where "RISK_OFF_STOP_LOSS_PCT = 3 / 100"
definition TAKE_PROFIT_PCT :: real where "TAKE_PROFIT_PCT = 10 / 100"
definition RISK_OFF_TAKE_PROFIT_PCT :: real where "RISK_OFF_TAKE_PROFIT_PCT = 6 / 100"
definition DAILY_LOSS_LIMIT_PCT :: real where "DAILY_LOSS_LIMIT_PCT = 2 / 100"
definition RISK_OFF_DAILY_LOSS_LIMIT_PCT :: real where "RISK_OFF_DAILY_LOSS_LIMIT_PCT = 15 / 1000"
definition RISK_OFF_SIZE_MULTIPLIER :: real where "RISK_OFF_SIZE_MULTIPLIER = 1 / 2"
definition RISK_OFF_MIN_CONFIDENCE :: real where "RISK_OFF_MIN_CONFIDENCE = 35 / 100"
definition RISK_ON_BUY_THRESHOLD_DELTA :: real where "RISK_ON_BUY_THRESHOLD_DELTA = 5 / 100"
definition RISK_OFF_EXECUTION_DECISION_THRESHOLD :: real where
  "RISK_OFF_EXECUTION_DECISION_THRESHOLD = 65 / 100"

lemmas regime_constants = STOP_LOSS_PCT_def RISK_OFF_STOP_LOSS_PCT_def TAKE_PROFIT_PCT_def
  RISK_OFF_TAKE_PROFIT_PCT_def DAILY_LOSS_LIMIT_PCT_def RISK_OFF_DAILY_LOSS_LIMIT_PCT_def
  RISK_OFF_SIZE_MULTIPLIER_def RISK_OFF_MIN_CONFIDENCE_def RISK_ON_BUY_THRESHOLD_DELTA_def
  RISK_OFF_EXECUTION_DECISION_THRESHOLD_def

definition regime_of :: "pyval \<Rightarrow> pyval" where
  "regime_of macro = (case macro of PDict d \<Rightarrow> py_get d ''regime'' | _ \<Rightarrow> PNone)"

definition is_risk_off :: "pyval \<Rightarrow> bool" where
  "is_risk_off regime \<longleftrightarrow> regime = PStr ''risk_off''"

definition is_risk_on :: "pyval \<Rightarrow> bool" where
  "is_risk_on regime \<longleftrightarrow> regime = PStr ''risk_on''"

definition buy_threshold :: "pyval \<Rightarrow> real \<Rightarrow> real \<Rightarrow> real" where
  "buy_threshold regime dflt momentum =
     (if is_risk_on regime \<and> 0 \<le> momentum then max 0 (dflt - RISK_ON_BUY_THRESHOLD_DELTA)
      else dflt)"

definition stop_loss_pct :: "pyval \<Rightarrow> bool \<Rightarrow> real" where
  "stop_loss_pct regime is_long =
     (if is_long \<and> is_risk_off regime then RISK_OFF_STOP_LOSS_PCT else STOP_LOSS_PCT)"

definition take_profit_pct :: "pyval \<Rightarrow> bool \<Rightarrow> real" where
  "take_profit_pct regime is_long =
     (if is_long \<and> is_risk_off regime then RISK_OFF_TAKE_PROFIT_PCT else TAKE_PROFIT_PCT)"

definition daily_loss_limit_pct :: "pyval \<Rightarrow> real" where
  "daily_loss_limit_pct regime =
     (if is_risk_off regime then RISK_OFF_DAILY_LOSS_LIMIT_PCT else DAILY_LOSS_LIMIT_PCT)"

definition size_multiplier :: "pyval \<Rightarrow> bool \<Rightarrow> real" where
  "size_multiplier regime is_long =
     (if is_long \<and> is_risk_off regime then RISK_OFF_SIZE_MULTIPLIER else 1)"

definition min_confidence :: "pyval \<Rightarrow> real \<Rightarrow> bool \<Rightarrow> real" where
  "min_confidence regime dflt is_long =
     (if is_long \<and> is_risk_off regime then max dflt RISK_OFF_MIN_CONFIDENCE else dflt)"

definition execution_threshold :: "pyval \<Rightarrow> real \<Rightarrow> bool \<Rightarrow> real" where
  "execution_threshold regime dflt is_long =
     (if is_long \<and> is_risk_off regime then max dflt RISK_OFF_EXECUTION_DECISION_THRESHOLD
      else dflt)"

section \<open>The posture contract\<close>

text \<open>
  \<open>tight a b\<close> reads "\<open>a\<close> is at least as tight as \<open>b\<close>": \<open>\<le>\<close> for a loss bound or a size,
  \<open>\<ge>\<close> for an entry bar.
\<close>

locale risk_posture =
  fixes tight :: "real \<Rightarrow> real \<Rightarrow> bool"
    and param :: "pyval \<Rightarrow> bool \<Rightarrow> real"
    and dflt :: real
  assumes tight_refl: "tight a a"
    and off_regime: "\<not> is_risk_off regime \<Longrightarrow> param regime is_long = dflt"
    and risk_off_tight: "is_risk_off regime \<Longrightarrow> tight (param regime is_long) dflt"
begin

lemma never_looser: "tight (param regime is_long) dflt"
  by (cases "is_risk_off regime") (auto simp: off_regime tight_refl risk_off_tight)

lemma lost_read: "param PNone is_long = dflt"
  by (rule off_regime) (simp add: is_risk_off_def)

end

interpretation stop_posture: risk_posture "(\<le>)" stop_loss_pct STOP_LOSS_PCT
  by unfold_locales (auto simp: stop_loss_pct_def regime_constants)

interpretation take_profit_posture: risk_posture "(\<le>)" take_profit_pct TAKE_PROFIT_PCT
  by unfold_locales (auto simp: take_profit_pct_def regime_constants)

interpretation daily_loss_posture:
  risk_posture "(\<le>)" "\<lambda>regime _. daily_loss_limit_pct regime" DAILY_LOSS_LIMIT_PCT
  by unfold_locales (auto simp: daily_loss_limit_pct_def regime_constants)

interpretation size_posture: risk_posture "(\<le>)" size_multiplier 1
  by unfold_locales (auto simp: size_multiplier_def regime_constants)

interpretation confidence_posture:
  risk_posture "(\<ge>)" "\<lambda>regime. min_confidence regime d" d for d
  by unfold_locales (auto simp: min_confidence_def regime_constants)

interpretation execution_posture:
  risk_posture "(\<ge>)" "\<lambda>regime. execution_threshold regime d" d for d
  by unfold_locales (auto simp: execution_threshold_def regime_constants)

lemma buy_threshold_le: "0 \<le> d \<Longrightarrow> buy_threshold regime d m \<le> d"
  by (auto simp: buy_threshold_def regime_constants)

lemma buy_threshold_nonneg: "0 \<le> d \<Longrightarrow> 0 \<le> buy_threshold regime d m"
  by (auto simp: buy_threshold_def)

lemma buy_threshold_bearish: "m < 0 \<Longrightarrow> buy_threshold regime d m = d"
  by (simp add: buy_threshold_def)

section \<open>Property\<close>

text \<open>No macro regime, known or not, loosens the book: stop-loss, take-profit, daily loss limit and
  size never exceed their defaults, the confidence floor and the execution threshold never fall below
  theirs, and a lost regime read gives exactly the defaults.\<close>
theorem regime_never_loosens:
  "stop_loss_pct regime is_long \<le> STOP_LOSS_PCT
   \<and> take_profit_pct regime is_long \<le> TAKE_PROFIT_PCT
   \<and> daily_loss_limit_pct regime \<le> DAILY_LOSS_LIMIT_PCT
   \<and> size_multiplier regime is_long \<le> 1
   \<and> d \<le> min_confidence regime d is_long
   \<and> d \<le> execution_threshold regime d is_long
   \<and> stop_loss_pct PNone is_long = STOP_LOSS_PCT \<and> take_profit_pct PNone is_long = TAKE_PROFIT_PCT
   \<and> min_confidence PNone d is_long = d \<and> execution_threshold PNone d is_long = d"
  using stop_posture.never_looser take_profit_posture.never_looser daily_loss_posture.never_looser
    size_posture.never_looser confidence_posture.never_looser execution_posture.never_looser
    stop_posture.lost_read take_profit_posture.lost_read confidence_posture.lost_read
    execution_posture.lost_read by simp

end
