(* ===== verification/Decision_Policy.thy ===== *)
theory Decision_Policy
  imports Regime_Risk
begin

text \<open>
  The deterministic data-plane policy (\<open>api/services/decision_policy.py\<close>): a blended score
  of momentum, sentiment, macro regime and order-book imbalance, cut at thresholds that
  the regime posture may move. Texts that only report numbers (labels, risk factors, the
  rationale) are kept as constructors that carry the numbers. The active parameter set of
  the process is the state of \<open>get_policy_params\<close>/\<open>set_policy_params\<close>.
\<close>

record PolicyParams =
  pp_buy_threshold :: real
  pp_sell_threshold :: real
  pp_min_confidence :: real
  w_momentum :: real
  w_sentiment :: real
  w_macro :: real
  w_imbalance :: real
  base_size_pct :: real
  stop_atr_x :: real
  rr_ratio :: real
  directional_bias :: real

definition DEFAULT_POLICY_PARAMS :: PolicyParams where
  "DEFAULT_POLICY_PARAMS = \<lparr>pp_buy_threshold = 15 / 100, pp_sell_threshold = 15 / 100,
     pp_min_confidence = 20 / 100, w_momentum = 50 / 100, w_sentiment = 20 / 100,
     w_macro = 20 / 100, w_imbalance = 10 / 100, base_size_pct = 2 / 100,
     stop_atr_x = 15 / 10, rr_ratio = 2, directional_bias = 0\<rparr>"

definition get_policy_params :: "PolicyParams \<Rightarrow> PolicyParams" where
  "get_policy_params active = active"

definition set_policy_params :: "PolicyParams option \<Rightarrow> PolicyParams \<Rightarrow> PolicyParams" where
  "set_policy_params params active = (case params of None \<Rightarrow> DEFAULT_POLICY_PARAMS | Some p \<Rightarrow> p)"

datatype momentum_label = Lab_raw string | Lab_pct real | Lab_flat

definition direction_sign :: "(pyval \<Rightarrow> string) \<Rightarrow> pydict \<Rightarrow> (real \<times> momentum_label) pyres" where
  "direction_sign rp data =
     (let raw = py_lower (py_str rp (py_or (py_get data ''direction'')
                  (py_or (py_get data ''signal'') (py_or (py_get data ''action'') (PStr '''')))))
      in if raw \<in> {''bullish'', ''buy'', ''long''} then Inr (1, Lab_raw raw)
         else if raw \<in> {''bearish'', ''sell'', ''short''} then Inr (- 1, Lab_raw raw)
         else res_bind (py_float (py_or (py_get data ''pct'') (PFloat 0))) (\<lambda>pct.
           if pct > 0 then Inr (1, Lab_pct pct)
           else if pct < 0 then Inr (- 1, Lab_pct pct)
           else Inr (0, Lab_flat)))"

definition macro_sign :: "(pyval \<Rightarrow> string) \<Rightarrow> pydict \<Rightarrow> real pyres" where
  "macro_sign rp context =
     res_bind (dict_or_empty (py_get context ''macro_regime'')) (\<lambda>macro.
       let regime = py_lower (py_str rp (py_or (py_get macro ''regime'') (PStr '''')))
       in Inr (if regime = ''risk_on'' then 1 else if regime = ''risk_off'' then - 1 else 0))"

text \<open>\<open>_clamp(float(d.get(k) or 0.0), lo, hi)\<close>\<close>
definition clamp_field :: "pydict \<Rightarrow> string \<Rightarrow> real \<Rightarrow> real \<Rightarrow> real pyres" where
  "clamp_field d k lo hi =
     res_bind (py_float (py_or (py_get d k) (PFloat 0))) (\<lambda>x. Inr (clamp_to lo hi x))"

record policy_features =
  pf_momentum :: real
  pf_label :: momentum_label
  pf_sentiment :: real
  pf_macro :: real
  pf_imbalance :: real
  pf_confidence :: real

definition policy_inputs :: "(pyval \<Rightarrow> string) \<Rightarrow> pydict \<Rightarrow> pydict \<Rightarrow> policy_features pyres" where
  "policy_inputs rp data context =
     res_bind (direction_sign rp data) (\<lambda>(momentum, label).
     res_bind (dict_or_empty (py_get context ''news_sentiment'')) (\<lambda>news.
     res_bind (clamp_field news ''sentiment'' (- 1) 1) (\<lambda>sentiment.
     res_bind (macro_sign rp context) (\<lambda>macro.
     res_bind (dict_or_empty (py_get context ''order_book'')) (\<lambda>book.
     res_bind (clamp_field book ''imbalance'' (- 1) 1) (\<lambda>imbalance.
     res_bind (clamp_field data ''composite_score'' 0 1) (\<lambda>confidence.
       Inr \<lparr>pf_momentum = momentum, pf_label = label, pf_sentiment = sentiment, pf_macro = macro,
            pf_imbalance = imbalance, pf_confidence = confidence\<rparr>)))))))"

definition blended_score :: "PolicyParams \<Rightarrow> policy_features \<Rightarrow> real" where
  "blended_score params f =
     py_round 4 (clamp_to (- 1) 1
       (w_momentum params * pf_momentum f + w_sentiment params * pf_sentiment f
        + w_macro params * pf_macro f + w_imbalance params * pf_imbalance f
        + directional_bias params))"

datatype rationale =
    Insufficient_conviction real real
  | Marginal_long_rejected real real
  | Above_buy_cut real real
  | Below_sell_cut real real
  | Inside_band real real real

definition policy_action :: "PolicyParams \<Rightarrow> real \<Rightarrow> real \<Rightarrow> real \<Rightarrow> real \<Rightarrow> string \<times> rationale" where
  "policy_action params score confidence buy_cut long_floor =
     (if confidence < pp_min_confidence params
      then (''hold'', Insufficient_conviction confidence (pp_min_confidence params))
      else if score \<ge> buy_cut \<and> confidence < long_floor
      then (''hold'', Marginal_long_rejected confidence long_floor)
      else if score \<ge> buy_cut then (''buy'', Above_buy_cut score buy_cut)
      else if score \<le> - pp_sell_threshold params
      then (''sell'', Below_sell_cut score (- pp_sell_threshold params))
      else (''hold'', Inside_band score (pp_sell_threshold params) buy_cut))"

datatype risk_factor =
    RF_momentum real momentum_label | RF_sentiment real | RF_macro real | RF_imbalance real
  | RF_score real | RF_confidence real | RF_directional_bias real | RF_risk_on_buy_cut real

record policy_decision =
  pd_action :: string
  pd_confidence :: real
  pd_primary_edge :: string
  pd_reasoning :: rationale
  pd_risk_factors :: "risk_factor list"
  pd_size_pct :: real
  pd_stop_atr_x :: real
  pd_rr_ratio :: real

definition policy_risk_factors :: "PolicyParams \<Rightarrow> policy_features \<Rightarrow> real \<Rightarrow> real \<Rightarrow> risk_factor list" where
  "policy_risk_factors params f score buy_cut =
     [RF_momentum (pf_momentum f) (pf_label f), RF_sentiment (pf_sentiment f),
      RF_macro (pf_macro f), RF_imbalance (pf_imbalance f), RF_score score,
      RF_confidence (pf_confidence f)]
     @ (if directional_bias params \<noteq> 0 then [RF_directional_bias (directional_bias params)] else [])
     @ (if buy_cut \<noteq> pp_buy_threshold params then [RF_risk_on_buy_cut buy_cut] else [])"

definition policy_from_features :: "PolicyParams \<Rightarrow> pyval \<Rightarrow> policy_features \<Rightarrow> policy_decision" where
  "policy_from_features params regime f =
     (let score = blended_score params f;
          buy_cut = buy_threshold regime (pp_buy_threshold params) (pf_momentum f);
          long_floor = min_confidence regime (pp_min_confidence params) True;
          av = policy_action params score (pf_confidence f) buy_cut long_floor
      in \<lparr>pd_action = fst av, pd_confidence = py_round 4 (pf_confidence f),
          pd_primary_edge = ''policy:deterministic'', pd_reasoning = snd av,
          pd_risk_factors = policy_risk_factors params f score buy_cut,
          pd_size_pct = py_round 4 (clamp_to (5 / 1000) (base_size_pct params)
             (base_size_pct params * pf_confidence f)),
          pd_stop_atr_x = stop_atr_x params, pd_rr_ratio = rr_ratio params\<rparr>)"

definition decide_policy ::
  "(pyval \<Rightarrow> string) \<Rightarrow> pydict \<Rightarrow> pydict \<Rightarrow> PolicyParams \<Rightarrow> policy_decision pyres" where
  "decide_policy rp data context params =
     res_bind (policy_inputs rp data context) (\<lambda>f.
       Inr (policy_from_features params (regime_of (py_get context ''macro_regime'')) f))"

section \<open>Lemmas\<close>

lemma clamp_field_bounds: "clamp_field d k lo hi = Inr x \<Longrightarrow> lo \<le> hi \<Longrightarrow> lo \<le> x \<and> x \<le> hi"
  by (auto simp: clamp_field_def res_bind_Inr_iff clamp_to_bounds)

lemma direction_sign_range: "direction_sign rp data = Inr (m, l) \<Longrightarrow> m \<in> {- 1, 0, 1}"
  by (auto simp: direction_sign_def Let_def res_bind_Inr_iff split: if_splits)

lemma macro_sign_range: "macro_sign rp c = Inr m \<Longrightarrow> m \<in> {- 1, 0, 1}"
  by (auto simp: macro_sign_def Let_def res_bind_Inr_iff split: if_splits)

definition features_ok :: "policy_features \<Rightarrow> bool" where
  "features_ok f \<longleftrightarrow> pf_momentum f \<in> {- 1, 0, 1} \<and> \<bar>pf_sentiment f\<bar> \<le> 1 \<and> pf_macro f \<in> {- 1, 0, 1}
     \<and> \<bar>pf_imbalance f\<bar> \<le> 1 \<and> 0 \<le> pf_confidence f \<and> pf_confidence f \<le> 1"

lemma policy_inputs_ok:
  assumes "policy_inputs rp data context = Inr f"
  shows "features_ok f"
proof -
  obtain m l news s mac book im c where x: "direction_sign rp data = Inr (m, l)"
      "clamp_field news ''sentiment'' (- 1) 1 = Inr s" "macro_sign rp context = Inr mac"
      "clamp_field book ''imbalance'' (- 1) 1 = Inr im" "clamp_field data ''composite_score'' 0 1 = Inr c"
      "f = \<lparr>pf_momentum = m, pf_label = l, pf_sentiment = s, pf_macro = mac, pf_imbalance = im,
         pf_confidence = c\<rparr>"
    using assms unfolding policy_inputs_def by (auto simp: res_bind_Inr_iff)
  show ?thesis
    using direction_sign_range [OF x(1)] clamp_field_bounds [OF x(2)] macro_sign_range [OF x(3)]
      clamp_field_bounds [OF x(4)] clamp_field_bounds [OF x(5)]
    unfolding features_ok_def x(6) by (simp add: abs_le_iff)
qed

lemma decide_policy_elim:
  assumes "decide_policy rp data context params = Inr d"
  obtains f where "policy_inputs rp data context = Inr f" "features_ok f"
    "d = policy_from_features params (regime_of (py_get context ''macro_regime'')) f"
  using assms policy_inputs_ok by (auto simp: decide_policy_def res_bind_Inr_iff)

lemma policy_action_cases:
  "fst (policy_action params score c bc lf) \<in> {''buy'', ''sell'', ''hold''}"
  by (simp add: policy_action_def)

lemma policy_action_buy_iff:
  "fst (policy_action params score c bc lf) = ''buy'' \<longleftrightarrow>
     pp_min_confidence params \<le> c \<and> bc \<le> score \<and> lf \<le> c"
  by (auto simp: policy_action_def)

lemma policy_action_sell_iff:
  "fst (policy_action params score c bc lf) = ''sell'' \<longleftrightarrow>
     pp_min_confidence params \<le> c \<and> score < bc \<and> score \<le> - pp_sell_threshold params"
  by (auto simp: policy_action_def)

lemma blended_score_bounds: "- 1 \<le> blended_score params f \<and> blended_score params f \<le> 1"
  unfolding blended_score_def using clamp_to_bounds [of "- 1" 1]
  by (auto intro!: py_round_bounds)

lemma default_bearish_score:
  assumes "features_ok f" "pf_momentum f = - 1"
  shows "blended_score DEFAULT_POLICY_PARAMS f \<le> 0"
proof -
  have "- (1/2) + pf_sentiment f / 5 + pf_macro f / 5 + pf_imbalance f / 10 \<le> 0"
    using assms by (auto simp: features_ok_def abs_le_iff)
  then have "clamp_to (- 1) 1 (- (1/2) + pf_sentiment f / 5 + pf_macro f / 5 + pf_imbalance f / 10) \<le> 0"
    by (simp add: clamp_to_def)
  then show ?thesis
    unfolding blended_score_def DEFAULT_POLICY_PARAMS_def using assms(2)
    by (auto intro!: py_round_bounds)
qed

section \<open>Properties\<close>

text \<open>In the risk-off regime the policy buys only when the confidence reaches the raised floor of
  0.35, whatever the parameters and the score.\<close>
theorem risk_off_buy_needs_conviction:
  assumes "decide_policy rp data context params = Inr d"
    and "regime_of (py_get context ''macro_regime'') = PStr ''risk_off''" "pd_action d = ''buy''"
  shows "RISK_OFF_MIN_CONFIDENCE \<le> pd_confidence d"
proof -
  obtain f where d: "d = policy_from_features params (PStr ''risk_off'') f"
    using decide_policy_elim [OF assms(1)] assms(2) by metis
  then have "RISK_OFF_MIN_CONFIDENCE \<le> pf_confidence f" using assms(3)
    by (auto simp: policy_from_features_def Let_def policy_action_buy_iff min_confidence_def is_risk_off_def)
  moreover have "decimals 4 RISK_OFF_MIN_CONFIDENCE"
    unfolding decimals_def RISK_OFF_MIN_CONFIDENCE_def by (rule exI [of _ 3500]) simp
  ultimately show ?thesis using d by (auto simp: policy_from_features_def Let_def intro: py_round_ge)
qed

definition sample_signal :: "string \<Rightarrow> real \<Rightarrow> pydict" where
  "sample_signal direction conf = [(''direction'', PStr direction), (''composite_score'', PFloat conf)]"

definition sample_context :: "string \<Rightarrow> pydict" where
  "sample_context regime = [(''macro_regime'', PDict [(''regime'', PStr regime)]),
     (''news_sentiment'', PDict [(''sentiment'', PFloat 1)])]"

theorem risk_off_buy_needs_conviction_witness:
  "\<exists>d. decide_policy (\<lambda>_. ''?'') (sample_signal ''bullish'' (1 / 2)) (sample_context ''risk_off'')
      DEFAULT_POLICY_PARAMS = Inr d \<and> pd_action d = ''buy'' \<and> RISK_OFF_MIN_CONFIDENCE \<le> pd_confidence d"
proof -
  let ?f = "\<lparr>pf_momentum = 1, pf_label = Lab_raw ''bullish'', pf_sentiment = 1, pf_macro = - 1,
      pf_imbalance = 0, pf_confidence = 1 / 2\<rparr>"
  let ?d = "policy_from_features DEFAULT_POLICY_PARAMS (PStr ''risk_off'') ?f"
  have i: "policy_inputs (\<lambda>_. ''?'') (sample_signal ''bullish'' (1 / 2)) (sample_context ''risk_off'') = Inr ?f"
    by (simp add: policy_inputs_def direction_sign_def macro_sign_def clamp_field_def dict_or_empty_def
        py_or_def clamp_to_def sample_signal_def sample_context_def Let_def)
  have r: "regime_of (py_get (sample_context ''risk_off'') ''macro_regime'') = PStr ''risk_off''"
    by (simp add: regime_of_def sample_context_def)
  have d: "decide_policy (\<lambda>_. ''?'') (sample_signal ''bullish'' (1 / 2)) (sample_context ''risk_off'')
      DEFAULT_POLICY_PARAMS = Inr ?d" by (simp add: decide_policy_def i r)
  have s: "blended_score DEFAULT_POLICY_PARAMS ?f = 1 / 2"
  proof -
    have "decimals 4 (1 / 2)" unfolding decimals_def by (rule exI [of _ 5000]) simp
    then show ?thesis by (simp add: blended_score_def DEFAULT_POLICY_PARAMS_def clamp_to_def py_round_decimals)
  qed
  have "pp_min_confidence DEFAULT_POLICY_PARAMS = 1 / 5" "pp_buy_threshold DEFAULT_POLICY_PARAMS = 3 / 20"
    by (simp_all add: DEFAULT_POLICY_PARAMS_def)
  then have a: "pd_action ?d = ''buy''"
    by (simp add: policy_from_features_def Let_def policy_action_buy_iff s buy_threshold_def min_confidence_def
        is_risk_off_def is_risk_on_def regime_constants)
  from risk_off_buy_needs_conviction [OF d r a] d a show ?thesis by blast
qed

text \<open>With the shipped parameters a bearish momentum is never bought, in any macro regime: the risk-on
  easing of the buy cut does not apply to it and no mix of sentiment, macro and order book outweighs it.\<close>
theorem bearish_momentum_never_bought:
  assumes "decide_policy rp data context DEFAULT_POLICY_PARAMS = Inr d"
    and "direction_sign rp data = Inr (- 1, label)"
  shows "pd_action d \<noteq> ''buy''"
proof -
  let ?r = "regime_of (py_get context ''macro_regime'')"
  obtain f where i: "policy_inputs rp data context = Inr f" and ok: "features_ok f"
    and d: "d = policy_from_features DEFAULT_POLICY_PARAMS ?r f"
    using decide_policy_elim [OF assms(1)] by metis
  have m: "pf_momentum f = - 1" using i assms(2) by (auto simp: policy_inputs_def res_bind_Inr_iff)
  have "blended_score DEFAULT_POLICY_PARAMS f \<le> 0" by (rule default_bearish_score [OF ok m])
  moreover have "buy_threshold ?r (pp_buy_threshold DEFAULT_POLICY_PARAMS) (pf_momentum f) = 15 / 100"
    using m by (simp add: buy_threshold_bearish) (simp add: DEFAULT_POLICY_PARAMS_def)
  ultimately show ?thesis using d by (auto simp: policy_from_features_def Let_def policy_action_buy_iff)
qed

theorem bearish_momentum_never_bought_witness:
  "\<exists>d. decide_policy (\<lambda>_. ''?'') (sample_signal ''bearish'' (9 / 10)) (sample_context ''risk_on'')
      DEFAULT_POLICY_PARAMS = Inr d \<and> pd_action d \<noteq> ''buy''"
proof -
  have s: "direction_sign (\<lambda>_. ''?'') (sample_signal ''bearish'' (9 / 10)) = Inr (- 1, Lab_raw ''bearish'')"
    by (simp add: direction_sign_def py_or_def sample_signal_def)
  then have "\<exists>d. decide_policy (\<lambda>_. ''?'') (sample_signal ''bearish'' (9 / 10)) (sample_context ''risk_on'')
      DEFAULT_POLICY_PARAMS = Inr d"
    by (simp add: decide_policy_def policy_inputs_def macro_sign_def clamp_field_def dict_or_empty_def
        py_or_def clamp_to_def sample_signal_def sample_context_def Let_def)
  with bearish_momentum_never_bought [OF _ s] show ?thesis by blast
qed

text \<open>Easing the buy cut never suppresses a sale: a score at or below the sell cut with enough
  confidence is sold in every regime, when both thresholds are as the policy intends (sell threshold
  positive, buy threshold not negative).\<close>
theorem sell_cut_holds_in_every_regime:
  assumes "0 < pp_sell_threshold params" "0 \<le> pp_buy_threshold params"
    and "blended_score params f \<le> - pp_sell_threshold params" "pp_min_confidence params \<le> pf_confidence f"
  shows "pd_action (policy_from_features params regime f) = ''sell''"
proof -
  have "0 \<le> buy_threshold regime (pp_buy_threshold params) (pf_momentum f)"
    using assms(2) by (rule buy_threshold_nonneg)
  then show ?thesis using assms by (simp add: policy_from_features_def Let_def policy_action_sell_iff)
qed

definition bearish_features :: policy_features where
  "bearish_features = \<lparr>pf_momentum = - 1, pf_label = Lab_raw ''bearish'', pf_sentiment = - 1, pf_macro = 1,
     pf_imbalance = 0, pf_confidence = 1 / 2\<rparr>"

theorem sell_cut_holds_in_every_regime_witness:
  "pd_action (policy_from_features DEFAULT_POLICY_PARAMS (PStr ''risk_on'') bearish_features) = ''sell''"
proof (rule sell_cut_holds_in_every_regime)
  have "decimals 4 (- (1 / 2))" unfolding decimals_def by (rule exI [of _ "- 5000"]) simp
  then have "py_round 4 (- (1 / 2)) = - (1 / 2)" by (rule py_round_decimals)
  then show "blended_score DEFAULT_POLICY_PARAMS bearish_features \<le> - pp_sell_threshold DEFAULT_POLICY_PARAMS"
    by (simp add: blended_score_def DEFAULT_POLICY_PARAMS_def bearish_features_def clamp_to_def)
qed (simp_all add: DEFAULT_POLICY_PARAMS_def bearish_features_def)

text \<open>Malformed numbers do raise: a composite score that is not a number is a ValueError, not a
  degraded hold.\<close>
theorem malformed_score_raises:
  "decide_policy rp [(''composite_score'', PStr ''n/a'')] [] params = Inl ValueError"
proof -
  have "py_float (PStr ''n/a'') = Inl ValueError" by code_simp
  then show ?thesis
    by (simp add: decide_policy_def policy_inputs_def direction_sign_def macro_sign_def clamp_field_def
        dict_or_empty_def py_or_def Let_def)
qed

end
