(* ===== verification/Effects.thy ===== *)
theory Effects
  imports Py_Prelude
begin

text \<open>
  Stateful Python with exceptions. An operation maps the state to a result (a value, or
  the exception that left it) and the state it leaves behind; what was written before a
  \<open>raise\<close> stays written. \<open>catch\<close> is \<open>try/except Exception\<close>, \<open>with_finally\<close> is \<open>try/finally\<close>.

  The locale \<open>frame\<close> is the shared proof rule: a reflexive and transitive relation on
  states that holds over the primitive writes holds over everything built from them.
\<close>

type_synonym ('s, 'a) eff = "'s \<Rightarrow> 'a pyres \<times> 's"

definition ret :: "'a \<Rightarrow> ('s, 'a) eff" where
  "ret x s = (Inr x, s)"

definition throw :: "py_exc \<Rightarrow> ('s, 'a) eff" where
  "throw x s = (Inl x, s)"

definition bnd :: "('s, 'a) eff \<Rightarrow> ('a \<Rightarrow> ('s, 'b) eff) \<Rightarrow> ('s, 'b) eff" where
  "bnd m f s = (case m s of (Inl x, s') \<Rightarrow> (Inl x, s') | (Inr v, s') \<Rightarrow> f v s')"

definition andthen :: "('s, unit) eff \<Rightarrow> ('s, 'b) eff \<Rightarrow> ('s, 'b) eff" where
  "andthen m k = bnd m (\<lambda>_. k)"

definition gets :: "('s \<Rightarrow> 'a) \<Rightarrow> ('s, 'a) eff" where
  "gets f s = (Inr (f s), s)"

definition modify :: "('s \<Rightarrow> 's) \<Rightarrow> ('s, unit) eff" where
  "modify f s = (Inr (), f s)"

text \<open>a pure computation that may raise\<close>
definition lift_res :: "'a pyres \<Rightarrow> ('s, 'a) eff" where
  "lift_res r s = (r, s)"

definition catch :: "('s, 'a) eff \<Rightarrow> (py_exc \<Rightarrow> ('s, 'a) eff) \<Rightarrow> ('s, 'a) eff" where
  "catch m h s = (case m s of (Inl x, s') \<Rightarrow> h x s' | (Inr v, s') \<Rightarrow> (Inr v, s'))"

definition with_finally :: "('s, 'a) eff \<Rightarrow> ('s \<Rightarrow> 's) \<Rightarrow> ('s, 'a) eff" where
  "with_finally m f s = (case m s of (r, s') \<Rightarrow> (r, f s'))"

text \<open>a call that the environment may make fail\<close>
definition guard_fault :: "bool \<Rightarrow> ('s, unit) eff" where
  "guard_fault b s = (if b then Inl (RuntimeError ''fault'') else Inr (), s)"

lemmas eff_defs = ret_def throw_def bnd_def andthen_def gets_def modify_def lift_res_def catch_def
  with_finally_def guard_fault_def

lemma bnd_ret [simp]: "bnd (ret x) f = f x"
  by (rule ext) (simp add: eff_defs)

lemma bnd_throw [simp]: "bnd (throw y) f = throw y"
  by (rule ext) (simp add: eff_defs)

lemma bnd_lift [simp]: "bnd (lift_res (Inr v)) f = f v" "bnd (lift_res (Inl y)) f = throw y"
  by (auto simp: eff_defs)

lemma eff_run [simp]:
  "ret x s = (Inr x, s)" "throw y s = (Inl y, s)" "gets f s = (Inr (f s), s)"
  "modify g s = (Inr (), g s)" "lift_res r s = (r, s)"
  by (simp_all add: eff_defs)

lemma bnd_gets [simp]: "bnd (gets f) k s = k (f s) s"
  by (simp add: eff_defs)

lemma bnd_modify [simp]: "bnd (modify g) k s = k () (g s)"
  by (simp add: eff_defs)

lemma andthen_modify [simp]: "andthen (modify g) k s = k (g s)"
  by (simp add: andthen_def)

lemma guard_fault_simps [simp]: "guard_fault False = ret ()" "guard_fault True = throw (RuntimeError ''fault'')"
  by (auto simp: eff_defs)

lemma andthen_ret [simp]: "andthen (ret ()) k = k"
  by (rule ext) (simp add: eff_defs)

lemma andthen_bnd: "andthen m (bnd k f) = bnd (andthen m k) f"
  by (rule ext) (simp add: eff_defs split: prod.splits sum.splits)

lemma snd_bnd:
  "snd (bnd m f s) = (case fst (m s) of Inl _ \<Rightarrow> snd (m s) | Inr v \<Rightarrow> snd (f v (snd (m s))))"
  by (simp add: bnd_def split: prod.splits sum.splits)

lemma snd_catch:
  "snd (catch m h s) = (case fst (m s) of Inl x \<Rightarrow> snd (h x (snd (m s))) | Inr v \<Rightarrow> snd (m s))"
  by (simp add: catch_def split: prod.splits sum.splits)

lemma snd_finally: "snd (with_finally m f s) = f (snd (m s))"
  by (simp add: with_finally_def split: prod.splits)

lemma fst_finally: "fst (with_finally m f s) = fst (m s)"
  by (simp add: with_finally_def split: prod.splits)

lemma bnd_cong_result: "(\<And>s v s'. m s = (Inr v, s') \<Longrightarrow> f v = g v) \<Longrightarrow> bnd m f = bnd m g"
  by (rule ext) (auto simp: bnd_def split: prod.splits sum.splits)

lemma bndE:
  assumes "bnd m f s = (Inr v, s')"
  obtains a t where "m s = (Inr a, t)" "f a t = (Inr v, s')"
  using assms by (auto simp: bnd_def split: prod.splits sum.splits)

section \<open>Frames\<close>

definition keeps :: "('s \<Rightarrow> 's \<Rightarrow> bool) \<Rightarrow> ('s, 'a) eff \<Rightarrow> bool" where
  "keeps R m \<longleftrightarrow> (\<forall>s. R s (snd (m s)))"

lemma keepsD: "keeps R m \<Longrightarrow> R s (snd (m s))"
  by (simp add: keeps_def)

text \<open>\<open>fails_in R m\<close>: an exception leaves \<open>m\<close> only in a state related by \<open>R\<close>.\<close>
definition fails_in :: "('s \<Rightarrow> 's \<Rightarrow> bool) \<Rightarrow> ('s, 'a) eff \<Rightarrow> bool" where
  "fails_in R m \<longleftrightarrow> (\<forall>s x s'. m s = (Inl x, s') \<longrightarrow> R s s')"

locale frame =
  fixes R :: "'s \<Rightarrow> 's \<Rightarrow> bool"
  assumes R_refl: "R s s"
    and R_trans: "R s t \<Longrightarrow> R t u \<Longrightarrow> R s u"
begin

lemma keeps_pure: "keeps R (ret x)" "keeps R (throw y)" "keeps R (gets f)"
  "keeps R (lift_res r)" "keeps R (guard_fault b)"
  by (auto simp: keeps_def eff_defs R_refl)

lemma keeps_modify: "(\<And>s. R s (g s)) \<Longrightarrow> keeps R (modify g)"
  by (simp add: keeps_def)

lemma keeps_bnd: "keeps R m \<Longrightarrow> (\<And>x. keeps R (f x)) \<Longrightarrow> keeps R (bnd m f)"
  by (auto simp: keeps_def snd_bnd split: sum.splits intro: R_trans)

lemma keeps_andthen: "keeps R m \<Longrightarrow> keeps R k \<Longrightarrow> keeps R (andthen m k)"
  by (simp add: andthen_def keeps_bnd)

lemma keeps_catch: "keeps R m \<Longrightarrow> (\<And>x. keeps R (h x)) \<Longrightarrow> keeps R (catch m h)"
  by (auto simp: keeps_def snd_catch split: sum.splits intro: R_trans)

lemma keeps_finally: "keeps R m \<Longrightarrow> (\<And>s. R s (g s)) \<Longrightarrow> keeps R (with_finally m g)"
  by (auto simp: keeps_def snd_finally intro: R_trans)

lemma keeps_if: "(b \<Longrightarrow> keeps R m) \<Longrightarrow> (\<not> b \<Longrightarrow> keeps R k) \<Longrightarrow> keeps R (if b then m else k)"
  by simp

lemma keeps_option:
  "keeps R m \<Longrightarrow> (\<And>x. keeps R (f x)) \<Longrightarrow> keeps R (case v of None \<Rightarrow> m | Some x \<Rightarrow> f x)"
  by (cases v) auto

lemma keeps_sum:
  "(\<And>x. keeps R (g x)) \<Longrightarrow> (\<And>x. keeps R (f x)) \<Longrightarrow>
     keeps R (case v of Inl x \<Rightarrow> g x | Inr x \<Rightarrow> f x)"
  by (cases v) auto

lemma keeps_prod: "(\<And>x y. keeps R (f x y)) \<Longrightarrow> keeps R (case v of (x, y) \<Rightarrow> f x y)"
  by (cases v) auto

lemma fails_keeps: "keeps R m \<Longrightarrow> fails_in R m"
  unfolding keeps_def fails_in_def by (metis snd_conv)

lemma fails_bnd: "keeps R m \<Longrightarrow> (\<And>x. fails_in R (f x)) \<Longrightarrow> fails_in R (bnd m f)"
  unfolding keeps_def fails_in_def bnd_def
  by (auto split: prod.splits sum.splits) (metis R_trans snd_conv)+

lemma fails_bnd_ret: "fails_in R m \<Longrightarrow> (\<And>x s. \<exists>v. fst (f x s) = Inr v) \<Longrightarrow> fails_in R (bnd m f)"
  unfolding fails_in_def bnd_def
  by (auto split: prod.splits sum.splits) (metis Inl_Inr_False fst_conv)

lemma fails_if: "(b \<Longrightarrow> fails_in R m) \<Longrightarrow> (\<not> b \<Longrightarrow> fails_in R k) \<Longrightarrow> fails_in R (if b then m else k)"
  by simp

lemma fails_option: "fails_in R m \<Longrightarrow> (\<And>x. fails_in R (f x)) \<Longrightarrow>
    fails_in R (case v of None \<Rightarrow> m | Some x \<Rightarrow> f x)"
  by (cases v) auto

lemmas keeps_rules = keeps_pure keeps_modify keeps_bnd keeps_andthen keeps_catch
  keeps_finally keeps_if keeps_option keeps_sum keeps_prod

end

text \<open>
  At most one effect of a given kind: \<open>m\<close> either stays within \<open>R\<close> or is related by \<open>P\<close>,
  and \<open>P\<close> absorbs \<open>R\<close> on both sides, so one \<open>P\<close>-step may be embedded between frames.
\<close>

definition at_most_once :: "('s \<Rightarrow> 's \<Rightarrow> bool) \<Rightarrow> ('s \<Rightarrow> 's \<Rightarrow> bool) \<Rightarrow> ('s, 'a) eff \<Rightarrow> bool" where
  "at_most_once R P m \<longleftrightarrow> (\<forall>s. R s (snd (m s)) \<or> P s (snd (m s)))"

lemma at_most_onceD: "at_most_once R P m \<Longrightarrow> R s (snd (m s)) \<or> P s (snd (m s))"
  by (simp add: at_most_once_def)

locale once_frame = frame R for R :: "'s \<Rightarrow> 's \<Rightarrow> bool" +
  fixes P :: "'s \<Rightarrow> 's \<Rightarrow> bool"
  assumes before: "R s t \<Longrightarrow> P t u \<Longrightarrow> P s u"
    and after: "P s t \<Longrightarrow> R t u \<Longrightarrow> P s u"
begin

lemma once_keeps: "keeps R m \<Longrightarrow> at_most_once R P m"
  by (simp add: at_most_once_def keeps_def)

lemma once_bnd_pre:
  "keeps R m \<Longrightarrow> (\<And>x. at_most_once R P (f x)) \<Longrightarrow> at_most_once R P (bnd m f)"
  unfolding at_most_once_def keeps_def snd_bnd
  by (auto split: sum.splits intro: before R_trans) (meson before R_trans)

lemma once_bnd_result:
  assumes "keeps R m" "\<And>s x s'. m s = (Inr x, s') \<Longrightarrow> at_most_once R P (f x)"
  shows "at_most_once R P (bnd m f)"
  unfolding at_most_once_def
proof
  fix s
  obtain r s' where m: "m s = (r, s')" by (cases "m s")
  have k: "R s s'" using assms(1) m by (metis keeps_def snd_conv)
  show "R s (snd (bnd m f s)) \<or> P s (snd (bnd m f s))"
  proof (cases r)
    case (Inr x)
    then have "R s' (snd (f x s')) \<or> P s' (snd (f x s'))"
      using assms(2) m by (auto simp: at_most_once_def)
    then show ?thesis using Inr m k by (auto simp: bnd_def intro: before R_trans)
  qed (use m k in \<open>simp add: bnd_def\<close>)
qed

lemma once_bnd_post:
  "at_most_once R P m \<Longrightarrow> (\<And>x. keeps R (f x)) \<Longrightarrow> at_most_once R P (bnd m f)"
  unfolding at_most_once_def keeps_def snd_bnd
  by (auto split: sum.splits) (meson after R_trans)

lemma once_andthen_pre:
  "keeps R m \<Longrightarrow> at_most_once R P k \<Longrightarrow> at_most_once R P (andthen m k)"
  by (simp add: andthen_def once_bnd_pre)

lemma once_andthen_post:
  "at_most_once R P m \<Longrightarrow> keeps R k \<Longrightarrow> at_most_once R P (andthen m k)"
  by (simp add: andthen_def once_bnd_post)

lemma once_catch:
  "at_most_once R P m \<Longrightarrow> (\<And>x. keeps R (h x)) \<Longrightarrow> at_most_once R P (catch m h)"
  unfolding at_most_once_def keeps_def snd_catch
  by (auto split: sum.splits) (meson after R_trans)

lemma once_finally:
  "at_most_once R P m \<Longrightarrow> (\<And>s. R s (g s)) \<Longrightarrow> at_most_once R P (with_finally m g)"
  unfolding at_most_once_def snd_finally by (meson after R_trans)

lemma once_if: "(b \<Longrightarrow> at_most_once R P m) \<Longrightarrow> (\<not> b \<Longrightarrow> at_most_once R P k) \<Longrightarrow>
    at_most_once R P (if b then m else k)"
  by simp

lemma once_option: "at_most_once R P m \<Longrightarrow> (\<And>x. at_most_once R P (f x)) \<Longrightarrow>
    at_most_once R P (case v of None \<Rightarrow> m | Some x \<Rightarrow> f x)"
  by (cases v) auto

lemma once_sum: "(\<And>x. at_most_once R P (g x)) \<Longrightarrow> (\<And>x. at_most_once R P (f x)) \<Longrightarrow>
    at_most_once R P (case v of Inl x \<Rightarrow> g x | Inr x \<Rightarrow> f x)"
  by (cases v) auto

lemma once_prod: "(\<And>x y. at_most_once R P (f x y)) \<Longrightarrow> at_most_once R P (case v of (x, y) \<Rightarrow> f x y)"
  by (cases v) auto

end

end
