(* ===== verification/Risk_Filters.thy ===== *)
theory Risk_Filters
  imports Py_Prelude
begin

text \<open>
  The pure risk filters and sizing functions (\<open>api/services/risk_filters.py\<close>): RSI, the
  ATR proxy and its regime filter, the exponential-decay cooling-off score, the net
  expected value and fractional Kelly sizing. A window length is a \<^typ>\<open>nat\<close>; a zero window
  divides by zero, which the model keeps as an error.
\<close>

section \<open>Indicators\<close>

text \<open>\<open>prices[i] - prices[i - 1]\<close> for \<open>i = 1 \<dots>\<close>\<close>
fun deltas :: "real list \<Rightarrow> real list" where
  "deltas (a # b # xs) = (b - a) # deltas (b # xs)"
| "deltas _ = []"

lemma length_deltas [simp]: "length (deltas xs) = length xs - 1"
  by (induction xs rule: deltas.induct) auto

definition rsi_gains :: "real list \<Rightarrow> real list" where
  "rsi_gains prices = map (\<lambda>d. if 0 \<le> d then d else 0) (deltas prices)"

definition rsi_losses :: "real list \<Rightarrow> real list" where
  "rsi_losses prices = map (\<lambda>d. if 0 \<le> d then 0 else \<bar>d\<bar>) (deltas prices)"

definition compute_rsi :: "real list \<Rightarrow> nat \<Rightarrow> real option pyres" where
  "compute_rsi prices period =
     (if length prices < period + 1 then Inr None
      else if period = 0 then Inl ZeroDivisionError
      else let avg_gain = sum_list (last_n period (rsi_gains prices)) / real period;
               avg_loss = sum_list (last_n period (rsi_losses prices)) / real period
           in if avg_gain = 0 \<and> avg_loss = 0 then Inr (Some 50)
              else if avg_loss = 0 then Inr (Some 100)
              else Inr (Some (py_round 4 (100 - 100 / (1 + avg_gain / avg_loss)))))"

definition compute_atr_from_prices :: "real list \<Rightarrow> nat \<Rightarrow> real option pyres" where
  "compute_atr_from_prices prices period =
     (if length prices < period + 1 then Inr None
      else if period = 0 then Inl ZeroDivisionError
      else Inr (Some (py_round 8
             (sum_list (last_n period (map abs (deltas prices))) / real period))))"

definition is_regime_tradeable :: "real list \<Rightarrow> nat \<Rightarrow> bool pyres" where
  "is_regime_tradeable atr_history avg_period =
     (if length atr_history < avg_period then Inr True
      else if atr_history = [] then Inl IndexError
      else if avg_period = 0 then Inl ZeroDivisionError
      else Inr (last atr_history \<ge>
             sum_list (last_n avg_period atr_history) / real avg_period))"

section \<open>Cooling-off\<close>

text \<open>The loop over \<open>reversed(recent_outcomes)\<close>: total weight, loss weight, next weight.\<close>
fun cooling_off_loop :: "real \<Rightarrow> real list \<Rightarrow> real \<Rightarrow> real \<Rightarrow> real \<Rightarrow> real \<times> real" where
  "cooling_off_loop decay [] tot loss weight = (tot, loss)"
| "cooling_off_loop decay (x # xs) tot loss weight =
     cooling_off_loop decay xs (tot + weight) (if x < 0 then loss + weight else loss)
       (weight * decay)"

definition cooling_off_score :: "real list \<Rightarrow> real \<Rightarrow> real" where
  "cooling_off_score recent_outcomes decay =
     (if recent_outcomes = [] then 0
      else case cooling_off_loop decay (rev recent_outcomes) 0 0 1 of
             (tot, loss) \<Rightarrow> if tot = 0 then 0 else py_round 4 (loss / tot))"

definition is_cooling_off :: "real list \<Rightarrow> real \<Rightarrow> real \<Rightarrow> bool" where
  "is_cooling_off recent_outcomes decay threshold \<longleftrightarrow>
     cooling_off_score recent_outcomes decay \<ge> threshold"

section \<open>Costs and sizing\<close>

definition compute_net_ev :: "real \<Rightarrow> real \<Rightarrow> real \<Rightarrow> real \<Rightarrow> real" where
  "compute_net_ev expected_return_pct confidence slippage_pct commission_per_side =
     py_round 6 (expected_return_pct * confidence - (slippage_pct + commission_per_side) * 2)"

definition compute_kelly_size :: "real \<Rightarrow> real \<Rightarrow> real \<Rightarrow> real \<Rightarrow> real \<Rightarrow> real" where
  "compute_kelly_size win_prob win_fraction loss_fraction kelly_scale max_risk_pct =
     (if win_fraction \<le> 0 \<or> loss_fraction \<le> 0 \<or> win_prob \<le> 0 then 0
      else let b = win_fraction / loss_fraction;
               full_kelly = (win_prob * b - (1 - win_prob)) / b
           in if full_kelly \<le> 0 then 0
              else py_round 6 (min (full_kelly * kelly_scale) max_risk_pct))"

definition compute_dynamic_position_size :: "real \<Rightarrow> real \<Rightarrow> real \<Rightarrow> real \<Rightarrow> real \<Rightarrow> real" where
  "compute_dynamic_position_size confidence stop_loss_pct take_profit_pct kelly_scale max_risk_pct =
     (if confidence \<le> 0 \<or> stop_loss_pct \<le> 0 then 0
      else compute_kelly_size confidence (max take_profit_pct (stop_loss_pct * 2)) stop_loss_pct
             kelly_scale max_risk_pct)"

section \<open>Lemmas\<close>

lemma sum_list_last_n_nonneg: "(\<And>x. x \<in> set xs \<Longrightarrow> 0 \<le> x) \<Longrightarrow> 0 \<le> sum_list (last_n n xs)" for xs :: "real list"
  using set_last_n [of n xs] by (intro sum_list_nonneg) auto

lemma rsi_parts_nonneg: "0 \<le> sum_list (last_n p (rsi_gains xs))" "0 \<le> sum_list (last_n p (rsi_losses xs))"
  by (auto simp: rsi_gains_def rsi_losses_def intro!: sum_list_last_n_nonneg)

lemma rsi_formula_bounds:
  assumes "0 \<le> g" "0 < l"
  shows "0 \<le> 100 - 100 / (1 + g / l) \<and> 100 - 100 / (1 + g / l) \<le> (100::real)"
proof -
  have "1 \<le> 1 + g / l" using assms by simp
  then show ?thesis by (simp add: divide_le_eq)
qed

text \<open>The cooling-off loop is the pair of geometric sums over the reversed outcomes.\<close>

fun decayed_sum :: "real \<Rightarrow> (real \<Rightarrow> bool) \<Rightarrow> real list \<Rightarrow> real" where
  "decayed_sum decay P [] = 0"
| "decayed_sum decay P (x # xs) = (if P x then 1 else 0) + decay * decayed_sum decay P xs"

lemma cooling_off_loop_eq:
  "cooling_off_loop decay xs tot loss w =
     (tot + w * decayed_sum decay (\<lambda>_. True) xs, loss + w * decayed_sum decay (\<lambda>x. x < 0) xs)"
  by (induction xs arbitrary: tot loss w) (auto simp: algebra_simps)

lemma cooling_off_score_eq:
  "cooling_off_score xs decay =
     (if decayed_sum decay (\<lambda>_. True) (rev xs) = 0 then 0
      else py_round 4 (decayed_sum decay (\<lambda>x. x < 0) (rev xs) /
             decayed_sum decay (\<lambda>_. True) (rev xs)))"
  by (cases "xs = []") (simp_all add: cooling_off_score_def cooling_off_loop_eq)

lemma decayed_sum_nonneg: "0 \<le> decay \<Longrightarrow> 0 \<le> decayed_sum decay P xs"
  by (induction xs) auto

lemma decayed_sum_mono:
  "0 \<le> decay \<Longrightarrow> (\<And>x. P x \<Longrightarrow> Q x) \<Longrightarrow> decayed_sum decay P xs \<le> decayed_sum decay Q xs"
  by (induction xs) (auto intro!: add_mono mult_left_mono intro: order_trans [OF mult_left_mono])

lemma decayed_sum_all_pos: "0 \<le> decay \<Longrightarrow> xs \<noteq> [] \<Longrightarrow> 1 \<le> decayed_sum decay (\<lambda>_. True) xs"
  by (cases xs) (auto simp: decayed_sum_nonneg)

lemma cooling_off_ratio_bounds:
  assumes "0 \<le> decay"
  shows "0 \<le> decayed_sum decay P xs / decayed_sum decay (\<lambda>_. True) xs"
    and "decayed_sum decay P xs / decayed_sum decay (\<lambda>_. True) xs \<le> 1"
  using decayed_sum_nonneg [OF assms, of P xs] decayed_sum_nonneg [OF assms, of "\<lambda>_. True" xs]
    decayed_sum_mono [OF assms, of P "\<lambda>_. True" xs]
  by (auto simp: divide_le_eq_1)

lemma cooling_off_score_bounds:
  assumes "0 \<le> decay"
  shows "0 \<le> cooling_off_score xs decay \<and> cooling_off_score xs decay \<le> 1"
  using cooling_off_ratio_bounds [OF assms]
  by (auto simp: cooling_off_score_eq intro!: py_round_bounds)

lemma kelly_edge:
  assumes "0 < w" "0 < l"
  shows "(p * (w / l) - (1 - p)) / (w / l) \<le> 0 \<longleftrightarrow> p * w \<le> (1 - p) * (l::real)"
proof -
  have "(p * (w / l) - (1 - p)) / (w / l) = (p * w - (1 - p) * l) / w"
    using assms by (simp add: field_simps)
  then show ?thesis using assms by (simp add: divide_le_0_iff)
qed

lemma compute_kelly_size_bounds:
  assumes "0 \<le> kelly_scale" "0 \<le> m" "decimals 6 m"
  shows "0 \<le> compute_kelly_size p w l kelly_scale m \<and> compute_kelly_size p w l kelly_scale m \<le> m"
proof -
  define f where "f = (p * (w / l) - (1 - p)) / (w / l)"
  have "f > 0 \<Longrightarrow> 0 \<le> min (f * kelly_scale) m" using assms by simp
  then show ?thesis using assms unfolding compute_kelly_size_def Let_def f_def [symmetric]
    by (auto intro!: py_round_bounds)
qed

lemma compute_kelly_size_no_edge:
  "p * w \<le> (1 - p) * l \<Longrightarrow> compute_kelly_size p w l k m = 0"
  unfolding compute_kelly_size_def Let_def using kelly_edge [of w l p] by auto

section \<open>Properties\<close>

text \<open>The relative strength index, when there is enough data, lies between 0 and 100.\<close>
theorem rsi_in_range:
  assumes "compute_rsi prices period = Inr (Some r)"
  shows "0 \<le> r \<and> r \<le> 100"
proof -
  define g where "g = sum_list (last_n period (rsi_gains prices)) / real period"
  define l where "l = sum_list (last_n period (rsi_losses prices)) / real period"
  have gl: "0 \<le> g" "0 \<le> l" using rsi_parts_nonneg by (simp_all add: g_def l_def)
  have "l > 0 \<Longrightarrow> 0 \<le> py_round 4 (100 - 100 / (1 + g / l)) \<and> py_round 4 (100 - 100 / (1 + g / l)) \<le> 100"
    using rsi_formula_bounds [OF gl(1)] by (auto intro!: py_round_bounds)
  then show ?thesis using assms gl
    unfolding compute_rsi_def Let_def g_def [symmetric] l_def [symmetric] by (auto split: if_splits)
qed

theorem rsi_in_range_witness:
  "compute_rsi [1, 2, 1, 3] 3 = Inr (Some 75) \<and> (75::real) \<le> 100"
proof -
  have c: "compute_rsi [1, 2, 1, 3] 3 = Inr (Some 75)"
    by (simp add: compute_rsi_def rsi_gains_def rsi_losses_def last_n_def py_round_decimals Let_def)
  from rsi_in_range [OF c] c show ?thesis by simp
qed

text \<open>The cooling-off score is the loss weight over the total weight of geometrically decayed
  outcomes, newest first, rounded to four decimals; it lies between 0 and 1, is 0 without losses and 1
  when every outcome is a loss.\<close>
theorem cooling_off_score_spec:
  assumes "0 \<le> decay" "xs \<noteq> []"
  shows "cooling_off_score xs decay =
      py_round 4 (decayed_sum decay (\<lambda>x. x < 0) (rev xs) / decayed_sum decay (\<lambda>_. True) (rev xs))
     \<and> 0 \<le> cooling_off_score xs decay \<and> cooling_off_score xs decay \<le> 1
     \<and> ((\<forall>x \<in> set xs. 0 \<le> x) \<longrightarrow> cooling_off_score xs decay = 0)
     \<and> ((\<forall>x \<in> set xs. x < 0) \<longrightarrow> cooling_off_score xs decay = 1)"
proof -
  have t: "1 \<le> decayed_sum decay (\<lambda>_. True) (rev xs)" using assms by (intro decayed_sum_all_pos) auto
  then have e: "cooling_off_score xs decay =
      py_round 4 (decayed_sum decay (\<lambda>x. x < 0) (rev xs) / decayed_sum decay (\<lambda>_. True) (rev xs))"
    by (auto simp: cooling_off_score_eq)
  moreover have "0 \<le> cooling_off_score xs decay \<and> cooling_off_score xs decay \<le> 1"
    by (rule cooling_off_score_bounds [OF assms(1)])
  moreover have "cooling_off_score xs decay = 0" if "\<forall>x \<in> set xs. 0 \<le> x"
  proof -
    have "decayed_sum decay (\<lambda>x. x < 0) ys = 0" if "\<forall>x \<in> set ys. 0 \<le> x" for ys
      using that by (induction ys) auto
    then show ?thesis using e that by simp
  qed
  moreover have "cooling_off_score xs decay = 1" if "\<forall>x \<in> set xs. x < 0"
  proof -
    have "decayed_sum decay (\<lambda>x. x < 0) ys = decayed_sum decay (\<lambda>_. True) ys" if "\<forall>x \<in> set ys. x < 0" for ys
      using that by (induction ys) auto
    then show ?thesis using e t that by simp
  qed
  ultimately show ?thesis by blast
qed

theorem cooling_off_score_spec_witness:
  "(0::real) \<le> 7 / 10 \<and> cooling_off_score [-1, -2] (7 / 10) = 1 \<and> cooling_off_score [1, -2] (7 / 10) \<le> 1"
  using cooling_off_score_spec [of "7 / 10" "[-1, -2]"] cooling_off_score_spec [of "7 / 10" "[1, -2]"]
  by simp

text \<open>Over the window of five with decay 0.7, two losses in a row as the newest outcomes are enough
  to trip the cooling-off gate, whatever came before.\<close>
theorem two_recent_losses_cool_off:
  assumes "a < 0" "b < 0"
  shows "is_cooling_off [x, y, z, a, b] (7 / 10) (6 / 10)"
proof -
  define L where "L = decayed_sum (7 / 10) (\<lambda>x. x < 0) [b, a, z, y, x]"
  define T where "T = decayed_sum (7 / 10) (\<lambda>_. True) [b, a, z, y, x]"
  have t: "T = 27731 / 10000" by (simp add: T_def)
  have "17 / 10 \<le> L" using assms by (simp add: L_def)
  then have "6 / 10 \<le> L / T" by (simp add: t)
  moreover have "decimals 4 (6 / 10)" unfolding decimals_def by (rule exI [of _ 6000]) simp
  ultimately have "6 / 10 \<le> py_round 4 (L / T)" by (intro py_round_ge)
  then show ?thesis by (simp add: is_cooling_off_def cooling_off_score_eq L_def T_def t)
qed

theorem two_recent_losses_cool_off_witness:
  "(-1::real) < 0 \<and> is_cooling_off [5, 5, 5, -1, -1] (7 / 10) (6 / 10)"
  using two_recent_losses_cool_off [of "-1" "-1" 5 5 5] by simp

text \<open>Fractional Kelly sizing never exceeds the risk cap (a cap with at most six decimals), is never
  negative, and is zero without a positive edge.\<close>
theorem kelly_size_capped:
  assumes "0 \<le> kelly_scale" "0 \<le> m" "decimals 6 m"
  shows "0 \<le> compute_kelly_size p w l kelly_scale m \<and> compute_kelly_size p w l kelly_scale m \<le> m
     \<and> (p * w \<le> (1 - p) * l \<longrightarrow> compute_kelly_size p w l kelly_scale m = 0)"
  using compute_kelly_size_bounds [OF assms] compute_kelly_size_no_edge by simp

theorem kelly_size_capped_witness:
  "compute_kelly_size (6 / 10) (1 / 10) (5 / 100) (1 / 2) 1 \<le> 1 \<and> decimals 6 1"
  using kelly_size_capped [of "1 / 2" 1 "6 / 10" "1 / 10" "5 / 100"] by simp

end
