(* ===== verification/Decision_Utils.thy ===== *)
theory Decision_Utils
  imports Py_Prelude
begin

text \<open>
  Validation and scoring of a decision payload (\<open>api/services/execution/decision_utils.py\<close>).
  The gate-reason strings of the source, a tag followed by a formatted number, are
  constructors that carry the number. The two uuid4 calls are arguments.
\<close>

definition NO_ORDER_ACTIONS :: "string set" where
  "NO_ORDER_ACTIONS = {''reject'', ''hold'', ''flat''}"

definition EXECUTION_DECISION_THRESHOLD :: real where "EXECUTION_DECISION_THRESHOLD = 55 / 100"
definition SIGNAL_CONFIDENCE_MIN_GATE :: real where "SIGNAL_CONFIDENCE_MIN_GATE = 50 / 100"
definition SLIPPAGE_PCT_PER_SIDE :: real where "SLIPPAGE_PCT_PER_SIDE = 5 / 10000"

record ParsedDecision =
  d_side :: string
  d_symbol :: string
  d_qty :: real
  d_price :: real
  d_strategy_id :: string
  d_trace_id :: string

datatype parse_error = Missing_fields "string list" | Invalid_fields | Non_positive_fields

definition missing_fields :: "pydict \<Rightarrow> string \<Rightarrow> string list" where
  "missing_fields data side_or_action =
     filter (\<lambda>f. \<not> truthy (py_get data f)) [''symbol'', ''qty'', ''price'']
     @ (if side_or_action = '''' then [''action/side''] else [])"

definition side_or_action_of :: "(pyval \<Rightarrow> string) \<Rightarrow> pydict \<Rightarrow> string" where
  "side_or_action_of rp data =
     py_lower (py_str rp (py_or (py_get data ''action'') (py_or (py_get data ''side'') (PStr ''''))))"

definition parse_decision_fields ::
  "(pyval \<Rightarrow> string) \<Rightarrow> string \<Rightarrow> string \<Rightarrow> pydict \<Rightarrow> parse_error + ParsedDecision" where
  "parse_decision_fields rp uuid_strategy uuid_trace data =
     (let side_or_action = side_or_action_of rp data;
          missing = missing_fields data side_or_action
      in if missing \<noteq> [] then Inl (Missing_fields missing)
         else case (safe_float (py_get data ''qty''), safe_float (py_get data ''price'')) of
             (Some qty, Some price) \<Rightarrow>
               if qty \<le> 0 \<or> price \<le> 0 then Inl Non_positive_fields
               else Inr \<lparr>d_side = side_or_action, d_symbol = py_str rp (py_get data ''symbol''),
                 d_qty = qty, d_price = price,
                 d_strategy_id = py_str rp (py_or (py_get data ''strategy_id'') (PStr uuid_strategy)),
                 d_trace_id = py_str rp (py_or (py_get data ''trace_id'') (PStr uuid_trace))\<rparr>
           | _ \<Rightarrow> Inl Invalid_fields)"

definition as_score :: "pyval \<Rightarrow> real option" where
  "as_score v = (if v = PNone \<or> v = PStr '''' then None else safe_float v)"

text \<open>\<open>next((s for k in keys if \<dots>), default)\<close>\<close>
fun first_score :: "pydict \<Rightarrow> string list \<Rightarrow> real \<Rightarrow> real" where
  "first_score data [] dflt = dflt"
| "first_score data (k # ks) dflt =
     (case as_score (py_get data k) of Some s \<Rightarrow> s | None \<Rightarrow> first_score data ks dflt)"

definition extract_decision_scores :: "pydict \<Rightarrow> real \<times> real" where
  "extract_decision_scores data =
     (let signal_confidence =
            first_score data [''signal_confidence'', ''composite_score'', ''confidence''] (1 / 2)
      in (signal_confidence,
          case as_score (py_get data ''reasoning_score'') of
            Some rs \<Rightarrow> rs | None \<Rightarrow> signal_confidence))"

definition compute_execution_score :: "real \<Rightarrow> real \<Rightarrow> real \<Rightarrow> real" where
  "compute_execution_score signal_confidence reasoning_score historical_perf =
     signal_confidence * (50 / 100) + reasoning_score * (30 / 100) + historical_perf * (20 / 100)"

datatype gate =
    Hold string
  | Gated_score real
  | Market_closed
  | No_trade_window
  | In_flight
  | Low_confidence real
  | Choppy_regime real
  | Negative_net_ev real
  | Cooling_off

definition check_execution_gate :: "string \<Rightarrow> real \<Rightarrow> real \<Rightarrow> bool \<Rightarrow> gate option" where
  "check_execution_gate side final_score threshold market_open =
     (if side \<in> NO_ORDER_ACTIONS then Some (Hold side)
      else if final_score < threshold then Some (Gated_score final_score)
      else if \<not> market_open then Some Market_closed
      else None)"

definition check_confidence_gate :: "real \<Rightarrow> string \<Rightarrow> real \<Rightarrow> gate option" where
  "check_confidence_gate signal_confidence side threshold =
     (if side \<in> NO_ORDER_ACTIONS then None
      else if signal_confidence < threshold then Some (Low_confidence signal_confidence)
      else None)"

definition check_net_ev_gate :: "real \<Rightarrow> real \<Rightarrow> real \<Rightarrow> gate option" where
  "check_net_ev_gate signal_confidence abs_pct_move slippage_pct =
     (if abs_pct_move \<le> 0 then None
      else let net_ev = signal_confidence * (abs_pct_move / 100) - slippage_pct * 2
           in if net_ev < 0 then Some (Negative_net_ev net_ev) else None)"

section \<open>Lemmas\<close>

lemma parse_decision_positive:
  assumes "parse_decision_fields rp us ut data = Inr p"
  shows "0 < d_qty p \<and> 0 < d_price p \<and> d_side p \<noteq> []"
  using assms
  by (auto simp: parse_decision_fields_def missing_fields_def Let_def split: option.splits if_splits)

lemma parse_decision_side:
  "parse_decision_fields rp us ut data = Inr p \<Longrightarrow> d_side p = side_or_action_of rp data"
  by (auto simp: parse_decision_fields_def Let_def split: option.splits if_splits)

lemma check_execution_gate_None:
  "check_execution_gate side s t mo = None \<longleftrightarrow> side \<notin> NO_ORDER_ACTIONS \<and> t \<le> s \<and> mo"
  by (auto simp: check_execution_gate_def)

lemma compute_execution_score_mono:
  "sc \<le> sc' \<Longrightarrow> rs \<le> rs' \<Longrightarrow> compute_execution_score sc rs h \<le> compute_execution_score sc' rs' h"
  by (simp add: compute_execution_score_def)

end
