(* ===== verification/Position_Math.thy ===== *)
theory Position_Math
  imports Py_Prelude
begin

text \<open>
  Position state and PnL arithmetic (\<open>api/services/execution/position_math.py\<close>). Positions
  are the dictionaries the broker and the stores exchange, so every read goes through
  \<open>get\<close>, truthiness and \<open>float\<close>, and can raise. The abstract view of a position is its
  signed quantity (long positive, short negative).
\<close>

definition side_str :: "(pyval \<Rightarrow> string) \<Rightarrow> pyval \<Rightarrow> string" where
  "side_str rp raw = py_lower (py_strip (py_str rp (py_or raw (PStr ''''))))"

definition is_sell_side :: "string \<Rightarrow> bool" where
  "is_sell_side side \<longleftrightarrow> side = ''sell'' \<or> side = ''short''"

definition is_buy_side :: "string \<Rightarrow> bool" where
  "is_buy_side side \<longleftrightarrow> side = ''buy'' \<or> side = ''long''"

text \<open>\<open>_side_str(p.get(SIDE) or FLAT)\<close> and \<open>float(p.get(k) or x)\<close>\<close>
definition prior_side :: "(pyval \<Rightarrow> string) \<Rightarrow> pydict \<Rightarrow> string" where
  "prior_side rp p = side_str rp (py_or (py_get p ''side'') (PStr ''flat''))"

definition num_or :: "pydict \<Rightarrow> string \<Rightarrow> real \<Rightarrow> real pyres" where
  "num_or p k x = py_float (py_or (py_get p k) (PFloat x))"

definition compute_realized_pnl ::
  "(pyval \<Rightarrow> string) \<Rightarrow> pydict \<Rightarrow> string \<Rightarrow> real \<Rightarrow> real \<Rightarrow> real pyres" where
  "compute_realized_pnl rp prior_position side qty fill_price =
     (let ps = prior_side rp prior_position in
      res_bind (num_or prior_position ''entry_price'' fill_price) (\<lambda>prior_entry.
      res_bind (num_or prior_position ''qty'' 0) (\<lambda>prior_qty.
        if ps = ''long'' \<and> is_sell_side side \<and> prior_qty > 0
        then Inr (py_round 8 ((fill_price - prior_entry) * min qty prior_qty))
        else if ps = ''short'' \<and> is_buy_side side \<and> prior_qty > 0
        then Inr (py_round 8 ((prior_entry - fill_price) * min qty prior_qty))
        else Inr 0)))"

definition compute_pnl_percent ::
  "pydict \<Rightarrow> string \<Rightarrow> real \<Rightarrow> real \<Rightarrow> real \<Rightarrow> real pyres" where
  "compute_pnl_percent prior_position side qty entry_price realized_pnl =
     (if entry_price \<le> 0 \<or> realized_pnl = 0 then Inr 0
      else res_bind (num_or prior_position ''qty'' 0) (\<lambda>prior_qty.
        let closed_qty = (if prior_qty > 0 then min qty prior_qty else qty);
            cost_basis = entry_price * (if closed_qty > 0 then closed_qty else qty)
        in Inr (if cost_basis > 0 then realized_pnl / cost_basis * 100 else 0)))"

definition is_round_trip_close :: "(pyval \<Rightarrow> string) \<Rightarrow> pydict \<Rightarrow> string \<Rightarrow> real \<Rightarrow> bool pyres" where
  "is_round_trip_close rp prior_position side qty =
     (let ps = prior_side rp prior_position in
      res_bind (num_or prior_position ''qty'' 0) (\<lambda>prior_qty.
        Inr (if prior_qty \<le> 0 then False
             else (is_sell_side side \<and> ps = ''long'') \<or> (is_buy_side side \<and> ps = ''short''))))"

definition reject_unmatched_sell :: "(pyval \<Rightarrow> string) \<Rightarrow> string \<Rightarrow> pydict \<Rightarrow> bool pyres" where
  "reject_unmatched_sell rp side prior_position =
     (if \<not> is_sell_side side then Inr False
      else res_bind (num_or prior_position ''qty'' 0) (\<lambda>prior_qty.
        Inr (\<not> (prior_side rp prior_position = ''long'' \<and> prior_qty > 0))))"

definition signed_position_qty :: "(pyval \<Rightarrow> string) \<Rightarrow> pydict option \<Rightarrow> real" where
  "signed_position_qty rp position = (case position of None \<Rightarrow> 0
     | Some p \<Rightarrow>
        let raw = (case map_of p ''qty'' of Some v \<Rightarrow> v | None \<Rightarrow> py_get p ''quantity'');
            qty_value = (case safe_float (py_or raw (PFloat 0)) of None \<Rightarrow> 0 | Some x \<Rightarrow> x);
            side = side_str rp (py_get p ''side'')
        in if side \<in> {''short'', ''sell'', ''sold''} then - \<bar>qty_value\<bar>
           else if side \<in> {''long'', ''buy'', ''bought''} then \<bar>qty_value\<bar>
           else qty_value)"

definition clamp_buy_to_position_limit ::
  "(pyval \<Rightarrow> string) \<Rightarrow> pydict option \<Rightarrow> real \<Rightarrow> real \<Rightarrow> real" where
  "clamp_buy_to_position_limit rp prior_position qty max_position_qty =
     (let room = max_position_qty - signed_position_qty rp prior_position
      in if room \<le> 0 then 0 else min qty room)"

definition next_position :: "real \<Rightarrow> real \<Rightarrow> real \<Rightarrow> string \<Rightarrow> string \<Rightarrow> pydict" where
  "next_position new_signed entry_price fill_price strategy_id symbol =
     [(''symbol'', PStr symbol),
      (''side'', PStr (if new_signed > 0 then ''long'' else ''short'')),
      (''qty'', PFloat \<bar>new_signed\<bar>), (''quantity'', PFloat \<bar>new_signed\<bar>),
      (''entry_price'', PFloat entry_price), (''avg_cost'', PFloat entry_price),
      (''last_price'', PFloat fill_price), (''current_price'', PFloat fill_price),
      (''market_value'', PFloat (py_round 8 (\<bar>new_signed\<bar> * fill_price))),
      (''unrealized_pnl'', PFloat 0), (''pnl'', PFloat 0), (''strategy_id'', PStr strategy_id)]"

definition apply_signed_delta ::
  "(pyval \<Rightarrow> string) \<Rightarrow> pydict \<Rightarrow> string \<Rightarrow> real \<Rightarrow> real \<Rightarrow> string \<Rightarrow> string \<Rightarrow> pydict option pyres" where
  "apply_signed_delta rp existing_pos side qty fill_price strategy_id symbol =
     (let signed_qty = (if is_buy_side side then qty else - qty);
          existing_side = side_str rp (dget existing_pos ''side'' (PStr ''long''))
      in res_bind (py_float (dget existing_pos ''qty'' (PInt 0))) (\<lambda>q.
         let existing_signed = q * (if is_buy_side existing_side then 1 else - 1);
             new_signed = existing_signed + signed_qty
         in if \<bar>new_signed\<bar> < 1 / 10 ^ 9 then Inr None
            else res_bind (num_or existing_pos ''entry_price'' fill_price) (\<lambda>entry_price.
              Inr (Some (next_position new_signed entry_price fill_price
                strategy_id symbol)))))"

section \<open>Lemmas\<close>

lemma side_str_literals [simp]:
  "side_str rp (PStr ''long'') = ''long''" "side_str rp (PStr ''short'') = ''short''"
  "side_str rp (PStr ''flat'') = ''flat''" "side_str rp (PStr ''buy'') = ''buy''"
  "side_str rp (PStr ''sell'') = ''sell''"
  by (simp_all add: side_str_def py_or_def)

lemma num_or_float [simp]: "py_get p k = PFloat x \<Longrightarrow> num_or p k y = Inr (if x = 0 then y else x)"
  by (simp add: num_or_def py_or_def)

lemma num_or_none [simp]: "py_get p k = PNone \<Longrightarrow> num_or p k y = Inr y"
  by (simp add: num_or_def py_or_def)

lemma sides_disjoint: "is_buy_side s \<Longrightarrow> \<not> is_sell_side s"
  by (auto simp: is_buy_side_def is_sell_side_def)

text \<open>A position dict as the stores write it: a side and a finite quantity.\<close>

definition holds :: "pydict \<Rightarrow> string \<Rightarrow> real \<Rightarrow> bool" where
  "holds p side q \<longleftrightarrow> py_get p ''side'' = PStr side \<and> map_of p ''qty'' = Some (PFloat q)
     \<and> side \<in> {''long'', ''short'', ''flat''}"

lemma holds_qty: "holds p side q \<Longrightarrow> py_get p ''qty'' = PFloat q"
  by (simp add: holds_def py_get_def)

lemma holds_signed:
  "holds p side q \<Longrightarrow> signed_position_qty rp (Some p) =
     (if side = ''short'' then - \<bar>q\<bar> else if side = ''long'' then \<bar>q\<bar> else q)"
proof -
  assume h: "holds p side q"
  then have s: "py_get p ''side'' = PStr side" and m: "map_of p ''qty'' = Some (PFloat q)"
    and c: "side \<in> {''long'', ''short'', ''flat''}" by (simp_all add: holds_def)
  have f: "safe_float (py_or (PFloat q) (PFloat 0)) = Some q" by (simp add: py_or_def)
  from c consider "side = ''long''" | "side = ''short''" | "side = ''flat''" by blast
  then show ?thesis
    by cases (simp_all add: signed_position_qty_def s m Let_def f)
qed

lemma holds_num_or: "holds p side q \<Longrightarrow> num_or p ''qty'' 0 = Inr q"
  by (auto simp: num_or_def py_or_def holds_qty)

lemma holds_prior_side: "holds p side q \<Longrightarrow> prior_side rp p = side"
  by (auto simp: prior_side_def holds_def py_or_def)

lemmas holds_rules = holds_qty holds_signed holds_num_or holds_prior_side

lemma clamp_buy_room:
  assumes "signed_position_qty rp p \<le> m"
  shows "signed_position_qty rp p + clamp_buy_to_position_limit rp p qty m \<le> m"
  using assms by (auto simp: clamp_buy_to_position_limit_def Let_def)

lemma clamp_buy_le: "clamp_buy_to_position_limit rp p qty m \<le> max 0 qty"
  by (auto simp: clamp_buy_to_position_limit_def Let_def)

lemma reject_unmatched_sell_holds:
  "holds p side q \<Longrightarrow> reject_unmatched_sell rp s p = Inr (is_sell_side s \<and> \<not> (side = ''long'' \<and> q > 0))"
  by (simp add: reject_unmatched_sell_def holds_num_or holds_prior_side)

lemma signed_next_position:
  "signed_position_qty rp (Some (next_position s e f sid sy)) = s"
  by (auto simp: signed_position_qty_def next_position_def py_or_def Let_def)

section \<open>Properties\<close>

text \<open>A fill realizes profit or loss only when it closes: a non-zero realized PnL comes from a
  round-trip close of an opposite position.\<close>
theorem realized_pnl_only_on_close:
  assumes "compute_realized_pnl rp p side qty fill_price = Inr x" "x \<noteq> 0"
  shows "is_round_trip_close rp p side qty = Inr True"
proof -
  from assms(1) obtain entry q where e: "num_or p ''entry_price'' fill_price = Inr entry"
    and q: "num_or p ''qty'' 0 = Inr q"
    by (auto simp: compute_realized_pnl_def Let_def res_bind_Inr_iff)
  show ?thesis using assms e q
    by (auto simp: compute_realized_pnl_def is_round_trip_close_def Let_def split: if_splits)
qed

definition sample_long :: pydict where
  "sample_long = [(''side'', PStr ''long''), (''qty'', PFloat 2), (''entry_price'', PFloat 100)]"

theorem realized_pnl_only_on_close_witness:
  "compute_realized_pnl (\<lambda>_. ''?'') sample_long ''sell'' 1 110 = Inr 10
   \<and> is_round_trip_close (\<lambda>_. ''?'') sample_long ''sell'' 1 = Inr True"
proof -
  have h: "holds sample_long ''long'' 2" by (simp add: holds_def sample_long_def)
  have e: "num_or sample_long ''entry_price'' 110 = Inr 100" by (simp add: sample_long_def)
  have c: "compute_realized_pnl (\<lambda>_. ''?'') sample_long ''sell'' 1 110 = Inr 10"
    by (simp add: compute_realized_pnl_def holds_prior_side [OF h] holds_num_or [OF h] e is_sell_side_def
        py_round_decimals)
  from realized_pnl_only_on_close [OF c] c show ?thesis by simp
qed

text \<open>The position update refines signed addition: with a long, short or flat position of
  non-negative quantity, the next position is dropped exactly when the signed sum is dust, and
  otherwise its signed quantity is the old one plus the signed fill.\<close>
theorem apply_signed_delta_refines_addition:
  assumes h: "holds p sd q" and "0 \<le> q" and flat: "sd = ''flat'' \<Longrightarrow> q = 0"
    and e: "num_or p ''entry_price'' fill_price = Inr entry"
    and n: "new_signed = signed_position_qty rp (Some p) + (if is_buy_side side then qty else - qty)"
  shows "apply_signed_delta rp p side qty fill_price sid sy =
     Inr (if \<bar>new_signed\<bar> < 1 / 10 ^ 9 then None
          else Some (next_position new_signed entry fill_price sid sy))
     \<and> signed_position_qty rp (Some (next_position new_signed entry fill_price sid sy)) = new_signed"
proof -
  have g: "dget p ''side'' (PStr ''long'') = PStr sd" "dget p ''qty'' (PInt 0) = PFloat q"
    using h by (auto simp: holds_def dget_def py_get_def split: option.splits)
  have sd: "sd = ''long'' \<or> sd = ''short'' \<or> sd = ''flat''" using h by (auto simp: holds_def)
  then have s: "q * (if is_buy_side (side_str rp (PStr sd)) then 1 else - 1) = signed_position_qty rp (Some p)"
    using flat assms(2) by (elim disjE) (simp_all add: holds_signed [OF h] is_buy_side_def)
  have "apply_signed_delta rp p side qty fill_price sid sy =
     Inr (if \<bar>new_signed\<bar> < 1 / 10 ^ 9 then None else Some (next_position new_signed entry fill_price sid sy))"
    unfolding apply_signed_delta_def Let_def g py_float_simps res_bind_simps s n [symmetric] e
    by simp
  then show ?thesis using signed_next_position by simp
qed

theorem apply_signed_delta_refines_addition_witness:
  "apply_signed_delta (\<lambda>_. ''?'') sample_long ''sell'' 2 110 ''s'' ''BTC'' = Inr None
   \<and> holds sample_long ''long'' 2"
proof -
  have h: "holds sample_long ''long'' 2" by (simp add: holds_def sample_long_def)
  have e: "num_or sample_long ''entry_price'' 110 = Inr 100" by (simp add: sample_long_def)
  show ?thesis
    using apply_signed_delta_refines_addition [OF h _ _ e refl, where rp = "\<lambda>_. ''?''" and side = "''sell''" and qty = 2
        and sid = "''s''" and sy = "''BTC''"] h
    by (simp add: holds_signed [OF h] is_buy_side_def)
qed

text \<open>The overbuy clamp: from any position at or below the limit, a clamped buy ends at or below it,
  never asks for more than requested, and is zero when there is no room.\<close>
theorem clamp_buy_keeps_limit:
  assumes "signed_position_qty rp p \<le> m" "0 \<le> qty"
  shows "signed_position_qty rp p + clamp_buy_to_position_limit rp p qty m \<le> m
     \<and> 0 \<le> clamp_buy_to_position_limit rp p qty m \<and> clamp_buy_to_position_limit rp p qty m \<le> qty
     \<and> (signed_position_qty rp p = m \<longrightarrow> clamp_buy_to_position_limit rp p qty m = 0)"
  using clamp_buy_room [OF assms(1), of qty] clamp_buy_le [of rp p qty m] assms
  by (auto simp: clamp_buy_to_position_limit_def Let_def)

theorem clamp_buy_keeps_limit_witness:
  "signed_position_qty (\<lambda>_. ''?'') None \<le> 1 \<and> clamp_buy_to_position_limit (\<lambda>_. ''?'') None 5 1 \<le> 5
   \<and> signed_position_qty (\<lambda>_. ''?'') None + clamp_buy_to_position_limit (\<lambda>_. ''?'') None 5 1 \<le> 1"
proof -
  have "signed_position_qty (\<lambda>_. ''?'') None \<le> 1" by (simp add: signed_position_qty_def)
  with clamp_buy_keeps_limit [OF this, of 5] show ?thesis by simp
qed

end
