(* ===== verification/Paper_Broker.thy ===== *)
theory Paper_Broker
  imports Position_Math
begin

text \<open>
  The paper broker (\<open>api/services/execution/brokers/paper.py\<close>). Its Redis keys are the
  record \<open>broker\<close>: the cash key, one position payload per symbol, one order payload per
  broker order id. Reading a payload back is the identity of the JSON round trip. The
  random slippage, the clock and the uuid of an order are the record \<open>order_env\<close>. The
  Redis writes of one \<open>place_order\<close> happen together.

  The locale \<open>order_broker\<close> is what the execution engine relies on; it is interpreted
  here on \<open>place_order\<close>.
\<close>

definition DEFAULT_PAPER_CASH :: real where "DEFAULT_PAPER_CASH = 100000"
definition SLIPPAGE_MIN_PCT :: real where "SLIPPAGE_MIN_PCT = 1 / 10000"
definition SLIPPAGE_MAX_PCT :: real where "SLIPPAGE_MAX_PCT = 5 / 10000"

record position =
  pos_symbol :: string
  pos_side :: string
  pos_qty :: real
  pos_entry :: real
  pos_current :: real
  pos_opened :: "string option"

record order_payload =
  op_id :: string
  op_symbol :: string
  op_side :: string
  op_filled_qty :: real
  op_fill_price :: real
  op_status :: string

record broker =
  b_cash :: "real option"
  b_positions :: "string \<Rightarrow> position option"
  b_orders :: "string \<Rightarrow> order_payload option"

record order_env =
  oe_slippage :: real
  oe_now :: string
  oe_uuid :: string

definition empty_broker :: broker where
  "empty_broker = \<lparr>b_cash = None, b_positions = (\<lambda>_. None), b_orders = (\<lambda>_. None)\<rparr>"

definition flat_position :: "string \<Rightarrow> position" where
  "flat_position symbol = \<lparr>pos_symbol = symbol, pos_side = ''flat'', pos_qty = 0, pos_entry = 0,
     pos_current = 0, pos_opened = None\<rparr>"

definition get_position :: "broker \<Rightarrow> string \<Rightarrow> position" where
  "get_position b symbol =
     (case b_positions b symbol of None \<Rightarrow> flat_position symbol | Some p \<Rightarrow> p)"

definition get_positions :: "broker \<Rightarrow> string list \<Rightarrow> (string \<times> position) list" where
  "get_positions b symbols = fold (\<lambda>s out. dset s (get_position b s) out) symbols []"

text \<open>\<open>setnx\<close>, then read\<close>
definition init_cash :: "broker \<Rightarrow> broker" where
  "init_cash b = (case b_cash b of None \<Rightarrow> b\<lparr>b_cash := Some DEFAULT_PAPER_CASH\<rparr> | Some _ \<Rightarrow> b)"

definition get_cash :: "broker \<Rightarrow> real \<times> broker" where
  "get_cash b = (case b_cash b of None \<Rightarrow> DEFAULT_PAPER_CASH | Some c \<Rightarrow> c, init_cash b)"

definition get_order_status :: "broker \<Rightarrow> string \<Rightarrow> order_payload option" where
  "get_order_status b oid = b_orders b oid"

definition order_direction :: "string \<Rightarrow> real" where
  "order_direction side = (if is_buy_side (py_lower side) then 1 else - 1)"

definition fill_price_of :: "order_env \<Rightarrow> string \<Rightarrow> real \<Rightarrow> real" where
  "fill_price_of e side price = py_round 8 (price * (1 + order_direction side * oe_slippage e))"

definition live_side :: "real \<Rightarrow> string" where
  "live_side q = (if q > 0 then ''long'' else ''short'')"

text \<open>The branch chain that computes entry price, side and opening time of the new position.\<close>
definition position_after ::
  "order_env \<Rightarrow> position \<Rightarrow> string \<Rightarrow> real \<Rightarrow> real \<Rightarrow> real \<Rightarrow> position" where
  "position_after e cur symbol direction qty fill =
     (let new_qty = pos_qty cur + qty * direction;
          opened = (case pos_opened cur of None \<Rightarrow> oe_now e
                     | Some t \<Rightarrow> if t = [] then oe_now e else t);
          mk = (\<lambda>entry side op. \<lparr>pos_symbol = symbol, pos_side = side, pos_qty = new_qty,
                  pos_entry = entry, pos_current = fill, pos_opened = op\<rparr>)
      in if \<bar>new_qty\<bar> < 1 / 10 ^ 9 then mk 0 ''flat'' None
         else if \<bar>pos_qty cur\<bar> < 1 / 10 ^ 9 \<or> pos_entry cur \<le> 0
           then mk fill (live_side new_qty) (Some (oe_now e))
         else if (pos_qty cur > 0) = (direction > 0)
           then mk ((pos_entry cur * \<bar>pos_qty cur\<bar> + fill * qty) / \<bar>new_qty\<bar>)
                  (live_side new_qty) (Some opened)
         else if (pos_qty cur > 0) \<noteq> (new_qty > 0)
           then mk fill (live_side new_qty) (Some (oe_now e))
         else mk (pos_entry cur) (live_side new_qty) (Some opened))"

definition place_order ::
  "order_env \<Rightarrow> string \<Rightarrow> string \<Rightarrow> real \<Rightarrow> real \<Rightarrow> broker \<Rightarrow> order_payload \<times> broker" where
  "place_order e symbol side qty price b0 =
     (let b = init_cash b0;
          direction = order_direction side;
          fill = fill_price_of e side price;
          notional = qty * fill;
          cash = fst (get_cash b);
          cash' = (if direction > 0 then cash - notional else cash + notional);
          pos' = position_after e (get_position b symbol) symbol direction qty fill;
          ord = \<lparr>op_id = oe_uuid e, op_symbol = symbol, op_side = py_lower side,
                 op_filled_qty = qty, op_fill_price = fill, op_status = ''filled''\<rparr>
      in (ord, b\<lparr>b_cash := Some cash', b_positions := (b_positions b)(symbol := Some pos'),
                 b_orders := (b_orders b)(oe_uuid e := Some ord)\<rparr>))"

text \<open>The payload as the dictionary the engine and the stores read.\<close>
definition pos_dict :: "position \<Rightarrow> pydict" where
  "pos_dict p = [(''symbol'', PStr (pos_symbol p)), (''side'', PStr (pos_side p)),
     (''qty'', PFloat (pos_qty p)), (''entry_price'', PFloat (pos_entry p)),
     (''current_price'', PFloat (pos_current p)),
     (''opened_at'', case pos_opened p of None \<Rightarrow> PNone | Some t \<Rightarrow> PStr t)]"

section \<open>The broker contract\<close>

text \<open>
  What a client may assume: an order moves exactly the ordered quantity of exactly its
  symbol. From it follows, once and for all, that orders clamped to the room of the book
  keep every position between zero and the limit.
\<close>

locale order_broker =
  fixes qty_of :: "'b \<Rightarrow> string \<Rightarrow> real"
    and place :: "'e \<Rightarrow> string \<Rightarrow> string \<Rightarrow> real \<Rightarrow> real \<Rightarrow> 'b \<Rightarrow> 'b"
  assumes place_qty: "qty_of (place e sy side q p b) sy = qty_of b sy + q * order_direction side"
    and place_other: "s \<noteq> sy \<Longrightarrow> qty_of (place e sy side q p b) s = qty_of b s"
begin

lemma place_within:
  assumes "\<And>s. 0 \<le> qty_of b s \<and> qty_of b s \<le> m"
    and "0 \<le> q"
    and "order_direction side > 0 \<Longrightarrow> qty_of b sy + q \<le> m"
    and "order_direction side \<le> 0 \<Longrightarrow> q \<le> qty_of b sy"
  shows "0 \<le> qty_of (place e sy side q p b) s \<and> qty_of (place e sy side q p b) s \<le> m"
proof (cases "s = sy")
  case True
  have b: "0 \<le> qty_of b sy" "qty_of b sy \<le> m" using assms(1) [of sy] by auto
  show ?thesis
  proof (cases "is_buy_side (py_lower side)")
    case t: True
    then have d: "order_direction side = 1" by (simp add: order_direction_def)
    then have "qty_of b sy + q \<le> m" using assms(3) by simp
    then show ?thesis using b assms(2) by (simp add: True place_qty d)
  next
    case False
    then have d: "order_direction side = - 1" by (simp add: order_direction_def)
    then have "q \<le> qty_of b sy" using assms(4) by simp
    then show ?thesis using b assms(2) by (simp add: True place_qty d)
  qed
next
  case False
  then show ?thesis using assms(1) [of s] by (simp add: place_other)
qed

lemma buy_then_sell:
  assumes "is_buy_side (py_lower s1)" "\<not> is_buy_side (py_lower s2)"
  shows "qty_of (place e2 sy s2 q p2 (place e1 sy s1 q p1 b)) s = qty_of b s"
  using assms by (cases "s = sy") (simp_all add: place_qty place_other order_direction_def)

end

lemma get_position_place:
  "get_position (snd (place_order e sy side q p b)) s =
     (if s = sy then position_after e (get_position b sy) sy (order_direction side) q (fill_price_of e side p)
      else get_position b s)"
  by (simp add: place_order_def Let_def get_position_def init_cash_def split: option.splits)

lemma position_after_qty [simp]: "pos_qty (position_after e cur sy d q f) = pos_qty cur + q * d"
  by (simp add: position_after_def Let_def)

interpretation paper: order_broker "\<lambda>b s. pos_qty (get_position b s)"
  "\<lambda>e sy side q p b. snd (place_order e sy side q p b)"
  by unfold_locales (simp_all add: get_position_place)

section \<open>Well-formed positions\<close>

definition pos_ok :: "position \<Rightarrow> bool" where
  "pos_ok p \<longleftrightarrow>
     (pos_side p = ''flat'' \<and> \<bar>pos_qty p\<bar> < 1 / 10 ^ 9)
     \<or> (pos_side p = ''long'' \<and> 1 / 10 ^ 9 \<le> pos_qty p)
     \<or> (pos_side p = ''short'' \<and> pos_qty p \<le> - (1 / 10 ^ 9))"

definition broker_ok :: "broker \<Rightarrow> bool" where
  "broker_ok b \<longleftrightarrow> (\<forall>s. pos_ok (get_position b s))"

lemma pos_ok_flat [simp]: "pos_ok (flat_position s)"
  by (simp add: pos_ok_def flat_position_def)

lemma broker_ok_empty [simp]: "broker_ok empty_broker"
  by (simp add: broker_ok_def get_position_def empty_broker_def)

lemma pos_ok_after: "pos_ok (position_after e cur sy d q f)"
proof -
  define n where "n = pos_qty cur + q * d"
  have "\<bar>n\<bar> < 1 / 10 ^ 9 \<or> 1 / 10 ^ 9 \<le> n \<or> n \<le> - (1 / 10 ^ 9)" by linarith
  then show ?thesis
    unfolding position_after_def Let_def n_def [symmetric] by (auto simp: pos_ok_def live_side_def)
qed

lemma broker_ok_place: "broker_ok b \<Longrightarrow> broker_ok (snd (place_order e sy side q p b))"
  by (simp add: broker_ok_def get_position_place pos_ok_after)

lemma holds_pos_dict: "pos_ok p \<Longrightarrow> holds (pos_dict p) (pos_side p) (pos_qty p)"
  by (auto simp: holds_def pos_ok_def pos_dict_def)

lemma signed_pos_dict: "pos_ok p \<Longrightarrow> signed_position_qty rp (Some (pos_dict p)) = pos_qty p"
  using holds_signed [OF holds_pos_dict, of p rp] by (auto simp: pos_ok_def)

lemma reject_pos_dict:
  "pos_ok p \<Longrightarrow> reject_unmatched_sell rp s (pos_dict p) = Inr (is_sell_side s \<and> pos_side p \<noteq> ''long'')"
  using reject_unmatched_sell_holds [OF holds_pos_dict, of p rp s] by (auto simp: pos_ok_def)

lemma entry_pos_dict: "num_or (pos_dict p) ''entry_price'' x = Inr (if pos_entry p = 0 then x else pos_entry p)"
  by (rule num_or_float) (simp add: pos_dict_def)

lemma qty_pos_dict: "num_or (pos_dict p) ''qty'' 0 = Inr (pos_qty p)"
  by (simp add: num_or_float pos_dict_def)

section \<open>Cash\<close>

definition cash_of :: "broker \<Rightarrow> real" where
  "cash_of b = fst (get_cash b)"

lemma cash_of_init [simp]: "cash_of (init_cash b) = cash_of b"
  by (simp add: cash_of_def get_cash_def init_cash_def split: option.splits)

lemma cash_place:
  "cash_of (snd (place_order e sy side q p b)) =
     cash_of b - order_direction side * (q * fill_price_of e side p)"
proof -
  have "fst (get_cash (init_cash b)) = cash_of b" using cash_of_init by (simp add: cash_of_def)
  then show ?thesis by (simp add: place_order_def Let_def cash_of_def get_cash_def order_direction_def)
qed

lemma fill_price_pos:
  assumes "0 \<le> oe_slippage e" "oe_slippage e \<le> 1 / 2" "1 / 10 ^ 7 \<le> price"
  shows "0 < fill_price_of e side price"
proof -
  have h: "1 / 2 \<le> 1 + order_direction side * oe_slippage e"
    using assms by (simp add: order_direction_def)
  have "price * (1 / 2) \<le> price * (1 + order_direction side * oe_slippage e)"
    using assms(3) h by (intro mult_left_mono) auto
  moreover have "1 / (2 * 10 ^ 7) \<le> price * (1 / 2)" using assms(3) by simp
  ultimately have a: "1 / (2 * 10 ^ 7) \<le> price * (1 + order_direction side * oe_slippage e)"
    by linarith
  have "decimals 8 (1 / (2 * 10 ^ 7))"
    unfolding decimals_def by (rule exI [of _ 5]) simp
  from py_round_ge [OF this a] show ?thesis by (simp add: fill_price_of_def)
qed

section \<open>Properties\<close>

text \<open>An order conserves equity marked at its own fill price: the cash it moves is exactly the value
  of the quantity it moves.\<close>
theorem order_conserves_equity:
  "cash_of (snd (place_order e sy side q p b))
     + pos_qty (get_position (snd (place_order e sy side q p b)) sy) * fill_price_of e side p
   = cash_of b + pos_qty (get_position b sy) * fill_price_of e side p"
  by (simp add: cash_place get_position_place algebra_simps)

text \<open>Adding to a long position books the weighted average: cost bases add up, and the new entry
  price lies between the old entry price and the fill price.\<close>
theorem add_to_long_averages:
  assumes "1 / 10 ^ 9 \<le> pos_qty cur" "0 < pos_entry cur" "0 < q"
  shows "pos_entry (position_after e cur sy 1 q f) * (pos_qty cur + q) = pos_entry cur * pos_qty cur + f * q
     \<and> min (pos_entry cur) f \<le> pos_entry (position_after e cur sy 1 q f)
     \<and> pos_entry (position_after e cur sy 1 q f) \<le> max (pos_entry cur) f"
proof -
  have c: "0 < pos_qty cur" using assms(1) by (smt (verit) divide_pos_pos zero_less_power)
  then have t: "0 < pos_qty cur + q" using assms(3) by simp
  have x: "pos_entry (position_after e cur sy 1 q f) = (pos_entry cur * pos_qty cur + f * q) / (pos_qty cur + q)"
    using assms c t by (simp add: position_after_def Let_def)
  then have a: "pos_entry (position_after e cur sy 1 q f) * (pos_qty cur + q) = pos_entry cur * pos_qty cur + f * q"
    using t by simp
  have lo: "min (pos_entry cur) f * pos_qty cur \<le> pos_entry cur * pos_qty cur" "min (pos_entry cur) f * q \<le> f * q"
    and hi: "pos_entry cur * pos_qty cur \<le> max (pos_entry cur) f * pos_qty cur" "f * q \<le> max (pos_entry cur) f * q"
    using c assms(3) by (auto intro!: mult_right_mono)
  have b: "min (pos_entry cur) f \<le> pos_entry (position_after e cur sy 1 q f)"
    using lo t by (simp add: x le_divide_eq algebra_simps)
  have "pos_entry (position_after e cur sy 1 q f) \<le> max (pos_entry cur) f"
    using hi t by (simp add: x divide_le_eq algebra_simps)
  with a b show ?thesis by simp
qed

definition sample_pos :: position where
  "sample_pos = \<lparr>pos_symbol = ''BTC'', pos_side = ''long'', pos_qty = 1, pos_entry = 100, pos_current = 100,
     pos_opened = Some ''t0''\<rparr>"

definition sample_oe :: order_env where
  "sample_oe = \<lparr>oe_slippage = 1 / 10000, oe_now = ''t1'', oe_uuid = ''o1''\<rparr>"

theorem add_to_long_averages_witness:
  "pos_entry (position_after sample_oe sample_pos ''BTC'' 1 1 200) * 2 = 300
   \<and> pos_entry (position_after sample_oe sample_pos ''BTC'' 1 1 200) \<le> 200"
  using add_to_long_averages [of sample_pos 1 sample_oe "''BTC''" 200] by (simp add: sample_pos_def)

text \<open>A partial close keeps the cost basis and the opening time of the position: the entry price is
  not overwritten by the closing price.\<close>
theorem partial_close_keeps_entry:
  assumes "1 / 10 ^ 9 \<le> pos_qty cur - q" "0 < q" "0 < pos_entry cur" "pos_opened cur = Some t" "t \<noteq> []"
  shows "pos_entry (position_after e cur sy (- 1) q f) = pos_entry cur
     \<and> pos_opened (position_after e cur sy (- 1) q f) = Some t
     \<and> pos_side (position_after e cur sy (- 1) q f) = ''long''"
proof -
  have p: "0 < pos_qty cur - q" using assms(1) by (smt (verit) divide_pos_pos zero_less_power)
  then have "0 < pos_qty cur" using assms(2) by simp
  then show ?thesis using assms p by (simp add: position_after_def Let_def live_side_def)
qed

theorem partial_close_keeps_entry_witness:
  "pos_entry (position_after sample_oe (sample_pos\<lparr>pos_qty := 3\<rparr>) ''BTC'' (- 1) 1 200) = 100"
  using partial_close_keeps_entry [of "sample_pos\<lparr>pos_qty := 3\<rparr>" 1 "''t0''" sample_oe "''BTC''" 200]
  by (simp add: sample_pos_def)

lemma round_trip_open:
  assumes "get_position b sy = flat_position sy" "1 / 10 ^ 9 \<le> q"
  shows "get_position (snd (place_order e1 sy ''buy'' q p1 b)) sy =
     \<lparr>pos_symbol = sy, pos_side = ''long'', pos_qty = q, pos_entry = fill_price_of e1 ''buy'' p1,
      pos_current = fill_price_of e1 ''buy'' p1, pos_opened = Some (oe_now e1)\<rparr>"
proof -
  have q: "0 < q" using assms(2) by (smt (verit) divide_pos_pos zero_less_power)
  then show ?thesis using assms
    by (simp add: get_position_place position_after_def Let_def order_direction_def is_buy_side_def
        flat_position_def live_side_def)
qed

text \<open>Over a full round trip from flat, the realized PnL that the engine reports for the closing sale
  is the cash the round trip made, rounded to eight decimals.\<close>
theorem round_trip_pnl_is_cash:
  assumes flat: "get_position b sy = flat_position sy" and q: "1 / 10 ^ 9 \<le> q"
    and f: "0 < fill_price_of e1 ''buy'' p1"
    and b1: "b1 = snd (place_order e1 sy ''buy'' q p1 b)"
    and b2: "b2 = snd (place_order e2 sy ''sell'' q p2 b1)"
  shows "compute_realized_pnl rp (pos_dict (get_position b1 sy)) ''sell'' q (fill_price_of e2 ''sell'' p2)
     = Inr (py_round 8 (cash_of b2 - cash_of b))"
proof -
  have p: "0 < q" using q by (smt (verit) divide_pos_pos zero_less_power)
  have g: "get_position b1 sy = \<lparr>pos_symbol = sy, pos_side = ''long'', pos_qty = q,
      pos_entry = fill_price_of e1 ''buy'' p1, pos_current = fill_price_of e1 ''buy'' p1,
      pos_opened = Some (oe_now e1)\<rparr>" unfolding b1 by (rule round_trip_open [OF flat q])
  have h: "holds (pos_dict (get_position b1 sy)) ''long'' q" by (simp add: g holds_def pos_dict_def)
  have n: "num_or (pos_dict (get_position b1 sy)) ''entry_price'' x = Inr (fill_price_of e1 ''buy'' p1)" for x
    using f by (simp add: entry_pos_dict g)
  have "cash_of b2 - cash_of b = (fill_price_of e2 ''sell'' p2 - fill_price_of e1 ''buy'' p1) * q"
    unfolding b2 b1 by (simp add: cash_place order_direction_def is_buy_side_def algebra_simps)
  then show ?thesis using p
    by (simp add: compute_realized_pnl_def holds_prior_side [OF h] holds_num_or [OF h] n is_sell_side_def)
qed

theorem round_trip_pnl_is_cash_witness:
  "0 < fill_price_of sample_oe ''buy'' 100 \<and>
   compute_realized_pnl (\<lambda>_. ''?'') (pos_dict (get_position (snd (place_order sample_oe ''BTC'' ''buy'' 1 100
       empty_broker)) ''BTC'')) ''sell'' 1 (fill_price_of sample_oe ''sell'' 110)
   = Inr (py_round 8 (cash_of (snd (place_order sample_oe ''BTC'' ''sell'' 1 110
       (snd (place_order sample_oe ''BTC'' ''buy'' 1 100 empty_broker)))) - cash_of empty_broker))"
proof -
  have f: "0 < fill_price_of sample_oe ''buy'' 100" by (rule fill_price_pos) (simp_all add: sample_oe_def)
  have "get_position empty_broker ''BTC'' = flat_position ''BTC''" by (simp add: empty_broker_def get_position_def)
  from round_trip_pnl_is_cash [OF this _ f refl refl, where q = 1 and ?e2.0 = sample_oe and ?p2.0 = 110 and rp = "\<lambda>_. ''?''"] f
  show ?thesis by simp
qed

end
