(* ===== verification/Order_Writer.thy ===== *)
theory Order_Writer
  imports Position_Math
begin

text \<open>
  The database writes of the execution path (\<open>api/services/execution/order_writer.py\<close>) and
  the reconciler (\<open>api/services/execution/reconciler.py\<close>). The tables are lists of rows
  in insertion order; ids are issued from a counter, and \<open>idempotency_key\<close> is unique, as
  the schema declares it. Column pairs the source writes twice with one value
  (qty and quantity, entry\_price and avg\_cost, current\_price and last\_price) are one field.
\<close>

record order_row =
  o_id :: nat
  o_strategy :: string
  o_symbol :: string
  o_side :: string
  o_qty :: real
  o_price :: real
  o_status :: string
  o_key :: string
  o_broker_id :: "string option"
  o_filled_price :: "real option"
  o_filled_qty :: "real option"
  o_filled_at :: "string option"
  o_created_at :: int

record position_row =
  p_id :: nat
  p_strategy :: string
  p_symbol :: string
  p_side :: string
  p_qty :: real
  p_avg_cost :: real
  p_last_price :: real
  p_market_value :: real

record database =
  db_orders :: "order_row list"
  db_positions :: "position_row list"
  db_audit :: "(string \<times> pydict) list"
  db_recon :: "(nat \<times> pydict) list"
  db_next_id :: nat

definition empty_db :: database where
  "empty_db = \<lparr>db_orders = [], db_positions = [], db_audit = [], db_recon = [], db_next_id = 1\<rparr>"

definition order_by_key :: "string \<Rightarrow> database \<Rightarrow> order_row option" where
  "order_by_key key db = find (\<lambda>r. o_key r = key) (db_orders db)"

definition new_order_row ::
  "nat \<Rightarrow> int \<Rightarrow> string \<Rightarrow> string \<Rightarrow> string \<Rightarrow> real \<Rightarrow> real \<Rightarrow> string \<Rightarrow> string \<Rightarrow> order_row" where
  "new_order_row i now strategy_id symbol side qty price key status =
     \<lparr>o_id = i, o_strategy = strategy_id, o_symbol = symbol, o_side = side, o_qty = qty,
      o_price = price, o_status = status, o_key = key, o_broker_id = None,
      o_filled_price = None, o_filled_qty = None, o_filled_at = None, o_created_at = now\<rparr>"

definition append_order :: "order_row \<Rightarrow> database \<Rightarrow> database" where
  "append_order r db = db\<lparr>db_orders := db_orders db @ [r], db_next_id := Suc (db_next_id db)\<rparr>"

text \<open>\<open>INSERT \<dots> RETURNING id\<close>: a duplicate key violates the unique constraint.\<close>
definition insert_pending_order ::
  "int \<Rightarrow> string \<Rightarrow> string \<Rightarrow> string \<Rightarrow> real \<Rightarrow> real \<Rightarrow> string \<Rightarrow> string \<Rightarrow> database
     \<Rightarrow> (nat \<times> database) pyres" where
  "insert_pending_order now strategy_id symbol side qty price key status db =
     (case order_by_key key db of
        Some _ \<Rightarrow> Inl (RuntimeError ''IntegrityError'')
      | None \<Rightarrow> Inr (db_next_id db,
          append_order (new_order_row (db_next_id db) now strategy_id symbol side qty price key
            status) db))"

definition insert_rejected_order_once ::
  "int \<Rightarrow> string \<Rightarrow> string \<Rightarrow> string \<Rightarrow> string \<Rightarrow> real \<Rightarrow> real \<Rightarrow> database \<Rightarrow> (nat \<times> bool) \<times> database" where
  "insert_rejected_order_once now key strategy_id symbol side qty price db =
     (case order_by_key key db of
        Some r \<Rightarrow> ((o_id r, False), db)
      | None \<Rightarrow> ((db_next_id db, True),
          append_order (new_order_row (db_next_id db) now strategy_id symbol side qty price key
            ''rejected'') db))"

definition update_order_fill ::
  "nat \<Rightarrow> string \<Rightarrow> string \<Rightarrow> real \<Rightarrow> real \<Rightarrow> string \<Rightarrow> database \<Rightarrow> database" where
  "update_order_fill order_id status broker_order_id fill_price qty filled_at db =
     db\<lparr>db_orders := map (\<lambda>r. if o_id r = order_id
           then r\<lparr>o_status := status, o_broker_id := Some broker_order_id, o_price := fill_price,
                  o_filled_price := Some fill_price, o_filled_qty := Some qty,
                  o_filled_at := Some filled_at\<rparr>
           else r) (db_orders db)\<rparr>"

text \<open>The signed quantity of a position row, the abstract value of the upsert.\<close>
definition row_signed :: "position_row \<Rightarrow> real" where
  "row_signed r = (if is_buy_side (py_lower (p_side r)) then p_qty r else - p_qty r)"

definition side_of_signed :: "real \<Rightarrow> string" where
  "side_of_signed q = (if \<bar>q\<bar> < 1 / 10 ^ 9 then ''flat'' else if q > 0 then ''long'' else ''short'')"

definition position_row_after :: "position_row \<Rightarrow> real \<Rightarrow> real \<Rightarrow> real option \<Rightarrow> position_row" where
  "position_row_after r signed_qty fill_price avg_cost =
     (let new_qty = row_signed r + signed_qty
      in r\<lparr>p_side := side_of_signed new_qty, p_qty := \<bar>new_qty\<bar>,
           p_avg_cost := (case avg_cost of Some c \<Rightarrow> c | None \<Rightarrow> p_avg_cost r),
           p_last_price := fill_price, p_market_value := py_round 8 (\<bar>new_qty\<bar> * fill_price)\<rparr>)"

definition new_position_row ::
  "nat \<Rightarrow> string \<Rightarrow> string \<Rightarrow> real \<Rightarrow> real \<Rightarrow> real option \<Rightarrow> position_row" where
  "new_position_row i strategy_id symbol signed_qty fill_price avg_cost =
     \<lparr>p_id = i, p_strategy = strategy_id, p_symbol = symbol,
      p_side = (if signed_qty \<ge> 0 then ''long'' else ''short''), p_qty = \<bar>signed_qty\<bar>,
      p_avg_cost = (case avg_cost of Some c \<Rightarrow> c | None \<Rightarrow> fill_price),
      p_last_price = fill_price, p_market_value = py_round 8 (\<bar>signed_qty\<bar> * fill_price)\<rparr>"

definition upsert_position_db ::
  "string \<Rightarrow> string \<Rightarrow> string \<Rightarrow> real \<Rightarrow> real \<Rightarrow> real option \<Rightarrow> database \<Rightarrow> database" where
  "upsert_position_db strategy_id symbol side qty fill_price avg_cost db =
     (let signed_qty = (if is_buy_side side then qty else - qty)
      in case find (\<lambda>r. p_strategy r = strategy_id \<and> p_symbol r = symbol) (db_positions db) of
           None \<Rightarrow> db\<lparr>db_positions := db_positions db @
                [new_position_row (db_next_id db) strategy_id symbol signed_qty fill_price avg_cost],
                db_next_id := Suc (db_next_id db)\<rparr>
         | Some row \<Rightarrow> db\<lparr>db_positions :=
                map (\<lambda>r. if p_id r = p_id row
                     then position_row_after row signed_qty fill_price avg_cost else r)
                  (db_positions db)\<rparr>)"

definition insert_audit_log :: "string \<Rightarrow> pydict \<Rightarrow> database \<Rightarrow> database" where
  "insert_audit_log event_type payload db = db\<lparr>db_audit := db_audit db @ [(event_type, payload)]\<rparr>"

section \<open>Reconciliation\<close>

text \<open>
  \<open>str_id\<close> renders an integer id; \<open>broker_status\<close> is \<open>get_order_status\<close> of the broker,
  reduced to the status it reports. A NULL broker id is looked up as the text \<open>None\<close>.
\<close>

definition broker_id_text :: "order_row \<Rightarrow> string" where
  "broker_id_text r = (case o_broker_id r of None \<Rightarrow> ''None'' | Some b \<Rightarrow> b)"

definition build_discrepancy :: "(nat \<Rightarrow> string) \<Rightarrow> order_row \<Rightarrow> string option \<Rightarrow> pydict option" where
  "build_discrepancy str_id row broker_status =
     (let mk = (\<lambda>st. [(''order_id'', PStr (str_id (o_id row))),
            (''broker_order_id'', PStr (broker_id_text row)),
            (''db_status'', PStr (o_status row)), (''broker_status'', PStr st)])
      in case broker_status of
           None \<Rightarrow> Some (mk ''missing'')
         | Some st \<Rightarrow> if st = o_status row then None else Some (mk st))"

definition set_order_status :: "nat \<Rightarrow> string \<Rightarrow> database \<Rightarrow> database" where
  "set_order_status i st db =
     db\<lparr>db_orders := map (\<lambda>r. if o_id r = i then r\<lparr>o_status := st\<rparr> else r) (db_orders db)\<rparr>"

definition reconcile_row ::
  "(nat \<Rightarrow> string) \<Rightarrow> (string \<Rightarrow> string option) \<Rightarrow> order_row \<Rightarrow> database \<Rightarrow> database" where
  "reconcile_row str_id broker_status row db =
     (let st = broker_status (broker_id_text row)
      in case build_discrepancy str_id row st of
           None \<Rightarrow> db
         | Some d \<Rightarrow>
             let db1 = db\<lparr>db_recon := db_recon db @ [(o_id row, d)]\<rparr>;
                 db2 = (case st of None \<Rightarrow> db1 | Some x \<Rightarrow> set_order_status (o_id row) x db1)
             in insert_audit_log ''order_reconciled'' d db2)"

text \<open>one pass; \<open>cutoff\<close> is now minus two minutes\<close>
definition run_once ::
  "(nat \<Rightarrow> string) \<Rightarrow> (string \<Rightarrow> string option) \<Rightarrow> int \<Rightarrow> database \<Rightarrow> database" where
  "run_once str_id broker_status cutoff db =
     fold (reconcile_row str_id broker_status)
       (filter (\<lambda>r. (o_status r = ''pending'' \<or> o_status r = ''partial'') \<and> o_created_at r < cutoff)
          (db_orders db)) db"

section \<open>Table invariants\<close>

definition db_ok :: "database \<Rightarrow> bool" where
  "db_ok db \<longleftrightarrow> distinct (map o_key (db_orders db)) \<and> distinct (map o_id (db_orders db))
     \<and> distinct (map (\<lambda>r. (p_strategy r, p_symbol r)) (db_positions db))
     \<and> distinct (map p_id (db_positions db))
     \<and> (\<forall>i \<in> o_id ` set (db_orders db) \<union> p_id ` set (db_positions db). i < db_next_id db)"

lemma db_ok_empty [simp]: "db_ok empty_db"
  by (simp add: db_ok_def empty_db_def)

lemma order_by_key_None: "order_by_key key db = None \<longleftrightarrow> key \<notin> o_key ` set (db_orders db)"
  by (auto simp: order_by_key_def find_None_iff)

lemma order_by_key_Some: "order_by_key key db = Some r \<Longrightarrow> r \<in> set (db_orders db) \<and> o_key r = key"
  by (auto simp: order_by_key_def find_Some_iff)

lemma db_ok_append_order:
  assumes "db_ok db" "o_id r = db_next_id db" "order_by_key (o_key r) db = None"
  shows "db_ok (append_order r db)"
  using assms by (auto simp: db_ok_def append_order_def order_by_key_None less_Suc_eq)

lemma db_ok_insert_pending:
  "db_ok db \<Longrightarrow> insert_pending_order now sid sy sd q p key st db = Inr (i, db') \<Longrightarrow> db_ok db'"
  by (auto simp: insert_pending_order_def new_order_row_def split: option.splits intro!: db_ok_append_order)

lemma db_ok_insert_rejected:
  "db_ok db \<Longrightarrow> db_ok (snd (insert_rejected_order_once now key sid sy sd q p db))"
  by (auto simp: insert_rejected_order_once_def new_order_row_def split: option.splits
      intro!: db_ok_append_order)

text \<open>An update that keeps ids and keys keeps the invariant.\<close>
lemma db_ok_map_orders:
  assumes "db_ok db" "\<And>r. o_id (f r) = o_id r \<and> o_key (f r) = o_key r"
  shows "db_ok (db\<lparr>db_orders := map f (db_orders db)\<rparr>)"
proof -
  have "map o_id (map f (db_orders db)) = map o_id (db_orders db)"
    and "map o_key (map f (db_orders db)) = map o_key (db_orders db)"
    and "o_id ` f ` set (db_orders db) = o_id ` set (db_orders db)"
    using assms(2) by (auto simp: image_iff)
  with assms(1) show ?thesis unfolding db_ok_def by (simp del: map_map)
qed

lemma db_ok_update_fill: "db_ok db \<Longrightarrow> db_ok (update_order_fill i st b f q t db)"
  unfolding update_order_fill_def by (rule db_ok_map_orders) auto

lemma db_ok_set_status: "db_ok db \<Longrightarrow> db_ok (set_order_status i st db)"
  unfolding set_order_status_def by (rule db_ok_map_orders) auto

lemma db_ok_audit [simp]: "db_ok (insert_audit_log t p db) \<longleftrightarrow> db_ok db"
  by (simp add: db_ok_def insert_audit_log_def)

lemma find_position_Some:
  "find (\<lambda>r. p_strategy r = a \<and> p_symbol r = b) rs = Some row \<Longrightarrow>
     row \<in> set rs \<and> p_strategy row = a \<and> p_symbol row = b"
  by (auto simp: find_Some_iff)

lemma position_row_after_ids [simp]:
  "p_id (position_row_after r q f c) = p_id r"
  "p_strategy (position_row_after r q f c) = p_strategy r"
  "p_symbol (position_row_after r q f c) = p_symbol r"
  by (simp_all add: position_row_after_def Let_def)

lemma position_row_after_signed:
  "\<bar>row_signed r + q\<bar> \<ge> 1 / 10 ^ 9 \<Longrightarrow> row_signed (position_row_after r q f c) = row_signed r + q"
  by (auto simp: position_row_after_def Let_def row_signed_def [of "_\<lparr>p_side := _\<rparr>"]
      row_signed_def [of "_\<lparr>p_side := _, p_qty := _\<rparr>"] row_signed_def [of "p_market_value_update _ _"]
      side_of_signed_def is_buy_side_def)

lemma db_ok_upsert: 
  assumes ok: "db_ok db"
  shows "db_ok (upsert_position_db sid sy sd q f c db)"
proof (cases "find (\<lambda>r. p_strategy r = sid \<and> p_symbol r = sy) (db_positions db)")
  case None
  then have n: "\<forall>r \<in> set (db_positions db). \<not> (p_strategy r = sid \<and> p_symbol r = sy)"
    by (auto simp: find_None_iff)
  with ok None show ?thesis
    by (auto simp: upsert_position_db_def Let_def db_ok_def new_position_row_def less_Suc_eq)
next
  case (Some row)
  define g where "g r = (if p_id r = p_id row
      then position_row_after row (if is_buy_side sd then q else - q) f c else r)" for r
  have row: "row \<in> set (db_positions db)" using find_position_Some [OF Some] by simp
  have d: "distinct (map p_id (db_positions db))" using ok by (simp add: db_ok_def)
  have inj: "r \<in> set (db_positions db) \<Longrightarrow> p_id r = p_id row \<Longrightarrow> r = row" for r
    using d row by (metis distinct_map inj_on_eq_iff)
  have a: "map (\<lambda>r. (p_strategy r, p_symbol r)) (map g (db_positions db))
      = map (\<lambda>r. (p_strategy r, p_symbol r)) (db_positions db)"
    using inj by (auto simp: g_def)
  have b: "map p_id (map g (db_positions db)) = map p_id (db_positions db)" by (simp add: g_def)
  have c: "p_id ` g ` set (db_positions db) = p_id ` set (db_positions db)"
    using b by (metis list.set_map)
  have e: "upsert_position_db sid sy sd q f c db = db\<lparr>db_positions := map g (db_positions db)\<rparr>"
    by (simp add: upsert_position_db_def Let_def Some g_def [abs_def])
  show ?thesis using ok a b c unfolding e db_ok_def by (simp del: map_map)
qed

lemma db_ok_reconcile_row: "db_ok db \<Longrightarrow> db_ok (reconcile_row str_id bs row db)"
  by (auto simp: reconcile_row_def Let_def db_ok_def [of "db\<lparr>db_recon := _\<rparr>"] split: option.splits
      intro!: db_ok_set_status) (simp_all add: db_ok_def)

lemma db_ok_run_once: "db_ok db \<Longrightarrow> db_ok (run_once str_id bs cutoff db)"
  unfolding run_once_def
  by (rule fold_invariant [where Q = "\<lambda>_. True"]) (auto intro: db_ok_reconcile_row)

section \<open>Properties\<close>

text \<open>the signed quantity booked for a strategy and a symbol\<close>
definition db_signed :: "database \<Rightarrow> string \<Rightarrow> string \<Rightarrow> real" where
  "db_signed db sid sy = (case find (\<lambda>r. p_strategy r = sid \<and> p_symbol r = sy) (db_positions db) of
     None \<Rightarrow> 0 | Some r \<Rightarrow> row_signed r)"

lemma find_append: "find P (xs @ ys) = (case find P xs of None \<Rightarrow> find P ys | Some x \<Rightarrow> Some x)"
  by (induction xs) auto

lemma find_map_upd:
  assumes "\<And>r. r \<in> set xs \<Longrightarrow> P (g r) = P r"
  shows "find P (map g xs) = map_option g (find P xs)"
  using assms by (induction xs) auto

text \<open>The position upsert refines signed addition: unless the result is dust, the signed quantity of
  the strategy and symbol becomes the old one plus the signed fill, and every other row keeps its own.\<close>
theorem upsert_position_refines_addition:
  assumes ok: "db_ok db" and d: "d = (if is_buy_side side then qty else - qty)"
    and big: "1 / 10 ^ 9 \<le> \<bar>db_signed db sid sy + d\<bar>"
  shows "db_signed (upsert_position_db sid sy side qty fill_price avg db) sid' sy' =
     (if sid' = sid \<and> sy' = sy then db_signed db sid sy + d else db_signed db sid' sy')"
proof (cases "find (\<lambda>r. p_strategy r = sid \<and> p_symbol r = sy) (db_positions db)")
  case None
  have "row_signed (new_position_row i sid sy d fill_price avg) = d" for i
    by (auto simp: row_signed_def new_position_row_def is_buy_side_def)
  with None show ?thesis
    by (auto simp: db_signed_def upsert_position_db_def Let_def d [symmetric] find_append new_position_row_def
        split: option.splits)
next
  case (Some row)
  define g where "g r = (if p_id r = p_id row then position_row_after row d fill_price avg else r)" for r
  have row: "row \<in> set (db_positions db)" "p_strategy row = sid" "p_symbol row = sy"
    using find_position_Some [OF Some] by auto
  have di: "distinct (map p_id (db_positions db))" using ok by (simp add: db_ok_def)
  have inj: "r \<in> set (db_positions db) \<Longrightarrow> p_id r = p_id row \<Longrightarrow> r = row" for r
    using di row(1) by (metis distinct_map inj_on_eq_iff)
  have keys: "r \<in> set (db_positions db) \<Longrightarrow> p_strategy (g r) = p_strategy r \<and> p_symbol (g r) = p_symbol r" for r
    using inj by (auto simp: g_def)
  have e: "db_positions (upsert_position_db sid sy side qty fill_price avg db) = map g (db_positions db)"
    by (simp add: upsert_position_db_def Let_def Some d [symmetric] g_def [abs_def])
  have f: "find (\<lambda>r. p_strategy r = a \<and> p_symbol r = b) (map g (db_positions db))
      = map_option g (find (\<lambda>r. p_strategy r = a \<and> p_symbol r = b) (db_positions db))" for a b
    by (rule find_map_upd) (simp add: keys)
  have s: "db_signed db sid sy = row_signed row" by (simp add: db_signed_def Some)
  show ?thesis
  proof (cases "sid' = sid \<and> sy' = sy")
    case True
    then show ?thesis using Some big s position_row_after_signed [of row d fill_price avg]
      by (simp add: db_signed_def e f g_def)
  next
    case False
    have "row_signed (g r) = row_signed r"
      if "find (\<lambda>r. p_strategy r = sid' \<and> p_symbol r = sy') (db_positions db) = Some r" for r
      using find_position_Some [OF that] inj False row by (auto simp: g_def)
    with False show ?thesis by (auto simp: db_signed_def e f split: option.splits)
  qed
qed

definition sample_db :: database where
  "sample_db = upsert_position_db ''s'' ''BTC'' ''buy'' 2 100 None empty_db"

theorem upsert_position_refines_addition_witness:
  "db_signed sample_db ''s'' ''BTC'' = 2 \<and>
   db_signed (upsert_position_db ''s'' ''BTC'' ''sell'' 1 110 None sample_db) ''s'' ''BTC'' = 1"
proof -
  have ok: "db_ok sample_db" unfolding sample_db_def by (rule db_ok_upsert) simp
  have two: "db_signed sample_db ''s'' ''BTC'' = 2"
    by (simp add: sample_db_def db_signed_def upsert_position_db_def empty_db_def new_position_row_def
        row_signed_def is_buy_side_def)
  have d: "- 1 = (if is_buy_side ''sell'' then 1 else - 1 :: real)" by (simp add: is_buy_side_def)
  show ?thesis using two upsert_position_refines_addition [OF ok d, of "''s''" "''BTC''" 110 None "''s''" "''BTC''"]
    by simp
qed

text \<open>Recording a rejected order is idempotent on its key: a replay returns the same order id, says
  it created nothing, and leaves the tables alone.\<close>
theorem rejected_order_recorded_once:
  assumes "insert_rejected_order_once now key sid sy side qty price db = ((oid, created), db')" "db_ok db"
  shows "insert_rejected_order_once now2 key sid2 sy2 side2 qty2 price2 db' = ((oid, False), db')"
proof (cases "order_by_key key db")
  case None
  then have "db' = append_order (new_order_row oid now sid sy side qty price key ''rejected'') db"
    using assms by (auto simp: insert_rejected_order_once_def)
  moreover have "order_by_key key (append_order (new_order_row oid now sid sy side qty price key ''rejected'') db)
      = Some (new_order_row oid now sid sy side qty price key ''rejected'')"
    using None by (simp add: order_by_key_def append_order_def find_append new_order_row_def)
  ultimately show ?thesis by (simp add: insert_rejected_order_once_def new_order_row_def)
next
  case (Some r)
  then show ?thesis using assms by (auto simp: insert_rejected_order_once_def)
qed

theorem rejected_order_recorded_once_witness:
  "insert_rejected_order_once 7 ''k'' ''s'' ''BTC'' ''sell'' 1 100
     (snd (insert_rejected_order_once 0 ''k'' ''s'' ''BTC'' ''sell'' 1 100 empty_db))
   = ((1, False), snd (insert_rejected_order_once 0 ''k'' ''s'' ''BTC'' ''sell'' 1 100 empty_db))"
proof -
  have "insert_rejected_order_once 0 ''k'' ''s'' ''BTC'' ''sell'' 1 100 empty_db
      = ((1, True), snd (insert_rejected_order_once 0 ''k'' ''s'' ''BTC'' ''sell'' 1 100 empty_db))"
    by (simp add: insert_rejected_order_once_def order_by_key_def empty_db_def)
  from rejected_order_recorded_once [OF this] show ?thesis by simp
qed

lemma reconcile_missing:
  assumes "\<And>r. r \<in> set rows \<Longrightarrow> bs (broker_id_text r) = None"
  shows "db_orders (fold (reconcile_row str_id bs) rows db) = db_orders db
     \<and> length (db_recon (fold (reconcile_row str_id bs) rows db)) = length (db_recon db) + length rows"
  using assms
  by (induction rows arbitrary: db) (auto simp: reconcile_row_def build_discrepancy_def Let_def insert_audit_log_def)

text \<open>An overdue order the broker does not know is reported as a discrepancy on every pass and never
  changes state: n passes leave the orders as they were and add n reports per such order.\<close>
theorem unknown_orders_are_rereported:
  assumes "\<And>b. bs b = None"
  shows "db_orders ((run_once str_id bs cutoff ^^ n) db) = db_orders db
     \<and> length (db_recon ((run_once str_id bs cutoff ^^ n) db)) = length (db_recon db)
        + n * length (filter (\<lambda>r. (o_status r = ''pending'' \<or> o_status r = ''partial'')
                 \<and> o_created_at r < cutoff) (db_orders db))"
proof (induction n)
  case (Suc n)
  have "db_orders (run_once str_id bs cutoff x) = db_orders x
     \<and> length (db_recon (run_once str_id bs cutoff x)) = length (db_recon x)
        + length (filter (\<lambda>r. (o_status r = ''pending'' \<or> o_status r = ''partial'')
                 \<and> o_created_at r < cutoff) (db_orders x))" for x
    unfolding run_once_def using assms by (intro reconcile_missing)
  with Suc show ?case by simp
qed simp

definition stuck_db :: database where
  "stuck_db = append_order (new_order_row 1 0 ''s'' ''BTC'' ''buy'' 1 100 ''k'' ''pending'') empty_db"

theorem unknown_orders_are_rereported_witness:
  "length (db_recon ((run_once nat_str (\<lambda>_. None) 120 ^^ 3) stuck_db)) = 3"
  using unknown_orders_are_rereported [of "\<lambda>_. None" 3 nat_str 120 stuck_db]
  by (simp add: stuck_db_def append_order_def new_order_row_def empty_db_def)

end
