(* ===== verification/In_Memory_Store.thy ===== *)
theory In_Memory_Store
  imports Position_Math
begin

text \<open>
  The in-memory runtime store (\<open>api/in_memory_store.py\<close>) and the win-rate arithmetic it
  shares with the other readers (\<open>api/services/metrics_calc.py\<close>). Every collection is a
  list in insertion order; \<open>now\<close> is \<open>time.time()\<close> and \<open>now_iso\<close> its ISO text.
\<close>

section \<open>metrics\_calc\<close>

record ClosedTradeStats =
  cts_realized_pnl :: real
  cts_winning :: nat
  cts_losing :: nat
  cts_closed :: nat
  cts_win_rate :: real
  cts_best :: real
  cts_worst :: real

definition realized_pnl_of :: "pydict \<Rightarrow> real option" where
  "realized_pnl_of trade = (let raw = py_get trade ''pnl''
     in if raw = PNone \<or> raw = PStr '''' then None else safe_float raw)"

definition win_rate_from_counts :: "nat \<Rightarrow> nat \<Rightarrow> real" where
  "win_rate_from_counts winning losing =
     (let closed = winning + losing in if closed \<noteq> 0 then real winning / real closed else 0)"

definition closed_trade_stats :: "pydict list \<Rightarrow> ClosedTradeStats" where
  "closed_trade_stats trades =
     (let realized = List.map_filter realized_pnl_of trades;
          winning = length (filter (\<lambda>p. p > 0) realized);
          losing = length (filter (\<lambda>p. p < 0) realized)
      in \<lparr>cts_realized_pnl = py_round 8 (sum_list realized), cts_winning = winning,
          cts_losing = losing, cts_closed = winning + losing,
          cts_win_rate = win_rate_from_counts winning losing,
          cts_best = py_round 8 (if realized = [] then 0 else Max (set realized)),
          cts_worst = py_round 8 (if realized = [] then 0 else Min (set realized))\<rparr>)"

section \<open>The store\<close>

record mem_store =
  ms_agents :: "(string \<times> pydict) list"
  ms_notifications :: "pydict list"
  ms_grade_history :: "pydict list"
  ms_event_history :: "pydict list"
  ms_vector_memory :: "pydict list"
  ms_agent_runs :: "pydict list"
  ms_agent_logs :: "pydict list"
  ms_orders :: "pydict list"
  ms_positions :: "(string \<times> pydict) list"
  ms_trade_feed :: "pydict list"
  ms_trade_evaluations :: "pydict list"
  ms_reflections :: "pydict list"
  ms_strategies :: "pydict list"
  ms_decisions :: "pydict list"
  ms_closed_trades :: "pydict list"
  ms_equity_curve :: "pydict list"
  ms_applied_keys :: "string set"
  ms_key_order :: "string list"
  ms_rejected_sells :: "pydict list"

definition DEFAULT_AGENTS :: "(string \<times> pydict) list" where
  "DEFAULT_AGENTS = map (\<lambda>a. (a, [(''status'', PStr ''idle'')]))
     [''SIGNAL_AGENT'', ''REASONING_AGENT'', ''EXECUTION_ENGINE'', ''GRADE_AGENT'', ''IC_UPDATER'',
      ''REFLECTION_AGENT'', ''STRATEGY_PROPOSER'', ''NOTIFICATION_AGENT'', ''CHALLENGER_AGENT'',
      ''PROPOSAL_APPLIER'']"

definition empty_store :: mem_store where
  "empty_store = \<lparr>ms_agents = DEFAULT_AGENTS, ms_notifications = [], ms_grade_history = [],
     ms_event_history = [], ms_vector_memory = [], ms_agent_runs = [], ms_agent_logs = [],
     ms_orders = [], ms_positions = [], ms_trade_feed = [], ms_trade_evaluations = [],
     ms_reflections = [], ms_strategies = [], ms_decisions = [], ms_closed_trades = [],
     ms_equity_curve = [], ms_applied_keys = {}, ms_key_order = [], ms_rejected_sells = []\<rparr>"

definition POSITION_EPSILON :: real where "POSITION_EPSILON = 1 / 10 ^ 9"
definition DECISION_KEY_CAP :: nat where "DECISION_KEY_CAP = 2000"
definition DEFAULT_TRADE_NOTIONAL :: real where "DEFAULT_TRADE_NOTIONAL = 1000"

text \<open>\<open>a or b or \<dots> or 0.0\<close> over optional floats: the first one that is neither None nor zero\<close>
fun first_nonzero :: "real option list \<Rightarrow> real" where
  "first_nonzero [] = 0"
| "first_nonzero (o1 # os) = (case o1 of Some x \<Rightarrow> if x \<noteq> 0 then x else first_nonzero os
     | None \<Rightarrow> first_nonzero os)"

definition lower_side :: "(pyval \<Rightarrow> string) \<Rightarrow> pyval \<Rightarrow> string" where
  "lower_side rp v = py_lower (py_str rp (py_or v (PStr '''')))"

section \<open>Positions\<close>

definition has_open_quantity :: "pydict \<Rightarrow> bool" where
  "has_open_quantity position =
     (let qty = (case safe_float (py_or (dget position ''qty'' (PInt 0)) (PInt 0)) of
                   None \<Rightarrow> 0 | Some x \<Rightarrow> x)
      in \<bar>qty\<bar> > 0)"

definition position_abs_qty :: "pydict \<Rightarrow> real" where
  "position_abs_qty p =
     \<bar>first_nonzero [safe_float (py_get p ''qty''), safe_float (py_get p ''quantity'')]\<bar>"

definition position_avg_cost :: "pydict \<Rightarrow> real option" where
  "position_avg_cost p = safe_float (dget p ''avg_cost'' (py_get p ''avg_entry_price''))"

definition position_unrealized_pnl :: "(pyval \<Rightarrow> string) \<Rightarrow> pydict \<Rightarrow> real option" where
  "position_unrealized_pnl rp p =
     (let qty = position_abs_qty p;
          last_price = safe_float (dget p ''last_price'' (py_get p ''price''))
      in case (position_avg_cost p, last_price) of
           (Some avg_cost, Some lp) \<Rightarrow>
             if qty \<le> 0 then None
             else if lower_side rp (py_get p ''side'') = ''short''
                  then Some (py_round 8 ((avg_cost - lp) * qty))
                  else Some (py_round 8 ((lp - avg_cost) * qty))
         | _ \<Rightarrow> None)"

definition position_pnl_percent :: "pydict \<Rightarrow> real option \<Rightarrow> real option" where
  "position_pnl_percent p unrealized =
     (case (unrealized, position_avg_cost p) of
        (Some u, Some avg_cost) \<Rightarrow>
          let qty = position_abs_qty p; cost_basis = avg_cost * qty
          in if qty \<le> 0 \<or> cost_basis = 0 then None else Some (py_round 4 (u / cost_basis * 100))
      | _ \<Rightarrow> None)"

definition opt_float :: "real option \<Rightarrow> pyval" where
  "opt_float x = (case x of None \<Rightarrow> PNone | Some v \<Rightarrow> PFloat v)"

definition normalize_position :: "(pyval \<Rightarrow> string) \<Rightarrow> pydict \<Rightarrow> pydict" where
  "normalize_position rp p =
     (let qty = first_nonzero [safe_float (py_or (py_get p ''qty'') (py_get p ''quantity''))];
          current_price = first_nonzero [safe_float (py_get p ''current_price''),
            safe_float (py_get p ''last_price''), safe_float (py_get p ''price'')];
          unrealized = (case position_unrealized_pnl rp p of
              Some u \<Rightarrow> u
            | None \<Rightarrow> (case safe_float (py_get p ''unrealized_pnl'') of
                Some u \<Rightarrow> u | None \<Rightarrow> first_nonzero [safe_float (py_get p ''pnl'')]))
      in dmerge p [(''quantity'', PFloat qty), (''current_price'', PFloat current_price),
           (''unrealized_pnl'', PFloat unrealized), (''pnl'', PFloat unrealized),
           (''pnl_percent'', opt_float (position_pnl_percent p (Some unrealized)))])"

definition apply_current_prices :: "(string \<times> pyval) list \<Rightarrow> mem_store \<Rightarrow> mem_store" where
  "apply_current_prices prices st =
     fold (\<lambda>(symbol, price) s. case (safe_float price, map_of (ms_positions s) symbol) of
         (Some v, Some position) \<Rightarrow> s\<lparr>ms_positions := dset symbol
            (dset ''current_price'' (PFloat v) (dset ''last_price'' (PFloat v) position))
            (ms_positions s)\<rparr>
       | _ \<Rightarrow> s) prices st"

definition normalized_open_positions :: "(pyval \<Rightarrow> string) \<Rightarrow> mem_store \<Rightarrow> pydict list" where
  "normalized_open_positions rp st =
     map (normalize_position rp) (filter has_open_quantity (map snd (ms_positions st)))"

definition has_active_position :: "string \<Rightarrow> mem_store \<Rightarrow> bool" where
  "has_active_position symbol st =
     (case map_of (ms_positions st) symbol of None \<Rightarrow> False | Some p \<Rightarrow> has_open_quantity p)"

definition get_active_position_count :: "mem_store \<Rightarrow> nat" where
  "get_active_position_count st = length (filter has_open_quantity (map snd (ms_positions st)))"

definition mirrored_position ::
  "(pyval \<Rightarrow> string) \<Rightarrow> string \<Rightarrow> pydict \<Rightarrow> real \<Rightarrow> string option \<Rightarrow> pydict" where
  "mirrored_position rp symbol bp qty strategy_id =
     (let entry = first_nonzero [safe_float (py_get bp ''entry_price'')];
          last_p = first_nonzero [safe_float (py_get bp ''current_price''), Some entry];
          base = [(''symbol'', PStr symbol), (''side'', PStr (lower_side rp (py_get bp ''side''))),
            (''qty'', PFloat \<bar>qty\<bar>), (''quantity'', PFloat \<bar>qty\<bar>), (''entry_price'', PFloat entry),
            (''avg_cost'', PFloat entry), (''avg_entry_price'', PFloat entry),
            (''last_price'', PFloat last_p), (''current_price'', PFloat last_p),
            (''unrealized_pnl'', PFloat 0), (''pnl'', PFloat 0)]
      in case strategy_id of None \<Rightarrow> base | Some sid \<Rightarrow> dset ''strategy_id'' (PStr sid) base)"

definition mirror_broker_position ::
  "(pyval \<Rightarrow> string) \<Rightarrow> string \<Rightarrow> pydict \<Rightarrow> string option \<Rightarrow> mem_store \<Rightarrow> mem_store" where
  "mirror_broker_position rp symbol broker_position strategy_id st =
     (let qty = first_nonzero [safe_float (py_get broker_position ''qty'')]
      in if \<bar>qty\<bar> \<le> POSITION_EPSILON
         then st\<lparr>ms_positions := AList.delete symbol (ms_positions st)\<rparr>
         else st\<lparr>ms_positions := dset symbol (mirrored_position rp symbol broker_position qty
                strategy_id) (ms_positions st)\<rparr>)"

definition upsert_position :: "string \<Rightarrow> pydict \<Rightarrow> mem_store \<Rightarrow> mem_store" where
  "upsert_position symbol position st =
     st\<lparr>ms_positions := dset symbol (dmerge (dget (ms_positions st) symbol []) position)
        (ms_positions st)\<rparr>"

definition has_open_position :: "(pyval \<Rightarrow> string) \<Rightarrow> string \<Rightarrow> mem_store \<Rightarrow> bool" where
  "has_open_position rp symbol st =
     (case map_of (ms_positions st) symbol of None \<Rightarrow> False
      | Some pos \<Rightarrow> py_lower (py_str rp (dget pos ''side'' (PStr ''''))) = ''long''
          \<and> first_nonzero [safe_float (py_get pos ''qty'')] > 0)"

definition get_open_position :: "(pyval \<Rightarrow> string) \<Rightarrow> string \<Rightarrow> mem_store \<Rightarrow> pydict option" where
  "get_open_position rp symbol st =
     (if \<not> has_open_position rp symbol st then None else map_of (ms_positions st) symbol)"

definition open_position_row :: "(pyval \<Rightarrow> string) \<Rightarrow> pydict \<Rightarrow> pydict" where
  "open_position_row rp row =
     (case position_unrealized_pnl rp row of
        None \<Rightarrow> row
      | Some u \<Rightarrow>
          (let row1 = dset ''pnl'' (PFloat u) (dset ''unrealized_pnl'' (PFloat u) row)
           in dset ''pnl_percent'' (opt_float (position_pnl_percent row1 (Some u))) row1))"

definition open_positions :: "(pyval \<Rightarrow> string) \<Rightarrow> mem_store \<Rightarrow> pydict list" where
  "open_positions rp st =
     map (open_position_row rp) (filter has_open_quantity (map snd (ms_positions st)))"

section \<open>Collections\<close>

definition upsert_agent :: "string \<Rightarrow> pydict \<Rightarrow> mem_store \<Rightarrow> mem_store" where
  "upsert_agent agent_id data st =
     st\<lparr>ms_agents := dset agent_id (dmerge (dget (ms_agents st) agent_id []) data) (ms_agents st)\<rparr>"

definition get_agent :: "string \<Rightarrow> mem_store \<Rightarrow> pydict option" where
  "get_agent agent_id st = map_of (ms_agents st) agent_id"

definition add_notification :: "real \<Rightarrow> string \<Rightarrow> string \<Rightarrow> string \<Rightarrow> mem_store \<Rightarrow> mem_store" where
  "add_notification now message level notification_type st =
     st\<lparr>ms_notifications := ms_notifications st @
        [[(''id'', PInt (int (length (ms_notifications st)) + 1)), (''message'', PStr message),
          (''type'', PStr level), (''notification_type'', PStr notification_type),
          (''timestamp'', PFloat now)]]\<rparr>"

definition record_notification :: "real \<Rightarrow> pydict \<Rightarrow> mem_store \<Rightarrow> mem_store" where
  "record_notification now payload st =
     (let entry = (if truthy (py_get payload ''id'') then payload
            else dset ''id'' (py_or (py_get payload ''notification_id'')
                   (PStr (''mem-'' @ nat_str (length (ms_notifications st) + 1)))) payload)
      in st\<lparr>ms_notifications :=
           push_capped 100 (setdefault ''timestamp'' (PFloat now) entry) (ms_notifications st)\<rparr>)"

text \<open>\<open>{**existing, **{k: v for k, v in payload.items() if v is not None}}\<close>\<close>
definition merge_non_null :: "pydict \<Rightarrow> pydict \<Rightarrow> pydict" where
  "merge_non_null existing payload = dmerge existing (filter (\<lambda>(k, v). v \<noteq> PNone) payload)"

text \<open>the first row that matches is replaced; None when no row does\<close>
fun merge_first :: "(pydict \<Rightarrow> bool) \<Rightarrow> pydict \<Rightarrow> pydict list \<Rightarrow> pydict list option" where
  "merge_first P payload [] = None"
| "merge_first P payload (r # rs) =
     (if P r then Some (merge_non_null r payload # rs)
      else map_option (\<lambda>l. r # l) (merge_first P payload rs))"

definition add_grade :: "real \<Rightarrow> pydict \<Rightarrow> mem_store \<Rightarrow> mem_store" where
  "add_grade now grade_payload st =
     (let payload = setdefault ''timestamp'' (PFloat now) grade_payload;
          trace_id = py_get payload ''trace_id'';
          merged = (if truthy trace_id
            then merge_first (\<lambda>r. py_get r ''trace_id'' = trace_id) payload (ms_grade_history st)
            else None)
      in st\<lparr>ms_grade_history := (case merged of Some rows \<Rightarrow> rows
            | None \<Rightarrow> push_capped 500 payload (ms_grade_history st))\<rparr>)"

definition newest :: "nat \<Rightarrow> int \<Rightarrow> pydict list \<Rightarrow> pydict list" where
  "newest hi limit rows = rev (last_n (nat (max 1 (min limit (int hi)))) rows)"

definition get_grades :: "int \<Rightarrow> mem_store \<Rightarrow> pydict list" where
  "get_grades limit st = newest 200 limit (ms_grade_history st)"

definition get_overall_grades :: "int \<Rightarrow> mem_store \<Rightarrow> pydict list" where
  "get_overall_grades limit st =
     newest 200 limit (filter (\<lambda>g. py_get g ''grade_type'' \<in> {PNone, PStr ''overall''})
       (ms_grade_history st))"

definition add_event :: "real \<Rightarrow> pydict \<Rightarrow> mem_store \<Rightarrow> mem_store" where
  "add_event now p st = st\<lparr>ms_event_history :=
     push_capped 1000 (setdefault ''timestamp'' (PFloat now) p) (ms_event_history st)\<rparr>"

definition get_events :: "int \<Rightarrow> mem_store \<Rightarrow> pydict list" where
  "get_events limit st = newest 200 limit (ms_event_history st)"

definition add_vector_memory :: "real \<Rightarrow> pydict \<Rightarrow> mem_store \<Rightarrow> mem_store" where
  "add_vector_memory now p st = st\<lparr>ms_vector_memory :=
     push_capped 1000 (setdefault ''created_at'' (PFloat now) p) (ms_vector_memory st)\<rparr>"

definition add_agent_run :: "real \<Rightarrow> pydict \<Rightarrow> mem_store \<Rightarrow> mem_store" where
  "add_agent_run now p st = st\<lparr>ms_agent_runs :=
     push_capped 500 (setdefault ''created_at'' (PFloat now) p) (ms_agent_runs st)\<rparr>"

definition add_order :: "real \<Rightarrow> pydict \<Rightarrow> mem_store \<Rightarrow> mem_store" where
  "add_order now p st = st\<lparr>ms_orders :=
     push_capped 500 (setdefault ''created_at'' (PFloat now) p) (ms_orders st)\<rparr>"

definition add_closed_trade :: "real \<Rightarrow> pydict \<Rightarrow> mem_store \<Rightarrow> mem_store" where
  "add_closed_trade now p st = st\<lparr>ms_closed_trades :=
     push_capped 500 (setdefault ''timestamp'' (PFloat now) p) (ms_closed_trades st)\<rparr>"

definition add_agent_log :: "real \<Rightarrow> pydict \<Rightarrow> mem_store \<Rightarrow> mem_store" where
  "add_agent_log now p st = st\<lparr>ms_agent_logs :=
     push_capped 500 (setdefault ''timestamp'' (PFloat now) p) (ms_agent_logs st)\<rparr>"

definition upsert_trade_fill :: "real \<Rightarrow> pydict \<Rightarrow> mem_store \<Rightarrow> mem_store" where
  "upsert_trade_fill now trade st =
     (let payload = setdefault ''created_at'' (PFloat now) trade;
          key = py_or (py_get payload ''execution_trace_id'') (py_get payload ''order_id'');
          merged = (if truthy key
            then merge_first (\<lambda>r. py_get r ''execution_trace_id'' = key \<or> py_get r ''order_id'' = key)
                   payload (ms_trade_feed st)
            else None)
      in st\<lparr>ms_trade_feed := (case merged of Some rows \<Rightarrow> rows
            | None \<Rightarrow> push_capped 500 payload (ms_trade_feed st))\<rparr>)"

definition add_trade_evaluation :: "real \<Rightarrow> pydict \<Rightarrow> mem_store \<Rightarrow> mem_store" where
  "add_trade_evaluation now p st = st\<lparr>ms_trade_evaluations :=
     push_capped 500 (setdefault ''created_at'' (PFloat now) p) (ms_trade_evaluations st)\<rparr>"

definition get_trade_evaluations :: "int \<Rightarrow> mem_store \<Rightarrow> pydict list" where
  "get_trade_evaluations limit st = newest 200 limit (ms_trade_evaluations st)"

definition with_id :: "string \<Rightarrow> pydict \<Rightarrow> pydict" where
  "with_id uuid p = (if truthy (py_get p ''id'') then p else dset ''id'' (PStr uuid) p)"

definition add_reflection :: "string \<Rightarrow> real \<Rightarrow> pydict \<Rightarrow> mem_store \<Rightarrow> mem_store" where
  "add_reflection uuid now p st = st\<lparr>ms_reflections :=
     push_capped 100 (setdefault ''created_at'' (PFloat now) (with_id uuid p)) (ms_reflections st)\<rparr>"

definition get_reflections :: "int \<Rightarrow> mem_store \<Rightarrow> pydict list" where
  "get_reflections limit st = newest 50 limit (ms_reflections st)"

definition add_strategy :: "string \<Rightarrow> real \<Rightarrow> pydict \<Rightarrow> mem_store \<Rightarrow> mem_store" where
  "add_strategy uuid now p st = st\<lparr>ms_strategies :=
     push_capped 100 (setdefault ''created_at'' (PFloat now) (with_id uuid p)) (ms_strategies st)\<rparr>"

definition get_strategies :: "int \<Rightarrow> mem_store \<Rightarrow> pydict list" where
  "get_strategies limit st = newest 50 limit (ms_strategies st)"

definition reject_sell_no_position ::
  "real \<Rightarrow> string \<Rightarrow> string \<Rightarrow> string \<Rightarrow> string \<Rightarrow> mem_store \<Rightarrow> mem_store" where
  "reject_sell_no_position now symbol trace_id event_id reason st =
     st\<lparr>ms_rejected_sells := push_capped 500
        [(''symbol'', PStr symbol), (''side'', PStr ''sell''), (''rejection_reason'', PStr reason),
         (''trace_id'', PStr trace_id), (''id'', PStr event_id), (''timestamp'', PFloat now)]
        (ms_rejected_sells st)\<rparr>"

section \<open>Decisions\<close>

definition decision_key :: "(pyval \<Rightarrow> string) \<Rightarrow> pydict \<Rightarrow> string" where
  "decision_key rp payload =
     (let txt = (\<lambda>k. py_str rp (py_or (py_get payload k) (PStr '''')))
      in case find (\<lambda>k. truthy (py_get payload k))
                [''redis_stream_id'', ''stream_id'', ''id'', ''trace_id''] of
           Some k \<Rightarrow> k @ '':'' @ py_str rp (py_get payload k)
         | None \<Rightarrow> ''derived:'' @ txt ''timestamp'' @ '':'' @ txt ''symbol'' @ '':'' @ txt ''action''
              @ '':'' @ txt ''price'')"

text \<open>\<open>while len(order) > cap: keys.discard(order.popleft())\<close>\<close>
fun prune_keys :: "nat \<Rightarrow> string set \<Rightarrow> string list \<Rightarrow> string set \<times> string list" where
  "prune_keys cap ks [] = (ks, [])"
| "prune_keys cap ks (k # rest) =
     (if length (k # rest) > cap then prune_keys cap (ks - {k}) rest else (ks, k # rest))"

definition decision_event :: "(pyval \<Rightarrow> string) \<Rightarrow> string \<Rightarrow> pydict \<Rightarrow> mem_store \<Rightarrow> pydict" where
  "decision_event rp now_iso payload st =
     (let price = first_nonzero [safe_float (py_get payload ''price'')];
          quantity = (let q = safe_float (py_get payload ''qty'')
            in if (case q of None \<Rightarrow> True | Some x \<Rightarrow> x \<le> 0) \<and> price > 0
               then Some (DEFAULT_TRADE_NOTIONAL / price) else q)
      in [(''id'', py_or (py_get payload ''id'') (py_or (py_get payload ''trace_id'')
             (PStr (''mem-dec-'' @ nat_str (length (ms_decisions st) + 1))))),
          (''trace_id'', py_get payload ''trace_id''),
          (''timestamp'', py_or (py_get payload ''timestamp'') (PStr now_iso)),
          (''symbol'', PStr (py_strip (py_str rp (py_or (py_get payload ''symbol'') (PStr ''''))))),
          (''action'', PStr (py_upper (py_str rp (dget payload ''action'' (PStr ''hold''))))),
          (''price'', PFloat price), (''qty'', PFloat (first_nonzero [quantity])),
          (''confidence'', opt_float (safe_float (py_get payload ''confidence''))),
          (''agent'', py_or (py_get payload ''agent'') (PStr ''reasoning_agent'')),
          (''reason'', py_or (py_get payload ''reasoning_summary'') (py_get payload ''reason''))])"

definition record_decision :: "(pyval \<Rightarrow> string) \<Rightarrow> string \<Rightarrow> pydict \<Rightarrow> mem_store \<Rightarrow> pydict \<times> mem_store" where
  "record_decision rp now_iso payload st =
     (let key = decision_key rp payload
      in if key \<in> ms_applied_keys st
         then ([(''id'', py_or (py_get payload ''id'') (py_or (py_get payload ''trace_id'') (PStr key))),
                (''deduplicated'', PBool True)], st)
         else case prune_keys DECISION_KEY_CAP (insert key (ms_applied_keys st)) (ms_key_order st @ [key]) of
                (ks, ord) \<Rightarrow>
                  let st1 = st\<lparr>ms_applied_keys := ks, ms_key_order := ord\<rparr>;
                      event = decision_event rp now_iso payload st1
                  in (event, st1\<lparr>ms_decisions := push_capped 500 event (ms_decisions st1)\<rparr>))"

section \<open>Paired PnL\<close>

record pnl_summary =
  ps_realized :: real
  ps_unrealized :: real
  ps_total :: real
  ps_closed :: nat
  ps_winning :: nat
  ps_win_rate :: real
  ps_open :: nat

definition paired_row :: "(pyval \<Rightarrow> string) \<Rightarrow> pydict \<Rightarrow> pydict \<times> real" where
  "paired_row rp row =
     (case position_unrealized_pnl rp row of
        Some u \<Rightarrow> (dset ''unrealized_pnl'' (PFloat u) row, u)
      | None \<Rightarrow> (case safe_float (py_get row ''unrealized_pnl'') of
            Some x \<Rightarrow> (dset ''unrealized_pnl'' (PFloat (py_round 8 x)) row, x)
          | None \<Rightarrow> (dset ''pnl_stale'' (PBool True) (dset ''unrealized_pnl'' PNone row), 0)))"

definition order_pnl :: "pydict \<Rightarrow> real" where
  "order_pnl ord = first_nonzero [safe_float (py_get ord ''pnl'')]"

definition paired_pnl_payload ::
  "(pyval \<Rightarrow> string) \<Rightarrow> mem_store \<Rightarrow> pydict list \<times> pydict list \<times> pnl_summary" where
  "paired_pnl_payload rp st =
     (let closed_trades = last_n 100 (ms_orders st);
          realized = sum_list (map order_pnl closed_trades);
          winning = length (filter (\<lambda>t. order_pnl t > 0) closed_trades);
          losing = length (filter (\<lambda>t. order_pnl t < 0) closed_trades);
          rows = map (paired_row rp) (open_positions rp st);
          unrealized = sum_list (map snd rows)
      in (closed_trades, map fst rows,
          \<lparr>ps_realized = py_round 8 realized, ps_unrealized = py_round 8 unrealized,
           ps_total = py_round 8 (realized + unrealized), ps_closed = winning + losing,
           ps_winning = winning,
           ps_win_rate = py_round 2 (win_rate_from_counts winning losing * 100),
           ps_open = length rows\<rparr>))"

section \<open>Store invariant\<close>

text \<open>
  Every capped collection is within its cap, and the decision-dedup set is exactly the
  set of the keys in its insertion-order companion.
\<close>

definition keys_ok :: "mem_store \<Rightarrow> bool" where
  "keys_ok st \<longleftrightarrow> ms_applied_keys st = set (ms_key_order st) \<and> distinct (ms_key_order st)
     \<and> length (ms_key_order st) \<le> DECISION_KEY_CAP"

definition caps_ok :: "mem_store \<Rightarrow> bool" where
  "caps_ok st \<longleftrightarrow> length (ms_grade_history st) \<le> 500 \<and> length (ms_event_history st) \<le> 1000
     \<and> length (ms_vector_memory st) \<le> 1000 \<and> length (ms_agent_runs st) \<le> 500
     \<and> length (ms_agent_logs st) \<le> 500 \<and> length (ms_orders st) \<le> 500
     \<and> length (ms_trade_feed st) \<le> 500 \<and> length (ms_trade_evaluations st) \<le> 500
     \<and> length (ms_reflections st) \<le> 100 \<and> length (ms_strategies st) \<le> 100
     \<and> length (ms_decisions st) \<le> 500 \<and> length (ms_closed_trades st) \<le> 500
     \<and> length (ms_rejected_sells st) \<le> 500 \<and> length (ms_equity_curve st) \<le> 1000"

lemma length_push_capped_numeral [simp]:
  "length xs \<le> numeral n \<Longrightarrow> length (push_capped (numeral n) x xs) \<le> numeral n"
  by (rule length_push_capped) simp_all

lemma merge_first_length: "merge_first P x rs = Some rs' \<Longrightarrow> length rs' = length rs"
  by (induction rs arbitrary: rs') (auto split: if_splits)

lemma merge_first_None: "merge_first P x rs = None \<longleftrightarrow> (\<forall>r \<in> set rs. \<not> P r)"
  by (induction rs) auto

lemma prune_keys_eq:
  "prune_keys cap ks ord =
     (ks - set (take (length ord - cap) ord), drop (length ord - cap) ord)"
proof (induction ord arbitrary: ks)
  case (Cons k rest)
  show ?case
  proof (cases "length (k # rest) > cap")
    case True
    then have "length (k # rest) - cap = Suc (length rest - cap)" by simp
    with True Cons show ?thesis by auto
  qed simp
qed simp

lemma record_decision_keys_ok:
  assumes "keys_ok st"
  shows "keys_ok (snd (record_decision rp now p st))"
proof (cases "decision_key rp p \<in> ms_applied_keys st")
  case False
  define o' where "o' = ms_key_order st @ [decision_key rp p]"
  have d: "distinct o'" and s: "insert (decision_key rp p) (ms_applied_keys st) = set o'"
    using False assms by (auto simp: o'_def keys_ok_def)
  have "set o' - set (take n o') = set (drop n o')" for n
    using d by (metis Diff_cancel Un_Diff append_take_drop_id distinct_append set_append Diff_triv
        Int_commute sup_bot_left)
  then show ?thesis using False d s
    by (simp add: record_decision_def Let_def prune_keys_eq keys_ok_def o'_def [symmetric])
qed (use assms in \<open>simp add: record_decision_def Let_def\<close>)

lemma record_decision_key_kept:
  assumes "keys_ok st"
  shows "decision_key rp p \<in> ms_applied_keys (snd (record_decision rp now p st))"
proof (cases "decision_key rp p \<in> ms_applied_keys st")
  case False
  define o' where "o' = ms_key_order st @ [decision_key rp p]"
  have "length o' - DECISION_KEY_CAP \<le> length (ms_key_order st)"
    by (simp add: o'_def DECISION_KEY_CAP_def)
  then have "set (take (length o' - DECISION_KEY_CAP) o') \<subseteq> set (ms_key_order st)"
    by (simp add: o'_def set_take_subset)
  with assms False have "decision_key rp p \<notin> set (take (length o' - DECISION_KEY_CAP) o')"
    by (auto simp: keys_ok_def)
  with False show ?thesis
    by (simp add: record_decision_def Let_def prune_keys_eq o'_def [symmetric])
qed (simp add: record_decision_def Let_def)

lemma add_grade_fields:
  "add_grade now p st = st\<lparr>ms_grade_history := ms_grade_history (add_grade now p st)\<rparr>"
  by (simp add: add_grade_def Let_def)

lemma upsert_fill_fields:
  "upsert_trade_fill now p st = st\<lparr>ms_trade_feed := ms_trade_feed (upsert_trade_fill now p st)\<rparr>"
  by (simp add: upsert_trade_fill_def Let_def)

lemma add_grade_length: "length (ms_grade_history st) \<le> 500 \<Longrightarrow> length (ms_grade_history (add_grade now p st)) \<le> 500"
  by (auto simp: add_grade_def Let_def split: option.splits if_splits dest: merge_first_length)

lemma upsert_fill_length: "length (ms_trade_feed st) \<le> 500 \<Longrightarrow> length (ms_trade_feed (upsert_trade_fill now p st)) \<le> 500"
  by (auto simp: upsert_trade_fill_def Let_def split: option.splits if_splits dest: merge_first_length)

lemma apply_prices_fields: "\<exists>ps. apply_current_prices prices st = st\<lparr>ms_positions := ps\<rparr>"
  unfolding apply_current_prices_def
proof (induction prices arbitrary: st)
  case Nil
  show ?case by (rule exI [of _ "ms_positions st"]) simp
next
  case (Cons a prices)
  define st1 where "st1 = (case a of (symbol, price) \<Rightarrow>
      case (safe_float price, map_of (ms_positions st) symbol) of
        (Some v, Some position) \<Rightarrow> st\<lparr>ms_positions := dset symbol
            (dset ''current_price'' (PFloat v) (dset ''last_price'' (PFloat v) position))
            (ms_positions st)\<rparr>
      | _ \<Rightarrow> st)"
  have "\<exists>ps. st1 = st\<lparr>ms_positions := ps\<rparr>"
    by (auto simp: st1_def split: prod.splits option.splits intro: exI [of _ "ms_positions st"])
  then obtain ps where "st1 = st\<lparr>ms_positions := ps\<rparr>" by blast
  with Cons.IH [of st1] show ?case by (auto simp: st1_def split_def)
qed

inductive store_step :: "mem_store \<Rightarrow> mem_store \<Rightarrow> bool" where
  "store_step st (mirror_broker_position rp sy bp sid st)"
| "store_step st (upsert_position sy p st)"
| "store_step st (apply_current_prices prices st)"
| "store_step st (upsert_agent a d st)"
| "store_step st (add_notification now m l nt st)"
| "store_step st (record_notification now p st)"
| "store_step st (add_grade now p st)"
| "store_step st (add_event now p st)"
| "store_step st (add_vector_memory now p st)"
| "store_step st (add_agent_run now p st)"
| "store_step st (add_order now p st)"
| "store_step st (add_closed_trade now p st)"
| "store_step st (add_agent_log now p st)"
| "store_step st (upsert_trade_fill now p st)"
| "store_step st (add_trade_evaluation now p st)"
| "store_step st (add_reflection u now p st)"
| "store_step st (add_strategy u now p st)"
| "store_step st (reject_sell_no_position now sy t ev r st)"
| "store_step st (snd (record_decision rp now_iso p st))"

inductive store_reachable :: "mem_store \<Rightarrow> bool" where
  store_init: "store_reachable empty_store"
| store_next: "store_reachable st \<Longrightarrow> store_step st st' \<Longrightarrow> store_reachable st'"

lemmas store_adders = mirror_broker_position_def upsert_position_def upsert_agent_def
  add_notification_def record_notification_def add_event_def add_vector_memory_def add_agent_run_def
  add_order_def add_closed_trade_def add_agent_log_def add_trade_evaluation_def add_reflection_def
  add_strategy_def reject_sell_no_position_def

lemma record_decision_fields:
  "\<exists>a b c. snd (record_decision rp now p st) =
     st\<lparr>ms_applied_keys := a, ms_key_order := b, ms_decisions := c\<rparr>"
proof (cases "decision_key rp p \<in> ms_applied_keys st")
  case True
  then show ?thesis
    by (intro exI [of _ "ms_applied_keys st"] exI [of _ "ms_key_order st"] exI [of _ "ms_decisions st"])
      (simp add: record_decision_def)
next
  case False
  then show ?thesis by (auto simp: record_decision_def Let_def prune_keys_eq)
qed

lemma record_decision_length:
  "length (ms_decisions st) \<le> 500 \<Longrightarrow> length (ms_decisions (snd (record_decision rp now p st))) \<le> 500"
  by (simp add: record_decision_def Let_def prune_keys_eq)

lemma store_step_keys: "store_step st st' \<Longrightarrow> keys_ok st \<Longrightarrow> keys_ok st'"
proof (induction rule: store_step.induct)
  case (3 st prices)
  then show ?case using apply_prices_fields [of prices st] by (auto simp: keys_ok_def)
next
  case (7 st now p)
  then show ?case by (subst add_grade_fields) (simp add: keys_ok_def)
next
  case (14 st now p)
  then show ?case by (subst upsert_fill_fields) (simp add: keys_ok_def)
next
  case (19 st rp now_iso p)
  then show ?case by (rule record_decision_keys_ok)
qed (simp_all add: store_adders Let_def keys_ok_def)

lemma store_step_caps: "store_step st st' \<Longrightarrow> caps_ok st \<Longrightarrow> caps_ok st'"
proof (induction rule: store_step.induct)
  case (3 st prices)
  then show ?case using apply_prices_fields [of prices st] by (auto simp: caps_ok_def)
next
  case (7 st now p)
  then show ?case by (subst add_grade_fields) (simp add: caps_ok_def add_grade_length)
next
  case (14 st now p)
  then show ?case by (subst upsert_fill_fields) (simp add: caps_ok_def upsert_fill_length)
next
  case (19 st rp now_iso p)
  then show ?case
    using record_decision_fields [of rp now_iso p st] record_decision_length [of st rp now_iso p]
    by (auto simp: caps_ok_def)
qed (simp_all add: store_adders Let_def caps_ok_def)

lemma store_reachable_ok: "store_reachable st \<Longrightarrow> keys_ok st \<and> caps_ok st"
proof (induction rule: store_reachable.induct)
  case store_init
  show ?case by (simp add: keys_ok_def caps_ok_def empty_store_def DECISION_KEY_CAP_def)
qed (auto intro: store_step_keys store_step_caps)

section \<open>Win rates\<close>

lemma order_pnl_realized: "order_pnl t = (case realized_pnl_of t of None \<Rightarrow> 0 | Some x \<Rightarrow> x)"
proof -
  have e: "safe_float (PStr '''') = None" by code_simp
  show ?thesis unfolding order_pnl_def realized_pnl_of_def Let_def
    by (auto simp: e split: option.splits)
qed

lemma map_filter_pnl:
  "sum_list (List.map_filter realized_pnl_of ts) = sum_list (map order_pnl ts)"
  "length (filter (\<lambda>p. p > 0) (List.map_filter realized_pnl_of ts)) = length (filter (\<lambda>t. order_pnl t > 0) ts)"
  "length (filter (\<lambda>p. p < 0) (List.map_filter realized_pnl_of ts)) = length (filter (\<lambda>t. order_pnl t < 0) ts)"
  by (induction ts) (auto simp: List.map_filter_simps order_pnl_realized split: option.splits)

lemma win_rate_bounds: "0 \<le> win_rate_from_counts w l \<and> win_rate_from_counts w l \<le> 1"
  by (simp add: win_rate_from_counts_def Let_def divide_le_eq)

section \<open>Properties\<close>

text \<open>However the store is used, its dedup set is exactly the set of the remembered decision keys, at
  most 2000 of them, and every capped collection stays within its cap.\<close>
theorem store_stays_bounded:
  assumes "store_reachable st"
  shows "keys_ok st \<and> caps_ok st"
  using store_reachable_ok [OF assms] .

theorem store_stays_bounded_witness:
  "keys_ok (add_order 0 [] empty_store) \<and> length (ms_orders (add_order 0 [] empty_store)) \<le> 500"
proof -
  have "store_reachable (add_order 0 [] empty_store)"
    by (rule store_next [OF store_init]) (rule store_step.intros)
  from store_stays_bounded [OF this] show ?thesis by (simp add: caps_ok_def)
qed

text \<open>Recording a decision is idempotent: a redelivery of the same payload is answered as a duplicate
  and leaves the store exactly as it is.\<close>
theorem decision_recorded_once:
  assumes "store_reachable st" "st' = snd (record_decision rp now p st)"
  shows "snd (record_decision rp now' p st') = st'
     \<and> py_get (fst (record_decision rp now' p st')) ''deduplicated'' = PBool True"
proof -
  have "decision_key rp p \<in> ms_applied_keys st'"
    using record_decision_key_kept store_reachable_ok [OF assms(1)] assms(2) by blast
  then show ?thesis by (simp add: record_decision_def)
qed

theorem decision_recorded_once_witness:
  "snd (record_decision (\<lambda>_. ''?'') ''t1'' [(''trace_id'', PStr ''a'')]
      (snd (record_decision (\<lambda>_. ''?'') ''t0'' [(''trace_id'', PStr ''a'')] empty_store)))
   = snd (record_decision (\<lambda>_. ''?'') ''t0'' [(''trace_id'', PStr ''a'')] empty_store)"
  using decision_recorded_once [OF store_init refl, of "\<lambda>_. ''?''" "''t1''"] by blast

text \<open>The position list, its normalized view and the active-position count never disagree in number.\<close>
theorem position_views_agree:
  "length (open_positions rp st) = get_active_position_count st
   \<and> length (normalized_open_positions rp st) = get_active_position_count st"
  by (simp add: open_positions_def normalized_open_positions_def get_active_position_count_def)

text \<open>The paired-PnL summary computes realized PnL, wins, closed trades and win rate exactly as the
  canonical closed-trade statistics do over the same (last hundred) orders.\<close>
theorem paired_pnl_matches_canonical_stats:
  assumes "paired_pnl_payload rp st = (cts, rows, summary)"
  shows "ps_realized summary = cts_realized_pnl (closed_trade_stats cts)
     \<and> ps_winning summary = cts_winning (closed_trade_stats cts)
     \<and> ps_closed summary = cts_closed (closed_trade_stats cts)
     \<and> ps_win_rate summary = py_round 2 (cts_win_rate (closed_trade_stats cts) * 100)
     \<and> 0 \<le> ps_win_rate summary \<and> ps_win_rate summary \<le> 100"
proof -
  have "0 \<le> py_round 2 (win_rate_from_counts w l * 100)" "py_round 2 (win_rate_from_counts w l * 100) \<le> 100" for w l
    using win_rate_bounds [of w l] by (auto intro!: py_round_bounds)
  then show ?thesis using assms
    by (auto simp: paired_pnl_payload_def closed_trade_stats_def Let_def map_filter_pnl)
qed

theorem paired_pnl_matches_canonical_stats_witness:
  "\<exists>cts rows summary. paired_pnl_payload (\<lambda>_. ''?'') (add_order 0 [(''pnl'', PFloat 5)] empty_store)
      = (cts, rows, summary) \<and> ps_winning summary = cts_winning (closed_trade_stats cts)"
proof -
  obtain c r s where x: "paired_pnl_payload (\<lambda>_. ''?'') (add_order 0 [(''pnl'', PFloat 5)] empty_store) = (c, r, s)"
    by (cases "paired_pnl_payload (\<lambda>_. ''?'') (add_order 0 [(''pnl'', PFloat 5)] empty_store)")
  from paired_pnl_matches_canonical_stats [OF x] x show ?thesis by blast
qed

lemma mirrored_fields:
  "py_get (mirrored_position rp sy bp q sid) ''qty'' = PFloat \<bar>q\<bar>"
  "dget (mirrored_position rp sy bp q sid) ''side'' x = PStr (lower_side rp (py_get bp ''side''))"
  by (simp_all add: mirrored_position_def Let_def split: option.splits)

text \<open>Mirroring the broker keeps the store a faithful view: after the mirror, the symbol is open and
  long in the store exactly when the broker's position is long and larger than the epsilon, a flat
  position has no row, and other symbols are untouched.\<close>
theorem mirror_is_faithful:
  assumes q: "py_get bp ''qty'' = PFloat q" and side: "py_get bp ''side'' = PStr side"
    and known: "side = ''long'' \<or> side = ''short'' \<or> side = ''flat''"
  shows "(has_open_position rp sy (mirror_broker_position rp sy bp sid st)
            \<longleftrightarrow> side = ''long'' \<and> POSITION_EPSILON < \<bar>q\<bar>)
     \<and> (\<bar>q\<bar> \<le> POSITION_EPSILON \<longrightarrow> map_of (ms_positions (mirror_broker_position rp sy bp sid st)) sy = None)
     \<and> (sy' \<noteq> sy \<longrightarrow> map_of (ms_positions (mirror_broker_position rp sy bp sid st)) sy'
            = map_of (ms_positions st) sy')"
proof -
  have f: "first_nonzero [safe_float (py_get bp ''qty'')] = q" by (simp add: q)
  have l: "lower_side rp (py_get bp ''side'') = side"
    using known by (auto simp: side lower_side_def py_or_def)
  have ll: "py_lower side = side" using known by auto
  have m: "mirror_broker_position rp sy bp sid st = (if \<bar>q\<bar> \<le> POSITION_EPSILON
      then st\<lparr>ms_positions := AList.delete sy (ms_positions st)\<rparr>
      else st\<lparr>ms_positions := dset sy (mirrored_position rp sy bp q sid) (ms_positions st)\<rparr>)"
    unfolding mirror_broker_position_def Let_def f by (rule refl)
  show ?thesis
  proof (cases "\<bar>q\<bar> \<le> POSITION_EPSILON")
    case True
    then show ?thesis
      by (simp add: m has_open_position_def delete_conv')
  next
    case False
    then have "0 < \<bar>q\<bar>" by (simp add: POSITION_EPSILON_def)
    with False show ?thesis
      by (simp add: m has_open_position_def mirrored_fields l ll)
  qed
qed

definition broker_long :: pydict where
  "broker_long = [(''side'', PStr ''long''), (''qty'', PFloat 2), (''entry_price'', PFloat 100),
     (''current_price'', PFloat 110)]"

theorem mirror_is_faithful_witness:
  "has_open_position (\<lambda>_. ''?'') ''BTC'' (mirror_broker_position (\<lambda>_. ''?'') ''BTC'' broker_long None empty_store)"
  using mirror_is_faithful [of broker_long 2 "''long''" "\<lambda>_. ''?''" "''BTC''" None empty_store]
  by (simp add: broker_long_def POSITION_EPSILON_def)

text \<open>The notification list has no cap on the plain path: n system notifications on a fresh store
  leave n entries.\<close>
theorem add_notification_unbounded:
  "length (ms_notifications ((add_notification now message level nt ^^ n) st)) = length (ms_notifications st) + n"
  by (induction n) (simp_all add: add_notification_def)

end
