(* ===== verification/Fill_Publisher.thy ===== *)
theory Fill_Publisher
  imports Effects
begin

text \<open>
  The stream events of a completed fill (\<open>api/services/execution/fill_publisher.py\<close>). The
  event bus is a parameter: \<open>pub stream msg\<close> is \<open>bus.publish\<close>, which may raise. A timestamp
  is its ISO text, so \<open>filled_at.isoformat()\<close> is the field itself.
\<close>

record FillContext =
  fc_order_id :: string
  fc_strategy_id :: string
  fc_symbol :: string
  fc_side :: string
  fc_qty :: real
  fc_price :: real
  fc_fill_price :: real
  fc_entry_price :: real
  fc_signal_confidence :: real
  fc_pnl_value :: "real option"
  fc_pnl_percent :: real
  fc_realized_pnl :: real
  fc_is_close :: bool
  fc_key :: string
  fc_trace_id :: string
  fc_vwap_plan :: "real list option"
  fc_filled_at :: string
  fc_model_used :: string
  fc_primary_edge :: string
  fc_decision_cost_usd :: real

definition oflt :: "real option \<Rightarrow> pyval" where
  "oflt x = (case x of None \<Rightarrow> PNone | Some v \<Rightarrow> PFloat v)"

definition vwap_val :: "real list option \<Rightarrow> pyval" where
  "vwap_val p = (case p of None \<Rightarrow> PNone | Some xs \<Rightarrow> PList (map PFloat xs))"

definition exit_price_of :: "FillContext \<Rightarrow> pyval" where
  "exit_price_of c = (if fc_is_close c then PFloat (fc_fill_price c) else PNone)"

definition execution_msg :: "string \<Rightarrow> FillContext \<Rightarrow> pydict" where
  "execution_msg uuid c =
     [(''type'', PStr ''order_filled''), (''msg_id'', PStr uuid), (''order_id'', PStr (fc_order_id c)),
      (''strategy_id'', PStr (fc_strategy_id c)), (''symbol'', PStr (fc_symbol c)),
      (''side'', PStr (fc_side c)), (''qty'', PFloat (fc_qty c)), (''price'', PFloat (fc_price c)),
      (''fill_price'', PFloat (fc_fill_price c)), (''pnl'', oflt (fc_pnl_value c)),
      (''confidence'', PFloat (fc_signal_confidence c)), (''filled_at'', PStr (fc_filled_at c)),
      (''executed_at'', PStr (fc_filled_at c)), (''session_id'', PStr (fc_strategy_id c)),
      (''idempotency_key'', PStr (fc_key c)), (''trace_id'', PStr (fc_trace_id c)),
      (''vwap_plan'', vwap_val (fc_vwap_plan c)), (''source'', PStr ''execution_engine'')]"

definition performance_msg :: "string \<Rightarrow> string \<Rightarrow> FillContext \<Rightarrow> pydict" where
  "performance_msg uuid now_iso c =
     [(''msg_id'', PStr uuid), (''type'', PStr ''trade_performance''), (''schema_version'', PStr ''v3''),
      (''order_id'', PStr (fc_order_id c)), (''trade_id'', PStr (fc_order_id c)),
      (''strategy_id'', PStr (fc_strategy_id c)), (''symbol'', PStr (fc_symbol c)),
      (''side'', PStr (fc_side c)), (''qty'', PFloat (fc_qty c)), (''quantity'', PFloat (fc_qty c)),
      (''fill_price'', PFloat (fc_fill_price c)), (''entry_price'', PFloat (fc_entry_price c)),
      (''exit_price'', exit_price_of c), (''pnl'', oflt (fc_pnl_value c)),
      (''pnl_percent'', PFloat (fc_pnl_percent c)), (''trace_id'', PStr (fc_trace_id c)),
      (''filled_at'', PStr (fc_filled_at c)), (''entry_time'', PStr (fc_filled_at c)),
      (''exit_time'', if fc_is_close c then PStr (fc_filled_at c) else PNone),
      (''timestamp'', PStr now_iso), (''source'', PStr ''execution_engine''),
      (''session_id'', PStr (fc_strategy_id c)), (''model_used'', PStr (fc_model_used c)),
      (''primary_edge'', PStr (fc_primary_edge c)),
      (''decision_cost_usd'', PFloat (fc_decision_cost_usd c))]"

definition completed_msg :: "string \<Rightarrow> string \<Rightarrow> FillContext \<Rightarrow> pydict" where
  "completed_msg uuid now_iso c =
     [(''msg_id'', PStr uuid), (''type'', PStr ''trade_completed''), (''source'', PStr ''execution_engine''),
      (''trace_id'', PStr (fc_trace_id c)), (''session_id'', PStr (fc_strategy_id c)),
      (''order_id'', PStr (fc_order_id c)), (''symbol'', PStr (fc_symbol c)),
      (''side'', PStr (fc_side c)), (''qty'', PFloat (fc_qty c)),
      (''entry_price'', PFloat (fc_entry_price c)), (''exit_price'', PFloat (fc_fill_price c)),
      (''pnl'', PFloat (fc_realized_pnl c)), (''pnl_percent'', PFloat (fc_pnl_percent c)),
      (''timestamp'', PStr now_iso), (''executed_at'', PStr (fc_filled_at c)),
      (''model_used'', PStr (fc_model_used c)), (''primary_edge'', PStr (fc_primary_edge c)),
      (''decision_cost_usd'', PFloat (fc_decision_cost_usd c))]"

definition lifecycle_msg :: "FillContext \<Rightarrow> pydict" where
  "lifecycle_msg c =
     [(''type'', PStr ''trade_filled''), (''symbol'', PStr (fc_symbol c)), (''side'', PStr (fc_side c)),
      (''qty'', PFloat (fc_qty c)), (''entry_price'', PFloat (fc_entry_price c)),
      (''exit_price'', exit_price_of c), (''pnl'', oflt (fc_pnl_value c)),
      (''pnl_percent'', PFloat (fc_pnl_percent c)), (''order_id'', PStr (fc_order_id c)),
      (''execution_trace_id'', PStr (fc_trace_id c)), (''status'', PStr ''filled''),
      (''filled_at'', PStr (fc_filled_at c)), (''timestamp'', PStr (fc_filled_at c)),
      (''session_id'', PStr (fc_strategy_id c)), (''source'', PStr ''execution_engine'')]"

definition publish_fill_events ::
  "(string \<Rightarrow> pydict \<Rightarrow> ('s, unit) eff) \<Rightarrow> (nat \<Rightarrow> string) \<Rightarrow> string \<Rightarrow> FillContext \<Rightarrow> ('s, unit) eff" where
  "publish_fill_events pub uuid now_iso c =
     andthen (pub ''executions'' (execution_msg (uuid 0) c))
    (andthen (pub ''trade_performance'' (performance_msg (uuid 1) now_iso c))
    (andthen (if fc_is_close c then pub ''trade_completed'' (completed_msg (uuid 2) now_iso c) else ret ())
      (pub ''trade_lifecycle'' (lifecycle_msg c))))"

text \<open>the streams a fill reaches, in order\<close>
definition fill_streams :: "FillContext \<Rightarrow> string list" where
  "fill_streams c = [''executions'', ''trade_performance'']
     @ (if fc_is_close c then [''trade_completed''] else []) @ [''trade_lifecycle'']"

end
