(* ===== verification/Redis_Store.thy ===== *)
theory Redis_Store
  imports Py_Prelude
begin

text \<open>
  The Redis-backed lists and counters behind the dashboard (\<open>api/services/redis_store.py\<close>). \<open>redis_lists\<close> is what
  Redis holds: the lists newest first, each entry its JSON text, the set of notification ids read, the
  counters of language-model calls, and the telemetry blob. \<open>redis_env\<close> gives JSON, clock, uuid, the calendar,
  and which calls raise; \<open>ye_cut\<close> is how many commands of a pipeline outside a transaction ran before it failed.
\<close>

datatype redis_call = R_notif_push | R_notif_read | R_read_members | R_read_add | R_read_rem | R_dec_push | R_dec_read
  | R_trade_push | R_trade_read | R_prop_push | R_prop_read | R_llm_read | R_daily_read
  | R_grade_push | R_grade_read | R_tool_save | R_tool_load

record redis_env =
  ye_dumps :: "pydict \<Rightarrow> string"
  ye_loads :: "string \<Rightarrow> pyval option"
  ye_rp :: "pyval \<Rightarrow> string"
  ye_now_iso :: string
  ye_now :: real
  ye_uuid :: string
  ye_today :: string
  ye_iso :: "string \<Rightarrow> real option"
  ye_fails :: "redis_call \<Rightarrow> bool"
  ye_cut :: "nat option"

record redis_lists =
  ry_notifications :: "string list"
  ry_read :: "string set"
  ry_decisions :: "string list"
  ry_trades :: "string list"
  ry_proposals :: "string list"
  ry_llm :: "(string \<times> int) list"
  ry_llm_last :: "(string \<times> int) option"
  ry_daily :: "(string \<times> int) list"
  ry_grades :: "(string \<times> string list) list"
  ry_telemetry :: "string option"

definition REDIS_NOTIFICATIONS_MAX :: nat where "REDIS_NOTIFICATIONS_MAX = 20"
definition REDIS_DECISIONS_MAX :: nat where "REDIS_DECISIONS_MAX = 50"
definition REDIS_CLOSED_TRADES_MAX :: nat where "REDIS_CLOSED_TRADES_MAX = 100"
definition REDIS_PROPOSALS_MAX :: nat where "REDIS_PROPOSALS_MAX = 50"
definition AGENT_GRADE_HISTORY_MAX :: nat where "AGENT_GRADE_HISTORY_MAX = 50"

text \<open>\<open>LPUSH\<close>, then \<open>LTRIM 0 (max - 1)\<close>, in one transaction\<close>
definition lpush_trim :: "nat \<Rightarrow> string \<Rightarrow> string list \<Rightarrow> string list" where
  "lpush_trim cap raw xs = take cap (raw # xs)"

definition safe_loads :: "redis_env \<Rightarrow> string \<Rightarrow> pydict option" where
  "safe_loads e raw = (case ye_loads e raw of Some (PDict d) \<Rightarrow> Some d | _ \<Rightarrow> None)"

definition parsed_rows :: "redis_env \<Rightarrow> string list \<Rightarrow> pydict list" where
  "parsed_rows e xs = List.map_filter (safe_loads e) xs"

text \<open>\<open>max(1, min(int(limit), cap))\<close>\<close>
definition safe_limit :: "nat \<Rightarrow> int \<Rightarrow> nat" where
  "safe_limit cap limit = nat (max 1 (min limit (int cap)))"

definition ensure_key :: "string \<Rightarrow> pyval \<Rightarrow> pydict \<Rightarrow> pydict" where
  "ensure_key k v d = (if truthy (py_get d k) then d else dset k v d)"

definition entry_id :: "redis_env \<Rightarrow> pydict \<Rightarrow> string" where
  "entry_id e d = py_str (ye_rp e) (dget d ''id'' (PStr []))"

definition write_notification :: "string \<Rightarrow> redis_lists \<Rightarrow> redis_lists" where
  "write_notification raw s = s\<lparr>ry_notifications := lpush_trim REDIS_NOTIFICATIONS_MAX raw (ry_notifications s)\<rparr>"

definition write_decision :: "string \<Rightarrow> redis_lists \<Rightarrow> redis_lists" where
  "write_decision raw s = s\<lparr>ry_decisions := lpush_trim REDIS_DECISIONS_MAX raw (ry_decisions s)\<rparr>"

definition write_trade :: "string \<Rightarrow> redis_lists \<Rightarrow> redis_lists" where
  "write_trade raw s = s\<lparr>ry_trades := lpush_trim REDIS_CLOSED_TRADES_MAX raw (ry_trades s)\<rparr>"

definition write_proposal :: "string \<Rightarrow> redis_lists \<Rightarrow> redis_lists" where
  "write_proposal raw s = s\<lparr>ry_proposals := lpush_trim REDIS_PROPOSALS_MAX raw (ry_proposals s)\<rparr>"

definition write_grade :: "string \<Rightarrow> string \<Rightarrow> redis_lists \<Rightarrow> redis_lists" where
  "write_grade name raw s =
     s\<lparr>ry_grades := dset name (lpush_trim AGENT_GRADE_HISTORY_MAX raw (dget (ry_grades s) name [])) (ry_grades s)\<rparr>"

section \<open>Notifications\<close>

definition live_ids :: "redis_env \<Rightarrow> redis_lists \<Rightarrow> string set" where
  "live_ids e s = set (map (entry_id e) (filter (\<lambda>d. truthy (py_get d ''id'')) (parsed_rows e (ry_notifications s))))"

definition prune_read_set :: "redis_env \<Rightarrow> redis_lists \<Rightarrow> redis_lists" where
  "prune_read_set e s =
     (if ye_fails e R_notif_read \<or> ye_fails e R_read_members \<or> ye_fails e R_read_rem then s
      else s\<lparr>ry_read := ry_read s \<inter> live_ids e s\<rparr>)"

definition notification_entry :: "redis_env \<Rightarrow> pydict \<Rightarrow> pydict" where
  "notification_entry e payload =
     setdefault ''read'' (PBool False) (setdefault ''severity'' (PStr ''info'')
       (ensure_key ''timestamp'' (PStr (ye_now_iso e)) (ensure_key ''id'' (PStr (ye_uuid e)) payload)))"

definition push_notification :: "redis_env \<Rightarrow> pydict \<Rightarrow> redis_lists \<Rightarrow> pydict \<times> redis_lists" where
  "push_notification e payload s =
     (let entry = notification_entry e payload;
          s1 = (if ye_fails e R_notif_push then s
                else write_notification (ye_dumps e entry) s)
      in (entry, prune_read_set e s1))"

definition read_ids :: "redis_env \<Rightarrow> redis_lists \<Rightarrow> string set" where
  "read_ids e s = (if ye_fails e R_read_members then {} else ry_read s)"

definition show_read :: "redis_env \<Rightarrow> string set \<Rightarrow> pydict \<Rightarrow> pydict" where
  "show_read e ids d = (if entry_id e d \<in> ids then dset ''read'' (PBool True) d else d)"

definition list_notifications :: "redis_env \<Rightarrow> int \<Rightarrow> redis_lists \<Rightarrow> pydict list" where
  "list_notifications e limit s =
     (if ye_fails e R_notif_read then []
      else map (show_read e (read_ids e s))
             (parsed_rows e (take (safe_limit REDIS_NOTIFICATIONS_MAX limit) (ry_notifications s))))"

definition unread_count :: "redis_env \<Rightarrow> redis_lists \<Rightarrow> nat" where
  "unread_count e s =
     (if ye_fails e R_notif_read \<or> ye_fails e R_read_members then 0
      else length (filter (\<lambda>d. \<not> truthy (py_get d ''read'') \<and> entry_id e d \<notin> ry_read s) (parsed_rows e (ry_notifications s))))"

definition mark_read :: "redis_env \<Rightarrow> string \<Rightarrow> redis_lists \<Rightarrow> bool \<times> redis_lists" where
  "mark_read e notification_id s =
     (if ye_fails e R_read_add then (False, s) else (True, s\<lparr>ry_read := insert notification_id (ry_read s)\<rparr>))"

section \<open>Decisions\<close>

definition push_decision :: "redis_env \<Rightarrow> pydict \<Rightarrow> redis_lists \<Rightarrow> pydict \<times> redis_lists" where
  "push_decision e payload s =
     (let entry = ensure_key ''timestamp'' (PStr (ye_now_iso e)) (ensure_key ''id'' (PStr (ye_uuid e)) payload)
      in (entry, if ye_fails e R_dec_push then s else write_decision (ye_dumps e entry) s))"

definition action_text :: "redis_env \<Rightarrow> pydict \<Rightarrow> string" where
  "action_text e d = py_lower (py_str (ye_rp e) (dget d ''action'' (PStr [])))"

text \<open>the loop appends before it looks at the limit\<close>
fun take_matching :: "(pydict \<Rightarrow> bool) \<Rightarrow> int \<Rightarrow> pydict list \<Rightarrow> nat \<Rightarrow> pydict list" where
  "take_matching P limit [] n = []"
| "take_matching P limit (d # ds) n =
     (if P d then if int (Suc n) \<ge> limit then [d] else d # take_matching P limit ds (Suc n)
      else take_matching P limit ds n)"

definition list_decisions :: "redis_env \<Rightarrow> int \<Rightarrow> string option \<Rightarrow> redis_lists \<Rightarrow> pydict list" where
  "list_decisions e limit action s =
     (if ye_fails e R_dec_read then []
      else let filtered = (case action of None \<Rightarrow> False | Some a \<Rightarrow> a \<noteq> []);
               window = (if filtered then REDIS_DECISIONS_MAX else safe_limit REDIS_DECISIONS_MAX limit)
           in take_matching (\<lambda>d. filtered \<longrightarrow> action_text e d = py_lower (the action)) limit
                (parsed_rows e (take window (ry_decisions s))) 0)"

record decision_stats =
  st_total :: nat
  st_buys :: nat
  st_sells :: nat
  st_holds :: nat
  st_last :: "pydict option"

text \<open>None for what cannot be read as a time\<close>
definition parse_iso_ts :: "redis_env \<Rightarrow> pyval \<Rightarrow> real option" where
  "parse_iso_ts e raw = (case raw of PNone \<Rightarrow> None
     | _ \<Rightarrow> (let ts = py_strip (py_str (ye_rp e) raw) in if ts = [] then None else ye_iso e ts))"

definition in_last_hour :: "redis_env \<Rightarrow> pydict \<Rightarrow> bool" where
  "in_last_hour e d = (case parse_iso_ts e (py_get d ''timestamp'') of None \<Rightarrow> False | Some ts \<Rightarrow> ts \<ge> ye_now e - 3600)"

definition decision_stats_of :: "redis_env \<Rightarrow> redis_lists \<Rightarrow> decision_stats" where
  "decision_stats_of e s =
     (if ye_fails e R_dec_read then \<lparr>st_total = 0, st_buys = 0, st_sells = 0, st_holds = 0, st_last = None\<rparr>
      else let rows = parsed_rows e (ry_decisions s);
               tally = (\<lambda>a. length (filter (\<lambda>d. in_last_hour e d \<and> action_text e d = a) rows))
           in \<lparr>st_total = length rows, st_buys = tally ''buy'', st_sells = tally ''sell'', st_holds = tally ''hold'',
               st_last = (case rows of [] \<Rightarrow> None | d # _ \<Rightarrow> Some d)\<rparr>)"

section \<open>Closed trades, proposals and grades\<close>

definition stamped :: "redis_env \<Rightarrow> pydict \<Rightarrow> pydict" where
  "stamped e payload = ensure_key ''timestamp'' (PStr (ye_now_iso e)) payload"

definition push_closed_round_trip :: "redis_env \<Rightarrow> pydict \<Rightarrow> redis_lists \<Rightarrow> pydict \<times> redis_lists" where
  "push_closed_round_trip e payload s =
     (stamped e payload, if ye_fails e R_trade_push then s else write_trade (ye_dumps e (stamped e payload)) s)"

definition list_closed_trades :: "redis_env \<Rightarrow> int \<Rightarrow> redis_lists \<Rightarrow> pydict list" where
  "list_closed_trades e limit s =
     (if ye_fails e R_trade_read then [] else parsed_rows e (take (safe_limit REDIS_CLOSED_TRADES_MAX limit) (ry_trades s)))"

definition push_proposal :: "redis_env \<Rightarrow> pydict \<Rightarrow> redis_lists \<Rightarrow> pydict \<times> redis_lists" where
  "push_proposal e payload s =
     (stamped e payload, if ye_fails e R_prop_push then s else write_proposal (ye_dumps e (stamped e payload)) s)"

definition list_proposals :: "redis_env \<Rightarrow> int \<Rightarrow> redis_lists \<Rightarrow> pydict list" where
  "list_proposals e limit s =
     (if ye_fails e R_prop_read then [] else parsed_rows e (take (safe_limit REDIS_PROPOSALS_MAX limit) (ry_proposals s)))"

definition record_agent_grade :: "redis_env \<Rightarrow> string \<Rightarrow> pydict \<Rightarrow> redis_lists \<Rightarrow> pydict \<times> redis_lists" where
  "record_agent_grade e name snap s =
     (stamped e snap, if ye_fails e R_grade_push then s else write_grade name (ye_dumps e (stamped e snap)) s)"

definition list_agent_grades :: "redis_env \<Rightarrow> string \<Rightarrow> int \<Rightarrow> redis_lists \<Rightarrow> pydict list" where
  "list_agent_grades e name limit s =
     (if ye_fails e R_grade_read then []
      else parsed_rows e (take (safe_limit AGENT_GRADE_HISTORY_MAX limit) (dget (ry_grades s) name [])))"

section \<open>Counters of model calls\<close>

definition outcome_field :: "string \<Rightarrow> string" where
  "outcome_field outcome = dget [(''success'', ''successes''), (''rate_limit'', ''rate_limits''), (''timeout'', ''timeouts''),
     (''error'', ''errors'')] outcome ''errors''"

definition bump :: "string \<Rightarrow> (string \<times> int) list \<Rightarrow> (string \<times> int) list" where
  "bump k d = dset k (dget d k 0 + 1) d"

text \<open>the commands of the pipeline, in order\<close>
definition llm_commands :: "redis_env \<Rightarrow> string \<Rightarrow> real option \<Rightarrow> (redis_lists \<Rightarrow> redis_lists) list" where
  "llm_commands e outcome latency =
     [\<lambda>s. s\<lparr>ry_llm := bump ''total_calls'' (ry_llm s)\<rparr>,
      \<lambda>s. s\<lparr>ry_llm := bump (outcome_field outcome) (ry_llm s)\<rparr>,
      \<lambda>s. s\<lparr>ry_daily := bump (ye_today e) (ry_daily s)\<rparr>]
     @ (case latency of None \<Rightarrow> []
        | Some l \<Rightarrow> if outcome = ''success'' then [\<lambda>s. s\<lparr>ry_llm_last := Some (ye_now_iso e, trunc_real l)\<rparr>] else [])"

definition record_llm_call :: "redis_env \<Rightarrow> string \<Rightarrow> real option \<Rightarrow> redis_lists \<Rightarrow> redis_lists" where
  "record_llm_call e outcome latency s =
     (let cmds = llm_commands e outcome latency
      in fold (\<lambda>f. f) (case ye_cut e of None \<Rightarrow> cmds | Some n \<Rightarrow> take n cmds) s)"

definition daily_call_count :: "redis_env \<Rightarrow> redis_lists \<Rightarrow> int" where
  "daily_call_count e s = (if ye_fails e R_daily_read then 0 else dget (ry_daily s) (ye_today e) 0)"

record llm_metrics =
  lm_total_calls :: int
  lm_successes :: int
  lm_rate_limits :: int
  lm_timeouts :: int
  lm_errors :: int
  lm_last :: "(string \<times> int) option"
  lm_daily_calls :: int

text \<open>None is the empty dictionary\<close>
definition get_llm_metrics :: "redis_env \<Rightarrow> redis_lists \<Rightarrow> llm_metrics option" where
  "get_llm_metrics e s =
     (if ye_fails e R_llm_read then None
      else let daily = daily_call_count e s; field = (\<lambda>k. dget (ry_llm s) k 0)
           in if ry_llm s = [] \<and> ry_llm_last s = None \<and> daily = 0 then None
              else Some \<lparr>lm_total_calls = field ''total_calls'', lm_successes = field ''successes'',
                lm_rate_limits = field ''rate_limits'', lm_timeouts = field ''timeouts'', lm_errors = field ''errors'',
                lm_last = ry_llm_last s, lm_daily_calls = daily\<rparr>)"

section \<open>Telemetry\<close>

definition save_tool_telemetry :: "redis_env \<Rightarrow> pydict \<Rightarrow> redis_lists \<Rightarrow> redis_lists" where
  "save_tool_telemetry e snap s = (if ye_fails e R_tool_save then s else s\<lparr>ry_telemetry := Some (ye_dumps e snap)\<rparr>)"

definition load_tool_telemetry :: "redis_env \<Rightarrow> redis_lists \<Rightarrow> pydict" where
  "load_tool_telemetry e s =
     (if ye_fails e R_tool_load then []
      else case ry_telemetry s of None \<Rightarrow> [] | Some raw \<Rightarrow> (case safe_loads e raw of None \<Rightarrow> [] | Some d \<Rightarrow> d))"

section \<open>The capped lists\<close>

text \<open>what the five lists promise: a push puts its row in front and drops what exceeds the cap\<close>
locale capped_log =
  fixes rows :: "'s \<Rightarrow> string list" and push :: "string \<Rightarrow> 's \<Rightarrow> 's" and cap :: nat
  assumes rows_push: "rows (push raw s) = take cap (raw # rows s)"
begin

lemma rows_pushes: "length (rows s) \<le> cap \<Longrightarrow> rows (fold push raws s) = take cap (rev raws @ rows s)"
proof (induction raws arbitrary: s)
  case (Cons raw raws)
  have "rows (fold push raws (push raw s)) = take cap (rev raws @ take cap (raw # rows s))"
    using Cons.IH [of "push raw s"] by (simp add: rows_push)
  also have "\<dots> = take cap (rev raws @ raw # rows s)"
    by (simp add: take_append min_def)
  finally show ?case by simp
qed simp

lemma rows_bounded: "length (rows (push raw s)) \<le> cap"
  by (simp add: rows_push)

end

lemmas write_defs = write_notification_def write_decision_def write_trade_def write_proposal_def write_grade_def lpush_trim_def

interpretation notification_log: capped_log ry_notifications write_notification REDIS_NOTIFICATIONS_MAX
  by unfold_locales (simp add: write_defs)

interpretation decision_log: capped_log ry_decisions write_decision REDIS_DECISIONS_MAX
  by unfold_locales (simp add: write_defs)

interpretation trade_log: capped_log ry_trades write_trade REDIS_CLOSED_TRADES_MAX
  by unfold_locales (simp add: write_defs)

interpretation proposal_log: capped_log ry_proposals write_proposal REDIS_PROPOSALS_MAX
  by unfold_locales (simp add: write_defs)

interpretation grade_log: capped_log "\<lambda>s. dget (ry_grades s) name []" "write_grade name" AGENT_GRADE_HISTORY_MAX for name
  by unfold_locales (simp add: write_defs)

text \<open>what JSON promises for a dictionary it can print\<close>
definition json_keeps :: "redis_env \<Rightarrow> pydict \<Rightarrow> bool" where
  "json_keeps e d \<longleftrightarrow> ye_loads e (ye_dumps e d) = Some (PDict d)"

lemma parsed_dumps: "\<forall>d \<in> set ds. json_keeps e d \<Longrightarrow> parsed_rows e (map (ye_dumps e) ds) = ds"
  by (induction ds) (simp_all add: parsed_rows_def map_filter_simps safe_loads_def json_keeps_def)

definition trade_pushes :: "redis_env \<Rightarrow> pydict list \<Rightarrow> redis_lists \<Rightarrow> redis_lists" where
  "trade_pushes e ps s = fold (\<lambda>p. snd \<circ> push_closed_round_trip e p) ps s"

text \<open>The list of closed trades is the recent history: after any trades have been pushed onto an empty list, asking for
  \<open>n\<close> gives the last \<open>n\<close> of them, at least one and at most a hundred, newest first and unchanged but for
  the time stamp.\<close>
theorem closed_trades_list_the_newest:
  assumes "\<forall>p \<in> set ps. json_keeps e (stamped e p)" "\<not> ye_fails e R_trade_push" "\<not> ye_fails e R_trade_read" "ry_trades s = []"
  shows "list_closed_trades e limit (trade_pushes e ps s)
    = take (safe_limit REDIS_CLOSED_TRADES_MAX limit) (rev (map (stamped e) ps))"
proof -
  have "trade_pushes e ps s = fold write_trade (map (ye_dumps e \<circ> stamped e) ps) s"
    using assms(2) by (induction ps arbitrary: s) (simp_all add: trade_pushes_def push_closed_round_trip_def)
  then have "ry_trades (trade_pushes e ps s) = take REDIS_CLOSED_TRADES_MAX (map (ye_dumps e) (rev (map (stamped e) ps)))"
    using assms(4) by (simp add: trade_log.rows_pushes rev_map)
  moreover have "min (safe_limit REDIS_CLOSED_TRADES_MAX limit) REDIS_CLOSED_TRADES_MAX = safe_limit REDIS_CLOSED_TRADES_MAX limit"
    by (auto simp: safe_limit_def REDIS_CLOSED_TRADES_MAX_def)
  moreover have "\<forall>d \<in> set (take n (rev (map (stamped e) ps))). json_keeps e d" for n
    using assms(1) in_set_takeD [of _ n "rev (map (stamped e) ps)"] by (metis (no_types, lifting) image_iff list.set_map set_rev)
  ultimately show ?thesis using assms(3)
    by (simp add: list_closed_trades_def take_map parsed_dumps)
qed

section \<open>Read marks\<close>

text \<open>The unread counter is the number of notifications the list shows as unread.\<close>
theorem unread_count_matches_the_list:
  assumes "\<not> ye_fails e R_notif_read" "\<not> ye_fails e R_read_members" "length (ry_notifications s) \<le> REDIS_NOTIFICATIONS_MAX"
    and "int REDIS_NOTIFICATIONS_MAX \<le> limit"
  shows "unread_count e s = length (filter (\<lambda>d. \<not> truthy (py_get d ''read'')) (list_notifications e limit s))"
proof -
  have "safe_limit REDIS_NOTIFICATIONS_MAX limit = REDIS_NOTIFICATIONS_MAX"
    using assms(4) by (simp add: safe_limit_def REDIS_NOTIFICATIONS_MAX_def)
  moreover have "truthy (py_get (show_read e ids d) ''read'') \<longleftrightarrow> truthy (py_get d ''read'') \<or> entry_id e d \<in> ids" for ids d
    by (simp add: show_read_def)
  ultimately show ?thesis using assms(1-3)
    by (simp add: unread_count_def list_notifications_def read_ids_def filter_map comp_def)
qed

lemma live_ids_finite: "finite (live_ids e s)" "card (live_ids e s) \<le> length (ry_notifications s)"
proof -
  have "length (parsed_rows e xs) \<le> length xs" for xs
    by (induction xs) (auto simp: parsed_rows_def map_filter_simps split: option.splits)
  then have "length (map (entry_id e) (filter (\<lambda>d. truthy (py_get d ''id'')) (parsed_rows e (ry_notifications s)))) \<le> length (ry_notifications s)"
    by (metis length_filter_le length_map order_trans)
  then show "finite (live_ids e s)" "card (live_ids e s) \<le> length (ry_notifications s)"
    unfolding live_ids_def by (simp, meson card_length order_trans)
qed

text \<open>The set of read ids stays bounded by the list: after every push whose calls go through, only ids of the listed
  notifications are in it, at most twenty.\<close>
theorem read_set_stays_bounded:
  assumes "\<not> ye_fails e R_notif_push" "\<not> ye_fails e R_notif_read" "\<not> ye_fails e R_read_members" "\<not> ye_fails e R_read_rem"
  shows "ry_read (snd (push_notification e p s)) \<subseteq> live_ids e (snd (push_notification e p s))
    \<and> card (ry_read (snd (push_notification e p s))) \<le> REDIS_NOTIFICATIONS_MAX"
proof -
  let ?s1 = "write_notification (ye_dumps e (notification_entry e p)) s"
  have p: "snd (push_notification e p s) = ?s1\<lparr>ry_read := ry_read ?s1 \<inter> live_ids e ?s1\<rparr>"
    using assms by (simp add: push_notification_def prune_read_set_def Let_def)
  have "live_ids e (?s1\<lparr>ry_read := x\<rparr>) = live_ids e ?s1" for x by (simp add: live_ids_def)
  moreover have "card (ry_read ?s1 \<inter> live_ids e ?s1) \<le> card (live_ids e ?s1)"
    by (intro card_mono live_ids_finite) simp
  moreover have "card (live_ids e ?s1) \<le> REDIS_NOTIFICATIONS_MAX"
    using live_ids_finite(2) [of e ?s1] notification_log.rows_bounded order_trans by blast
  ultimately show ?thesis unfolding p by simp
qed

section \<open>Totals of the model calls\<close>

definition outcomes_total :: "redis_lists \<Rightarrow> int" where
  "outcomes_total s = sum_list (map (\<lambda>k. dget (ry_llm s) k 0) [''successes'', ''rate_limits'', ''timeouts'', ''errors''])"

definition totals_agree :: "redis_lists \<Rightarrow> bool" where
  "totals_agree s \<longleftrightarrow> dget (ry_llm s) ''total_calls'' 0 = outcomes_total s"

lemma outcome_field_cases: "outcome_field o' \<in> {''successes'', ''rate_limits'', ''timeouts'', ''errors''}"
  by (simp add: outcome_field_def)

lemma dget_bump: "dget (bump k d) k' 0 = dget d k' 0 + (if k' = k then 1 else 0)"
  by (simp add: bump_def)

lemma record_llm_call_counts:
  assumes "ye_cut e = None"
  shows "dget (ry_llm (record_llm_call e outcome lat s)) k 0 =
    dget (ry_llm s) k 0 + (if k = ''total_calls'' then 1 else 0) + (if k = outcome_field outcome then 1 else 0)"
  using assms by (auto simp: record_llm_call_def llm_commands_def dget_bump split: option.splits)

definition totals_off :: "redis_lists \<Rightarrow> int" where
  "totals_off s = dget (ry_llm s) ''total_calls'' 0 - outcomes_total s"

lemma totals_off_record:
  assumes "ye_cut e = None"
  shows "totals_off (record_llm_call e outcome lat s) = totals_off s"
proof -
  consider "outcome_field outcome = ''successes''" | "outcome_field outcome = ''rate_limits''"
    | "outcome_field outcome = ''timeouts''" | "outcome_field outcome = ''errors''"
    using outcome_field_cases [of outcome] by blast
  then show ?thesis
    by cases (simp_all add: totals_off_def outcomes_total_def record_llm_call_counts [OF assms])
qed

lemma record_llm_call_keeps_totals:
  "ye_cut e = None \<Longrightarrow> totals_agree s \<Longrightarrow> totals_agree (record_llm_call e outcome lat s)"
  using totals_off_record [of e outcome lat s] by (simp add: totals_agree_def totals_off_def)

text \<open>The pipeline of a call's counters is no transaction: when it breaks after its first command, a total that agreed
  with the outcomes no longer does, and no later call repairs it.\<close>
theorem broken_pipeline_splits_the_totals:
  assumes "totals_agree s" "ye_cut e = Some 1" "\<forall>(e', c) \<in> set later. ye_cut e' = None"
    and "s' = fold (\<lambda>(e', outcome, lat). record_llm_call e' outcome lat) later (record_llm_call e outcome lat s)"
  shows "dget (ry_llm s') ''total_calls'' 0 = outcomes_total s' + 1"
proof -
  have "totals_off (record_llm_call e outcome lat s) = totals_off s + 1"
    using assms(2) by (simp add: totals_off_def outcomes_total_def record_llm_call_def llm_commands_def dget_bump)
  moreover have "totals_off (fold (\<lambda>(e', outcome, lat). record_llm_call e' outcome lat) later z) = totals_off z" for z
    using assms(3) by (induction later arbitrary: z) (auto simp: totals_off_record)
  moreover have "totals_off s = 0" using assms(1) by (simp add: totals_off_def totals_agree_def)
  ultimately have "totals_off s' = 1" using assms(4) by simp
  then show ?thesis by (simp add: totals_off_def)
qed

section \<open>Concrete lists\<close>

definition empty_lists :: redis_lists where
  "empty_lists = \<lparr>ry_notifications = [], ry_read = {}, ry_decisions = [], ry_trades = [], ry_proposals = [],
     ry_llm = [], ry_llm_last = None, ry_daily = [], ry_grades = [], ry_telemetry = None\<rparr>"

definition redis_env0 :: redis_env where
  "redis_env0 = \<lparr>ye_dumps = (\<lambda>d. ''{}''), ye_loads = (\<lambda>t. Some (PDict [(''id'', PStr ''n1''), (''read'', PBool False)])),
     ye_rp = (\<lambda>_. []), ye_now_iso = ''t0'', ye_now = 0, ye_uuid = ''u'', ye_today = ''d'', ye_iso = (\<lambda>_. None),
     ye_fails = (\<lambda>_. False), ye_cut = None\<rparr>"

theorem unread_count_matches_the_list_witness:
  "unread_count redis_env0 (empty_lists\<lparr>ry_notifications := [''a'', ''b'']\<rparr>) = 2
   \<and> unread_count redis_env0 (empty_lists\<lparr>ry_notifications := [''a'', ''b''], ry_read := {''n1''}\<rparr>)
     = length (filter (\<lambda>d. \<not> truthy (py_get d ''read''))
         (list_notifications redis_env0 20 (empty_lists\<lparr>ry_notifications := [''a'', ''b''], ry_read := {''n1''}\<rparr>)))"
  using unread_count_matches_the_list [of redis_env0 "empty_lists\<lparr>ry_notifications := [''a'', ''b''], ry_read := {''n1''}\<rparr>" 20]
  by (simp add: REDIS_NOTIFICATIONS_MAX_def unread_count_def parsed_rows_def map_filter_simps safe_loads_def
      redis_env0_def empty_lists_def)

theorem read_set_stays_bounded_witness:
  "ry_read (snd (push_notification redis_env0 [] (empty_lists\<lparr>ry_read := {''n1'', ''gone''}\<rparr>))) = {''n1''}
   \<and> card (ry_read (snd (push_notification redis_env0 [] (empty_lists\<lparr>ry_read := {''n1'', ''gone''}\<rparr>)))) \<le> REDIS_NOTIFICATIONS_MAX"
proof -
  have "ry_read (snd (push_notification redis_env0 [] (empty_lists\<lparr>ry_read := {''n1'', ''gone''}\<rparr>))) = {''n1''}"
    by (auto simp: push_notification_def prune_read_set_def live_ids_def parsed_rows_def map_filter_simps safe_loads_def
        redis_env0_def empty_lists_def write_defs REDIS_NOTIFICATIONS_MAX_def entry_id_def py_str_def Let_def)
  moreover have "card (ry_read (snd (push_notification redis_env0 [] (empty_lists\<lparr>ry_read := {''n1'', ''gone''}\<rparr>)))) \<le> REDIS_NOTIFICATIONS_MAX"
    using read_set_stays_bounded [of redis_env0 "[]" "empty_lists\<lparr>ry_read := {''n1'', ''gone''}\<rparr>"] by (simp add: redis_env0_def)
  ultimately show ?thesis by simp
qed

theorem broken_pipeline_splits_the_totals_witness:
  "let s = record_llm_call redis_env0 ''success'' (Some 9) (record_llm_call (redis_env0\<lparr>ye_cut := Some 1\<rparr>) ''timeout'' None empty_lists)
   in dget (ry_llm s) ''total_calls'' 0 = 2 \<and> dget (ry_llm s) ''total_calls'' 0 = outcomes_total s + 1"
proof -
  let ?s = "record_llm_call redis_env0 ''success'' (Some 9) (record_llm_call (redis_env0\<lparr>ye_cut := Some 1\<rparr>) ''timeout'' None empty_lists)"
  have "dget (ry_llm ?s) ''total_calls'' 0 = 2"
    by (simp add: record_llm_call_def llm_commands_def redis_env0_def empty_lists_def dget_bump outcome_field_def)
  moreover have "dget (ry_llm ?s) ''total_calls'' 0 = outcomes_total ?s + 1"
    using broken_pipeline_splits_the_totals [of empty_lists "redis_env0\<lparr>ye_cut := Some 1\<rparr>" "[(redis_env0, ''success'', Some 9)]" ?s "''timeout''" None]
    by (simp add: totals_agree_def outcomes_total_def empty_lists_def redis_env0_def)
  ultimately show ?thesis by simp
qed

theorem closed_trades_list_the_newest_witness:
  "list_closed_trades (redis_env0\<lparr>ye_loads := \<lambda>_. Some (PDict [(''pnl'', PInt 5), (''timestamp'', PStr ''t0'')])\<rparr>) 1
     (trade_pushes (redis_env0\<lparr>ye_loads := \<lambda>_. Some (PDict [(''pnl'', PInt 5), (''timestamp'', PStr ''t0'')])\<rparr>)
        [[(''pnl'', PInt 5)], [(''pnl'', PInt 5)]] empty_lists)
   = [[(''pnl'', PInt 5), (''timestamp'', PStr ''t0'')]]"
  using closed_trades_list_the_newest [of "[[(''pnl'', PInt 5)], [(''pnl'', PInt 5)]]"
      "redis_env0\<lparr>ye_loads := \<lambda>_. Some (PDict [(''pnl'', PInt 5), (''timestamp'', PStr ''t0'')])\<rparr>" empty_lists 1]
  by (simp add: json_keeps_def stamped_def ensure_key_def redis_env0_def empty_lists_def safe_limit_def REDIS_CLOSED_TRADES_MAX_def)

end
