(* ===== verification/Execution_Engine.thy ===== *)
theory Execution_Engine
  imports Effects Regime_Risk Risk_Filters Decision_Utils Paper_Broker Order_Writer In_Memory_Store
    Fill_Publisher Redis_Store
begin

text \<open>
  The execution engine (\<open>api/services/execution/execution_engine.py\<close>), the only component
  that submits orders. The record \<open>engine\<close> is everything \<open>process\<close> reads and writes: the
  Redis keys, the broker, the database (a session view and the committed tables), the
  in-memory store, the streams, and the telemetry. What the engine reads from outside
  (clock, uuids, settings, the market clock, the cached macro regime, the md5 of the
  signal content) is the record \<open>engine_env\<close>, which also says which external call fails.

  \<open>process e e2\<close>: \<open>e\<close> is the environment of the call; \<open>e2\<close> is the one that the in-memory
  fallback of a failed database transaction runs in.
\<close>

definition EXECUTION_DECISION_THRESHOLD_MEMORY :: real where
  "EXECUTION_DECISION_THRESHOLD_MEMORY = 55 / 100"
definition COOLING_OFF_WINDOW :: nat where "COOLING_OFF_WINDOW = 5"
definition COOLING_OFF_DECAY :: real where "COOLING_OFF_DECAY = 7 / 10"
definition COOLING_OFF_THRESHOLD :: real where "COOLING_OFF_THRESHOLD = 6 / 10"
definition REDIS_RECENT_OUTCOMES_MAXLEN :: nat where "REDIS_RECENT_OUTCOMES_MAXLEN = 10"
definition LARGE_ORDER_THRESHOLD :: real where "LARGE_ORDER_THRESHOLD = 10"

section \<open>State and environment\<close>

datatype fault_point =
    F_select | F_get_position | F_fallback_position | F_cash | F_insert_rejected | F_commit_rejected
  | F_insert | F_flush | F_in_flight_set | F_place_order | F_update_fill | F_position_after | F_upsert
  | F_audit | F_commit | F_outcomes_push | F_in_flight_delete | F_in_flight_get | F_outcomes_get
  | F_mirror_position | F_closed_trade_push | F_publish string | F_lifecycle

datatype exec_status =
    HS_parse_error parse_error
  | HS_paused
  | HS_fallback_blocked
  | HS_gate gate
  | HS_filled string real
  | HS_filled_memory string real
  | HS_db_fail_fill_recorded

record heartbeat =
  hb_symbol :: string
  hb_status :: exec_status
  hb_trace :: string
  hb_count :: nat

record engine =
  e_kill_switch :: bool
  e_paused :: bool
  e_broker :: broker
  e_locks :: "string \<Rightarrow> string option"
  e_dedup :: "string \<Rightarrow> bool"
  e_in_flight :: bool
  e_outcomes :: "real list"
  e_db :: database
  e_committed :: database
  e_store :: mem_store
  e_redis_closed :: "pydict list"
  e_streams :: "(string \<times> pydict) list"
  e_heartbeats :: "heartbeat list"
  e_tools :: "(string \<times> bool) list"
  e_lifecycle :: "pydict list"
  e_tasks :: "string list"
  e_evaluated :: nat

record engine_env =
  en_rp :: "pyval \<Rightarrow> string"
  en_uuid_strategy :: string
  en_uuid_trace :: string
  en_uuid_order :: string
  en_uuid_lock :: string
  en_uuid_msg :: "nat \<Rightarrow> string"
  en_order :: order_env
  en_now :: real
  en_now_iso :: string
  en_now_s :: int
  en_db_available :: bool
  en_broker_mode :: string
  en_alpaca_paper :: bool
  en_max_symbol_exposure :: real
  en_max_open_position_qty :: real
  en_allow_fallback_trades :: bool
  en_max_fallback_order_qty :: real
  en_no_trade_window_enabled :: bool
  en_in_no_trade_window :: bool
  en_symbol_open :: "string \<Rightarrow> bool"
  en_macro :: "string \<Rightarrow> pyval"
  en_ts_minute :: "pyval \<Rightarrow> string pyres"
  en_signal_hash :: "pyval list \<Rightarrow> string"
  en_run_confidence :: "string \<Rightarrow> pyval"
  en_has_redis_store :: bool
  en_has_agent_state :: bool
  en_fault :: "fault_point \<Rightarrow> bool"

type_synonym 'a run = "(engine, 'a) eff"

definition init_engine :: engine where
  "init_engine = \<lparr>e_kill_switch = False, e_paused = False, e_broker = empty_broker,
     e_locks = (\<lambda>_. None), e_dedup = (\<lambda>_. False), e_in_flight = False, e_outcomes = [],
     e_db = empty_db, e_committed = empty_db, e_store = empty_store, e_redis_closed = [],
     e_streams = [], e_heartbeats = [], e_tools = [], e_lifecycle = [], e_tasks = [], e_evaluated = 0\<rparr>"

definition fault :: "engine_env \<Rightarrow> fault_point \<Rightarrow> unit run" where
  "fault e f = guard_fault (en_fault e f)"

section \<open>Small effects\<close>

definition write_heartbeat :: "string \<Rightarrow> exec_status \<Rightarrow> string \<Rightarrow> unit run" where
  "write_heartbeat symbol status trace_id = modify (\<lambda>s. s\<lparr>e_heartbeats := e_heartbeats s @
     [\<lparr>hb_symbol = symbol, hb_status = status, hb_trace = trace_id, hb_count = e_evaluated s\<rparr>]\<rparr>)"

definition record_exec_tool :: "string \<Rightarrow> bool \<Rightarrow> unit run" where
  "record_exec_tool name success = modify (\<lambda>s. s\<lparr>e_tools := e_tools s @ [(name, success)]\<rparr>)"

definition bus_publish :: "engine_env \<Rightarrow> string \<Rightarrow> pydict \<Rightarrow> unit run" where
  "bus_publish e stream msg = andthen (fault e (F_publish stream))
     (modify (\<lambda>s. s\<lparr>e_streams := e_streams s @ [(stream, msg)]\<rparr>))"

definition set_in_flight :: "bool \<Rightarrow> engine \<Rightarrow> engine" where
  "set_in_flight b s = s\<lparr>e_in_flight := b\<rparr>"

definition read_position :: "engine_env \<Rightarrow> fault_point \<Rightarrow> string \<Rightarrow> pydict run" where
  "read_position e f symbol = andthen (fault e f)
     (gets (\<lambda>s. pos_dict (get_position (e_broker s) symbol)))"

definition acquire_lock :: "engine_env \<Rightarrow> string \<Rightarrow> unit run" where
  "acquire_lock e symbol s = (case e_locks s symbol of
       Some _ \<Rightarrow> (Inl (RuntimeError ''Order lock already held''), s)
     | None \<Rightarrow> (Inr (), s\<lparr>e_locks := (e_locks s)(symbol := Some (en_uuid_lock e))\<rparr>))"

definition release_lock :: "string \<Rightarrow> engine \<Rightarrow> engine" where
  "release_lock symbol s = s\<lparr>e_locks := (e_locks s)(symbol := None)\<rparr>"

text \<open>LPUSH and LTRIM of the realized PnL, then the in-flight flag; both best-effort\<close>
definition record_outcome :: "engine_env \<Rightarrow> real \<Rightarrow> unit run" where
  "record_outcome e realized_pnl =
     (if realized_pnl \<noteq> 0 \<and> \<not> en_fault e F_outcomes_push
      then modify (\<lambda>s. s\<lparr>e_outcomes := take REDIS_RECENT_OUTCOMES_MAXLEN (realized_pnl # e_outcomes s)\<rparr>)
      else ret ())"

definition clear_in_flight :: "engine_env \<Rightarrow> unit run" where
  "clear_in_flight e =
     (if en_fault e F_in_flight_delete then ret () else modify (set_in_flight False))"

section \<open>Validation\<close>

definition is_fallback_decision :: "engine_env \<Rightarrow> pydict \<Rightarrow> bool" where
  "is_fallback_decision e payload =
     (let reason = lower_side (en_rp e) (py_get payload ''reason'');
          source = lower_side (en_rp e) (py_get payload ''source'');
          primary_edge = lower_side (en_rp e) (py_get payload ''primary_edge'')
      in py_get payload ''llm_succeeded'' = PBool False \<or> is_infix ''fallback'' reason
         \<or> source = ''fallback'' \<or> is_prefix ''fallback:'' primary_edge \<or> primary_edge = ''fallback''
         \<or> truthy (py_get payload ''fallback_reason''))"

definition is_paper_mode :: "engine_env \<Rightarrow> bool" where
  "is_paper_mode e \<longleftrightarrow> py_lower (en_broker_mode e) = ''paper'' \<or> en_alpaca_paper e"

definition max_position_qty :: "engine_env \<Rightarrow> real" where
  "max_position_qty e = min (en_max_symbol_exposure e) (en_max_open_position_qty e)"

text \<open>the size rule once fallback trades are allowed: no flip, reduce-only free, capped otherwise\<close>
definition fallback_size_blocked :: "real \<Rightarrow> string \<Rightarrow> real \<Rightarrow> real \<Rightarrow> bool" where
  "fallback_size_blocked current side qty max_allowed =
     (let signed_after = (if side = ''buy'' then current + qty else current - qty)
      in if (current < 0 \<and> 0 < signed_after) \<or> (current > 0 \<and> 0 > signed_after) then True
         else if \<bar>signed_after\<bar> \<le> \<bar>current\<bar> then False
         else \<bar>signed_after\<bar> > max_allowed)"

definition fallback_block_effect :: "ParsedDecision \<Rightarrow> bool \<Rightarrow> bool run" where
  "fallback_block_effect p blocked =
     (if blocked
      then andthen (write_heartbeat (d_symbol p) HS_fallback_blocked (d_trace_id p)) (ret True)
      else ret False)"

definition is_fallback_blocked :: "engine_env \<Rightarrow> ParsedDecision \<Rightarrow> pydict \<Rightarrow> bool run" where
  "is_fallback_blocked e p payload =
     (let side = py_lower (d_side p)
      in if side \<noteq> ''buy'' \<and> side \<noteq> ''sell'' then ret False
         else if \<not> is_fallback_decision e payload then ret False
         else if is_paper_mode e then ret False
         else if \<not> en_allow_fallback_trades e then fallback_block_effect p True
         else if d_qty p > en_max_fallback_order_qty e then fallback_block_effect p True
         else bnd (read_position e F_fallback_position (d_symbol p)) (\<lambda>position.
           fallback_block_effect p
             (fallback_size_blocked (signed_position_qty (en_rp e) (Some position)) side (d_qty p)
                (max_position_qty e))))"

definition symbol_hint :: "engine_env \<Rightarrow> pydict \<Rightarrow> string" where
  "symbol_hint e data = py_str (en_rp e) (py_or (py_get data ''symbol'') (PStr ''?''))"

definition parse_and_validate :: "engine_env \<Rightarrow> pydict \<Rightarrow> ParsedDecision option run" where
  "parse_and_validate e data =
     (case parse_decision_fields (en_rp e) (en_uuid_strategy e) (en_uuid_trace e) data of
        Inl err \<Rightarrow> andthen (write_heartbeat (symbol_hint e data) (HS_parse_error err) '''') (ret None)
      | Inr p \<Rightarrow> bnd (is_fallback_blocked e p data) (\<lambda>b. ret (if b then None else Some p)))"

section \<open>Gates\<close>

definition is_market_open :: "engine_env \<Rightarrow> string \<Rightarrow> bool" where
  "is_market_open e symbol \<longleftrightarrow> is_paper_mode e \<or> en_symbol_open e symbol"

definition entry_threshold :: "engine_env \<Rightarrow> string \<Rightarrow> string \<Rightarrow> real" where
  "entry_threshold e side symbol =
     (let base = (if en_db_available e then EXECUTION_DECISION_THRESHOLD
                  else EXECUTION_DECISION_THRESHOLD_MEMORY)
      in if side = ''buy'' then execution_threshold (regime_of (en_macro e symbol)) base True else base)"

definition check_cooling_off_gate :: "engine_env \<Rightarrow> string \<Rightarrow> engine \<Rightarrow> gate option" where
  "check_cooling_off_gate e side s =
     (if side \<in> NO_ORDER_ACTIONS then None
      else if is_sell_side side then None
      else if en_fault e F_outcomes_get then None
      else if is_cooling_off (rev (take COOLING_OFF_WINDOW (e_outcomes s))) COOLING_OFF_DECAY
                COOLING_OFF_THRESHOLD
      then Some Cooling_off else None)"

definition gate_verdict ::
  "engine_env \<Rightarrow> string \<Rightarrow> string \<Rightarrow> real \<Rightarrow> real \<Rightarrow> real option \<Rightarrow> real \<Rightarrow> engine \<Rightarrow> gate option" where
  "gate_verdict e side symbol signal_confidence reasoning_score atr_regime_ratio abs_pct_move s =
     (case check_execution_gate side
             (compute_execution_score signal_confidence reasoning_score (6 / 10))
             (entry_threshold e side symbol) (is_market_open e symbol) of
        Some g \<Rightarrow> Some g
      | None \<Rightarrow>
        if en_no_trade_window_enabled e \<and> side = ''buy'' \<and> en_in_no_trade_window e
        then Some No_trade_window
        else if side \<notin> NO_ORDER_ACTIONS \<and> \<not> en_fault e F_in_flight_get \<and> e_in_flight s
        then Some In_flight
        else (case (if side \<notin> NO_ORDER_ACTIONS
                    then check_confidence_gate signal_confidence side SIGNAL_CONFIDENCE_MIN_GATE
                    else None) of
           Some g \<Rightarrow> Some g
         | None \<Rightarrow> (case (case atr_regime_ratio of
                Some r \<Rightarrow> if side \<notin> NO_ORDER_ACTIONS \<and> r < 1 then Some (Choppy_regime r) else None
              | None \<Rightarrow> None) of
             Some g \<Rightarrow> Some g
           | None \<Rightarrow> (case (if abs_pct_move > 0 \<and> side \<notin> NO_ORDER_ACTIONS
                 then check_net_ev_gate signal_confidence abs_pct_move SLIPPAGE_PCT_PER_SIDE
                 else None) of
               Some g \<Rightarrow> Some g
             | None \<Rightarrow> check_cooling_off_gate e side s))))"

definition check_pre_execution_gates ::
  "engine_env \<Rightarrow> string \<Rightarrow> string \<Rightarrow> real \<Rightarrow> real \<Rightarrow> string \<Rightarrow> real option \<Rightarrow> real \<Rightarrow> gate option run" where
  "check_pre_execution_gates e side symbol sc rs trace_id atr pct =
     bnd (gets (gate_verdict e side symbol sc rs atr pct)) (\<lambda>g.
     andthen (case g of None \<Rightarrow> ret () | Some x \<Rightarrow> write_heartbeat symbol (HS_gate x) trace_id)
    (andthen (record_exec_tool ''evaluate_risk_cage'' True) (ret g)))"

section \<open>Sizing and identity\<close>

definition apply_kelly_sizing :: "engine_env \<Rightarrow> pydict \<Rightarrow> real \<Rightarrow> real \<Rightarrow> real run" where
  "apply_kelly_sizing e data nominal_qty price =
     bnd (lift_res (num_or data ''size_pct'' 0)) (\<lambda>size_pct.
       if size_pct \<le> 0 \<or> price \<le> 0 then ret nominal_qty
       else if en_fault e F_cash then ret nominal_qty
       else bnd (gets (\<lambda>s. fst (get_cash (e_broker s)))) (\<lambda>portfolio_value.
         andthen (modify (\<lambda>s. s\<lparr>e_broker := snd (get_cash (e_broker s))\<rparr>))
           (let kelly_qty = size_pct * portfolio_value / price
            in ret (if kelly_qty > 0 then kelly_qty else nominal_qty))))"

definition build_idempotency_key :: "engine_env \<Rightarrow> ParsedDecision \<Rightarrow> pydict \<Rightarrow> string pyres" where
  "build_idempotency_key e p data =
     res_bind (en_ts_minute e (py_get data ''timestamp'')) (\<lambda>ts_minute.
       Inr (d_strategy_id p @ ''_'' @ d_symbol p @ ''_'' @ d_side p @ ''_'' @ ts_minute @ ''_'' @
         (if data = [] then [] else en_signal_hash e
            [py_get data ''composite_score'', py_get data ''signal_type'', py_get data ''price'',
             py_get data ''qty''])))"

definition vwap_plan_of :: "real \<Rightarrow> real list option" where
  "vwap_plan_of qty =
     (if qty \<le> LARGE_ORDER_THRESHOLD then None
      else let slice_qty = py_round 8 (qty / 3)
           in Some [slice_qty, slice_qty, py_round 8 (qty - slice_qty * 2)])"

definition build_vwap_plan :: "real \<Rightarrow> real list option run" where
  "build_vwap_plan qty = (case vwap_plan_of qty of
       None \<Rightarrow> ret None
     | Some plan \<Rightarrow> andthen (record_exec_tool ''calculate_vwap_execution'' True) (ret (Some plan)))"

text \<open>The oversell clamp, then the overbuy clamp; None is the position-limit rejection.\<close>
definition clamp_order_qty :: "engine_env \<Rightarrow> string \<Rightarrow> pydict \<Rightarrow> real \<Rightarrow> real option pyres" where
  "clamp_order_qty e side prior_position qty =
     res_bind (if is_sell_side side
               then res_bind (num_or prior_position ''qty'' 0) (\<lambda>prior_qty.
                      Inr (if prior_qty > 0 \<and> qty > prior_qty then prior_qty else qty))
               else Inr qty) (\<lambda>q.
       if is_buy_side side
       then let capped_qty = clamp_buy_to_position_limit (en_rp e) (Some prior_position) q
                  (max_position_qty e)
            in Inr (if capped_qty \<le> 0 then None else Some (if capped_qty < q then capped_qty else q))
       else Inr (Some q))"

text \<open>The broker call: it may raise before it writes anything.\<close>
definition broker_place :: "engine_env \<Rightarrow> string \<Rightarrow> string \<Rightarrow> real \<Rightarrow> real \<Rightarrow> order_payload run" where
  "broker_place e symbol side qty price =
     andthen (fault e F_place_order)
       (\<lambda>s. case place_order (en_order e) symbol side qty price (e_broker s) of
              (payload, b) \<Rightarrow> (Inr payload, s\<lparr>e_broker := b\<rparr>))"

definition submit_order :: "engine_env \<Rightarrow> string \<Rightarrow> string \<Rightarrow> real \<Rightarrow> real \<Rightarrow> order_payload run" where
  "submit_order e symbol side qty price =
     andthen (fault e F_in_flight_set)
    (andthen (modify (set_in_flight True))
    (bnd (broker_place e symbol side qty price) (\<lambda>payload.
     andthen (record_exec_tool ''execute_bracket_order'' True) (ret payload))))"

text \<open>the steps both paths run before an order is considered\<close>
record admitted =
  ad_parsed :: ParsedDecision
  ad_confidence :: real
  ad_qty :: real
  ad_key :: string

definition atr_of :: "pydict \<Rightarrow> real option pyres" where
  "atr_of data = (let raw = py_get data ''atr_regime_ratio''
     in if raw = PNone \<or> raw = PStr '''' then Inr None
        else res_bind (py_float raw) (\<lambda>x. Inr (Some x)))"

definition admit :: "engine_env \<Rightarrow> pydict \<Rightarrow> admitted option run" where
  "admit e data =
     bnd (parse_and_validate e data) (\<lambda>parsed. case parsed of
         None \<Rightarrow> ret None
       | Some p \<Rightarrow> (case extract_decision_scores data of (sc, rs) \<Rightarrow>
           bnd (lift_res (atr_of data)) (\<lambda>atr.
           bnd (lift_res (num_or data ''pct'' 0)) (\<lambda>pct.
           bnd (check_pre_execution_gates e (d_side p) (d_symbol p) sc rs (d_trace_id p) atr \<bar>pct\<bar>) (\<lambda>g.
             case g of
               Some _ \<Rightarrow> ret None
             | None \<Rightarrow>
                 bnd (apply_kelly_sizing e data (d_qty p) (d_price p)) (\<lambda>qty.
                 bnd (lift_res (build_idempotency_key e p data)) (\<lambda>key.
                   ret (Some \<lparr>ad_parsed = p, ad_confidence = sc, ad_qty = qty, ad_key = key\<rparr>))))))))"

section \<open>Recording a fill\<close>

definition text_or_empty :: "engine_env \<Rightarrow> pydict \<Rightarrow> string \<Rightarrow> string" where
  "text_or_empty e data k = py_str (en_rp e) (py_or (py_get data k) (PStr ''''))"

text \<open>PnL of the fill against the position held before it, and the fill context\<close>
definition make_fill_context ::
  "engine_env \<Rightarrow> pydict \<Rightarrow> ParsedDecision \<Rightarrow> pydict \<Rightarrow> real \<Rightarrow> real \<Rightarrow> string \<Rightarrow> string \<Rightarrow> real \<Rightarrow> real list option
     \<Rightarrow> FillContext pyres" where
  "make_fill_context e data p prior_position qty fill_price order_id key confidence vwap =
     res_bind (compute_realized_pnl (en_rp e) prior_position (d_side p) qty fill_price) (\<lambda>realized_pnl.
     res_bind (num_or prior_position ''entry_price'' fill_price) (\<lambda>entry_price.
     res_bind (is_round_trip_close (en_rp e) prior_position (d_side p) qty) (\<lambda>is_close.
     res_bind (compute_pnl_percent prior_position (d_side p) qty entry_price realized_pnl) (\<lambda>pnl_percent.
     res_bind (num_or data ''decision_cost_usd'' 0) (\<lambda>cost.
       Inr \<lparr>fc_order_id = order_id, fc_strategy_id = d_strategy_id p, fc_symbol = d_symbol p,
            fc_side = d_side p, fc_qty = qty, fc_price = d_price p, fc_fill_price = fill_price,
            fc_entry_price = entry_price, fc_signal_confidence = confidence,
            fc_pnl_value = (if is_close then Some realized_pnl else None),
            fc_pnl_percent = pnl_percent, fc_realized_pnl = realized_pnl, fc_is_close = is_close,
            fc_key = key, fc_trace_id = d_trace_id p, fc_vwap_plan = vwap,
            fc_filled_at = en_now_iso e, fc_model_used = text_or_empty e data ''model_used'',
            fc_primary_edge = text_or_empty e data ''primary_edge'',
            fc_decision_cost_usd = cost\<rparr>)))))"

definition store_order_of :: "string \<Rightarrow> FillContext \<Rightarrow> pydict" where
  "store_order_of broker_order_id c =
     [(''order_id'', PStr (fc_order_id c)), (''strategy_id'', PStr (fc_strategy_id c)),
      (''symbol'', PStr (fc_symbol c)), (''side'', PStr (fc_side c)), (''qty'', PFloat (fc_qty c)),
      (''quantity'', PFloat (fc_qty c)), (''price'', PFloat (fc_fill_price c)),
      (''filled_price'', PFloat (fc_fill_price c)), (''status'', PStr ''filled''),
      (''broker_order_id'', PStr broker_order_id), (''pnl'', oflt (fc_pnl_value c)),
      (''session_id'', PStr (fc_strategy_id c)), (''pnl_percent'', PFloat (fc_pnl_percent c)),
      (''filled_at'', PStr (fc_filled_at c)), (''trace_id'', PStr (fc_trace_id c))]"

definition store_fill_of :: "FillContext \<Rightarrow> pydict" where
  "store_fill_of c =
     [(''id'', PStr (fc_trace_id c)), (''symbol'', PStr (fc_symbol c)), (''side'', PStr (fc_side c)),
      (''qty'', PFloat (fc_qty c)), (''entry_price'', PFloat (fc_entry_price c)),
      (''exit_price'', exit_price_of c), (''pnl'', oflt (fc_pnl_value c)),
      (''pnl_percent'', PFloat (fc_pnl_percent c)), (''session_id'', PStr (fc_strategy_id c)),
      (''order_id'', PStr (fc_order_id c)), (''execution_trace_id'', PStr (fc_trace_id c)),
      (''status'', PStr ''filled''), (''filled_at'', PStr (fc_filled_at c))]"

definition closed_trade_of :: "FillContext \<Rightarrow> pydict" where
  "closed_trade_of c =
     [(''symbol'', PStr (fc_symbol c)), (''side'', PStr (fc_side c)), (''qty'', PFloat (fc_qty c)),
      (''entry_price'', PFloat (fc_entry_price c)), (''exit_price'', PFloat (fc_fill_price c)),
      (''pnl'', PFloat (fc_realized_pnl c)), (''pnl_percent'', PFloat (fc_pnl_percent c)),
      (''filled_at'', PStr (fc_filled_at c))]"

text \<open>\<open>redis_store.push_closed_trade\<close>: LPUSH and LTRIM, errors swallowed\<close>
definition push_closed_trade :: "engine_env \<Rightarrow> pydict \<Rightarrow> unit run" where
  "push_closed_trade e trade =
     (if \<not> en_has_redis_store e \<or> en_fault e F_closed_trade_push then ret ()
      else modify (\<lambda>s. s\<lparr>e_redis_closed := take REDIS_CLOSED_TRADES_MAX
             ((if truthy (py_get trade ''timestamp'') then trade
               else dset ''timestamp'' (PStr (en_now_iso e)) trade) # e_redis_closed s)\<rparr>))"

definition append_equity_snapshot :: "(pyval \<Rightarrow> string) \<Rightarrow> string \<Rightarrow> mem_store \<Rightarrow> mem_store" where
  "append_equity_snapshot rp filled_at st =
     (case paired_pnl_payload rp st of (_, _, summary) \<Rightarrow>
        st\<lparr>ms_equity_curve := push_capped 1000
          [(''timestamp'', PStr filled_at), (''value'', PFloat (ps_total summary)),
           (''realized_pnl'', PFloat (ps_realized summary)),
           (''unrealized_pnl'', PFloat (ps_unrealized summary)),
           (''total_pnl'', PFloat (ps_total summary))] (ms_equity_curve st)\<rparr>)"

definition on_store :: "(mem_store \<Rightarrow> mem_store) \<Rightarrow> unit run" where
  "on_store f = modify (\<lambda>s. s\<lparr>e_store := f (e_store s)\<rparr>)"

definition record_fill_to_store :: "engine_env \<Rightarrow> FillContext \<Rightarrow> string \<Rightarrow> unit run" where
  "record_fill_to_store e c broker_order_id =
     andthen (on_store (add_order (en_now e) (store_order_of broker_order_id c)))
    (andthen (on_store (upsert_trade_fill (en_now e) (store_fill_of c)))
    (andthen (if fc_is_close c
              then andthen (on_store (add_closed_trade (en_now e) (closed_trade_of c)))
                     (push_closed_trade e (closed_trade_of c))
              else ret ())
    (bnd (read_position e F_mirror_position (fc_symbol c)) (\<lambda>broker_position.
     andthen (on_store (mirror_broker_position (en_rp e) (fc_symbol c) broker_position
                (Some (fc_strategy_id c))))
       (on_store (append_equity_snapshot (en_rp e) (fc_filled_at c)))))))"

definition publish_fill :: "engine_env \<Rightarrow> FillContext \<Rightarrow> unit run" where
  "publish_fill e c = publish_fill_events (bus_publish e) (en_uuid_msg e) (en_now_iso e) c"

definition sell_rejected_msg :: "engine_env \<Rightarrow> admitted \<Rightarrow> string \<Rightarrow> pydict" where
  "sell_rejected_msg e a order_id =
     [(''type'', PStr ''sell_rejected''), (''rejection_reason'', PStr ''NO_OPEN_POSITION''),
      (''symbol'', PStr (d_symbol (ad_parsed a))), (''side'', PStr (d_side (ad_parsed a))),
      (''qty'', PFloat (ad_qty a)), (''order_id'', PStr order_id),
      (''idempotency_key'', PStr (ad_key a)), (''trace_id'', PStr (d_trace_id (ad_parsed a))),
      (''timestamp'', PStr (en_now_iso e)), (''source'', PStr ''execution_engine'')]"

definition publish_sell_rejected :: "engine_env \<Rightarrow> admitted \<Rightarrow> string \<Rightarrow> unit run" where
  "publish_sell_rejected e a order_id =
     catch (bus_publish e ''sell_rejected'' (sell_rejected_msg e a order_id)) (\<lambda>_. ret ())"

definition note_task :: "engine_env \<Rightarrow> string \<Rightarrow> unit run" where
  "note_task e task =
     (if en_has_agent_state e then modify (\<lambda>s. s\<lparr>e_tasks := e_tasks s @ [task]\<rparr>) else ret ())"

section \<open>The in-memory path\<close>

definition memory_fill :: "engine_env \<Rightarrow> pydict \<Rightarrow> admitted \<Rightarrow> pydict \<Rightarrow> real \<Rightarrow> real option run" where
  "memory_fill e data a prior_position qty =
     (let p = ad_parsed a in
      bnd (build_vwap_plan qty) (\<lambda>vwap.
      bnd (submit_order e (d_symbol p) (d_side p) qty (d_price p)) (\<lambda>payload.
      bnd (lift_res (make_fill_context e data p prior_position qty (op_fill_price payload)
             (en_uuid_order e) (ad_key a) (ad_confidence a) vwap)) (\<lambda>c.
      andthen (record_fill_to_store e c (op_id payload))
     (andthen (publish_fill e c)
     (andthen (record_outcome e (fc_realized_pnl c))
     (andthen (clear_in_flight e) (ret (Some (op_fill_price payload))))))))))"

definition memory_order :: "engine_env \<Rightarrow> pydict \<Rightarrow> admitted \<Rightarrow> real option run" where
  "memory_order e data a =
     (let p = ad_parsed a in
      bnd (read_position e F_get_position (d_symbol p)) (\<lambda>prior_position.
      bnd (lift_res (reject_unmatched_sell (en_rp e) (d_side p) prior_position)) (\<lambda>rejected.
        if rejected
        then andthen (on_store (reject_sell_no_position (en_now e) (d_symbol p) (d_trace_id p)
                 (en_uuid_order e) ''NO_OPEN_POSITION''))
            (andthen (publish_sell_rejected e a (en_uuid_order e)) (ret None))
        else bnd (lift_res (clamp_order_qty e (d_side p) prior_position (ad_qty a))) (\<lambda>oq.
          case oq of None \<Rightarrow> ret None | Some qty \<Rightarrow> memory_fill e data a prior_position qty))))"

definition claim_dedup :: "string \<Rightarrow> bool run" where
  "claim_dedup key s = (if e_dedup s key then (Inr False, s)
     else (Inr True, s\<lparr>e_dedup := (e_dedup s)(key := True)\<rparr>))"

definition memory_done :: "engine_env \<Rightarrow> ParsedDecision \<Rightarrow> real option \<Rightarrow> unit run" where
  "memory_done e p filled = (case filled of
       None \<Rightarrow> ret ()
     | Some fill_price \<Rightarrow>
         andthen (note_task e (''order_filled_memory:'' @ d_symbol p))
           (write_heartbeat (d_symbol p) (HS_filled_memory (d_side p) fill_price) (d_trace_id p)))"

text \<open>the dedup claim, the lock, and the order inside \<open>try/finally\<close>\<close>
definition memory_guarded :: "engine_env \<Rightarrow> pydict \<Rightarrow> admitted \<Rightarrow> unit run" where
  "memory_guarded e data a =
     (let symbol = d_symbol (ad_parsed a) in
      bnd (claim_dedup (ad_key a)) (\<lambda>fresh.
        if \<not> fresh then ret ()
        else andthen (acquire_lock e symbol)
            (bnd (with_finally (memory_order e data a) (release_lock symbol))
               (memory_done e (ad_parsed a)))))"

definition process_in_memory :: "engine_env \<Rightarrow> pydict \<Rightarrow> unit run" where
  "process_in_memory e data =
     bnd (admit e data) (\<lambda>oa. case oa of None \<Rightarrow> ret () | Some a \<Rightarrow> memory_guarded e data a)"

section \<open>The database path\<close>

definition commit_session :: "engine \<Rightarrow> engine" where
  "commit_session s = s\<lparr>e_committed := e_db s\<rparr>"

definition rollback_session :: "engine \<Rightarrow> engine" where
  "rollback_session s = s\<lparr>e_db := e_committed s\<rparr>"

definition on_db :: "engine_env \<Rightarrow> fault_point \<Rightarrow> (database \<Rightarrow> database) \<Rightarrow> unit run" where
  "on_db e f g = andthen (fault e f) (modify (\<lambda>s. s\<lparr>e_db := g (e_db s)\<rparr>))"

datatype submission =
    Returned
  | Placed real "real list option" nat order_payload

datatype db_outcome =
    DB_returned
  | DB_failed_before
  | DB_failed_after pydict real "real list option" order_payload
  | DB_filled pydict real "real list option" nat order_payload

definition db_reject_sell :: "engine_env \<Rightarrow> admitted \<Rightarrow> submission run" where
  "db_reject_sell e a =
     (let p = ad_parsed a in
      andthen (fault e F_insert_rejected)
      (bnd (\<lambda>s. case insert_rejected_order_once (en_now_s e) (ad_key a) (d_strategy_id p) (d_symbol p)
                  (d_side p) (ad_qty a) (d_price p) (e_db s) of
              ((oid, created), db) \<Rightarrow> (Inr (oid, created), s\<lparr>e_db := db\<rparr>)) (\<lambda>(oid, created).
       andthen (fault e F_commit_rejected)
      (andthen (modify commit_session)
         (if \<not> created then ret Returned
          else andthen (publish_sell_rejected e a (nat_str oid)) (ret Returned))))))"

definition db_insert_order :: "engine_env \<Rightarrow> admitted \<Rightarrow> real \<Rightarrow> nat run" where
  "db_insert_order e a qty =
     (let p = ad_parsed a in
      andthen (fault e F_insert)
       (\<lambda>s. case insert_pending_order (en_now_s e) (d_strategy_id p) (d_symbol p) (d_side p) qty
              (d_price p) (ad_key a) ''pending'' (e_db s) of
            Inl x \<Rightarrow> (Inl x, s)
          | Inr (oid, db) \<Rightarrow> (Inr oid, s\<lparr>e_db := db\<rparr>)))"

definition db_submit :: "engine_env \<Rightarrow> admitted \<Rightarrow> pydict \<Rightarrow> submission run" where
  "db_submit e a prior_position =
     (let p = ad_parsed a in
      bnd (lift_res (reject_unmatched_sell (en_rp e) (d_side p) prior_position)) (\<lambda>rejected.
        if rejected then db_reject_sell e a
        else bnd (lift_res (clamp_order_qty e (d_side p) prior_position (ad_qty a))) (\<lambda>oq.
          case oq of
            None \<Rightarrow> ret Returned
          | Some qty \<Rightarrow>
              bnd (build_vwap_plan qty) (\<lambda>vwap.
              bnd (db_insert_order e a qty) (\<lambda>oid.
              andthen (fault e F_flush)
             (bnd (submit_order e (d_symbol p) (d_side p) qty (d_price p)) (\<lambda>payload.
                ret (Placed qty vwap oid payload))))))))"

definition db_record_fill ::
  "engine_env \<Rightarrow> admitted \<Rightarrow> pydict \<Rightarrow> real \<Rightarrow> real list option \<Rightarrow> nat \<Rightarrow> order_payload \<Rightarrow> unit run" where
  "db_record_fill e a prior_position qty vwap oid payload =
     (let p = ad_parsed a; fill_price = op_fill_price payload in
      andthen (on_db e F_update_fill (update_order_fill oid (op_status payload) (op_id payload)
                 fill_price qty (en_now_iso e)))
     (bnd (read_position e F_position_after (d_symbol p)) (\<lambda>broker_position.
      bnd (lift_res (num_or broker_position ''entry_price'' fill_price)) (\<lambda>avg_cost.
      andthen (on_db e F_upsert (upsert_position_db (d_strategy_id p) (d_symbol p) (d_side p) qty
                 fill_price (Some avg_cost)))
     (andthen (on_db e F_audit (insert_audit_log ''order_placed''
                 [(''order_id'', PStr (nat_str oid)), (''strategy_id'', PStr (d_strategy_id p)),
                  (''symbol'', PStr (d_symbol p)), (''side'', PStr (d_side p)), (''qty'', PFloat qty),
                  (''broker_order_id'', PStr (op_id payload)), (''vwap_plan'', vwap_val vwap)]))
     (andthen (fault e F_commit)
     (andthen (modify commit_session)
     (bnd (lift_res (compute_realized_pnl (en_rp e) prior_position (d_side p) qty fill_price)) (\<lambda>pnl.
      andthen (record_outcome e pnl) (clear_in_flight e))))))))))"

text \<open>the \<open>try\<close> of the transaction; an exception rolls back and is remembered\<close>
definition db_transaction :: "engine_env \<Rightarrow> admitted \<Rightarrow> pydict \<Rightarrow> db_outcome run" where
  "db_transaction e a prior_position =
     catch
       (bnd (db_submit e a prior_position) (\<lambda>r. case r of
            Returned \<Rightarrow> ret DB_returned
          | Placed qty vwap oid payload \<Rightarrow>
              catch (andthen (db_record_fill e a prior_position qty vwap oid payload)
                       (ret (DB_filled prior_position qty vwap oid payload)))
                (\<lambda>_. andthen (modify rollback_session)
                       (ret (DB_failed_after prior_position qty vwap payload)))))
       (\<lambda>_. andthen (modify rollback_session) (ret DB_failed_before))"

definition db_session :: "engine_env \<Rightarrow> admitted \<Rightarrow> db_outcome run" where
  "db_session e a =
     (let symbol = d_symbol (ad_parsed a) in
      with_finally
        (andthen (modify rollback_session)
        (andthen (fault e F_select)
        (bnd (gets (\<lambda>s. order_by_key (ad_key a) (e_db s))) (\<lambda>existing. case existing of
            Some _ \<Rightarrow> ret DB_returned
          | None \<Rightarrow>
              andthen (acquire_lock e symbol)
             (bnd (read_position e F_get_position symbol) (\<lambda>prior_position.
                with_finally (db_transaction e a prior_position) (release_lock symbol)))))))
        rollback_session)"

definition handle_db_failure ::
  "engine_env \<Rightarrow> pydict \<Rightarrow> admitted \<Rightarrow> pydict \<Rightarrow> real \<Rightarrow> real list option \<Rightarrow> order_payload \<Rightarrow> unit run" where
  "handle_db_failure e data a prior_position qty vwap payload =
     (let p = ad_parsed a in
      bnd (lift_res (make_fill_context e data p prior_position qty (op_fill_price payload)
             (en_uuid_order e) (ad_key a) (ad_confidence a) vwap)) (\<lambda>c.
      andthen (record_fill_to_store e c (op_id payload))
     (andthen (publish_fill e c)
        (write_heartbeat (d_symbol p) HS_db_fail_fill_recorded (d_trace_id p)))))"

definition lifecycle_row :: "FillContext \<Rightarrow> pydict" where
  "lifecycle_row c =
     [(''execution_trace_id'', PStr (fc_trace_id c)), (''symbol'', PStr (fc_symbol c)),
      (''side'', PStr (fc_side c)), (''qty'', PFloat (fc_qty c)),
      (''entry_price'', PFloat (fc_entry_price c)), (''exit_price'', exit_price_of c),
      (''pnl'', oflt (fc_pnl_value c)), (''pnl_percent'', PFloat (fc_pnl_percent c)),
      (''order_id'', PStr (fc_order_id c)), (''status'', PStr ''filled''),
      (''filled_at'', PStr (fc_filled_at c)), (''session_id'', PStr (fc_strategy_id c))]"

definition run_confidence :: "engine_env \<Rightarrow> string \<Rightarrow> real \<Rightarrow> real" where
  "run_confidence e trace_id dflt =
     (case safe_float (en_run_confidence e trace_id) of None \<Rightarrow> dflt | Some x \<Rightarrow> x)"

definition db_publish ::
  "engine_env \<Rightarrow> pydict \<Rightarrow> admitted \<Rightarrow> pydict \<Rightarrow> real \<Rightarrow> real list option \<Rightarrow> nat \<Rightarrow> order_payload \<Rightarrow> unit run" where
  "db_publish e data a prior_position qty vwap oid payload =
     (let p = ad_parsed a in
      bnd (lift_res (make_fill_context e data p prior_position qty (op_fill_price payload)
             (nat_str oid) (ad_key a) (run_confidence e (d_trace_id p) (ad_confidence a)) vwap)) (\<lambda>c.
      andthen (publish_fill e c)
     (andthen (if en_fault e F_lifecycle then ret ()
               else modify (\<lambda>s. s\<lparr>e_lifecycle := e_lifecycle s @ [lifecycle_row c]\<rparr>))
     (andthen (note_task e (''order_filled:'' @ d_symbol p))
        (write_heartbeat (d_symbol p) (HS_filled (d_side p) (op_fill_price payload)) (d_trace_id p))))))"

definition process_with_db :: "engine_env \<Rightarrow> engine_env \<Rightarrow> pydict \<Rightarrow> unit run" where
  "process_with_db e e2 data =
     bnd (admit e data) (\<lambda>oa. case oa of
         None \<Rightarrow> ret ()
       | Some a \<Rightarrow>
           bnd (db_session e a) (\<lambda>r. case r of
               DB_returned \<Rightarrow> ret ()
             | DB_failed_before \<Rightarrow> process_in_memory e2 data
             | DB_failed_after prior qty vwap payload \<Rightarrow> handle_db_failure e data a prior qty vwap payload
             | DB_filled prior qty vwap oid payload \<Rightarrow> db_publish e data a prior qty vwap oid payload))"

section \<open>Entry point\<close>

definition process :: "engine_env \<Rightarrow> engine_env \<Rightarrow> pydict \<Rightarrow> unit run" where
  "process e e2 data =
     bnd (gets e_kill_switch) (\<lambda>killed.
       if killed then throw (RuntimeError ''KillSwitchActive'')
       else andthen (modify (\<lambda>s. s\<lparr>e_evaluated := Suc (e_evaluated s)\<rparr>))
         (bnd (gets e_paused) (\<lambda>paused.
            if paused
            then write_heartbeat (symbol_hint e data) HS_paused (text_or_empty e data ''trace_id'')
            else if \<not> en_db_available e then process_in_memory e data
            else process_with_db e e2 data)))"

end
