(* ===== verification/Trade_Scorer.thy ===== *)
theory Trade_Scorer
  imports Py_Prelude "HOL-Library.Multiset" "HOL-Library.List_Lexorder" "HOL-Library.Char_ord"
begin

text \<open>
  The deterministic trade scorer (\<open>api/services/agents/trade_scorer.py\<close>): five dimension scores and
  their blend, the tag classifiers, and the aggregate statistics over scored trades. Inputs are
  dynamic dictionaries, so every \<open>float()\<close> may raise. The texts of the patterns are constructors
  that carry their numbers.
\<close>

section \<open>Dynamic helpers\<close>

text \<open>\<open>float(v or x)\<close>\<close>
definition float_or :: "pyval \<Rightarrow> real \<Rightarrow> real pyres" where
  "float_or v x = py_float (py_or v (PFloat x))"

lemma float_or_simps [simp]:
  "float_or PNone x = Inr x" "float_or (PFloat y) x = Inr (if y = 0 then x else y)"
  by (simp_all add: float_or_def py_or_def)

text \<open>\<open>str(v or "")\<close>\<close>
definition str_or :: "(pyval \<Rightarrow> string) \<Rightarrow> pyval \<Rightarrow> string" where
  "str_or rp v = py_str rp (py_or v (PStr []))"

lemma str_or_simps [simp]: "str_or rp PNone = []" "str_or rp (PStr s) = s"
  by (auto simp: str_or_def py_or_def)

definition norm_side :: "(pyval \<Rightarrow> string) \<Rightarrow> pyval \<Rightarrow> string" where
  "norm_side rp v = py_strip (py_lower (str_or rp v))"

text \<open>iteration over a value, and \<open>in\<close>\<close>
definition py_iter :: "pyval \<Rightarrow> pyval list pyres" where
  "py_iter v = (case v of PList l \<Rightarrow> Inr l | PStr s \<Rightarrow> Inr (map (\<lambda>c. PStr [c]) s)
     | PDict d \<Rightarrow> Inr (map (PStr \<circ> fst) d) | _ \<Rightarrow> Inl TypeError)"

definition str_in :: "string \<Rightarrow> pyval \<Rightarrow> bool pyres" where
  "str_in k v = (case v of PList l \<Rightarrow> Inr (PStr k \<in> set l) | PStr s \<Rightarrow> Inr (is_infix k s)
     | PDict d \<Rightarrow> Inr (k \<in> fst ` set d) | _ \<Rightarrow> Inl TypeError)"

text \<open>a comprehension whose body may raise\<close>
fun res_map :: "('a \<Rightarrow> 'b pyres) \<Rightarrow> 'a list \<Rightarrow> 'b list pyres" where
  "res_map f [] = Inr []"
| "res_map f (x # xs) = res_bind (f x) (\<lambda>y. res_bind (res_map f xs) (\<lambda>ys. Inr (y # ys)))"

lemma res_map_Inr: "(\<And>x. x \<in> set xs \<Longrightarrow> f x = Inr (g x)) \<Longrightarrow> res_map f xs = Inr (map g xs)"
  by (induction xs) auto

lemma res_map_length: "res_map f xs = Inr ys \<Longrightarrow> length ys = length xs"
  by (induction xs arbitrary: ys) (auto simp: res_bind_Inr_iff)

section \<open>Dimension scores\<close>

definition unit_clamp :: "real \<Rightarrow> real" where
  "unit_clamp v = clamp_to 0 1 v"

definition normalize :: "real \<Rightarrow> real \<Rightarrow> real \<Rightarrow> real" where
  "normalize x min_val max_val =
     (if max_val \<le> min_val then 1 / 2 else unit_clamp ((x - min_val) / (max_val - min_val)))"

definition score_normalized_return :: "pyval \<Rightarrow> real pyres" where
  "score_normalized_return pnl_percent = res_bind (float_or pnl_percent 0) (\<lambda>pct. Inr (normalize pct (- 10) 10))"

definition score_risk_reward :: "pyval \<Rightarrow> pyval \<Rightarrow> real pyres" where
  "score_risk_reward pnl pnl_percent =
     res_bind (float_or pnl 0) (\<lambda>pnl_val. res_bind (float_or pnl_percent 0) (\<lambda>pct.
       Inr (if pnl_val > 0 then unit_clamp (1 / 2 + pct / 20)
            else if pnl_val < 0 then unit_clamp (1 / 2 + pct / 20) else 1 / 2)))"

definition score_entry_quality :: "pyval \<Rightarrow> real pyres" where
  "score_entry_quality confidence =
     res_bind (float_or confidence (1 / 2)) (\<lambda>conf. Inr (normalize conf (3 / 10) (95 / 100)))"

definition score_exit_quality :: "pyval \<Rightarrow> real pyres" where
  "score_exit_quality pnl_percent = res_bind (float_or pnl_percent 0) (\<lambda>pct. Inr (unit_clamp (1 / 2 + pct / 10)))"

definition score_signal_alignment :: "(pyval \<Rightarrow> string) \<Rightarrow> pyval \<Rightarrow> pyval \<Rightarrow> real" where
  "score_signal_alignment rp side action =
     (let s = norm_side rp side; a = norm_side rp action
      in if s = [] \<or> a = [] then 1
         else if s = a then 1
         else if (s \<in> {''buy'', ''long''} \<and> a \<in> {''buy'', ''long''})
              \<or> (s \<in> {''sell'', ''short''} \<and> a \<in> {''sell'', ''short''}) then 1
         else 1 / 2)"

section \<open>Context of a trade\<close>

record TradeContext =
  tx_side :: string
  tx_pnl :: real
  tx_pnl_pct :: real
  tx_holding_minutes :: "real option"
  tx_move_pct :: "real option"
  tx_adverse_excursion_pct :: "real option"

definition direction_sign_from_side_event :: "string \<Rightarrow> bool \<Rightarrow> real" where
  "direction_sign_from_side_event side has_exit_price =
     (if side = ''long'' then 1 else if side = ''short'' then - 1
      else if has_exit_price \<and> side = ''sell'' then 1
      else if has_exit_price \<and> side = ''buy'' then - 1
      else if side = ''sell'' then - 1 else 1)"

definition price_move_percent :: "string \<Rightarrow> pyval \<Rightarrow> pyval \<Rightarrow> real option" where
  "price_move_percent side entry_price exit_price =
     (case (safe_float entry_price, safe_float exit_price) of
        (Some entry, Some ex) \<Rightarrow>
          if entry \<le> 0 then None
          else Some ((ex - entry) / entry * 100 * direction_sign_from_side_event (py_lower (py_strip side)) True)
      | _ \<Rightarrow> None)"

definition build_trade_context :: "(pyval \<Rightarrow> string) \<Rightarrow> pydict \<Rightarrow> TradeContext pyres" where
  "build_trade_context rp t =
     (let side_norm = py_lower (py_strip (str_or rp (py_get t ''side'')));
          explicit = py_lower (py_strip (str_or rp (py_get t ''position_side'')));
          direction_key = (if explicit \<noteq> [] then explicit else side_norm);
          move = price_move_percent direction_key (py_get t ''entry_price'') (py_get t ''exit_price'')
      in res_bind (float_or (py_get t ''pnl'') 0) (\<lambda>pnl.
         res_bind (float_or (py_get t ''pnl_percent'') 0) (\<lambda>pct.
           Inr \<lparr>tx_side = side_norm, tx_pnl = pnl, tx_pnl_pct = pct,
                tx_holding_minutes = safe_float (py_get t ''holding_period_minutes''), tx_move_pct = move,
                tx_adverse_excursion_pct = map_option (\<lambda>m. \<bar>pct - m\<bar>) move\<rparr>)))"

section \<open>Tags\<close>

text \<open>\<open>sorted({...})\<close>\<close>
definition tag_set :: "string list \<Rightarrow> string list" where
  "tag_set ts = sort (remdups ts)"

definition only_if :: "bool \<Rightarrow> 'a \<Rightarrow> 'a list" where
  "only_if b x = (if b then [x] else [])"

definition opt_lt :: "real option \<Rightarrow> real \<Rightarrow> bool" where
  "opt_lt v x = (case v of None \<Rightarrow> False | Some y \<Rightarrow> y < x)"

definition opt_gt :: "real option \<Rightarrow> real \<Rightarrow> bool" where
  "opt_gt v x = (case v of None \<Rightarrow> False | Some y \<Rightarrow> y > x)"

definition opt_ge :: "real option \<Rightarrow> real \<Rightarrow> bool" where
  "opt_ge v x = (case v of None \<Rightarrow> False | Some y \<Rightarrow> y \<ge> x)"

text \<open>\<open>pnl_val\<close> is \<open>float(pnl) if pnl is not None else 0.0\<close>\<close>
definition pnl_value :: "pyval \<Rightarrow> real pyres" where
  "pnl_value pnl = (if pnl = PNone then Inr 0 else py_float pnl)"

definition classify_mistakes :: "real \<Rightarrow> real \<Rightarrow> real \<Rightarrow> real \<Rightarrow> real \<Rightarrow> TradeContext \<Rightarrow> string list" where
  "classify_mistakes entry_q exit_q rr_score sig_align pnl_val cx = tag_set
     (only_if (entry_q < 4 / 10) ''late_entry'' @ only_if (exit_q < 4 / 10) ''poor_exit''
    @ only_if (rr_score < 35 / 100) ''bad_risk_reward'' @ only_if (sig_align < 8 / 10) ''misaligned_signal''
    @ only_if (pnl_val < 0 \<and> entry_q < 1 / 2) ''premature_entry''
    @ only_if (opt_lt (tx_holding_minutes cx) 2 \<and> pnl_val < 0) ''early_exit''
    @ only_if (opt_lt (tx_move_pct cx) (- 25 / 100)) ''adverse_price_move''
    @ only_if (opt_gt (tx_adverse_excursion_pct cx) (1 / 2) \<and> pnl_val < 0) ''execution_drag'')"

definition classify_strengths :: "real \<Rightarrow> real \<Rightarrow> real \<Rightarrow> real \<Rightarrow> real \<Rightarrow> TradeContext \<Rightarrow> string list" where
  "classify_strengths entry_q exit_q rr_score sig_align pnl_val cx = tag_set
     (only_if (entry_q \<ge> 7 / 10) ''good_entry_timing'' @ only_if (exit_q \<ge> 7 / 10) ''clean_exit''
    @ only_if (rr_score \<ge> 65 / 100) ''good_risk_reward'' @ only_if (sig_align \<ge> 9 / 10) ''trend_alignment''
    @ only_if (pnl_val > 0) ''profitable''
    @ only_if (opt_ge (tx_holding_minutes cx) 10 \<and> pnl_val > 0) ''patience_paid''
    @ only_if (opt_gt (tx_move_pct cx) (4 / 10)) ''captured_directional_move''
    @ only_if (opt_lt (tx_adverse_excursion_pct cx) (2 / 10) \<and> pnl_val > 0) ''clean_execution'')"

definition system_mistakes :: "(pyval \<Rightarrow> string) \<Rightarrow> pydict \<Rightarrow> string list" where
  "system_mistakes rp t =
     (let current_regime = py_lower (py_strip (str_or rp (py_get t ''current_regime'')));
          signal_regime = py_lower (py_strip (str_or rp (py_get t ''regime'')))
      in tag_set
       (only_if (opt_ge (safe_float (py_get t ''latency_ms'')) 1200) ''signal_latency''
      @ only_if (opt_ge (safe_float (py_get t ''slippage_variance'')) (5 / 1000)) ''fill_quality_poor''
      @ only_if (opt_ge (safe_float (py_get t ''spread_pct'')) (25 / 100)) ''low_liquidity_skew''
      @ only_if (current_regime \<noteq> [] \<and> signal_regime \<noteq> [] \<and> current_regime \<noteq> signal_regime) ''regime_shift''
      @ only_if (truthy (py_get t ''rate_limit'')) ''api_throttle_penalty''
      @ only_if (truthy (py_get t ''data_integrity_issue'')) ''data_integrity_issue''))"

definition system_strengths :: "TradeContext \<Rightarrow> string list" where
  "system_strengths cx = only_if (tx_pnl cx > 0 \<and> opt_gt (tx_adverse_excursion_pct cx) 1) ''reversion_luck''"

definition MISTAKE_ORDER :: "string list" where
  "MISTAKE_ORDER = [''data_integrity_issue'', ''api_throttle_penalty'', ''signal_latency'', ''fill_quality_poor'',
     ''low_liquidity_skew'', ''regime_shift'', ''execution_drag'', ''adverse_price_move'', ''early_exit'',
     ''premature_entry'', ''misaligned_signal'', ''bad_risk_reward'', ''poor_exit'', ''late_entry'']"

definition STRENGTH_ORDER :: "string list" where
  "STRENGTH_ORDER = [''trend_alignment'', ''clean_execution'', ''captured_directional_move'', ''patience_paid'',
     ''good_risk_reward'', ''clean_exit'', ''good_entry_timing'', ''profitable'', ''reversion_luck'']"

definition MAX_TAGS_PER_BUCKET :: nat where "MAX_TAGS_PER_BUCKET = 6"

definition normalize_tags :: "string list \<Rightarrow> bool \<Rightarrow> string list" where
  "normalize_tags tags mistakes =
     (let unique0 = remdups (filter (\<lambda>t. t \<noteq> []) tags);
          unique = (if \<not> mistakes \<and> ''reversion_luck'' \<in> set unique0
                    then filter (\<lambda>t. t \<noteq> ''clean_execution'') unique0 else unique0);
          ordered = (if mistakes then MISTAKE_ORDER else STRENGTH_ORDER);
          out = filter (\<lambda>t. t \<in> set unique) ordered;
          remainder = sort (filter (\<lambda>t. t \<notin> set out) unique)
      in take MAX_TAGS_PER_BUCKET (out @ remainder))"

section \<open>The composite score\<close>

definition score_to_grade :: "real \<Rightarrow> string" where
  "score_to_grade score =
     (if score \<ge> 90 / 100 then ''A'' else if score \<ge> 75 / 100 then ''B'' else if score \<ge> 60 / 100 then ''C''
      else if score \<ge> 40 / 100 then ''D'' else ''F'')"

definition overall_score :: "real \<Rightarrow> real \<Rightarrow> real \<Rightarrow> real \<Rightarrow> real \<Rightarrow> real" where
  "overall_score norm_return rr_score entry_q exit_q sig_align =
     unit_clamp (30 / 100 * norm_return + 25 / 100 * rr_score + 20 / 100 * entry_q + 15 / 100 * exit_q
       + 10 / 100 * sig_align)"

definition opt_float :: "pyval \<Rightarrow> pyval pyres" where
  "opt_float v = (if v = PNone then Inr PNone else res_bind (py_float v) (\<lambda>x. Inr (PFloat x)))"

definition trade_id_of :: "pydict \<Rightarrow> pyval" where
  "trade_id_of t = py_or (py_get t ''trade_id'') (py_or (py_get t ''execution_trace_id'')
     (py_or (py_get t ''order_id'') (py_or (py_get t ''trace_id'') (PStr []))))"

definition str_list :: "string list \<Rightarrow> pyval" where
  "str_list ts = PList (map PStr ts)"

definition score_trade :: "(pyval \<Rightarrow> string) \<Rightarrow> pydict \<Rightarrow> pydict pyres" where
  "score_trade rp t =
     (let pnl = py_get t ''pnl''; pnl_pct = py_get t ''pnl_percent'';
          confidence = py_or (py_get t ''confidence'') (py_get t ''signal_confidence'');
          side = py_get t ''side''; action = py_get t ''action'';
          sig_align = score_signal_alignment rp side action
      in res_bind (score_normalized_return pnl_pct) (\<lambda>norm_return.
         res_bind (score_risk_reward pnl pnl_pct) (\<lambda>rr_score.
         res_bind (score_entry_quality confidence) (\<lambda>entry_q.
         res_bind (score_exit_quality pnl_pct) (\<lambda>exit_q.
         let overall = overall_score norm_return rr_score entry_q exit_q sig_align;
             timing = unit_clamp (1 / 2 * norm_return + 1 / 2 * entry_q);
             confidence_out = unit_clamp (1 - \<bar>overall - 1 / 2\<bar> * (1 / 2))
         in res_bind (build_trade_context rp t) (\<lambda>cx.
            res_bind (pnl_value pnl) (\<lambda>pnl_val.
            let mistakes = normalize_tags (classify_mistakes entry_q exit_q rr_score sig_align pnl_val cx
                             @ system_mistakes rp t) True;
                strengths = normalize_tags (classify_strengths entry_q exit_q rr_score sig_align pnl_val cx
                             @ system_strengths cx) False
            in res_bind (opt_float pnl) (\<lambda>pnl_out.
               res_bind (opt_float pnl_pct) (\<lambda>pct_out.
               res_bind (float_or (py_get t ''decision_cost_usd'') 0) (\<lambda>cost.
                 Inr [(''trade_eval_id'', PStr (py_str rp (trade_id_of t))), (''symbol'', py_get t ''symbol''),
                      (''side'', side), (''pnl'', pnl_out), (''pnl_percent'', pct_out),
                      (''entry_quality'', PFloat (py_round 4 entry_q)), (''exit_quality'', PFloat (py_round 4 exit_q)),
                      (''timing_score'', PFloat (py_round 4 timing)),
                      (''signal_alignment'', PFloat (py_round 4 sig_align)),
                      (''risk_reward'', PFloat (py_round 4 rr_score)),
                      (''overall_score'', PFloat (py_round 4 overall)), (''grade'', PStr (score_to_grade overall)),
                      (''confidence'', PFloat (py_round 4 confidence_out)), (''mistakes'', str_list mistakes),
                      (''strengths'', str_list strengths), (''norm_return'', PFloat (py_round 4 norm_return)),
                      (''model_used'', PStr (str_or rp (py_get t ''model_used''))),
                      (''primary_edge'', PStr (str_or rp (py_get t ''primary_edge''))),
                      (''decision_cost_usd'', PFloat cost)]))))))))))"


section \<open>Statistics over scored trades\<close>

record mistake_cluster =
  mc_type :: string
  mc_frequency :: real
  mc_impact :: real
  mc_count :: nat

text \<open>\<open>mistake_pnl.setdefault(str(m), []).append(pnl_val)\<close> for every tag of one evaluation\<close>
definition add_tags :: "(pyval \<Rightarrow> string) \<Rightarrow> real \<Rightarrow> pyval list \<Rightarrow> (string \<times> real list) list \<Rightarrow> (string \<times> real list) list" where
  "add_tags rp pnl ms acc = fold (\<lambda>m acc. dset (py_str rp m) (dget acc (py_str rp m) [] @ [pnl]) acc) ms acc"

fun mistake_pnl :: "(pyval \<Rightarrow> string) \<Rightarrow> pydict list \<Rightarrow> (string \<times> real list) list \<Rightarrow> (string \<times> real list) list pyres" where
  "mistake_pnl rp [] acc = Inr acc"
| "mistake_pnl rp (ev # evs) acc =
     res_bind (float_or (py_get ev ''pnl'') 0) (\<lambda>pnl.
     res_bind (py_iter (dget ev ''mistakes'' (PList []))) (\<lambda>ms. mistake_pnl rp evs (add_tags rp pnl ms acc)))"

definition cluster_of :: "nat \<Rightarrow> string \<times> real list \<Rightarrow> mistake_cluster" where
  "cluster_of total_n x = (case x of (m, pnls) \<Rightarrow>
     \<lparr>mc_type = m, mc_frequency = py_round 4 (real (length pnls) / real total_n),
      mc_impact = (if pnls \<noteq> [] then py_round 4 (sum_list pnls / real (length pnls)) else 0),
      mc_count = length pnls\<rparr>)"

text \<open>two stable sorts: by name, then by the size of the impact, largest first\<close>
definition compute_mistake_clusters :: "(pyval \<Rightarrow> string) \<Rightarrow> pydict list \<Rightarrow> mistake_cluster list pyres" where
  "compute_mistake_clusters rp evaluations =
     (if evaluations = [] then Inr []
      else res_bind (mistake_pnl rp evaluations []) (\<lambda>acc.
        Inr (sort_key (\<lambda>c. - \<bar>mc_impact c\<bar>) (map (cluster_of (length evaluations)) (sort_key fst acc)))))"

datatype pattern =
    Low_win_rate real | Strong_win_rate real | Late_entries real | Poor_exits real | Large_losses real
  | Score_below_par | Score_strong

definition tag_rate :: "string \<Rightarrow> pydict list \<Rightarrow> real pyres" where
  "tag_rate tag evs = res_bind (res_map (\<lambda>e. str_in tag (dget e ''mistakes'' (PList []))) evs) (\<lambda>hits.
     Inr (real (length (filter id hits)) / real (length evs)))"

definition compute_patterns :: "pydict list \<Rightarrow> pattern list pyres" where
  "compute_patterns evaluations =
     (if evaluations = [] then Inr []
      else let n = real (length evaluations) in
        res_bind (res_map (\<lambda>e. float_or (py_get e ''pnl'') 0) evaluations) (\<lambda>pnls.
        let win_rate = real (length (filter (\<lambda>p. p > 0) pnls)) / n;
            losses = map fst (filter (\<lambda>(e, p). p < 0) (zip evaluations pnls)) in
        res_bind (tag_rate ''late_entry'' evaluations) (\<lambda>late.
        res_bind (tag_rate ''poor_exit'' evaluations) (\<lambda>poor.
        res_bind (res_map (\<lambda>e. float_or (py_get e ''pnl_percent'') 0) losses) (\<lambda>loss_pcts.
        res_bind (res_map (\<lambda>e. float_or (py_get e ''overall_score'') 0) evaluations) (\<lambda>scores.
        let avg_loss = sum_list loss_pcts / real (length losses); avg_score = sum_list scores / n in
        Inr ((if win_rate < 4 / 10 then [Low_win_rate win_rate]
              else if win_rate > 65 / 100 then [Strong_win_rate win_rate] else [])
           @ only_if (late > 35 / 100) (Late_entries late) @ only_if (poor > 35 / 100) (Poor_exits poor)
           @ (if losses \<noteq> [] then only_if (avg_loss < - 3) (Large_losses avg_loss) else [])
           @ (if avg_score < 1 / 2 then [Score_below_par] else if avg_score > 7 / 10 then [Score_strong] else []))))))))"

text \<open>the texts; the dash is its UTF-8 bytes\<close>
definition RECOMMENDATIONS :: "(string \<times> string) list" where
  "RECOMMENDATIONS =
    [(''late_entry'', ''wait for signal confirmation before entering '' @ [CHR 0xE2, CHR 0x80, CHR 0x94] @ '' reduce entry delay''),
     (''poor_exit'', ''use trailing stops or take-profit targets to improve exit quality''),
     (''bad_risk_reward'', ''filter out trades with R/R below 1.5:1''),
     (''misaligned_signal'', ''reject trades where execution direction contradicts signal direction''),
     (''premature_entry'', ''require at least 2 confirming indicators before entry''),
     (''early_exit'', ''enforce minimum hold time unless stop-loss is hit to avoid noise exits''),
     (''adverse_price_move'', ''tighten regime filter when directional move turns against position quickly''),
     (''execution_drag'', ''audit slippage/fees and route sizing to reduce execution drag''),
     (''signal_latency'', ''reduce decision-to-execution latency; enforce max stale-signal window''),
     (''fill_quality_poor'', ''route to higher-liquidity venues or use adaptive limit offsets''),
     (''low_liquidity_skew'', ''avoid thin-liquidity windows and widen spread guards''),
     (''regime_shift'', ''gate entries on regime confirmation to avoid stale strategy assumptions''),
     (''api_throttle_penalty'', ''add pre-emptive request budgeting and throttle-aware exit logic''),
     (''data_integrity_issue'', ''quarantine delayed/corrupt market data before signal generation'')]"

text \<open>the loop of \<open>compute_recommendations\<close>\<close>
fun recommend :: "mistake_cluster list \<Rightarrow> string list \<Rightarrow> string list" where
  "recommend [] seen = []"
| "recommend (c # cs) seen =
     (if mc_frequency c < 15 / 100 then recommend cs seen
      else case map_of RECOMMENDATIONS (mc_type c) of
        None \<Rightarrow> recommend cs seen
      | Some r \<Rightarrow> if r \<in> set seen then recommend cs seen else r # recommend cs (r # seen))"

definition compute_recommendations :: "mistake_cluster list \<Rightarrow> string list" where
  "compute_recommendations clusters = recommend clusters []"

section \<open>Learning metrics\<close>

definition MIN_RELIABLE_TRADES :: nat where "MIN_RELIABLE_TRADES = 10"
definition MIN_STABLE_TRADES :: nat where "MIN_STABLE_TRADES = 30"

record learning_metrics =
  lm_total :: nat
  lm_win_rate :: real
  lm_avg_return :: real
  lm_sharpe :: real
  lm_max_drawdown :: real
  lm_avg_score :: real
  lm_score_trend :: string
  lm_consistency :: real
  lm_status :: string

definition sample_variance :: "real list \<Rightarrow> real \<Rightarrow> real" where
  "sample_variance xs m = sum_list (map (\<lambda>x. (x - m)\<^sup>2) xs) / (real (length xs) - 1)"

definition trade_sharpe :: "real list \<Rightarrow> real" where
  "trade_sharpe pcts =
     (if length pcts > 1 \<and> list_ex (\<lambda>p. p \<noteq> hd pcts) pcts
      then let mean_r = fmean pcts; variance = sample_variance pcts mean_r;
               std_r = (if variance > 0 then sqrt variance else 0)
           in if std_r > 1 / 1000 then mean_r / std_r * sqrt 252 else 0
      else 0)"

text \<open>the loop over the cumulative curve: (cumulative, peak, max_dd)\<close>
fun drawdown_walk :: "real list \<Rightarrow> real \<Rightarrow> real \<Rightarrow> real \<Rightarrow> real" where
  "drawdown_walk [] cumulative peak max_dd = max_dd"
| "drawdown_walk (pct # pcts) cumulative peak max_dd =
     (let c = cumulative + pct; p = (if c > peak then c else peak); dd = p - c
      in drawdown_walk pcts c p (if dd > max_dd then dd else max_dd))"

definition score_slope :: "real list \<Rightarrow> real \<Rightarrow> real" where
  "score_slope scores avg =
     (let n = length scores; x_mean = (real n - 1) / 2;
          numerator = sum_list (map (\<lambda>i. (real i - x_mean) * (scores ! i - avg)) [0..<n]);
          denominator = sum_list (map (\<lambda>i. (real i - x_mean)\<^sup>2) [0..<n])
      in if denominator > 0 then numerator / denominator else 0)"

definition score_trend_of :: "real list \<Rightarrow> real \<Rightarrow> string" where
  "score_trend_of scores avg =
     (if length scores \<ge> 5
      then let slope = score_slope scores avg
           in if slope > 5 / 1000 then ''improving'' else if slope < - 5 / 1000 then ''declining'' else ''stable''
      else ''stable'')"

definition consistency_of :: "real list \<Rightarrow> real \<Rightarrow> real" where
  "consistency_of scores avg =
     (if avg > 1 / 100 \<and> length scores > 1
      then let variance = sample_variance scores avg; std_s = (if variance > 0 then sqrt variance else 0)
           in unit_clamp (1 - std_s / avg)
      else 0)"

definition metric_status :: "nat \<Rightarrow> string" where
  "metric_status n = (if n < MIN_RELIABLE_TRADES then ''insufficient_data''
     else if n < MIN_STABLE_TRADES then ''unstable'' else ''reliable'')"

definition compute_learning_metrics :: "pydict list \<Rightarrow> learning_metrics pyres" where
  "compute_learning_metrics evaluations =
     (if evaluations = []
      then Inr \<lparr>lm_total = 0, lm_win_rate = 0, lm_avg_return = 0, lm_sharpe = 0, lm_max_drawdown = 0,
             lm_avg_score = 0, lm_score_trend = ''insufficient_data'', lm_consistency = 0,
             lm_status = ''insufficient_data''\<rparr>
      else res_bind (res_map (\<lambda>e. float_or (py_get e ''pnl_percent'') 0) evaluations) (\<lambda>pnl_pcts.
           res_bind (res_map (\<lambda>e. float_or (py_get e ''pnl'') 0) evaluations) (\<lambda>pnls.
           res_bind (res_map (\<lambda>e. float_or (py_get e ''overall_score'') 0) evaluations) (\<lambda>scores.
           let n = length evaluations; avg_score = sum_list scores / real n in
           Inr \<lparr>lm_total = n, lm_win_rate = py_round 4 (real (length (filter (\<lambda>p. p > 0) pnls)) / real n),
                lm_avg_return = py_round 4 (sum_list pnl_pcts / real n),
                lm_sharpe = py_round 4 (trade_sharpe pnl_pcts),
                lm_max_drawdown = py_round 4 (- drawdown_walk pnl_pcts 0 0 0),
                lm_avg_score = py_round 4 avg_score, lm_score_trend = score_trend_of scores avg_score,
                lm_consistency = py_round 4 (consistency_of scores avg_score), lm_status = metric_status n\<rparr>))))"

section \<open>Per-model performance\<close>

record ModelAcc =
  ma_trades :: nat
  ma_wins :: nat
  ma_score_sum :: real
  ma_pnl_sum :: real
  ma_cost_sum :: real

definition new_model_acc :: ModelAcc where
  "new_model_acc = \<lparr>ma_trades = 0, ma_wins = 0, ma_score_sum = 0, ma_pnl_sum = 0, ma_cost_sum = 0\<rparr>"

definition opt_number :: "pyval \<Rightarrow> real option pyres" where
  "opt_number v = (if v = PNone then Inr None else res_bind (py_float v) (\<lambda>x. Inr (Some x)))"

definition add_evaluation :: "pydict \<Rightarrow> ModelAcc \<Rightarrow> ModelAcc pyres" where
  "add_evaluation ev acc =
     res_bind (opt_number (py_get ev ''pnl'')) (\<lambda>pnl.
     res_bind (opt_number (py_get ev ''overall_score'')) (\<lambda>score.
     res_bind (opt_number (py_get ev ''decision_cost_usd'')) (\<lambda>cost.
       Inr \<lparr>ma_trades = ma_trades acc + 1,
            ma_wins = ma_wins acc + (case pnl of Some p \<Rightarrow> if p > 0 then 1 else 0 | None \<Rightarrow> 0),
            ma_score_sum = ma_score_sum acc + (case score of Some x \<Rightarrow> x | None \<Rightarrow> 0),
            ma_pnl_sum = ma_pnl_sum acc + (case pnl of Some x \<Rightarrow> x | None \<Rightarrow> 0),
            ma_cost_sum = ma_cost_sum acc + (case cost of Some x \<Rightarrow> x | None \<Rightarrow> 0)\<rparr>)))"

fun model_buckets :: "(pyval \<Rightarrow> string) \<Rightarrow> pydict list \<Rightarrow> (string \<times> ModelAcc) list \<Rightarrow> (string \<times> ModelAcc) list pyres" where
  "model_buckets rp [] acc = Inr acc"
| "model_buckets rp (ev # evs) acc =
     (let model = py_strip (str_or rp (py_get ev ''model_used''))
      in if model = [] then model_buckets rp evs acc
         else res_bind (add_evaluation ev (dget acc model new_model_acc)) (\<lambda>a.
                model_buckets rp evs (dset model a acc)))"

record model_row =
  mr_model :: string
  mr_trade_count :: nat
  mr_win_rate :: real
  mr_avg_score :: real
  mr_total_pnl :: real
  mr_avg_pnl :: real
  mr_total_cost :: real
  mr_net_roi :: real

definition model_row_of :: "string \<times> ModelAcc \<Rightarrow> model_row" where
  "model_row_of x = (case x of (m, acc) \<Rightarrow>
     let n = real (ma_trades acc); per = (\<lambda>v. if ma_trades acc \<noteq> 0 then py_round 4 (v / n) else 0)
     in \<lparr>mr_model = m, mr_trade_count = ma_trades acc, mr_win_rate = per (real (ma_wins acc)),
         mr_avg_score = per (ma_score_sum acc), mr_total_pnl = py_round 4 (ma_pnl_sum acc),
         mr_avg_pnl = per (ma_pnl_sum acc), mr_total_cost = py_round 6 (ma_cost_sum acc),
         mr_net_roi = py_round 4 (ma_pnl_sum acc - ma_cost_sum acc)\<rparr>)"

definition aggregate_model_performance :: "(pyval \<Rightarrow> string) \<Rightarrow> pydict list \<Rightarrow> model_row list pyres" where
  "aggregate_model_performance rp evaluations =
     res_bind (model_buckets rp evaluations []) (\<lambda>acc.
       Inr (sort_key (\<lambda>r. - int (mr_trade_count r)) (map model_row_of acc)))"


section \<open>Scores stay in the unit interval\<close>

lemma unit_clamp_01: "0 \<le> unit_clamp v \<and> unit_clamp v \<le> 1"
  using clamp_to_bounds [of 0 1 v] by (simp add: unit_clamp_def)

lemma unit_clamp_mono: "v \<le> w \<Longrightarrow> unit_clamp v \<le> unit_clamp w"
  by (simp add: unit_clamp_def clamp_to_mono)

lemma normalize_01: "0 \<le> normalize x a b \<and> normalize x a b \<le> 1"
  by (simp add: normalize_def unit_clamp_01)

lemma normalize_mono: "x \<le> y \<Longrightarrow> normalize x a b \<le> normalize y a b"
  by (auto simp: normalize_def intro!: unit_clamp_mono divide_right_mono)

lemma round_01: "0 \<le> x \<and> x \<le> 1 \<Longrightarrow> 0 \<le> py_round n x \<and> py_round n x \<le> 1"
  by (simp add: py_round_ge py_round_le)

lemma alignment_01: "0 \<le> score_signal_alignment rp s a \<and> score_signal_alignment rp s a \<le> 1"
  by (simp add: score_signal_alignment_def Let_def)

lemma dimension_01:
  "score_normalized_return v = Inr x \<Longrightarrow> 0 \<le> x \<and> x \<le> 1" "score_risk_reward p v = Inr x \<Longrightarrow> 0 \<le> x \<and> x \<le> 1"
  "score_entry_quality v = Inr x \<Longrightarrow> 0 \<le> x \<and> x \<le> 1" "score_exit_quality v = Inr x \<Longrightarrow> 0 \<le> x \<and> x \<le> 1"
  by (auto simp: score_normalized_return_def score_risk_reward_def score_entry_quality_def score_exit_quality_def
      res_bind_Inr_iff normalize_01 unit_clamp_01 split: if_splits)

lemma length_normalize_tags: "length (normalize_tags ts b) \<le> MAX_TAGS_PER_BUCKET"
  by (simp add: normalize_tags_def Let_def)

lemma distinct_tags_first: "distinct out \<Longrightarrow> distinct u \<Longrightarrow> distinct (take n (out @ sort (filter (\<lambda>t. t \<notin> set out) u)))"
  by (rule distinct_take) auto

lemma distinct_normalize_tags: "distinct (normalize_tags ts b)"
proof -
  have "distinct MISTAKE_ORDER" "distinct STRENGTH_ORDER"
    by (simp_all add: MISTAKE_ORDER_def STRENGTH_ORDER_def)
  then show ?thesis unfolding normalize_tags_def Let_def by (intro distinct_tags_first) auto
qed

lemma set_normalize_tags: "set (normalize_tags ts b) \<subseteq> set ts"
  by (auto simp: normalize_tags_def Let_def dest!: in_set_takeD split: if_splits)

lemma strengths_not_both:
  "\<not> (''clean_execution'' \<in> set (normalize_tags ts False) \<and> ''reversion_luck'' \<in> set (normalize_tags ts False))"
  by (auto simp: normalize_tags_def Let_def dest!: in_set_takeD split: if_splits)

definition unit_field :: "pydict \<Rightarrow> string \<Rightarrow> bool" where
  "unit_field r k \<longleftrightarrow> (\<exists>x. py_get r k = PFloat x \<and> 0 \<le> x \<and> x \<le> 1)"

definition SCORE_FIELDS :: "string list" where
  "SCORE_FIELDS = [''entry_quality'', ''exit_quality'', ''timing_score'', ''signal_alignment'', ''risk_reward'',
     ''overall_score'', ''confidence'', ''norm_return'']"

text \<open>the part of a scored trade the theorems speak about\<close>
lemma score_trade_fields:
  assumes "score_trade rp t = Inr r"
  obtains nr rr eq xq cx pv where
    "score_normalized_return (py_get t ''pnl_percent'') = Inr nr" "score_risk_reward (py_get t ''pnl'') (py_get t ''pnl_percent'') = Inr rr"
    "score_entry_quality (py_or (py_get t ''confidence'') (py_get t ''signal_confidence'')) = Inr eq"
    "score_exit_quality (py_get t ''pnl_percent'') = Inr xq" "build_trade_context rp t = Inr cx" "pnl_value (py_get t ''pnl'') = Inr pv"
    "py_get r ''entry_quality'' = PFloat (py_round 4 eq)" "py_get r ''exit_quality'' = PFloat (py_round 4 xq)"
    "py_get r ''timing_score'' = PFloat (py_round 4 (unit_clamp (1 / 2 * nr + 1 / 2 * eq)))"
    "py_get r ''signal_alignment'' = PFloat (py_round 4 (score_signal_alignment rp (py_get t ''side'') (py_get t ''action'')))"
    "py_get r ''risk_reward'' = PFloat (py_round 4 rr)"
    "py_get r ''overall_score'' = PFloat (py_round 4 (overall_score nr rr eq xq (score_signal_alignment rp (py_get t ''side'') (py_get t ''action''))))"
    "py_get r ''grade'' = PStr (score_to_grade (overall_score nr rr eq xq (score_signal_alignment rp (py_get t ''side'') (py_get t ''action''))))"
    "py_get r ''confidence'' = PFloat (py_round 4 (unit_clamp (1 - \<bar>overall_score nr rr eq xq (score_signal_alignment rp (py_get t ''side'') (py_get t ''action'')) - 1 / 2\<bar> * (1 / 2))))"
    "py_get r ''norm_return'' = PFloat (py_round 4 nr)"
    "py_get r ''mistakes'' = str_list (normalize_tags (classify_mistakes eq xq rr (score_signal_alignment rp (py_get t ''side'') (py_get t ''action'')) pv cx @ system_mistakes rp t) True)"
    "py_get r ''strengths'' = str_list (normalize_tags (classify_strengths eq xq rr (score_signal_alignment rp (py_get t ''side'') (py_get t ''action'')) pv cx @ system_strengths cx) False)"
  using assms unfolding score_trade_def Let_def res_bind_Inr_iff by (elim exE conjE) auto

text \<open>A scored trade has every score in the unit interval, at most six distinct mistakes and six
  distinct strengths, and never claims both a clean execution and reversion luck.\<close>
theorem scored_trade_in_range:
  assumes "score_trade rp t = Inr r"
  shows "list_all (unit_field r) SCORE_FIELDS
    \<and> (\<exists>ms ss. py_get r ''mistakes'' = str_list ms \<and> py_get r ''strengths'' = str_list ss
         \<and> length ms \<le> 6 \<and> distinct ms \<and> length ss \<le> 6 \<and> distinct ss
         \<and> \<not> (''clean_execution'' \<in> set ss \<and> ''reversion_luck'' \<in> set ss))"
proof (rule score_trade_fields [OF assms], goal_cases)
  case (1 nr rr eq xq cx pv)
  have f: "list_all (unit_field r) SCORE_FIELDS"
    using 1(7-12,14,15) dimension_01(1) [OF 1(1)] dimension_01(2) [OF 1(2)] dimension_01(3) [OF 1(3)] dimension_01(4) [OF 1(4)]
    by (simp add: SCORE_FIELDS_def unit_field_def round_01 unit_clamp_01 alignment_01 overall_score_def)
  show ?case using f 1(16,17) length_normalize_tags distinct_normalize_tags strengths_not_both
    unfolding MAX_TAGS_PER_BUCKET_def by blast
qed

section \<open>The drawdown loop\<close>

abbreviation prefix_sum :: "real list \<Rightarrow> nat \<Rightarrow> real" where
  "prefix_sum xs i \<equiv> sum_list (take i xs)"

lemma drawdown_walk_upper:
  assumes "c \<le> p" "p - c \<le> d"
  shows "d \<le> drawdown_walk xs c p d \<and> (\<forall>j \<le> length xs. p - (c + prefix_sum xs j) \<le> drawdown_walk xs c p d
    \<and> (\<forall>i \<le> j. prefix_sum xs i - prefix_sum xs j \<le> drawdown_walk xs c p d))"
  using assms
proof (induction xs arbitrary: c p d)
  case (Cons x xs)
  let ?c = "c + x" let ?p = "if ?c > p then ?c else p" let ?d = "if ?p - ?c > d then ?p - ?c else d"
  have IH: "?d \<le> drawdown_walk xs ?c ?p ?d" "\<And>j. j \<le> length xs \<Longrightarrow> ?p - (?c + prefix_sum xs j) \<le> drawdown_walk xs ?c ?p ?d"
    "\<And>i j. j \<le> length xs \<Longrightarrow> i \<le> j \<Longrightarrow> prefix_sum xs i - prefix_sum xs j \<le> drawdown_walk xs ?c ?p ?d"
    using Cons.IH [of ?c ?p ?d] by auto
  have w: "drawdown_walk (x # xs) c p d = drawdown_walk xs ?c ?p ?d" by (simp add: Let_def)
  have d: "d \<le> drawdown_walk xs ?c ?p ?d" using IH(1) by (auto split: if_splits)
  have p: "p \<le> ?p" by simp
  have "p - (c + prefix_sum (x # xs) j) \<le> drawdown_walk xs ?c ?p ?d
      \<and> (\<forall>i \<le> j. prefix_sum (x # xs) i - prefix_sum (x # xs) j \<le> drawdown_walk xs ?c ?p ?d)" if "j \<le> length (x # xs)" for j
  proof (cases j)
    case 0
    then show ?thesis using d Cons.prems by auto
  next
    case (Suc k)
    then have k: "k \<le> length xs" using that by simp
    have a: "p - (c + prefix_sum (x # xs) j) \<le> drawdown_walk xs ?c ?p ?d"
      using IH(2) [OF k] p Suc by (simp add: algebra_simps)
    have "prefix_sum (x # xs) i - prefix_sum (x # xs) j \<le> drawdown_walk xs ?c ?p ?d" if "i \<le> j" for i
    proof (cases i)
      case 0
      then show ?thesis using a Cons.prems(1) by simp
    next
      case (Suc i')
      then show ?thesis using IH(3) [OF k, of i'] \<open>j = Suc k\<close> that by simp
    qed
    then show ?thesis using a by blast
  qed
  then show ?case unfolding w using d by blast
qed auto

lemma drawdown_walk_attained:
  "drawdown_walk xs c p d = d \<or> (\<exists>j \<le> length xs. drawdown_walk xs c p d = p - (c + prefix_sum xs j))
    \<or> (\<exists>j \<le> length xs. \<exists>i \<le> j. drawdown_walk xs c p d = prefix_sum xs i - prefix_sum xs j)"
proof (induction xs arbitrary: c p d)
  case (Cons x xs)
  let ?c = "c + x" let ?p = "if ?c > p then ?c else p" let ?d = "if ?p - ?c > d then ?p - ?c else d"
  let ?r = "drawdown_walk xs ?c ?p ?d"
  have w: "drawdown_walk (x # xs) c p d = ?r" by (simp add: Let_def)
  consider "?r = ?d" | j where "j \<le> length xs" "?r = ?p - (?c + prefix_sum xs j)"
    | i j where "j \<le> length xs" "i \<le> j" "?r = prefix_sum xs i - prefix_sum xs j"
    using Cons.IH [of ?c ?p ?d] by blast
  then have "?r = d \<or> (\<exists>j \<le> length (x # xs). ?r = p - (c + prefix_sum (x # xs) j))
    \<or> (\<exists>j \<le> length (x # xs). \<exists>i \<le> j. ?r = prefix_sum (x # xs) i - prefix_sum (x # xs) j)"
  proof cases
    case 1
    then show ?thesis
      by (cases "?p - ?c > d"; cases "?c > p") (auto intro!: exI [of _ "Suc 0"])
  next
    case (2 j)
    then show ?thesis
    proof (cases "?c > p")
      case True
      then have "?r = prefix_sum (x # xs) 1 - prefix_sum (x # xs) (Suc j)" using 2 by simp
      then show ?thesis using 2(1) by (intro disjI2 exI [of _ "Suc j"] conjI exI [of _ 1]) auto
    next
      case False
      then have "?r = p - (c + prefix_sum (x # xs) (Suc j))" using 2 by simp
      then show ?thesis using 2(1) by (intro disjI2 disjI1 exI [of _ "Suc j"] conjI) auto
    qed
  next
    case (3 i j)
    then have "?r = prefix_sum (x # xs) (Suc i) - prefix_sum (x # xs) (Suc j)" by simp
    then show ?thesis using 3 by (intro disjI2 exI [of _ "Suc j"] conjI exI [of _ "Suc i"]) auto
  qed
  then show ?case unfolding w .
qed simp

text \<open>The drawdown loop computes the largest fall of the cumulative return curve: the maximum, over all
  earlier and later points, of the earlier value minus the later one.\<close>
theorem drawdown_walk_is_largest_fall:
  "drawdown_walk pcts 0 0 0 = Max {prefix_sum pcts i - prefix_sum pcts j | i j. i \<le> j \<and> j \<le> length pcts}"
proof -
  let ?S = "{prefix_sum pcts i - prefix_sum pcts j | i j. i \<le> j \<and> j \<le> length pcts}"
  have "?S \<subseteq> (\<lambda>(i, j). prefix_sum pcts i - prefix_sum pcts j) ` ({..length pcts} \<times> {..length pcts})" by fastforce
  then have fin: "finite ?S" by (rule finite_subset) simp
  have upper: "\<forall>v\<in>?S. v \<le> drawdown_walk pcts 0 0 0" using drawdown_walk_upper [of 0 0 0 pcts] by auto
  have "drawdown_walk pcts 0 0 0 \<in> ?S"
  proof -
    consider "drawdown_walk pcts 0 0 0 = 0" | j where "j \<le> length pcts" "drawdown_walk pcts 0 0 0 = 0 - (0 + prefix_sum pcts j)"
      | i j where "j \<le> length pcts" "i \<le> j" "drawdown_walk pcts 0 0 0 = prefix_sum pcts i - prefix_sum pcts j"
      using drawdown_walk_attained [of pcts 0 0 0] by blast
    then show ?thesis
    proof cases
      case 1
      then show ?thesis by (intro CollectI exI [of _ 0]) simp
    next
      case (2 j)
      then show ?thesis by (intro CollectI exI [of _ 0] exI [of _ j]) simp
    qed blast
  qed
  then show ?thesis using fin upper by (intro Max_eqI [symmetric]) auto
qed

section \<open>Aggregates\<close>

lemma share_01: "0 \<le> real (length (filter P xs)) / real (length ys) \<and> real (length (filter P xs)) / real (length ys) \<le> 1"
  if "length xs = length ys"
  using length_filter_le [of P xs] that by (auto simp: divide_le_eq_1)

lemma consistency_01: "0 \<le> consistency_of s a \<and> consistency_of s a \<le> 1"
  by (simp add: consistency_of_def Let_def unit_clamp_01)

lemma drawdown_nonneg: "0 \<le> drawdown_walk pcts 0 0 0"
  using drawdown_walk_upper [of 0 0 0 pcts] by simp

text \<open>Learning metrics are in range: the win rate and the consistency in the unit interval, the drawdown at
  most zero, the count the number of evaluations.\<close>
lemma learning_metrics_in_range:
  assumes "compute_learning_metrics evs = Inr m"
  shows "lm_total m = length evs \<and> 0 \<le> lm_win_rate m \<and> lm_win_rate m \<le> 1 \<and> lm_max_drawdown m \<le> 0
    \<and> 0 \<le> lm_consistency m \<and> lm_consistency m \<le> 1"
proof (cases "evs = []")
  case True
  then show ?thesis using assms by (auto simp: compute_learning_metrics_def)
next
  case False
  obtain pcts pnls scores where p: "res_map (\<lambda>e. float_or (py_get e ''pnl'') 0) evs = Inr pnls"
    and m: "lm_total m = length evs"
      "lm_win_rate m = py_round 4 (real (length (filter (\<lambda>p. p > 0) pnls)) / real (length evs))"
      "lm_max_drawdown m = py_round 4 (- drawdown_walk pcts 0 0 0)"
      "lm_consistency m = py_round 4 (consistency_of scores (sum_list scores / real (length evs)))"
    using assms False by (auto simp: compute_learning_metrics_def res_bind_Inr_iff Let_def)
  show ?thesis unfolding m
    using round_01 [OF share_01 [OF res_map_length [OF p]], of 4 "\<lambda>p. p > 0"] round_01 [OF consistency_01]
      drawdown_nonneg [of pcts] by (simp add: py_round_le)
qed

lemma metrics_of_numbers:
  assumes "evs \<noteq> []" "\<And>e. e \<in> set evs \<Longrightarrow> py_get e ''pnl_percent'' = PFloat (f e)"
    "\<And>e. e \<in> set evs \<Longrightarrow> py_get e ''pnl'' = PFloat (g e)" "\<And>e. e \<in> set evs \<Longrightarrow> py_get e ''overall_score'' = PFloat (h e)"
  shows "\<exists>m. compute_learning_metrics evs = Inr m
    \<and> lm_win_rate m = py_round 4 (real (length (filter (\<lambda>e. g e > 0) evs)) / real (length evs))
    \<and> lm_sharpe m = py_round 4 (trade_sharpe (map f evs))
    \<and> lm_max_drawdown m = py_round 4 (- drawdown_walk (map f evs) 0 0 0)"
proof -
  have "res_map (\<lambda>e. float_or (py_get e ''pnl_percent'') 0) evs = Inr (map f evs)"
    "res_map (\<lambda>e. float_or (py_get e ''pnl'') 0) evs = Inr (map g evs)"
    "res_map (\<lambda>e. float_or (py_get e ''overall_score'') 0) evs = Inr (map h evs)"
    using assms(2-4) by (auto intro!: res_map_Inr)
  then show ?thesis using assms(1)
    by (simp add: compute_learning_metrics_def Let_def filter_map o_def)
qed

text \<open>the evaluations that count for some model, and a total over the buckets\<close>
definition has_model :: "(pyval \<Rightarrow> string) \<Rightarrow> pydict \<Rightarrow> bool" where
  "has_model rp ev \<longleftrightarrow> py_strip (str_or rp (py_get ev ''model_used'')) \<noteq> []"

definition bucket_total :: "(ModelAcc \<Rightarrow> 'b::comm_monoid_add) \<Rightarrow> (string \<times> ModelAcc) list \<Rightarrow> 'b" where
  "bucket_total f acc = sum_list (map (f \<circ> snd) acc)"

lemma bucket_total_dset:
  assumes "f a = f (dget acc k new_model_acc) + d" "f new_model_acc = 0"
  shows "bucket_total f (dset k a acc) = bucket_total f acc + d"
  using assms by (induction acc) (auto simp: bucket_total_def add.assoc add.commute add.left_commute)

definition pnl_or_zero :: "pydict \<Rightarrow> real" where
  "pnl_or_zero ev = (case safe_float (py_get ev ''pnl'') of None \<Rightarrow> 0 | Some x \<Rightarrow> x)"

lemma add_evaluation_run:
  assumes "add_evaluation ev acc = Inr a"
  shows "ma_trades a = ma_trades acc + 1" "ma_pnl_sum a = ma_pnl_sum acc + pnl_or_zero ev"
  using assms by (auto simp: add_evaluation_def opt_number_def res_bind_Inr_iff pnl_or_zero_def safe_float_def
      split: if_splits sum.splits)

lemma model_buckets_total:
  assumes "model_buckets rp evs acc = Inr out"
  shows "bucket_total ma_trades out = bucket_total ma_trades acc + length (filter (has_model rp) evs)"
    "bucket_total ma_pnl_sum out = bucket_total ma_pnl_sum acc + sum_list (map pnl_or_zero (filter (has_model rp) evs))"
  using assms
proof (induction evs arbitrary: acc)
  case (Cons ev evs)
  let ?m = "py_strip (str_or rp (py_get ev ''model_used''))"
  {
    case 1
    show ?case
    proof (cases "?m = []")
      case True
      then show ?thesis using Cons.IH(1) [of acc] 1 by (simp add: has_model_def)
    next
      case False
      then obtain a where a: "add_evaluation ev (dget acc ?m new_model_acc) = Inr a"
        "model_buckets rp evs (dset ?m a acc) = Inr out" using 1 by (auto simp: res_bind_Inr_iff Let_def)
      have "bucket_total ma_trades (dset ?m a acc) = bucket_total ma_trades acc + 1"
        using add_evaluation_run(1) [OF a(1)] by (intro bucket_total_dset) (auto simp: new_model_acc_def)
      then show ?thesis using Cons.IH(1) [OF a(2)] False by (simp add: has_model_def)
    qed
  next
    case 2
    show ?case
    proof (cases "?m = []")
      case True
      then show ?thesis using Cons.IH(2) [of acc] 2 by (simp add: has_model_def)
    next
      case False
      then obtain a where a: "add_evaluation ev (dget acc ?m new_model_acc) = Inr a"
        "model_buckets rp evs (dset ?m a acc) = Inr out" using 2 by (auto simp: res_bind_Inr_iff Let_def)
      have "bucket_total ma_pnl_sum (dset ?m a acc) = bucket_total ma_pnl_sum acc + pnl_or_zero ev"
        using add_evaluation_run(2) [OF a(1)] by (intro bucket_total_dset) (auto simp: new_model_acc_def)
      then show ?thesis using Cons.IH(2) [OF a(2)] False by (simp add: has_model_def)
    qed
  }
qed simp_all

text \<open>Per-model rows lose no trade: their counts add up to the evaluations that name a model.\<close>
lemma model_rows_cover:
  assumes "aggregate_model_performance rp evs = Inr rows"
  shows "sum_list (map mr_trade_count rows) = length (filter (has_model rp) evs)"
proof -
  obtain out where o: "model_buckets rp evs [] = Inr out" "rows = sort_key (\<lambda>r. - int (mr_trade_count r)) (map model_row_of out)"
    using assms by (auto simp: aggregate_model_performance_def res_bind_Inr_iff)
  have "sum_list (map mr_trade_count rows) = sum_list (map mr_trade_count (map model_row_of out))"
    unfolding o(2) sum_mset_sum_list [symmetric] by (simp only: mset_map mset_sort)
  also have "\<dots> = bucket_total ma_trades out"
    by (simp add: bucket_total_def o_def model_row_of_def Let_def case_prod_beta)
  finally show ?thesis using model_buckets_total(1) [OF o(1)] by (simp add: bucket_total_def)
qed

definition a_closed_trade :: pydict where
  "a_closed_trade = [(''pnl'', PFloat 5), (''pnl_percent'', PFloat 2), (''confidence'', PFloat (8 / 10)),
     (''side'', PStr ''sell''), (''action'', PStr ''sell'')]"

theorem scored_trade_in_range_witness:
  "\<exists>r. score_trade (\<lambda>_. []) a_closed_trade = Inr r \<and> list_all (unit_field r) SCORE_FIELDS"
proof -
  obtain r where "score_trade (\<lambda>_. []) a_closed_trade = Inr r"
    by (simp add: score_trade_def a_closed_trade_def Let_def score_normalized_return_def score_risk_reward_def
        score_entry_quality_def score_exit_quality_def build_trade_context_def pnl_value_def opt_float_def py_or_def)
  then show ?thesis using scored_trade_in_range by blast
qed

end
