(* ===== verification/Strategy_Registry.thy ===== *)
theory Strategy_Registry
  imports Trade_Scorer Effects
begin

text \<open>
  The safe-evolution layer: the versioned strategy registry and its life cycle
  (\<open>api/services/strategy_registry.py\<close>), the circuit breaker (\<open>api/services/circuit_breaker.py\<close>), the
  replay harness and the regression validator (\<open>api/services/replay_harness.py\<close>,
  \<open>api/services/regression_validator.py\<close>) and the promotion gate (\<open>api/services/promotion_gate.py\<close>).
  \<open>clk n\<close> is the n-th reading of the clock inside one call, \<open>hash\<close> the digest of a configuration.
\<close>

section \<open>Versions and records\<close>

datatype StrategyStatus = PROPOSED | BACKTESTED | SHADOW | CANARY | LIVE | RETIRED

definition VALID_TRANSITIONS :: "StrategyStatus \<Rightarrow> StrategyStatus set" where
  "VALID_TRANSITIONS st = (case st of
       PROPOSED \<Rightarrow> {BACKTESTED, RETIRED} | BACKTESTED \<Rightarrow> {SHADOW, RETIRED} | SHADOW \<Rightarrow> {CANARY, RETIRED}
     | CANARY \<Rightarrow> {LIVE, RETIRED} | LIVE \<Rightarrow> {RETIRED} | RETIRED \<Rightarrow> {})"

record StrategyVersion =
  sv_version_id :: string
  sv_version :: nat
  sv_parent_version :: "nat option"
  sv_config_hash :: string
  sv_config :: pydict
  sv_lineage :: "nat list"
  sv_created_at :: real

record StrategyRecord =
  sc_strategy :: StrategyVersion
  sc_status :: StrategyStatus
  sc_history :: "(StrategyStatus \<times> real) list"

record StrategyRegistry =
  sg_records :: "(string \<times> StrategyRecord) list"
  sg_next_version :: nat
  sg_live_stack :: "string list"

definition new_registry :: StrategyRegistry where
  "new_registry = \<lparr>sg_records = [], sg_next_version = 1, sg_live_stack = []\<rparr>"

datatype transition_error =
    Unknown_version string
  | Not_allowed StrategyStatus StrategyStatus
  | Missing_record string

definition find_version :: "nat option \<Rightarrow> StrategyRegistry \<Rightarrow> StrategyRecord option" where
  "find_version v reg = (case v of None \<Rightarrow> None
     | Some n \<Rightarrow> find (\<lambda>r. sv_version (sc_strategy r) = n) (map snd (sg_records reg)))"

definition version_id :: "nat \<Rightarrow> string \<Rightarrow> string" where
  "version_id n h = ''v'' @ nat_str n @ ''-'' @ h"

definition make_version ::
  "(pydict \<Rightarrow> string) \<Rightarrow> pydict \<Rightarrow> nat option \<Rightarrow> real \<Rightarrow> StrategyRegistry \<Rightarrow> StrategyVersion" where
  "make_version hash config parent now reg =
     (let n = sg_next_version reg
      in \<lparr>sv_version_id = version_id n (hash config), sv_version = n, sv_parent_version = parent,
          sv_config_hash = hash config, sv_config = config,
          sv_lineage = (case find_version parent reg of None \<Rightarrow> [] | Some p \<Rightarrow> sv_lineage (sc_strategy p)) @ [n],
          sv_created_at = now\<rparr>)"

definition register_version ::
  "(pydict \<Rightarrow> string) \<Rightarrow> pydict \<Rightarrow> nat option \<Rightarrow> real \<Rightarrow> StrategyRegistry \<Rightarrow> StrategyVersion \<times> StrategyRegistry" where
  "register_version hash config parent now reg =
     (let sv = make_version hash config parent now reg
      in (sv, reg\<lparr>sg_next_version := sg_next_version reg + 1,
                  sg_records := dset (sv_version_id sv)
                    \<lparr>sc_strategy = sv, sc_status = PROPOSED, sc_history = []\<rparr> (sg_records reg)\<rparr>))"

definition get_record :: "string \<Rightarrow> StrategyRegistry \<Rightarrow> StrategyRecord option" where
  "get_record vid reg = map_of (sg_records reg) vid"

definition status_of :: "string \<Rightarrow> StrategyRegistry \<Rightarrow> StrategyStatus option" where
  "status_of vid reg = map_option sc_status (get_record vid reg)"

definition versions :: "StrategyRegistry \<Rightarrow> StrategyVersion list" where
  "versions reg = map (sc_strategy \<circ> snd) (sg_records reg)"

text \<open>\<open>max(matches, key=version)\<close>: the first of the largest\<close>
fun newest_record :: "StrategyRecord \<Rightarrow> StrategyRecord list \<Rightarrow> StrategyRecord" where
  "newest_record best [] = best"
| "newest_record best (r # rs) =
     newest_record (if sv_version (sc_strategy r) > sv_version (sc_strategy best) then r else best) rs"

definition find_by_strategy :: "string \<Rightarrow> StrategyRegistry \<Rightarrow> StrategyRecord option" where
  "find_by_strategy name reg =
     (case filter (\<lambda>r. py_get (sv_config (sc_strategy r)) ''strategy'' = PStr name) (map snd (sg_records reg)) of
        [] \<Rightarrow> None | r # rs \<Rightarrow> Some (newest_record r rs))"

definition set_status :: "string \<Rightarrow> StrategyStatus \<Rightarrow> real \<Rightarrow> StrategyRegistry \<Rightarrow> StrategyRegistry" where
  "set_status vid st now reg = (case map_of (sg_records reg) vid of
       None \<Rightarrow> reg
     | Some r \<Rightarrow> reg\<lparr>sg_records := dset vid (r\<lparr>sc_status := st, sc_history := sc_history r @ [(st, now)]\<rparr>) (sg_records reg)\<rparr>)"

text \<open>\<open>self._records[self._live_stack[-1]]\<close> raises when the record is missing\<close>
definition supersede_current_live :: "real \<Rightarrow> StrategyRegistry \<Rightarrow> transition_error + StrategyRegistry" where
  "supersede_current_live now reg =
     (if sg_live_stack reg = [] then Inr reg
      else let top = last (sg_live_stack reg)
           in case map_of (sg_records reg) top of
                None \<Rightarrow> Inl (Missing_record top)
              | Some _ \<Rightarrow> Inr (set_status top RETIRED now reg))"

definition transition ::
  "string \<Rightarrow> StrategyStatus \<Rightarrow> (nat \<Rightarrow> real) \<Rightarrow> StrategyRegistry
   \<Rightarrow> (transition_error + StrategyVersion) \<times> StrategyRegistry" where
  "transition vid to_status clk reg = (case map_of (sg_records reg) vid of
       None \<Rightarrow> (Inl (Unknown_version vid), reg)
     | Some r \<Rightarrow>
         if to_status \<notin> VALID_TRANSITIONS (sc_status r) then (Inl (Not_allowed (sc_status r) to_status), reg)
         else if to_status = LIVE
         then (case supersede_current_live (clk 0) reg of
                 Inl err \<Rightarrow> (Inl err, reg)
               | Inr reg1 \<Rightarrow> (Inr (sc_strategy r),
                   set_status vid LIVE (clk 1) (reg1\<lparr>sg_live_stack := sg_live_stack reg1 @ [vid]\<rparr>)))
         else (Inr (sc_strategy r), set_status vid to_status (clk 0) reg))"

definition current_live :: "StrategyRegistry \<Rightarrow> StrategyVersion option" where
  "current_live reg = map_option sc_strategy (find (\<lambda>r. sc_status r = LIVE) (map snd (sg_records reg)))"

text \<open>the records of the stack exist in every reachable registry, so no lookup raises\<close>
definition rollback :: "(nat \<Rightarrow> real) \<Rightarrow> StrategyRegistry \<Rightarrow> (transition_error + StrategyVersion option) \<times> StrategyRegistry" where
  "rollback clk reg =
     (if sg_live_stack reg = [] then (Inr None, reg)
      else let current = last (sg_live_stack reg); reg1 = reg\<lparr>sg_live_stack := butlast (sg_live_stack reg)\<rparr>
           in case map_of (sg_records reg) current of
                None \<Rightarrow> (Inl (Missing_record current), reg1)
              | Some _ \<Rightarrow>
                  let reg2 = set_status current RETIRED (clk 0) reg1
                  in if sg_live_stack reg2 = [] then (Inr None, reg2)
                     else let prev = last (sg_live_stack reg2)
                          in case map_of (sg_records reg2) prev of
                               None \<Rightarrow> (Inl (Missing_record prev), reg2)
                             | Some r \<Rightarrow> (Inr (Some (sc_strategy r)), set_status prev LIVE (clk 1) reg2))"

section \<open>Circuit breaker\<close>

record BreakerInputs =
  bi_drawdown_pct :: real
  bi_consecutive_failures :: int
  bi_divergence_score :: real
  bi_latency_ms :: real

definition CIRCUIT_BREAKER_MAX_DRAWDOWN_PCT :: real where "CIRCUIT_BREAKER_MAX_DRAWDOWN_PCT = 15 / 100"
definition CIRCUIT_BREAKER_MAX_CONSECUTIVE_FAILURES :: int where "CIRCUIT_BREAKER_MAX_CONSECUTIVE_FAILURES = 5"
definition CIRCUIT_BREAKER_MAX_DIVERGENCE :: real where "CIRCUIT_BREAKER_MAX_DIVERGENCE = 5 / 10"
definition CIRCUIT_BREAKER_MAX_LATENCY_MS :: real where "CIRCUIT_BREAKER_MAX_LATENCY_MS = 5000"

datatype trip_reason = Drawdown real | Failures int | Divergence real | Latency real

definition evaluate_breaker :: "BreakerInputs \<Rightarrow> trip_reason list" where
  "evaluate_breaker i =
     only_if (bi_drawdown_pct i \<ge> CIRCUIT_BREAKER_MAX_DRAWDOWN_PCT) (Drawdown (bi_drawdown_pct i))
   @ only_if (bi_consecutive_failures i \<ge> CIRCUIT_BREAKER_MAX_CONSECUTIVE_FAILURES) (Failures (bi_consecutive_failures i))
   @ only_if (bi_divergence_score i \<ge> CIRCUIT_BREAKER_MAX_DIVERGENCE) (Divergence (bi_divergence_score i))
   @ only_if (bi_latency_ms i \<ge> CIRCUIT_BREAKER_MAX_LATENCY_MS) (Latency (bi_latency_ms i))"

text \<open>the state behind the breaker: the Redis kill switch and the registry\<close>
record breaker_state =
  bk_kill_switch :: bool
  bk_registry :: StrategyRegistry

definition trip :: "(nat \<Rightarrow> real) \<Rightarrow> breaker_state \<Rightarrow> breaker_state" where
  "trip clk s = s\<lparr>bk_kill_switch := True, bk_registry := snd (rollback clk (bk_registry s))\<rparr>"

definition breaker_check :: "(nat \<Rightarrow> real) \<Rightarrow> BreakerInputs \<Rightarrow> breaker_state \<Rightarrow> trip_reason list \<times> breaker_state" where
  "breaker_check clk i s =
     (let reasons = evaluate_breaker i in (reasons, if reasons \<noteq> [] then trip clk s else s))"

section \<open>Replay and regression\<close>

record ReplayMetrics =
  rm_trade_count :: nat
  rm_total_pnl :: real
  rm_win_rate :: real
  rm_avg_return :: real
  rm_sharpe_ratio :: real
  rm_max_drawdown :: real
  rm_false_positive_rate :: real
  rm_avg_slippage_bps :: real

definition empty_replay :: ReplayMetrics where
  "empty_replay = \<lparr>rm_trade_count = 0, rm_total_pnl = 0, rm_win_rate = 0, rm_avg_return = 0, rm_sharpe_ratio = 0,
     rm_max_drawdown = 0, rm_false_positive_rate = 0, rm_avg_slippage_bps = 0\<rparr>"

definition actionable :: "(pyval \<Rightarrow> string) \<Rightarrow> pydict \<Rightarrow> bool" where
  "actionable rp t \<longleftrightarrow> py_lower (str_or rp (py_or (py_get t ''side'') (py_get t ''action''))) \<in> {''buy'', ''sell''}"

definition replay :: "(pyval \<Rightarrow> string) \<Rightarrow> pydict list \<Rightarrow> ReplayMetrics pyres" where
  "replay rp trades =
     (if trades = [] then Inr empty_replay
      else res_bind (compute_learning_metrics trades) (\<lambda>m.
           res_bind (res_map (\<lambda>t. float_or (py_get t ''pnl'') 0) trades) (\<lambda>pnls.
           res_bind (res_map (\<lambda>t. float_or (py_get t ''slippage_bps'') 0) trades) (\<lambda>slippages.
           let acts = filter (\<lambda>(t, p). actionable rp t) (zip trades pnls);
               losers = length (filter (\<lambda>(t, p). p < 0) acts);
               fpr = (if acts \<noteq> [] then real losers / real (length acts) else 0)
           in Inr \<lparr>rm_trade_count = (if lm_total m \<noteq> 0 then lm_total m else length trades),
                rm_total_pnl = py_round 4 (sum_list pnls), rm_win_rate = lm_win_rate m,
                rm_avg_return = lm_avg_return m, rm_sharpe_ratio = lm_sharpe m, rm_max_drawdown = lm_max_drawdown m,
                rm_false_positive_rate = py_round 4 fpr,
                rm_avg_slippage_bps = py_round 4 (sum_list slippages / real (length slippages))\<rparr>))))"

definition REGRESSION_MIN_SHARPE_DELTA :: real where "REGRESSION_MIN_SHARPE_DELTA = - (10 / 100)"
definition REGRESSION_MAX_DRAWDOWN_DELTA_PCT :: real where "REGRESSION_MAX_DRAWDOWN_DELTA_PCT = 1"
definition REGRESSION_MAX_FALSE_POSITIVE_DELTA :: real where "REGRESSION_MAX_FALSE_POSITIVE_DELTA = 5 / 100"
definition REGRESSION_MAX_SLIPPAGE_DELTA_BPS :: real where "REGRESSION_MAX_SLIPPAGE_DELTA_BPS = 2"
definition REGRESSION_MIN_REPLAY_TRADES :: nat where "REGRESSION_MIN_REPLAY_TRADES = 10"

datatype regression_reason =
    Insufficient_sample nat | Sharpe_regressed real | Drawdown_worsened real | False_positives_up real | Slippage_up real

record RegressionVerdict =
  rv_approved :: bool
  rv_reasons :: "regression_reason list"
  rv_sharpe_delta :: real
  rv_drawdown_delta :: real
  rv_false_positive_delta :: real
  rv_slippage_delta :: real

definition validate_regression :: "ReplayMetrics \<Rightarrow> ReplayMetrics \<Rightarrow> RegressionVerdict" where
  "validate_regression champion candidate =
     (let sd = py_round 4 (rm_sharpe_ratio candidate - rm_sharpe_ratio champion);
          dd = py_round 4 (rm_max_drawdown candidate - rm_max_drawdown champion);
          fd = py_round 4 (rm_false_positive_rate candidate - rm_false_positive_rate champion);
          ld = py_round 4 (rm_avg_slippage_bps candidate - rm_avg_slippage_bps champion);
          reasons = only_if (rm_trade_count candidate < REGRESSION_MIN_REPLAY_TRADES) (Insufficient_sample (rm_trade_count candidate))
            @ only_if (sd < REGRESSION_MIN_SHARPE_DELTA) (Sharpe_regressed sd)
            @ only_if (dd < - REGRESSION_MAX_DRAWDOWN_DELTA_PCT) (Drawdown_worsened dd)
            @ only_if (fd > REGRESSION_MAX_FALSE_POSITIVE_DELTA) (False_positives_up fd)
            @ only_if (ld > REGRESSION_MAX_SLIPPAGE_DELTA_BPS) (Slippage_up ld)
      in \<lparr>rv_approved = (reasons = []), rv_reasons = reasons, rv_sharpe_delta = sd, rv_drawdown_delta = dd,
          rv_false_positive_delta = fd, rv_slippage_delta = ld\<rparr>)"

section \<open>Promotion gate\<close>

datatype promotion_reason = Rejected "regression_reason list" | Promoted StrategyStatus | Blocked transition_error

record PromotionDecision =
  pd_version_id :: string
  pd_to_status :: StrategyStatus
  pd_approved :: bool
  pd_transitioned :: bool
  pd_reason :: promotion_reason
  pd_champion :: ReplayMetrics
  pd_candidate :: ReplayMetrics
  pd_verdict :: RegressionVerdict

text \<open>the telemetry call is best effort and touches no state of the gate\<close>
definition promote ::
  "(pyval \<Rightarrow> string) \<Rightarrow> string \<Rightarrow> pydict list \<Rightarrow> pydict list \<Rightarrow> StrategyStatus \<Rightarrow> (nat \<Rightarrow> real)
   \<Rightarrow> StrategyRegistry \<Rightarrow> PromotionDecision pyres \<times> StrategyRegistry" where
  "promote rp vid champion_trades candidate_trades to_status clk reg =
     (case res_bind (replay rp champion_trades) (\<lambda>a. res_bind (replay rp candidate_trades) (\<lambda>b. Inr (a, b))) of
        Inl e \<Rightarrow> (Inl e, reg)
      | Inr (champion, candidate) \<Rightarrow>
          let verdict = validate_regression champion candidate;
              decision = (\<lambda>done reason. \<lparr>pd_version_id = vid, pd_to_status = to_status, pd_approved = rv_approved verdict,
                 pd_transitioned = done, pd_reason = reason, pd_champion = champion, pd_candidate = candidate,
                 pd_verdict = verdict\<rparr>)
          in if \<not> rv_approved verdict then (Inr (decision False (Rejected (rv_reasons verdict))), reg)
             else case transition vid to_status clk reg of
                (Inr _, reg') \<Rightarrow> (Inr (decision True (Promoted to_status)), reg')
              | (Inl (Missing_record v), reg') \<Rightarrow> (Inl (KeyError v), reg')
              | (Inl err, reg') \<Rightarrow> (Inr (decision False (Blocked err)), reg'))"


section \<open>Identifiers\<close>

lemma of_char_digit: "d < 10 \<Longrightarrow> of_char (char_of (48 + d) :: char) = (48 + d :: nat)"
  by simp

lemma digit_char: "(d::nat) < 10 \<Longrightarrow> is_digit (char_of (48 + d))"
  using of_char_digit [of d] by (simp add: is_digit_def Let_def)

lemma nat_str_digits: "list_all is_digit (nat_str n)"
proof (induction n rule: nat_str.induct)
  case (1 n)
  show ?case
  proof (cases "n < 10")
    case True
    then show ?thesis using digit_char [of n] by (subst nat_str.simps) simp
  next
    case False
    then show ?thesis using 1 digit_char [of "n mod 10"] by (subst nat_str.simps) simp
  qed
qed

lemma digits_val_nat_str: "digits_val (nat_str n) = n"
proof (induction n rule: nat_str.induct)
  case (1 n)
  show ?case
  proof (cases "n < 10")
    case True
    then show ?thesis using of_char_digit [of n] by (subst nat_str.simps) (simp add: digits_val_def)
  next
    case False
    then show ?thesis using 1 of_char_digit [of "n mod 10"] by (subst nat_str.simps) (simp add: digits_val_def)
  qed
qed

lemma version_id_inj:
  assumes "version_id n h = version_id m h'"
  shows "n = m"
proof -
  have nd: "c \<noteq> CHR ''-''" if "c \<in> set (nat_str k)" for c k
    using nat_str_digits [of k] that by (auto simp: list_all_iff is_digit_def Let_def)
  have "takeWhile (\<lambda>c. c \<noteq> CHR ''-'') (version_id k g) = ''v'' @ nat_str k" for k g
    using nd by (simp add: version_id_def takeWhile_append2)
  from this [of n h] this [of m h'] assms show ?thesis by (metis append_same_eq digits_val_nat_str same_append_eq)
qed

section \<open>The registry invariant\<close>

definition early_path :: "StrategyStatus list \<Rightarrow> bool" where
  "early_path h \<longleftrightarrow> h \<in> {[], [BACKTESTED], [BACKTESTED, SHADOW], [BACKTESTED, SHADOW, CANARY]}"

definition was_live :: "StrategyStatus list \<Rightarrow> bool" where
  "was_live h \<longleftrightarrow> take 4 h = [BACKTESTED, SHADOW, CANARY, LIVE] \<and> set (drop 4 h) \<subseteq> {LIVE, RETIRED}"

text \<open>the ways a version can have gone: forward without a skip, pulled early, or through every stage to live\<close>
definition staged :: "StrategyStatus list \<Rightarrow> bool" where
  "staged h \<longleftrightarrow> early_path h \<or> (\<exists>p. early_path p \<and> h = p @ [RETIRED]) \<or> was_live h"

definition path :: "StrategyRecord \<Rightarrow> StrategyStatus list" where
  "path r = map fst (sc_history r)"

definition last_stage :: "StrategyStatus list \<Rightarrow> StrategyStatus" where
  "last_stage h = (if h = [] then PROPOSED else last h)"

lemma early_simps [simp]:
  "early_path []" "early_path [BACKTESTED]" "early_path [BACKTESTED, SHADOW]" "early_path [BACKTESTED, SHADOW, CANARY]"
  by (simp_all add: early_path_def)

lemma was_live_split: "was_live h \<longleftrightarrow> (\<exists>t. h = [BACKTESTED, SHADOW, CANARY, LIVE] @ t \<and> set t \<subseteq> {LIVE, RETIRED})"
proof
  assume w: "was_live h"
  have "h = take 4 h @ drop 4 h" by simp
  then have "h = [BACKTESTED, SHADOW, CANARY, LIVE] @ drop 4 h" using w unfolding was_live_def by argo
  then show "\<exists>t. h = [BACKTESTED, SHADOW, CANARY, LIVE] @ t \<and> set t \<subseteq> {LIVE, RETIRED}"
    using w unfolding was_live_def by blast
qed (auto simp: was_live_def)

lemma was_live_last: "was_live h \<Longrightarrow> last_stage h \<in> {LIVE, RETIRED}"
  unfolding was_live_split last_stage_def by (auto dest!: last_in_set split: if_splits)

lemma was_live_snoc: "was_live h \<Longrightarrow> x \<in> {LIVE, RETIRED} \<Longrightarrow> was_live (h @ [x])"
  unfolding was_live_split by auto

lemma staged_step:
  assumes "staged h" "x \<in> VALID_TRANSITIONS (last_stage h)"
  shows "staged (h @ [x])" "x = LIVE \<Longrightarrow> was_live (h @ [x])"
proof -
  consider (e) "early_path h" | (r) p where "h = p @ [RETIRED]" | (l) "was_live h"
    using assms(1) unfolding staged_def by blast
  then have "staged (h @ [x]) \<and> (x = LIVE \<longrightarrow> was_live (h @ [x]))"
  proof cases
    case e
    then show ?thesis using assms(2)
      unfolding early_path_def by (auto simp: last_stage_def VALID_TRANSITIONS_def staged_def was_live_def)
  next
    case r
    then show ?thesis using assms(2) by (simp add: last_stage_def VALID_TRANSITIONS_def)
  next
    case l
    have "x = RETIRED" using assms(2) was_live_last [OF l] by (auto simp: VALID_TRANSITIONS_def)
    then show ?thesis using was_live_snoc [OF l, of x] by (simp add: staged_def)
  qed
  then show "staged (h @ [x])" "x = LIVE \<Longrightarrow> was_live (h @ [x])" by auto
qed

definition record_ok :: "nat \<Rightarrow> string list \<Rightarrow> string \<Rightarrow> StrategyRecord \<Rightarrow> bool" where
  "record_ok nxt stack vid r \<longleftrightarrow>
     vid = version_id (sv_version (sc_strategy r)) (sv_config_hash (sc_strategy r)) \<and> sv_version (sc_strategy r) < nxt
   \<and> staged (path r) \<and> sc_status r = last_stage (path r)
   \<and> (vid \<in> set stack \<longrightarrow> was_live (path r))
   \<and> (sc_status r = LIVE \<longrightarrow> stack \<noteq> [] \<and> vid = last stack)"

definition registry_ok :: "StrategyRegistry \<Rightarrow> bool" where
  "registry_ok reg \<longleftrightarrow> distinct (map fst (sg_records reg)) \<and> distinct (sg_live_stack reg)
     \<and> set (sg_live_stack reg) \<subseteq> dom (map_of (sg_records reg))
     \<and> (\<forall>vid r. map_of (sg_records reg) vid = Some r \<longrightarrow> record_ok (sg_next_version reg) (sg_live_stack reg) vid r)"

lemma registry_okD:
  assumes "registry_ok reg" "map_of (sg_records reg) vid = Some r"
  shows "record_ok (sg_next_version reg) (sg_live_stack reg) vid r"
  using assms by (auto simp: registry_ok_def)

lemma new_registry_ok: "registry_ok new_registry"
  by (simp add: registry_ok_def new_registry_def)

lemma register_ok:
  assumes "registry_ok reg" "register_version hash config parent now reg = (sv, reg')"
  shows "registry_ok reg'" "map_of (sg_records reg) (sv_version_id sv) = None"
proof -
  let ?n = "sg_next_version reg"
  have sv: "sv_version_id sv = version_id ?n (hash config)" "sv_version sv = ?n" "sv_config_hash sv = hash config"
    and reg': "sg_next_version reg' = ?n + 1" "sg_live_stack reg' = sg_live_stack reg"
      "sg_records reg' = dset (sv_version_id sv) \<lparr>sc_strategy = sv, sc_status = PROPOSED, sc_history = []\<rparr> (sg_records reg)"
    using assms(2) by (auto simp: register_version_def make_version_def Let_def)
  show fresh: "map_of (sg_records reg) (sv_version_id sv) = None"
  proof (rule ccontr)
    assume "map_of (sg_records reg) (sv_version_id sv) \<noteq> None"
    then obtain r where "map_of (sg_records reg) (sv_version_id sv) = Some r" by blast
    from registry_okD [OF assms(1) this] show False
      using version_id_inj sv by (fastforce simp: record_ok_def)
  qed
  have "sv_version_id sv \<notin> set (sg_live_stack reg)" using fresh assms(1) by (auto simp: registry_ok_def)
  then have "record_ok (?n + 1) (sg_live_stack reg) vid r"
    if "map_of (sg_records reg') vid = Some r" for vid r
    using that registry_okD [OF assms(1), of vid r] sv
    by (auto simp: reg' record_ok_def path_def staged_def last_stage_def split: if_splits)
  then show "registry_ok reg'" using assms(1) by (auto simp: registry_ok_def reg' distinct_update)
qed

lemma set_status_fields [simp]:
  "sg_next_version (set_status v st now reg) = sg_next_version reg" "sg_live_stack (set_status v st now reg) = sg_live_stack reg"
  by (simp_all add: set_status_def split: option.splits)

lemma map_of_set_status:
  "map_of (sg_records (set_status v st now reg)) w = (if v = w
     then map_option (\<lambda>r. r\<lparr>sc_status := st, sc_history := sc_history r @ [(st, now)]\<rparr>) (map_of (sg_records reg) w)
     else map_of (sg_records reg) w)"
  by (auto simp: set_status_def split: option.splits)

lemma distinct_set_status [simp]:
  "distinct (map fst (sg_records reg)) \<Longrightarrow> distinct (map fst (sg_records (set_status v st now reg)))"
  by (auto simp: set_status_def distinct_update split: option.splits)

lemma path_snoc [simp]: "path (r\<lparr>sc_status := st, sc_history := sc_history r @ [(st, now)]\<rparr>) = path r @ [st]"
  by (simp add: path_def)

text \<open>a version that is not made live: everything but the new status is as before\<close>
lemma set_status_ok:
  assumes ok: "registry_ok reg" and r: "map_of (sg_records reg) v = Some r"
    and st: "st \<noteq> LIVE" "staged (path r @ [st])" "was_live (path r) \<Longrightarrow> was_live (path r @ [st])"
  shows "registry_ok (set_status v st now reg)"
proof -
  have "record_ok (sg_next_version reg) (sg_live_stack reg) w x"
    if "map_of (sg_records (set_status v st now reg)) w = Some x" for w x
    using that registry_okD [OF ok] r st
    by (fastforce simp: map_of_set_status record_ok_def last_stage_def split: if_splits)
  moreover have "dom (map_of (sg_records (set_status v st now reg))) = dom (map_of (sg_records reg))"
    using r by (auto simp: map_of_set_status dom_def)
  ultimately show ?thesis using ok by (auto simp: registry_ok_def)
qed


lemma record_stack:
  "record_ok n stack vid r \<Longrightarrow> vid \<in> set stack \<longleftrightarrow> vid \<in> set stack' \<Longrightarrow> sc_status r \<noteq> LIVE \<Longrightarrow> record_ok n stack' vid r"
  by (auto simp: record_ok_def)

text \<open>after the live version was taken down nobody is live\<close>
definition none_live :: "StrategyRegistry \<Rightarrow> bool" where
  "none_live reg \<longleftrightarrow> (\<forall>vid r. map_of (sg_records reg) vid = Some r \<longrightarrow> sc_status r \<noteq> LIVE)"

lemma retire_top:
  assumes ok: "registry_ok reg" and ne: "sg_live_stack reg \<noteq> []"
  shows "\<exists>r. map_of (sg_records reg) (last (sg_live_stack reg)) = Some r"
    "registry_ok (set_status (last (sg_live_stack reg)) RETIRED now reg)"
    "none_live (set_status (last (sg_live_stack reg)) RETIRED now reg)"
proof -
  let ?top = "last (sg_live_stack reg)"
  show ex: "\<exists>r. map_of (sg_records reg) ?top = Some r"
    using ok ne unfolding registry_ok_def by (meson domD in_mono last_in_set)
  then obtain r where r: "map_of (sg_records reg) ?top = Some r" by blast
  have w: "was_live (path r)" using registry_okD [OF ok r] ne by (simp add: record_ok_def)
  then show "registry_ok (set_status ?top RETIRED now reg)"
    using was_live_snoc [OF w, of RETIRED] by (intro set_status_ok [OF ok r]) (auto simp: staged_def)
  show "none_live (set_status ?top RETIRED now reg)"
    using registry_okD [OF ok] r by (auto simp: none_live_def map_of_set_status record_ok_def split: if_splits)
qed

text \<open>putting a version live on top of the stack when nobody is live\<close>
lemma put_live:
  assumes ok: "registry_ok reg" and none: "none_live reg" and r: "map_of (sg_records reg) vid = Some r"
    and stack: "distinct stack" "stack \<noteq> []" "last stack = vid" "set stack \<subseteq> insert vid (set (sg_live_stack reg))"
    and keep: "\<And>w. w \<noteq> vid \<Longrightarrow> w \<in> set stack \<Longrightarrow> w \<in> set (sg_live_stack reg)"
    and w: "was_live (path r @ [LIVE])"
  shows "registry_ok (set_status vid LIVE now (reg\<lparr>sg_live_stack := stack\<rparr>))"
proof -
  let ?reg = "set_status vid LIVE now (reg\<lparr>sg_live_stack := stack\<rparr>)"
  have "record_ok (sg_next_version reg) stack u x" if u: "map_of (sg_records ?reg) u = Some x" for u x
  proof (cases "u = vid")
    case True
    then show ?thesis using u r registry_okD [OF ok r] w stack
      by (auto simp: map_of_set_status record_ok_def staged_def last_stage_def)
  next
    case False
    then have x: "map_of (sg_records reg) u = Some x" using u by (simp add: map_of_set_status)
    then show ?thesis using registry_okD [OF ok x] none keep [OF False]
      by (auto simp: none_live_def record_ok_def)
  qed
  moreover have "dom (map_of (sg_records ?reg)) = dom (map_of (sg_records reg))"
    using r by (auto simp: map_of_set_status dom_def split: if_splits)
  ultimately show ?thesis using ok stack r by (auto simp: registry_ok_def distinct_set_status)
qed

lemma transition_ok:
  assumes ok: "registry_ok reg"
  shows "registry_ok (snd (transition vid st clk reg))"
proof (cases "map_of (sg_records reg) vid")
  case None
  then show ?thesis using ok by (simp add: transition_def)
next
  case (Some r)
  note rk = registry_okD [OF ok Some]
  have sg: "staged (path r)" "sc_status r = last_stage (path r)" using rk by (auto simp: record_ok_def)
  show ?thesis
  proof (cases "st \<in> VALID_TRANSITIONS (sc_status r)")
    case False
    then show ?thesis using ok Some by (simp add: transition_def)
  next
    case v: True
    note steps = staged_step [OF sg(1) v [unfolded sg(2)]]
    show ?thesis
    proof (cases "st = LIVE")
      case False
      have "was_live (path r) \<Longrightarrow> st = RETIRED"
        using v was_live_last [of "path r"] by (auto simp: sg(2) VALID_TRANSITIONS_def)
      then have "registry_ok (set_status vid st (clk 0) reg)"
        using False steps(1) was_live_snoc [of "path r" st] by (intro set_status_ok [OF ok Some]) auto
      then show ?thesis using Some v False by (simp add: transition_def)
    next
      case True
      have canary: "sc_status r = CANARY" using v True by (auto simp: VALID_TRANSITIONS_def split: StrategyStatus.splits)
      then have fresh: "vid \<notin> set (sg_live_stack reg)"
        using rk was_live_last [of "path r"] by (auto simp: record_ok_def)
      have wl: "was_live (path r @ [LIVE])" using steps(2) [OF True] True by simp
      obtain reg1 where sup: "supersede_current_live (clk 0) reg = Inr reg1" and ok1: "registry_ok reg1" "none_live reg1"
        and r1: "map_of (sg_records reg1) vid = Some r" "sg_live_stack reg1 = sg_live_stack reg"
      proof (cases "sg_live_stack reg = []")
        case empty: True
        then have "none_live reg" using registry_okD [OF ok] unfolding none_live_def record_ok_def by blast
        then show ?thesis using that [of reg] ok Some empty by (simp add: supersede_current_live_def)
      next
        case ne: False
        have "vid \<noteq> last (sg_live_stack reg)" using fresh ne by auto
        then show ?thesis using that [of "set_status (last (sg_live_stack reg)) RETIRED (clk 0) reg"] retire_top [OF ok ne] Some ne
          by (auto simp: supersede_current_live_def map_of_set_status)
      qed
      have "registry_ok (set_status vid LIVE (clk 1) (reg1\<lparr>sg_live_stack := sg_live_stack reg1 @ [vid]\<rparr>))"
        using ok1(1) fresh r1(2) by (intro put_live [OF ok1 r1(1)]) (auto simp: registry_ok_def wl)
      then show ?thesis using Some v True sup by (simp add: transition_def)
    qed
  qed
qed

lemma butlast_stack:
  assumes "registry_ok reg" "none_live reg"
  shows "registry_ok (reg\<lparr>sg_live_stack := butlast (sg_live_stack reg)\<rparr>)"
  using assms by (auto simp: registry_ok_def none_live_def record_ok_def distinct_butlast dest: in_set_butlastD)

lemma set_status_stack:
  "set_status v st now (reg\<lparr>sg_live_stack := s\<rparr>) = (set_status v st now reg)\<lparr>sg_live_stack := s\<rparr>"
  by (simp add: set_status_def split: option.splits)

lemma rollback_cases:
  assumes ok: "registry_ok reg" and ne: "sg_live_stack reg \<noteq> []"
  shows "\<exists>reg2. registry_ok reg2 \<and> none_live reg2 \<and> sg_live_stack reg2 = butlast (sg_live_stack reg)
    \<and> (if sg_live_stack reg2 = [] then rollback clk reg = (Inr None, reg2)
       else \<exists>r. map_of (sg_records reg2) (last (sg_live_stack reg2)) = Some r \<and> was_live (path r)
         \<and> rollback clk reg = (Inr (Some (sc_strategy r)), set_status (last (sg_live_stack reg2)) LIVE (clk 1) reg2))"
proof -
  let ?cur = "last (sg_live_stack reg)"
  let ?reg2 = "(set_status ?cur RETIRED (clk 0) reg)\<lparr>sg_live_stack := butlast (sg_live_stack reg)\<rparr>"
  note top = retire_top [OF ok ne]
  have ok2: "registry_ok ?reg2" "none_live ?reg2"
    using butlast_stack [OF top(2,3)] top(3) by (simp_all add: none_live_def)
  have rb: "rollback clk reg = (if sg_live_stack ?reg2 = [] then (Inr None, ?reg2)
      else case map_of (sg_records ?reg2) (last (sg_live_stack ?reg2)) of
         None \<Rightarrow> (Inl (Missing_record (last (sg_live_stack ?reg2))), ?reg2)
       | Some r \<Rightarrow> (Inr (Some (sc_strategy r)), set_status (last (sg_live_stack ?reg2)) LIVE (clk 1) ?reg2))"
    using ne top(1) by (auto simp: rollback_def Let_def set_status_stack split: option.splits)
  show ?thesis
  proof (cases "sg_live_stack ?reg2 = []")
    case True
    then show ?thesis using ok2 rb by (intro exI [of _ ?reg2]) simp
  next
    case False
    then obtain r where r: "map_of (sg_records ?reg2) (last (sg_live_stack ?reg2)) = Some r"
      using ok2(1) unfolding registry_ok_def by (metis domD in_mono last_in_set)
    then have "was_live (path r)" using registry_okD [OF ok2(1) r] False by (simp add: record_ok_def)
    then show ?thesis using ok2 rb r False by (intro exI [of _ ?reg2]) simp
  qed
qed

lemma rollback_ok:
  assumes "registry_ok reg"
  shows "registry_ok (snd (rollback clk reg))"
proof (cases "sg_live_stack reg = []")
  case True
  then show ?thesis using assms by (simp add: rollback_def)
next
  case False
  from rollback_cases [OF assms False, of clk] obtain reg2 where
    2: "registry_ok reg2" "none_live reg2" and
    rb: "if sg_live_stack reg2 = [] then rollback clk reg = (Inr None, reg2)
       else \<exists>r. map_of (sg_records reg2) (last (sg_live_stack reg2)) = Some r \<and> was_live (path r)
         \<and> rollback clk reg = (Inr (Some (sc_strategy r)), set_status (last (sg_live_stack reg2)) LIVE (clk 1) reg2)" by blast
  show ?thesis
  proof (cases "sg_live_stack reg2 = []")
    case True
    then show ?thesis using rb 2 by simp
  next
    case ne: False
    then obtain r where r: "map_of (sg_records reg2) (last (sg_live_stack reg2)) = Some r" "was_live (path r)"
      and e: "rollback clk reg = (Inr (Some (sc_strategy r)), set_status (last (sg_live_stack reg2)) LIVE (clk 1) reg2)"
      using rb by auto
    have "registry_ok (set_status (last (sg_live_stack reg2)) LIVE (clk 1) (reg2\<lparr>sg_live_stack := sg_live_stack reg2\<rparr>))"
      using 2(1) ne was_live_snoc [OF r(2), of LIVE] by (intro put_live [OF 2 r(1)]) (auto simp: registry_ok_def)
    then show ?thesis by (simp add: e)
  qed
qed


section \<open>The life of the registry\<close>

inductive registry_life :: "(pydict \<Rightarrow> string) \<Rightarrow> StrategyRegistry \<Rightarrow> bool" for hash where
  rl_new: "registry_life hash new_registry"
| rl_register: "registry_life hash reg \<Longrightarrow> registry_life hash (snd (register_version hash config parent now reg))"
| rl_transition: "registry_life hash reg \<Longrightarrow> registry_life hash (snd (transition vid st clk reg))"
| rl_rollback: "registry_life hash reg \<Longrightarrow> registry_life hash (snd (rollback clk reg))"

lemma life_ok: "registry_life hash reg \<Longrightarrow> registry_ok reg"
proof (induction rule: registry_life.induct)
  case (rl_register reg config parent now)
  then show ?case using register_ok(1) by (metis prod.collapse)
qed (simp_all add: new_registry_ok transition_ok rollback_ok)

lemma record_in_list:
  assumes "registry_ok reg" "(vid, r) \<in> set (sg_records reg)"
  shows "map_of (sg_records reg) vid = Some r" "record_ok (sg_next_version reg) (sg_live_stack reg) vid r"
  using assms registry_okD [OF assms(1)] by (auto simp: registry_ok_def)

lemma at_most_one:
  "distinct (map fst xs) \<Longrightarrow> (\<And>x. x \<in> set xs \<Longrightarrow> P x \<Longrightarrow> fst x = k) \<Longrightarrow> length (filter P xs) \<le> 1"
proof (induction xs)
  case (Cons x xs)
  show ?case
  proof (cases "P x")
    case True
    then have "fst x = k" using Cons.prems(2) by simp
    have "\<forall>y\<in>set xs. \<not> P y"
    proof (intro ballI notI)
      fix y assume y: "y \<in> set xs" "P y"
      then have "fst y = fst x" using Cons.prems(2) \<open>fst x = k\<close> by simp
      then show False using Cons.prems(1) y(1) by (metis distinct.simps(2) image_eqI list.simps(9) set_map)
    qed
    then show ?thesis using True by simp
  next
    case False
    then show ?thesis using Cons by simp
  qed
qed simp

lemma map_snd_dset: "map_of xs k = Some r \<Longrightarrow> f v = f r \<Longrightarrow> map (f \<circ> snd) (dset k v xs) = map (f \<circ> snd) xs"
  by (induction xs) (auto split: if_splits)

lemma map_snd_dset_new: "map_of xs k = None \<Longrightarrow> map (f \<circ> snd) (dset k v xs) = map (f \<circ> snd) xs @ [f v]"
  by (induction xs) (auto split: if_splits)

definition version_numbers :: "StrategyRegistry \<Rightarrow> nat list" where
  "version_numbers reg = map (sv_version \<circ> sc_strategy \<circ> snd) (sg_records reg)"

lemma numbers_set_status [simp]: "version_numbers (set_status v st now reg) = version_numbers reg"
  by (auto simp: version_numbers_def set_status_def comp_assoc split: option.splits
      intro!: map_snd_dset [of _ _ _ "sv_version \<circ> sc_strategy", unfolded comp_assoc])

lemma numbers_stack [simp]: "version_numbers (reg\<lparr>sg_live_stack := s\<rparr>) = version_numbers reg"
  by (simp add: version_numbers_def)

lemma numbers_steps:
  "version_numbers (snd (transition v st clk reg)) = version_numbers reg"
  "sg_next_version (snd (transition v st clk reg)) = sg_next_version reg"
  "version_numbers (snd (rollback clk reg)) = version_numbers reg"
  "sg_next_version (snd (rollback clk reg)) = sg_next_version reg"
  by (auto simp: transition_def supersede_current_live_def rollback_def Let_def split: option.splits sum.splits if_splits)

definition versions_ok :: "StrategyRegistry \<Rightarrow> bool" where
  "versions_ok reg \<longleftrightarrow> distinct (version_numbers reg) \<and> (\<forall>v\<in>set (version_numbers reg). v < sg_next_version reg)"

lemma life_versions: "registry_life hash reg \<Longrightarrow> versions_ok reg"
proof (induction rule: registry_life.induct)
  case (rl_register reg config parent now)
  obtain sv reg' where e: "register_version hash config parent now reg = (sv, reg')" by force
  have "map_of (sg_records reg) (sv_version_id sv) = None" using register_ok(2) [OF life_ok [OF rl_register(1)] e] .
  then have "version_numbers reg' = version_numbers reg @ [sg_next_version reg]" "sg_next_version reg' = sg_next_version reg + 1"
    using e by (auto simp: register_version_def make_version_def Let_def version_numbers_def map_snd_dset_new)
  then show ?case using rl_register.IH e by (auto simp: versions_ok_def)
qed (simp_all add: versions_ok_def numbers_steps, simp add: new_registry_def version_numbers_def)

definition same_versions :: "StrategyRegistry \<Rightarrow> StrategyRegistry \<Rightarrow> bool" where
  "same_versions reg reg' \<longleftrightarrow> (\<forall>vid r. map_of (sg_records reg) vid = Some r \<longrightarrow>
     (\<exists>r'. map_of (sg_records reg') vid = Some r' \<and> sc_strategy r' = sc_strategy r))"

lemma same_refl [simp]: "same_versions reg reg" "same_versions reg (reg\<lparr>sg_live_stack := s\<rparr>)"
  by (auto simp: same_versions_def)

lemma same_trans: "same_versions a b \<Longrightarrow> same_versions b c \<Longrightarrow> same_versions a c"
  unfolding same_versions_def by metis

lemma same_set_status: "same_versions reg (set_status v st now reg)"
  by (auto simp: same_versions_def map_of_set_status)

lemma same_live: "same_versions reg (set_status v st now (reg\<lparr>sg_live_stack := s\<rparr>))"
  using same_trans [OF same_refl(2) same_set_status] .

lemma register_same:
  assumes "registry_ok reg"
  shows "same_versions reg (snd (register_version hash config parent now reg))"
proof -
  obtain sv reg' where e: "register_version hash config parent now reg = (sv, reg')" by force
  have "map_of (sg_records reg) (sv_version_id sv) = None" using register_ok(2) [OF assms e] .
  then show ?thesis using e by (auto simp: same_versions_def register_version_def Let_def)
qed

lemma transition_same: "same_versions reg (snd (transition v st clk reg))"
proof (cases "\<exists>reg1. supersede_current_live (clk 0) reg = Inr reg1 \<and> sg_live_stack reg \<noteq> []")
  case True
  then show ?thesis
    using same_trans [OF same_set_status same_live]
    by (auto simp: transition_def supersede_current_live_def Let_def same_set_status split: option.splits)
next
  case False
  then show ?thesis
    by (auto simp: transition_def supersede_current_live_def Let_def same_set_status same_live split: option.splits sum.splits)
qed

lemma rollback_same: "same_versions reg (snd (rollback clk reg))"
  using same_trans [OF same_live same_set_status] same_live
  by (auto simp: rollback_def Let_def same_live split: option.splits)

lemma promote_same: "same_versions reg (snd (promote rp v champion candidate st clk reg))"
proof (cases "transition v st clk reg")
  case (Pair a b)
  then have "same_versions reg b" using transition_same [of reg v st clk] by simp
  then show ?thesis using Pair
    by (auto simp: promote_def Let_def split: sum.splits transition_error.splits)
qed

lemma rollback_length:
  assumes "registry_ok reg"
  shows "length (sg_live_stack (snd (rollback clk reg))) = length (sg_live_stack reg) - 1"
proof (cases "sg_live_stack reg = []")
  case False
  from rollback_cases [OF assms False, of clk] have "sg_live_stack (snd (rollback clk reg)) = butlast (sg_live_stack reg)"
    by (auto split: if_splits)
  then show ?thesis by simp
qed (simp add: rollback_def)

lemma no_stack_no_live:
  assumes "registry_ok reg" "sg_live_stack reg = []"
  shows "current_live reg = None"
  using record_in_list(2) [OF assms(1)] assms(2)
  by (fastforce simp: current_live_def find_None_iff record_ok_def)

lemmas breaker_constants = CIRCUIT_BREAKER_MAX_DRAWDOWN_PCT_def CIRCUIT_BREAKER_MAX_CONSECUTIVE_FAILURES_def
  CIRCUIT_BREAKER_MAX_DIVERGENCE_def CIRCUIT_BREAKER_MAX_LATENCY_MS_def

text \<open>C12: Whatever calls are made, at most one version is live, it is the top of the promotion stack, and a
  version that was ever live went through backtest, shadow and canary first, in that order; version
  numbers and identifiers are never reused.\<close>
theorem live_only_through_every_stage:
  assumes "registry_life hash reg"
  shows "length (filter (\<lambda>x. sc_status (snd x) = LIVE) (sg_records reg)) \<le> 1
    \<and> list_all (\<lambda>(vid, r). (if LIVE \<in> set (path r) then take 4 (path r) = [BACKTESTED, SHADOW, CANARY, LIVE]
           else sc_status r \<noteq> LIVE) \<and> (if sc_status r = LIVE then vid = last (sg_live_stack reg) else True)) (sg_records reg)
    \<and> distinct (map fst (sg_records reg)) \<and> distinct (map (sv_version \<circ> sc_strategy \<circ> snd) (sg_records reg))"
proof -
  have ok: "registry_ok reg" using assms by (rule life_ok)
  note rec = record_in_list [OF ok]
  have d: "distinct (map fst (sg_records reg))" using ok by (simp add: registry_ok_def)
  have one: "length (filter (\<lambda>x. sc_status (snd x) = LIVE) (sg_records reg)) \<le> 1"
    using d rec(2) by (intro at_most_one [where k = "last (sg_live_stack reg)"]) (auto simp: record_ok_def)
  have live: "LIVE \<in> set h \<Longrightarrow> staged h \<Longrightarrow> take 4 h = [BACKTESTED, SHADOW, CANARY, LIVE]" for h
    by (auto simp: staged_def early_path_def was_live_def)
  have st: "last_stage h = LIVE \<Longrightarrow> LIVE \<in> set h" for h
    using last_in_set by (fastforce simp: last_stage_def split: if_splits)
  have each: "list_all (\<lambda>(vid, r). (if LIVE \<in> set (path r) then take 4 (path r) = [BACKTESTED, SHADOW, CANARY, LIVE]
           else sc_status r \<noteq> LIVE) \<and> (if sc_status r = LIVE then vid = last (sg_live_stack reg) else True)) (sg_records reg)"
    using rec(2) live st by (fastforce simp: list_all_iff record_ok_def)
  show ?thesis using one each d life_versions [OF assms] by (simp add: versions_ok_def version_numbers_def)
qed

section \<open>What never changes\<close>

text \<open>A registered version is immutable: no call changes or removes the identity, configuration or lineage
  stored under a version identifier.\<close>
theorem registered_versions_immutable:
  assumes "registry_life hash reg" "map_of (sg_records reg) vid = Some r"
    and "reg' \<in> {snd (register_version hash config parent now reg), snd (transition v st clk reg), snd (rollback clk reg),
      snd (promote rp v champion candidate st clk reg)}"
  shows "\<exists>r'. map_of (sg_records reg') vid = Some r' \<and> sc_strategy r' = sc_strategy r"
proof -
  have ok: "registry_ok reg" using assms(1) by (rule life_ok)
  have "same_versions reg reg'"
    using assms(3) register_same [OF ok] transition_same rollback_same promote_same by blast
  then show ?thesis using assms(2) by (auto simp: same_versions_def)
qed

section \<open>Retired versions come back\<close>

text \<open>A rollback puts the version below the top of the stack live again whatever its status: also a
  version that had been retired explicitly, although the life cycle calls retired terminal.\<close>
theorem rollback_revives_retired:
  assumes "registry_life hash reg" "sg_live_stack reg = rest @ [v, w]" "map_of (sg_records reg) v = Some r"
  shows "(\<exists>reg'. rollback clk reg = (Inr (Some (sc_strategy r)), reg') \<and> status_of v reg' = Some LIVE
    \<and> status_of w reg' = Some RETIRED \<and> sg_live_stack reg' = rest @ [v])"
proof -
  have ok: "registry_ok reg" using assms(1) by (rule life_ok)
  then have d: "v \<noteq> w" using assms(2) by (auto simp: registry_ok_def)
  obtain rw where w: "map_of (sg_records reg) w = Some rw" using ok assms(2) by (auto simp: registry_ok_def)
  show ?thesis using d w assms(2,3)
    by (simp add: rollback_def Let_def butlast_append map_of_set_status status_of_def get_record_def)
qed

section \<open>The breaker\<close>

text \<open>The breaker trips exactly when a threshold is reached, and a trip sets the kill switch. It rolls back once
  per check: while the same breach persists, every periodic check takes down one more version, until
  after as many checks as there were promotions no version is live.\<close>
theorem breaker_unwinds_every_version:
  assumes "registry_life hash (bk_registry s)"
    and "bi_drawdown_pct i \<ge> 15 / 100 \<or> bi_consecutive_failures i \<ge> 5 \<or> bi_divergence_score i \<ge> 1 / 2 \<or> bi_latency_ms i \<ge> 5000"
  shows "let s' = ((\<lambda>s. snd (breaker_check clk i s)) ^^ Suc n) s
    in bk_kill_switch s' \<and> length (sg_live_stack (bk_registry s')) = length (sg_live_stack (bk_registry s)) - Suc n
      \<and> (if length (sg_live_stack (bk_registry s)) \<le> Suc n then current_live (bk_registry s') = None else True)"
proof -
  have t: "snd (breaker_check clk i x) = trip clk x" for x
    using assms(2) by (auto simp: breaker_check_def evaluate_breaker_def only_if_def Let_def breaker_constants)
  have ok: "registry_ok (bk_registry s)" using assms(1) by (rule life_ok)
  have kill: "bk_kill_switch (trip clk x)" for x by (simp add: trip_def)
  have "registry_ok (bk_registry ((trip clk ^^ k) s))
      \<and> length (sg_live_stack (bk_registry ((trip clk ^^ k) s))) = length (sg_live_stack (bk_registry s)) - k" for k
    using ok by (induction k) (auto simp: trip_def rollback_ok rollback_length)
  from this [of "Suc n"] show ?thesis
    unfolding t using no_stack_no_live kill by (auto simp: Let_def)
qed

section \<open>A sample life\<close>

definition promote_all :: "string \<Rightarrow> StrategyRegistry \<Rightarrow> StrategyRegistry" where
  "promote_all vid reg = fold (\<lambda>st reg. snd (transition vid st (\<lambda>_. 0) reg)) [BACKTESTED, SHADOW, CANARY, LIVE] reg"

definition with_new_live :: "string \<Rightarrow> StrategyRegistry \<Rightarrow> StrategyRegistry" where
  "with_new_live vid reg = promote_all vid (snd (register_version (\<lambda>_. ''x'') [] None 0 reg))"

text \<open>version 1 live, version 2 live and then pulled, version 3 live\<close>
definition sample_registry :: StrategyRegistry where
  "sample_registry = with_new_live ''v3-x'' (snd (transition ''v2-x'' RETIRED (\<lambda>_. 0)
     (with_new_live ''v2-x'' (with_new_live ''v1-x'' new_registry))))"

lemma with_new_live_life: "registry_life (\<lambda>_. ''x'') reg \<Longrightarrow> registry_life (\<lambda>_. ''x'') (with_new_live vid reg)"
  unfolding with_new_live_def promote_all_def by (simp add: rl_register rl_transition)

lemma sample_life: "registry_life (\<lambda>_. ''x'') sample_registry"
  unfolding sample_registry_def by (intro with_new_live_life rl_transition rl_new)

lemma sample_facts: "sg_live_stack sample_registry = [''v1-x'', ''v2-x'', ''v3-x'']"
  "map (\<lambda>(v, r). (v, sc_status r)) (sg_records sample_registry) = [(''v1-x'', RETIRED), (''v2-x'', RETIRED), (''v3-x'', LIVE)]"
  by code_simp+


lemma sample_lookup: "\<exists>r. map_of (sg_records sample_registry) ''v2-x'' = Some r"
  using arg_cong [OF sample_facts(2), of "map fst"] map_of_eq_None_iff [of "sg_records sample_registry" "''v2-x''"]
  by (force simp: comp_def case_prod_beta)

theorem live_only_through_every_stage_witness:
  "registry_life (\<lambda>_. ''x'') sample_registry
   \<and> length (filter (\<lambda>x. sc_status (snd x) = LIVE) (sg_records sample_registry)) \<le> 1"
  using live_only_through_every_stage [OF sample_life] sample_life by blast

theorem registered_versions_immutable_witness:
  "\<exists>r r'. map_of (sg_records sample_registry) ''v2-x'' = Some r
     \<and> map_of (sg_records (snd (rollback (\<lambda>_. 1) sample_registry))) ''v2-x'' = Some r' \<and> sc_strategy r' = sc_strategy r"
proof -
  obtain r where r: "map_of (sg_records sample_registry) ''v2-x'' = Some r" using sample_lookup by blast
  show ?thesis using registered_versions_immutable [OF sample_life r, of "snd (rollback (\<lambda>_. 1) sample_registry)"] r by blast
qed

theorem rollback_revives_retired_witness:
  "status_of ''v2-x'' sample_registry = Some RETIRED
   \<and> (\<exists>v reg'. rollback (\<lambda>_. 1) sample_registry = (Inr (Some v), reg') \<and> status_of ''v2-x'' reg' = Some LIVE)"
proof -
  obtain r where r: "map_of (sg_records sample_registry) ''v2-x'' = Some r" using sample_lookup by blast
  have "status_of ''v2-x'' sample_registry = Some RETIRED" by code_simp
  moreover have "sg_live_stack sample_registry = [''v1-x''] @ [''v2-x'', ''v3-x'']" by (simp add: sample_facts(1))
  ultimately show ?thesis using rollback_revives_retired [OF sample_life _ r] by blast
qed

theorem breaker_unwinds_every_version_witness:
  "let s = \<lparr>bk_kill_switch = False, bk_registry = sample_registry\<rparr>;
       i = \<lparr>bi_drawdown_pct = 2 / 10, bi_consecutive_failures = 0, bi_divergence_score = 0, bi_latency_ms = 0\<rparr>
   in current_live (bk_registry (((\<lambda>s. snd (breaker_check (\<lambda>_. 1) i s)) ^^ Suc 2) s)) = None"
proof -
  let ?s = "\<lparr>bk_kill_switch = False, bk_registry = sample_registry\<rparr>"
  let ?i = "\<lparr>bi_drawdown_pct = 2 / 10, bi_consecutive_failures = 0, bi_divergence_score = 0, bi_latency_ms = 0\<rparr>"
  have "registry_life (\<lambda>_. ''x'') (bk_registry ?s)" using sample_life by simp
  from breaker_unwinds_every_version [OF this, where i = ?i and clk = "\<lambda>_. 1" and n = 2] show ?thesis
    by (simp add: Let_def sample_facts(1) del: funpow.simps)
qed

section \<open>Promotion\<close>

text \<open>The promotion gate moves a version only when the replay passes every regression gate and the life cycle
  allows the step; a rejected or blocked promotion leaves the registry untouched.\<close>
theorem promotion_needs_both_gates:
  assumes "promote rp vid champion candidate st clk reg = (Inr d, reg')"
  shows "(if pd_transitioned d
     then rv_approved (pd_verdict d) \<and> rm_trade_count (pd_candidate d) \<ge> 10 \<and> rv_sharpe_delta (pd_verdict d) \<ge> - (1 / 10)
       \<and> rv_drawdown_delta (pd_verdict d) \<ge> - 1 \<and> rv_false_positive_delta (pd_verdict d) \<le> 5 / 100
       \<and> rv_slippage_delta (pd_verdict d) \<le> 2
       \<and> (\<exists>r. map_of (sg_records reg) vid = Some r \<and> st \<in> VALID_TRANSITIONS (sc_status r))
     else reg' = reg)"
proof -
  obtain ch ca where m: "replay rp champion = Inr ch" "replay rp candidate = Inr ca"
    using assms by (auto simp: promote_def res_bind_def split: sum.splits)
  let ?v = "validate_regression ch ca"
  have v: "rv_approved ?v \<Longrightarrow> rm_trade_count ca \<ge> 10 \<and> rv_sharpe_delta ?v \<ge> - (1 / 10) \<and> rv_drawdown_delta ?v \<ge> - 1
      \<and> rv_false_positive_delta ?v \<le> 5 / 100 \<and> rv_slippage_delta ?v \<le> 2"
    by (auto simp: validate_regression_def Let_def only_if_def REGRESSION_MIN_SHARPE_DELTA_def
        REGRESSION_MAX_DRAWDOWN_DELTA_PCT_def REGRESSION_MAX_FALSE_POSITIVE_DELTA_def
        REGRESSION_MAX_SLIPPAGE_DELTA_BPS_def REGRESSION_MIN_REPLAY_TRADES_def split: if_splits)
  have t: "(\<exists>x. fst (transition vid st clk reg) = Inr x) \<Longrightarrow>
      \<exists>r. map_of (sg_records reg) vid = Some r \<and> st \<in> VALID_TRANSITIONS (sc_status r)"
    "fst (transition vid st clk reg) = Inl err \<Longrightarrow> snd (transition vid st clk reg) = reg" for err
    by (auto simp: transition_def split: option.splits if_splits sum.splits)
  show ?thesis
  proof (cases "rv_approved ?v")
    case False
    then show ?thesis using assms m by (auto simp: promote_def Let_def)
  next
    case True
    then show ?thesis using assms m v t
      by (cases "transition vid st clk reg")
        (auto simp: promote_def Let_def split: sum.splits transition_error.splits)
  qed
qed

definition flat_trades :: "pydict list" where
  "flat_trades = replicate 10 [(''pnl'', PFloat 1), (''side'', PStr ''buy'')]"

theorem promotion_needs_both_gates_witness:
  "\<exists>d reg'. promote (\<lambda>_. []) ''v1-x'' flat_trades flat_trades BACKTESTED (\<lambda>_. 0)
      (snd (register_version (\<lambda>_. ''x'') [] None 0 new_registry)) = (Inr d, reg')
    \<and> pd_transitioned d \<and> rv_approved (pd_verdict d)"
proof -
  obtain m where m: "replay (\<lambda>_. []) flat_trades = Inr m" "rm_trade_count m = 10"
    by (simp add: replay_def flat_trades_def compute_learning_metrics_def numeral_eq_Suc Let_def)
  have a: "rv_approved (validate_regression m m)"
    using m(2) by (simp add: validate_regression_def Let_def only_if_def REGRESSION_MIN_SHARPE_DELTA_def
        REGRESSION_MAX_DRAWDOWN_DELTA_PCT_def REGRESSION_MAX_FALSE_POSITIVE_DELTA_def
        REGRESSION_MAX_SLIPPAGE_DELTA_BPS_def REGRESSION_MIN_REPLAY_TRADES_def)
  let ?reg = "snd (register_version (\<lambda>_. ''x'') [] None 0 new_registry)"
  have "map_option sc_status (map_of (sg_records ?reg) ''v1-x'') = Some PROPOSED" by code_simp
  then have "\<exists>sv reg'. transition ''v1-x'' BACKTESTED (\<lambda>_. 0) ?reg = (Inr sv, reg')"
    by (auto simp: transition_def VALID_TRANSITIONS_def)
  then obtain d reg' where p: "promote (\<lambda>_. []) ''v1-x'' flat_trades flat_trades BACKTESTED (\<lambda>_. 0) ?reg = (Inr d, reg')"
    "pd_transitioned d" using m(1) a by (auto simp: promote_def Let_def)
  from promotion_needs_both_gates [OF p(1)] p show ?thesis by auto
qed

end
