(* ===== verification/Risk_Guardian.thy ===== *)
theory Risk_Guardian
  imports Execution_Engine Strategy_Registry
begin

text \<open>
  The risk guardian (\<open>api/services/agents/risk_guardian.py\<close>): the periodic scan that closes positions on
  stop loss, take profit, trailing stop and staleness, and the portfolio checks that set the kill
  switch. \<open>guardian_env\<close> is what one cycle reads from outside (Redis cells, table rows, clocks, the
  parser of timestamps, the rendering of a reason) and which Redis or bus calls fail; \<open>guardian\<close> is
  what it writes.
\<close>

section \<open>State and environment\<close>

text \<open>a Redis value under a key: missing or empty, not JSON, decoded, or a read that raises\<close>
datatype json_cell = Absent | Corrupt | Json pyval | Unreadable

datatype exit_reason =
    Stop_loss real
  | Stop_loss_risk_off real real
  | Take_profit real
  | Take_profit_risk_off real real
  | Trailing_stop real real
  | Stale_position real real

datatype guard_point = G_peak_set string | G_peak_delete string | G_publish_close string | G_kill_set | G_kill_stamp
  | G_publish_alert

record open_pos =
  ox_symbol :: string
  ox_side :: string
  ox_qty :: real
  ox_avg_cost :: real
  ox_strategy :: string
  ox_opened_at :: pyval

record guardian =
  gu_cache :: "open_pos list"
  gu_cache_valid :: bool
  gu_cache_loaded_at :: real
  gu_peaks :: "string \<Rightarrow> json_cell"
  gu_kill_switch :: bool
  gu_registry :: StrategyRegistry
  gu_decisions :: "pydict list"
  gu_alerts :: "pydict list"

record guardian_env =
  ge_rp :: "pyval \<Rightarrow> string"
  ge_fmt :: "exit_reason \<Rightarrow> string"
  ge_db_available :: bool
  ge_db_rows :: "position_row list option"
  ge_paper_cells :: "json_cell list"
  ge_price_cell :: "string \<Rightarrow> json_cell"
  ge_macro :: "string \<Rightarrow> pyval"
  ge_mono :: real
  ge_now :: real
  ge_now_iso :: string
  ge_parse_utc :: "string \<Rightarrow> real option"
  ge_db_daily_pnl :: "real option"
  ge_closed_trades :: "pydict list option"
  ge_uuid_msg :: "string \<Rightarrow> string"
  ge_uuid_trace :: "string \<Rightarrow> string"
  ge_clk :: "nat \<Rightarrow> real"
  ge_fault :: "guard_point \<Rightarrow> bool"

type_synonym 'a grun = "(guardian, 'a) eff"

definition gfault :: "guardian_env \<Rightarrow> guard_point \<Rightarrow> unit grun" where
  "gfault e p = guard_fault (ge_fault e p)"

definition RISK_CHECK_INTERVAL_SECONDS :: real where "RISK_CHECK_INTERVAL_SECONDS = 30"
definition CACHE_MAX_AGE_SECONDS :: real where "CACHE_MAX_AGE_SECONDS = RISK_CHECK_INTERVAL_SECONDS * 3"
definition TRAILING_STOP_ARM_PCT :: real where "TRAILING_STOP_ARM_PCT = 3 / 100"
definition TRAILING_STOP_GIVEBACK_FRAC :: real where "TRAILING_STOP_GIVEBACK_FRAC = 40 / 100"
definition STALE_POSITION_MAX_AGE_SECONDS :: real where "STALE_POSITION_MAX_AGE_SECONDS = 14400"
definition STALE_POSITION_PNL_BAND_PCT :: real where "STALE_POSITION_PNL_BAND_PCT = 1 / 100"

section \<open>Position sources\<close>

definition of_row :: "position_row \<Rightarrow> open_pos" where
  "of_row r = \<lparr>ox_symbol = p_symbol r, ox_side = p_side r, ox_qty = p_qty r, ox_avg_cost = p_avg_cost r,
     ox_strategy = p_strategy r, ox_opened_at = PNone\<rparr>"

text \<open>\<open>SELECT ... WHERE side != 'flat' AND qty > 0\<close>\<close>
definition open_rows :: "position_row list \<Rightarrow> open_pos list" where
  "open_rows rows = map of_row (filter (\<lambda>r. p_side r \<noteq> ''flat'' \<and> p_qty r > 0) rows)"

definition load_db_positions :: "guardian_env \<Rightarrow> open_pos list option grun" where
  "load_db_positions e s =
     (if \<not> gu_cache_valid s \<or> ge_mono e - gu_cache_loaded_at s > CACHE_MAX_AGE_SECONDS
      then (case ge_db_rows e of
              None \<Rightarrow> (Inr None, s)
            | Some rows \<Rightarrow> (Inr (Some (open_rows rows)),
                s\<lparr>gu_cache := open_rows rows, gu_cache_valid := True, gu_cache_loaded_at := ge_mono e\<rparr>))
      else (Inr (Some (gu_cache s)), s))"

text \<open>one key of the paper broker; a payload that is no object, or whose numbers do not parse, raises\<close>
definition paper_position :: "(pyval \<Rightarrow> string) \<Rightarrow> pyval \<Rightarrow> open_pos option pyres" where
  "paper_position rp payload = (case payload of
       PDict d \<Rightarrow>
         res_bind (float_or (py_get d ''qty'') 0) (\<lambda>qty.
           let side = py_lower (str_or rp (py_get d ''side''))
           in if \<bar>qty\<bar> < 1 / 10 ^ 9 \<or> side = ''flat'' then Inr None
              else res_bind (float_or (py_get d ''entry_price'') 0) (\<lambda>avg_cost.
                Inr (Some \<lparr>ox_symbol = str_or rp (py_get d ''symbol''), ox_side = side, ox_qty = \<bar>qty\<bar>,
                  ox_avg_cost = avg_cost, ox_strategy = [], ox_opened_at = py_get d ''opened_at''\<rparr>)))
     | _ \<Rightarrow> Inl AttributeError)"

text \<open>the scan: the surrounding \<open>try\<close> keeps what was collected before the first exception\<close>
fun load_paper_positions :: "(pyval \<Rightarrow> string) \<Rightarrow> json_cell list \<Rightarrow> open_pos list" where
  "load_paper_positions rp [] = []"
| "load_paper_positions rp (c # cs) = (case c of
       Absent \<Rightarrow> load_paper_positions rp cs
     | Corrupt \<Rightarrow> load_paper_positions rp cs
     | Unreadable \<Rightarrow> []
     | Json v \<Rightarrow> (case paper_position rp v of
           Inl _ \<Rightarrow> []
         | Inr None \<Rightarrow> load_paper_positions rp cs
         | Inr (Some p) \<Rightarrow> p # load_paper_positions rp cs))"

definition load_open_positions :: "guardian_env \<Rightarrow> open_pos list grun" where
  "load_open_positions e =
     (if ge_db_available e
      then bnd (load_db_positions e) (\<lambda>rows. case rows of
             Some ps \<Rightarrow> ret ps
           | None \<Rightarrow> ret (load_paper_positions (ge_rp e) (ge_paper_cells e)))
      else ret (load_paper_positions (ge_rp e) (ge_paper_cells e)))"

definition get_price :: "guardian_env \<Rightarrow> string \<Rightarrow> real option" where
  "get_price e symbol = (case ge_price_cell e symbol of
       Json (PDict d) \<Rightarrow>
         let price = py_or (py_get d ''price'') (py_get d ''last_price'')
         in if truthy price then safe_float price else None
     | _ \<Rightarrow> None)"

text \<open>\<open>price_map.get(symbol)\<close>: only symbols of positions with a cost were fetched\<close>
definition price_map :: "guardian_env \<Rightarrow> open_pos list \<Rightarrow> string \<Rightarrow> real option" where
  "price_map e ps symbol =
     (if list_ex (\<lambda>p. ox_symbol p = symbol \<and> ox_avg_cost p > 0) ps then get_price e symbol else None)"

section \<open>Exit checks\<close>

text \<open>\<open>math.isclose(a, b, rel_tol=1e-9)\<close>\<close>
definition isclose :: "real \<Rightarrow> real \<Rightarrow> bool" where
  "isclose a b \<longleftrightarrow> \<bar>a - b\<bar> \<le> 1 / 10 ^ 9 * max \<bar>a\<bar> \<bar>b\<bar>"

definition stored_peak :: "json_cell \<Rightarrow> real \<Rightarrow> real \<Rightarrow> real pyres" where
  "stored_peak c avg_cost pnl_pct = (case c of
       Absent \<Rightarrow> Inr pnl_pct
     | Json (PDict d) \<Rightarrow>
         res_bind (float_or (py_get d ''avg_cost'') 0) (\<lambda>stored_cost.
           if isclose stored_cost avg_cost
           then res_bind (float_or (py_get d ''peak_pnl_pct'') pnl_pct) (\<lambda>p. Inr (max pnl_pct p))
           else Inr pnl_pct)
     | Json _ \<Rightarrow> Inl AttributeError
     | Corrupt \<Rightarrow> Inl ValueError
     | Unreadable \<Rightarrow> Inl (RuntimeError ''redis''))"

definition peak_cell :: "real \<Rightarrow> real \<Rightarrow> json_cell" where
  "peak_cell peak avg_cost = Json (PDict [(''peak_pnl_pct'', PFloat peak), (''avg_cost'', PFloat avg_cost)])"

definition trailing_verdict :: "real \<Rightarrow> real \<Rightarrow> exit_reason option" where
  "trailing_verdict peak pnl_pct =
     (if peak < TRAILING_STOP_ARM_PCT then None
      else if pnl_pct \<le> peak * (1 - TRAILING_STOP_GIVEBACK_FRAC) then Some (Trailing_stop peak pnl_pct) else None)"

definition check_trailing_stop :: "guardian_env \<Rightarrow> string \<Rightarrow> real \<Rightarrow> real \<Rightarrow> exit_reason option grun" where
  "check_trailing_stop e symbol avg_cost pnl_pct s =
     (case stored_peak (gu_peaks s symbol) avg_cost pnl_pct of
        Inl _ \<Rightarrow> (Inr None, s)
      | Inr peak \<Rightarrow>
          if ge_fault e (G_peak_set symbol) then (Inr None, s)
          else (Inr (trailing_verdict peak pnl_pct), s\<lparr>gu_peaks := (gu_peaks s)(symbol := peak_cell peak avg_cost)\<rparr>))"

text \<open>\<open>_parse_utc_datetime\<close>: \<open>ge_parse_utc\<close> reads an ISO text as seconds since the epoch\<close>
definition parse_utc :: "guardian_env \<Rightarrow> pyval \<Rightarrow> real option" where
  "parse_utc e v = (if \<not> truthy v then None else ge_parse_utc e (py_str (ge_rp e) v))"

definition check_stale_position :: "guardian_env \<Rightarrow> open_pos \<Rightarrow> real \<Rightarrow> exit_reason option" where
  "check_stale_position e p pnl_pct =
     (if \<bar>pnl_pct\<bar> \<ge> STALE_POSITION_PNL_BAND_PCT then None
      else case parse_utc e (ox_opened_at p) of
        None \<Rightarrow> None
      | Some opened \<Rightarrow>
          let age = ge_now e - opened
          in if age < STALE_POSITION_MAX_AGE_SECONDS then None else Some (Stale_position age pnl_pct))"

definition effective_exit_bounds :: "guardian_env \<Rightarrow> string \<Rightarrow> bool \<Rightarrow> real \<times> real" where
  "effective_exit_bounds e symbol is_long =
     (let regime = regime_of (ge_macro e symbol) in (stop_loss_pct regime is_long, take_profit_pct regime is_long))"

definition exit_reason_of :: "guardian_env \<Rightarrow> open_pos \<Rightarrow> bool \<Rightarrow> real \<Rightarrow> exit_reason option grun" where
  "exit_reason_of e p is_long pnl_pct =
     (case effective_exit_bounds e (ox_symbol p) is_long of (stop_pct, tp_pct) \<Rightarrow>
        if pnl_pct \<le> - stop_pct
        then ret (Some (if stop_pct < STOP_LOSS_PCT then Stop_loss_risk_off pnl_pct stop_pct else Stop_loss pnl_pct))
        else if pnl_pct \<ge> tp_pct
        then ret (Some (if tp_pct < TAKE_PROFIT_PCT then Take_profit_risk_off pnl_pct tp_pct else Take_profit pnl_pct))
        else bnd (check_trailing_stop e (ox_symbol p) (ox_avg_cost p) pnl_pct) (\<lambda>r. case r of
               Some x \<Rightarrow> ret (Some x)
             | None \<Rightarrow> ret (check_stale_position e p pnl_pct)))"

text \<open>\<open>PositionSide(str(side).lower())\<close>: long, short, or a value that is skipped (flat and unknown)\<close>
definition side_long :: "open_pos \<Rightarrow> bool option" where
  "side_long p = (let s = py_lower (ox_side p)
     in if s = ''long'' then Some True else if s = ''short'' then Some False else None)"

definition unrealized_pct :: "open_pos \<Rightarrow> bool \<Rightarrow> real \<Rightarrow> real" where
  "unrealized_pct p is_long price =
     (if is_long then (price - ox_avg_cost p) / ox_avg_cost p else (ox_avg_cost p - price) / ox_avg_cost p)"

definition close_decision :: "guardian_env \<Rightarrow> open_pos \<Rightarrow> bool \<Rightarrow> real \<Rightarrow> exit_reason \<Rightarrow> pydict" where
  "close_decision e p is_long price reason =
     [(''msg_id'', PStr (ge_uuid_msg e (ox_symbol p))), (''source'', PStr ''risk_guardian''),
      (''strategy_id'', PStr (ox_strategy p)), (''symbol'', PStr (ox_symbol p)),
      (''action'', PStr (if is_long then ''sell'' else ''buy'')),
      (''signal_confidence'', PFloat 1), (''reasoning_score'', PFloat 1), (''qty'', PFloat (ox_qty p)),
      (''price'', PFloat price), (''timestamp'', PStr (ge_now_iso e)), (''trace_id'', PStr (ge_uuid_trace e (ox_symbol p))),
      (''primary_edge'', PStr (''risk_guardian:'' @ ge_fmt e reason)), (''risk_factors'', PList [PStr (ge_fmt e reason)]),
      (''size_pct'', PFloat 1), (''stop_atr_x'', PFloat 0), (''rr_ratio'', PFloat 0)]"

definition publish_close :: "guardian_env \<Rightarrow> open_pos \<Rightarrow> bool \<Rightarrow> real \<Rightarrow> exit_reason \<Rightarrow> unit grun" where
  "publish_close e p is_long price reason =
     andthen (gfault e (G_publish_close (ox_symbol p)))
       (modify (\<lambda>s. s\<lparr>gu_decisions := gu_decisions s @ [close_decision e p is_long price reason]\<rparr>))"

definition clear_trailing_state :: "guardian_env \<Rightarrow> string \<Rightarrow> unit grun" where
  "clear_trailing_state e symbol =
     (if ge_fault e (G_peak_delete symbol) then ret ()
      else modify (\<lambda>s. s\<lparr>gu_peaks := (gu_peaks s)(symbol := Absent)\<rparr>))"

text \<open>the loop body; the result is the set of symbols closed in this cycle\<close>
definition check_position :: "guardian_env \<Rightarrow> (string \<Rightarrow> real option) \<Rightarrow> open_pos \<Rightarrow> string list \<Rightarrow> string list grun" where
  "check_position e prices p already =
     (if ox_symbol p \<in> set already then ret already
      else case side_long p of
        None \<Rightarrow> ret already
      | Some is_long \<Rightarrow>
          if ox_avg_cost p \<le> 0 \<or> ox_qty p \<le> 0 then ret already
          else case prices (ox_symbol p) of
            None \<Rightarrow> ret already
          | Some price \<Rightarrow>
              if price \<le> 0 then ret already
              else bnd (exit_reason_of e p is_long (unrealized_pct p is_long price)) (\<lambda>r. case r of
                     None \<Rightarrow> ret already
                   | Some reason \<Rightarrow>
                       andthen (publish_close e p is_long price reason)
                      (andthen (clear_trailing_state e (ox_symbol p))
                      (andthen (modify (\<lambda>s. s\<lparr>gu_cache_valid := False\<rparr>))
                         (ret (ox_symbol p # already))))))"

fun check_each :: "guardian_env \<Rightarrow> (string \<Rightarrow> real option) \<Rightarrow> open_pos list \<Rightarrow> string list \<Rightarrow> string list grun" where
  "check_each e prices [] already = ret already"
| "check_each e prices (p # ps) already =
     bnd (check_position e prices p already) (\<lambda>already'. check_each e prices ps already')"

definition check_positions :: "guardian_env \<Rightarrow> unit grun" where
  "check_positions e =
     bnd (load_open_positions e) (\<lambda>ps. bnd (check_each e (price_map e ps) ps []) (\<lambda>_. ret ()))"

section \<open>Portfolio checks\<close>

definition utc_day :: "real \<Rightarrow> int" where
  "utc_day t = \<lfloor>t / 86400\<rfloor>"

definition closed_today :: "guardian_env \<Rightarrow> pydict \<Rightarrow> bool" where
  "closed_today e t = (case parse_utc e (py_or (py_get t ''filled_at'') (py_get t ''timestamp'')) of
     None \<Rightarrow> False | Some x \<Rightarrow> utc_day x = utc_day (ge_now e))"

definition trade_pnl :: "pydict \<Rightarrow> real" where
  "trade_pnl t = (case float_or (py_get t ''pnl'') 0 of Inl _ \<Rightarrow> 0 | Inr x \<Rightarrow> x)"

definition today_realized_pnl :: "guardian_env \<Rightarrow> real option" where
  "today_realized_pnl e =
     (if ge_db_available e then ge_db_daily_pnl e
      else map_option (\<lambda>trades. sum_list (map trade_pnl (filter (closed_today e) trades))) (ge_closed_trades e))"

definition effective_daily_loss_limit_pct :: "guardian_env \<Rightarrow> real" where
  "effective_daily_loss_limit_pct e = daily_loss_limit_pct (regime_of (ge_macro e ''BTC/USD''))"

definition loss_threshold :: "guardian_env \<Rightarrow> real" where
  "loss_threshold e = - (DEFAULT_PAPER_CASH * effective_daily_loss_limit_pct e)"

definition alert_payload :: "guardian_env \<Rightarrow> real \<Rightarrow> pydict" where
  "alert_payload e pnl =
     [(''type'', PStr ''daily_loss_limit_breached''), (''daily_pnl'', PFloat pnl),
      (''threshold'', PFloat (loss_threshold e)), (''kill_switch_activated'', PBool True),
      (''source'', PStr ''risk_guardian''), (''timestamp'', PStr (ge_now_iso e))]"

definition check_daily_loss :: "guardian_env \<Rightarrow> unit grun" where
  "check_daily_loss e = (case today_realized_pnl e of
       None \<Rightarrow> ret ()
     | Some pnl \<Rightarrow>
         if pnl < loss_threshold e
         then catch (andthen (gfault e G_kill_set)
                    (andthen (modify (\<lambda>s. s\<lparr>gu_kill_switch := True\<rparr>))
                    (andthen (gfault e G_kill_stamp)
                    (andthen (gfault e G_publish_alert)
                       (modify (\<lambda>s. s\<lparr>gu_alerts := gu_alerts s @ [alert_payload e pnl]\<rparr>))))))
                (\<lambda>_. ret ())
         else ret ())"

definition portfolio_drawdown_pct :: "guardian_env \<Rightarrow> real" where
  "portfolio_drawdown_pct e = (case today_realized_pnl e of
       None \<Rightarrow> 0 | Some pnl \<Rightarrow> if pnl \<ge> 0 then 0 else - pnl / DEFAULT_PAPER_CASH)"

definition drawdown_inputs :: "real \<Rightarrow> BreakerInputs" where
  "drawdown_inputs d = \<lparr>bi_drawdown_pct = d, bi_consecutive_failures = 0, bi_divergence_score = 0, bi_latency_ms = 0\<rparr>"

text \<open>\<open>CircuitBreaker.check\<close> on the guardian's state: the two Redis writes may raise before the rollback\<close>
definition check_circuit_breaker :: "guardian_env \<Rightarrow> unit grun" where
  "check_circuit_breaker e =
     (if evaluate_breaker (drawdown_inputs (portfolio_drawdown_pct e)) = [] then ret ()
      else andthen (gfault e G_kill_set)
          (andthen (modify (\<lambda>s. s\<lparr>gu_kill_switch := True\<rparr>))
          (andthen (gfault e G_kill_stamp)
             (modify (\<lambda>s. s\<lparr>gu_registry := snd (rollback (ge_clk e) (gu_registry s))\<rparr>)))))"

text \<open>one turn of \<open>_run\<close>: an exception ends the turn and is logged\<close>
definition guardian_cycle :: "guardian_env \<Rightarrow> unit grun" where
  "guardian_cycle e =
     catch (andthen (check_positions e) (andthen (check_daily_loss e) (check_circuit_breaker e))) (\<lambda>_. ret ())"

end
