(* ===== verification/Engine_Frames.thy ===== *)
theory Engine_Frames
  imports Execution_Engine
begin

text \<open>
  What one call of the engine can change. The locale \<open>admit_frame\<close> covers validation, gates
  and sizing, which write heartbeats and telemetry only. The locale \<open>engine_frame\<close> lists the primitive
  writes of the engine, the broker order and the locks apart; a relation that holds over
  each of them holds over every operation that needs neither. \<open>place_frame\<close> adds the order,
  \<open>lock_frame\<close> the locks, \<open>order_frame\<close> both, which reaches \<open>process\<close>. They are interpreted in
  \<open>Engine_Safety\<close> on the relations the properties need.
\<close>

locale admit_frame = frame R for R :: "engine \<Rightarrow> engine \<Rightarrow> bool" +
  assumes R_heartbeats: "R s (s\<lparr>e_heartbeats := e_heartbeats s @ x1\<rparr>)"
    and R_tools: "R s (s\<lparr>e_tools := e_tools s @ x2\<rparr>)"
    and R_cash: "R s (s\<lparr>e_broker := snd (get_cash (e_broker s))\<rparr>)"
begin

lemma k_fault: "keeps R (fault e f)"
  unfolding fault_def by (rule keeps_pure)

lemma k_heartbeat: "keeps R (write_heartbeat sy st t)"
  unfolding write_heartbeat_def by (rule keeps_modify) (rule R_heartbeats)

lemma k_tool: "keeps R (record_exec_tool n b)"
  unfolding record_exec_tool_def by (rule keeps_modify) (rule R_tools)

lemma k_read_position: "keeps R (read_position e f sy)"
  unfolding read_position_def by (intro keeps_andthen k_fault keeps_pure)

lemmas k_plain = k_fault k_heartbeat k_tool k_read_position

lemma k_parse: "keeps R (parse_and_validate e data)"
proof -
  have b: "keeps R (fallback_block_effect p b)" for p b
    unfolding fallback_block_effect_def by (intro keeps_if keeps_andthen keeps_pure k_plain)
  have "keeps R (is_fallback_blocked e p data)" for p
    unfolding is_fallback_blocked_def Let_def by (intro keeps_if keeps_bnd keeps_pure k_plain b)
  then show ?thesis
    unfolding parse_and_validate_def by (intro keeps_sum keeps_andthen keeps_bnd keeps_pure k_plain)
qed

lemma k_gates: "keeps R (check_pre_execution_gates e sd sy sc rs t atr pct)"
  unfolding check_pre_execution_gates_def
  by (intro keeps_bnd keeps_andthen keeps_option keeps_pure k_plain)

lemma k_kelly: "keeps R (apply_kelly_sizing e data q p)"
  unfolding apply_kelly_sizing_def Let_def
  by (intro keeps_bnd keeps_if keeps_andthen keeps_pure keeps_modify R_cash)

lemma k_vwap: "keeps R (build_vwap_plan q)"
  unfolding build_vwap_plan_def by (intro keeps_option keeps_andthen keeps_pure k_plain)

lemma k_admit: "keeps R (admit e data)"
  unfolding admit_def
  by (intro keeps_bnd keeps_option keeps_prod keeps_pure k_parse k_gates k_kelly)

end

locale engine_frame = admit_frame +
  assumes R_streams: "R s (s\<lparr>e_streams := e_streams s @ x3\<rparr>)"
    and R_in_flight: "R s (s\<lparr>e_in_flight := b\<rparr>)"
    and R_outcomes: "R s (s\<lparr>e_outcomes := take REDIS_RECENT_OUTCOMES_MAXLEN (r # e_outcomes s)\<rparr>)"
    and R_redis_closed: "R s (s\<lparr>e_redis_closed := take REDIS_CLOSED_TRADES_MAX (x4 # e_redis_closed s)\<rparr>)"
    and R_lifecycle: "R s (s\<lparr>e_lifecycle := e_lifecycle s @ x5\<rparr>)"
    and R_tasks: "R s (s\<lparr>e_tasks := e_tasks s @ x6\<rparr>)"
    and R_evaluated: "R s (s\<lparr>e_evaluated := Suc (e_evaluated s)\<rparr>)"
    and R_dedup: "R s (s\<lparr>e_dedup := (e_dedup s)(key := True)\<rparr>)"
    and R_store: "store_step (e_store s) st \<Longrightarrow> R s (s\<lparr>e_store := st\<rparr>)"
    and R_equity: "R s (s\<lparr>e_store := append_equity_snapshot rp t (e_store s)\<rparr>)"
    and R_rejected: "R s (s\<lparr>e_db := snd (insert_rejected_order_once now key sid sy sd q p (e_db s))\<rparr>)"
    and R_pending: "insert_pending_order now sid sy sd q p key stt (e_db s) = Inr (i, db) \<Longrightarrow>
          R s (s\<lparr>e_db := db\<rparr>)"
    and R_update_fill: "R s (s\<lparr>e_db := update_order_fill i stt bid f q t (e_db s)\<rparr>)"
    and R_upsert: "R s (s\<lparr>e_db := upsert_position_db sid sy sd q f c (e_db s)\<rparr>)"
    and R_audit: "R s (s\<lparr>e_db := insert_audit_log ty pl (e_db s)\<rparr>)"
    and R_commit: "R s (s\<lparr>e_committed := e_db s\<rparr>)"
    and R_rollback: "R s (s\<lparr>e_db := e_committed s\<rparr>)"
begin

lemma k_publish: "keeps R (bus_publish e st m)"
  unfolding bus_publish_def by (intro keeps_andthen k_fault keeps_modify R_streams)

lemma k_outcome: "keeps R (record_outcome e r)"
  unfolding record_outcome_def by (intro keeps_if keeps_modify keeps_pure R_outcomes)

lemma k_set_in_flight: "keeps R (modify (set_in_flight b))"
  unfolding set_in_flight_def by (intro keeps_modify R_in_flight)

lemma k_clear: "keeps R (clear_in_flight e)"
  unfolding clear_in_flight_def by (intro keeps_if keeps_pure k_set_in_flight)

lemma k_claim: "keeps R (claim_dedup key)"
  unfolding keeps_def claim_dedup_def by (auto intro: R_dedup R_refl)

lemma k_note_task: "keeps R (note_task e t)"
  unfolding note_task_def by (intro keeps_if keeps_modify keeps_pure R_tasks)

lemma k_on_store: "(\<And>st. store_step st (f st)) \<Longrightarrow> keeps R (on_store f)"
  unfolding on_store_def by (intro keeps_modify R_store)

lemma k_equity: "keeps R (on_store (append_equity_snapshot rp t))"
  unfolding on_store_def by (intro keeps_modify R_equity)

lemma k_commit: "keeps R (modify commit_session)"
  unfolding commit_session_def by (intro keeps_modify R_commit)

lemma R_rollback_session: "R s (rollback_session s)"
  unfolding rollback_session_def by (rule R_rollback)

lemma k_rollback: "keeps R (modify rollback_session)"
  by (intro keeps_modify R_rollback_session)

lemma k_on_db: "(\<And>s. R s (s\<lparr>e_db := g (e_db s)\<rparr>)) \<Longrightarrow> keeps R (on_db e f g)"
  unfolding on_db_def by (intro keeps_andthen k_fault keeps_modify)

lemmas k_basic = k_fault k_heartbeat k_tool k_publish k_read_position k_outcome
  k_set_in_flight k_clear k_claim k_note_task k_equity k_commit k_rollback

lemma k_memory_done: "keeps R (memory_done e p f)"
  unfolding memory_done_def by (intro keeps_option keeps_andthen keeps_pure k_basic)

lemma k_push_closed: "keeps R (push_closed_trade e t)"
  unfolding push_closed_trade_def by (intro keeps_if keeps_pure keeps_modify R_redis_closed)

lemma k_record_fill: "keeps R (record_fill_to_store e c b)"
  unfolding record_fill_to_store_def
  by (intro keeps_andthen keeps_bnd keeps_if keeps_pure k_basic k_push_closed k_on_store store_step.intros)

lemma k_publish_fill: "keeps R (publish_fill e c)"
  unfolding publish_fill_def publish_fill_events_def
  by (intro keeps_andthen keeps_if keeps_pure k_basic)

lemma k_sell_rejected: "keeps R (publish_sell_rejected e a i)"
  unfolding publish_sell_rejected_def by (intro keeps_catch keeps_pure k_basic)

lemma k_db_reject: "keeps R (db_reject_sell e a)"
proof -
  have "keeps R (\<lambda>s. case insert_rejected_order_once now key sid sy sd q p (e_db s) of
        ((oid, created), db) \<Rightarrow> (Inr (oid, created), s\<lparr>e_db := db\<rparr>))" for now key sid sy sd q p
    unfolding keeps_def using R_rejected [of _ now key sid sy sd q p]
    by (auto split: prod.splits) (metis snd_conv)
  then show ?thesis unfolding db_reject_sell_def Let_def
    by (intro keeps_andthen keeps_bnd keeps_prod keeps_if keeps_pure k_basic k_sell_rejected)
qed

lemma k_db_insert: "keeps R (db_insert_order e a q)"
proof -
  have "keeps R (\<lambda>s. case insert_pending_order now sid sy sd q p key st (e_db s) of
        Inl x \<Rightarrow> (Inl x, s) | Inr (oid, db) \<Rightarrow> (Inr oid, s\<lparr>e_db := db\<rparr>))" for now sid sy sd q p key st
    unfolding keeps_def by (auto split: sum.splits prod.splits intro: R_pending R_refl)
  then show ?thesis unfolding db_insert_order_def Let_def by (intro keeps_andthen k_fault)
qed

lemma k_db_record_fill: "keeps R (db_record_fill e a prior q v i pl)"
  unfolding db_record_fill_def Let_def
  by (intro keeps_andthen keeps_bnd keeps_pure k_basic k_on_db R_update_fill R_upsert R_audit)

lemma k_handle_failure: "keeps R (handle_db_failure e data a prior q v pl)"
  unfolding handle_db_failure_def Let_def
  by (intro keeps_andthen keeps_bnd keeps_pure k_basic k_record_fill k_publish_fill)

lemma k_db_publish: "keeps R (db_publish e data a prior q v i pl)"
  unfolding db_publish_def Let_def
  by (intro keeps_andthen keeps_bnd keeps_if keeps_pure keeps_modify k_basic k_publish_fill R_lifecycle)

lemmas k_all = k_basic k_admit k_vwap k_record_fill k_publish_fill k_sell_rejected k_db_reject
  k_db_insert k_db_record_fill k_handle_failure k_db_publish k_memory_done

end

locale lock_frame = engine_frame +
  assumes R_locks: "R s (s\<lparr>e_locks := l\<rparr>)"
begin

lemma k_acquire: "keeps R (acquire_lock e sy)"
  unfolding keeps_def acquire_lock_def by (auto split: option.splits intro: R_locks R_refl)

lemma R_release: "R s (release_lock sy s)"
  unfolding release_lock_def by (rule R_locks)

end

locale place_frame = engine_frame +
  assumes R_place: "R s (s\<lparr>e_broker := snd (place_order oe sy sd q p (e_broker s))\<rparr>)"
begin

lemma k_submit: "keeps R (submit_order e sy sd q p)"
proof -
  have "keeps R (\<lambda>s. case place_order (en_order e) sy sd q p (e_broker s) of
        (payload, b) \<Rightarrow> (Inr payload, s\<lparr>e_broker := b\<rparr>))"
    unfolding keeps_def using R_place [of _ "en_order e" sy sd q p]
    by (auto split: prod.splits) (metis snd_conv)
  then show ?thesis unfolding submit_order_def broker_place_def
    by (intro keeps_andthen keeps_bnd keeps_pure k_basic)
qed

lemma k_memory_fill: "keeps R (memory_fill e data a prior q)"
  unfolding memory_fill_def Let_def by (intro keeps_bnd keeps_andthen keeps_pure k_all k_submit)

lemma k_memory_order: "keeps R (memory_order e data a)"
  unfolding memory_order_def Let_def
  by (intro keeps_bnd keeps_andthen keeps_if keeps_option keeps_pure k_all k_memory_fill k_on_store
      store_step.intros)

lemma k_db_submit: "keeps R (db_submit e a prior)"
  unfolding db_submit_def Let_def
  by (intro keeps_bnd keeps_andthen keeps_if keeps_option keeps_pure k_all k_submit)

lemma k_db_transaction: "keeps R (db_transaction e a prior)"
proof -
  have "keeps R (case r of Returned \<Rightarrow> ret DB_returned
      | Placed qty vwap oid payload \<Rightarrow>
          catch (andthen (db_record_fill e a prior qty vwap oid payload)
                   (ret (DB_filled prior qty vwap oid payload)))
            (\<lambda>_. andthen (modify rollback_session) (ret (DB_failed_after prior qty vwap payload))))" for r
    by (cases r) (auto intro!: keeps_catch keeps_andthen keeps_pure k_all)
  then show ?thesis unfolding db_transaction_def
    by (intro keeps_catch keeps_bnd keeps_andthen keeps_pure k_all k_db_submit)
qed

end

locale order_frame = place_frame + lock_frame
begin

lemma k_process_in_memory: "keeps R (process_in_memory e data)"
  unfolding process_in_memory_def memory_guarded_def Let_def
  by (intro keeps_bnd keeps_andthen keeps_if keeps_option keeps_finally keeps_pure k_all
      k_acquire k_memory_order R_release)

lemma k_db_session: "keeps R (db_session e a)"
  unfolding db_session_def Let_def
  by (intro keeps_finally keeps_bnd keeps_andthen keeps_option keeps_pure k_all
      k_acquire k_db_transaction R_release R_rollback_session)

lemma k_process_with_db: "keeps R (process_with_db e e2 data)"
proof -
  have "keeps R (case r of DB_returned \<Rightarrow> ret ()
      | DB_failed_before \<Rightarrow> process_in_memory e2 data
      | DB_failed_after prior qty vwap payload \<Rightarrow> handle_db_failure e data a prior qty vwap payload
      | DB_filled prior qty vwap oid payload \<Rightarrow> db_publish e data a prior qty vwap oid payload)" for r a
    by (cases r) (auto intro: keeps_pure k_all k_process_in_memory)
  then show ?thesis unfolding process_with_db_def
    by (intro keeps_bnd keeps_option keeps_pure k_admit k_db_session)
qed

lemma k_process: "keeps R (process e e2 data)"
  unfolding process_def
  by (intro keeps_bnd keeps_if keeps_andthen keeps_modify keeps_pure k_basic R_evaluated
      k_process_in_memory k_process_with_db)

end

end
