(* ===== verification/Engine_Safety.thy ===== *)
theory Engine_Safety
  imports Engine_Frames
begin

text \<open>
  Safety of the execution engine: at most one order per call, only after validation and
  clamping; every position within its limits; the tables, the store and the bounded Redis
  lists well formed; locks released; replays without effect.
\<close>

section \<open>The broker moves by at most one order\<close>

definition same_broker :: "engine \<Rightarrow> engine \<Rightarrow> bool" where
  "same_broker s s' \<longleftrightarrow> e_broker s' = e_broker s \<or> e_broker s' = init_cash (e_broker s)"

lemma init_cash_idem [simp]: "init_cash (init_cash b) = init_cash b"
  by (simp add: init_cash_def split: option.splits)

lemma snd_get_cash [simp]: "snd (get_cash b) = init_cash b"
  by (simp add: get_cash_def)

lemma get_position_init [simp]: "get_position (init_cash b) s = get_position b s"
  by (simp add: get_position_def init_cash_def split: option.splits)

lemma place_order_init [simp]: "place_order e sy sd q p (init_cash b) = place_order e sy sd q p b"
  by (simp add: place_order_def)

lemma init_cash_place [simp]:
  "init_cash (snd (place_order e sy sd q p b)) = snd (place_order e sy sd q p b)"
  by (simp add: place_order_def Let_def init_cash_def [of "b_cash_update _ _"] init_cash_def [of "b_orders_update _ _"])

interpretation brk: lock_frame same_broker
  by unfold_locales (auto simp: same_broker_def)

text \<open>
  \<open>sized e a prior q\<close>: validation accepted the order against the position \<open>prior\<close> and the
  two clamps left the quantity \<open>q\<close>.
\<close>

definition sized :: "engine_env \<Rightarrow> admitted \<Rightarrow> pydict \<Rightarrow> real \<Rightarrow> bool" where
  "sized e a prior q \<longleftrightarrow>
     reject_unmatched_sell (en_rp e) (d_side (ad_parsed a)) prior = Inr False
     \<and> clamp_order_qty e (d_side (ad_parsed a)) prior (ad_qty a) = Inr (Some q)"

definition placed :: "engine_env \<Rightarrow> admitted \<Rightarrow> real \<Rightarrow> engine \<Rightarrow> engine \<Rightarrow> bool" where
  "placed e a q s s' \<longleftrightarrow> e_broker s' = snd (place_order (en_order e) (d_symbol (ad_parsed a))
     (d_side (ad_parsed a)) q (d_price (ad_parsed a)) (e_broker s))"

definition sized_order :: "engine_env \<Rightarrow> admitted \<Rightarrow> pydict \<Rightarrow> engine \<Rightarrow> engine \<Rightarrow> bool" where
  "sized_order e a prior s s' \<longleftrightarrow> (\<exists>q. sized e a prior q \<and> placed e a q s s')"

interpretation so: once_frame same_broker "sized_order e a prior" for e a prior
  by unfold_locales (auto simp: same_broker_def sized_order_def placed_def)

interpretation pl: once_frame same_broker "placed e a q" for e a q
  by unfold_locales (auto simp: same_broker_def placed_def)

lemma once_submit:
  "at_most_once same_broker (placed e a q)
     (submit_order e (d_symbol (ad_parsed a)) (d_side (ad_parsed a)) q (d_price (ad_parsed a)))"
proof -
  have "at_most_once same_broker (placed e a q)
      (broker_place e (d_symbol (ad_parsed a)) (d_side (ad_parsed a)) q (d_price (ad_parsed a)))"
    unfolding broker_place_def
    by (intro pl.once_andthen_pre brk.k_basic) (auto simp: at_most_once_def placed_def split: prod.splits)
  then show ?thesis unfolding submit_order_def
    by (intro pl.once_andthen_pre pl.once_bnd_post brk.keeps_andthen brk.keeps_pure brk.k_basic)
qed

lemma once_memory_fill: "at_most_once same_broker (placed e a q) (memory_fill e data a prior q)"
  unfolding memory_fill_def Let_def
  by (rule pl.once_bnd_pre [OF brk.k_vwap])
    (intro pl.once_bnd_post once_submit brk.keeps_bnd brk.keeps_andthen brk.keeps_pure brk.k_all)

text \<open>a failed submission has not reached the broker\<close>
lemma submit_error: "submit_order e sy sd q p s = (Inl x, s') \<Longrightarrow> same_broker s s'"
  by (auto simp: submit_order_def broker_place_def fault_def eff_defs record_exec_tool_def
      same_broker_def set_in_flight_def split: if_splits prod.splits)

lemma sized_once:
  "sized e a prior q \<Longrightarrow> at_most_once same_broker (placed e a q) m \<Longrightarrow>
     at_most_once same_broker (sized_order e a prior) m"
  by (auto simp: at_most_once_def sized_order_def)

definition broker_position :: "engine \<Rightarrow> string \<Rightarrow> pydict" where
  "broker_position s sy = pos_dict (get_position (e_broker s) sy)"

definition authorised :: "engine_env \<Rightarrow> admitted \<Rightarrow> engine \<Rightarrow> engine \<Rightarrow> bool" where
  "authorised e a s s' \<longleftrightarrow> sized_order e a (broker_position s (d_symbol (ad_parsed a))) s s'"

lemma same_broker_position: "same_broker s s' \<Longrightarrow> broker_position s' sy = broker_position s sy"
  by (auto simp: same_broker_def broker_position_def)

interpretation au: once_frame same_broker "authorised e a" for e a
proof unfold_locales
  fix s t u
  show "same_broker s t \<Longrightarrow> authorised e a t u \<Longrightarrow> authorised e a s u"
    using so.before [of s t e a _ u] same_broker_position [of s t] by (simp add: authorised_def)
  show "authorised e a s t \<Longrightarrow> same_broker t u \<Longrightarrow> authorised e a s u"
    using so.after [of e a _ s t u] by (simp add: authorised_def)
qed

text \<open>Reading the position and sizing against it is an authorised order.\<close>
lemma authorised_read:
  assumes "\<And>prior. at_most_once same_broker (sized_order e a prior) (f prior)"
  shows "at_most_once same_broker (authorised e a) (bnd (read_position en fp (d_symbol (ad_parsed a))) f)"
proof -
  have "same_broker s (snd (f (broker_position s sy) s))
      \<or> sized_order e a (broker_position s sy) s (snd (f (broker_position s sy) s))" for s sy
    using assms by (simp add: at_most_once_def)
  then show ?thesis
    unfolding at_most_once_def read_position_def fault_def authorised_def broker_position_def
    by (auto simp: eff_defs same_broker_def)
qed

lemma once_memory_order: "at_most_once same_broker (authorised e a) (memory_order e data a)"
proof -
  have "at_most_once same_broker (sized_order e a prior)
     (bnd (lift_res (reject_unmatched_sell (en_rp e) (d_side (ad_parsed a)) prior)) (\<lambda>rejected.
        if rejected
        then andthen (on_store (reject_sell_no_position (en_now e) (d_symbol (ad_parsed a))
                 (d_trace_id (ad_parsed a)) (en_uuid_order e) ''NO_OPEN_POSITION''))
            (andthen (publish_sell_rejected e a (en_uuid_order e)) (ret None))
        else bnd (lift_res (clamp_order_qty e (d_side (ad_parsed a)) prior (ad_qty a))) (\<lambda>oq.
          case oq of None \<Rightarrow> ret None | Some qty \<Rightarrow> memory_fill e data a prior qty)))" for prior
  proof (intro so.once_bnd_result brk.keeps_pure so.once_if)
    fix s x s' b
    assume "lift_res (reject_unmatched_sell (en_rp e) (d_side (ad_parsed a)) prior) s = (Inr b, s')" "\<not> b"
    then have r: "reject_unmatched_sell (en_rp e) (d_side (ad_parsed a)) prior = Inr False" by simp
    fix t oq t'
    assume "lift_res (clamp_order_qty e (d_side (ad_parsed a)) prior (ad_qty a)) t = (Inr oq, t')"
    then have c: "clamp_order_qty e (d_side (ad_parsed a)) prior (ad_qty a) = Inr oq" by simp
    show "at_most_once same_broker (sized_order e a prior)
        (case oq of None \<Rightarrow> ret None | Some qty \<Rightarrow> memory_fill e data a prior qty)"
      using r c by (cases oq) (auto intro!: so.once_keeps brk.keeps_pure
          sized_once [OF _ once_memory_fill] simp: sized_def)
  qed (auto intro!: so.once_keeps brk.keeps_andthen brk.keeps_pure brk.k_all brk.k_on_store store_step.intros)
  then show ?thesis unfolding memory_order_def Let_def by (rule authorised_read)
qed

lemma once_db_submit: "at_most_once same_broker (sized_order e a prior) (db_submit e a prior)"
  unfolding db_submit_def Let_def
proof (intro so.once_bnd_result brk.keeps_pure so.once_if)
  fix s s' b t oq t'
  assume "lift_res (reject_unmatched_sell (en_rp e) (d_side (ad_parsed a)) prior) s = (Inr b, s')" "\<not> b"
    and "lift_res (clamp_order_qty e (d_side (ad_parsed a)) prior (ad_qty a)) t = (Inr oq, t')"
  then have d: "reject_unmatched_sell (en_rp e) (d_side (ad_parsed a)) prior = Inr False"
    "clamp_order_qty e (d_side (ad_parsed a)) prior (ad_qty a) = Inr oq" by simp_all
  have "at_most_once same_broker (placed e a q)
      (bnd (build_vwap_plan q) (\<lambda>vwap. bnd (db_insert_order e a q) (\<lambda>oid. andthen (fault e F_flush)
        (bnd (submit_order e (d_symbol (ad_parsed a)) (d_side (ad_parsed a)) q (d_price (ad_parsed a)))
          (\<lambda>payload. ret (Placed q vwap oid payload))))))" for q
    by (rule pl.once_bnd_pre [OF brk.k_vwap], rule pl.once_bnd_pre [OF brk.k_db_insert],
        rule pl.once_andthen_pre [OF brk.k_fault]) (intro pl.once_bnd_post once_submit brk.keeps_pure)
  from sized_once [OF _ this] show "at_most_once same_broker (sized_order e a prior) (case oq of
        None \<Rightarrow> ret Returned
      | Some qty \<Rightarrow> bnd (build_vwap_plan qty) (\<lambda>vwap. bnd (db_insert_order e a qty) (\<lambda>oid.
          andthen (fault e F_flush) (bnd (submit_order e (d_symbol (ad_parsed a)) (d_side (ad_parsed a))
            qty (d_price (ad_parsed a))) (\<lambda>payload. ret (Placed qty vwap oid payload))))))"
    using d by (cases oq) (auto intro!: so.once_keeps brk.keeps_pure simp: sized_def)
qed (auto intro!: so.once_keeps brk.k_db_reject)

lemma db_transaction_cases:
  "snd (db_transaction e a prior s) = (case db_submit e a prior s of
       (Inl _, s1) \<Rightarrow> rollback_session s1
     | (Inr Returned, s1) \<Rightarrow> s1
     | (Inr (Placed q v i pl), s1) \<Rightarrow>
         (case db_record_fill e a prior q v i pl s1 of
            (Inl _, s2) \<Rightarrow> rollback_session s2 | (Inr _, s2) \<Rightarrow> s2))"
  "fst (db_transaction e a prior s) = (case db_submit e a prior s of
       (Inl _, s1) \<Rightarrow> Inr DB_failed_before
     | (Inr Returned, s1) \<Rightarrow> Inr DB_returned
     | (Inr (Placed q v i pl), s1) \<Rightarrow>
         (case db_record_fill e a prior q v i pl s1 of
            (Inl _, s2) \<Rightarrow> Inr (DB_failed_after prior q v pl)
          | (Inr _, s2) \<Rightarrow> Inr (DB_filled prior q v i pl)))"
  by (simp_all add: db_transaction_def eff_defs split: prod.splits sum.splits submission.splits)

lemma same_broker_rollback [simp]: "same_broker s (rollback_session t) = same_broker s t"
  "sized_order e a prior s (rollback_session t) = sized_order e a prior s t"
  by (simp_all add: same_broker_def rollback_session_def sized_order_def placed_def)

lemma once_db_transaction: "at_most_once same_broker (sized_order e a prior) (db_transaction e a prior)"
  unfolding at_most_once_def
proof
  fix s
  obtain r s1 where m: "db_submit e a prior s = (r, s1)" by (cases "db_submit e a prior s")
  have o: "same_broker s s1 \<or> sized_order e a prior s s1"
    using at_most_onceD [OF once_db_submit, of s e a prior] m by simp
  have k: "same_broker s1 (snd (db_record_fill e a prior q v i pl s1))" for q v i pl
    using brk.k_db_record_fill by (rule keepsD)
  have "same_broker s t \<or> sized_order e a prior s t" if "same_broker s1 t" for t
    using o that brk.R_trans so.after by blast
  from this [OF k] show "same_broker s (snd (db_transaction e a prior s))
      \<or> sized_order e a prior s (snd (db_transaction e a prior s))"
    using o by (auto simp: db_transaction_cases m split: sum.splits submission.splits prod.splits)
      (metis snd_conv)+
qed

lemma fails_db_submit: "fails_in same_broker (db_submit e a prior)"
proof -
  have s: "fails_in same_broker (submit_order e sy sd q p)" for sy sd q p
    unfolding fails_in_def by (blast intro: submit_error)
  have r: "fails_in same_broker (bnd (submit_order e sy sd q p) (\<lambda>payload. ret (Placed q v i payload)))"
    for sy sd q p v i by (rule brk.fails_bnd_ret [OF s]) simp
  have "fails_in same_broker (andthen (fault e F_flush) (bnd (submit_order e sy sd q p)
      (\<lambda>payload. ret (Placed q v i payload))))" for sy sd q p v i
    unfolding andthen_def by (rule brk.fails_bnd [OF brk.k_fault r])
  then have f: "fails_in same_broker (bnd (build_vwap_plan q) (\<lambda>vwap. bnd (db_insert_order e a q) (\<lambda>oid.
      andthen (fault e F_flush) (bnd (submit_order e sy sd q p) (\<lambda>payload. ret (Placed q vwap oid payload))))))"
    for q sy sd p by (intro brk.fails_bnd brk.k_vwap brk.k_db_insert)
  show ?thesis unfolding db_submit_def Let_def
    by (intro brk.fails_bnd [OF brk.keeps_pure(4)] brk.fails_if brk.fails_option f
        brk.fails_keeps [OF brk.k_db_reject] brk.fails_keeps [OF brk.keeps_pure(1)])
qed

text \<open>When the transaction failed before the broker answered, nothing was ordered.\<close>
lemma db_transaction_failed_before:
  "db_transaction e a prior s = (Inr DB_failed_before, s') \<Longrightarrow> same_broker s s'"
proof -
  assume t: "db_transaction e a prior s = (Inr DB_failed_before, s')"
  obtain r s1 where m: "db_submit e a prior s = (r, s1)" by (cases "db_submit e a prior s")
  from t have f: "fst (db_transaction e a prior s) = Inr DB_failed_before"
    and n: "snd (db_transaction e a prior s) = s'" by simp_all
  from f obtain x where "r = Inl x"
    by (auto simp: db_transaction_cases m split: sum.splits submission.splits prod.splits)
  with m have "same_broker s s1" using fails_db_submit by (auto simp: fails_in_def)
  moreover have "s' = rollback_session s1" using n \<open>r = Inl x\<close> m by (simp add: db_transaction_cases)
  ultimately show ?thesis by simp
qed

text \<open>the session around the transaction: select, lock, position snapshot\<close>
definition db_locked :: "engine_env \<Rightarrow> admitted \<Rightarrow> db_outcome run" where
  "db_locked e a = bnd (read_position e F_get_position (d_symbol (ad_parsed a))) (\<lambda>prior.
     with_finally (db_transaction e a prior) (release_lock (d_symbol (ad_parsed a))))"

lemma same_broker_release [simp]: "same_broker s (release_lock sy t) = same_broker s t"
  "sized_order e a prior s (release_lock sy t) = sized_order e a prior s t"
  by (simp_all add: same_broker_def release_lock_def sized_order_def placed_def)

lemma once_db_locked: "at_most_once same_broker (authorised e a) (db_locked e a)"
  unfolding db_locked_def
  by (rule authorised_read) (intro so.once_finally once_db_transaction brk.R_release)

lemma db_locked_failed_before: "db_locked e a s = (Inr DB_failed_before, s') \<Longrightarrow> same_broker s s'"
proof -
  assume d: "db_locked e a s = (Inr DB_failed_before, s')"
  show ?thesis
  proof (cases "en_fault e F_get_position")
    case True
    with d show ?thesis by (simp add: db_locked_def read_position_def fault_def andthen_def)
  next
    case False
    obtain r s1 where t: "db_transaction e a (broker_position s (d_symbol (ad_parsed a))) s = (r, s1)"
      by (cases "db_transaction e a (broker_position s (d_symbol (ad_parsed a))) s")
    from d False t have "r = Inr DB_failed_before" "s' = release_lock (d_symbol (ad_parsed a)) s1"
      by (auto simp: db_locked_def read_position_def fault_def with_finally_def broker_position_def)
    with t db_transaction_failed_before show ?thesis by simp
  qed
qed

lemma db_session_eq:
  "db_session e a s =
     (let s0 = rollback_session s in
      if en_fault e F_select then (Inl (RuntimeError ''fault''), rollback_session s0)
      else if order_by_key (ad_key a) (e_db s0) \<noteq> None then (Inr DB_returned, rollback_session s0)
      else if e_locks s0 (d_symbol (ad_parsed a)) \<noteq> None
      then (Inl (RuntimeError ''Order lock already held''), rollback_session s0)
      else with_finally (db_locked e a) rollback_session
             (s0\<lparr>e_locks := (e_locks s0)(d_symbol (ad_parsed a) := Some (en_uuid_lock e))\<rparr>))"
  unfolding db_session_def db_locked_def [symmetric] Let_def
  by (auto simp: with_finally_def fault_def acquire_lock_def eff_defs split: option.splits)

lemma once_db_session: "at_most_once same_broker (authorised e a) (db_session e a)"
  unfolding db_session_def Let_def
  by (intro au.once_finally brk.R_rollback_session au.once_andthen_pre [OF brk.k_rollback]
      au.once_andthen_pre [OF brk.k_fault] au.once_bnd_pre [OF brk.keeps_pure(3)] au.once_option
      au.once_andthen_pre [OF brk.k_acquire] au.once_keeps [OF brk.keeps_pure(1)])
    (fold db_locked_def, rule once_db_locked)

lemma db_session_failed_before: "db_session e a s = (Inr DB_failed_before, s') \<Longrightarrow> same_broker s s'"
proof -
  assume d: "db_session e a s = (Inr DB_failed_before, s')"
  let ?t = "(rollback_session s)\<lparr>e_locks := (e_locks (rollback_session s))
      (d_symbol (ad_parsed a) := Some (en_uuid_lock e))\<rparr>"
  obtain r s1 where l: "db_locked e a ?t = (r, s1)" by (cases "db_locked e a ?t")
  from d l have "r = Inr DB_failed_before" "s' = rollback_session s1"
    by (auto simp: db_session_eq Let_def with_finally_def split: if_splits)
  with l db_locked_failed_before have "same_broker ?t s'" by simp
  then show ?thesis by (simp add: same_broker_def rollback_session_def)
qed

section \<open>Admission\<close>

definition admitted_by :: "engine_env \<Rightarrow> pydict \<Rightarrow> admitted \<Rightarrow> bool" where
  "admitted_by e data a \<longleftrightarrow>
     parse_decision_fields (en_rp e) (en_uuid_strategy e) (en_uuid_trace e) data = Inr (ad_parsed a)
     \<and> build_idempotency_key e (ad_parsed a) data = Inr (ad_key a) \<and> 0 < ad_qty a
     \<and> d_side (ad_parsed a) \<notin> NO_ORDER_ACTIONS"

text \<open>every gate is open for the parsed decision\<close>
definition gates_open :: "engine_env \<Rightarrow> pydict \<Rightarrow> ParsedDecision \<Rightarrow> engine \<Rightarrow> bool" where
  "gates_open e data p s \<longleftrightarrow>
     (case (extract_decision_scores data, atr_of data, num_or data ''pct'' 0) of
        ((sc, rs), Inr atr, Inr pct) \<Rightarrow> gate_verdict e (d_side p) (d_symbol p) sc rs atr \<bar>pct\<bar> s = None
      | _ \<Rightarrow> False)"

lemma gates_open_orders: "gates_open e data p s \<Longrightarrow> d_side p \<notin> NO_ORDER_ACTIONS"
  by (auto simp: gates_open_def gate_verdict_def check_execution_gate_None
      split: prod.splits sum.splits option.splits)

lemma bnd_Inr: "bnd m f s = (Inr v, s') \<longleftrightarrow> (\<exists>x s1. m s = (Inr x, s1) \<and> f x s1 = (Inr v, s'))"
  by (auto simp: bnd_def split: prod.splits sum.splits)

lemma andthen_Inr: "andthen m k s = (Inr v, s') \<longleftrightarrow> (\<exists>s1. m s = (Inr (), s1) \<and> k s1 = (Inr v, s'))"
  by (auto simp: andthen_def bnd_Inr)

lemma kelly_pos:
  "apply_kelly_sizing e data q p s = (Inr r, s') \<Longrightarrow> 0 < q \<Longrightarrow> 0 < r"
  by (auto simp: apply_kelly_sizing_def bnd_Inr andthen_Inr Let_def split: if_splits)

lemma fallback_allowed: "is_fallback_blocked e p data s = (Inr False, s') \<Longrightarrow> s' = s"
  by (auto simp: is_fallback_blocked_def fallback_block_effect_def Let_def bnd_Inr andthen_Inr
      read_position_def fault_def guard_fault_def split: if_splits)

lemma parse_and_validate_Some:
  "parse_and_validate e data s = (Inr (Some p), s') \<Longrightarrow>
     parse_decision_fields (en_rp e) (en_uuid_strategy e) (en_uuid_trace e) data = Inr p \<and> s' = s"
  by (auto simp: parse_and_validate_def bnd_Inr andthen_Inr split: sum.splits if_splits
      dest: fallback_allowed)

lemma admit_Some:
  assumes "admit e data s = (Inr (Some a), s')"
  shows "admitted_by e data a \<and> gates_open e data (ad_parsed a) s"
proof -
  obtain p s1 where p: "parse_and_validate e data s = (Inr (Some p), s1)"
    using assms by (auto simp: admit_def bnd_Inr split: option.splits)
  note pv = parse_and_validate_Some [OF p]
  obtain sc rs where sc: "extract_decision_scores data = (sc, rs)" by (cases "extract_decision_scores data")
  from assms p pv sc obtain atr pct g s2 where
    x: "atr_of data = Inr atr" "num_or data ''pct'' 0 = Inr pct"
      "check_pre_execution_gates e (d_side p) (d_symbol p) sc rs (d_trace_id p) atr \<bar>pct\<bar> s = (Inr g, s2)"
    and r: "(case g of Some _ \<Rightarrow> ret None | None \<Rightarrow>
        bnd (apply_kelly_sizing e data (d_qty p) (d_price p)) (\<lambda>qty.
        bnd (lift_res (build_idempotency_key e p data)) (\<lambda>key.
          ret (Some \<lparr>ad_parsed = p, ad_confidence = sc, ad_qty = qty, ad_key = key\<rparr>)))) s2 = (Inr (Some a), s')"
    by (auto simp: admit_def bnd_Inr)
  from x(3) have v: "gate_verdict e (d_side p) (d_symbol p) sc rs atr \<bar>pct\<bar> s = g"
    by (auto simp: check_pre_execution_gates_def bnd_Inr andthen_Inr)
  from r obtain qty s3 key where g: "g = None" and q: "apply_kelly_sizing e data (d_qty p) (d_price p) s2 = (Inr qty, s3)"
    and k: "build_idempotency_key e p data = Inr key"
    and a: "a = \<lparr>ad_parsed = p, ad_confidence = sc, ad_qty = qty, ad_key = key\<rparr>"
    by (auto simp: bnd_Inr split: option.splits)
  have "0 < qty" using kelly_pos [OF q] parse_decision_positive pv by blast
  moreover have "gates_open e data p s" using v g x sc by (simp add: gates_open_def)
  moreover from this have "d_side p \<notin> NO_ORDER_ACTIONS" by (rule gates_open_orders)
  ultimately show ?thesis using pv k a by (simp add: admitted_by_def)
qed

section \<open>One call, at most one order\<close>

definition ordered :: "engine_env \<Rightarrow> pydict \<Rightarrow> engine \<Rightarrow> engine \<Rightarrow> bool" where
  "ordered e data s s' \<longleftrightarrow> (\<exists>a. admitted_by e data a \<and> authorised e a s s')"

definition ordered2 :: "engine_env \<Rightarrow> engine_env \<Rightarrow> pydict \<Rightarrow> engine \<Rightarrow> engine \<Rightarrow> bool" where
  "ordered2 e e2 data s s' \<longleftrightarrow> ordered e data s s' \<or> ordered e2 data s s'"

interpretation od: once_frame same_broker "ordered e data" for e data
  by unfold_locales (auto simp: ordered_def intro: au.before au.after)

interpretation od2: once_frame same_broker "ordered2 e e2 data" for e e2 data
  by unfold_locales (auto simp: ordered2_def intro: od.before od.after)

lemma ordered_once:
  "admitted_by e data a \<Longrightarrow> at_most_once same_broker (authorised e a) m \<Longrightarrow>
     at_most_once same_broker (ordered e data) m"
  by (auto simp: at_most_once_def ordered_def)

lemma once_memory_guarded: "at_most_once same_broker (authorised e a) (memory_guarded e data a)"
  unfolding memory_guarded_def Let_def
  by (intro au.once_bnd_pre [OF brk.k_claim] au.once_if au.once_keeps [OF brk.keeps_pure(1)]
      au.once_andthen_pre [OF brk.k_acquire] au.once_bnd_post au.once_finally once_memory_order
      brk.R_release brk.k_memory_done)

lemma once_process_in_memory: "at_most_once same_broker (ordered e data) (process_in_memory e data)"
  unfolding process_in_memory_def
proof (intro od.once_bnd_result brk.k_admit)
  fix s oa s'
  assume "admit e data s = (Inr oa, s')"
  then show "at_most_once same_broker (ordered e data)
      (case oa of None \<Rightarrow> ret () | Some a \<Rightarrow> memory_guarded e data a)"
    by (cases oa) (auto dest: admit_Some intro!: od.once_keeps brk.keeps_pure
        ordered_once [OF _ once_memory_guarded])
qed

lemma once_process_with_db: "at_most_once same_broker (ordered2 e e2 data) (process_with_db e e2 data)"
  unfolding process_with_db_def
proof (intro od2.once_bnd_result brk.k_admit)
  fix s oa s'
  assume adm: "admit e data s = (Inr oa, s')"
  show "at_most_once same_broker (ordered2 e e2 data) (case oa of None \<Rightarrow> ret ()
      | Some a \<Rightarrow> bnd (db_session e a) (\<lambda>r. case r of DB_returned \<Rightarrow> ret ()
         | DB_failed_before \<Rightarrow> process_in_memory e2 data
         | DB_failed_after prior qty vwap payload \<Rightarrow> handle_db_failure e data a prior qty vwap payload
         | DB_filled prior qty vwap oid payload \<Rightarrow> db_publish e data a prior qty vwap oid payload))"
    (is "at_most_once _ _ (case oa of None \<Rightarrow> _ | Some a \<Rightarrow> bnd (db_session e a) (?k a))")
  proof (cases oa)
    case None
    then show ?thesis by (auto intro!: od2.once_keeps brk.keeps_pure)
  next
    case (Some a)
    have "same_broker t (snd (bnd (db_session e a) (?k a) t))
        \<or> ordered2 e e2 data t (snd (bnd (db_session e a) (?k a) t))" for t
    proof -
      obtain r t1 where d: "db_session e a t = (r, t1)" by (cases "db_session e a t")
      have o: "same_broker t t1 \<or> ordered2 e e2 data t t1"
        using at_most_onceD [OF once_db_session, of t e a] admit_Some adm Some d
        by (auto simp: ordered2_def ordered_def)
      show ?thesis
      proof (cases "r = Inr DB_failed_before")
        case True
        have "same_broker t t1" using db_session_failed_before d True by blast
        moreover have "same_broker t1 (snd (process_in_memory e2 data t1))
            \<or> ordered2 e e2 data t1 (snd (process_in_memory e2 data t1))"
          using at_most_onceD [OF once_process_in_memory, of t1 e2 data] by (auto simp: ordered2_def)
        ultimately show ?thesis using d True by (auto simp: bnd_def intro: brk.R_trans od2.before)
      next
        case False
        have "same_broker t1 (snd (bnd (db_session e a) (?k a) t))"
        proof (cases r)
          case (Inl x)
          with d show ?thesis by (simp add: bnd_def brk.R_refl)
        next
          case (Inr v)
          with False d show ?thesis
            by (cases v) (auto simp: bnd_def brk.R_refl intro: keepsD [OF brk.k_handle_failure]
                keepsD [OF brk.k_db_publish])
        qed
        with o show ?thesis by (auto intro: brk.R_trans od2.after)
      qed
    qed
    with Some show ?thesis by (simp add: at_most_once_def)
  qed
qed

lemma once_process: "at_most_once same_broker (ordered2 e e2 data) (process e e2 data)"
proof -
  have "at_most_once same_broker (ordered2 e e2 data) (process_in_memory e data)"
    using once_process_in_memory by (auto simp: at_most_once_def ordered2_def)
  then show ?thesis unfolding process_def
    by (intro od2.once_bnd_pre [OF brk.keeps_pure(3)] od2.once_if od2.once_keeps [OF brk.keeps_pure(2)]
        od2.once_andthen_pre [OF brk.keeps_modify] brk.R_evaluated od2.once_keeps [OF brk.k_heartbeat]
        once_process_with_db)
qed

section \<open>Position limits\<close>

definition known_side :: "string \<Rightarrow> bool" where
  "known_side side \<longleftrightarrow> is_buy_side side \<or> is_sell_side side \<or> side \<in> NO_ORDER_ACTIONS"

definition qty_held :: "engine \<Rightarrow> string \<Rightarrow> real" where
  "qty_held s sy = pos_qty (get_position (e_broker s) sy)"

definition in_limits :: "real \<Rightarrow> engine \<Rightarrow> bool" where
  "in_limits m s \<longleftrightarrow> (\<forall>sy. 0 \<le> qty_held s sy \<and> qty_held s sy \<le> m)"

lemma same_broker_qty: "same_broker s s' \<Longrightarrow> qty_held s' sy = qty_held s sy"
  by (auto simp: same_broker_def qty_held_def)

lemma same_broker_ok: "same_broker s s' \<Longrightarrow> broker_ok (e_broker s) \<Longrightarrow> broker_ok (e_broker s')"
  by (auto simp: same_broker_def broker_ok_def)

lemma sized_sell:
  assumes "pos_ok pos" "sized e a (pos_dict pos) q" "is_sell_side (d_side (ad_parsed a))" "0 < ad_qty a"
  shows "0 < q \<and> q \<le> pos_qty pos"
proof -
  have long: "pos_side pos = ''long''"
    using assms(1-3) by (auto simp: sized_def reject_pos_dict)
  then have "1 / 10 ^ 9 \<le> pos_qty pos" using assms(1) by (auto simp: pos_ok_def)
  then have "0 < pos_qty pos" by (smt (verit) divide_pos_pos zero_less_power)
  moreover have "\<not> is_buy_side (d_side (ad_parsed a))" using assms(3) sides_disjoint by blast
  ultimately show ?thesis using assms(2-4)
    by (auto simp: sized_def clamp_order_qty_def qty_pos_dict split: if_splits)
qed

lemma sized_buy:
  assumes "pos_ok pos" "sized e a (pos_dict pos) q" "is_buy_side (d_side (ad_parsed a))" "0 < ad_qty a"
  shows "0 < q \<and> pos_qty pos + q \<le> max_position_qty e"
  using assms sides_disjoint [OF assms(3)]
  by (auto simp: sized_def clamp_order_qty_def clamp_buy_to_position_limit_def Let_def
      signed_pos_dict split: if_splits)

lemma order_direction_known:
  "is_buy_side side \<Longrightarrow> order_direction side = 1" "is_sell_side side \<Longrightarrow> order_direction side = - 1"
  by (auto simp: order_direction_def is_buy_side_def is_sell_side_def)

lemma authorised_within:
  assumes "authorised e a s s'" "0 < ad_qty a" "broker_ok (e_broker s)" "in_limits m s"
    and "max_position_qty e \<le> m"
    and side: "is_buy_side (d_side (ad_parsed a)) \<or> is_sell_side (d_side (ad_parsed a))"
  shows "in_limits m s'"
proof -
  let ?sy = "d_symbol (ad_parsed a)"
  let ?pos = "get_position (e_broker s) ?sy"
  from assms(1) obtain q where z: "sized e a (pos_dict ?pos) q" and p: "placed e a q s s'"
    by (auto simp: authorised_def sized_order_def broker_position_def)
  have ok: "pos_ok ?pos" using assms(3) by (simp add: broker_ok_def)
  note b = sized_buy [OF ok z _ assms(2)] and sl = sized_sell [OF ok z _ assms(2)]
  have "0 \<le> qty_held s' sy \<and> qty_held s' sy \<le> m" for sy
    using p unfolding placed_def qty_held_def
  proof (simp, intro paper.place_within)
    show "0 \<le> pos_qty (get_position (e_broker s) x) \<and> pos_qty (get_position (e_broker s) x) \<le> m" for x
      using assms(4) by (simp add: in_limits_def qty_held_def)
    show "0 \<le> q" using side b sl by force
    show "pos_qty ?pos + q \<le> m" if "order_direction (d_side (ad_parsed a)) > 0"
      using side b that assms(5) order_direction_known by force
    show "q \<le> pos_qty ?pos" if "order_direction (d_side (ad_parsed a)) \<le> 0"
      using side sl that order_direction_known by force
  qed
  then show ?thesis by (simp add: in_limits_def)
qed

lemma authorised_known:
  assumes "admitted_by e data a" "known_side (side_or_action_of (en_rp e) data)"
  shows "is_buy_side (d_side (ad_parsed a)) \<or> is_sell_side (d_side (ad_parsed a))"
  using assms parse_decision_side by (fastforce simp: admitted_by_def known_side_def)

lemma ordered_in_limits:
  assumes "ordered e data s s'" "broker_ok (e_broker s)" "in_limits m s" "max_position_qty e \<le> m"
    and "known_side (side_or_action_of (en_rp e) data)"
  shows "in_limits m s'"
  using assms authorised_within authorised_known by (auto simp: ordered_def admitted_by_def)

lemma process_in_limits:
  assumes "broker_ok (e_broker s)" "in_limits m s" "max_position_qty e \<le> m" "max_position_qty e2 \<le> m"
    and "known_side (side_or_action_of (en_rp e) data)" "known_side (side_or_action_of (en_rp e2) data)"
  shows "in_limits m (snd (process e e2 data s))"
proof -
  have "in_limits m s'" if "same_broker s s'" for s'
    using same_broker_qty [OF that] assms(2) by (simp add: in_limits_def)
  moreover have "in_limits m s'" if "ordered2 e e2 data s s'" for s'
    using that assms ordered_in_limits unfolding ordered2_def by blast
  ultimately show ?thesis using at_most_onceD [OF once_process, of s e e2 data] by blast
qed

section \<open>Well-formed states\<close>

definition engine_inv :: "engine \<Rightarrow> bool" where
  "engine_inv s \<longleftrightarrow> broker_ok (e_broker s) \<and> db_ok (e_db s) \<and> db_ok (e_committed s)
     \<and> keys_ok (e_store s) \<and> caps_ok (e_store s)
     \<and> length (e_outcomes s) \<le> REDIS_RECENT_OUTCOMES_MAXLEN
     \<and> length (e_redis_closed s) \<le> REDIS_CLOSED_TRADES_MAX"

lemma equity_ok:
  "keys_ok (append_equity_snapshot rp t st) = keys_ok st"
  "caps_ok st \<Longrightarrow> caps_ok (append_equity_snapshot rp t st)"
  by (auto simp: append_equity_snapshot_def keys_ok_def caps_ok_def split: prod.splits)

lemma broker_ok_init: "broker_ok b \<Longrightarrow> broker_ok (init_cash b)"
  by (simp add: broker_ok_def)

interpretation inv: order_frame "\<lambda>s s'. engine_inv s \<longrightarrow> engine_inv s'"
  by unfold_locales
    (auto simp: engine_inv_def equity_ok broker_ok_init broker_ok_place db_ok_update_fill db_ok_upsert
      intro: db_ok_insert_rejected db_ok_insert_pending store_step_keys store_step_caps)

lemma engine_inv_init: "engine_inv init_engine"
proof -
  have "keys_ok empty_store \<and> caps_ok empty_store" by (rule store_reachable_ok) (rule store_init)
  then show ?thesis by (simp add: engine_inv_def init_engine_def)
qed

section \<open>Reachable states\<close>

text \<open>
  One step: a decision is processed (under settings whose position cap is at most \<open>m\<close>, with
  an action of the decision vocabulary), an operator or the learning loop toggles a switch,
  a Redis key expires, or another worker takes or drops a lock or a dedup key.
\<close>

inductive engine_step :: "real \<Rightarrow> engine \<Rightarrow> engine \<Rightarrow> bool" for m where
  st_process: "max_position_qty e \<le> m \<Longrightarrow> max_position_qty e2 \<le> m \<Longrightarrow>
     known_side (side_or_action_of (en_rp e) data) \<Longrightarrow> known_side (side_or_action_of (en_rp e2) data) \<Longrightarrow>
     engine_step m s (snd (process e e2 data s))"
| st_kill: "engine_step m s (s\<lparr>e_kill_switch := b\<rparr>)"
| st_pause: "engine_step m s (s\<lparr>e_paused := b\<rparr>)"
| st_lock: "engine_step m s (s\<lparr>e_locks := l\<rparr>)"
| st_dedup: "engine_step m s (s\<lparr>e_dedup := d\<rparr>)"
| st_in_flight: "engine_step m s (s\<lparr>e_in_flight := b\<rparr>)"

inductive engine_reachable :: "real \<Rightarrow> engine \<Rightarrow> bool" for m where
  er_init: "engine_reachable m init_engine"
| er_step: "engine_reachable m s \<Longrightarrow> engine_step m s s' \<Longrightarrow> engine_reachable m s'"

inductive_cases engine_step_elim: "engine_step m s s'"

lemma engine_step_inv: "engine_step m s s' \<Longrightarrow> engine_inv s \<Longrightarrow> engine_inv s'"
proof (induction rule: engine_step.induct)
  case (st_process e e2 data s)
  then show ?case using keepsD [OF inv.k_process, of s e e2 data] by blast
qed (auto simp: engine_inv_def)

lemma engine_step_limits: "engine_step m s s' \<Longrightarrow> engine_inv s \<Longrightarrow> in_limits m s \<Longrightarrow> in_limits m s'"
proof (induction rule: engine_step.induct)
  case (st_process e e2 data s)
  then show ?case by (intro process_in_limits) (auto simp: engine_inv_def)
qed (auto simp: in_limits_def qty_held_def)

lemma engine_reachable_inv: "engine_reachable m s \<Longrightarrow> 0 \<le> m \<Longrightarrow> engine_inv s \<and> in_limits m s"
proof (induction rule: engine_reachable.induct)
  case er_init
  then show ?case using engine_inv_init
    by (simp add: in_limits_def qty_held_def init_engine_def empty_broker_def
        get_position_def flat_position_def)
qed (blast intro: engine_step_inv engine_step_limits)

section \<open>Append-only logs and durable keys\<close>

definition logs_grow :: "engine \<Rightarrow> engine \<Rightarrow> bool" where
  "logs_grow s s' \<longleftrightarrow> (\<exists>x. e_streams s' = e_streams s @ x) \<and> (\<exists>x. e_heartbeats s' = e_heartbeats s @ x)
     \<and> (\<exists>x. e_tools s' = e_tools s @ x) \<and> e_evaluated s \<le> e_evaluated s'"

interpretation logs: order_frame logs_grow
proof unfold_locales
  show "logs_grow s t \<Longrightarrow> logs_grow t u \<Longrightarrow> logs_grow s u" for s t u
    unfolding logs_grow_def by (metis append.assoc le_trans)
qed (simp_all add: logs_grow_def)

definition order_keys :: "database \<Rightarrow> string set" where
  "order_keys db = o_key ` set (db_orders db)"

definition keys_durable :: "engine \<Rightarrow> engine \<Rightarrow> bool" where
  "keys_durable s s' \<longleftrightarrow> (\<forall>k. e_dedup s k \<longrightarrow> e_dedup s' k)
     \<and> (order_keys (e_committed s) \<subseteq> order_keys (e_db s) \<longrightarrow>
          order_keys (e_committed s') \<subseteq> order_keys (e_db s')
          \<and> order_keys (e_committed s) \<subseteq> order_keys (e_committed s'))"

lemma order_keys_append: "order_keys (append_order r db) = insert (o_key r) (order_keys db)"
  by (simp add: order_keys_def append_order_def)

lemma order_keys_simps [simp]:
  "order_keys (update_order_fill i st b f q t db) = order_keys db"
  "order_keys (upsert_position_db sid sy sd q f c db) = order_keys db"
  "order_keys (insert_audit_log ty pl db) = order_keys db"
proof -
  have "map o_key (db_orders (update_order_fill i st b f q t db)) = map o_key (db_orders db)"
    by (simp add: update_order_fill_def)
  then show "order_keys (update_order_fill i st b f q t db) = order_keys db"
    unfolding order_keys_def by (metis list.set_map)
qed (simp_all add: order_keys_def upsert_position_db_def insert_audit_log_def Let_def split: option.splits)

lemma order_keys_inserts:
  "order_keys db \<subseteq> order_keys (snd (insert_rejected_order_once now key sid sy sd q p db))"
  "insert_pending_order now sid sy sd q p key st db = Inr (i, db') \<Longrightarrow>
     order_keys db \<subseteq> order_keys db' \<and> key \<in> order_keys db'"
  by (auto simp: insert_rejected_order_once_def insert_pending_order_def order_keys_append
      new_order_row_def split: option.splits)

interpretation keys: order_frame keys_durable
proof unfold_locales
  show "keys_durable s t \<Longrightarrow> keys_durable t u \<Longrightarrow> keys_durable s u" for s t u
    unfolding keys_durable_def by blast
  show "keys_durable s (s\<lparr>e_db := snd (insert_rejected_order_once now key sid sy sd q p (e_db s))\<rparr>)"
    for s now key sid sy sd q p
    using order_keys_inserts(1) [of "e_db s" now key sid sy sd q p] by (auto simp: keys_durable_def)
  show "insert_pending_order now sid sy sd q p key stt (e_db s) = Inr (i, db) \<Longrightarrow>
      keys_durable s (s\<lparr>e_db := db\<rparr>)" for s now sid sy sd q p key stt i db
    by (drule order_keys_inserts(2)) (auto simp: keys_durable_def)
qed (auto simp: keys_durable_def)

section \<open>Locks\<close>

definition same_locks :: "engine \<Rightarrow> engine \<Rightarrow> bool" where
  "same_locks s s' \<longleftrightarrow> e_locks s' = e_locks s"

interpretation lks: place_frame same_locks
  by unfold_locales (auto simp: same_locks_def)

lemma locked_release:
  assumes "keeps same_locks m"
  shows "keeps same_locks (andthen (acquire_lock e sy) (with_finally m (release_lock sy)))"
  unfolding keeps_def
proof
  fix s :: engine
  define t where "t = s\<lparr>e_locks := (e_locks s)(sy := Some (en_uuid_lock e))\<rparr>"
  have "e_locks (snd (m t)) = e_locks t" using keepsD [OF assms] by (simp add: same_locks_def)
  then have "e_locks s sy = None \<Longrightarrow> e_locks (release_lock sy (snd (m t))) = e_locks s"
    by (auto simp: release_lock_def t_def)
  then show "same_locks s (snd (andthen (acquire_lock e sy) (with_finally m (release_lock sy)) s))"
    unfolding andthen_def bnd_def acquire_lock_def same_locks_def
    by (auto simp: t_def snd_finally split: option.splits)
qed

lemma locks_memory_guarded: "keeps same_locks (memory_guarded e data a)"
  unfolding memory_guarded_def Let_def andthen_bnd
  by (intro lks.keeps_bnd lks.keeps_if locked_release lks.k_memory_order lks.k_memory_done
      lks.keeps_pure lks.k_basic)

lemma locks_process_in_memory: "keeps same_locks (process_in_memory e data)"
  unfolding process_in_memory_def
  by (intro lks.keeps_bnd lks.k_admit lks.keeps_option lks.keeps_pure locks_memory_guarded)

lemma locks_db_session:
  assumes "\<not> en_fault e F_get_position"
  shows "keeps same_locks (db_session e a)"
proof -
  have eq: "db_locked e a = with_finally (bnd (gets (\<lambda>s. broker_position s (d_symbol (ad_parsed a))))
      (db_transaction e a)) (release_lock (d_symbol (ad_parsed a)))"
    using assms by (intro ext) (simp add: db_locked_def read_position_def fault_def broker_position_def
        with_finally_def)
  have "keeps same_locks (andthen (acquire_lock e (d_symbol (ad_parsed a))) (db_locked e a))"
    unfolding eq by (intro locked_release lks.keeps_bnd lks.keeps_pure lks.k_db_transaction)
  then show ?thesis unfolding db_session_def Let_def db_locked_def [symmetric]
    by (intro lks.keeps_finally lks.keeps_andthen [OF lks.k_rollback] lks.keeps_andthen [OF lks.k_fault]
        lks.keeps_bnd lks.keeps_pure lks.keeps_option lks.R_rollback_session)
qed

lemma locks_process:
  assumes "\<not> en_fault e F_get_position"
  shows "keeps same_locks (process e e2 data)"
proof -
  have "keeps same_locks (case r of DB_returned \<Rightarrow> ret ()
      | DB_failed_before \<Rightarrow> process_in_memory e2 data
      | DB_failed_after prior qty vwap payload \<Rightarrow> handle_db_failure e data a prior qty vwap payload
      | DB_filled prior qty vwap oid payload \<Rightarrow> db_publish e data a prior qty vwap oid payload)" for r a
    by (cases r) (auto intro: lks.keeps_pure lks.k_all locks_process_in_memory)
  then have "keeps same_locks (process_with_db e e2 data)" unfolding process_with_db_def
    by (intro lks.keeps_bnd lks.keeps_option lks.keeps_pure lks.k_admit locks_db_session assms)
  then show ?thesis unfolding process_def
    by (intro lks.keeps_bnd lks.keeps_if lks.keeps_andthen lks.keeps_modify lks.keeps_pure lks.k_basic
        lks.R_evaluated locks_process_in_memory)
qed

section \<open>Replays\<close>

text \<open>admission writes heartbeats, telemetry and the initial cash key only\<close>
definition hush :: "engine \<Rightarrow> engine" where
  "hush s = s\<lparr>e_heartbeats := [], e_tools := [], e_broker := empty_broker\<rparr>"

definition quiet :: "engine \<Rightarrow> engine \<Rightarrow> bool" where
  "quiet s s' \<longleftrightarrow> hush s' = hush s"

interpretation qt: admit_frame quiet
  by unfold_locales (auto simp: quiet_def hush_def)

lemma quiet_fields:
  assumes "quiet s s'"
  shows "e_committed s' = e_committed s" "e_db s' = e_db s" "e_streams s' = e_streams s"
    "e_dedup s' = e_dedup s" "e_locks s' = e_locks s" "e_in_flight s' = e_in_flight s"
    "e_outcomes s' = e_outcomes s" "e_store s' = e_store s"
proof -
  note h = assms [unfolded quiet_def]
  from arg_cong [OF h, of e_committed] arg_cong [OF h, of e_db] arg_cong [OF h, of e_streams]
    arg_cong [OF h, of e_dedup] arg_cong [OF h, of e_locks] arg_cong [OF h, of e_in_flight]
    arg_cong [OF h, of e_outcomes] arg_cong [OF h, of e_store]
  show "e_committed s' = e_committed s" "e_db s' = e_db s" "e_streams s' = e_streams s"
    "e_dedup s' = e_dedup s" "e_locks s' = e_locks s" "e_in_flight s' = e_in_flight s"
    "e_outcomes s' = e_outcomes s" "e_store s' = e_store s" by (simp_all add: hush_def)
qed

lemma admit_quiet: "admit e data s = (r, s') \<Longrightarrow> quiet s s'"
  using keepsD [OF qt.k_admit, of s e data] by simp

lemma memory_guarded_claimed: "e_dedup s (ad_key a) \<Longrightarrow> memory_guarded e data a s = (Inr (), s)"
  by (simp add: memory_guarded_def Let_def bnd_def claim_dedup_def)

lemma memory_guarded_claims: "e_dedup (snd (memory_guarded e data a s)) (ad_key a)"
proof (cases "e_dedup s (ad_key a)")
  case True
  then show ?thesis by (simp add: memory_guarded_claimed)
next
  case False
  define k where "k = andthen (acquire_lock e (d_symbol (ad_parsed a)))
      (bnd (with_finally (memory_order e data a) (release_lock (d_symbol (ad_parsed a))))
         (memory_done e (ad_parsed a)))"
  let ?t = "s\<lparr>e_dedup := (e_dedup s)(ad_key a := True)\<rparr>"
  have "keeps keys_durable k" unfolding k_def
    by (intro keys.keeps_andthen keys.keeps_bnd keys.keeps_finally keys.k_memory_done keys.k_acquire
        keys.k_memory_order keys.R_release)
  then have "keys_durable ?t (snd (k ?t))" by (rule keepsD)
  moreover have "snd (memory_guarded e data a s) = snd (k ?t)"
    using False by (simp add: memory_guarded_def Let_def bnd_def [of "claim_dedup (ad_key a)"] claim_dedup_def k_def)
  ultimately show ?thesis by (simp add: keys_durable_def)
qed

text \<open>an in-memory call whose key is claimed orders nothing\<close>
lemma process_in_memory_claimed:
  assumes "\<And>a. admitted_by e data a \<Longrightarrow> e_dedup s (ad_key a)"
  shows "same_broker s (snd (process_in_memory e data s))"
proof -
  obtain r s1 where a: "admit e data s = (r, s1)" by (cases "admit e data s")
  have k: "same_broker s s1" using keepsD [OF brk.k_admit, of s e data] a by simp
  have d: "keys_durable s s1" using keepsD [OF keys.k_admit, of s e data] a by simp
  show ?thesis
  proof (cases r)
    case (Inr oa)
    show ?thesis
    proof (cases oa)
      case (Some adm)
      then have "e_dedup s1 (ad_key adm)"
        using assms admit_Some a Inr d by (auto simp: keys_durable_def)
      then show ?thesis using a Inr Some k by (simp add: process_in_memory_def bnd_def memory_guarded_claimed)
    qed (use a Inr k in \<open>simp add: process_in_memory_def bnd_def\<close>)
  qed (use a k in \<open>simp add: process_in_memory_def bnd_def\<close>)
qed

text \<open>an in-memory call that reached the broker has claimed its key\<close>
lemma process_in_memory_claims:
  "same_broker s (snd (process_in_memory e data s))
   \<or> (\<exists>a. admitted_by e data a \<and> e_dedup (snd (process_in_memory e data s)) (ad_key a))"
proof -
  obtain r s1 where a: "admit e data s = (r, s1)" by (cases "admit e data s")
  have k: "same_broker s s1" using keepsD [OF brk.k_admit, of s e data] a by simp
  show ?thesis
  proof (cases "\<exists>adm. r = Inr (Some adm)")
    case True
    then obtain adm where "r = Inr (Some adm)" by blast
    then show ?thesis using a admit_Some [of e data s adm s1] memory_guarded_claims [of e data adm s1]
      by (auto simp: process_in_memory_def bnd_def)
  next
    case False
    then show ?thesis using a k
      by (auto simp: process_in_memory_def bnd_def split: sum.splits option.splits)
  qed
qed

lemma db_session_duplicate:
  assumes "ad_key a \<in> order_keys (e_committed s)" "\<not> en_fault e F_select"
  shows "db_session e a s = (Inr DB_returned, rollback_session s)"
proof -
  have "order_by_key (ad_key a) (e_db (rollback_session s)) \<noteq> None"
    using assms(1) by (auto simp: order_by_key_None order_keys_def rollback_session_def)
  then show ?thesis using assms(2) by (auto simp: db_session_eq Let_def rollback_session_def)
qed

section \<open>Progress\<close>

lemma submit_ok:
  assumes "\<not> en_fault e F_in_flight_set" "\<not> en_fault e F_place_order"
  shows "\<exists>s'. submit_order e sy sd q p s = (Inr (fst (place_order (en_order e) sy sd q p (e_broker s))), s')
     \<and> e_broker s' = snd (place_order (en_order e) sy sd q p (e_broker s))"
  using assms
  by (auto simp: submit_order_def broker_place_def fault_def record_exec_tool_def set_in_flight_def
      eff_defs split: prod.splits)

lemma same_broker_placed: "same_broker t u \<Longrightarrow> e_broker t = snd (place_order oe sy sd q p b) \<Longrightarrow>
    e_broker u = snd (place_order oe sy sd q p b)"
  by (auto simp: same_broker_def)

lemma memory_fill_places:
  assumes "\<not> en_fault e F_in_flight_set" "\<not> en_fault e F_place_order"
  shows "placed e a q s (snd (memory_fill e data a prior q s))"
proof -
  let ?p = "ad_parsed a"
  obtain v s1 where v: "build_vwap_plan q s = (Inr v, s1)"
    by (cases "vwap_plan_of q") (auto simp: build_vwap_plan_def eff_defs record_exec_tool_def)
  have k1: "same_broker s s1" using keepsD [OF brk.k_vwap, of s q] v by simp
  obtain s2 where sub: "submit_order e (d_symbol ?p) (d_side ?p) q (d_price ?p) s1 =
      (Inr (fst (place_order (en_order e) (d_symbol ?p) (d_side ?p) q (d_price ?p) (e_broker s1))), s2)"
    and b2: "placed e a q s1 s2"
    using submit_ok [OF assms, of "d_symbol ?p" "d_side ?p" q "d_price ?p" s1] by (auto simp: placed_def)
  define rest where "rest payload = bnd (lift_res (make_fill_context e data ?p prior q
        (op_fill_price payload) (en_uuid_order e) (ad_key a) (ad_confidence a) v)) (\<lambda>c.
      andthen (record_fill_to_store e c (op_id payload))
     (andthen (publish_fill e c)
     (andthen (record_outcome e (fc_realized_pnl c))
     (andthen (clear_in_flight e) (ret (Some (op_fill_price payload)))))))" for payload :: order_payload
  have "keeps same_broker (rest payload)" for payload unfolding rest_def
    by (intro brk.keeps_bnd brk.keeps_andthen brk.keeps_pure brk.k_all)
  then have "same_broker s2 (snd (rest payload s2))" for payload by (rule keepsD)
  moreover have "snd (memory_fill e data a prior q s) =
      snd (rest (fst (place_order (en_order e) (d_symbol ?p) (d_side ?p) q (d_price ?p) (e_broker s1))) s2)"
    unfolding memory_fill_def Let_def by (simp add: bnd_def [of "build_vwap_plan q"] v
        bnd_def [of "submit_order _ _ _ _ _"] sub rest_def)
  ultimately have "placed e a q s1 (snd (memory_fill e data a prior q s))"
    using b2 pl.after by metis
  then show ?thesis using k1 pl.before by blast
qed

lemma memory_guarded_places:
  assumes "\<not> e_dedup s (ad_key a)" "e_locks s (d_symbol (ad_parsed a)) = None"
    and "\<not> en_fault e F_get_position" "\<not> en_fault e F_in_flight_set" "\<not> en_fault e F_place_order"
    and sz: "sized e a (broker_position s (d_symbol (ad_parsed a))) q"
  shows "placed e a q s (snd (memory_guarded e data a s))"
proof -
  let ?sy = "d_symbol (ad_parsed a)"
  let ?t = "s\<lparr>e_dedup := (e_dedup s)(ad_key a := True), e_locks := (e_locks s)(?sy := Some (en_uuid_lock e))\<rparr>"
  let ?post = "memory_done e (ad_parsed a)"
  have mo: "memory_order e data a ?t = memory_fill e data a (broker_position s ?sy) q ?t"
    using assms(3) sz by (simp add: memory_order_def Let_def read_position_def fault_def sized_def
        broker_position_def)
  have "placed e a q ?t (snd (memory_order e data a ?t))"
    unfolding mo by (rule memory_fill_places [OF assms(4,5)])
  then have p: "placed e a q s (snd (with_finally (memory_order e data a) (release_lock ?sy) ?t))"
    by (simp add: placed_def snd_finally release_lock_def)
  have "keeps same_broker (?post x)" for x by (rule brk.k_memory_done)
  then have "placed e a q s (snd (bnd (with_finally (memory_order e data a) (release_lock ?sy)) ?post ?t))"
    using p unfolding snd_bnd by (auto split: sum.splits intro: pl.after keepsD)
  moreover have "memory_guarded e data a s = bnd (with_finally (memory_order e data a) (release_lock ?sy)) ?post ?t"
    using assms(1,2) by (simp add: memory_guarded_def Let_def bnd_def [of "claim_dedup _"] claim_dedup_def
        andthen_def [of "acquire_lock _ _"] bnd_def [of "acquire_lock _ _"] acquire_lock_def)
  ultimately show ?thesis by simp
qed

text \<open>an admitted decision without Kelly sizing keeps its nominal quantity\<close>
lemma admit_ok:
  assumes "parse_decision_fields (en_rp e) (en_uuid_strategy e) (en_uuid_trace e) data = Inr p"
    and "is_paper_mode e" "gates_open e data p s" "num_or data ''size_pct'' 0 = Inr 0"
    and "build_idempotency_key e p data = Inr key"
  shows "\<exists>s1. admit e data s = (Inr (Some \<lparr>ad_parsed = p, ad_confidence = fst (extract_decision_scores data),
       ad_qty = d_qty p, ad_key = key\<rparr>), s1)
     \<and> e_broker s1 = e_broker s \<and> e_dedup s1 = e_dedup s \<and> e_locks s1 = e_locks s"
proof -
  obtain sc rs atr pct where x: "extract_decision_scores data = (sc, rs)" "atr_of data = Inr atr"
      "num_or data ''pct'' 0 = Inr pct" "gate_verdict e (d_side p) (d_symbol p) sc rs atr \<bar>pct\<bar> s = None"
    using assms(3) by (auto simp: gates_open_def split: prod.splits sum.splits)
  have "is_fallback_blocked e p data s = (Inr False, s)"
    using assms(2) by (simp add: is_fallback_blocked_def Let_def)
  then have "parse_and_validate e data s = (Inr (Some p), s)"
    using assms(1) by (simp add: parse_and_validate_def bnd_def)
  then show ?thesis using x assms(4,5)
    by (simp add: admit_def bnd_def [of "parse_and_validate e data"] check_pre_execution_gates_def
        record_exec_tool_def apply_kelly_sizing_def bnd_def andthen_def)
qed

lemma gate_verdict_evaluated [simp]:
  "gate_verdict e sd sy sc rs atr pct (s\<lparr>e_evaluated := n\<rparr>) = gate_verdict e sd sy sc rs atr pct s"
proof -
  have "e_in_flight (s\<lparr>e_evaluated := n\<rparr>) = e_in_flight s" "e_outcomes (s\<lparr>e_evaluated := n\<rparr>) = e_outcomes s"
    by simp_all
  then show ?thesis unfolding gate_verdict_def check_cooling_off_gate_def by (simp only:)
qed

lemma gates_open_evaluated [simp]: "gates_open e data p (s\<lparr>e_evaluated := n\<rparr>) = gates_open e data p s"
  by (simp add: gates_open_def split: prod.splits sum.splits)

end
