(* ===== verification/Engine_Properties.thy ===== *)
theory Engine_Properties
  imports Engine_Safety
begin

text \<open>
  The properties of the execution engine, each with a witness on the sample environment
  \<open>env0\<close> (paper mode, the shipped settings, no fault) and the sample decision \<open>buy0\<close>.
\<close>

section \<open>Samples\<close>

definition env0 :: engine_env where
  "env0 = \<lparr>en_rp = (\<lambda>_. ''?''), en_uuid_strategy = ''us'', en_uuid_trace = ''ut'', en_uuid_order = ''uo'',
     en_uuid_lock = ''ul'', en_uuid_msg = (\<lambda>_. ''um''),
     en_order = \<lparr>oe_slippage = 1 / 10000, oe_now = ''t0'', oe_uuid = ''b0''\<rparr>,
     en_now = 0, en_now_iso = ''t0'', en_now_s = 0, en_db_available = False,
     en_broker_mode = ''paper'', en_alpaca_paper = True, en_max_symbol_exposure = 1,
     en_max_open_position_qty = 1, en_allow_fallback_trades = False,
     en_max_fallback_order_qty = 1 / 100, en_no_trade_window_enabled = False,
     en_in_no_trade_window = False, en_symbol_open = (\<lambda>_. True), en_macro = (\<lambda>_. PNone),
     en_ts_minute = (\<lambda>_. Inr ''m''), en_signal_hash = (\<lambda>_. ''h''), en_run_confidence = (\<lambda>_. PNone),
     en_has_redis_store = True, en_has_agent_state = False, en_fault = (\<lambda>_. False)\<rparr>"

definition decision :: "string \<Rightarrow> real \<Rightarrow> pydict" where
  "decision action q = [(''action'', PStr action), (''symbol'', PStr ''BTC''), (''qty'', PFloat q),
     (''price'', PFloat 100), (''strategy_id'', PStr ''s''), (''trace_id'', PStr ''t''),
     (''signal_confidence'', PFloat (9 / 10))]"

definition parsed :: "string \<Rightarrow> real \<Rightarrow> ParsedDecision" where
  "parsed action q = \<lparr>d_side = py_lower action, d_symbol = ''BTC'', d_qty = q, d_price = 100,
     d_strategy_id = ''s'', d_trace_id = ''t''\<rparr>"

lemma py_lower_close [simp]: "py_lower ''close'' = ''close''"
  by code_simp

lemma parse_decision:
  "action \<noteq> '''' \<Longrightarrow> 0 < q \<Longrightarrow>
     parse_decision_fields rp us ut (decision action q) = Inr (parsed action q)"
  by (simp add: parse_decision_fields_def decision_def parsed_def side_or_action_of_def missing_fields_def
      py_or_def Let_def)

lemma side_decision: "action \<noteq> '''' \<Longrightarrow> side_or_action_of rp (decision action q) = py_lower action"
  by (simp add: side_or_action_of_def decision_def py_or_def)

lemma numbers_decision:
  "num_or (decision action q) ''pct'' 0 = Inr 0" "num_or (decision action q) ''size_pct'' 0 = Inr 0"
  "atr_of (decision action q) = Inr None" "extract_decision_scores (decision action q) = (9 / 10, 9 / 10)"
  "num_or (decision action q) ''decision_cost_usd'' 0 = Inr 0"
  by (simp_all add: num_or_def decision_def py_or_def atr_of_def extract_decision_scores_def as_score_def
      Let_def)

lemma env0_simps [simp]:
  "max_position_qty env0 = 1" "is_paper_mode env0" "en_fault env0 f = False"
  "is_market_open env0 sy" "en_db_available env0 = False" "en_macro env0 sy = PNone"
  "en_no_trade_window_enabled env0 = False"
  by (simp_all add: max_position_qty_def env0_def is_paper_mode_def is_market_open_def)

section \<open>Limits\<close>


lemma reach_buy: "engine_reachable 1 (snd (process env0 env0 (decision ''buy'' 5) init_engine))"
proof (rule er_step [OF er_init st_process])
  show "known_side (side_or_action_of (en_rp env0) (decision ''buy'' 5))"
    by (simp add: known_side_def side_decision is_buy_side_def)
  show "known_side (side_or_action_of (en_rp env0) (decision ''buy'' 5))"
    by (simp add: known_side_def side_decision is_buy_side_def)
qed simp_all


text \<open>Every reachable state is well formed: position payloads have a side that matches their
  quantity, order idempotency keys are unique in the tables, one position row per strategy and symbol,
  the store's collections and the Redis lists stay within their caps.\<close>
theorem engine_reachable_well_formed:
  assumes "engine_reachable m s" "0 \<le> m"
  shows "engine_inv s"
  using engine_reachable_inv [OF assms] by simp

theorem engine_reachable_well_formed_witness:
  "engine_inv (snd (process env0 env0 (decision ''buy'' 5) init_engine)) \<and> (0::real) \<le> 1"
  using engine_reachable_well_formed [OF reach_buy] by simp

section \<open>Orders\<close>


text \<open>With the kill switch on, process raises and changes nothing, not even the decision counter.\<close>
theorem kill_switch_blocks:
  assumes "e_kill_switch s"
  shows "process e e2 data s = (Inl (RuntimeError ''KillSwitchActive''), s)"
  using assms by (simp add: process_def)

theorem kill_switch_blocks_witness:
  "e_kill_switch (init_engine\<lparr>e_kill_switch := True\<rparr>)
   \<and> process env0 env0 (decision ''buy'' 5) (init_engine\<lparr>e_kill_switch := True\<rparr>)
     = (Inl (RuntimeError ''KillSwitchActive''), init_engine\<lparr>e_kill_switch := True\<rparr>)"
  using kill_switch_blocks [of "init_engine\<lparr>e_kill_switch := True\<rparr>"] by simp

text \<open>While the learning loop has paused trading, a decision is counted and reported by one
  heartbeat; broker, tables, store, streams, keys and locks keep their values.\<close>
theorem paused_blocks:
  assumes "\<not> e_kill_switch s" "e_paused s"
  shows "process e e2 data s = (Inr (), s\<lparr>e_evaluated := Suc (e_evaluated s),
     e_heartbeats := e_heartbeats s @ [\<lparr>hb_symbol = symbol_hint e data, hb_status = HS_paused,
       hb_trace = text_or_empty e data ''trace_id'', hb_count = Suc (e_evaluated s)\<rparr>]\<rparr>)"
  using assms by (simp add: process_def write_heartbeat_def)

theorem paused_blocks_witness:
  "\<not> e_kill_switch (init_engine\<lparr>e_paused := True\<rparr>) \<and> e_paused (init_engine\<lparr>e_paused := True\<rparr>)
   \<and> e_broker (snd (process env0 env0 (decision ''buy'' 5) (init_engine\<lparr>e_paused := True\<rparr>))) = empty_broker"
  using paused_blocks [of "init_engine\<lparr>e_paused := True\<rparr>" env0 env0 "decision ''buy'' 5"]
  by (simp add: init_engine_def)

section \<open>Gates\<close>

text \<open>C4: the risk cage lets a decision through exactly when all of its conditions hold: an order
  action, score at the regime-aware threshold, open market, outside the no-trade window for buys, no
  order in flight, confidence at least one half, no choppy regime, no negative net expected value and,
  for entries, no cooling-off.\<close>
theorem gate_verdict_None_iff:
  "gate_verdict e side symbol sc rs atr pct s = None \<longleftrightarrow>
     side \<notin> NO_ORDER_ACTIONS
     \<and> entry_threshold e side symbol \<le> compute_execution_score sc rs (6 / 10)
     \<and> is_market_open e symbol
     \<and> \<not> (en_no_trade_window_enabled e \<and> side = ''buy'' \<and> en_in_no_trade_window e)
     \<and> \<not> (e_in_flight s \<and> \<not> en_fault e F_in_flight_get)
     \<and> SIGNAL_CONFIDENCE_MIN_GATE \<le> sc
     \<and> (case atr of None \<Rightarrow> True | Some r \<Rightarrow> 1 \<le> r)
     \<and> (pct \<le> 0 \<or> 2 * SLIPPAGE_PCT_PER_SIDE \<le> sc * (pct / 100))
     \<and> (is_sell_side side \<or> en_fault e F_outcomes_get
        \<or> cooling_off_score (rev (take COOLING_OFF_WINDOW (e_outcomes s))) COOLING_OFF_DECAY < COOLING_OFF_THRESHOLD)"
proof -
  have seq: "(case a of None \<Rightarrow> b | Some g \<Rightarrow> Some g) = None \<longleftrightarrow> a = None \<and> b = None" for a b :: "gate option"
    by (cases a) auto
  have branch: "(if c then Some g else b) = None \<longleftrightarrow> \<not> c \<and> b = None" for c g and b :: "gate option"
    by simp
  have n: "check_net_ev_gate sc pct SLIPPAGE_PCT_PER_SIDE = None \<longleftrightarrow>
      pct \<le> 0 \<or> 2 * SLIPPAGE_PCT_PER_SIDE \<le> sc * (pct / 100)"
    by (auto simp: check_net_ev_gate_def Let_def)
  have c: "side \<notin> NO_ORDER_ACTIONS \<Longrightarrow> check_cooling_off_gate e side s = None \<longleftrightarrow>
      is_sell_side side \<or> en_fault e F_outcomes_get
      \<or> cooling_off_score (rev (take COOLING_OFF_WINDOW (e_outcomes s))) COOLING_OFF_DECAY < COOLING_OFF_THRESHOLD"
    by (auto simp: check_cooling_off_gate_def is_cooling_off_def)
  have f: "side \<notin> NO_ORDER_ACTIONS \<Longrightarrow>
      check_confidence_gate sc side SIGNAL_CONFIDENCE_MIN_GATE = None \<longleftrightarrow> SIGNAL_CONFIDENCE_MIN_GATE \<le> sc"
    by (auto simp: check_confidence_gate_def)
  have r: "side \<notin> NO_ORDER_ACTIONS \<Longrightarrow> (case atr of Some r \<Rightarrow>
        if side \<notin> NO_ORDER_ACTIONS \<and> r < 1 then Some (Choppy_regime r) else None | None \<Rightarrow> None) = None
      \<longleftrightarrow> (case atr of None \<Rightarrow> True | Some r \<Rightarrow> 1 \<le> r)"
    by (cases atr) auto
  show ?thesis
  proof (cases "side \<in> NO_ORDER_ACTIONS")
    case True
    then show ?thesis by (simp add: gate_verdict_def seq check_execution_gate_None)
  next
    case False
    show ?thesis unfolding gate_verdict_def seq branch check_execution_gate_None r [OF False] c [OF False]
      using False f [OF False] n by auto
  qed
qed

lemma admit_closed:
  assumes "\<And>p. parse_decision_fields (en_rp e) (en_uuid_strategy e) (en_uuid_trace e) data = Inr p \<Longrightarrow>
      \<not> gates_open e data p s"
  shows "\<not> (\<exists>a s'. admit e data s = (Inr (Some a), s'))"
  using assms admit_Some by (auto simp: admitted_by_def)

lemma no_admit_same_broker:
  assumes "\<not> (\<exists>a s'. admit e data s = (Inr (Some a), s'))"
  shows "same_broker s (snd (process_in_memory e data s))" "same_broker s (snd (process_with_db e e2 data s))"
proof -
  obtain r s1 where a: "admit e data s = (r, s1)" by (cases "admit e data s")
  have k: "same_broker s s1" using keepsD [OF brk.k_admit, of s e data] a by simp
  show "same_broker s (snd (process_in_memory e data s))" "same_broker s (snd (process_with_db e e2 data s))"
    using assms a k by (auto simp: process_in_memory_def process_with_db_def bnd_def split: sum.splits option.splits)
qed

definition admissible :: "engine_env \<Rightarrow> pydict \<Rightarrow> engine \<Rightarrow> bool" where
  "admissible e data s =
     (case parse_decision_fields (en_rp e) (en_uuid_strategy e) (en_uuid_trace e) data of
        Inl _ \<Rightarrow> False | Inr p \<Rightarrow> gates_open e data p s)"

text \<open>C5: a decision that some gate stops, or that does not parse, orders nothing on any path, the
  database fallback included.\<close>
theorem closed_gates_order_nothing:
  assumes "\<not> admissible e data s"
  shows "same_broker s (snd (process e e2 data s))"
proof -
  let ?t = "s\<lparr>e_evaluated := Suc (e_evaluated s)\<rparr>"
  have "\<not> (\<exists>a s'. admit e data ?t = (Inr (Some a), s'))"
    by (rule admit_closed) (use assms in \<open>simp add: admissible_def\<close>)
  note n = no_admit_same_broker [OF this]
  have "same_broker s ?t" by (rule brk.R_evaluated)
  then have "same_broker ?t u \<Longrightarrow> same_broker s u" for u by (rule brk.R_trans)
  then show ?thesis using n keepsD [OF brk.k_heartbeat, of ?t]
    by (auto simp: process_def brk.R_refl)
qed

definition weak_buy :: pydict where
  "weak_buy = dset ''signal_confidence'' (PFloat (6 / 10)) (decision ''buy'' 5)"

definition risk_off_env :: engine_env where
  "risk_off_env = env0\<lparr>en_macro := (\<lambda>_. PDict [(''regime'', PStr ''risk_off'')])\<rparr>"

lemma weak_buy_gated: "\<not> gates_open risk_off_env weak_buy p s" if "d_side p = ''buy''"
  using that
  by (auto simp: gates_open_def gate_verdict_def check_execution_gate_def NO_ORDER_ACTIONS_def
      risk_off_env_def weak_buy_def entry_threshold_def regime_of_def execution_threshold_def
      is_risk_off_def regime_constants compute_execution_score_def extract_decision_scores_def
      decision_def as_score_def Let_def EXECUTION_DECISION_THRESHOLD_MEMORY_def
      split: prod.splits sum.splits)

theorem closed_gates_order_nothing_witness:
  "\<not> admissible risk_off_env weak_buy init_engine \<and> same_broker init_engine (snd (process risk_off_env risk_off_env weak_buy init_engine))"
proof -
  have "side_or_action_of rp weak_buy = ''buy''" for rp
    by (simp add: side_or_action_of_def weak_buy_def decision_def py_or_def)
  then have "\<not> gates_open risk_off_env weak_buy p init_engine"
    if "parse_decision_fields (en_rp risk_off_env) (en_uuid_strategy risk_off_env)
      (en_uuid_trace risk_off_env) weak_buy = Inr p" for p
    using parse_decision_side [OF that] weak_buy_gated by simp
  then have "\<not> admissible risk_off_env weak_buy init_engine"
    by (auto simp: admissible_def split: sum.splits)
  then show ?thesis using closed_gates_order_nothing [of risk_off_env weak_buy init_engine risk_off_env]
    by blast
qed

text \<open>An exit is gated by the same rules in every macro regime, inside the no-trade window and
  after any streak of losses: for a sell the verdict does not depend on them.\<close>
theorem sell_gates_ignore_regime:
  assumes "is_sell_side side"
  shows "gate_verdict (e\<lparr>en_macro := mr, en_no_trade_window_enabled := w, en_in_no_trade_window := i\<rparr>)
      side symbol sc rs atr pct (s\<lparr>e_outcomes := outs\<rparr>) = gate_verdict e side symbol sc rs atr pct s"
proof -
  let ?e = "e\<lparr>en_macro := mr, en_no_trade_window_enabled := w, en_in_no_trade_window := i\<rparr>"
  have n: "side \<noteq> ''buy''" using assms by (auto simp: is_sell_side_def)
  then have t: "entry_threshold ?e side symbol = entry_threshold e side symbol"
    by (simp add: entry_threshold_def)
  have m: "is_market_open ?e symbol = is_market_open e symbol"
    by (simp add: is_market_open_def is_paper_mode_def)
  have c: "check_cooling_off_gate e' side s' = None" for e' s'
    using assms by (simp add: check_cooling_off_gate_def)
  have p: "en_fault ?e F_in_flight_get = en_fault e F_in_flight_get"
    "e_in_flight (s\<lparr>e_outcomes := outs\<rparr>) = e_in_flight s" by simp_all
  show ?thesis unfolding gate_verdict_def t m c p by (simp only: n simp_thms if_False)
qed

theorem sell_gates_ignore_regime_witness:
  "is_sell_side ''sell'' \<and>
   gate_verdict (env0\<lparr>en_macro := (\<lambda>_. PDict [(''regime'', PStr ''risk_off'')]),
       en_no_trade_window_enabled := True, en_in_no_trade_window := True\<rparr>)
      ''sell'' ''BTC'' (9 / 10) (9 / 10) None 0 (init_engine\<lparr>e_outcomes := [-1, -1, -1, -1, -1]\<rparr>)
   = gate_verdict env0 ''sell'' ''BTC'' (9 / 10) (9 / 10) None 0 init_engine"
proof -
  have s: "is_sell_side ''sell''" by (simp add: is_sell_side_def)
  show ?thesis
    using s sell_gates_ignore_regime [OF s, where e = env0 and symbol = "''BTC''"] by blast
qed

section \<open>Locks and replays\<close>

text \<open>Whatever happens inside a call, an exception included, the order locks are exactly what they
  were when it started, provided the broker answered the position read of the database path.\<close>
theorem locks_released:
  assumes "\<not> en_fault e F_get_position"
  shows "e_locks (snd (process e e2 data s)) = e_locks s"
  using keepsD [OF locks_process [OF assms], of s e2 data] by (simp add: same_locks_def)

theorem locks_released_witness:
  "\<not> en_fault (env0\<lparr>en_fault := (\<lambda>f. f = F_place_order)\<rparr>) F_get_position
   \<and> e_locks (snd (process (env0\<lparr>en_fault := (\<lambda>f. f = F_place_order)\<rparr>) env0 (decision ''buy'' 5) init_engine)) ''BTC'' = None"
  using locks_released [of "env0\<lparr>en_fault := (\<lambda>f. f = F_place_order)\<rparr>" env0 "decision ''buy'' 5" init_engine]
  by (simp add: init_engine_def)

text \<open>C6: in memory mode a redelivered decision is ordered at most once: when two calls see the same
  idempotency key, the first or the second leaves the broker as it was, whatever environment either
  runs in.\<close>
theorem memory_replay_orders_once:
  assumes "parse_decision_fields (en_rp e) (en_uuid_strategy e) (en_uuid_trace e) data = Inr p"
    and "build_idempotency_key e p data = Inr key"
    and "parse_decision_fields (en_rp e') (en_uuid_strategy e') (en_uuid_trace e') data = Inr p'"
    and "build_idempotency_key e' p' data = Inr key"
    and s': "s' = snd (process_in_memory e data s)"
  shows "same_broker s s' \<or> same_broker s' (snd (process_in_memory e' data s'))"
proof (cases "same_broker s s'")
  case False
  with process_in_memory_claims [of s e data] obtain a where "admitted_by e data a" "e_dedup s' (ad_key a)"
    by (auto simp: s')
  then have "e_dedup s' key" using assms(1,2) by (simp add: admitted_by_def)
  then have "same_broker s' (snd (process_in_memory e' data s'))"
    using assms(3,4) by (intro process_in_memory_claimed) (simp add: admitted_by_def)
  then show ?thesis by simp
qed simp

theorem memory_replay_orders_once_witness:
  "same_broker init_engine (snd (process_in_memory env0 (decision ''buy'' 5) init_engine))
   \<or> same_broker (snd (process_in_memory env0 (decision ''buy'' 5) init_engine))
       (snd (process_in_memory env0 (decision ''buy'' 5)
          (snd (process_in_memory env0 (decision ''buy'' 5) init_engine))))"
proof (rule memory_replay_orders_once)
  show "parse_decision_fields (en_rp env0) (en_uuid_strategy env0) (en_uuid_trace env0) (decision ''buy'' 5)
      = Inr (parsed ''buy'' 5)" by (simp add: parse_decision)
  then show "parse_decision_fields (en_rp env0) (en_uuid_strategy env0) (en_uuid_trace env0) (decision ''buy'' 5)
      = Inr (parsed ''buy'' 5)" .
  show "build_idempotency_key env0 (parsed ''buy'' 5) (decision ''buy'' 5) = Inr ''s_BTC_buy_m_h''"
    by (simp add: build_idempotency_key_def env0_def parsed_def decision_def)
  then show "build_idempotency_key env0 (parsed ''buy'' 5) (decision ''buy'' 5) = Inr ''s_BTC_buy_m_h''" .
qed simp

text \<open>On the database path a decision whose idempotency key has a committed order row is skipped:
  no order, no new row, no event.\<close>
theorem db_replay_skipped:
  assumes "parse_decision_fields (en_rp e) (en_uuid_strategy e) (en_uuid_trace e) data = Inr p"
    and "build_idempotency_key e p data = Inr key" "key \<in> order_keys (e_committed s)"
    and "\<not> en_fault e F_select"
  shows "same_broker s (snd (process_with_db e e2 data s))
     \<and> e_committed (snd (process_with_db e e2 data s)) = e_committed s
     \<and> e_streams (snd (process_with_db e e2 data s)) = e_streams s"
proof -
  obtain r s1 where a: "admit e data s = (r, s1)" by (cases "admit e data s")
  have b: "same_broker s s1" using keepsD [OF brk.k_admit, of s e data] a by simp
  have f: "e_committed s1 = e_committed s \<and> e_streams s1 = e_streams s"
    using quiet_fields [OF admit_quiet [OF a]] by simp
  show ?thesis
  proof (cases "\<exists>adm. r = Inr (Some adm)")
    case True
    then obtain adm where r: "r = Inr (Some adm)" by blast
    then have "ad_key adm = key" using admit_Some a assms(1,2) by (auto simp: admitted_by_def)
    then have "db_session e adm s1 = (Inr DB_returned, rollback_session s1)"
      using assms(3,4) f by (intro db_session_duplicate) auto
    then show ?thesis using a r b f
      by (simp add: process_with_db_def bnd_def rollback_session_def same_broker_def)
  next
    case False
    then show ?thesis using a b f by (auto simp: process_with_db_def bnd_def split: sum.splits option.splits)
  qed
qed

definition filled_row :: order_row where
  "filled_row = new_order_row 1 0 ''s'' ''BTC'' ''buy'' 1 100 ''s_BTC_buy_m_h'' ''filled''"

definition traded_engine :: engine where
  "traded_engine = init_engine\<lparr>e_committed := append_order filled_row empty_db\<rparr>"

lemma key_decision: "action \<noteq> '''' \<Longrightarrow>
    build_idempotency_key env0 (parsed action q) (decision action q) = Inr (''s_BTC_'' @ py_lower action @ ''_m_h'')"
  by (simp add: build_idempotency_key_def env0_def parsed_def decision_def)

theorem db_replay_skipped_witness:
  "''s_BTC_buy_m_h'' \<in> order_keys (e_committed traded_engine)
   \<and> e_streams (snd (process_with_db env0 env0 (decision ''buy'' 5) traded_engine)) = e_streams traded_engine"
proof -
  have k: "''s_BTC_buy_m_h'' \<in> order_keys (e_committed traded_engine)"
    by (simp add: traded_engine_def order_keys_append filled_row_def new_order_row_def)
  have p: "parse_decision_fields (en_rp env0) (en_uuid_strategy env0) (en_uuid_trace env0) (decision ''buy'' 5)
      = Inr (parsed ''buy'' 5)" by (simp add: parse_decision)
  have b: "build_idempotency_key env0 (parsed ''buy'' 5) (decision ''buy'' 5) = Inr ''s_BTC_buy_m_h''"
    using key_decision [of "''buy''" 5] by simp
  from db_replay_skipped [OF p b k, of env0] k show ?thesis by simp
qed

section \<open>Progress\<close>


lemma gates_open_sample:
  assumes "side \<notin> NO_ORDER_ACTIONS" "d_side p = side"
  shows "gates_open env0 (decision action q) p init_engine"
proof -
  have "gate_verdict env0 side (d_symbol p) (9 / 10) (9 / 10) None 0 init_engine = None"
    using assms(1)
    by (simp add: gate_verdict_def check_execution_gate_def check_confidence_gate_def check_cooling_off_gate_def
        is_cooling_off_def cooling_off_score_def entry_threshold_def regime_of_def execution_threshold_def
        is_risk_off_def compute_execution_score_def EXECUTION_DECISION_THRESHOLD_MEMORY_def init_engine_def
        SIGNAL_CONFIDENCE_MIN_GATE_def COOLING_OFF_THRESHOLD_def Let_def)
  then show ?thesis using assms(2) by (simp add: gates_open_def numbers_decision)
qed

lemma flat_sample: "broker_position init_engine sy = pos_dict (flat_position sy)"
  by (simp add: broker_position_def init_engine_def empty_broker_def get_position_def)


section \<open>Edges\<close>

text \<open>An action outside the decision vocabulary is neither rejected nor clamped: the broker treats
  every side that is not a buy as a sale, so a flat book goes short by the full requested quantity.\<close>
theorem unknown_action_shorts_a_flat_book:
  "pos_qty (get_position (e_broker (snd (process env0 e2 (decision ''close'' 5) init_engine))) ''BTC'') = - 5"
proof -
  let ?p = "parsed ''close'' 5"
  let ?a = "\<lparr>ad_parsed = ?p, ad_confidence = fst (extract_decision_scores (decision ''close'' 5)),
      ad_qty = d_qty ?p, ad_key = ''s_BTC_close_m_h''\<rparr>"
  let ?t = "init_engine\<lparr>e_evaluated := Suc (e_evaluated init_engine)\<rparr>"
  have g: "gates_open env0 (decision ''close'' 5) ?p init_engine"
    by (rule gates_open_sample [of "''close''"]) (simp_all add: NO_ORDER_ACTIONS_def parsed_def)
  have k: "build_idempotency_key env0 ?p (decision ''close'' 5) = Inr ''s_BTC_close_m_h''"
    using key_decision [of "''close''" 5] by simp
  obtain s1 where ad: "admit env0 (decision ''close'' 5) ?t = (Inr (Some ?a), s1)"
    and f: "e_broker s1 = e_broker ?t" "e_dedup s1 = e_dedup ?t" "e_locks s1 = e_locks ?t"
    using admit_ok [of env0 "decision ''close'' 5" ?p ?t, OF _ _ _ _ k] g
    by (auto simp: parse_decision numbers_decision)
  have "placed env0 ?a 5 s1 (snd (memory_guarded env0 (decision ''close'' 5) ?a s1))"
  proof (rule memory_guarded_places)
    show "sized env0 ?a (broker_position s1 (d_symbol (ad_parsed ?a))) 5"
      by (simp add: sized_def reject_unmatched_sell_def clamp_order_qty_def parsed_def is_sell_side_def is_buy_side_def)
  qed (simp_all add: f init_engine_def)
  then show ?thesis using ad f
    by (simp add: process_def process_in_memory_def bnd_def [of "admit _ _"] placed_def get_position_place
        parsed_def order_direction_def is_buy_side_def)
      (simp add: init_engine_def empty_broker_def get_position_def flat_position_def)
qed

text \<open>
  The broker is down on the database path: the order row is rolled back, the in-flight
  flag that was set before the broker call stays.
\<close>

lemma db_submit_broker_down:
  assumes "sized e a prior q" "order_by_key (ad_key a) (e_db s) = None"
    and "\<not> en_fault e F_insert" "\<not> en_fault e F_flush" "\<not> en_fault e F_in_flight_set" "en_fault e F_place_order"
  shows "\<exists>x s1. db_submit e a prior s = (Inl x, s1) \<and> e_in_flight s1 \<and> e_broker s1 = e_broker s"
proof -
  obtain v s0 where v: "build_vwap_plan q s = (Inr v, s0)" and e0: "e_db s0 = e_db s" "e_broker s0 = e_broker s"
    by (cases "vwap_plan_of q") (auto simp: build_vwap_plan_def eff_defs record_exec_tool_def)
  have n: "order_by_key (ad_key a) (e_db s0) = None" using assms(2) e0 by simp
  show ?thesis using assms(1,3-6) n e0
    by (simp add: db_submit_def Let_def sized_def bnd_def [of "build_vwap_plan q"] v db_insert_order_def
        fault_def insert_pending_order_def bnd_def [of "\<lambda>s. _ s"] submit_order_def broker_place_def
        andthen_def throw_def set_in_flight_def)
qed

lemma in_flight_closed: "e_in_flight s \<Longrightarrow> \<not> en_fault e F_in_flight_get \<Longrightarrow> \<not> gates_open e data p s"
  by (auto simp: gates_open_def gate_verdict_def check_execution_gate_None
      split: prod.splits sum.splits option.splits if_splits)

text \<open>C34: when the broker call itself fails on the database path, the fallback that is meant to rerun the
  decision in memory is stopped by the in-flight flag the failed call left behind: nothing is ordered
  and the flag stays set until its expiry.\<close>
theorem broker_failure_blocks_its_own_fallback:
  assumes "admit e data s = (Inr (Some a), s0)"
    and "sized e a (broker_position s0 (d_symbol (ad_parsed a))) q"
    and "ad_key a \<notin> order_keys (e_committed s0)" "e_locks s0 (d_symbol (ad_parsed a)) = None"
    and "en_fault e = (\<lambda>f. f = F_place_order)" "\<not> en_fault e2 F_in_flight_get"
  shows "e_in_flight (snd (process_with_db e e2 data s)) \<and> same_broker s (snd (process_with_db e e2 data s))"
proof -
  let ?sy = "d_symbol (ad_parsed a)"
  let ?t = "(rollback_session s0)\<lparr>e_locks := (e_locks s0)(?sy := Some (en_uuid_lock e))\<rparr>"
  have n: "order_by_key (ad_key a) (e_db ?t) = None"
    using assms(3) by (simp add: order_by_key_None order_keys_def rollback_session_def)
  have sz: "sized e a (broker_position ?t ?sy) q"
    using assms(2) by (simp add: broker_position_def rollback_session_def)
  obtain x s1 where d: "db_submit e a (broker_position ?t ?sy) ?t = (Inl x, s1)" and fl: "e_in_flight s1"
    and b: "e_broker s1 = e_broker ?t"
    using db_submit_broker_down [OF sz n] assms(5) by auto
  let ?u = "rollback_session (release_lock ?sy (rollback_session s1))"
  have "db_transaction e a (broker_position ?t ?sy) ?t = (Inr DB_failed_before, rollback_session s1)"
    using db_transaction_cases [of e a "broker_position ?t ?sy" ?t] d by (simp add: prod_eq_iff)
  then have "db_session e a s0 = (Inr DB_failed_before, ?u)"
    using n assms(4,5) by (simp add: db_session_eq Let_def with_finally_def db_locked_def read_position_def
        fault_def broker_position_def rollback_session_def)
  then have p: "process_with_db e e2 data s = process_in_memory e2 data ?u"
    using assms(1) by (simp add: process_with_db_def bnd_def)
  have uf: "e_in_flight ?u" using fl by (simp add: rollback_session_def release_lock_def)
  have na: "\<not> (\<exists>a' s'. admit e2 data ?u = (Inr (Some a'), s'))"
    using admit_Some [of e2 data ?u] uf assms(6) in_flight_closed by blast
  obtain r s2 where ad: "admit e2 data ?u = (r, s2)" by (cases "admit e2 data ?u")
  have "snd (process_in_memory e2 data ?u) = s2"
    using na ad by (auto simp: process_in_memory_def bnd_def split: sum.splits option.splits)
  moreover have "e_in_flight s2" using quiet_fields(6) [OF admit_quiet [OF ad]] uf by simp
  moreover have "same_broker s s2"
  proof -
    have "same_broker s s0" using keepsD [OF brk.k_admit, of s e data] assms(1) by simp
    moreover have "same_broker s0 ?u" using b by (simp add: same_broker_def rollback_session_def release_lock_def)
    moreover have "same_broker ?u s2" using keepsD [OF brk.k_admit, of ?u e2 data] ad by simp
    ultimately show ?thesis by (blast intro: brk.R_trans)
  qed
  ultimately show ?thesis using p by simp
qed

definition broker_down :: engine_env where
  "broker_down = env0\<lparr>en_db_available := True, en_fault := (\<lambda>f. f = F_place_order)\<rparr>"

theorem broker_failure_blocks_its_own_fallback_witness:
  "\<exists>a s0 q. admit broker_down (decision ''buy'' 5) init_engine = (Inr (Some a), s0)
     \<and> sized broker_down a (broker_position s0 (d_symbol (ad_parsed a))) q
     \<and> e_in_flight (snd (process_with_db broker_down env0 (decision ''buy'' 5) init_engine))
     \<and> same_broker init_engine (snd (process_with_db broker_down env0 (decision ''buy'' 5) init_engine))"
proof -
  let ?p = "parsed ''buy'' 5"
  let ?a = "\<lparr>ad_parsed = ?p, ad_confidence = fst (extract_decision_scores (decision ''buy'' 5)),
      ad_qty = d_qty ?p, ad_key = ''s_BTC_buy_m_h''\<rparr>"
  have pm: "is_paper_mode broker_down" "is_market_open broker_down sy" for sy
    by (simp_all add: broker_down_def is_paper_mode_def is_market_open_def env0_def)
  have "gate_verdict broker_down ''buy'' ''BTC'' (9 / 10) (9 / 10) None 0 init_engine = None"
    using pm
    by (simp add: gate_verdict_def check_execution_gate_def check_confidence_gate_def check_cooling_off_gate_def
        is_cooling_off_def cooling_off_score_def entry_threshold_def regime_of_def execution_threshold_def
        is_risk_off_def compute_execution_score_def EXECUTION_DECISION_THRESHOLD_def init_engine_def
        SIGNAL_CONFIDENCE_MIN_GATE_def COOLING_OFF_THRESHOLD_def Let_def broker_down_def NO_ORDER_ACTIONS_def)
  then have g: "gates_open broker_down (decision ''buy'' 5) ?p init_engine"
    by (simp add: gates_open_def numbers_decision parsed_def)
  have k: "build_idempotency_key broker_down ?p (decision ''buy'' 5) = Inr ''s_BTC_buy_m_h''"
    by (simp add: build_idempotency_key_def broker_down_def env0_def parsed_def decision_def)
  obtain s0 where ad: "admit broker_down (decision ''buy'' 5) init_engine = (Inr (Some ?a), s0)"
    and f: "e_broker s0 = e_broker init_engine" "e_locks s0 = e_locks init_engine"
    using admit_ok [OF _ pm(1) g _ k] by (auto simp: parse_decision numbers_decision)
  have c: "e_committed s0 = e_committed init_engine" using quiet_fields [OF admit_quiet [OF ad]] by simp
  have "pos_ok (flat_position ''BTC'')" by simp
  then have "signed_position_qty rp (Some (pos_dict (flat_position ''BTC''))) = 0" for rp
    by (simp add: signed_pos_dict flat_position_def)
  then have sz: "sized broker_down ?a (broker_position s0 (d_symbol (ad_parsed ?a))) 1"
    using f(1) by (simp add: sized_def reject_unmatched_sell_def clamp_order_qty_def parsed_def is_sell_side_def
        is_buy_side_def clamp_buy_to_position_limit_def Let_def broker_position_def init_engine_def
        empty_broker_def get_position_def max_position_qty_def broker_down_def env0_def)
  have "e_in_flight (snd (process_with_db broker_down env0 (decision ''buy'' 5) init_engine))
     \<and> same_broker init_engine (snd (process_with_db broker_down env0 (decision ''buy'' 5) init_engine))"
    by (rule broker_failure_blocks_its_own_fallback [OF ad sz])
      (simp_all add: f c init_engine_def order_keys_def empty_db_def broker_down_def)
  with ad sz show ?thesis by blast
qed

end
