(* ===== verification/Guardian_Properties.thy ===== *)
theory Guardian_Properties
  imports Risk_Guardian Engine_Properties
begin

text \<open>
  What the risk guardian promises: every close it publishes is justified and published at most once
  per symbol and cycle, a breached position is closed, the trailing stop follows the highest gain seen,
  the kill switch is only ever set; and what becomes of its closes when the execution engine processes
  them.
\<close>

section \<open>One position\<close>

text \<open>the condition each exit reason stands for\<close>
fun exit_justified :: "guardian_env \<Rightarrow> open_pos \<Rightarrow> bool \<Rightarrow> real \<Rightarrow> exit_reason \<Rightarrow> bool" where
  "exit_justified e p il pnl (Stop_loss x) \<longleftrightarrow> x = pnl \<and> pnl \<le> - fst (effective_exit_bounds e (ox_symbol p) il)"
| "exit_justified e p il pnl (Stop_loss_risk_off x b) \<longleftrightarrow>
     x = pnl \<and> b = fst (effective_exit_bounds e (ox_symbol p) il) \<and> pnl \<le> - b \<and> b < STOP_LOSS_PCT"
| "exit_justified e p il pnl (Take_profit x) \<longleftrightarrow> x = pnl \<and> snd (effective_exit_bounds e (ox_symbol p) il) \<le> pnl"
| "exit_justified e p il pnl (Take_profit_risk_off x b) \<longleftrightarrow>
     x = pnl \<and> b = snd (effective_exit_bounds e (ox_symbol p) il) \<and> b \<le> pnl \<and> b < TAKE_PROFIT_PCT"
| "exit_justified e p il pnl (Trailing_stop pk x) \<longleftrightarrow>
     x = pnl \<and> TRAILING_STOP_ARM_PCT \<le> pk \<and> pnl \<le> pk * (1 - TRAILING_STOP_GIVEBACK_FRAC)"
| "exit_justified e p il pnl (Stale_position age x) \<longleftrightarrow>
     x = pnl \<and> \<bar>pnl\<bar> < STALE_POSITION_PNL_BAND_PCT \<and> STALE_POSITION_MAX_AGE_SECONDS \<le> age"

text \<open>the close a position may get: side, cost, quantity and price are usable, the reason holds\<close>
definition close_allowed :: "guardian_env \<Rightarrow> (string \<Rightarrow> real option) \<Rightarrow> open_pos \<Rightarrow> pydict \<Rightarrow> bool" where
  "close_allowed e prices p d \<longleftrightarrow> (\<exists>il price reason.
     side_long p = Some il \<and> 0 < ox_avg_cost p \<and> 0 < ox_qty p \<and> prices (ox_symbol p) = Some price \<and> 0 < price
     \<and> exit_justified e p il (unrealized_pct p il price) reason \<and> d = close_decision e p il price reason)"

text \<open>the position has a price at which the stop or the target is reached\<close>
definition breached :: "guardian_env \<Rightarrow> (string \<Rightarrow> real option) \<Rightarrow> open_pos \<Rightarrow> bool" where
  "breached e prices p = (case (side_long p, prices (ox_symbol p)) of
       (Some il, Some price) \<Rightarrow> 0 < ox_avg_cost p \<and> 0 < ox_qty p \<and> 0 < price
         \<and> (unrealized_pct p il price \<le> - fst (effective_exit_bounds e (ox_symbol p) il)
            \<or> snd (effective_exit_bounds e (ox_symbol p) il) \<le> unrealized_pct p il price)
     | _ \<Rightarrow> False)"

lemma trailing_run:
  "\<exists>r s'. check_trailing_stop e sy c pnl s = (Inr r, s') \<and> gu_decisions s' = gu_decisions s
     \<and> (\<forall>x. r = Some x \<longrightarrow> exit_justified e p il pnl x)"
  by (auto simp: check_trailing_stop_def trailing_verdict_def split: sum.splits)

lemma stale_justified: "check_stale_position e p pnl = Some r \<Longrightarrow> exit_justified e p il pnl r"
  by (auto simp: check_stale_position_def Let_def split: if_splits option.splits)

lemma exit_reason_run:
  "\<exists>r s'. exit_reason_of e p il pnl s = (Inr r, s') \<and> gu_decisions s' = gu_decisions s
     \<and> (\<forall>x. r = Some x \<longrightarrow> exit_justified e p il pnl x)"
proof -
  obtain r s' where t: "check_trailing_stop e (ox_symbol p) (ox_avg_cost p) pnl s = (Inr r, s')"
      "gu_decisions s' = gu_decisions s" "\<And>x. r = Some x \<Longrightarrow> exit_justified e p il pnl x"
    using trailing_run [of e "ox_symbol p" "ox_avg_cost p" pnl s p il] by auto
  then show ?thesis
    by (cases "effective_exit_bounds e (ox_symbol p) il"; cases r)
      (auto simp: exit_reason_of_def bnd_def intro: stale_justified)
qed

text \<open>a position is left alone, closed once with a justified reason, or its publication failed\<close>
definition position_outcome :: "guardian_env \<Rightarrow> (string \<Rightarrow> real option) \<Rightarrow> open_pos \<Rightarrow> string list \<Rightarrow> guardian
    \<Rightarrow> string list pyres \<Rightarrow> guardian \<Rightarrow> bool" where
  "position_outcome e prices p already s r s' \<longleftrightarrow>
     (r = Inr already \<and> gu_decisions s' = gu_decisions s)
     \<or> (\<exists>d. ox_symbol p \<notin> set already \<and> r = Inr (ox_symbol p # already) \<and> close_allowed e prices p d
          \<and> gu_decisions s' = gu_decisions s @ [d])
     \<or> (\<exists>x. r = Inl x \<and> ge_fault e (G_publish_close (ox_symbol p)) \<and> gu_decisions s' = gu_decisions s)"

lemma check_position_run: "\<exists>r s'. check_position e prices p already s = (r, s') \<and> position_outcome e prices p already s r s'"
proof (cases "side_long p")
  case None
  then show ?thesis by (simp add: check_position_def position_outcome_def)
next
  case (Some il)
  show ?thesis
  proof (cases "prices (ox_symbol p)")
    case None
    then show ?thesis using Some by (simp add: check_position_def position_outcome_def)
  next
    fix price assume pr: "prices (ox_symbol p) = Some price"
    obtain r s1 where r: "exit_reason_of e p il (unrealized_pct p il price) s = (Inr r, s1)"
        "gu_decisions s1 = gu_decisions s" "\<And>x. r = Some x \<Longrightarrow> exit_justified e p il (unrealized_pct p il price) x"
      using exit_reason_run by blast
    have "close_allowed e prices p (close_decision e p il price x)"
      if "r = Some x" "0 < ox_avg_cost p" "0 < ox_qty p" "0 < price" for x
      using that Some pr r(3) by (auto simp: close_allowed_def)
    then show ?thesis using Some pr r(1,2)
      by (cases r) (auto simp: position_outcome_def check_position_def bnd_def [of "exit_reason_of _ _ _ _"]
          publish_close_def gfault_def clear_trailing_state_def eff_defs not_le)
  qed
qed

lemma exit_bounds_breached:
  assumes "pnl \<le> - fst (effective_exit_bounds e (ox_symbol p) il)
      \<or> snd (effective_exit_bounds e (ox_symbol p) il) \<le> pnl"
  shows "\<exists>x. exit_reason_of e p il pnl s = (Inr (Some x), s)"
  using assms by (cases "effective_exit_bounds e (ox_symbol p) il") (auto simp: exit_reason_of_def)

lemma check_position_breached:
  assumes "breached e prices p"
    and "check_position e prices p already s = (Inr a, s')"
  shows "ox_symbol p \<in> set a"
proof -
  obtain il price where b: "side_long p = Some il" "prices (ox_symbol p) = Some price" "0 < ox_avg_cost p"
      "0 < ox_qty p" "0 < price" and "unrealized_pct p il price \<le> - fst (effective_exit_bounds e (ox_symbol p) il)
            \<or> snd (effective_exit_bounds e (ox_symbol p) il) \<le> unrealized_pct p il price"
    using assms(1) by (auto simp: breached_def split: option.splits)
  then obtain x where "exit_reason_of e p il (unrealized_pct p il price) s = (Inr (Some x), s)"
    using exit_bounds_breached by blast
  then show ?thesis using b assms(2)
    by (auto simp: check_position_def bnd_def [of "exit_reason_of _ _ _ _"] publish_close_def
        gfault_def clear_trailing_state_def eff_defs split: if_splits)
qed

section \<open>The scan\<close>

text \<open>\<open>cs\<close> are the positions closed, in order, with the decision published for each\<close>
definition scan_ok :: "guardian_env \<Rightarrow> (string \<Rightarrow> real option) \<Rightarrow> open_pos list \<Rightarrow> (open_pos \<times> pydict) list \<Rightarrow> bool" where
  "scan_ok e prices ps cs \<longleftrightarrow> fst ` set cs \<subseteq> set ps \<and> distinct (map (ox_symbol \<circ> fst) cs)
     \<and> list_all (\<lambda>(p, d). close_allowed e prices p d) cs"

lemma scan_ok_Nil [simp]: "scan_ok e prices ps []"
  by (simp add: scan_ok_def)

lemma scan_ok_weaken: "scan_ok e prices ps cs \<Longrightarrow> scan_ok e prices (p # ps) cs"
  by (auto simp: scan_ok_def)

lemma scan_ok_Cons:
  "scan_ok e prices ps cs \<Longrightarrow> close_allowed e prices p d \<Longrightarrow> ox_symbol p \<notin> (ox_symbol \<circ> fst) ` set cs \<Longrightarrow>
     scan_ok e prices (p # ps) ((p, d) # cs)"
  by (auto simp: scan_ok_def)

text \<open>the decisions of a scan are those of \<open>cs\<close>; it ends with every breached symbol closed unless publishing failed\<close>
definition scan_outcome :: "guardian_env \<Rightarrow> (string \<Rightarrow> real option) \<Rightarrow> open_pos list \<Rightarrow> string list \<Rightarrow> guardian
    \<Rightarrow> string list pyres \<Rightarrow> guardian \<Rightarrow> (open_pos \<times> pydict) list \<Rightarrow> bool" where
  "scan_outcome e prices ps already s r s' cs \<longleftrightarrow> scan_ok e prices ps cs
     \<and> gu_decisions s' = gu_decisions s @ map snd cs
     \<and> set already \<inter> (ox_symbol \<circ> fst) ` set cs = {}
     \<and> (case r of Inl _ \<Rightarrow> \<exists>sy. ge_fault e (G_publish_close sy)
        | Inr a \<Rightarrow> set a = set already \<union> (ox_symbol \<circ> fst) ` set cs
            \<and> (\<forall>p \<in> set ps. breached e prices p \<longrightarrow> ox_symbol p \<in> set a))"

lemma scan_outcome_skip:
  assumes "scan_outcome e prices ps already s1 r s2 cs" "gu_decisions s1 = gu_decisions s"
    and "breached e prices p \<Longrightarrow> ox_symbol p \<in> set already"
  shows "scan_outcome e prices (p # ps) already s r s2 cs"
  using assms scan_ok_weaken [of e prices ps cs p] by (auto simp: scan_outcome_def split: sum.splits)

lemma scan_outcome_close:
  assumes "scan_outcome e prices ps (ox_symbol p # already) s1 r s2 cs" "gu_decisions s1 = gu_decisions s @ [d]"
    and "ox_symbol p \<notin> set already" "close_allowed e prices p d"
  shows "scan_outcome e prices (p # ps) already s r s2 ((p, d) # cs)"
  using assms scan_ok_Cons [of e prices ps cs p d] by (auto simp: scan_outcome_def split: sum.splits)

lemma check_each_run:
  "\<exists>r s' cs. check_each e prices ps already s = (r, s') \<and> scan_outcome e prices ps already s r s' cs"
proof (induction ps arbitrary: already s)
  case Nil
  then show ?case by (auto simp: scan_outcome_def intro!: exI [of _ "[]"])
next
  case (Cons p ps)
  obtain r1 s1 where one: "check_position e prices p already s = (r1, s1)" "position_outcome e prices p already s r1 s1"
    using check_position_run by blast
  show ?case
  proof (cases r1)
    case (Inl x)
    then have "scan_outcome e prices (p # ps) already s (Inl x) s1 []"
      using one(2) by (auto simp: scan_outcome_def position_outcome_def)
    then show ?thesis using one(1) Inl by (auto simp: bnd_def)
  next
    case (Inr a1)
    have br: "ox_symbol p \<in> set a1" if "breached e prices p"
      using check_position_breached [OF that] one(1) Inr by blast
    obtain r2 s2 cs where rest: "check_each e prices ps a1 s1 = (r2, s2)" "scan_outcome e prices ps a1 s1 r2 s2 cs"
      using Cons.IH [of a1 s1] by blast
    have run: "check_each e prices (p # ps) already s = (r2, s2)" using one(1) Inr rest(1) by (simp add: bnd_def)
    have "\<exists>cs'. scan_outcome e prices (p # ps) already s r2 s2 cs'"
      using one(2) Inr rest(2) br scan_outcome_skip [of e prices ps a1 s1 r2 s2 cs s p]
        scan_outcome_close [of e prices ps p already s1 r2 s2 cs s]
      by (auto simp: position_outcome_def)
    then show ?thesis using run by auto
  qed
qed

lemma load_open_run:
  "\<exists>ps s'. load_open_positions e s = (Inr ps, s') \<and> gu_decisions s' = gu_decisions s \<and> gu_kill_switch s' = gu_kill_switch s
     \<and> gu_registry s' = gu_registry s \<and> gu_alerts s' = gu_alerts s"
  by (auto simp: load_open_positions_def load_db_positions_def bnd_def ret_def split: option.splits)

text \<open>the positions a cycle scans\<close>
definition scanned :: "guardian_env \<Rightarrow> guardian \<Rightarrow> open_pos list" where
  "scanned e s = (case fst (load_open_positions e s) of Inr ps \<Rightarrow> ps | Inl _ \<Rightarrow> [])"

lemma check_positions_run:
  "\<exists>r s' cs. check_positions e s = (r, s') \<and> gu_decisions s' = gu_decisions s @ map snd cs
     \<and> scan_ok e (price_map e (scanned e s)) (scanned e s) cs
     \<and> ((\<forall>sy. \<not> ge_fault e (G_publish_close sy)) \<longrightarrow> r = Inr () \<and>
         (\<forall>p \<in> set (scanned e s). breached e (price_map e (scanned e s)) p \<longrightarrow> ox_symbol p \<in> (ox_symbol \<circ> fst) ` set cs))"
proof -
  obtain s1 where l: "load_open_positions e s = (Inr (scanned e s), s1)" "gu_decisions s1 = gu_decisions s"
    using load_open_run [of e s] by (auto simp: scanned_def)
  obtain r s2 cs where c: "check_each e (price_map e (scanned e s)) (scanned e s) [] s1 = (r, s2)"
      "scan_outcome e (price_map e (scanned e s)) (scanned e s) [] s1 r s2 cs"
    using check_each_run by blast
  define r' where "r' = (case r of Inl x \<Rightarrow> Inl x | Inr _ \<Rightarrow> Inr ())"
  have run: "check_positions e s = (r', s2)"
    using c(1) l(1) by (auto simp: check_positions_def bnd_def r'_def split: sum.splits)
  have "gu_decisions s2 = gu_decisions s @ map snd cs" "scan_ok e (price_map e (scanned e s)) (scanned e s) cs"
    using c(2) l(2) by (simp_all add: scan_outcome_def)
  moreover have "r' = Inr () \<and> (\<forall>p \<in> set (scanned e s). breached e (price_map e (scanned e s)) p
      \<longrightarrow> ox_symbol p \<in> (ox_symbol \<circ> fst) ` set cs)" if "\<forall>sy. \<not> ge_fault e (G_publish_close sy)"
    using c(2) that by (cases r) (auto simp: scan_outcome_def r'_def)
  ultimately show ?thesis using run by blast
qed

lemma portfolio_checks_keep:
  "gu_decisions (snd (check_daily_loss e s)) = gu_decisions s"
  "gu_decisions (snd (check_circuit_breaker e s)) = gu_decisions s"
  by (auto simp: check_daily_loss_def check_circuit_breaker_def gfault_def eff_defs split: option.splits)

lemma cycle_decisions: "gu_decisions (snd (guardian_cycle e s)) = gu_decisions (snd (check_positions e s))"
  by (cases "check_positions e s") (auto simp: guardian_cycle_def snd_catch snd_bnd andthen_def portfolio_checks_keep
      split: sum.splits)

text \<open>C8: Whatever fails on the way, the closes a cycle publishes belong to scanned positions with a usable
  side, cost, quantity and price, each for an exit reason whose condition holds at that price, and no symbol
  is closed twice in one cycle.\<close>
theorem guardian_closes_justified:
  "\<exists>cs. gu_decisions (snd (guardian_cycle e s)) = gu_decisions s @ map snd cs
     \<and> scan_ok e (price_map e (scanned e s)) (scanned e s) cs"
  using check_positions_run [of e s] by (auto simp: cycle_decisions)


definition genv0 :: guardian_env where
  "genv0 = \<lparr>ge_rp = (\<lambda>_. ''?''), ge_fmt = (\<lambda>_. ''r''), ge_db_available = False, ge_db_rows = None,
     ge_paper_cells = [Json (PDict [(''symbol'', PStr ''BTC''), (''qty'', PFloat 2), (''side'', PStr ''long''),
       (''entry_price'', PFloat 100)])],
     ge_price_cell = (\<lambda>_. Json (PDict [(''price'', PFloat 50)])), ge_macro = (\<lambda>_. PNone), ge_mono = 0,
     ge_now = 0, ge_now_iso = ''t0'', ge_parse_utc = (\<lambda>_. None), ge_db_daily_pnl = None, ge_closed_trades = Some [],
     ge_uuid_msg = (\<lambda>_. ''m''), ge_uuid_trace = (\<lambda>_. ''t''), ge_clk = (\<lambda>n. real n), ge_fault = (\<lambda>_. False)\<rparr>"

definition guardian0 :: guardian where
  "guardian0 = \<lparr>gu_cache = [], gu_cache_valid = False, gu_cache_loaded_at = 0, gu_peaks = (\<lambda>_. Absent),
     gu_kill_switch = False, gu_registry = new_registry, gu_decisions = [], gu_alerts = []\<rparr>"

definition pos0 :: open_pos where
  "pos0 = \<lparr>ox_symbol = ''BTC'', ox_side = ''long'', ox_qty = 2, ox_avg_cost = 100, ox_strategy = [], ox_opened_at = PNone\<rparr>"

lemma py_lower_sides [simp]: "py_lower ''long'' = ''long''" "py_lower ''short'' = ''short''"
  by code_simp+

lemma scanned0: "scanned genv0 s = [pos0]"
  by (simp add: scanned_def load_open_positions_def genv0_def paper_position_def float_or_def str_or_def py_or_def
      pos0_def)

lemma price0: "price_map genv0 [pos0] ''BTC'' = Some 50"
  by (simp add: price_map_def pos0_def get_price_def genv0_def py_or_def safe_float_def Let_def)

lemma bounds0: "effective_exit_bounds genv0 sy il = (STOP_LOSS_PCT, TAKE_PROFIT_PCT)"
  by (simp add: effective_exit_bounds_def genv0_def regime_of_def stop_loss_pct_def take_profit_pct_def is_risk_off_def
      Let_def)

lemma breached0: "breached genv0 (price_map genv0 [pos0]) pos0"
  using price0 by (simp add: breached_def bounds0 side_long_def pos0_def unrealized_pct_def STOP_LOSS_PCT_def)


section \<open>The trailing stop\<close>

lemma isclose_refl [simp]: "isclose c c"
  by (simp add: isclose_def)

lemma stored_peak_cell:
  "0 < c \<Longrightarrow> stored_peak (peak_cell pk c) c x = Inr (if pk = 0 then x else max x pk)"
  by (simp add: stored_peak_def peak_cell_def float_or_def py_or_def)

definition watch :: "guardian_env \<Rightarrow> string \<Rightarrow> real \<Rightarrow> real list \<Rightarrow> guardian \<Rightarrow> guardian" where
  "watch e sy c ys s = foldl (\<lambda>t y. snd (check_trailing_stop e sy c y t)) s ys"

text \<open>the stored peak after watching \<open>ys\<close>: exact as soon as the position has been in profit\<close>
lemma watch_peak:
  assumes "\<not> ge_fault e (G_peak_set sy)" "gu_peaks s sy = Absent" "0 < c" "ys \<noteq> []"
  shows "\<exists>pk. gu_peaks (watch e sy c ys s) sy = peak_cell pk c \<and> pk \<le> Max (set ys) \<and> (0 < Max (set ys) \<longrightarrow> pk = Max (set ys))"
  using assms(4)
proof (induction ys rule: rev_nonempty_induct)
  case (single y)
  show ?case using assms(1-3)
    by (auto simp: watch_def check_trailing_stop_def stored_peak_def intro!: exI [of _ y])
next
  case (snoc y ys)
  obtain pk where pk: "gu_peaks (watch e sy c ys s) sy = peak_cell pk c" "pk \<le> Max (set ys)"
      "0 < Max (set ys) \<longrightarrow> pk = Max (set ys)"
    using snoc.IH by blast
  let ?n = "if pk = 0 then y else max y pk"
  have m: "Max (set (ys @ [y])) = max y (Max (set ys))" using snoc.hyps by (simp add: max.commute)
  have "gu_peaks (watch e sy c (ys @ [y]) s) sy = peak_cell ?n c"
    using pk(1) assms(1,3) by (simp add: watch_def check_trailing_stop_def stored_peak_cell)
  moreover have "?n \<le> Max (set (ys @ [y]))" "0 < Max (set (ys @ [y])) \<longrightarrow> ?n = Max (set (ys @ [y]))"
    unfolding m using pk(2,3) by (auto simp: max_def)
  ultimately show ?case by blast
qed

lemma verdict_of_peak:
  "pk \<le> M \<Longrightarrow> (0 < M \<longrightarrow> pk = M) \<Longrightarrow> trailing_verdict pk x = trailing_verdict M x"
  by (auto simp: trailing_verdict_def TRAILING_STOP_ARM_PCT_def)

text \<open>C14: Over the whole life of a position at one cost basis, the trailing stop fires exactly when the
  highest gain seen so far reached the arming level and the gain now is down to sixty percent of it or
  less. The stored peak loses a zero (it reads as missing), but never in a way the verdict can show.\<close>
theorem trailing_stop_follows_peak:
  assumes "\<not> ge_fault e (G_peak_set sy)" "gu_peaks s sy = Absent" "0 < c"
  shows "fst (check_trailing_stop e sy c x (watch e sy c ys s)) = Inr (trailing_verdict (Max (set (x # ys))) x)"
proof (cases "ys = []")
  case True
  then show ?thesis using assms by (simp add: watch_def check_trailing_stop_def stored_peak_def)
next
  case False
  obtain pk where pk: "gu_peaks (watch e sy c ys s) sy = peak_cell pk c" "pk \<le> Max (set ys)"
      "0 < Max (set ys) \<longrightarrow> pk = Max (set ys)"
    using watch_peak [OF assms False] by blast
  have "trailing_verdict (if pk = 0 then x else max x pk) x = trailing_verdict (max x (Max (set ys))) x"
    by (rule verdict_of_peak) (use pk(2,3) in \<open>auto simp: max_def\<close>)
  then show ?thesis using pk(1) assms(1,3) False by (simp add: check_trailing_stop_def stored_peak_cell)
qed

theorem trailing_stop_follows_peak_witness:
  "fst (check_trailing_stop genv0 ''BTC'' 100 (2 / 100) (watch genv0 ''BTC'' 100 [1 / 100, 5 / 100] guardian0))
     = Inr (Some (Trailing_stop (5 / 100) (2 / 100)))"
  using trailing_stop_follows_peak [of genv0 "''BTC''" guardian0 100 "2 / 100" "[1 / 100, 5 / 100]"]
  by (simp add: genv0_def guardian0_def trailing_verdict_def TRAILING_STOP_ARM_PCT_def TRAILING_STOP_GIVEBACK_FRAC_def)

section \<open>The kill switch\<close>

definition kill_level :: "guardian_env \<Rightarrow> bool" where
  "kill_level e \<longleftrightarrow> (case today_realized_pnl e of None \<Rightarrow> False | Some pnl \<Rightarrow> pnl < loss_threshold e)
     \<or> evaluate_breaker (drawdown_inputs (portfolio_drawdown_pct e)) \<noteq> []"

definition kept_kill :: "guardian \<Rightarrow> guardian \<Rightarrow> bool" where
  "kept_kill s s' \<longleftrightarrow> gu_kill_switch s' = gu_kill_switch s"

interpretation kk: frame kept_kill
  by unfold_locales (auto simp: kept_kill_def)

lemma check_position_keeps_kill: "keeps kept_kill (check_position e prices p already)"
proof -
  have "keeps kept_kill (check_trailing_stop e sy c x)" for sy c x
    by (auto simp: keeps_def check_trailing_stop_def kept_kill_def split: sum.splits)
  then have "keeps kept_kill (exit_reason_of e p il x)" for il x
    unfolding exit_reason_of_def
    by (auto split: prod.splits option.splits intro!: kk.keeps_bnd kk.keeps_pure)
  moreover have "keeps kept_kill (publish_close e p il pr r)" "keeps kept_kill (clear_trailing_state e sy)" for il pr r sy
    unfolding publish_close_def gfault_def clear_trailing_state_def
    by (auto intro!: kk.keeps_andthen kk.keeps_pure kk.keeps_modify simp: kept_kill_def)
  ultimately show ?thesis unfolding check_position_def
    by (auto split: option.splits intro!: kk.keeps_bnd kk.keeps_andthen kk.keeps_pure kk.keeps_modify simp: kept_kill_def)
qed

lemma check_positions_keep_kill: "keeps kept_kill (check_positions e)"
proof -
  have each: "keeps kept_kill (check_each e prices ps already)" for prices ps already
    by (induction ps arbitrary: already) (auto intro: kk.keeps_bnd kk.keeps_pure check_position_keeps_kill)
  have "kept_kill s (snd (load_open_positions e s))" for s
    using load_open_run [of e s] by (auto simp: kept_kill_def)
  then have "keeps kept_kill (load_open_positions e)" by (simp add: keeps_def)
  then show ?thesis unfolding check_positions_def
    by (intro kk.keeps_bnd kk.keeps_pure each)
qed

text \<open>neither the failed nor the successful writes of the two portfolio checks clear the switch\<close>
lemma daily_loss_kill:
  "gu_kill_switch (snd (check_daily_loss e s)) \<longleftrightarrow>
     gu_kill_switch s \<or> \<not> ge_fault e G_kill_set \<and>
       (case today_realized_pnl e of None \<Rightarrow> False | Some pnl \<Rightarrow> pnl < loss_threshold e)"
  by (auto simp: check_daily_loss_def gfault_def eff_defs split: option.splits)

lemma daily_loss_returns: "fst (check_daily_loss e s) = Inr ()"
  by (auto simp: check_daily_loss_def gfault_def eff_defs split: option.splits)

lemma breaker_kill:
  "gu_kill_switch (snd (check_circuit_breaker e s)) \<longleftrightarrow>
     gu_kill_switch s \<or> \<not> ge_fault e G_kill_set \<and> evaluate_breaker (drawdown_inputs (portfolio_drawdown_pct e)) \<noteq> []"
  by (auto simp: check_circuit_breaker_def gfault_def eff_defs)

text \<open>the switch after a cycle, exactly\<close>
lemma cycle_kill:
  "gu_kill_switch (snd (guardian_cycle e s)) \<longleftrightarrow>
     gu_kill_switch s \<or> fst (check_positions e s) = Inr () \<and> \<not> ge_fault e G_kill_set \<and> kill_level e"
proof -
  obtain r s1 where c: "check_positions e s = (r, s1)" by fastforce
  have k1: "gu_kill_switch s1 = gu_kill_switch s"
    using keepsD [OF check_positions_keep_kill, of s e] c by (simp add: kept_kill_def)
  show ?thesis
  proof (cases r)
    case (Inl x)
    then have "snd (guardian_cycle e s) = s1"
      using c by (simp add: guardian_cycle_def snd_catch andthen_def bnd_def)
    then show ?thesis using k1 Inl c by auto
  next
    case (Inr u)
    have "snd (guardian_cycle e s) = snd (check_circuit_breaker e (snd (check_daily_loss e s1)))"
      using c Inr daily_loss_returns [of e s1]
      by (cases "check_daily_loss e s1") (simp add: guardian_cycle_def snd_catch andthen_def bnd_def split: sum.splits)
    then show ?thesis using k1 c Inr by (auto simp: breaker_kill daily_loss_kill kill_level_def)
  qed
qed

text \<open>C15: a cycle never clears the kill switch and sets it only when the day's realised loss passed the
  limit of the regime or the drawdown trips the circuit breaker; when no close fails to publish and Redis
  takes the write, it does set it then.\<close>
theorem kill_switch_latches:
  "(gu_kill_switch s \<longrightarrow> gu_kill_switch (snd (guardian_cycle e s)))
   \<and> (gu_kill_switch (snd (guardian_cycle e s)) \<longrightarrow> gu_kill_switch s \<or> kill_level e)
   \<and> (kill_level e \<longrightarrow> (\<forall>sy. \<not> ge_fault e (G_publish_close sy)) \<longrightarrow> \<not> ge_fault e G_kill_set \<longrightarrow>
       gu_kill_switch (snd (guardian_cycle e s)))"
  using check_positions_run [of e s] by (auto simp: cycle_kill)

text \<open>realised losses of the day beyond the limit\<close>
definition losing_env :: guardian_env where
  "losing_env = genv0\<lparr>ge_parse_utc := (\<lambda>_. Some 0),
     ge_closed_trades := Some [[(''filled_at'', PStr ''t0''), (''pnl'', PFloat (- 50000))]]\<rparr>"

lemma losing_level: "kill_level losing_env"
proof -
  have "today_realized_pnl losing_env = Some (- 50000)"
    by (simp add: today_realized_pnl_def losing_env_def genv0_def closed_today_def parse_utc_def py_or_def trade_pnl_def
        float_or_def)
  then show ?thesis
    by (simp add: kill_level_def loss_threshold_def effective_daily_loss_limit_pct_def losing_env_def genv0_def
        regime_of_def daily_loss_limit_pct_def is_risk_off_def DAILY_LOSS_LIMIT_PCT_def DEFAULT_PAPER_CASH_def)
qed

theorem kill_switch_latches_witness: "gu_kill_switch (snd (guardian_cycle losing_env guardian0))"
  using kill_switch_latches [of guardian0 losing_env] losing_level by (simp add: losing_env_def genv0_def)

section \<open>A malformed position hides the rest\<close>

lemma load_paper_stops:
  "paper_position rp v = Inl x \<Longrightarrow> load_paper_positions rp (before @ Json v # behind) = load_paper_positions rp before"
  by (induction before) (auto split: json_cell.splits sum.splits option.splits)

text \<open>One paper position whose payload is not an object or whose numbers do not parse ends the scan of
  the remaining keys: only positions before it can be closed in this cycle, and those behind it get no
  stop loss, whatever their price.\<close>
theorem malformed_position_hides_the_rest:
  assumes "\<not> ge_db_available e" "ge_paper_cells e = before @ Json v # behind" "paper_position (ge_rp e) v = Inl x"
  shows "(\<lambda>d. py_get d ''symbol'') ` set (drop (length (gu_decisions s)) (gu_decisions (snd (guardian_cycle e s))))
     \<subseteq> (PStr \<circ> ox_symbol) ` set (load_paper_positions (ge_rp e) before)"
proof -
  have sc: "scanned e s = load_paper_positions (ge_rp e) before"
    using assms load_paper_stops by (simp add: scanned_def load_open_positions_def)
  obtain cs where cs: "gu_decisions (snd (guardian_cycle e s)) = gu_decisions s @ map snd cs"
      "scan_ok e (price_map e (scanned e s)) (scanned e s) cs"
    using check_positions_run [of e s] unfolding cycle_decisions by (metis snd_conv)
  have "py_get d ''symbol'' = PStr (ox_symbol p) \<and> p \<in> set (scanned e s)" if "(p, d) \<in> set cs" for p d
    using cs(2) that by (auto simp: scan_ok_def list_all_iff close_allowed_def close_decision_def)
  then show ?thesis using cs(1) sc by force
qed

theorem malformed_position_hides_the_rest_witness:
  "gu_decisions (snd (guardian_cycle
     (genv0\<lparr>ge_paper_cells := Json (PDict [(''qty'', PStr ''n/a'')]) # ge_paper_cells genv0\<rparr>) guardian0)) = []"
  (is "gu_decisions (snd (guardian_cycle ?e guardian0)) = []")
proof -
  let ?v = "PDict [(''qty'', PStr ''n/a'')]"
  have "py_float (PStr ''n/a'') = Inl ValueError" by code_simp
  then have bad: "paper_position (ge_rp ?e) ?v = Inl ValueError"
    by (simp add: paper_position_def float_or_def py_or_def)
  have "\<not> ge_db_available ?e" "ge_paper_cells ?e = [] @ Json ?v # ge_paper_cells genv0" by (simp_all add: genv0_def)
  from malformed_position_hides_the_rest [OF this bad, of guardian0] show ?thesis by (simp add: guardian0_def)
qed

end
