(* ===== verification/Guardian_Engine.thy ===== *)
theory Guardian_Engine
  imports Guardian_Properties Engine_Properties
begin

text \<open>
  The guardian's closes in the execution engine: the decision it publishes is what the engine consumes,
  and the size it asks for goes through the engine's Kelly sizing and its clamps.
\<close>

section \<open>Kelly sizing\<close>

text \<open>an admitted decision with a size fraction gets that fraction of the cash, and the cash is initialised\<close>
lemma admit_kelly:
  assumes "parse_decision_fields (en_rp e) (en_uuid_strategy e) (en_uuid_trace e) data = Inr p"
    and "is_paper_mode e" "gates_open e data p s" "num_or data ''size_pct'' 0 = Inr f"
    and "0 < f" "0 < d_price p" "\<not> en_fault e F_cash" "0 < cash_of (e_broker s)"
    and "build_idempotency_key e p data = Inr key"
  shows "\<exists>s1. admit e data s = (Inr (Some \<lparr>ad_parsed = p, ad_confidence = fst (extract_decision_scores data),
       ad_qty = f * cash_of (e_broker s) / d_price p, ad_key = key\<rparr>), s1)
     \<and> e_broker s1 = init_cash (e_broker s) \<and> e_dedup s1 = e_dedup s \<and> e_locks s1 = e_locks s"
proof -
  obtain sc rs atr pct where x: "extract_decision_scores data = (sc, rs)" "atr_of data = Inr atr"
      "num_or data ''pct'' 0 = Inr pct" "gate_verdict e (d_side p) (d_symbol p) sc rs atr \<bar>pct\<bar> s = None"
    using assms(3) by (auto simp: gates_open_def split: prod.splits sum.splits)
  have "is_fallback_blocked e p data s = (Inr False, s)"
    using assms(2) by (simp add: is_fallback_blocked_def Let_def)
  then have pv: "parse_and_validate e data s = (Inr (Some p), s)"
    using assms(1) by (simp add: parse_and_validate_def bnd_def)
  obtain s2 where g: "check_pre_execution_gates e (d_side p) (d_symbol p) sc rs (d_trace_id p) atr \<bar>pct\<bar> s = (Inr None, s2)"
      "e_broker s2 = e_broker s" "e_dedup s2 = e_dedup s" "e_locks s2 = e_locks s"
    using x(4) by (simp add: check_pre_execution_gates_def record_exec_tool_def bnd_def andthen_def)
  have "0 < f * cash_of (e_broker s) / d_price p" using assms(5,6,8) by simp
  then have k: "apply_kelly_sizing e data (d_qty p) (d_price p) s2
      = (Inr (f * cash_of (e_broker s) / d_price p), s2\<lparr>e_broker := init_cash (e_broker s)\<rparr>)"
    using assms(4-7) g(2) by (simp add: apply_kelly_sizing_def Let_def cash_of_def)
  show ?thesis using x assms(9) g(3,4)
    by (simp add: admit_def bnd_def [of "parse_and_validate e data"] pv bnd_def [of "check_pre_execution_gates _ _ _ _ _ _ _ _"]
        g(1) bnd_def [of "apply_kelly_sizing _ _ _ _"] k)
qed

section \<open>A close in the engine\<close>

definition close_parsed :: "guardian_env \<Rightarrow> engine_env \<Rightarrow> open_pos \<Rightarrow> bool \<Rightarrow> real \<Rightarrow> ParsedDecision" where
  "close_parsed e ee p il price = \<lparr>d_side = (if il then ''sell'' else ''buy''), d_symbol = ox_symbol p, d_qty = ox_qty p,
     d_price = price,
     d_strategy_id = (if ox_strategy p = [] then en_uuid_strategy ee else ox_strategy p),
     d_trace_id = (if ge_uuid_trace e (ox_symbol p) = [] then en_uuid_trace ee else ge_uuid_trace e (ox_symbol p))\<rparr>"

lemma py_lower_actions [simp]: "py_lower ''sell'' = ''sell''" "py_lower ''buy'' = ''buy''"
  by code_simp+

lemma parse_close:
  assumes "0 < ox_qty p" "0 < price" "ox_symbol p \<noteq> []"
  shows "parse_decision_fields (en_rp ee) (en_uuid_strategy ee) (en_uuid_trace ee) (close_decision e p il price r)
     = Inr (close_parsed e ee p il price)"
  using assms by (simp add: parse_decision_fields_def close_decision_def close_parsed_def side_or_action_of_def
      missing_fields_def py_or_def Let_def safe_float_def)

lemma close_size: "num_or (close_decision e p il price r) ''size_pct'' 0 = Inr 1"
  by (simp add: num_or_def close_decision_def py_or_def)

text \<open>A close of a long position asks for the whole position (\<open>size_pct = 1.0\<close>, documented as closing it
  entirely), but the engine reads the field as the fraction of the cash to trade: what it sells is the cash
  divided by the price, clamped to the position. A stop loss on a position worth more than the remaining
  cash therefore leaves the rest of the position open.\<close>
theorem guardian_close_sells_cash_over_price:
  fixes s :: engine
  assumes "\<not> e_kill_switch s" "\<not> e_paused s" "\<not> en_db_available ee" "is_paper_mode ee"
    and "0 < ox_qty p" "0 < price" "ox_symbol p \<noteq> []"
    and "gates_open ee (close_decision e p True price r) (close_parsed e ee p True price) s"
    and "build_idempotency_key ee (close_parsed e ee p True price) (close_decision e p True price r) = Inr key"
    and "\<not> e_dedup s key" "e_locks s (ox_symbol p) = None" "\<And>f. \<not> en_fault ee f"
    and "broker_ok (e_broker s)" "pos_side (get_position (e_broker s) (ox_symbol p)) = ''long''"
    and "0 < cash_of (e_broker s)"
  shows "qty_held (snd (process ee ee2 (close_decision e p True price r) s)) (ox_symbol p)
     = qty_held s (ox_symbol p) - min (qty_held s (ox_symbol p)) (cash_of (e_broker s) / price)"
proof -
  let ?d = "close_decision e p True price r" and ?p = "close_parsed e ee p True price" and ?sy = "ox_symbol p"
  let ?q = "min (qty_held s ?sy) (cash_of (e_broker s) / price)"
  let ?a = "\<lparr>ad_parsed = ?p, ad_confidence = fst (extract_decision_scores ?d),
      ad_qty = cash_of (e_broker s) / price, ad_key = key\<rparr>"
  let ?t = "s\<lparr>e_evaluated := Suc (e_evaluated s)\<rparr>"
  have pp: "d_symbol ?p = ?sy" "d_side ?p = ''sell''" "d_price ?p = price" by (simp_all add: close_parsed_def)
  obtain s1 where ad: "admit ee ?d ?t = (Inr (Some ?a), s1)"
    and f: "e_broker s1 = init_cash (e_broker s)" "e_dedup s1 = e_dedup s" "e_locks s1 = e_locks s"
    using admit_kelly [of ee ?d ?p ?t 1 key, OF parse_close [OF assms(5-7)] assms(4)] assms(6,8,9,12,15) close_size
    by (auto simp: pp)
  have ok: "pos_ok (get_position (e_broker s) ?sy)" using assms(13) by (simp add: broker_ok_def)
  have h: "0 < qty_held s ?sy"
    using ok assms(14) by (auto simp: pos_ok_def qty_held_def)
  have "sized ee ?a (broker_position s ?sy) ?q"
    using h assms(14) by (simp add: sized_def pp broker_position_def reject_pos_dict [OF ok] clamp_order_qty_def
        is_sell_side_def is_buy_side_def qty_pos_dict qty_held_def min_def)
  then have "placed ee ?a ?q s1 (snd (memory_guarded ee ?d ?a s1))"
    by (intro memory_guarded_places) (use assms(10-12) f in \<open>simp_all add: pp broker_position_def\<close>)
  then have "e_broker (snd (process ee ee2 ?d s))
      = snd (place_order (en_order ee) ?sy ''sell'' ?q price (init_cash (e_broker s)))"
    using assms(1-3) ad f(1)
    by (simp add: process_def process_in_memory_def bnd_def [of "admit ee ?d"] placed_def pp)
  then show ?thesis
    by (simp add: qty_held_def get_position_place order_direction_def is_buy_side_def)
qed

definition short_of_cash :: engine where
  "short_of_cash = init_engine\<lparr>e_broker := \<lparr>b_cash = Some 10,
     b_positions = (\<lambda>_. None)(''BTC'' := Some \<lparr>pos_symbol = ''BTC'', pos_side = ''long'', pos_qty = 2, pos_entry = 100,
       pos_current = 100, pos_opened = Some ''t''\<rparr>), b_orders = (\<lambda>_. None)\<rparr>\<rparr>"

lemma gates_open_close:
  "gates_open env0 (close_decision genv0 pos0 True 50 r) (close_parsed genv0 env0 pos0 True 50) short_of_cash"
proof -
  have "gate_verdict env0 ''sell'' ''BTC'' 1 1 None 0 short_of_cash = None"
    by (simp add: gate_verdict_def check_execution_gate_def check_confidence_gate_def check_cooling_off_gate_def
        is_cooling_off_def cooling_off_score_def entry_threshold_def regime_of_def execution_threshold_def
        is_risk_off_def compute_execution_score_def EXECUTION_DECISION_THRESHOLD_MEMORY_def init_engine_def
        SIGNAL_CONFIDENCE_MIN_GATE_def COOLING_OFF_THRESHOLD_def NO_ORDER_ACTIONS_def short_of_cash_def Let_def)
  then show ?thesis
    by (simp add: gates_open_def close_parsed_def close_decision_def extract_decision_scores_def as_score_def
        atr_of_def num_or_def py_or_def pos0_def Let_def safe_float_def)
qed

theorem guardian_close_sells_cash_over_price_witness:
  "qty_held (snd (process env0 env0 (close_decision genv0 pos0 True 50 (Stop_loss (- 1 / 2))) short_of_cash)) ''BTC'' = 9 / 5"
proof -
  have ok: "broker_ok (e_broker short_of_cash)"
    by (simp add: broker_ok_def short_of_cash_def get_position_def pos_ok_def flat_position_def)
  have k: "build_idempotency_key env0 (close_parsed genv0 env0 pos0 True 50)
      (close_decision genv0 pos0 True 50 (Stop_loss (- 1 / 2))) = Inr ''us_BTC_sell_m_h''"
    by (simp add: build_idempotency_key_def env0_def close_parsed_def close_decision_def pos0_def)
  have "qty_held (snd (process env0 env0 (close_decision genv0 pos0 True 50 (Stop_loss (- 1 / 2))) short_of_cash)) (ox_symbol pos0)
      = qty_held short_of_cash (ox_symbol pos0) - min (qty_held short_of_cash (ox_symbol pos0)) (cash_of (e_broker short_of_cash) / 50)"
    by (rule guardian_close_sells_cash_over_price [OF _ _ _ _ _ _ _ gates_open_close k _ _ _ ok])
      (simp_all add: short_of_cash_def init_engine_def pos0_def get_position_def cash_of_def get_cash_def init_cash_def)
  then show ?thesis
    by (simp add: short_of_cash_def init_engine_def pos0_def get_position_def cash_of_def get_cash_def init_cash_def
        qty_held_def)
qed

section \<open>The capped mirror of closed trades\<close>

definition stamp_trade :: "engine_env \<Rightarrow> pydict \<Rightarrow> pydict" where
  "stamp_trade ee t = (if truthy (py_get t ''timestamp'') then t else dset ''timestamp'' (PStr (en_now_iso ee)) t)"

definition push_all :: "engine_env \<Rightarrow> pydict list \<Rightarrow> engine \<Rightarrow> engine" where
  "push_all ee ts s = foldl (\<lambda>s t. snd (push_closed_trade ee t s)) s ts"

lemma take_Cons_take: "take n (x # take n ys) = take n (x # ys)"
  by (cases n) simp_all

lemma push_all_mirror:
  assumes "en_has_redis_store ee" "\<not> en_fault ee F_closed_trade_push"
  shows "e_redis_closed (push_all ee ts s)
     = (if ts = [] then e_redis_closed s else take REDIS_CLOSED_TRADES_MAX (rev (map (stamp_trade ee) ts) @ e_redis_closed s))"
proof (induction ts rule: rev_induct)
  case Nil
  then show ?case by (simp add: push_all_def)
next
  case (snoc t ts)
  have "e_redis_closed (push_all ee (ts @ [t]) s) = take REDIS_CLOSED_TRADES_MAX (stamp_trade ee t # e_redis_closed (push_all ee ts s))"
    using assms by (simp add: push_all_def push_closed_trade_def stamp_trade_def)
  then show ?case unfolding snoc.IH by (simp add: take_Cons_take del: take_append)
qed

definition a_close :: "real \<Rightarrow> pydict" where
  "a_close pnl = [(''pnl'', PFloat pnl), (''filled_at'', PStr ''t0'')]"

text \<open>one large gain, then a hundred small losses: the day is 9,400 in profit\<close>
definition good_day :: "pydict list" where
  "good_day = a_close 20000 # replicate 100 (a_close (- 106))"

lemma stamp_close: "stamp_trade env0 (a_close x) = a_close x @ [(''timestamp'', PStr ''t0'')]"
  by (simp add: stamp_trade_def a_close_def env0_def)

text \<open>The guardian reads the last hundred closed trades, and the code states that the cap can only
  under-count and never trip the switch too early. It can: when a gain falls out of the window the sum
  drops, and on a day that is in profit the engine's mirror makes the guardian set the kill switch.\<close>
theorem capped_mirror_trips_on_a_profit:
  "0 < sum_list (map trade_pnl good_day)
   \<and> gu_kill_switch (snd (guardian_cycle
       (losing_env\<lparr>ge_closed_trades := Some (e_redis_closed (push_all env0 good_day init_engine))\<rparr>) guardian0))"
proof -
  let ?m = "e_redis_closed (push_all env0 good_day init_engine)"
  let ?e = "losing_env\<lparr>ge_closed_trades := Some ?m\<rparr>"
  let ?loss = "a_close (- 106) @ [(''timestamp'', PStr ''t0'')]"
  have pnl: "trade_pnl (a_close x) = x" "trade_pnl (a_close x @ [(''timestamp'', PStr ''t0'')]) = x" for x
    by (simp_all add: trade_pnl_def a_close_def)
  have "en_has_redis_store env0" by (simp add: env0_def)
  then have m: "?m = replicate 100 ?loss"
    by (simp add: push_all_mirror good_day_def REDIS_CLOSED_TRADES_MAX_def stamp_close init_engine_def)
  have "closed_today ?e ?loss"
    by (simp add: closed_today_def parse_utc_def losing_env_def genv0_def a_close_def py_or_def)
  then have "today_realized_pnl ?e = Some (- 10600)"
    by (simp add: m today_realized_pnl_def losing_env_def genv0_def sum_list_replicate pnl)
  moreover have "loss_threshold ?e = - 2000"
    by (simp add: loss_threshold_def effective_daily_loss_limit_pct_def losing_env_def genv0_def
        regime_of_def daily_loss_limit_pct_def is_risk_off_def DAILY_LOSS_LIMIT_PCT_def DEFAULT_PAPER_CASH_def)
  ultimately have k: "kill_level ?e" by (simp add: kill_level_def)
  have "\<forall>sy. \<not> ge_fault ?e (G_publish_close sy)" "\<not> ge_fault ?e G_kill_set" by (simp_all add: losing_env_def genv0_def)
  then have "gu_kill_switch (snd (guardian_cycle ?e guardian0))"
    using k check_positions_run [of ?e guardian0] by (auto simp: cycle_kill)
  then show ?thesis by (simp add: good_day_def pnl sum_list_replicate)
qed

end
