(* ===== verification/Cog_Config.thy ===== *)
theory Cog_Config
  imports Py_Prelude
begin

text \<open>
  The versioned behaviour configuration (\<open>cognitive/config.py\<close>): defaults, bounds, the
  validator and the loader. The file is what \<open>json.loads\<close> returned, or nothing when it is
  missing, unreadable or no JSON. Validation messages are constructors.
\<close>

definition WEIGHT_KEYS :: "string list" where
  "WEIGHT_KEYS = [''news'', ''tech'', ''macro'']"

definition WEIGHT_BOUNDS :: "real \<times> real" where "WEIGHT_BOUNDS = (0, 1)"
definition BUY_THRESHOLD_BOUNDS :: "real \<times> real" where "BUY_THRESHOLD_BOUNDS = (0, 95 / 100)"
definition SELL_THRESHOLD_BOUNDS :: "real \<times> real" where "SELL_THRESHOLD_BOUNDS = (- 95 / 100, 0)"
definition MAX_POSITION_SIZE_BOUNDS :: "real \<times> real" where
  "MAX_POSITION_SIZE_BOUNDS = (1 / 1000, 1 / 2)"
definition MAX_DAILY_LOSS_BOUNDS :: "real \<times> real" where
  "MAX_DAILY_LOSS_BOUNDS = (1 / 1000, 25 / 100)"
definition MAX_EXPOSURE_BOUNDS :: "real \<times> real" where "MAX_EXPOSURE_BOUNDS = (1 / 100, 1)"

record CognitiveConfig =
  cc_version :: int
  cc_weights :: "(string \<times> real) list"
  cc_buy_threshold :: real
  cc_sell_threshold :: real
  cc_max_position_size_pct :: real
  cc_max_daily_loss_pct :: real
  cc_max_exposure_pct :: real

definition DEFAULTS :: pydict where
  "DEFAULTS = [(''version'', PInt 1),
     (''weights'', PDict [(''news'', PFloat (34 / 100)), (''tech'', PFloat (33 / 100)),
                          (''macro'', PFloat (33 / 100))]),
     (''buy_threshold'', PFloat (15 / 100)), (''sell_threshold'', PFloat (- 15 / 100)),
     (''risk'', PDict [(''max_position_size_pct'', PFloat (5 / 100)),
        (''max_daily_loss_pct'', PFloat (2 / 100)), (''max_exposure_pct'', PFloat (30 / 100))])]"

definition sub_dict :: "pydict \<Rightarrow> string \<Rightarrow> pydict" where
  "sub_dict d k = (case py_get d k of PDict x \<Rightarrow> x | _ \<Rightarrow> [])"

text \<open>\<open>float(d.get(k, default))\<close>\<close>
definition float_get :: "pydict \<Rightarrow> string \<Rightarrow> pyval \<Rightarrow> real pyres" where
  "float_get d k x = py_float (dget d k x)"

definition config_from_dict :: "pydict \<Rightarrow> CognitiveConfig pyres" where
  "config_from_dict data =
     (let dw = sub_dict DEFAULTS ''weights''; dr = sub_dict DEFAULTS ''risk'' in
      res_bind (dict_or_empty (py_get data ''weights'')) (\<lambda>weights_in.
      res_bind (float_get weights_in ''news'' (py_get dw ''news'')) (\<lambda>news.
      res_bind (float_get weights_in ''tech'' (py_get dw ''tech'')) (\<lambda>tech.
      res_bind (float_get weights_in ''macro'' (py_get dw ''macro'')) (\<lambda>macro.
      res_bind (py_int (dget data ''version'' (py_get DEFAULTS ''version''))) (\<lambda>version.
      res_bind (float_get data ''buy_threshold'' (py_get DEFAULTS ''buy_threshold'')) (\<lambda>buy.
      res_bind (float_get data ''sell_threshold'' (py_get DEFAULTS ''sell_threshold'')) (\<lambda>sell.
      res_bind (dict_or_empty (py_get data ''risk'')) (\<lambda>risk.
      res_bind (float_get risk ''max_position_size_pct'' (py_get dr ''max_position_size_pct'')) (\<lambda>mps.
      res_bind (float_get risk ''max_daily_loss_pct'' (py_get dr ''max_daily_loss_pct'')) (\<lambda>mdl.
      res_bind (float_get risk ''max_exposure_pct'' (py_get dr ''max_exposure_pct'')) (\<lambda>mex.
        Inr \<lparr>cc_version = version,
             cc_weights = [(''news'', news), (''tech'', tech), (''macro'', macro)],
             cc_buy_threshold = buy, cc_sell_threshold = sell, cc_max_position_size_pct = mps,
             cc_max_daily_loss_pct = mdl, cc_max_exposure_pct = mex\<rparr>))))))))))))"

definition config_to_dict :: "CognitiveConfig \<Rightarrow> pydict" where
  "config_to_dict c =
     [(''version'', PInt (cc_version c)),
      (''weights'', PDict (map (\<lambda>(k, w). (k, PFloat w)) (cc_weights c))),
      (''buy_threshold'', PFloat (cc_buy_threshold c)), (''sell_threshold'', PFloat (cc_sell_threshold c)),
      (''risk'', PDict [(''max_position_size_pct'', PFloat (cc_max_position_size_pct c)),
         (''max_daily_loss_pct'', PFloat (cc_max_daily_loss_pct c)),
         (''max_exposure_pct'', PFloat (cc_max_exposure_pct c))])]"

definition DEFAULT_CONFIG :: CognitiveConfig where
  "DEFAULT_CONFIG = \<lparr>cc_version = 1,
     cc_weights = [(''news'', 34 / 100), (''tech'', 33 / 100), (''macro'', 33 / 100)],
     cc_buy_threshold = 15 / 100, cc_sell_threshold = - 15 / 100, cc_max_position_size_pct = 5 / 100,
     cc_max_daily_loss_pct = 2 / 100, cc_max_exposure_pct = 30 / 100\<rparr>"

section \<open>Validation and loading\<close>

definition in_bounds :: "pyval \<Rightarrow> real \<times> real \<Rightarrow> bool" where
  "in_bounds v bounds = (case v of PNone \<Rightarrow> False | PBool _ \<Rightarrow> False
     | _ \<Rightarrow> (case py_float v of Inl _ \<Rightarrow> False
             | Inr numeric \<Rightarrow> fst bounds \<le> numeric \<and> numeric \<le> snd bounds))"

datatype config_error =
    Not_an_object
  | Weights_not_object
  | Weight_missing string
  | Weight_outside string pyval
  | Buy_outside
  | Sell_outside
  | Sell_not_below_buy
  | Risk_not_object
  | Risk_outside string pyval

definition weight_errors :: "pydict \<Rightarrow> config_error list" where
  "weight_errors weights = concat (map (\<lambda>key. case map_of weights key of
       None \<Rightarrow> [Weight_missing key]
     | Some v \<Rightarrow> if in_bounds v WEIGHT_BOUNDS then [] else [Weight_outside key v]) WEIGHT_KEYS)"

definition threshold_errors :: "pyval \<Rightarrow> pyval \<Rightarrow> config_error list" where
  "threshold_errors buy sell =
     (if in_bounds buy BUY_THRESHOLD_BOUNDS then [] else [Buy_outside])
   @ (if in_bounds sell SELL_THRESHOLD_BOUNDS then [] else [Sell_outside])
   @ (if in_bounds buy BUY_THRESHOLD_BOUNDS \<and> in_bounds sell SELL_THRESHOLD_BOUNDS
      then (case (py_float sell, py_float buy) of
              (Inr s, Inr b) \<Rightarrow> if s \<ge> b then [Sell_not_below_buy] else []
            | _ \<Rightarrow> [])
      else [])"

definition risk_errors :: "pydict \<Rightarrow> config_error list" where
  "risk_errors risk = concat (map (\<lambda>(key, bounds).
       if in_bounds (py_get risk key) bounds then [] else [Risk_outside key (py_get risk key)])
     [(''max_position_size_pct'', MAX_POSITION_SIZE_BOUNDS), (''max_daily_loss_pct'', MAX_DAILY_LOSS_BOUNDS),
      (''max_exposure_pct'', MAX_EXPOSURE_BOUNDS)])"

definition validate_config_dict :: "pyval \<Rightarrow> config_error list" where
  "validate_config_dict v = (case v of
       PDict data \<Rightarrow>
         (case py_get data ''weights'' of PDict w \<Rightarrow> weight_errors w | _ \<Rightarrow> [Weights_not_object])
       @ threshold_errors (py_get data ''buy_threshold'') (py_get data ''sell_threshold'')
       @ (case py_get data ''risk'' of PDict r \<Rightarrow> risk_errors r | _ \<Rightarrow> [Risk_not_object])
     | _ \<Rightarrow> [Not_an_object])"

definition load_config :: "pyval option \<Rightarrow> CognitiveConfig pyres" where
  "load_config raw_file = (case raw_file of
       None \<Rightarrow> Inr DEFAULT_CONFIG
     | Some raw \<Rightarrow>
         if validate_config_dict raw \<noteq> [] then Inr DEFAULT_CONFIG
         else (case raw of PDict d \<Rightarrow> config_from_dict d | _ \<Rightarrow> Inl AttributeError))"

definition clamp_weight :: "real \<Rightarrow> real" where
  "clamp_weight v = max (fst WEIGHT_BOUNDS) (min (snd WEIGHT_BOUNDS) v)"

section \<open>What a loaded configuration guarantees\<close>

lemmas bounds_defs = WEIGHT_BOUNDS_def BUY_THRESHOLD_BOUNDS_def SELL_THRESHOLD_BOUNDS_def
  MAX_POSITION_SIZE_BOUNDS_def MAX_DAILY_LOSS_BOUNDS_def MAX_EXPOSURE_BOUNDS_def

definition between :: "real \<Rightarrow> real \<times> real \<Rightarrow> bool" where
  "between x b \<longleftrightarrow> fst b \<le> x \<and> x \<le> snd b"

text \<open>the guardrails, on the typed configuration\<close>
definition config_safe :: "CognitiveConfig \<Rightarrow> bool" where
  "config_safe c \<longleftrightarrow> map fst (cc_weights c) = WEIGHT_KEYS
     \<and> list_all (\<lambda>w. between w WEIGHT_BOUNDS) (map snd (cc_weights c))
     \<and> between (cc_buy_threshold c) BUY_THRESHOLD_BOUNDS
     \<and> between (cc_sell_threshold c) SELL_THRESHOLD_BOUNDS
     \<and> cc_sell_threshold c < cc_buy_threshold c
     \<and> between (cc_max_position_size_pct c) MAX_POSITION_SIZE_BOUNDS
     \<and> between (cc_max_daily_loss_pct c) MAX_DAILY_LOSS_BOUNDS
     \<and> between (cc_max_exposure_pct c) MAX_EXPOSURE_BOUNDS"

lemma in_bounds_float: "in_bounds v b \<Longrightarrow> \<exists>x. py_float v = Inr x \<and> between x b"
  by (auto simp: in_bounds_def between_def split: pyval.splits sum.splits)

lemma in_bounds_PFloat [simp]: "in_bounds (PFloat x) b \<longleftrightarrow> between x b"
  by (simp add: in_bounds_def between_def)

lemma in_bounds_not_None: "in_bounds v b \<Longrightarrow> v \<noteq> PNone"
  by (auto simp: in_bounds_def)

text \<open>a present key in its bounds: the default plays no part\<close>
lemma float_get_present:
  assumes "in_bounds (py_get d k) b"
  shows "\<exists>x. float_get d k y = Inr x \<and> between x b"
  using in_bounds_float [OF assms] in_bounds_not_None [OF assms]
  by (auto simp: float_get_def py_get_def dget_def split: option.splits)

lemma weight_errors_Nil:
  "weight_errors w = [] \<Longrightarrow> k \<in> set WEIGHT_KEYS \<Longrightarrow> in_bounds (py_get w k) WEIGHT_BOUNDS"
  by (auto simp: weight_errors_def py_get_def split: option.splits if_splits)

lemma risk_errors_Nil:
  assumes "risk_errors r = []"
  shows "in_bounds (py_get r ''max_position_size_pct'') MAX_POSITION_SIZE_BOUNDS"
    "in_bounds (py_get r ''max_daily_loss_pct'') MAX_DAILY_LOSS_BOUNDS"
    "in_bounds (py_get r ''max_exposure_pct'') MAX_EXPOSURE_BOUNDS"
  using assms by (auto simp: risk_errors_def split: if_splits)

lemma threshold_errors_Nil:
  assumes "threshold_errors buy sell = []"
  shows "in_bounds buy BUY_THRESHOLD_BOUNDS \<and> in_bounds sell SELL_THRESHOLD_BOUNDS
    \<and> (\<forall>s b. py_float sell = Inr s \<longrightarrow> py_float buy = Inr b \<longrightarrow> s < b)"
  using assms by (auto simp: threshold_errors_def split: if_splits sum.splits)

lemma valid_dict:
  assumes "validate_config_dict v = []"
  obtains data w r where "v = PDict data" "py_get data ''weights'' = PDict w" "weight_errors w = []"
    "threshold_errors (py_get data ''buy_threshold'') (py_get data ''sell_threshold'') = []"
    "py_get data ''risk'' = PDict r" "risk_errors r = []"
  using assms unfolding validate_config_dict_def by (auto split: pyval.splits)

lemma dict_or_empty_PDict: "dict_or_empty (PDict d) = Inr d"
  by (simp add: dict_or_empty_def)

lemma present_get: "in_bounds (py_get d k) b \<Longrightarrow> float_get d k y = py_float (py_get d k)"
  using in_bounds_not_None [of "py_get d k" b]
  by (auto simp: float_get_def py_get_def dget_def split: option.splits)

lemma from_valid_dict:
  assumes "validate_config_dict (PDict data) = []"
  shows "(\<exists>e. py_int (dget data ''version'' (PInt 1)) = Inl e \<and> config_from_dict data = Inl e)
    \<or> (\<exists>c. config_from_dict data = Inr c \<and> config_safe c)"
proof -
  obtain w r where w: "py_get data ''weights'' = PDict w" "weight_errors w = []"
    and t: "threshold_errors (py_get data ''buy_threshold'') (py_get data ''sell_threshold'') = []"
    and r: "py_get data ''risk'' = PDict r" "risk_errors r = []"
    using assms by (rule valid_dict) auto
  note wb = weight_errors_Nil [OF w(2)]
  have k: "''news'' \<in> set WEIGHT_KEYS" "''tech'' \<in> set WEIGHT_KEYS" "''macro'' \<in> set WEIGHT_KEYS"
    by (simp_all add: WEIGHT_KEYS_def)
  obtain n te m where n: "float_get w ''news'' y = Inr n" "between n WEIGHT_BOUNDS"
    and te: "float_get w ''tech'' y' = Inr te" "between te WEIGHT_BOUNDS"
    and m: "float_get w ''macro'' y'' = Inr m" "between m WEIGHT_BOUNDS" for y y' y''
    using wb [OF k(1)] wb [OF k(2)] wb [OF k(3)] in_bounds_float present_get by metis
  note tb = threshold_errors_Nil [OF t]
  obtain b s where b: "float_get data ''buy_threshold'' z = Inr b" "between b BUY_THRESHOLD_BOUNDS"
    and s: "float_get data ''sell_threshold'' z' = Inr s" "between s SELL_THRESHOLD_BOUNDS"
    and sb: "s < b" for z z'
    using tb in_bounds_float present_get by metis
  obtain p d x where p: "float_get r ''max_position_size_pct'' u = Inr p" "between p MAX_POSITION_SIZE_BOUNDS"
    and d: "float_get r ''max_daily_loss_pct'' u' = Inr d" "between d MAX_DAILY_LOSS_BOUNDS"
    and x: "float_get r ''max_exposure_pct'' u'' = Inr x" "between x MAX_EXPOSURE_BOUNDS" for u u' u''
    using risk_errors_Nil [OF r(2)] in_bounds_float present_get by metis
  have v: "py_get DEFAULTS ''version'' = PInt 1" by (simp add: DEFAULTS_def)
  show ?thesis
    by (cases "py_int (dget data ''version'' (PInt 1))")
      (simp_all add: config_from_dict_def Let_def w(1) r(1) dict_or_empty_PDict n(1) te(1) m(1) v b(1) s(1)
        p(1) d(1) x(1) config_safe_def WEIGHT_KEYS_def n(2) te(2) m(2) b(2) s(2) sb p(2) d(2) x(2))
qed

lemma default_config_safe: "config_safe DEFAULT_CONFIG"
  by (simp add: config_safe_def DEFAULT_CONFIG_def between_def bounds_defs WEIGHT_KEYS_def)

text \<open>Whatever the configuration file holds, the configuration the loader returns is inside
  every guardrail; the loader raises only on the version field of an otherwise valid file.\<close>
theorem load_config_safe:
  "(\<exists>c. load_config raw_file = Inr c \<and> config_safe c)
   \<or> (\<exists>data e. raw_file = Some (PDict data) \<and> validate_config_dict (PDict data) = []
        \<and> py_int (dget data ''version'' (PInt 1)) = Inl e \<and> load_config raw_file = Inl e)"
proof (cases raw_file)
  case (Some raw)
  show ?thesis
  proof (cases "validate_config_dict raw = []")
    case True
    then obtain data where d: "raw = PDict data" by (rule valid_dict) auto
    show ?thesis using from_valid_dict [of data] True Some d by (auto simp: load_config_def)
  qed (simp add: Some load_config_def default_config_safe)
qed (simp add: load_config_def default_config_safe)

lemma three_weights:
  "map fst ws = WEIGHT_KEYS \<Longrightarrow> \<exists>n t m. ws = [(''news'', n), (''tech'', t), (''macro'', m)]"
  by (auto simp: WEIGHT_KEYS_def map_eq_Cons_conv)

lemma from_to_dict:
  assumes "map fst (cc_weights c) = WEIGHT_KEYS"
  shows "config_from_dict (config_to_dict c) = Inr c"
proof -
  obtain n t m where "cc_weights c = [(''news'', n), (''tech'', t), (''macro'', m)]"
    using three_weights [OF assms] by blast
  then show ?thesis
    by (simp add: config_from_dict_def config_to_dict_def dict_or_empty_PDict float_get_def Let_def)
qed

text \<open>On a configuration with the three weights the validator decides exactly the guardrails.\<close>
lemma validate_to_dict:
  assumes "map fst (cc_weights c) = WEIGHT_KEYS"
  shows "validate_config_dict (PDict (config_to_dict c)) = [] \<longleftrightarrow> config_safe c"
proof -
  obtain n t m where "cc_weights c = [(''news'', n), (''tech'', t), (''macro'', m)]"
    using three_weights [OF assms] by blast
  then show ?thesis
    by (auto simp: validate_config_dict_def config_to_dict_def weight_errors_def threshold_errors_def
        risk_errors_def WEIGHT_KEYS_def config_safe_def split: if_splits)
qed

text \<open>Writing a configuration and reading it back gives the same configuration; the validator accepts
  what was written exactly when the configuration is inside the guardrails, and the loader then
  returns it and otherwise falls back to the default.\<close>
theorem config_round_trip:
  assumes "map fst (cc_weights c) = WEIGHT_KEYS"
  shows "config_from_dict (config_to_dict c) = Inr c
    \<and> (validate_config_dict (PDict (config_to_dict c)) = [] \<longleftrightarrow> config_safe c)
    \<and> load_config (Some (PDict (config_to_dict c))) = Inr (if config_safe c then c else DEFAULT_CONFIG)"
  using from_to_dict [OF assms] validate_to_dict [OF assms] by (simp add: load_config_def)

theorem config_round_trip_witness:
  "map fst (cc_weights DEFAULT_CONFIG) = WEIGHT_KEYS
   \<and> load_config (Some (PDict (config_to_dict DEFAULT_CONFIG))) = Inr DEFAULT_CONFIG"
  using config_round_trip [of DEFAULT_CONFIG] by (simp add: DEFAULT_CONFIG_def WEIGHT_KEYS_def)

lemma clamp_weight_between: "between (clamp_weight x) WEIGHT_BOUNDS"
  by (simp add: clamp_weight_def between_def bounds_defs)

text \<open>A file that is valid but for a version that is no number makes the loader raise, although
  it is documented never to raise.\<close>
theorem load_config_raises_on_version:
  assumes "config_safe c"
  shows "load_config (Some (PDict (dset ''version'' (PStr ''v2'') (config_to_dict c)))) = Inl ValueError"
proof -
  have k: "map fst (cc_weights c) = WEIGHT_KEYS" using assms by (simp add: config_safe_def)
  let ?d = "dset ''version'' (PStr ''v2'') (config_to_dict c)"
  have "validate_config_dict (PDict ?d) = validate_config_dict (PDict (config_to_dict c))"
    by (simp add: validate_config_dict_def)
  then have v: "validate_config_dict (PDict ?d) = []" using assms validate_to_dict [OF k] by simp
  have i: "int_of_string ''v2'' = None" by code_simp
  have "dget ?d ''version'' (PInt 1) = PStr ''v2''" by simp
  then have "py_int (dget ?d ''version'' (PInt 1)) = Inl ValueError"
    by (simp add: py_int_def i)
  then have "config_from_dict ?d = Inl ValueError \<or> (\<exists>c'. config_from_dict ?d = Inr c' \<and> config_safe c')"
    using from_valid_dict [OF v] by auto
  moreover have "config_from_dict ?d \<noteq> Inr c'" for c'
    by (auto simp: config_from_dict_def res_bind_Inr_iff Let_def py_int_def i)
  ultimately show ?thesis using v by (simp add: load_config_def)
qed

theorem load_config_raises_on_version_witness:
  "config_safe DEFAULT_CONFIG \<and>
   load_config (Some (PDict (dset ''version'' (PStr ''v2'') (config_to_dict DEFAULT_CONFIG)))) = Inl ValueError"
  using default_config_safe load_config_raises_on_version [OF default_config_safe] by blast

lemma default_config_from_dict: "config_from_dict DEFAULTS = Inr DEFAULT_CONFIG"
  by (simp add: config_from_dict_def DEFAULTS_def DEFAULT_CONFIG_def sub_dict_def dict_or_empty_def
      float_get_def)

end
