(* ===== verification/Cog_Events.thy ===== *)
theory Cog_Events
  imports Py_Prelude
begin

text \<open>
  The event stream of the cognitive brain (\<open>cognitive/events.py\<close>), the per-trace view
  (\<open>cognitive/trace.py\<close>) and the health read (\<open>cognitive/health.py\<close>). A payload is a
  dictionary of dynamic values, as the code has it. Subscribers are callbacks from
  outside: each is a name, and the stream keeps the log of the calls made to them. The
  retention cap is a natural number or absent.
\<close>

section \<open>Events and the stream\<close>

datatype EventType =
    MARKET_TICK | NEWS_SIGNAL | TECH_SIGNAL | MACRO_SIGNAL | RISK_SIGNAL | REASONING
  | FEATURES | DECISION | RISK_GATE | EXECUTION
  | TRADE_OUTCOME | ATTRIBUTION | GRADE | OBSERVATION | COUNTERFACTUAL | DRIFT
  | PROPOSAL | CHALLENGER_VERDICT | BACKTEST_RESULT | PR_REQUEST | CONFIG_VERSION

definition event_value :: "EventType \<Rightarrow> string" where
  "event_value k = (case k of
       MARKET_TICK \<Rightarrow> ''market_tick'' | NEWS_SIGNAL \<Rightarrow> ''news_signal'' | TECH_SIGNAL \<Rightarrow> ''tech_signal''
     | MACRO_SIGNAL \<Rightarrow> ''macro_signal'' | RISK_SIGNAL \<Rightarrow> ''risk_signal'' | REASONING \<Rightarrow> ''reasoning''
     | FEATURES \<Rightarrow> ''features'' | DECISION \<Rightarrow> ''decision'' | RISK_GATE \<Rightarrow> ''risk_gate''
     | EXECUTION \<Rightarrow> ''execution'' | TRADE_OUTCOME \<Rightarrow> ''trade_outcome''
     | ATTRIBUTION \<Rightarrow> ''attribution'' | GRADE \<Rightarrow> ''grade'' | OBSERVATION \<Rightarrow> ''observation''
     | COUNTERFACTUAL \<Rightarrow> ''counterfactual'' | DRIFT \<Rightarrow> ''drift'' | PROPOSAL \<Rightarrow> ''proposal''
     | CHALLENGER_VERDICT \<Rightarrow> ''challenger_verdict'' | BACKTEST_RESULT \<Rightarrow> ''backtest_result''
     | PR_REQUEST \<Rightarrow> ''pr_request'' | CONFIG_VERSION \<Rightarrow> ''config_version'')"

record Event =
  ev_seq :: nat
  ev_kind :: EventType
  ev_payload :: pydict
  ev_trace_id :: string
  ev_source :: string
  ev_ts :: string

definition event_as_dict :: "Event \<Rightarrow> pydict" where
  "event_as_dict ev =
     [(''seq'', PInt (int (ev_seq ev))), (''type'', PStr (event_value (ev_kind ev))),
      (''payload'', PDict (ev_payload ev)), (''trace_id'', PStr (ev_trace_id ev)),
      (''source'', PStr (ev_source ev)), (''ts'', PStr (ev_ts ev))]"

record EventStream =
  es_events :: "Event list"
  es_subscribers :: "string list"
  es_max_events :: "nat option"
  es_emitted :: nat
  es_dropped :: nat
  es_calls :: "(string \<times> Event) list"

definition new_stream :: "nat option \<Rightarrow> EventStream" where
  "new_stream max_events = \<lparr>es_events = [], es_subscribers = [], es_max_events = max_events,
     es_emitted = 0, es_dropped = 0, es_calls = []\<rparr>"

definition subscribe :: "string \<Rightarrow> EventStream \<Rightarrow> EventStream" where
  "subscribe subscriber st = st\<lparr>es_subscribers := es_subscribers st @ [subscriber]\<rparr>"

text \<open>\<open>if self._max_events is not None and len(self._events) > self._max_events\<close>\<close>
definition over_cap :: "nat option \<Rightarrow> Event list \<Rightarrow> bool" where
  "over_cap cap evs = (case cap of None \<Rightarrow> False | Some m \<Rightarrow> m < length evs)"

definition next_event :: "EventStream \<Rightarrow> EventType \<Rightarrow> pydict \<Rightarrow> string \<Rightarrow> string \<Rightarrow> string \<Rightarrow> Event" where
  "next_event st kind payload trace_id source ts =
     \<lparr>ev_seq = es_emitted st, ev_kind = kind, ev_payload = payload, ev_trace_id = trace_id,
      ev_source = source, ev_ts = ts\<rparr>"

definition emit ::
  "EventType \<Rightarrow> pydict \<Rightarrow> string \<Rightarrow> string \<Rightarrow> string \<Rightarrow> EventStream \<Rightarrow> EventStream" where
  "emit kind payload trace_id source ts st =
     (let event = next_event st kind payload trace_id source ts;
          appended = es_events st @ [event];
          drop_one = over_cap (es_max_events st) appended
      in st\<lparr>es_emitted := es_emitted st + 1,
            es_events := (if drop_one then tl appended else appended),
            es_dropped := (if drop_one then es_dropped st + 1 else es_dropped st),
            es_calls := es_calls st @ map (\<lambda>sub. (sub, event)) (es_subscribers st)\<rparr>)"

text \<open>\<open>limit=0\<close> slices \<open>items[-0:]\<close>, which is the whole list; a negative limit is ignored.\<close>
definition stream_events :: "EventType option \<Rightarrow> int option \<Rightarrow> EventStream \<Rightarrow> Event list" where
  "stream_events kind limit st =
     (let items = (case kind of None \<Rightarrow> es_events st | Some k \<Rightarrow> filter (\<lambda>e. ev_kind e = k) (es_events st))
      in case limit of None \<Rightarrow> items | Some l \<Rightarrow> if l \<ge> 0 then last_n (nat l) items else items)"

text \<open>the first match in \<open>reversed(events)\<close>\<close>
definition find_last :: "('a \<Rightarrow> bool) \<Rightarrow> 'a list \<Rightarrow> 'a option" where
  "find_last P xs = find P (rev xs)"

definition latest :: "EventType \<Rightarrow> EventStream \<Rightarrow> Event option" where
  "latest kind st = find_last (\<lambda>e. ev_kind e = kind) (es_events st)"

definition stream_snapshot :: "EventStream \<Rightarrow> pydict list" where
  "stream_snapshot st = map event_as_dict (es_events st)"

section \<open>The trace of one trade\<close>

definition opt_dict :: "pydict option \<Rightarrow> pyval" where
  "opt_dict d = (case d of None \<Rightarrow> PNone | Some x \<Rightarrow> PDict x)"

definition latest_payload :: "Event list \<Rightarrow> EventType \<Rightarrow> pydict option" where
  "latest_payload evs kind = map_option ev_payload (find_last (\<lambda>e. ev_kind e = kind) evs)"

definition trace_events :: "EventStream \<Rightarrow> string \<Rightarrow> Event list" where
  "trace_events st trace_id = filter (\<lambda>e. ev_trace_id e = trace_id) (es_events st)"

definition build_trace :: "EventStream \<Rightarrow> string \<Rightarrow> pydict" where
  "build_trace st trace_id =
     (let events = trace_events st trace_id;
          pl = (\<lambda>kind. opt_dict (latest_payload events kind));
          decision = latest_payload events DECISION;
          lineage = (case decision of None \<Rightarrow> [] | Some d \<Rightarrow> d)
      in [(''trace_id'', PStr trace_id),
          (''config_version'', py_get lineage ''config_version''),
          (''config_proposal_id'', py_get lineage ''config_proposal_id''),
          (''signals'', PDict [(''news'', pl NEWS_SIGNAL), (''tech'', pl TECH_SIGNAL),
                               (''macro'', pl MACRO_SIGNAL), (''risk'', pl RISK_SIGNAL)]),
          (''features'', pl FEATURES), (''reasoning'', pl REASONING), (''decision'', opt_dict decision),
          (''risk_gate'', pl RISK_GATE), (''execution'', pl EXECUTION), (''outcome'', pl TRADE_OUTCOME),
          (''attribution'', pl ATTRIBUTION), (''counterfactual'', pl COUNTERFACTUAL),
          (''grade'', pl GRADE), (''event_count'', PInt (int (length events)))])"

section \<open>Health\<close>

definition by_type :: "Event list \<Rightarrow> EventType \<Rightarrow> nat" where
  "by_type evs k = length (filter (\<lambda>e. ev_kind e = k) evs)"

definition counts_by_source :: "Event list \<Rightarrow> string \<Rightarrow> nat" where
  "counts_by_source evs src = length (filter (\<lambda>e. ev_source e = src \<and> src \<noteq> []) evs)"

text \<open>\<open>latest_by_source.get(source, -1)\<close>: the loop overwrites, so the last event counts\<close>
definition latest_by_source :: "Event list \<Rightarrow> string \<Rightarrow> int" where
  "latest_by_source evs src = (case find_last (\<lambda>e. ev_source e = src \<and> src \<noteq> []) evs of
     None \<Rightarrow> - 1 | Some e \<Rightarrow> int (ev_seq e))"

definition agent_health :: "Event list \<Rightarrow> string \<Rightarrow> pydict" where
  "agent_health evs src =
     [(''status'', PStr (if counts_by_source evs src \<noteq> 0 then ''healthy'' else ''idle'')),
      (''events'', PInt (int (counts_by_source evs src))), (''last_seq'', PInt (latest_by_source evs src))]"

definition verdicts :: "Event list \<Rightarrow> bool \<Rightarrow> nat" where
  "verdicts evs b = length (filter (\<lambda>e. ev_kind e = CHALLENGER_VERDICT
     \<and> py_get (ev_payload e) ''approved'' = PBool b) evs)"

definition graded_trades :: "Event list \<Rightarrow> nat" where
  "graded_trades evs = length (filter (\<lambda>e. ev_kind e = GRADE
     \<and> py_get (ev_payload e) ''subject'' = PStr ''trade'') evs)"

definition last_decision :: "Event list \<Rightarrow> pyval" where
  "last_decision evs = (case latest_payload evs DECISION of
     None \<Rightarrow> PNone | Some d \<Rightarrow> py_get d ''action'')"

text \<open>\<open>dict(by_type)\<close>: the kinds that occur, in the order of their first occurrence\<close>
definition type_counts :: "Event list \<Rightarrow> pydict" where
  "type_counts evs = map (\<lambda>k. (event_value k, PInt (int (by_type evs k))))
     (rev (remdups (rev (map ev_kind evs))))"

definition count_val :: "Event list \<Rightarrow> EventType \<Rightarrow> pyval" where
  "count_val evs k = PInt (int (by_type evs k))"

definition assess_health :: "EventStream \<Rightarrow> pydict" where
  "assess_health st =
     (let events = es_events st; n = count_val events;
          trade_outcomes = by_type events TRADE_OUTCOME; graded = graded_trades events
      in [(''event_stream'', PDict
             [(''total_events'', PInt (int (length events))), (''emitted'', PInt (int (es_emitted st))),
              (''dropped'', PInt (int (es_dropped st))),
              (''last_seq'', PInt (if events \<noteq> [] then int (ev_seq (last events)) else - 1)),
              (''by_type'', PDict (type_counts events))]),
          (''agents'', PDict (map (\<lambda>src. (src, PDict (agent_health events src)))
             [''news_agent'', ''technical_agent'', ''macro_agent'', ''risk_agent'',
              ''reasoning_agent'', ''proposal_agent''])),
          (''decision'', PDict
             [(''signals_received'', PDict [(''news'', n NEWS_SIGNAL), (''tech'', n TECH_SIGNAL),
                 (''macro'', n MACRO_SIGNAL), (''risk'', n RISK_SIGNAL)]),
              (''decisions_made'', n DECISION), (''executions'', n EXECUTION),
              (''last_decision'', last_decision events)]),
          (''proposal_pipeline'', PDict
             [(''generated'', n PROPOSAL), (''backtested'', n BACKTEST_RESULT),
              (''approved'', PInt (int (verdicts events True))),
              (''rejected'', PInt (int (verdicts events False))),
              (''pr_requests'', n PR_REQUEST), (''merged'', n CONFIG_VERSION)]),
          (''backtest'', PDict [(''runs'', n BACKTEST_RESULT)]),
          (''learning'', PDict
             [(''trades_closed'', PInt (int trade_outcomes)), (''trades_graded'', PInt (int graded)),
              (''ungraded'', PInt (max 0 (int trade_outcomes - int graded))),
              (''observations'', n OBSERVATION)])])"

section \<open>What the stream keeps\<close>

named_theorems stream_simps \<open>fields of a stream after an emit\<close>

lemma find_last_Some: "find_last P xs = Some x \<Longrightarrow> P x \<and> x \<in> set xs"
  by (auto simp: find_last_def find_Some_iff dest: nth_mem) (metis in_set_conv_nth length_rev set_rev)

lemma find_last_None: "find_last P xs = None \<longleftrightarrow> (\<forall>x\<in>set xs. \<not> P x)"
  by (auto simp: find_last_def find_None_iff)

lemma find_last_snoc [simp]: "find_last P (xs @ [x]) = (if P x then Some x else find_last P xs)"
  by (simp add: find_last_def)

lemma find_last_Nil [simp]: "find_last P [] = None"
  by (simp add: find_last_def)

lemma find_last_filter: "find_last P (filter Q xs) = find_last (\<lambda>x. Q x \<and> P x) xs"
  by (induction xs rule: rev_induct) auto

text \<open>
  The stream contract the loop relies on: sequence numbers are the contiguous range of
  what was emitted and not dropped, and the cap holds.
\<close>
definition stream_ok :: "EventStream \<Rightarrow> bool" where
  "stream_ok st \<longleftrightarrow> map ev_seq (es_events st) = [es_dropped st ..< es_emitted st]
     \<and> es_dropped st \<le> es_emitted st
     \<and> (\<forall>m. es_max_events st = Some m \<longrightarrow> length (es_events st) \<le> m)"

lemma emit_fields [stream_simps]:
  "es_emitted (emit k p t s ts st) = es_emitted st + 1"
  "es_max_events (emit k p t s ts st) = es_max_events st"
  "es_subscribers (emit k p t s ts st) = es_subscribers st"
  by (simp_all add: emit_def Let_def)

lemma emit_calls: "es_calls (emit k p t s ts st)
    = es_calls st @ map (\<lambda>sub. (sub, next_event st k p t s ts)) (es_subscribers st)"
  by (simp add: emit_def Let_def)

lemma stream_ok_new: "stream_ok (new_stream cap)"
  by (simp add: stream_ok_def new_stream_def)

lemma stream_ok_subscribe: "stream_ok st \<Longrightarrow> stream_ok (subscribe f st)"
  by (simp add: stream_ok_def subscribe_def)

lemma tl_upt: "tl [a ..< b] = [Suc a ..< b]"
  by (cases "a < b") (simp_all add: upt_conv_Cons)

lemma stream_ok_length: "stream_ok st \<Longrightarrow> length (es_events st) + es_dropped st = es_emitted st"
  by (auto simp: stream_ok_def dest: arg_cong [of _ _ length])

lemma stream_ok_emit:
  assumes "stream_ok st"
  shows "stream_ok (emit k p t s ts st)"
proof -
  let ?ev = "next_event st k p t s ts"
  have d: "es_dropped st \<le> es_emitted st" and m: "map ev_seq (es_events st) = [es_dropped st ..< es_emitted st]"
    using assms by (simp_all add: stream_ok_def)
  have a: "map ev_seq (es_events st @ [?ev]) = [es_dropped st ..< es_emitted st + 1]"
    using d m by (simp add: next_event_def)
  show ?thesis
  proof (cases "over_cap (es_max_events st) (es_events st @ [?ev])")
    case True
    have "map ev_seq (tl (es_events st @ [?ev])) = [Suc (es_dropped st) ..< es_emitted st + 1]"
      unfolding map_tl a tl_upt by simp
    then show ?thesis using True assms d
      by (auto simp: stream_ok_def emit_def Let_def over_cap_def)
  next
    case False
    then show ?thesis using assms d a
      by (auto simp: stream_ok_def emit_def Let_def over_cap_def)
  qed
qed

lemma last_emit:
  assumes "es_max_events st \<noteq> Some 0"
  shows "es_events (emit k p t s ts st) \<noteq> []
     \<and> last (es_events (emit k p t s ts st)) = next_event st k p t s ts"
  using assms by (cases "es_events st") (auto simp: emit_def Let_def over_cap_def split: option.splits)

inductive stream_reachable :: "nat option \<Rightarrow> EventStream \<Rightarrow> bool" for cap where
  sr_new: "stream_reachable cap (new_stream cap)"
| sr_subscribe: "stream_reachable cap st \<Longrightarrow> stream_reachable cap (subscribe f st)"
| sr_emit: "stream_reachable cap st \<Longrightarrow> stream_reachable cap (emit k p t s ts st)"

lemma stream_reachable_ok: "stream_reachable cap st \<Longrightarrow> stream_ok st \<and> es_max_events st = cap"
proof (induction rule: stream_reachable.induct)
  case sr_new
  then show ?case by (simp add: stream_ok_new) (simp add: new_stream_def)
next
  case (sr_subscribe st f)
  then show ?case by (simp add: stream_ok_subscribe) (simp add: subscribe_def)
next
  case (sr_emit st k p t s ts)
  then show ?case by (simp add: stream_ok_emit emit_fields)
qed

text \<open>Over every sequence of operations the stream is a gapless window of what was emitted:
  its sequence numbers are exactly those emitted and not evicted, in order, the counters add up,
  and the retention cap holds.\<close>
theorem stream_is_gapless_window:
  assumes "stream_reachable cap st"
  shows "map ev_seq (es_events st) = [es_dropped st ..< es_emitted st]
     \<and> length (es_events st) + es_dropped st = es_emitted st
     \<and> (\<forall>m. cap = Some m \<longrightarrow> length (es_events st) \<le> m)"
  using stream_reachable_ok [OF assms] stream_ok_length [of st] by (auto simp: stream_ok_def)

definition two_ticks :: EventStream where
  "two_ticks = emit MARKET_TICK [] ''t2'' ''feed'' '''' (emit MARKET_TICK [] ''t1'' ''feed'' ''''
     (new_stream (Some 1)))"

theorem stream_is_gapless_window_witness:
  "stream_reachable (Some 1) two_ticks
   \<and> map ev_seq (es_events two_ticks) = [es_dropped two_ticks ..< es_emitted two_ticks]
   \<and> es_dropped two_ticks = 1 \<and> length (es_events two_ticks) = 1"
proof -
  have r: "stream_reachable (Some 1) two_ticks"
    unfolding two_ticks_def by (intro stream_reachable.intros)
  have "es_dropped two_ticks = 1" "length (es_events two_ticks) = 1"
    by (simp_all add: two_ticks_def emit_def new_stream_def over_cap_def Let_def)
  then show ?thesis using r stream_is_gapless_window [OF r] by blast
qed

text \<open>\<open>latest\<close> agrees with the newest element of the filtered read.\<close>
lemma latest_is_last:
  "latest k st = (let es = stream_events (Some k) None st in if es = [] then None else Some (last es))"
proof -
  have "find_last P xs = (if filter P xs = [] then None else Some (last (filter P xs)))"
    for P :: "Event \<Rightarrow> bool" and xs
    by (induction xs rule: rev_induct) auto
  then show ?thesis by (simp add: latest_def stream_events_def)
qed

lemma events_limit_zero: "stream_events k (Some 0) st = stream_events k None st"
  by (simp add: stream_events_def last_n_def Let_def)

lemma ungraded_zero_iff:
  "py_get (case py_get (assess_health st) ''learning'' of PDict d \<Rightarrow> d | _ \<Rightarrow> []) ''ungraded'' = PInt 0
   \<longleftrightarrow> by_type (es_events st) TRADE_OUTCOME \<le> graded_trades (es_events st)"
  by (auto simp: assess_health_def Let_def)

end
