(* ===== verification/Cog_Agents.thy ===== *)
theory Cog_Agents
  imports Cog_Events
begin

text \<open>
  The advisory agents of the cognitive brain (\<open>cognitive/agents.py\<close>), their registry
  (\<open>cognitive/registry.py\<close>) and the aggregation of their payloads into the feature vector
  (\<open>cognitive/aggregation.py\<close>). A scorer is a function of the market view; the default ones
  are defined here, any other stands for an injected one.
\<close>

section \<open>Deterministic scorers\<close>

definition TECH_WINDOW :: nat where "TECH_WINDOW = 10"
definition MACRO_WINDOW :: nat where "MACRO_WINDOW = 60"
definition RISK_WINDOW :: nat where "RISK_WINDOW = 30"
definition MACRO_DRIFT_SCALE :: real where "MACRO_DRIFT_SCALE = 10"
definition RISK_VOL_SCALE :: real where "RISK_VOL_SCALE = 25"
definition HIGH_VOL_THRESHOLD :: real where "HIGH_VOL_THRESHOLD = 2 / 100"
definition DRAWDOWN_FLAG_THRESHOLD :: real where "DRAWDOWN_FLAG_THRESHOLD = 10 / 100"

definition agent_clamp :: "real \<Rightarrow> real" where
  "agent_clamp v = max (- 1) (min 1 v)"

definition clamp01 :: "real \<Rightarrow> real" where
  "clamp01 v = max 0 (min 1 v)"

record MarketView =
  mv_symbol :: string
  mv_price :: real
  mv_history :: "real list"
  mv_news_sentiment :: "real option"
  mv_news_confidence :: real
  mv_ts :: string

fun returns :: "real list \<Rightarrow> real list" where
  "returns (prev # cur # rest) =
     (if prev \<noteq> 0 then (cur - prev) / prev # returns (cur # rest) else returns (cur # rest))"
| "returns _ = []"

definition technical_trend :: "nat \<Rightarrow> real list \<Rightarrow> real \<times> real" where
  "technical_trend window history =
     (let rets = last_n window (returns history) in
      if rets = [] then (0, 0)
      else let mean = fmean rets;
               sd = (if length rets > 1 then pstdev rets else 0);
               z = (if sd > 1 / 10 ^ 9 then mean / sd
                    else if mean \<noteq> 0 then (if mean > 0 then 3 else - 3) else 0);
               trend = tanh z;
               same_dir = (if mean \<noteq> 0
                           then real (length (filter (\<lambda>r. (r > 0) = (mean > 0)) rets)) / real (length rets)
                           else 0)
           in (py_round 4 trend, py_round 4 (clamp01 (\<bar>trend\<bar> * same_dir))))"

definition macro_regime :: "nat \<Rightarrow> real list \<Rightarrow> real" where
  "macro_regime window history =
     (let window_prices = last_n window history in
      if length window_prices < 2 \<or> hd window_prices = 0 then 0
      else let drift = (last window_prices - hd window_prices) / hd window_prices
           in py_round 4 (tanh (drift * MACRO_DRIFT_SCALE)))"

text \<open>the loop over the window: the running peak and the largest drawdown\<close>
fun drawdown_loop :: "real \<Rightarrow> real \<Rightarrow> real list \<Rightarrow> real" where
  "drawdown_loop peak worst [] = worst"
| "drawdown_loop peak worst (price # prices) =
     (let peak' = max peak price;
          worst' = (if peak' \<noteq> 0 then max worst ((peak' - price) / peak') else worst)
      in drawdown_loop peak' worst' prices)"

definition risk_assessment :: "nat \<Rightarrow> real list \<Rightarrow> real \<times> string list" where
  "risk_assessment window history =
     (let rets = last_n window (returns history);
          window_prices = last_n window history;
          vol = (if length rets > 1 then pstdev rets else 0);
          peak = (if window_prices \<noteq> [] then hd window_prices else 0);
          max_drawdown = drawdown_loop peak 0 window_prices;
          risk_score = clamp01 (vol * RISK_VOL_SCALE + max_drawdown)
      in (py_round 4 risk_score,
          (if vol > HIGH_VOL_THRESHOLD then [''high_volatility''] else [])
        @ (if max_drawdown > DRAWDOWN_FLAG_THRESHOLD then [''drawdown''] else [])))"

definition news_sentiment :: "MarketView \<Rightarrow> real \<times> real" where
  "news_sentiment market = (case mv_news_sentiment market of
       None \<Rightarrow> (0, 0)
     | Some s \<Rightarrow> (py_round 4 (agent_clamp s), py_round 4 (clamp01 (mv_news_confidence market))))"

section \<open>Agents\<close>

datatype agent =
    NewsAgent "MarketView \<Rightarrow> real \<times> real"
  | TechnicalAgent "MarketView \<Rightarrow> real \<times> real"
  | MacroAgent "MarketView \<Rightarrow> real"
  | RiskAgent "MarketView \<Rightarrow> real \<times> string list"
  | ReasoningAgent
  | ProposalAgent real real

definition agent_name :: "agent \<Rightarrow> string" where
  "agent_name a = (case a of NewsAgent _ \<Rightarrow> ''news_agent'' | TechnicalAgent _ \<Rightarrow> ''technical_agent''
     | MacroAgent _ \<Rightarrow> ''macro_agent'' | RiskAgent _ \<Rightarrow> ''risk_agent'' | ReasoningAgent \<Rightarrow> ''reasoning_agent''
     | ProposalAgent _ _ \<Rightarrow> ''proposal_agent'')"

text \<open>the four \<open>analyze\<close> methods and the event kind their \<open>emit\<close> uses\<close>
definition agent_analyze :: "agent \<Rightarrow> MarketView \<Rightarrow> (EventType \<times> pydict) pyres" where
  "agent_analyze a market = (case a of
       NewsAgent scorer \<Rightarrow> (case scorer market of (sentiment, confidence) \<Rightarrow>
         Inr (NEWS_SIGNAL, [(''type'', PStr (event_value NEWS_SIGNAL)), (''sentiment'', PFloat sentiment),
                            (''confidence'', PFloat confidence)]))
     | TechnicalAgent scorer \<Rightarrow> (case scorer market of (trend, confidence) \<Rightarrow>
         Inr (TECH_SIGNAL, [(''type'', PStr (event_value TECH_SIGNAL)), (''trend'', PFloat trend),
                            (''confidence'', PFloat confidence)]))
     | MacroAgent scorer \<Rightarrow>
         Inr (MACRO_SIGNAL, [(''type'', PStr (event_value MACRO_SIGNAL)), (''regime'', PFloat (scorer market))])
     | RiskAgent scorer \<Rightarrow> (case scorer market of (risk_score, flags) \<Rightarrow>
         Inr (RISK_SIGNAL, [(''type'', PStr (event_value RISK_SIGNAL)),
                            (''risk_flags'', PList (map PStr flags)), (''risk_score'', PFloat risk_score)]))
     | _ \<Rightarrow> Inl AttributeError)"

definition agent_emit ::
  "agent \<Rightarrow> MarketView \<Rightarrow> string \<Rightarrow> EventStream \<Rightarrow> (pydict \<times> EventStream) pyres" where
  "agent_emit a market trace_id st =
     res_bind (agent_analyze a market) (\<lambda>(kind, payload).
       Inr (payload, emit kind payload trace_id (agent_name a) (mv_ts market) st))"

text \<open>fixed-point formatting, \<open>:.nf\<close> and \<open>:+.nf\<close>\<close>
definition pad_zeros :: "nat \<Rightarrow> string \<Rightarrow> string" where
  "pad_zeros n s = replicate (n - length s) (CHR ''0'') @ s"

definition fmt_fixed :: "nat \<Rightarrow> real \<Rightarrow> string" where
  "fmt_fixed n x =
     (let r = nat \<bar>round_half_even (x * 10 ^ n)\<bar>
      in (if x < 0 then ''-'' else []) @ nat_str (r div 10 ^ n)
         @ (if n = 0 then [] else ''.'' @ pad_zeros n (nat_str (r mod 10 ^ n))))"

definition fmt_signed :: "nat \<Rightarrow> real \<Rightarrow> string" where
  "fmt_signed n x = (if x < 0 then [] else ''+'') @ fmt_fixed n x"

definition float_dict :: "(string \<times> real) list \<Rightarrow> pydict" where
  "float_dict d = map (\<lambda>(k, x). (k, PFloat x)) d"

definition reasoning_analyze :: "(string \<times> real) list \<Rightarrow> pydict" where
  "reasoning_analyze signals =
     [(''type'', PStr (event_value REASONING)),
      (''summary'', PStr (''news '' @ fmt_signed 2 (dget signals ''news'' 0)
         @ '', tech '' @ fmt_signed 2 (dget signals ''tech'' 0)
         @ '', macro '' @ fmt_signed 2 (dget signals ''macro'' 0)
         @ ''; risk '' @ fmt_fixed 2 (dget signals ''risk'' 0))),
      (''signals_summary'', PDict (float_dict signals))]"

text \<open>\<open>reasoning.emit(stream, features, trace_id=, ts=)\<close>; no other agent's \<open>emit\<close> takes \<open>ts\<close>\<close>
definition reasoning_emit ::
  "agent \<Rightarrow> (string \<times> real) list \<Rightarrow> string \<Rightarrow> string \<Rightarrow> EventStream \<Rightarrow> EventStream pyres" where
  "reasoning_emit a signals trace_id ts st = (case a of
       ReasoningAgent \<Rightarrow> Inr (emit REASONING (reasoning_analyze signals) trace_id (agent_name a) ts st)
     | _ \<Rightarrow> Inl TypeError)"

section \<open>Registry\<close>

record AgentSpec =
  as_name :: string
  as_role :: string
  as_emits :: string
  as_description :: string
  as_instance :: agent

type_synonym registry = "(string \<times> AgentSpec) list"

definition register :: "agent \<Rightarrow> string \<Rightarrow> string \<Rightarrow> string \<Rightarrow> registry \<Rightarrow> registry" where
  "register inst role emits description reg =
     dset (agent_name inst)
       \<lparr>as_name = agent_name inst, as_role = role, as_emits = emits, as_description = description,
        as_instance = inst\<rparr> reg"

definition registry_get :: "string \<Rightarrow> registry \<Rightarrow> AgentSpec option" where
  "registry_get name reg = map_of reg name"

definition by_role :: "string \<Rightarrow> registry \<Rightarrow> AgentSpec list" where
  "by_role role reg = filter (\<lambda>spec. as_role spec = role) (map snd reg)"

definition registry_describe :: "registry \<Rightarrow> pydict list" where
  "registry_describe reg = map (\<lambda>spec.
     [(''name'', PStr (as_name spec)), (''role'', PStr (as_role spec)), (''emits'', PStr (as_emits spec)),
      (''description'', PStr (as_description spec))]) (map snd reg)"

definition WEIGHT_STEP :: real where "WEIGHT_STEP = 5 / 100"
definition MIN_OBSERVATION_CONFIDENCE :: real where "MIN_OBSERVATION_CONFIDENCE = 1 / 2"

definition build_default_registry :: registry where
  "build_default_registry =
     register (ProposalAgent WEIGHT_STEP MIN_OBSERVATION_CONFIDENCE) ''proposal'' (event_value PROPOSAL)
       ''System architect: turns observations into typed candidate changes.''
    (register ReasoningAgent ''reasoning'' (event_value REASONING)
       ''Human-readable explanation layer; makes no decision.''
    (register (RiskAgent (\<lambda>m. risk_assessment RISK_WINDOW (mv_history m))) ''signal'' (event_value RISK_SIGNAL)
       ''Risk annotation only -> risk_flags + risk_score in [0, 1].''
    (register (MacroAgent (\<lambda>m. macro_regime MACRO_WINDOW (mv_history m))) ''signal'' (event_value MACRO_SIGNAL)
       ''Regime detection -> regime in [-1, 1].''
    (register (TechnicalAgent (\<lambda>m. technical_trend TECH_WINDOW (mv_history m))) ''signal'' (event_value TECH_SIGNAL)
       ''Trend / indicator interpretation -> trend in [-1, 1].''
    (register (NewsAgent news_sentiment) ''signal'' (event_value NEWS_SIGNAL)
       ''Sentiment extraction from news -> sentiment in [-1, 1].'' [])))))"

section \<open>Aggregation\<close>

type_synonym features = "(string \<times> real) list"

definition payload_float :: "pydict \<Rightarrow> string \<Rightarrow> real \<Rightarrow> real pyres" where
  "payload_float d k x = py_float (dget d k (PFloat x))"

definition aggregate :: "pydict \<Rightarrow> pydict \<Rightarrow> pydict \<Rightarrow> pydict \<Rightarrow> features pyres" where
  "aggregate news tech macro risk =
     res_bind (payload_float news ''sentiment'' 0) (\<lambda>sentiment.
     res_bind (payload_float news ''confidence'' 1) (\<lambda>nconf.
     res_bind (payload_float tech ''trend'' 0) (\<lambda>trend.
     res_bind (payload_float tech ''confidence'' 1) (\<lambda>tconf.
     res_bind (payload_float macro ''regime'' 0) (\<lambda>regime.
     res_bind (payload_float risk ''risk_score'' 0) (\<lambda>score.
       Inr [(''news'', py_round 6 (agent_clamp (sentiment * nconf))),
            (''tech'', py_round 6 (agent_clamp (trend * tconf))),
            (''macro'', py_round 6 (agent_clamp regime)),
            (''risk'', py_round 6 (clamp01 score))]))))))"

section \<open>Ranges\<close>

lemma agent_clamp_range [simp]: "- 1 \<le> agent_clamp v" "agent_clamp v \<le> 1"
  by (auto simp: agent_clamp_def)

lemma clamp01_range [simp]: "0 \<le> clamp01 v" "clamp01 v \<le> 1"
  by (auto simp: clamp01_def)

lemma round_unit: "- 1 \<le> x \<Longrightarrow> x \<le> 1 \<Longrightarrow> - 1 \<le> py_round n x \<and> py_round n x \<le> 1"
  by (intro conjI py_round_ge py_round_le) auto

lemma round_unit01: "0 \<le> x \<Longrightarrow> x \<le> 1 \<Longrightarrow> 0 \<le> py_round n x \<and> py_round n x \<le> 1"
  by (intro conjI py_round_ge py_round_le) auto

text \<open>a feature vector the decision engine may read\<close>
definition features_ok :: "features \<Rightarrow> bool" where
  "features_ok f \<longleftrightarrow> map fst f = [''news'', ''tech'', ''macro'', ''risk'']
     \<and> \<bar>dget f ''news'' 0\<bar> \<le> 1 \<and> \<bar>dget f ''tech'' 0\<bar> \<le> 1 \<and> \<bar>dget f ''macro'' 0\<bar> \<le> 1
     \<and> 0 \<le> dget f ''risk'' 0 \<and> dget f ''risk'' 0 \<le> 1"

lemma aggregate_ok: "aggregate n t m r = Inr f \<Longrightarrow> features_ok f"
  by (auto simp: aggregate_def res_bind_Inr_iff features_ok_def abs_le_iff round_unit round_unit01
      minus_le_iff)

text \<open>Whatever the injected scorers return, the payloads of a news, a technical, a macro and a risk
  agent aggregate without error into a feature vector with the four keys in order and every
  feature inside its range.\<close>
theorem features_bounded_for_any_scorer:
  "\<exists>f. res_bind (agent_analyze (NewsAgent ns) market) (\<lambda>(_, n).
       res_bind (agent_analyze (TechnicalAgent ts) market) (\<lambda>(_, t).
       res_bind (agent_analyze (MacroAgent ms) market) (\<lambda>(_, m).
       res_bind (agent_analyze (RiskAgent rs) market) (\<lambda>(_, r). aggregate n t m r)))) = Inr f
     \<and> features_ok f"
proof -
  obtain a b c d where e: "ns market = (a, b)" "ts market = (c, d)" by fastforce
  obtain g h where r: "rs market = (g, h)" by fastforce
  have "\<exists>f. aggregate [(''type'', PStr (event_value NEWS_SIGNAL)), (''sentiment'', PFloat a), (''confidence'', PFloat b)]
      [(''type'', PStr (event_value TECH_SIGNAL)), (''trend'', PFloat c), (''confidence'', PFloat d)]
      [(''type'', PStr (event_value MACRO_SIGNAL)), (''regime'', PFloat (ms market))]
      [(''type'', PStr (event_value RISK_SIGNAL)), (''risk_flags'', PList (map PStr h)), (''risk_score'', PFloat g)] = Inr f"
    by (simp add: aggregate_def payload_float_def)
  then show ?thesis using aggregate_ok by (auto simp: agent_analyze_def e r)
qed

lemma tanh_unit: "- 1 \<le> tanh (z::real)" "tanh z \<le> 1"
  using tanh_real_bounds [of z] by auto

lemma technical_trend_range:
  "\<bar>fst (technical_trend w h)\<bar> \<le> 1 \<and> 0 \<le> snd (technical_trend w h) \<and> snd (technical_trend w h) \<le> 1"
  by (auto simp: technical_trend_def Let_def abs_le_iff minus_le_iff round_unit round_unit01 tanh_unit)

lemma macro_regime_range: "\<bar>macro_regime w h\<bar> \<le> 1"
  by (auto simp: macro_regime_def Let_def abs_le_iff minus_le_iff round_unit tanh_unit)

lemma risk_assessment_range:
  "0 \<le> fst (risk_assessment w h) \<and> fst (risk_assessment w h) \<le> 1
   \<and> set (snd (risk_assessment w h)) \<subseteq> {''high_volatility'', ''drawdown''}"
  by (auto simp: risk_assessment_def Let_def round_unit01)

lemma drawdown_loop_ge: "worst \<le> drawdown_loop peak worst ps"
proof (induction ps arbitrary: peak worst)
  case (Cons p ps)
  show ?case using order.trans [OF _ Cons.IH] by (auto simp: Let_def)
qed simp

text \<open>a rising series has no drawdown, and no series of non-negative prices loses more than all\<close>
lemma drawdown_loop_rising:
  "sorted (peak # ps) \<Longrightarrow> 0 \<le> worst \<Longrightarrow> drawdown_loop peak worst ps = worst"
  by (induction ps arbitrary: peak) (auto simp: Let_def max_def)

lemma drawdown_loop_le_1:
  "\<forall>p\<in>set ps. 0 \<le> p \<Longrightarrow> worst \<le> 1 \<Longrightarrow> drawdown_loop peak worst ps \<le> 1"
proof (induction ps arbitrary: peak worst)
  case (Cons p ps)
  have "(max peak p - p) / max peak p \<le> 1" if "max peak p \<noteq> 0"
  proof -
    have "0 < max peak p" using that Cons.prems by (simp add: less_le max_def split: if_splits)
    then show ?thesis using Cons.prems by (simp add: divide_le_eq)
  qed
  then show ?case using Cons by (simp add: Let_def)
qed simp

lemma default_registry_roles:
  "map as_name (by_role ''signal'' build_default_registry)
     = [''news_agent'', ''technical_agent'', ''macro_agent'', ''risk_agent'']"
  "map as_name (by_role ''reasoning'' build_default_registry) = [''reasoning_agent'']"
  "map as_name (by_role ''proposal'' build_default_registry) = [''proposal_agent'']"
  by (simp_all add: build_default_registry_def register_def agent_name_def by_role_def)

end
