(* ===== verification/Cog_Decision.thy ===== *)
theory Cog_Decision
  imports Cog_Config Cog_Agents
begin

text \<open>
  The deterministic forward pass of the cognitive brain: the decision engine
  (\<open>cognitive/decision.py\<close>), the hard risk gate (\<open>cognitive/risk.py\<close>), the execution
  engine (\<open>cognitive/execution.py\<close>) and the counterfactual comparison of a closed trade
  (\<open>cognitive/counterfactual.py\<close>).
\<close>

section \<open>Decision\<close>

record Decision =
  dn_action :: string
  dn_score :: real
  dn_breakdown :: "(string \<times> real) list"
  dn_buy_threshold :: real
  dn_sell_threshold :: real

definition decision_as_dict :: "Decision \<Rightarrow> pydict" where
  "decision_as_dict d =
     [(''type'', PStr (event_value DECISION)), (''action'', PStr (dn_action d)),
      (''score'', PFloat (dn_score d)), (''breakdown'', PDict (float_dict (dn_breakdown d))),
      (''buy_threshold'', PFloat (dn_buy_threshold d)), (''sell_threshold'', PFloat (dn_sell_threshold d))]"

definition breakdown_of :: "features \<Rightarrow> CognitiveConfig \<Rightarrow> (string \<times> real) list" where
  "breakdown_of f c = map (\<lambda>key. (key, py_round 6 (dget f key 0 * dget (cc_weights c) key 0))) WEIGHT_KEYS"

definition decide :: "features \<Rightarrow> CognitiveConfig \<Rightarrow> Decision" where
  "decide f c =
     (let breakdown = breakdown_of f c;
          score = py_round 6 (sum_list (map snd breakdown))
      in \<lparr>dn_action = (if score > cc_buy_threshold c then ''buy''
                       else if score < cc_sell_threshold c then ''sell'' else ''hold''),
          dn_score = score, dn_breakdown = breakdown,
          dn_buy_threshold = cc_buy_threshold c, dn_sell_threshold = cc_sell_threshold c\<rparr>)"

section \<open>Risk gate\<close>

record RiskGate =
  rg_allowed :: bool
  rg_blocks :: "string list"
  rg_requested_position_pct :: real

definition gate_as_dict :: "RiskGate \<Rightarrow> pydict" where
  "gate_as_dict g =
     [(''type'', PStr (event_value RISK_GATE)), (''allowed'', PBool (rg_allowed g)),
      (''blocks'', PList (map PStr (rg_blocks g))),
      (''requested_position_pct'', PFloat (rg_requested_position_pct g))]"

definition evaluate_risk :: "Decision \<Rightarrow> CognitiveConfig \<Rightarrow> real \<Rightarrow> real \<Rightarrow> real \<Rightarrow> RiskGate" where
  "evaluate_risk d c requested_position_pct current_exposure_pct day_pnl_pct =
     (let is_trade = (dn_action d \<in> {''buy'', ''sell''});
          blocks = (if is_trade then
              (if requested_position_pct > cc_max_position_size_pct c then [''max_position_size''] else [])
            @ (if current_exposure_pct + requested_position_pct > cc_max_exposure_pct c
               then [''max_exposure''] else [])
            @ (if day_pnl_pct \<le> - cc_max_daily_loss_pct c then [''max_daily_loss''] else [])
            else [])
      in \<lparr>rg_allowed = (is_trade \<and> blocks = []), rg_blocks = blocks,
          rg_requested_position_pct = requested_position_pct\<rparr>)"

section \<open>Execution\<close>

record Execution =
  ex_symbol :: string
  ex_side :: string
  ex_qty :: real
  ex_price :: real
  ex_notional :: real
  ex_status :: string

definition execution_as_dict :: "Execution \<Rightarrow> pydict" where
  "execution_as_dict x =
     [(''type'', PStr (event_value EXECUTION)), (''symbol'', PStr (ex_symbol x)), (''side'', PStr (ex_side x)),
      (''qty'', PFloat (ex_qty x)), (''price'', PFloat (ex_price x)), (''notional'', PFloat (ex_notional x)),
      (''status'', PStr (ex_status x))]"

definition execute :: "Decision \<Rightarrow> RiskGate \<Rightarrow> string \<Rightarrow> real \<Rightarrow> real \<Rightarrow> Execution" where
  "execute d g symbol price equity =
     (if \<not> rg_allowed g \<or> price \<le> 0
      then \<lparr>ex_symbol = symbol, ex_side = dn_action d, ex_qty = 0, ex_price = price, ex_notional = 0,
            ex_status = ''skipped''\<rparr>
      else let notional = equity * rg_requested_position_pct g;
               qty = py_round 8 (notional / price)
           in \<lparr>ex_symbol = symbol, ex_side = dn_action d, ex_qty = qty, ex_price = price,
               ex_notional = py_round 2 notional, ex_status = ''filled''\<rparr>)"

section \<open>Counterfactual\<close>

record CounterfactualResult =
  cf_chosen_action :: string
  cf_chosen_pnl_pct :: real
  cf_alternatives :: "(string \<times> real) list"
  cf_best_action :: string
  cf_best_pnl_pct :: real
  cf_regret_pct :: real
  cf_was_best :: bool

definition counterfactual_as_dict :: "CounterfactualResult \<Rightarrow> pydict" where
  "counterfactual_as_dict r =
     [(''type'', PStr (event_value COUNTERFACTUAL)), (''chosen_action'', PStr (cf_chosen_action r)),
      (''chosen_pnl_pct'', PFloat (cf_chosen_pnl_pct r)),
      (''alternatives'', PDict (float_dict (cf_alternatives r))),
      (''best_action'', PStr (cf_best_action r)), (''best_pnl_pct'', PFloat (cf_best_pnl_pct r)),
      (''regret_pct'', PFloat (cf_regret_pct r)), (''was_best'', PBool (cf_was_best r))]"

text \<open>\<open>max(d, key=...)\<close>: the first key with the largest value\<close>
fun argmax_from :: "string \<times> real \<Rightarrow> (string \<times> real) list \<Rightarrow> string \<times> real" where
  "argmax_from best [] = best"
| "argmax_from best (kv # rest) = argmax_from (if snd kv > snd best then kv else best) rest"

definition counterfactual :: "string \<Rightarrow> real \<Rightarrow> string \<Rightarrow> CounterfactualResult" where
  "counterfactual action realized_pnl_pct side =
     (let move = (if side = ''buy'' then realized_pnl_pct else - realized_pnl_pct);
          alternatives = [(''buy'', py_round 6 move), (''sell'', py_round 6 (- move)), (''hold'', 0)];
          chosen_pnl = dget alternatives action 0;
          best = argmax_from (hd alternatives) (tl alternatives);
          regret = py_round 6 (snd best - chosen_pnl)
      in \<lparr>cf_chosen_action = action, cf_chosen_pnl_pct = chosen_pnl, cf_alternatives = alternatives,
          cf_best_action = fst best, cf_best_pnl_pct = snd best, cf_regret_pct = regret,
          cf_was_best = (regret \<le> 1 / 10 ^ 9)\<rparr>)"

section \<open>The decision rule\<close>

lemma decide_action:
  "dn_action (decide f c) = (if dn_score (decide f c) > cc_buy_threshold c then ''buy''
     else if dn_score (decide f c) < cc_sell_threshold c then ''sell'' else ''hold'')"
  by (simp add: decide_def Let_def)

lemma decide_score:
  "dn_score (decide f c) = py_round 6 (sum_list (map (\<lambda>k. py_round 6 (dget f k 0 * dget (cc_weights c) k 0)) WEIGHT_KEYS))"
  by (simp add: decide_def breakdown_of_def Let_def comp_def)

lemma weight_nonneg: "config_safe c \<Longrightarrow> 0 \<le> dget (cc_weights c) k 0"
  by (auto simp: config_safe_def dget_def between_def bounds_defs list_all_iff
      dest!: map_of_SomeD split: option.splits)

lemma decide_score_mono:
  assumes "config_safe c" and "\<And>k. k \<in> set WEIGHT_KEYS \<Longrightarrow> dget f k 0 \<le> dget g k 0"
  shows "dn_score (decide f c) \<le> dn_score (decide g c)"
  unfolding decide_score
  by (intro py_round_mono sum_list_mono mult_right_mono weight_nonneg assms) simp_all

text \<open>Under a safe configuration the cognitive decision is monotone in the signals and blind to
  the risk feature: raising signals never turns a buy into anything else and never creates a
  sell, and two feature vectors that differ in the risk annotation alone are decided alike.\<close>
theorem decide_monotone:
  assumes "config_safe c" and "\<forall>k\<in>set WEIGHT_KEYS. dget f k 0 \<le> dget g k 0"
  shows "(dn_action (decide f c) = ''buy'' \<longrightarrow> dn_action (decide g c) = ''buy'')
    \<and> (dn_action (decide g c) = ''sell'' \<longrightarrow> dn_action (decide f c) = ''sell'')
    \<and> decide (dset ''risk'' x f) c = decide f c"
proof -
  have m: "dn_score (decide f c) \<le> dn_score (decide g c)"
    by (rule decide_score_mono) (use assms in auto)
  have t: "cc_sell_threshold c < cc_buy_threshold c" using assms(1) by (simp add: config_safe_def)
  have "breakdown_of (dset ''risk'' x f) c = breakdown_of f c"
    by (simp add: breakdown_of_def WEIGHT_KEYS_def)
  then have "decide (dset ''risk'' x f) c = decide f c" by (simp add: decide_def)
  then show ?thesis using m t by (auto simp: decide_action split: if_splits)
qed

theorem decide_monotone_witness:
  "config_safe DEFAULT_CONFIG
   \<and> map (\<lambda>k. dget [(''news'', 1 / 2)] k (0::real)) WEIGHT_KEYS = [1 / 2, 0, 0]
   \<and> map (\<lambda>k. dget [(''news'', 1)] k (0::real)) WEIGHT_KEYS = [1, 0, 0]
   \<and> dn_action (decide [(''news'', 1 / 2)] DEFAULT_CONFIG) = ''buy''
   \<and> dn_action (decide [(''news'', 1)] DEFAULT_CONFIG) = ''buy''"
proof -
  have k: "\<forall>k\<in>set WEIGHT_KEYS. dget [(''news'', 1 / 2)] k 0 \<le> dget [(''news'', 1::real)] k 0"
    by (simp add: WEIGHT_KEYS_def)
  have r: "py_round 6 (17 / 100) = 17 / 100"
    by (rule py_round_decimals) (auto simp: decimals_def intro!: exI [of _ 170000])
  have "dn_action (decide [(''news'', 1 / 2)] DEFAULT_CONFIG) = ''buy''"
    by (simp add: decide_action decide_score WEIGHT_KEYS_def DEFAULT_CONFIG_def r)
  then show ?thesis using decide_monotone [OF default_config_safe k] default_config_safe
    by (auto simp: WEIGHT_KEYS_def)
qed

text \<open>silence is a hold\<close>
lemma neutral_holds: "config_safe c \<Longrightarrow> dn_action (decide [] c) = ''hold''"
  by (simp add: decide_action decide_score WEIGHT_KEYS_def config_safe_def between_def bounds_defs)

lemma decide_cases: "dn_action (decide f c) \<in> {''buy'', ''sell'', ''hold''}"
  by (simp add: decide_action)

section \<open>Gate and execution\<close>

lemma gate_allowed_iff:
  "rg_allowed (evaluate_risk d c p x l) \<longleftrightarrow> dn_action d \<in> {''buy'', ''sell''}
     \<and> p \<le> cc_max_position_size_pct c \<and> x + p \<le> cc_max_exposure_pct c \<and> - cc_max_daily_loss_pct c < l"
  by (auto simp: evaluate_risk_def Let_def)

lemma gate_requested [simp]: "rg_requested_position_pct (evaluate_risk d c p x l) = p"
  by (simp add: evaluate_risk_def Let_def)

lemma execute_filled_iff: "ex_status (execute d g smb price eq) = ''filled'' \<longleftrightarrow> rg_allowed g \<and> 0 < price"
  by (auto simp: execute_def Let_def)

text \<open>C36: An order is filled exactly when the score leaves the hold band, the price is positive and
  every hard limit holds; a filled order takes the side of the decision and its size is worth
  the requested share of equity, at most the configured position size, up to half a unit in
  the eighth decimal of the quantity; anything else has size zero.\<close>
theorem forward_pass_respects_limits:
  assumes "d = decide f c" "g = evaluate_risk d c pct exposure day" "x = execute d g smb price equity"
    and "0 \<le> equity"
  shows "(ex_status x = ''filled'' \<longleftrightarrow>
        (dn_score d > cc_buy_threshold c \<or> dn_score d < cc_sell_threshold c)
        \<and> pct \<le> cc_max_position_size_pct c \<and> exposure + pct \<le> cc_max_exposure_pct c
        \<and> - cc_max_daily_loss_pct c < day \<and> 0 < price)
    \<and> ex_side x = dn_action d
    \<and> (if ex_status x = ''filled''
       then \<bar>ex_qty x * price - equity * pct\<bar> \<le> price / (2 * 10 ^ 8)
          \<and> ex_qty x * price \<le> equity * cc_max_position_size_pct c + price / (2 * 10 ^ 8)
       else ex_qty x = 0 \<and> ex_notional x = 0)"
proof -
  have a: "dn_action d \<in> {''buy'', ''sell''} \<longleftrightarrow> dn_score d > cc_buy_threshold c \<or> dn_score d < cc_sell_threshold c"
    by (simp add: assms(1) decide_action)
  have s: "ex_status x = ''filled'' \<longleftrightarrow> rg_allowed g \<and> 0 < price"
    by (simp only: assms(3) execute_filled_iff)
  have side: "ex_side x = dn_action d" by (simp add: assms(3) execute_def Let_def)
  have q: "\<bar>ex_qty x * price - equity * pct\<bar> \<le> price / (2 * 10 ^ 8)"
    "ex_qty x * price \<le> equity * cc_max_position_size_pct c + price / (2 * 10 ^ 8)"
    if "rg_allowed g" "0 < price"
  proof -
    have "ex_qty x = py_round 8 (equity * pct / price)"
      using that by (simp add: assms(2,3) execute_def Let_def)
    moreover have "\<bar>py_round 8 (equity * pct / price) - equity * pct / price\<bar> * price \<le> 1 / (2 * 10 ^ 8) * price"
      using that(2) by (intro mult_right_mono py_round_near) simp
    moreover have "(py_round 8 (equity * pct / price) - equity * pct / price) * price
        = py_round 8 (equity * pct / price) * price - equity * pct"
      using that(2) by (simp add: left_diff_distrib)
    ultimately show 1: "\<bar>ex_qty x * price - equity * pct\<bar> \<le> price / (2 * 10 ^ 8)"
      using that(2) by (simp add: abs_mult [symmetric] abs_mult_pos)
    have "equity * pct \<le> equity * cc_max_position_size_pct c"
      using that(1) \<open>0 \<le> equity\<close> by (intro mult_left_mono) (simp_all add: assms(2) gate_allowed_iff)
    then show "ex_qty x * price \<le> equity * cc_max_position_size_pct c + price / (2 * 10 ^ 8)"
      using 1 by linarith
  qed
  have n: "ex_qty x = 0 \<and> ex_notional x = 0" if "\<not> (rg_allowed g \<and> 0 < price)"
    using that by (auto simp: assms(3) execute_def)
  show ?thesis using s q n side a by (auto simp: assms(2) gate_allowed_iff)
qed

theorem forward_pass_respects_limits_witness:
  "ex_status (execute (decide [(''news'', 1)] DEFAULT_CONFIG)
      (evaluate_risk (decide [(''news'', 1)] DEFAULT_CONFIG) DEFAULT_CONFIG (2 / 100) 0 0) ''BTC'' 100 10000)
     = ''filled''
   \<and> ex_side (execute (decide [(''news'', 1)] DEFAULT_CONFIG)
      (evaluate_risk (decide [(''news'', 1)] DEFAULT_CONFIG) DEFAULT_CONFIG (2 / 100) 0 0) ''BTC'' 100 10000)
     = ''buy''"
proof -
  have r: "py_round 6 (17 / 50) = 17 / 50"
    by (rule py_round_decimals) (auto simp: decimals_def intro!: exI [of _ 340000])
  have "dn_score (decide [(''news'', 1)] DEFAULT_CONFIG) = 34 / 100"
    by (simp add: decide_score WEIGHT_KEYS_def DEFAULT_CONFIG_def r)
  then show ?thesis
    using forward_pass_respects_limits [OF refl refl refl, where f = "[(''news'', 1)]" and c = DEFAULT_CONFIG
      and pct = "2 / 100" and exposure = 0 and day = 0 and equity = 10000 and price = 100 and smb = "''BTC''"]
    by (simp add: DEFAULT_CONFIG_def decide_action)
qed

section \<open>Regret\<close>

lemma argmax_from_max:
  "argmax_from b xs \<in> insert b (set xs) \<and> (\<forall>q\<in>insert b (set xs). snd q \<le> snd (argmax_from b xs))"
proof (induction xs arbitrary: b)
  case (Cons x xs)
  show ?case using Cons.IH [of x] Cons.IH [of b]
    by (cases "snd x > snd b") auto
qed simp

lemma all_le_iff_best:
  fixes c :: real
  assumes "b \<in> S" "\<And>q. q \<in> S \<Longrightarrow> snd q \<le> snd b"
  shows "(\<forall>a v. (a, v) \<in> S \<longrightarrow> v \<le> c) \<longleftrightarrow> snd b \<le> c"
  using assms by (metis order.trans prod.collapse snd_conv)

lemma decimals_small: "decimals n x \<Longrightarrow> x < 1 / 10 ^ n \<Longrightarrow> x \<le> 0"
proof -
  assume "decimals n x" "x < 1 / 10 ^ n"
  then obtain k :: int where "x * 10 ^ n = of_int k" "x * 10 ^ n < 1"
    by (auto simp: decimals_def field_simps)
  then have "x * 10 ^ n \<le> 0" by auto
  then show "x \<le> 0" by (metis mult_pos_pos not_le zero_less_numeral zero_less_power)
qed

lemma best_of_alternatives:
  fixes alts :: "(string \<times> real) list"
  assumes "alts \<noteq> []" "\<And>q. q \<in> set alts \<Longrightarrow> decimals 6 (snd q)" "decimals 6 c" "\<exists>q\<in>set alts. c \<le> snd q"
    and b: "b = argmax_from (hd alts) (tl alts)"
  shows "(\<forall>a v. (a, v) \<in> set alts \<longrightarrow> v \<le> snd b) \<and> (fst b, snd b) \<in> set alts
    \<and> 0 \<le> py_round 6 (snd b - c) \<and> py_round 6 (snd b - c) = snd b - c
    \<and> (py_round 6 (snd b - c) \<le> 1 / 10 ^ 9 \<longleftrightarrow> (\<forall>a v. (a, v) \<in> set alts \<longrightarrow> v \<le> c))"
proof -
  have i: "insert (hd alts) (set (tl alts)) = set alts"
    using \<open>alts \<noteq> []\<close> by (metis list.collapse list.simps(15))
  have m: "b \<in> set alts" "\<And>q. q \<in> set alts \<Longrightarrow> snd q \<le> snd b"
    using argmax_from_max [of "hd alts" "tl alts"] unfolding i b [symmetric] by blast+
  have d: "decimals 6 (snd b - c)" using assms(2) [OF m(1)] assms(3) by (rule decimals_diff)
  note r = py_round_decimals [OF d]
  obtain q where "q \<in> set alts" "c \<le> snd q" using assms(4) by blast
  then have 1: "0 \<le> snd b - c" using m(2) [of q] by linarith
  have "snd b - c < 1 / 10 ^ 6" if "snd b - c \<le> 1 / 10 ^ 9"
    using that by (rule le_less_trans) simp
  then have "snd b - c \<le> 1 / 10 ^ 9 \<Longrightarrow> snd b - c \<le> 0" using decimals_small [OF d] by blast
  moreover have "snd b - c \<le> 0 \<Longrightarrow> snd b - c \<le> 1 / 10 ^ 9" by (erule order.trans) simp
  ultimately have 2: "snd b - c \<le> 1 / 10 ^ 9 \<longleftrightarrow> snd b \<le> c" by (metis diff_le_0_iff_le)
  have 3: "\<forall>a v. (a, v) \<in> set alts \<longrightarrow> v \<le> snd b" using all_le_iff_best [OF m, of "snd b"] by blast
  have 4: "(fst b, snd b) \<in> set alts" using m(1) by simp
  show ?thesis unfolding r 2 using 1 3 4 all_le_iff_best [OF m, of c] by blast
qed

text \<open>The counterfactual is sound: the action taken is replayed at what really happened, regret is
  the exact non-negative distance to the best of buy, sell and hold on the same move, and
  \<open>was_best\<close> holds exactly when no alternative would have made more.\<close>
theorem counterfactual_sound:
  assumes "r = counterfactual action pnl side"
  shows "(\<forall>a v. (a, v) \<in> set (cf_alternatives r) \<longrightarrow> v \<le> cf_best_pnl_pct r)
    \<and> (cf_best_action r, cf_best_pnl_pct r) \<in> set (cf_alternatives r)
    \<and> 0 \<le> cf_regret_pct r
    \<and> cf_regret_pct r = cf_best_pnl_pct r - cf_chosen_pnl_pct r
    \<and> (cf_was_best r \<longleftrightarrow> (\<forall>a v. (a, v) \<in> set (cf_alternatives r) \<longrightarrow> v \<le> cf_chosen_pnl_pct r))
    \<and> (action = side \<and> side \<in> {''buy'', ''sell''} \<longrightarrow> cf_chosen_pnl_pct r = py_round 6 pnl)"
proof -
  let ?move = "if side = ''buy'' then pnl else - pnl"
  define alts where "alts = [(''buy'', py_round 6 ?move), (''sell'', py_round 6 (- ?move)), (''hold'', 0)]"
  define b where "b = argmax_from (hd alts) (tl alts)"
  define c where "c = dget alts action 0"
  have f: "cf_alternatives r = alts" "cf_best_pnl_pct r = snd b" "cf_best_action r = fst b"
    "cf_chosen_pnl_pct r = c" "cf_regret_pct r = py_round 6 (snd b - c)"
    "cf_was_best r = (py_round 6 (snd b - c) \<le> 1 / 10 ^ 9)"
    unfolding assms counterfactual_def Let_def alts_def b_def c_def by (simp_all only: CounterfactualResult.select_convs)
  have "alts \<noteq> []" "\<And>q. q \<in> set alts \<Longrightarrow> decimals 6 (snd q)" "decimals 6 c" "\<exists>q\<in>set alts. c \<le> snd q"
    by (auto simp: alts_def c_def)
  note g = best_of_alternatives [OF this b_def]
  have "action = side \<and> side \<in> {''buy'', ''sell''} \<longrightarrow> c = py_round 6 pnl"
    by (auto simp: py_round_minus c_def alts_def)
  then show ?thesis unfolding f using g by blast
qed

theorem counterfactual_sound_witness:
  "cf_alternatives (counterfactual ''sell'' (- 2) ''sell'') = [(''buy'', 2), (''sell'', - 2), (''hold'', 0)]
   \<and> cf_regret_pct (counterfactual ''sell'' (- 2) ''sell'') = 4
   \<and> \<not> cf_was_best (counterfactual ''sell'' (- 2) ''sell'')"
proof -
  have r: "py_round 6 2 = 2" "py_round 6 (- 2) = - 2" by (simp_all add: py_round_decimals)
  have a: "cf_alternatives (counterfactual ''sell'' (- 2) ''sell'') = [(''buy'', 2), (''sell'', - 2), (''hold'', 0)]"
    "cf_chosen_pnl_pct (counterfactual ''sell'' (- 2) ''sell'') = - 2"
    "cf_best_pnl_pct (counterfactual ''sell'' (- 2) ''sell'') = 2"
    by (simp_all add: counterfactual_def Let_def r)
  have s: "cf_regret_pct (counterfactual ''sell'' (- 2) ''sell'') = 2 - - 2
    \<and> (cf_was_best (counterfactual ''sell'' (- 2) ''sell'')
       \<longleftrightarrow> (\<forall>b v. (b, v) \<in> set [(''buy'', 2), (''sell'', - 2), (''hold'', 0)] \<longrightarrow> v \<le> (- 2 :: real)))"
    using counterfactual_sound [OF refl, of "''sell''" "- 2" "''sell''"] unfolding a by blast
  show ?thesis using s a(1) by auto
qed

end
