(* ===== verification/Cog_Grading.thy ===== *)
theory Cog_Grading
  imports Cog_Events
begin

text \<open>
  Report cards of the cognitive brain (\<open>cognitive/grading.py\<close>): the letter scale, the four
  dimensions of a trade grade, and the grades of agents, proposals and configuration versions.
  The importance metadata of a signal, a dictionary with four fixed keys, is a record.
\<close>

section \<open>Letters\<close>

text \<open>the loop body for one letter\<close>
definition with_modifier :: "string \<Rightarrow> real \<Rightarrow> real \<Rightarrow> string" where
  "with_modifier letter low score =
     (let offset = score - low in
      if offset \<ge> 6667 / 1000 then letter @ ''+''
      else if offset < 3333 / 1000 then letter @ ''-''
      else letter)"

definition letter_grade :: "real \<Rightarrow> string" where
  "letter_grade raw =
     (let score = max 0 (min 100 raw) in
      if score < 60 then ''F''
      else if score \<ge> 90 then with_modifier ''A'' 90 score
      else if score \<ge> 80 then with_modifier ''B'' 80 score
      else if score \<ge> 70 then with_modifier ''C'' 70 score
      else with_modifier ''D'' 60 score)"

section \<open>Trade components\<close>

definition direction_component :: "real \<Rightarrow> real \<Rightarrow> real" where
  "direction_component decision_score realized_pnl_pct =
     (if realized_pnl_pct = 0 then 50
      else let correct = realized_pnl_pct > 0;
               move = min 1 (\<bar>realized_pnl_pct\<bar> / 3);
               conviction = min 1 (\<bar>decision_score\<bar> / (1 / 2));
               strength = 1 / 2 * move + 1 / 2 * conviction
           in if correct then 50 + 50 * strength else 50 - 50 * strength)"

definition risk_component :: "real \<Rightarrow> real \<Rightarrow> real" where
  "risk_component realized_pnl_pct max_adverse_pct =
     (let ratio = realized_pnl_pct / (\<bar>max_adverse_pct\<bar> + 1 / 2)
      in max 0 (min 100 (50 + 50 * tanh ratio)))"

definition execution_component :: "real \<Rightarrow> real" where
  "execution_component slippage_bps = max 0 (min 100 (100 - \<bar>slippage_bps\<bar> * 8))"

definition timing_component :: "string \<Rightarrow> real \<Rightarrow> real \<Rightarrow> real \<Rightarrow> real" where
  "timing_component side entry_price window_low window_high =
     (let span = window_high - window_low in
      if span \<le> 0 then 50
      else let position = (entry_price - window_low) / span;
               quality = (if side = ''buy'' then 1 - position else position)
           in max 0 (min 100 (100 * quality)))"

record trade_components =
  tc_direction :: real
  tc_risk :: real
  tc_execution :: real
  tc_timing :: real

definition TRADE_GRADE_WEIGHTS :: trade_components where
  "TRADE_GRADE_WEIGHTS = \<lparr>tc_direction = 40 / 100, tc_risk = 25 / 100, tc_execution = 15 / 100,
     tc_timing = 20 / 100\<rparr>"

record TradeGradeCard =
  tg_trade_id :: string
  tg_overall_grade :: string
  tg_overall_score :: real
  tg_direction_grade :: string
  tg_risk_grade :: string
  tg_execution_grade :: string
  tg_timing_grade :: string
  tg_components :: trade_components

definition trade_card_as_dict :: "TradeGradeCard \<Rightarrow> pydict" where
  "trade_card_as_dict c =
     [(''type'', PStr (event_value GRADE)), (''subject'', PStr ''trade''), (''subject_id'', PStr (tg_trade_id c)),
      (''grade'', PStr (tg_overall_grade c)), (''score'', PFloat (tg_overall_score c)),
      (''direction_grade'', PStr (tg_direction_grade c)), (''risk_grade'', PStr (tg_risk_grade c)),
      (''execution_grade'', PStr (tg_execution_grade c)), (''timing_grade'', PStr (tg_timing_grade c)),
      (''components'', PDict [(''direction'', PFloat (tc_direction (tg_components c))),
         (''risk'', PFloat (tc_risk (tg_components c))), (''execution'', PFloat (tc_execution (tg_components c))),
         (''timing'', PFloat (tc_timing (tg_components c)))])]"

definition overall_of :: "trade_components \<Rightarrow> real" where
  "overall_of k = py_round 2 (tc_direction k * tc_direction TRADE_GRADE_WEIGHTS
     + tc_risk k * tc_risk TRADE_GRADE_WEIGHTS + tc_execution k * tc_execution TRADE_GRADE_WEIGHTS
     + tc_timing k * tc_timing TRADE_GRADE_WEIGHTS)"

definition grade_trade ::
  "string \<Rightarrow> real \<Rightarrow> real \<Rightarrow> real \<Rightarrow> real \<Rightarrow> string \<Rightarrow> real \<Rightarrow> real \<Rightarrow> real \<Rightarrow> TradeGradeCard" where
  "grade_trade trade_id decision_score realized_pnl_pct max_adverse_pct slippage_bps side entry_price
     window_low window_high =
     (let components = \<lparr>tc_direction = py_round 2 (direction_component decision_score realized_pnl_pct),
            tc_risk = py_round 2 (risk_component realized_pnl_pct max_adverse_pct),
            tc_execution = py_round 2 (execution_component slippage_bps),
            tc_timing = py_round 2 (timing_component side entry_price window_low window_high)\<rparr>;
          overall = overall_of components
      in \<lparr>tg_trade_id = trade_id, tg_overall_grade = letter_grade overall, tg_overall_score = overall,
          tg_direction_grade = letter_grade (tc_direction components),
          tg_risk_grade = letter_grade (tc_risk components),
          tg_execution_grade = letter_grade (tc_execution components),
          tg_timing_grade = letter_grade (tc_timing components), tg_components = components\<rparr>)"

section \<open>Agents, proposals, configurations\<close>

record signal_stats =
  ss_samples :: nat
  ss_avg_abs_contribution :: real
  ss_total_pnl_attribution :: real
  ss_correct_rate :: real

record AgentGradeCard =
  ag_signal :: string
  ag_grade :: string
  ag_score :: real
  ag_samples :: nat
  ag_correct_rate :: real
  ag_contribution :: real

definition agent_card_as_dict :: "AgentGradeCard \<Rightarrow> pydict" where
  "agent_card_as_dict c =
     [(''type'', PStr (event_value GRADE)), (''subject'', PStr ''agent''), (''subject_id'', PStr (ag_signal c)),
      (''grade'', PStr (ag_grade c)), (''score'', PFloat (ag_score c)), (''samples'', PInt (int (ag_samples c))),
      (''correct_rate'', PFloat (ag_correct_rate c)), (''contribution'', PFloat (ag_contribution c))]"

definition grade_agent :: "nat \<Rightarrow> string \<Rightarrow> signal_stats \<Rightarrow> AgentGradeCard" where
  "grade_agent min_samples signal stats =
     (let samples = ss_samples stats; correct_rate = ss_correct_rate stats;
          contribution = ss_total_pnl_attribution stats
      in if samples < min_samples
         then \<lparr>ag_signal = signal, ag_grade = ''NR'', ag_score = 0, ag_samples = samples,
               ag_correct_rate = correct_rate, ag_contribution = contribution\<rparr>
         else let pnl_sign = 1 / 2 + 1 / 2 * tanh (contribution / (\<bar>contribution\<bar> + 1));
                  score = py_round 2 (100 * (7 / 10 * correct_rate + 3 / 10 * pnl_sign))
              in \<lparr>ag_signal = signal, ag_grade = letter_grade score, ag_score = score, ag_samples = samples,
                  ag_correct_rate = correct_rate, ag_contribution = contribution\<rparr>)"

record ProposalGradeCard =
  pg_proposal_id :: string
  pg_proposal_type :: string
  pg_grade :: string
  pg_score :: real
  pg_pnl_delta :: real
  pg_sharpe_delta :: real

definition proposal_card_as_dict :: "ProposalGradeCard \<Rightarrow> pydict" where
  "proposal_card_as_dict c =
     [(''type'', PStr (event_value GRADE)), (''subject'', PStr ''proposal''),
      (''subject_id'', PStr (pg_proposal_id c)), (''proposal_type'', PStr (pg_proposal_type c)),
      (''grade'', PStr (pg_grade c)), (''score'', PFloat (pg_score c)), (''pnl_delta'', PFloat (pg_pnl_delta c)),
      (''sharpe_delta'', PFloat (pg_sharpe_delta c))]"

definition grade_proposal :: "string \<Rightarrow> string \<Rightarrow> real \<Rightarrow> real \<Rightarrow> ProposalGradeCard" where
  "grade_proposal proposal_id proposal_type pnl_delta sharpe_delta =
     (let score = py_round 2 (max 0 (min 100 (50 + 30 * tanh sharpe_delta + 20 * tanh pnl_delta)))
      in \<lparr>pg_proposal_id = proposal_id, pg_proposal_type = proposal_type, pg_grade = letter_grade score,
          pg_score = score, pg_pnl_delta = pnl_delta, pg_sharpe_delta = sharpe_delta\<rparr>)"

record ConfigGradeCard =
  cg_version :: int
  cg_grade :: string
  cg_score :: real
  cg_sharpe :: real
  cg_max_drawdown_pct :: real

definition int_str :: "int \<Rightarrow> string" where
  "int_str i = (if i < 0 then ''-'' @ nat_str (nat (- i)) else nat_str (nat i))"

definition config_card_as_dict :: "ConfigGradeCard \<Rightarrow> pydict" where
  "config_card_as_dict c =
     [(''type'', PStr (event_value GRADE)), (''subject'', PStr ''config_version''),
      (''subject_id'', PStr (int_str (cg_version c))), (''grade'', PStr (cg_grade c)),
      (''score'', PFloat (cg_score c)), (''sharpe'', PFloat (cg_sharpe c)),
      (''max_drawdown_pct'', PFloat (cg_max_drawdown_pct c))]"

definition grade_config_version :: "int \<Rightarrow> real \<Rightarrow> real \<Rightarrow> ConfigGradeCard" where
  "grade_config_version version sharpe max_drawdown_pct =
     (let score = py_round 2 (max 0 (min 100 (60 + 28 * tanh sharpe - 12 / 10 * max_drawdown_pct)))
      in \<lparr>cg_version = version, cg_grade = letter_grade score, cg_score = score, cg_sharpe = sharpe,
          cg_max_drawdown_pct = max_drawdown_pct\<rparr>)"

section \<open>The scale is a scale\<close>

definition grade_scale :: "string list" where
  "grade_scale = [''F'', ''D-'', ''D'', ''D+'', ''C-'', ''C'', ''C+'', ''B-'', ''B'', ''B+'', ''A-'', ''A'', ''A+'']"

text \<open>the position of a letter on the scale\<close>
definition grade_rank :: "string \<Rightarrow> nat" where
  "grade_rank g = length (takeWhile (\<lambda>x. x \<noteq> g) grade_scale)"

lemma grade_rank_simps [simp]:
  "grade_rank ''F'' = 0" "grade_rank ''D-'' = 1" "grade_rank ''D'' = 2" "grade_rank ''D+'' = 3"
  "grade_rank ''C-'' = 4" "grade_rank ''C'' = 5" "grade_rank ''C+'' = 6" "grade_rank ''B-'' = 7"
  "grade_rank ''B'' = 8" "grade_rank ''B+'' = 9" "grade_rank ''A-'' = 10" "grade_rank ''A'' = 11"
  "grade_rank ''A+'' = 12"
  by (simp_all add: grade_rank_def grade_scale_def)

text \<open>the rank as a count of the cut points the score has passed\<close>
definition cut_points :: "real list" where
  "cut_points = [60, 60 + 3333 / 1000, 60 + 6667 / 1000, 70, 70 + 3333 / 1000, 70 + 6667 / 1000,
     80, 80 + 3333 / 1000, 80 + 6667 / 1000, 90, 90 + 3333 / 1000, 90 + 6667 / 1000]"

lemma clamped_rank:
  "grade_rank (if x < 60 then ''F'' else if x \<ge> 90 then with_modifier ''A'' 90 x
      else if x \<ge> 80 then with_modifier ''B'' 80 x else if x \<ge> 70 then with_modifier ''C'' 70 x
      else with_modifier ''D'' 60 x) = length (filter (\<lambda>c. c \<le> x) cut_points)"
  unfolding with_modifier_def Let_def cut_points_def by simp

lemma grade_rank_letter: "grade_rank (letter_grade s) = length (filter (\<lambda>c. c \<le> s) cut_points)"
proof -
  let ?s = "max 0 (min 100 s)"
  have "filter (\<lambda>c. c \<le> s) cut_points = filter (\<lambda>c. c \<le> ?s) cut_points"
    by (rule filter_cong) (auto simp: cut_points_def)
  moreover have "grade_rank (letter_grade s) = length (filter (\<lambda>c. c \<le> ?s) cut_points)"
    using clamped_rank [of ?s] by (simp add: letter_grade_def Let_def)
  ultimately show ?thesis by simp
qed

lemma length_filter_mono: "(\<And>x. P x \<Longrightarrow> Q x) \<Longrightarrow> length (filter P xs) \<le> length (filter Q xs)"
  by (induction xs) auto

text \<open>A better score never gets a worse letter, and every letter given is on the scale.\<close>
theorem letter_grade_monotone:
  assumes "s \<le> t"
  shows "grade_rank (letter_grade s) \<le> grade_rank (letter_grade t) \<and> letter_grade s \<in> set grade_scale"
proof -
  have "letter_grade s \<in> set grade_scale"
    by (simp add: letter_grade_def with_modifier_def Let_def grade_scale_def)
  moreover have "length (filter (\<lambda>c. c \<le> s) cut_points) \<le> length (filter (\<lambda>c. c \<le> t) cut_points)"
    using assms by (intro length_filter_mono) linarith
  ultimately show ?thesis by (simp only: grade_rank_letter)
qed

theorem letter_grade_monotone_witness:
  "(86::real) \<le> 93 \<and> letter_grade 86 = ''B'' \<and> letter_grade 93 = ''A-''
   \<and> grade_rank (letter_grade 86) \<le> grade_rank (letter_grade 93)"
  using letter_grade_monotone [of 86 93] by (simp add: letter_grade_def with_modifier_def)

lemma direction_range: "0 \<le> direction_component d p \<and> direction_component d p \<le> 100"
  by (auto simp: direction_component_def Let_def min_def)

lemma clamp100_range: "0 \<le> max 0 (min 100 (x::real)) \<and> max 0 (min 100 x) \<le> 100"
  by auto

lemma round100: "0 \<le> x \<and> x \<le> 100 \<Longrightarrow> 0 \<le> py_round n x \<and> py_round n x \<le> 100"
  by (auto intro: py_round_ge py_round_le)

lemma timing_range: "0 \<le> timing_component s e l h \<and> timing_component s e l h \<le> 100"
  by (auto simp: timing_component_def Let_def)

definition component_values :: "trade_components \<Rightarrow> real list" where
  "component_values k = [tc_direction k, tc_risk k, tc_execution k, tc_timing k]"

lemma overall_is_a_blend:
  assumes "list_all (\<lambda>v. 0 \<le> v \<and> v \<le> 100) (component_values k)"
  shows "0 \<le> overall_of k \<and> overall_of k \<le> 100
    \<and> Min (set (component_values k)) - 5 / 1000 \<le> overall_of k
    \<and> overall_of k \<le> Max (set (component_values k)) + 5 / 1000"
proof -
  let ?vals = "component_values k"
  let ?avg = "40 / 100 * tc_direction k + 25 / 100 * tc_risk k + 15 / 100 * tc_execution k + 20 / 100 * tc_timing k"
  have o: "overall_of k = py_round 2 ?avg"
    by (simp add: overall_of_def TRADE_GRADE_WEIGHTS_def algebra_simps)
  have m: "Min (set ?vals) \<le> v \<and> v \<le> Max (set ?vals)" if "v \<in> set ?vals" for v using that by simp
  have in_vals: "tc_direction k \<in> set ?vals" "tc_risk k \<in> set ?vals" "tc_execution k \<in> set ?vals" "tc_timing k \<in> set ?vals"
    by (simp_all add: component_values_def)
  note b = in_vals [THEN m]
  have "Min (set ?vals) \<le> ?avg" "?avg \<le> Max (set ?vals)" using b by linarith+
  moreover have "0 \<le> ?avg" "?avg \<le> 100" using assms by (simp_all add: component_values_def)
  then have "0 \<le> overall_of k \<and> overall_of k \<le> 100" using round100 [of ?avg 2] o by simp
  moreover have "\<bar>overall_of k - ?avg\<bar> \<le> 5 / 1000" using py_round_near [of 2 ?avg] o by simp
  ultimately show ?thesis by linarith
qed

text \<open>All four dimensions and the overall score of a trade card lie in 0..100, and the overall
  score lies between the worst and the best dimension up to half a cent of rounding, since the
  weights sum to one.\<close>
theorem trade_grade_is_a_blend:
  "let c = grade_trade tid dscore pnl adv slip side entry low high;
       vals = component_values (tg_components c); overall = tg_overall_score c
   in list_all (\<lambda>v. 0 \<le> v \<and> v \<le> 100) vals \<and> 0 \<le> overall \<and> overall \<le> 100
    \<and> Min (set vals) - 5 / 1000 \<le> overall \<and> overall \<le> Max (set vals) + 5 / 1000"
proof -
  let ?c = "grade_trade tid dscore pnl adv slip side entry low high"
  have r: "list_all (\<lambda>v. 0 \<le> v \<and> v \<le> 100) (component_values (tg_components ?c))"
    by (simp add: component_values_def grade_trade_def Let_def round100 direction_range timing_range
        risk_component_def execution_component_def)
  have o: "tg_overall_score ?c = overall_of (tg_components ?c)" by (simp add: grade_trade_def Let_def)
  show ?thesis unfolding Let_def o using overall_is_a_blend [OF r] r by blast
qed

lemma direction_verdict:
  "(0 < pnl \<longrightarrow> 50 < direction_component d pnl) \<and> (pnl < 0 \<longrightarrow> direction_component d pnl < 50)"
proof -
  have "0 < 1 / 2 * min 1 (\<bar>pnl\<bar> / 3) + 1 / 2 * min 1 (\<bar>d\<bar> / (1 / 2))" if "pnl \<noteq> 0"
  proof -
    have "0 < min 1 (\<bar>pnl\<bar> / 3)" "0 \<le> min 1 (\<bar>d\<bar> / (1 / 2))" using that by auto
    then show ?thesis by (simp only: add_pos_nonneg mult_pos_pos mult_nonneg_nonneg zero_less_divide_1_iff
          zero_le_divide_1_iff zero_less_numeral zero_le_numeral)
  qed
  then show ?thesis by (auto simp: direction_component_def Let_def)
qed

lemma agent_unrated_iff: "ag_grade (grade_agent m s st) = ''NR'' \<longleftrightarrow> ss_samples st < m"
  by (auto simp: grade_agent_def Let_def letter_grade_def with_modifier_def)

end
