(* ===== verification/Cog_Learning.thy ===== *)
theory Cog_Learning
  imports Cog_Decision Cog_Grading
begin

text \<open>
  What the brain learns from closed trades: the attribution of realized PnL to the signals,
  the running importance metadata and the observations drawn from it
  (\<open>cognitive/learning.py\<close>), and the drift monitor (\<open>cognitive/drift.py\<close>).
\<close>

section \<open>Attribution\<close>

record Attribution =
  at_contributions :: "(string \<times> real) list"
  at_shares :: "(string \<times> real) list"
  at_pnl_attribution :: "(string \<times> real) list"
  at_realized_pnl :: real

definition attribution_as_dict :: "Attribution \<Rightarrow> pydict" where
  "attribution_as_dict a =
     [(''type'', PStr (event_value ATTRIBUTION)), (''contributions'', PDict (float_dict (at_contributions a))),
      (''shares'', PDict (float_dict (at_shares a))),
      (''pnl_attribution'', PDict (float_dict (at_pnl_attribution a))),
      (''realized_pnl'', PFloat (at_realized_pnl a))]"

definition shares_of :: "(string \<times> real) list \<Rightarrow> (string \<times> real) list" where
  "shares_of contributions =
     (let total = sum_list (map (\<lambda>(k, v). \<bar>v\<bar>) contributions)
      in if total > 0 then map (\<lambda>(k, v). (k, py_round 6 (\<bar>v\<bar> / total))) contributions
         else map (\<lambda>k. (k, 0)) WEIGHT_KEYS)"

text \<open>the split of the PnL once the contributions are numbers\<close>
definition attribution_of :: "(string \<times> real) list \<Rightarrow> real \<Rightarrow> Attribution" where
  "attribution_of contributions realized_pnl =
     (let shares = shares_of contributions
      in \<lparr>at_contributions = contributions, at_shares = shares,
          at_pnl_attribution = map (\<lambda>key. (key, py_round 6 (dget shares key 0 * realized_pnl))) WEIGHT_KEYS,
          at_realized_pnl = py_round 6 realized_pnl\<rparr>)"

definition attribute :: "pydict \<Rightarrow> real \<Rightarrow> Attribution pyres" where
  "attribute breakdown realized_pnl =
     res_bind (payload_float breakdown ''news'' 0) (\<lambda>news.
     res_bind (payload_float breakdown ''tech'' 0) (\<lambda>tech.
     res_bind (payload_float breakdown ''macro'' 0) (\<lambda>macro.
       Inr (attribution_of [(''news'', news), (''tech'', tech), (''macro'', macro)] realized_pnl))))"

section \<open>Importance metadata\<close>

record SignalAcc =
  sa_samples :: nat
  sa_abs_contribution :: real
  sa_pnl :: real
  sa_correct :: nat

definition new_acc :: SignalAcc where
  "new_acc = \<lparr>sa_samples = 0, sa_abs_contribution = 0, sa_pnl = 0, sa_correct = 0\<rparr>"

type_synonym importance = "(string \<times> SignalAcc) list"

definition new_importance :: importance where
  "new_importance = map (\<lambda>key. (key, new_acc)) WEIGHT_KEYS"

definition acc_update :: "real \<Rightarrow> real \<Rightarrow> int \<Rightarrow> SignalAcc \<Rightarrow> SignalAcc" where
  "acc_update contribution pnl outcome_sign acc =
     \<lparr>sa_samples = sa_samples acc + 1, sa_abs_contribution = sa_abs_contribution acc + \<bar>contribution\<bar>,
      sa_pnl = sa_pnl acc + pnl,
      sa_correct = (if sign contribution \<noteq> 0 \<and> sign contribution = outcome_sign
                    then sa_correct acc + 1 else sa_correct acc)\<rparr>"

definition importance_update :: "Attribution \<Rightarrow> int \<Rightarrow> importance \<Rightarrow> importance" where
  "importance_update a outcome_sign accs =
     map (\<lambda>(key, acc). (key, acc_update (dget (at_contributions a) key 0)
            (dget (at_pnl_attribution a) key 0) outcome_sign acc)) accs"

definition acc_stats :: "SignalAcc \<Rightarrow> signal_stats" where
  "acc_stats acc =
     \<lparr>ss_samples = sa_samples acc,
      ss_avg_abs_contribution = (if sa_samples acc \<noteq> 0
         then py_round 6 (sa_abs_contribution acc / real (sa_samples acc)) else 0),
      ss_total_pnl_attribution = py_round 6 (sa_pnl acc),
      ss_correct_rate = (if sa_samples acc \<noteq> 0
         then py_round 6 (real (sa_correct acc) / real (sa_samples acc)) else 0)\<rparr>"

definition importance_metadata :: "importance \<Rightarrow> (string \<times> signal_stats) list" where
  "importance_metadata accs = map (\<lambda>(key, acc). (key, acc_stats acc)) accs"

section \<open>Observations\<close>

record Evidence =
  ev_agent_grade :: string
  ev_correct_rate :: real
  ev_contribution :: real
  ev_sample_size :: nat

record Observation =
  ob_observation :: string
  ob_confidence :: real
  ob_signal :: string
  ob_direction :: string
  ob_evidence :: Evidence

definition observation_as_dict :: "Observation \<Rightarrow> pydict" where
  "observation_as_dict obs =
     [(''type'', PStr (event_value OBSERVATION)), (''observation'', PStr (ob_observation obs)),
      (''confidence'', PFloat (ob_confidence obs)), (''signal'', PStr (ob_signal obs)),
      (''direction'', PStr (ob_direction obs)),
      (''evidence'', PDict [(''agent_grade'', PStr (ev_agent_grade (ob_evidence obs))),
         (''correct_rate'', PFloat (ev_correct_rate (ob_evidence obs))),
         (''contribution'', PFloat (ev_contribution (ob_evidence obs))),
         (''sample_size'', PInt (int (ev_sample_size (ob_evidence obs))))])]"

record LearningEngine =
  le_min_samples :: nat
  le_outperform_rate :: real
  le_underperform_rate :: real

definition default_learning :: LearningEngine where
  "default_learning = \<lparr>le_min_samples = 30, le_outperform_rate = 60 / 100, le_underperform_rate = 40 / 100\<rparr>"

definition observation_confidence :: "nat \<Rightarrow> signal_stats \<Rightarrow> real" where
  "observation_confidence min_samples stats =
     (let effect = \<bar>ss_correct_rate stats - 1 / 2\<bar> * 2;
          coverage = min 1 (real (ss_samples stats) / (real min_samples * 3))
      in py_round 2 (max 0 (min 1 (6 / 10 * effect + 4 / 10 * coverage))))"

definition make_observation :: "LearningEngine \<Rightarrow> string \<Rightarrow> signal_stats \<Rightarrow> string \<Rightarrow> Observation" where
  "make_observation le signal stats direction =
     \<lparr>ob_observation = signal @ ''_agent_'' @ direction,
      ob_confidence = observation_confidence (le_min_samples le) stats, ob_signal = signal,
      ob_direction = direction,
      ob_evidence = \<lparr>ev_agent_grade = ag_grade (grade_agent (le_min_samples le) signal stats),
        ev_correct_rate = ss_correct_rate stats, ev_contribution = ss_total_pnl_attribution stats,
        ev_sample_size = ss_samples stats\<rparr>\<rparr>"

text \<open>the loop body; \<open>samples / (min_samples * 3)\<close> divides by zero when \<open>min_samples\<close> is 0\<close>
definition observe_signal :: "LearningEngine \<Rightarrow> string \<times> signal_stats \<Rightarrow> Observation list pyres" where
  "observe_signal le x = (case x of (signal, stats) \<Rightarrow>
     if ss_samples stats < le_min_samples le then Inr []
     else if le_min_samples le = 0 then Inl ZeroDivisionError
     else if ss_correct_rate stats \<ge> le_outperform_rate le \<and> ss_total_pnl_attribution stats \<ge> 0
     then Inr [make_observation le signal stats ''outperforming'']
     else if ss_correct_rate stats \<le> le_underperform_rate le \<or> ss_total_pnl_attribution stats < 0
     then Inr [make_observation le signal stats ''underperforming'']
     else Inr [])"

fun observe :: "LearningEngine \<Rightarrow> (string \<times> signal_stats) list \<Rightarrow> Observation list pyres" where
  "observe le [] = Inr []"
| "observe le (x # xs) =
     res_bind (observe_signal le x) (\<lambda>a. res_bind (observe le xs) (\<lambda>b. Inr (a @ b)))"

section \<open>Drift\<close>

record DriftSpec =
  ds_higher_is_better :: bool
  ds_threshold :: real

record DriftMonitor =
  dm_window :: nat
  dm_min_samples :: nat
  dm_series :: "(string \<times> real list) list"
  dm_specs :: "(string \<times> DriftSpec) list"

definition new_drift :: "nat \<Rightarrow> nat \<Rightarrow> DriftMonitor" where
  "new_drift window min_samples =
     \<lparr>dm_window = window, dm_min_samples = min_samples, dm_series = [], dm_specs = []\<rparr>"

record DriftAlert =
  da_metric :: string
  da_direction :: string
  da_recent :: real
  da_baseline :: real
  da_delta :: real

definition alert_as_dict :: "DriftAlert \<Rightarrow> pydict" where
  "alert_as_dict a =
     [(''type'', PStr (event_value DRIFT)), (''metric'', PStr (da_metric a)),
      (''direction'', PStr (da_direction a)), (''recent'', PFloat (da_recent a)),
      (''baseline'', PFloat (da_baseline a)), (''delta'', PFloat (da_delta a))]"

definition drift_register :: "string \<Rightarrow> bool \<Rightarrow> real \<Rightarrow> DriftMonitor \<Rightarrow> DriftMonitor" where
  "drift_register metric higher threshold dm =
     dm\<lparr>dm_specs := dset metric \<lparr>ds_higher_is_better = higher, ds_threshold = threshold\<rparr> (dm_specs dm),
        dm_series := dset metric [] (dm_series dm)\<rparr>"

text \<open>\<open>deque(maxlen=n).append(x)\<close>\<close>
definition deque_append :: "nat \<Rightarrow> 'a \<Rightarrow> 'a list \<Rightarrow> 'a list" where
  "deque_append n x xs = (let ys = xs @ [x] in drop (length ys - n) ys)"

definition drift_observe :: "string \<Rightarrow> real \<Rightarrow> DriftMonitor \<Rightarrow> DriftMonitor" where
  "drift_observe metric value dm = (case map_of (dm_series dm) metric of
       None \<Rightarrow> dm
     | Some series \<Rightarrow> dm\<lparr>dm_series := dset metric (deque_append (dm_window dm * 2) value series) (dm_series dm)\<rparr>)"

definition degradation_of :: "DriftSpec \<Rightarrow> real list \<Rightarrow> real" where
  "degradation_of spec values =
     (let half = length values div 2; baseline = fmean (take half values); recent = fmean (drop half values)
      in if ds_higher_is_better spec then baseline - recent else recent - baseline)"

text \<open>one metric of the loop; \<open>fmean\<close> of an empty half raises \<open>StatisticsError\<close>, a \<open>ValueError\<close>\<close>
definition assess_metric :: "DriftMonitor \<Rightarrow> string \<times> real list \<Rightarrow> DriftAlert list pyres" where
  "assess_metric dm x = (case x of (metric, series) \<Rightarrow>
     if length series < 2 * dm_min_samples dm then Inr []
     else if length series div 2 = 0 then Inl ValueError
     else (case map_of (dm_specs dm) metric of
         None \<Rightarrow> Inl (KeyError metric)
       | Some spec \<Rightarrow>
           let half = length series div 2; degradation = degradation_of spec series
           in if degradation > ds_threshold spec
              then Inr [\<lparr>da_metric = metric,
                         da_direction = (if ds_higher_is_better spec then ''down'' else ''up''),
                         da_recent = py_round 4 (fmean (drop half series)),
                         da_baseline = py_round 4 (fmean (take half series)),
                         da_delta = py_round 4 degradation\<rparr>]
              else Inr []))"

fun assess_all :: "DriftMonitor \<Rightarrow> (string \<times> real list) list \<Rightarrow> DriftAlert list pyres" where
  "assess_all dm [] = Inr []"
| "assess_all dm (x # xs) =
     res_bind (assess_metric dm x) (\<lambda>a. res_bind (assess_all dm xs) (\<lambda>b. Inr (a @ b)))"

definition assess :: "DriftMonitor \<Rightarrow> DriftAlert list pyres" where
  "assess dm = assess_all dm (dm_series dm)"

definition drift_snapshot :: "DriftMonitor \<Rightarrow> pydict" where
  "drift_snapshot dm =
     [(''window'', PInt (int (dm_window dm))), (''min_samples'', PInt (int (dm_min_samples dm))),
      (''metrics'', PDict (map (\<lambda>(metric, series). (metric,
         PDict [(''samples'', PInt (int (length series))),
                (''latest'', if series \<noteq> [] then PFloat (last series) else PNone)])) (dm_series dm)))]"

section \<open>Attribution conserves PnL\<close>

lemma attribute_Inr:
  assumes "attribute breakdown pnl = Inr a"
  obtains n t m where "a = attribution_of [(''news'', n), (''tech'', t), (''macro'', m)] pnl"
  using assms by (auto simp: attribute_def res_bind_Inr_iff)

lemma share_error:
  assumes "0 \<le> v" "v \<le> tot" "0 < tot"
  shows "\<bar>py_round 6 (py_round 6 (v / tot) * pnl) - v / tot * pnl\<bar> \<le> (\<bar>pnl\<bar> + 1) / (2 * 10 ^ 6)"
proof -
  have "\<bar>py_round 6 (v / tot) * pnl - v / tot * pnl\<bar> = \<bar>py_round 6 (v / tot) - v / tot\<bar> * \<bar>pnl\<bar>"
    by (simp only: left_diff_distrib [symmetric] abs_mult)
  also have "\<dots> \<le> 1 / (2 * 10 ^ 6) * \<bar>pnl\<bar>" by (intro mult_right_mono py_round_near) simp
  finally have 1: "\<bar>py_round 6 (v / tot) * pnl - v / tot * pnl\<bar> \<le> \<bar>pnl\<bar> / (2 * 10 ^ 6)" by simp
  have 2: "\<bar>py_round 6 (py_round 6 (v / tot) * pnl) - py_round 6 (v / tot) * pnl\<bar> \<le> 1 / (2 * 10 ^ 6)"
    by (rule py_round_near)
  have "\<bar>py_round 6 (py_round 6 (v / tot) * pnl) - v / tot * pnl\<bar> \<le> 1 / (2 * 10 ^ 6) + \<bar>pnl\<bar> / (2 * 10 ^ 6)"
    using 1 2 by linarith
  then show ?thesis by (simp add: add_divide_distrib)
qed

lemma three_errors:
  fixes a b c :: real
  assumes "\<bar>a - x\<bar> \<le> e" "\<bar>b - y\<bar> \<le> e" "\<bar>c - z\<bar> \<le> e" "x + (y + z) = p"
  shows "\<bar>a + (b + c) - p\<bar> \<le> e + (e + e)"
  using assms by linarith

lemma attribution_of_sum:
  assumes "n \<noteq> 0 \<or> t \<noteq> 0 \<or> m \<noteq> 0"
    and a: "a = attribution_of [(''news'', n), (''tech'', t), (''macro'', m)] pnl"
  shows "\<bar>sum_list (map snd (at_pnl_attribution a)) - pnl\<bar> \<le> 3 * (\<bar>pnl\<bar> + 1) / (2 * 10 ^ 6)"
proof -
  let ?T = "\<bar>n\<bar> + (\<bar>t\<bar> + \<bar>m\<bar>)"
  have T: "0 < ?T" using assms(1) by auto
  have s: "sum_list (map snd (at_pnl_attribution a)) =
      py_round 6 (py_round 6 (\<bar>n\<bar> / ?T) * pnl) + (py_round 6 (py_round 6 (\<bar>t\<bar> / ?T) * pnl)
      + py_round 6 (py_round 6 (\<bar>m\<bar> / ?T) * pnl))"
    using T by (simp add: a attribution_of_def shares_of_def WEIGHT_KEYS_def Let_def)
  have "\<bar>n\<bar> / ?T * pnl + (\<bar>t\<bar> / ?T * pnl + \<bar>m\<bar> / ?T * pnl) = (\<bar>n\<bar> + (\<bar>t\<bar> + \<bar>m\<bar>)) / ?T * pnl"
    by (simp only: add_divide_distrib distrib_right)
  also have "\<dots> = pnl" using T by simp
  finally have p: "\<bar>n\<bar> / ?T * pnl + (\<bar>t\<bar> / ?T * pnl + \<bar>m\<bar> / ?T * pnl) = pnl" .
  note e = share_error [where tot = ?T and pnl = pnl, OF _ _ T]
  have "\<bar>py_round 6 (py_round 6 (\<bar>n\<bar> / ?T) * pnl) - \<bar>n\<bar> / ?T * pnl\<bar> \<le> (\<bar>pnl\<bar> + 1) / (2 * 10 ^ 6)"
    "\<bar>py_round 6 (py_round 6 (\<bar>t\<bar> / ?T) * pnl) - \<bar>t\<bar> / ?T * pnl\<bar> \<le> (\<bar>pnl\<bar> + 1) / (2 * 10 ^ 6)"
    "\<bar>py_round 6 (py_round 6 (\<bar>m\<bar> / ?T) * pnl) - \<bar>m\<bar> / ?T * pnl\<bar> \<le> (\<bar>pnl\<bar> + 1) / (2 * 10 ^ 6)"
    by (rule e; simp)+
  then have "\<bar>sum_list (map snd (at_pnl_attribution a)) - pnl\<bar>
      \<le> (\<bar>pnl\<bar> + 1) / (2 * 10 ^ 6) + ((\<bar>pnl\<bar> + 1) / (2 * 10 ^ 6) + (\<bar>pnl\<bar> + 1) / (2 * 10 ^ 6))"
    unfolding s by (rule three_errors [OF _ _ _ p])
  then show ?thesis by simp
qed

text \<open>Attribution conserves PnL: when any signal contributed, the parts credited to the signals
  add up to the realized PnL up to the rounding of three six-decimal shares; when none did,
  nothing is credited.\<close>
theorem attribution_conserves_pnl:
  assumes "attribute breakdown pnl = Inr a"
  shows "if list_all (\<lambda>(k, v). v = 0) (at_contributions a)
    then list_all (\<lambda>(k, v). v = 0) (at_pnl_attribution a)
    else \<bar>sum_list (map snd (at_pnl_attribution a)) - pnl\<bar> \<le> 3 * (\<bar>pnl\<bar> + 1) / (2 * 10 ^ 6)"
proof -
  obtain n t m where a: "a = attribution_of [(''news'', n), (''tech'', t), (''macro'', m)] pnl"
    using assms by (rule attribute_Inr)
  have c: "list_all (\<lambda>(k, v). v = 0) (at_contributions a) \<longleftrightarrow> \<not> (n \<noteq> 0 \<or> t \<noteq> 0 \<or> m \<noteq> 0)"
    by (auto simp: a attribution_of_def Let_def)
  show ?thesis
  proof (cases "n \<noteq> 0 \<or> t \<noteq> 0 \<or> m \<noteq> 0")
    case True
    show ?thesis using attribution_of_sum [OF True a] True unfolding c by (simp only: simp_thms if_False)
  next
    case False
    then show ?thesis unfolding c
      by (simp add: a attribution_of_def shares_of_def WEIGHT_KEYS_def Let_def)
  qed
qed

theorem attribution_conserves_pnl_witness:
  "\<exists>a. attribute [(''news'', PFloat 1), (''tech'', PInt 1)] 10 = Inr a
     \<and> \<bar>sum_list (map snd (at_pnl_attribution a)) - 10\<bar> \<le> 33 / (2 * 10 ^ 6)"
proof -
  let ?a = "attribution_of [(''news'', 1), (''tech'', 1), (''macro'', 0)] 10"
  have e: "attribute [(''news'', PFloat 1), (''tech'', PInt 1)] 10 = Inr ?a"
    by (simp add: attribute_def payload_float_def)
  have "\<not> list_all (\<lambda>(k, v). v = 0) (at_contributions ?a)" by (simp add: attribution_of_def Let_def)
  then have "\<bar>sum_list (map snd (at_pnl_attribution ?a)) - 10\<bar> \<le> 3 * (\<bar>10\<bar> + 1) / (2 * 10 ^ 6)"
    using attribution_conserves_pnl [OF e] by (simp only: if_False)
  then show ?thesis using e by (intro exI [of _ ?a]) simp
qed

section \<open>The tracker is a fold\<close>

definition importance_run :: "(Attribution \<times> int) list \<Rightarrow> importance" where
  "importance_run trades = fold (\<lambda>(a, s). importance_update a s) trades new_importance"

definition signal_correct :: "string \<Rightarrow> Attribution \<times> int \<Rightarrow> bool" where
  "signal_correct key tr \<longleftrightarrow> sign (dget (at_contributions (fst tr)) key 0) \<noteq> 0
     \<and> sign (dget (at_contributions (fst tr)) key 0) = snd tr"

lemma importance_run_snoc: "importance_run (trades @ [tr]) = importance_update (fst tr) (snd tr) (importance_run trades)"
  by (simp add: importance_run_def split: prod.splits)

text \<open>After any sequence of closed trades the metadata of a signal is what the sequence says: the
  number of trades, the sums of its contributions and of the PnL credited to it, and the number
  of trades in which its sign agreed with the outcome; so the hit rate is a proper fraction.\<close>
theorem importance_is_a_fold:
  "importance_run trades = map (\<lambda>key. (key,
     \<lparr>sa_samples = length trades,
      sa_abs_contribution = sum_list (map (\<lambda>tr. \<bar>dget (at_contributions (fst tr)) key 0\<bar>) trades),
      sa_pnl = sum_list (map (\<lambda>tr. dget (at_pnl_attribution (fst tr)) key 0) trades),
      sa_correct = length (filter (signal_correct key) trades)\<rparr>)) WEIGHT_KEYS"
proof (induction trades rule: rev_induct)
  case Nil
  then show ?case by (simp add: importance_run_def new_importance_def new_acc_def)
next
  case (snoc tr trades)
  show ?case unfolding importance_run_snoc snoc.IH
    by (simp add: importance_update_def acc_update_def) (simp add: signal_correct_def [of _ tr])
qed

lemma correct_rate_range:
  assumes "sa_correct acc \<le> sa_samples acc"
  shows "0 \<le> ss_correct_rate (acc_stats acc) \<and> ss_correct_rate (acc_stats acc) \<le> 1"
proof -
  have "real (sa_correct acc) / real (sa_samples acc) \<le> 1" using assms by (simp add: divide_le_eq)
  then show ?thesis by (auto simp: acc_stats_def round_unit01)
qed

section \<open>Observations carry evidence\<close>

lemma observe_in:
  "observe le md = Inr obs \<Longrightarrow> ob \<in> set obs \<Longrightarrow> \<exists>x\<in>set md. \<exists>os. observe_signal le x = Inr os \<and> ob \<in> set os"
  by (induction md arbitrary: obs) (auto simp: res_bind_Inr_iff)

lemma observe_default_total: "\<exists>obs. observe default_learning md = Inr obs"
proof (induction md)
  case (Cons x xs)
  then obtain obs where "observe default_learning xs = Inr obs" by blast
  moreover have "\<exists>os. observe_signal default_learning x = Inr os"
    by (simp add: observe_signal_def default_learning_def split: prod.splits)
  ultimately show ?case by auto
qed simp

lemma observe_default_cases:
  "observe_signal default_learning (sg, st) = Inr os \<Longrightarrow> ob \<in> set os \<Longrightarrow> 30 \<le> ss_samples st
   \<and> (ob = make_observation default_learning sg st ''outperforming''
        \<and> 60 / 100 \<le> ss_correct_rate st \<and> 0 \<le> ss_total_pnl_attribution st
      \<or> ob = make_observation default_learning sg st ''underperforming''
        \<and> (ss_correct_rate st \<le> 40 / 100 \<or> ss_total_pnl_attribution st < 0))"
  by (auto simp: observe_signal_def default_learning_def split: if_splits)

text \<open>The learning engine always answers, and every observation it makes is about a signal with at
  least 30 samples, is confident between 0 and 1, and says outperforming only for a hit rate of
  at least 60 percent with non-negative credit, underperforming only for a hit rate of at most
  40 percent or negative credit.\<close>
theorem observations_are_backed:
  "\<exists>obs. observe default_learning md = Inr obs \<and>
     list_all (\<lambda>ob. \<exists>stats. (ob_signal ob, stats) \<in> set md \<and> 30 \<le> ss_samples stats
        \<and> 0 \<le> ob_confidence ob \<and> ob_confidence ob \<le> 1
        \<and> (if ob_direction ob = ''outperforming''
           then 60 / 100 \<le> ss_correct_rate stats \<and> 0 \<le> ss_total_pnl_attribution stats
           else ob_direction ob = ''underperforming''
             \<and> (ss_correct_rate stats \<le> 40 / 100 \<or> ss_total_pnl_attribution stats < 0))) obs"
  (is "\<exists>obs. _ \<and> list_all ?backed obs")
proof -
  obtain obs where o: "observe default_learning md = Inr obs" using observe_default_total by blast
  have c: "0 \<le> observation_confidence k st \<and> observation_confidence k st \<le> 1" for k st
    by (simp add: observation_confidence_def Let_def round_unit01)
  have "list_all ?backed obs" unfolding list_all_iff
  proof
    fix ob assume "ob \<in> set obs"
    then obtain sg st os where x: "(sg, st) \<in> set md" "observe_signal default_learning (sg, st) = Inr os" "ob \<in> set os"
      using observe_in [OF o] by fastforce
    show "?backed ob" using observe_default_cases [OF x(2,3)] x(1)
      by (intro exI [of _ st]) (auto simp: make_observation_def c)
  qed
  then show ?thesis using o by blast
qed

section \<open>Drift\<close>

definition drift_ok :: "DriftMonitor \<Rightarrow> bool" where
  "drift_ok dm \<longleftrightarrow> dom (map_of (dm_series dm)) = dom (map_of (dm_specs dm)) \<and> distinct (map fst (dm_series dm))
     \<and> (\<forall>(m, series) \<in> set (dm_series dm). length series \<le> dm_window dm * 2)"

lemma length_deque_append: "length (deque_append n x xs) \<le> n"
  by (simp add: deque_append_def Let_def)

lemma drift_ok_new: "drift_ok (new_drift w n)"
  by (simp add: drift_ok_def new_drift_def)

lemma dset_in: "(k', v') \<in> set (dset k v d) \<Longrightarrow> distinct (map fst d) \<Longrightarrow> (k' = k \<and> v' = v) \<or> (k', v') \<in> set d"
  using distinct_update [of d k v] by (metis map_of_is_SomeI map_of_SomeD map_of_dset option.inject)

lemma drift_ok_register: "drift_ok dm \<Longrightarrow> drift_ok (drift_register m h t dm)"
  using dset_in [of _ _ m "[]" "dm_series dm"]
  by (fastforce simp: drift_ok_def drift_register_def dom_def distinct_update split: if_splits)

lemma drift_ok_observe:
  assumes "drift_ok dm"
  shows "drift_ok (drift_observe m v dm)"
proof (cases "map_of (dm_series dm) m")
  case (Some s)
  let ?s = "deque_append (dm_window dm * 2) v s"
  have "dom (map_of (dset m ?s (dm_series dm))) = dom (map_of (dm_series dm))"
    using Some by (auto simp: dom_def)
  moreover have "length ?s \<le> dm_window dm * 2" by (rule length_deque_append)
  ultimately show ?thesis using assms Some dset_in [of _ _ m ?s "dm_series dm"]
    by (fastforce simp: drift_ok_def drift_observe_def distinct_update)
qed (use assms in \<open>simp add: drift_observe_def\<close>)

inductive drift_reachable :: "nat \<Rightarrow> nat \<Rightarrow> DriftMonitor \<Rightarrow> bool" for w n where
  dr_new: "drift_reachable w n (new_drift w n)"
| dr_register: "drift_reachable w n dm \<Longrightarrow> drift_reachable w n (drift_register m h t dm)"
| dr_observe: "drift_reachable w n dm \<Longrightarrow> drift_reachable w n (drift_observe m v dm)"

lemma drift_reachable_ok:
  "drift_reachable w n dm \<Longrightarrow> drift_ok dm \<and> dm_window dm = w \<and> dm_min_samples dm = n"
proof (induction rule: drift_reachable.induct)
  case dr_new
  then show ?case using drift_ok_new by (simp add: new_drift_def)
next
  case (dr_register dm m h t)
  then show ?case by (simp add: drift_ok_register) (simp add: drift_register_def)
next
  case (dr_observe dm m v)
  then show ?case by (simp add: drift_ok_observe) (simp add: drift_observe_def split: option.splits)
qed

lemma assess_all_total:
  assumes "\<And>x. x \<in> set xs \<Longrightarrow> \<exists>as. assess_metric dm x = Inr as"
  shows "\<exists>as. assess_all dm xs = Inr as \<and> (\<forall>a. a \<in> set as \<longleftrightarrow>
     (\<exists>x\<in>set xs. \<exists>bs. assess_metric dm x = Inr bs \<and> a \<in> set bs))"
  using assms
proof (induction xs)
  case (Cons x xs)
  obtain as bs where "assess_metric dm x = Inr as" "assess_all dm xs = Inr bs"
    "\<forall>a. a \<in> set bs \<longleftrightarrow> (\<exists>x\<in>set xs. \<exists>cs. assess_metric dm x = Inr cs \<and> a \<in> set cs)"
    using Cons.IH Cons.prems by (metis list.set_intros)
  then show ?case by auto
qed simp

lemma assess_metric_reachable:
  assumes "drift_ok dm" "0 < dm_min_samples dm" "(m, series) \<in> set (dm_series dm)"
  shows "\<exists>spec as. map_of (dm_specs dm) m = Some spec \<and> assess_metric dm (m, series) = Inr as
    \<and> (as \<noteq> [] \<longleftrightarrow> 2 * dm_min_samples dm \<le> length series \<and> ds_threshold spec < degradation_of spec series)
    \<and> (\<forall>a\<in>set as. da_metric a = m)"
proof -
  have "m \<in> dom (map_of (dm_specs dm))"
    using assms by (metis drift_ok_def domI map_of_is_SomeI)
  then obtain spec where s: "map_of (dm_specs dm) m = Some spec" by blast
  have "length series < 2 * dm_min_samples dm" if "length series div 2 = 0"
    using that assms(2) by (simp add: div_eq_0_iff)
  then show ?thesis using s by (auto simp: assess_metric_def Let_def)
qed

text \<open>The drift monitor never fails, keeps at most two windows per metric, and reports a metric
  exactly when it has enough samples and its recent half is worse than its older half by more
  than its threshold.\<close>
theorem drift_reports_degradation:
  assumes "drift_reachable w n dm" "0 < n"
  shows "\<exists>alerts. assess dm = Inr alerts
    \<and> (\<forall>m series. map_of (dm_series dm) m = Some series \<longrightarrow> length series \<le> 2 * w
        \<and> (\<exists>spec. map_of (dm_specs dm) m = Some spec
            \<and> (m \<in> da_metric ` set alerts \<longleftrightarrow> 2 * n \<le> length series \<and> ds_threshold spec < degradation_of spec series)))"
proof -
  have ok: "drift_ok dm" "dm_window dm = w" "dm_min_samples dm = n" using drift_reachable_ok [OF assms(1)] by auto
  note am = assess_metric_reachable [OF ok(1), unfolded ok(3), OF assms(2)]
  have "\<exists>as. assess_metric dm x = Inr as" if "x \<in> set (dm_series dm)" for x
    using am [of "fst x" "snd x"] that by auto
  from assess_all_total [OF this] obtain alerts where al: "assess_all dm (dm_series dm) = Inr alerts"
    "\<And>a. a \<in> set alerts \<longleftrightarrow> (\<exists>x\<in>set (dm_series dm). \<exists>bs. assess_metric dm x = Inr bs \<and> a \<in> set bs)"
    by blast
  have "length series \<le> 2 * w \<and> (\<exists>spec. map_of (dm_specs dm) m = Some spec
      \<and> (m \<in> da_metric ` set alerts \<longleftrightarrow> 2 * n \<le> length series \<and> ds_threshold spec < degradation_of spec series))"
    if s: "map_of (dm_series dm) m = Some series" for m series
  proof -
    have mem: "(m, series) \<in> set (dm_series dm)" using s by (rule map_of_SomeD)
    obtain spec as where 1: "map_of (dm_specs dm) m = Some spec" "assess_metric dm (m, series) = Inr as"
      "as \<noteq> [] \<longleftrightarrow> 2 * n \<le> length series \<and> ds_threshold spec < degradation_of spec series"
      "\<forall>a\<in>set as. da_metric a = m"
      using am [OF mem] by blast
    have "m \<in> da_metric ` set alerts \<longleftrightarrow> as \<noteq> []"
    proof
      assume "m \<in> da_metric ` set alerts"
      then obtain a x bs where a: "da_metric a = m" "x \<in> set (dm_series dm)" "assess_metric dm x = Inr bs" "a \<in> set bs"
        using al(2) by auto
      obtain m' s' where x: "x = (m', s')" by (cases x)
      have "m' = m" using am [of m' s'] a x by auto
      then have "s' = series" using s a(2) x ok(1) by (auto simp: drift_ok_def)
      then show "as \<noteq> []" using a x \<open>m' = m\<close> 1(2) by auto
    next
      assume "as \<noteq> []"
      then obtain a where "a \<in> set as" by (meson last_in_set)
      then show "m \<in> da_metric ` set alerts" using al(2) mem 1(2,4) by (metis image_eqI)
    qed
    moreover have "length series \<le> 2 * w" using ok mem by (auto simp: drift_ok_def)
    ultimately show ?thesis using 1 by blast
  qed
  then show ?thesis using al(1) by (auto simp: assess_def)
qed

definition two_samples :: DriftMonitor where
  "two_samples = drift_observe ''x'' 1 (drift_observe ''x'' 5 (drift_register ''x'' True 2 (new_drift 1 1)))"

theorem drift_reports_degradation_witness:
  "drift_reachable 1 1 two_samples \<and> map_of (dm_series two_samples) ''x'' = Some [5, 1]
   \<and> (\<exists>alerts. assess two_samples = Inr alerts \<and> ''x'' \<in> da_metric ` set alerts)"
proof -
  have r: "drift_reachable 1 1 two_samples" unfolding two_samples_def by (intro drift_reachable.intros)
  have s: "map_of (dm_series two_samples) ''x'' = Some [5, 1]"
    "map_of (dm_specs two_samples) ''x'' = Some \<lparr>ds_higher_is_better = True, ds_threshold = 2\<rparr>"
    by (simp_all add: two_samples_def drift_observe_def drift_register_def new_drift_def deque_append_def)
  have "2 < degradation_of \<lparr>ds_higher_is_better = True, ds_threshold = 2\<rparr> [5, 1]"
    by (simp add: degradation_of_def fmean_def)
  then show ?thesis using drift_reports_degradation [OF r] r s by fastforce
qed

end
