(* ===== verification/Cog_Proposal.thy ===== *)
theory Cog_Proposal
  imports Cog_Learning
begin

text \<open>
  Proposals: the typed candidate changes, the success scorecard, the proposing agent and the
  lifecycle queue (\<open>cognitive/proposal.py\<close>), and the admission governor
  (\<open>cognitive/governance.py\<close>). \<open>rp\<close> is Python's \<open>repr\<close> of a value that is no string.
\<close>

section \<open>Proposals\<close>

definition WEIGHT_CHANGE :: string where "WEIGHT_CHANGE = ''weight_change''"
definition PROMPT_CHANGE :: string where "PROMPT_CHANGE = ''prompt_change''"
definition TOOL_CHANGE :: string where "TOOL_CHANGE = ''tool_change''"
definition RISK_CHANGE :: string where "RISK_CHANGE = ''risk_change''"
definition SCORECARD_PRIOR :: real where "SCORECARD_PRIOR = 1 / 2"

record Proposal =
  pr_id :: string
  pr_type :: string
  pr_target :: string
  pr_old_value :: pyval
  pr_new_value :: pyval
  pr_change :: pyval
  pr_reason :: string
  pr_expected_impact :: string

definition proposal_diff :: "Proposal \<Rightarrow> pydict" where
  "proposal_diff p = [(pr_target p, PDict [(''old'', pr_old_value p), (''new'', pr_new_value p)])]"

definition proposal_as_dict :: "Proposal \<Rightarrow> pydict" where
  "proposal_as_dict p =
     [(''type'', PStr (event_value PROPOSAL)), (''proposal_id'', PStr (pr_id p)),
      (''proposal_type'', PStr (pr_type p)), (''target'', PStr (pr_target p)),
      (''old_value'', pr_old_value p), (''new_value'', pr_new_value p), (''change'', pr_change p),
      (''reason'', PStr (pr_reason p)), (''expected_impact'', PStr (pr_expected_impact p)),
      (''diff'', PDict (proposal_diff p))]"

text \<open>\<open>proposal_id or default\<close>\<close>
definition id_or :: "string option \<Rightarrow> string \<Rightarrow> string" where
  "id_or i d = (case i of None \<Rightarrow> d | Some s \<Rightarrow> if s = [] then d else s)"

definition weight_change ::
  "(pyval \<Rightarrow> string) \<Rightarrow> string \<Rightarrow> real \<Rightarrow> real \<Rightarrow> string \<Rightarrow> string \<Rightarrow> string option \<Rightarrow> Proposal" where
  "weight_change rp signal old_value new_value reason expected_impact proposal_id =
     (let target = ''weights.'' @ signal
      in \<lparr>pr_id = id_or proposal_id (''P-'' @ target @ ''-'' @ py_str rp (PFloat new_value)),
          pr_type = WEIGHT_CHANGE, pr_target = target, pr_old_value = PFloat old_value,
          pr_new_value = PFloat new_value, pr_change = PFloat (py_round 6 (new_value - old_value)),
          pr_reason = reason, pr_expected_impact = expected_impact\<rparr>)"

definition prompt_change :: "string \<Rightarrow> string \<Rightarrow> string \<Rightarrow> string option \<Rightarrow> Proposal" where
  "prompt_change target new_value reason proposal_id =
     \<lparr>pr_id = id_or proposal_id (''P-'' @ target), pr_type = PROMPT_CHANGE, pr_target = target,
      pr_old_value = PNone, pr_new_value = PStr new_value, pr_change = PStr new_value,
      pr_reason = reason, pr_expected_impact = []\<rparr>"

definition tool_change :: "string \<Rightarrow> string \<Rightarrow> string \<Rightarrow> string option \<Rightarrow> Proposal" where
  "tool_change target action reason proposal_id =
     \<lparr>pr_id = id_or proposal_id (''P-'' @ target @ ''-'' @ action), pr_type = TOOL_CHANGE,
      pr_target = target, pr_old_value = PNone, pr_new_value = PStr action, pr_change = PStr action,
      pr_reason = reason, pr_expected_impact = []\<rparr>"

definition risk_change ::
  "(pyval \<Rightarrow> string) \<Rightarrow> string \<Rightarrow> real \<Rightarrow> real \<Rightarrow> string \<Rightarrow> string option \<Rightarrow> Proposal" where
  "risk_change rp target old_value new_value reason proposal_id =
     \<lparr>pr_id = id_or proposal_id (''P-'' @ target @ ''-'' @ py_str rp (PFloat new_value)),
      pr_type = RISK_CHANGE, pr_target = target, pr_old_value = PFloat old_value,
      pr_new_value = PFloat new_value, pr_change = PFloat (py_round 6 (new_value - old_value)),
      pr_reason = reason, pr_expected_impact = []\<rparr>"

section \<open>Scorecard\<close>

record TypeStat =
  ts_attempts :: nat
  ts_successes :: nat

type_synonym scorecard = "(string \<times> TypeStat) list"

definition scorecard_record :: "string \<Rightarrow> bool \<Rightarrow> scorecard \<Rightarrow> scorecard" where
  "scorecard_record proposal_type success stats =
     (let stat = dget stats proposal_type \<lparr>ts_attempts = 0, ts_successes = 0\<rparr>
      in dset proposal_type \<lparr>ts_attempts = ts_attempts stat + 1,
           ts_successes = (if success then ts_successes stat + 1 else ts_successes stat)\<rparr> stats)"

definition success_rate :: "string \<Rightarrow> scorecard \<Rightarrow> real" where
  "success_rate proposal_type stats = (case map_of stats proposal_type of
       None \<Rightarrow> SCORECARD_PRIOR
     | Some stat \<Rightarrow> if ts_attempts stat = 0 then SCORECARD_PRIOR
         else py_round 4 (real (ts_successes stat) / real (ts_attempts stat)))"

definition scorecard_snapshot :: "scorecard \<Rightarrow> pydict" where
  "scorecard_snapshot stats = map (\<lambda>(ptype, stat). (ptype,
     PDict [(''attempts'', PInt (int (ts_attempts stat))), (''successes'', PInt (int (ts_successes stat))),
            (''success_rate'', PFloat (success_rate ptype stats))])) stats"

section \<open>The proposing agent\<close>

text \<open>\<open>max(candidates, key=lambda obs: obs.confidence)\<close>: the first of the most confident\<close>
fun most_confident :: "Observation \<Rightarrow> Observation list \<Rightarrow> Observation" where
  "most_confident best [] = best"
| "most_confident best (ob # obs) =
     most_confident (if ob_confidence ob > ob_confidence best then ob else best) obs"

definition required_confidence :: "real \<Rightarrow> real \<Rightarrow> real" where
  "required_confidence min_confidence rate = min (95 / 100) (min_confidence + (1 - rate) * (3 / 10))"

definition proposal_reason :: "(pyval \<Rightarrow> string) \<Rightarrow> Observation \<Rightarrow> string" where
  "proposal_reason rp ob =
     ob_signal ob @ '' agent '' @ ob_direction ob @ '' (grade '' @ ev_agent_grade (ob_evidence ob)
     @ '', correct_rate '' @ py_str rp (PFloat (ev_correct_rate (ob_evidence ob)))
     @ '', n='' @ nat_str (ev_sample_size (ob_evidence ob)) @ '')''"

definition proposal_expected :: "(pyval \<Rightarrow> string) \<Rightarrow> string \<Rightarrow> bool \<Rightarrow> real \<Rightarrow> real \<Rightarrow> string" where
  "proposal_expected rp signal up old_value new_value =
     ''shift weights.'' @ signal @ '' '' @ (if up then ''up'' else ''down'') @ '' by ''
     @ py_str rp (PFloat \<bar>py_round 4 (new_value - old_value)\<bar>) @ '' toward better-attributed signal''"

definition propose ::
  "(pyval \<Rightarrow> string) \<Rightarrow> real \<Rightarrow> real \<Rightarrow> Observation list \<Rightarrow> CognitiveConfig \<Rightarrow> scorecard option
   \<Rightarrow> Proposal option pyres" where
  "propose rp step_size min_confidence observations config sc =
     (case filter (\<lambda>ob. ob_signal ob \<in> set WEIGHT_KEYS) observations of
        [] \<Rightarrow> Inr None
      | c # cs \<Rightarrow>
          let best = most_confident c cs;
              rate = (case sc of Some st \<Rightarrow> success_rate WEIGHT_CHANGE st | None \<Rightarrow> SCORECARD_PRIOR)
          in if ob_confidence best < required_confidence min_confidence rate then Inr None
             else case map_of (cc_weights config) (ob_signal best) of
               None \<Rightarrow> Inl (KeyError (ob_signal best))
             | Some w \<Rightarrow>
                 let up = (ob_direction best = ''outperforming'');
                     step = step_size * (1 / 2 + 1 / 2 * rate);
                     old_value = py_round 6 w;
                     new_value = py_round 4 (clamp_weight (old_value + (if up then 1 else - 1) * step))
                 in if new_value = old_value then Inr None
                    else Inr (Some (weight_change rp (ob_signal best) old_value new_value
                           (proposal_reason rp best)
                           (proposal_expected rp (ob_signal best) up old_value new_value) None)))"

section \<open>The lifecycle queue\<close>

record QueueEntry =
  qe_proposal :: Proposal
  qe_status :: string
  qe_verdict :: "pydict option"
  qe_delta :: "pydict option"
  qe_pull_request :: "pydict option"
  qe_proposal_grade :: "pydict option"

definition entry_as_dict :: "QueueEntry \<Rightarrow> pydict" where
  "entry_as_dict q =
     [(''proposal'', PDict (proposal_as_dict (qe_proposal q))), (''status'', PStr (qe_status q)),
      (''verdict'', opt_dict (qe_verdict q)), (''delta'', opt_dict (qe_delta q)),
      (''pull_request'', opt_dict (qe_pull_request q)), (''proposal_grade'', opt_dict (qe_proposal_grade q))]"

definition queue_add :: "Proposal \<Rightarrow> string \<Rightarrow> QueueEntry list \<Rightarrow> QueueEntry list" where
  "queue_add p status entries = entries @ [\<lparr>qe_proposal = p, qe_status = status, qe_verdict = None,
     qe_delta = None, qe_pull_request = None, qe_proposal_grade = None\<rparr>]"

text \<open>\<open>update(proposal_id, **changes)\<close>: the first entry with the id is changed\<close>
fun queue_update :: "string \<Rightarrow> (QueueEntry \<Rightarrow> QueueEntry) \<Rightarrow> QueueEntry list \<Rightarrow> QueueEntry list" where
  "queue_update i f [] = []"
| "queue_update i f (q # qs) = (if pr_id (qe_proposal q) = i then f q # qs else q # queue_update i f qs)"

definition queue_snapshot :: "QueueEntry list \<Rightarrow> pydict list" where
  "queue_snapshot entries = map entry_as_dict entries"

section \<open>The governor\<close>

record Governor =
  gv_quota :: nat
  gv_window :: nat
  gv_cooldown :: nat
  gv_cycle :: nat
  gv_admitted :: "(nat \<times> string) list"
  gv_cooldowns :: "(string \<times> nat) list"
  gv_blocked :: "(string \<times> nat) list"

definition new_governor :: "nat \<Rightarrow> nat \<Rightarrow> nat \<Rightarrow> Governor" where
  "new_governor quota window cooldown =
     \<lparr>gv_quota = quota, gv_window = window, gv_cooldown = cooldown, gv_cycle = 0, gv_admitted = [],
      gv_cooldowns = [], gv_blocked = []\<rparr>"

definition gov_key :: "(pyval \<Rightarrow> string) \<Rightarrow> Proposal \<Rightarrow> string" where
  "gov_key rp p =
     (let value = (case pr_new_value p of
            PInt i \<Rightarrow> PFloat (py_round 4 (of_int i)) | PFloat x \<Rightarrow> PFloat (py_round 4 x) | v \<Rightarrow> v)
      in pr_target p @ ''='' @ py_str rp value)"

definition gov_block :: "string \<Rightarrow> Governor \<Rightarrow> (bool \<times> string) \<times> Governor" where
  "gov_block reason g = ((False, reason), g\<lparr>gv_blocked := dset reason (dget (gv_blocked g) reason 0 + 1) (gv_blocked g)\<rparr>)"

text \<open>the cycle advances and entries older than the window leave from the left\<close>
definition gov_advance :: "Governor \<Rightarrow> Governor" where
  "gov_advance g =
     (let cycle = gv_cycle g + 1
      in g\<lparr>gv_cycle := cycle,
           gv_admitted := dropWhile (\<lambda>entry. fst entry + gv_window g \<le> cycle) (gv_admitted g)\<rparr>)"

definition gov_admit :: "(pyval \<Rightarrow> string) \<Rightarrow> Proposal \<Rightarrow> Governor \<Rightarrow> (bool \<times> string) \<times> Governor" where
  "gov_admit rp p g0 =
     (let g = gov_advance g0;
          benched = (case map_of (gv_cooldowns g) (pr_target p) of None \<Rightarrow> False | Some ends \<Rightarrow> gv_cycle g < ends);
          key = gov_key rp p
      in if benched then gov_block ''cooldown'' g
         else if list_ex (\<lambda>entry. snd entry = key) (gv_admitted g) then gov_block ''duplicate'' g
         else if length (gv_admitted g) \<ge> gv_quota g then gov_block ''quota_exceeded'' g
         else ((True, ''admitted''), g\<lparr>gv_admitted := gv_admitted g @ [(gv_cycle g, key)]\<rparr>))"

definition gov_record_outcome :: "Proposal \<Rightarrow> bool \<Rightarrow> Governor \<Rightarrow> Governor" where
  "gov_record_outcome p approved g =
     (if approved then g
      else g\<lparr>gv_cooldowns := dset (pr_target p) (gv_cycle g + gv_cooldown g) (gv_cooldowns g)\<rparr>)"

definition gov_snapshot :: "Governor \<Rightarrow> pydict" where
  "gov_snapshot g =
     [(''cycle'', PInt (int (gv_cycle g))), (''admitted_in_window'', PInt (int (length (gv_admitted g)))),
      (''quota'', PInt (int (gv_quota g))), (''window'', PInt (int (gv_window g))),
      (''cooldown'', PInt (int (gv_cooldown g))),
      (''active_cooldowns'', PDict (map (\<lambda>(t, ends). (t, PInt (int ends)))
         (filter (\<lambda>(t, ends). ends > gv_cycle g) (gv_cooldowns g)))),
      (''blocked'', PDict (map (\<lambda>(r, n). (r, PInt (int n))) (gv_blocked g)))]"

section \<open>A proposal is one small safe step\<close>

lemma most_confident_in: "most_confident b obs \<in> insert b (set obs)
    \<and> (\<forall>ob\<in>insert b (set obs). ob_confidence ob \<le> ob_confidence (most_confident b obs))"
proof (induction obs arbitrary: b)
  case (Cons ob obs)
  show ?case using Cons.IH [of ob] Cons.IH [of b]
    by (cases "ob_confidence ob > ob_confidence b") auto
qed simp

text \<open>a scorecard never records more successes than attempts\<close>
definition scorecard_ok :: "scorecard \<Rightarrow> bool" where
  "scorecard_ok sc \<longleftrightarrow> (\<forall>t st. map_of sc t = Some st \<longrightarrow> ts_successes st \<le> ts_attempts st)"

lemma scorecard_ok_Nil: "scorecard_ok []"
  by (simp add: scorecard_ok_def)

lemma scorecard_ok_record: "scorecard_ok sc \<Longrightarrow> scorecard_ok (scorecard_record t b sc)"
  by (auto simp: scorecard_ok_def scorecard_record_def Let_def dget_def le_SucI split: option.splits)

lemma success_rate_range:
  assumes "scorecard_ok sc"
  shows "0 \<le> success_rate t sc \<and> success_rate t sc \<le> 1"
proof (cases "map_of sc t")
  case (Some st)
  then have "real (ts_successes st) / real (ts_attempts st) \<le> 1"
    using assms by (auto simp: scorecard_ok_def divide_le_eq)
  then show ?thesis using Some by (simp add: success_rate_def SCORECARD_PRIOR_def round_unit01)
qed (simp add: success_rate_def SCORECARD_PRIOR_def)

lemma clamp_step:
  assumes "0 \<le> old" "old \<le> 1" "\<bar>d\<bar> \<le> s"
  shows "0 \<le> py_round 4 (clamp_weight (old + d)) \<and> py_round 4 (clamp_weight (old + d)) \<le> 1
    \<and> \<bar>py_round 4 (clamp_weight (old + d)) - old\<bar> \<le> s + 1 / (2 * 10 ^ 4)"
proof -
  let ?c = "clamp_weight (old + d)"
  have c: "0 \<le> ?c" "?c \<le> 1" "\<bar>?c - old\<bar> \<le> s" using assms by (auto simp: clamp_weight_def WEIGHT_BOUNDS_def)
  show ?thesis using round_unit01 [OF c(1,2), of 4] py_round_near [of 4 ?c] c(3) by linarith
qed

lemma config_weight_range:
  "config_safe c \<Longrightarrow> map_of (cc_weights c) k = Some w \<Longrightarrow> 0 \<le> w \<and> w \<le> 1"
  by (fastforce simp: config_safe_def list_all_iff between_def bounds_defs dest: map_of_SomeD)

text \<open>what a proposal of the agent looks like\<close>
definition small_step :: "real \<Rightarrow> Observation \<Rightarrow> CognitiveConfig \<Rightarrow> Proposal \<Rightarrow> bool" where
  "small_step ssz ob config p \<longleftrightarrow> (\<exists>old new. pr_type p = WEIGHT_CHANGE
     \<and> pr_target p = ''weights.'' @ ob_signal ob \<and> ob_signal ob \<in> set WEIGHT_KEYS
     \<and> pr_old_value p = PFloat old \<and> pr_new_value p = PFloat new
     \<and> old = py_round 6 (dget (cc_weights config) (ob_signal ob) 0)
     \<and> new \<noteq> old \<and> 0 \<le> new \<and> new \<le> 1 \<and> \<bar>new - old\<bar> \<le> ssz + 1 / (2 * 10 ^ 4))"

lemma propose_inv:
  assumes "propose rp ssz mc obs config (Some sc) = Inr (Some p)"
  obtains ob w where "ob \<in> set obs" "ob_signal ob \<in> set WEIGHT_KEYS"
    "\<And>o'. o' \<in> set obs \<Longrightarrow> ob_signal o' \<in> set WEIGHT_KEYS \<Longrightarrow> ob_confidence o' \<le> ob_confidence ob"
    "required_confidence mc (success_rate WEIGHT_CHANGE sc) \<le> ob_confidence ob"
    "map_of (cc_weights config) (ob_signal ob) = Some w"
    "py_round 4 (clamp_weight (py_round 6 w + (if ob_direction ob = ''outperforming'' then 1 else - 1)
       * (ssz * (1 / 2 + 1 / 2 * success_rate WEIGHT_CHANGE sc)))) \<noteq> py_round 6 w"
    "\<exists>rs ex. p = weight_change rp (ob_signal ob) (py_round 6 w)
       (py_round 4 (clamp_weight (py_round 6 w + (if ob_direction ob = ''outperforming'' then 1 else - 1)
         * (ssz * (1 / 2 + 1 / 2 * success_rate WEIGHT_CHANGE sc))))) rs ex None"
proof (cases "filter (\<lambda>ob. ob_signal ob \<in> set WEIGHT_KEYS) obs")
  case Nil
  then show ?thesis using assms by (simp add: propose_def)
next
  case (Cons c cs)
  let ?best = "most_confident c cs"
  have s: "insert c (set cs) = {ob \<in> set obs. ob_signal ob \<in> set WEIGHT_KEYS}"
    using arg_cong [OF Cons, of set] by simp
  have b: "?best \<in> set obs" "ob_signal ?best \<in> set WEIGHT_KEYS"
    "\<And>o'. o' \<in> set obs \<Longrightarrow> ob_signal o' \<in> set WEIGHT_KEYS \<Longrightarrow> ob_confidence o' \<le> ob_confidence ?best"
    using most_confident_in [of c cs] unfolding s by blast+
  show ?thesis using assms Cons b
    by (intro that [of ?best "the (map_of (cc_weights config) (ob_signal ?best))"])
      (auto simp: propose_def Let_def split: option.splits if_splits)
qed

text \<open>What the proposing agent puts forward from a safe configuration is a single weight of one of
  the three signals moved by at most the step size (up to four-decimal rounding) to a different
  value inside the weight bounds, backed by the most confident observation, which meets the
  confidence the success history requires.\<close>
theorem proposals_are_small_steps:
  assumes "propose rp WEIGHT_STEP MIN_OBSERVATION_CONFIDENCE obs config (Some sc) = Inr (Some p)"
    and "config_safe config" "scorecard_ok sc"
  shows "\<exists>ob\<in>set obs. small_step WEIGHT_STEP ob config p
     \<and> required_confidence MIN_OBSERVATION_CONFIDENCE (success_rate WEIGHT_CHANGE sc) \<le> ob_confidence ob
     \<and> MIN_OBSERVATION_CONFIDENCE \<le> ob_confidence ob"
proof -
  let ?r = "success_rate WEIGHT_CHANGE sc"
  obtain ob w where ob: "ob \<in> set obs" "ob_signal ob \<in> set WEIGHT_KEYS"
    "required_confidence MIN_OBSERVATION_CONFIDENCE ?r \<le> ob_confidence ob"
    and w: "map_of (cc_weights config) (ob_signal ob) = Some w"
    and ne: "py_round 4 (clamp_weight (py_round 6 w + (if ob_direction ob = ''outperforming'' then 1 else - 1)
       * (WEIGHT_STEP * (1 / 2 + 1 / 2 * ?r)))) \<noteq> py_round 6 w"
    and p: "\<exists>rs ex. p = weight_change rp (ob_signal ob) (py_round 6 w)
       (py_round 4 (clamp_weight (py_round 6 w + (if ob_direction ob = ''outperforming'' then 1 else - 1)
         * (WEIGHT_STEP * (1 / 2 + 1 / 2 * ?r))))) rs ex None"
    by (rule propose_inv [OF assms(1)]) blast
  let ?d = "(if ob_direction ob = ''outperforming'' then 1 else - 1) * (WEIGHT_STEP * (1 / 2 + 1 / 2 * ?r))"
  have r: "0 \<le> ?r" "?r \<le> 1" using success_rate_range [OF assms(3)] by auto
  have "0 \<le> w" "w \<le> 1" using config_weight_range [OF assms(2) w] by auto
  then have o: "0 \<le> py_round 6 w" "py_round 6 w \<le> 1" using round_unit01 by auto
  have "\<bar>?d\<bar> \<le> WEIGHT_STEP" using r by (simp add: WEIGHT_STEP_def)
  note c = clamp_step [OF o this]
  have "small_step WEIGHT_STEP ob config p"
    using p c ne ob(2) w unfolding small_step_def
    by (intro exI [of _ "py_round 6 w"] exI [of _ "py_round 4 (clamp_weight (py_round 6 w + ?d))"])
      (auto simp: weight_change_def Let_def dget_def)
  moreover have "MIN_OBSERVATION_CONFIDENCE \<le> required_confidence MIN_OBSERVATION_CONFIDENCE ?r"
    using r by (simp add: required_confidence_def MIN_OBSERVATION_CONFIDENCE_def)
  ultimately show ?thesis using ob by (intro bexI [of _ ob]) auto
qed

definition sure_observation :: Observation where
  "sure_observation = \<lparr>ob_observation = ''news_agent_outperforming'', ob_confidence = 9 / 10,
     ob_signal = ''news'', ob_direction = ''outperforming'',
     ob_evidence = \<lparr>ev_agent_grade = ''A'', ev_correct_rate = 8 / 10, ev_contribution = 1, ev_sample_size = 40\<rparr>\<rparr>"

theorem proposals_are_small_steps_witness:
  "config_safe DEFAULT_CONFIG \<and> scorecard_ok []
   \<and> (\<exists>p. propose (\<lambda>_. []) WEIGHT_STEP MIN_OBSERVATION_CONFIDENCE [sure_observation] DEFAULT_CONFIG (Some [])
          = Inr (Some p)
        \<and> small_step WEIGHT_STEP sure_observation DEFAULT_CONFIG p)"
proof -
  have "decimals 6 (17 / 50)" by (auto simp: decimals_def intro!: exI [of _ 340000])
  then have a: "py_round 6 (17 / 50) = 17 / 50" by (rule py_round_decimals)
  have b: "py_round 4 (151 / 400) * 50 \<noteq> 17" using py_round_near [of 4 "151 / 400"] by auto
  have e: "\<exists>p. propose (\<lambda>_. []) WEIGHT_STEP MIN_OBSERVATION_CONFIDENCE [sure_observation] DEFAULT_CONFIG (Some [])
      = Inr (Some p)"
    by (simp add: propose_def sure_observation_def WEIGHT_KEYS_def DEFAULT_CONFIG_def Let_def
        required_confidence_def success_rate_def SCORECARD_PRIOR_def MIN_OBSERVATION_CONFIDENCE_def
        WEIGHT_STEP_def clamp_weight_def WEIGHT_BOUNDS_def a b)
  then show ?thesis using proposals_are_small_steps [OF _ default_config_safe scorecard_ok_Nil] default_config_safe
      scorecard_ok_Nil by fastforce
qed

section \<open>The governor's promises\<close>

text \<open>
  A run of the governor with the log of what it admitted: the admission cycle and the key.
  The log is no state of the code; the theorem speaks about it.
\<close>
inductive gov_run ::
  "(pyval \<Rightarrow> string) \<Rightarrow> nat \<Rightarrow> nat \<Rightarrow> nat \<Rightarrow> Governor \<Rightarrow> (nat \<times> string) list \<Rightarrow> bool"
  for rp q w cd where
  gr_new: "gov_run rp q w cd (new_governor q w cd) []"
| gr_admitted: "gov_run rp q w cd g adm \<Longrightarrow> gov_admit rp p g = ((True, reason), g')
    \<Longrightarrow> gov_run rp q w cd g' (adm @ [(gv_cycle g', gov_key rp p)])"
| gr_blocked: "gov_run rp q w cd g adm \<Longrightarrow> gov_admit rp p g = ((False, reason), g')
    \<Longrightarrow> gov_run rp q w cd g' adm"
| gr_outcome: "gov_run rp q w cd g adm \<Longrightarrow> gov_run rp q w cd (gov_record_outcome p approved g) adm"

inductive_cases gov_admit_run: "gov_run rp q w cd g adm"

text \<open>the deque is the part of the log inside the window; the log is in order, within quota and
  without repeats in every window\<close>
definition gov_inv :: "nat \<Rightarrow> nat \<Rightarrow> Governor \<Rightarrow> (nat \<times> string) list \<Rightarrow> bool" where
  "gov_inv q w g adm \<longleftrightarrow> gv_quota g = q \<and> gv_window g = w
     \<and> gv_admitted g = filter (\<lambda>e. gv_cycle g < fst e + w) adm
     \<and> sorted_wrt (<) (map fst adm) \<and> (\<forall>e\<in>set adm. fst e \<le> gv_cycle g)
     \<and> (\<forall>c. length (filter (\<lambda>e. c < fst e \<and> fst e \<le> c + w) adm) \<le> q)
     \<and> (\<forall>e\<in>set adm. \<forall>e'\<in>set adm. snd e = snd e' \<and> fst e < fst e' \<longrightarrow> fst e + w \<le> fst e')"

lemma dropWhile_window:
  "sorted_wrt (<) (map fst xs) \<Longrightarrow>
   dropWhile (\<lambda>e. fst e + w \<le> T) xs = filter (\<lambda>e. T < fst e + w) (xs :: (nat \<times> 'a) list)"
proof (induction xs)
  case (Cons x xs)
  have "filter (\<lambda>e. T < fst e + w) xs = xs" if "T < fst x + w"
    using Cons.prems that by (intro filter_True ballI) fastforce
  then show ?case using Cons by auto
qed simp

lemma gov_inv_advance:
  assumes "gov_inv q w g adm"
  shows "gov_inv q w (gov_advance g) adm" "gv_cycle (gov_advance g) = gv_cycle g + 1"
proof -
  have s: "sorted_wrt (<) (map fst adm)" using assms by (simp add: gov_inv_def)
  then have "sorted_wrt (<) (map fst (filter (\<lambda>e. gv_cycle g < fst e + w) adm))"
    using sorted_wrt_filter [of "(\<lambda>x y. fst x < fst y)"] by (simp add: sorted_wrt_map)
  note d = dropWhile_window [OF this, of w "gv_cycle g + 1"]
  have "gv_admitted (gov_advance g) = filter (\<lambda>e. gv_cycle g + 1 < fst e + w) adm"
    using assms d by (auto simp: gov_inv_def gov_advance_def Let_def intro: filter_cong)
  then show "gov_inv q w (gov_advance g) adm" using assms
    by (auto simp: gov_inv_def gov_advance_def Let_def le_SucI)
  show "gv_cycle (gov_advance g) = gv_cycle g + 1" by (simp add: gov_advance_def Let_def)
qed

lemma gov_inv_append:
  assumes i: "gov_inv q w g adm" and T: "\<forall>e\<in>set adm. fst e < gv_cycle g" and w: "0 < w"
    and quota: "length (gv_admitted g) < q" and new: "\<forall>e\<in>set (gv_admitted g). snd e \<noteq> k"
  shows "gov_inv q w (g\<lparr>gv_admitted := gv_admitted g @ [(gv_cycle g, k)]\<rparr>) (adm @ [(gv_cycle g, k)])"
proof -
  let ?T = "gv_cycle g"
  have a: "gv_admitted g = filter (\<lambda>e. ?T < fst e + w) adm" using i by (simp add: gov_inv_def)
  have q: "length (filter (\<lambda>e. c < fst e \<and> fst e \<le> c + w) (adm @ [(?T, k)])) \<le> q" for c
  proof (cases "c < ?T \<and> ?T \<le> c + w")
    case True
    have "length (filter (\<lambda>e. c < fst e \<and> fst e \<le> c + w) adm) \<le> length (filter (\<lambda>e. ?T < fst e + w) adm)"
      by (rule length_filter_mono) (use True in linarith)
    then show ?thesis using True quota a by simp
  next
    case False
    then have "filter (\<lambda>e. c < fst e \<and> fst e \<le> c + w) (adm @ [(?T, k)]) = filter (\<lambda>e. c < fst e \<and> fst e \<le> c + w) adm"
      by auto
    then show ?thesis using i by (simp add: gov_inv_def)
  qed
  have k: "fst e + w \<le> ?T" if "e \<in> set adm" "snd e = k" for e
    using new that unfolding a by fastforce
  have dup: "\<forall>e\<in>set (adm @ [(?T, k)]). \<forall>e'\<in>set (adm @ [(?T, k)]).
      snd e = snd e' \<and> fst e < fst e' \<longrightarrow> fst e + w \<le> fst e'"
    using i k T by (fastforce simp: gov_inv_def)
  have st: "sorted_wrt (<) (map fst (adm @ [(?T, k)]))" "\<forall>e\<in>set (adm @ [(?T, k)]). fst e \<le> ?T"
    using i T by (auto simp: gov_inv_def sorted_wrt_append)
  show ?thesis unfolding gov_inv_def using i a q dup st w by (simp add: gov_inv_def)
qed

lemma gov_block_inv: "gov_inv q w g adm \<Longrightarrow> gov_inv q w (snd (gov_block r g)) adm"
  by (simp add: gov_inv_def gov_block_def)

lemma gov_admit_cases:
  "gov_admit rp p g = (r, g') \<Longrightarrow>
     (\<exists>reason. r = (False, reason) \<and> g' = snd (gov_block reason (gov_advance g)))
   \<or> (r = (True, ''admitted'') \<and> length (gv_admitted (gov_advance g)) < gv_quota (gov_advance g)
      \<and> (\<forall>e\<in>set (gv_admitted (gov_advance g)). snd e \<noteq> gov_key rp p)
      \<and> g' = (gov_advance g)\<lparr>gv_admitted := gv_admitted (gov_advance g)
             @ [(gv_cycle (gov_advance g), gov_key rp p)]\<rparr>)"
  by (auto simp: gov_admit_def Let_def gov_block_def list_ex_iff split: if_splits)

lemma gov_run_inv:
  assumes "gov_run rp q w cd g adm" "0 < w"
  shows "gov_inv q w g adm"
  using assms(1)
proof (induction rule: gov_run.induct)
  case gr_new
  then show ?case by (simp add: gov_inv_def new_governor_def)
next
  case (gr_admitted g adm p reason g')
  let ?a = "gov_advance g"
  note a = gov_inv_advance [OF gr_admitted.IH]
  have qq: "gv_quota ?a = q" using a(1) by (simp add: gov_inv_def)
  have n: "length (gv_admitted ?a) < q" "\<forall>e\<in>set (gv_admitted ?a). snd e \<noteq> gov_key rp p"
    and g': "g' = ?a\<lparr>gv_admitted := gv_admitted ?a @ [(gv_cycle ?a, gov_key rp p)]\<rparr>"
    using gov_admit_cases [OF gr_admitted.hyps(2)] qq by auto
  have "\<forall>e\<in>set adm. fst e < gv_cycle ?a" using gr_admitted.IH a(2) by (auto simp: gov_inv_def)
  from gov_inv_append [OF a(1) this assms(2) n] show ?case by (simp add: g')
next
  case (gr_blocked g adm p reason g')
  then show ?case using gov_admit_cases [OF gr_blocked.hyps(2)] gov_block_inv [OF gov_inv_advance(1)] by auto
next
  case (gr_outcome g adm p approved)
  then show ?case by (simp add: gov_inv_def gov_record_outcome_def)
qed

text \<open>C37: Over every run of the governor, any window of admission cycles contains at most the quota of
  admitted proposals, and the same target and value is admitted again only after a whole
  window.\<close>
theorem governor_enforces_quota_and_dedup:
  assumes "gov_run rp q w cd g adm" "0 < w"
  shows "(\<forall>c. length (filter (\<lambda>e. c < fst e \<and> fst e \<le> c + w) adm) \<le> q)
    \<and> (\<forall>e\<in>set adm. \<forall>e'\<in>set adm. snd e = snd e' \<and> fst e < fst e' \<longrightarrow> fst e + w \<le> fst e')"
  using gov_run_inv [OF assms] by (simp add: gov_inv_def)

definition some_proposal :: Proposal where
  "some_proposal = prompt_change ''prompts.news'' ''v2'' ''clearer'' None"

theorem governor_enforces_quota_and_dedup_witness:
  "\<exists>g. gov_run (\<lambda>_. []) 1 10 5 g [(1, ''prompts.news=v2'')]
     \<and> length (filter (\<lambda>e. 0 < fst e \<and> fst e \<le> 0 + 10) [(1::nat, ''prompts.news=v2'')]) \<le> 1"
proof -
  let ?g = "snd (gov_admit (\<lambda>_. []) some_proposal (new_governor 1 10 5))"
  have a: "gov_admit (\<lambda>_. []) some_proposal (new_governor 1 10 5) = ((True, ''admitted''), ?g)"
    and c: "gv_cycle ?g = 1" and k: "gov_key (\<lambda>_. []) some_proposal = ''prompts.news=v2''"
    by (simp_all add: gov_admit_def gov_advance_def new_governor_def gov_key_def some_proposal_def
        prompt_change_def Let_def)
  have r: "gov_run (\<lambda>_. []) 1 10 5 ?g [(1, ''prompts.news=v2'')]"
    using gr_admitted [OF gr_new a] by (simp only: c k append_Nil)
  have "(0::nat) < 10" by simp
  from governor_enforces_quota_and_dedup [OF r this, THEN conjunct1, rule_format, of 0] r
  show ?thesis by (intro exI conjI)
qed

section \<open>The bench\<close>

lemma gov_admit_cycle: "gv_cycle (snd (gov_admit rp p g)) = gv_cycle g + 1"
  by (simp add: gov_admit_def gov_advance_def gov_block_def Let_def)

lemma gov_admit_keeps_bench: "gv_cooldowns (snd (gov_admit rp p g)) = gv_cooldowns g"
  by (simp add: gov_admit_def gov_advance_def gov_block_def Let_def)

lemma benched_iff:
  assumes "map_of (gv_cooldowns g) (pr_target p) = Some ends"
  shows "fst (gov_admit rp p g) = (False, ''cooldown'') \<longleftrightarrow> gv_cycle g + 1 < ends"
  using assms by (auto simp: gov_admit_def gov_advance_def gov_block_def Let_def)

text \<open>
  After a rejection the target is refused at each of the next \<open>cooldown - 1\<close> requests, whatever
  they are about, and no longer by the cooldown at the following one.
\<close>
lemma bench_length:
  fixes rp and g :: Governor and ps :: "Proposal list"
  defines "run \<equiv> \<lambda>g0. fold (\<lambda>p g. snd (gov_admit rp p g)) ps g0"
  assumes "pr_target p' = pr_target p"
  shows "fst (gov_admit rp p' (run (gov_record_outcome p False g))) = (False, ''cooldown'')
    \<longleftrightarrow> length ps + 1 < gv_cooldown g"
proof -
  have c: "gv_cycle (run g0) = gv_cycle g0 + length ps \<and> gv_cooldowns (run g0) = gv_cooldowns g0" for g0
    unfolding run_def by (induction ps arbitrary: g0) (simp_all add: gov_admit_cycle gov_admit_keeps_bench)
  have "map_of (gv_cooldowns (run (gov_record_outcome p False g))) (pr_target p') = Some (gv_cycle g + gv_cooldown g)"
    using c assms(2) by (simp add: gov_record_outcome_def)
  from benched_iff [OF this] show ?thesis using c by (auto simp: gov_record_outcome_def)
qed

section \<open>The queue\<close>

lemma queue_update_id: "map (pr_id \<circ> qe_proposal) (queue_update i f qs) = map (pr_id \<circ> qe_proposal) qs"
  if "\<And>q. qe_proposal (f q) = qe_proposal q"
  by (induction qs) (auto simp: that)

text \<open>an update by identifier reaches the oldest entry with it, never a later one\<close>
lemma queue_update_oldest:
  assumes "\<exists>q\<in>set qs. pr_id (qe_proposal q) = i"
  shows "queue_update i f (qs @ rest) = queue_update i f qs @ rest"
  using assms by (induction qs) auto

end
