(* ===== verification/Cog_Backtest.thy ===== *)
theory Cog_Backtest
  imports Cog_Proposal
begin

text \<open>
  The judge and the validator of a proposal: the paired backtest of two configurations with
  its walk-forward variant (\<open>cognitive/backtest_gate.py\<close>) and the challenger's review
  (\<open>cognitive/challenger.py\<close>). The seeded slippage generator is a function of the seed and
  the number of the draw; \<open>rp\<close> is Python's \<open>repr\<close>.
\<close>

section \<open>Metrics\<close>

definition DEFAULT_POSITION_FRACTION :: real where "DEFAULT_POSITION_FRACTION = 95 / 100"
definition HISTORY_WINDOW :: nat where "HISTORY_WINDOW = 64"
definition STARTING_EQUITY :: real where "STARTING_EQUITY = 100000"

record ConfigBacktestMetrics =
  bm_total_return_pct :: real
  bm_sharpe :: real
  bm_max_drawdown_pct :: real
  bm_trades :: nat
  bm_signals :: nat
  bm_win_rate :: real
  bm_false_positive_rate :: real

definition metrics_as_dict :: "ConfigBacktestMetrics \<Rightarrow> pydict" where
  "metrics_as_dict m =
     [(''total_return_pct'', PFloat (bm_total_return_pct m)), (''sharpe'', PFloat (bm_sharpe m)),
      (''max_drawdown_pct'', PFloat (bm_max_drawdown_pct m)), (''trades'', PInt (int (bm_trades m))),
      (''signals'', PInt (int (bm_signals m))), (''win_rate'', PFloat (bm_win_rate m)),
      (''false_positive_rate'', PFloat (bm_false_positive_rate m))]"

record BacktestDelta =
  bd_baseline :: ConfigBacktestMetrics
  bd_candidate :: ConfigBacktestMetrics
  bd_pnl_delta :: real
  bd_sharpe_delta :: real
  bd_drawdown_delta :: real
  bd_false_positive_rate_delta :: real

definition improves :: "BacktestDelta \<Rightarrow> bool" where
  "improves d = (bd_pnl_delta d > 0 \<and> bd_drawdown_delta d \<le> 0)"

definition delta_as_dict :: "BacktestDelta \<Rightarrow> pydict" where
  "delta_as_dict d =
     [(''baseline'', PDict (metrics_as_dict (bd_baseline d))), (''candidate'', PDict (metrics_as_dict (bd_candidate d))),
      (''pnl_delta'', PFloat (bd_pnl_delta d)), (''sharpe_delta'', PFloat (bd_sharpe_delta d)),
      (''drawdown_delta'', PFloat (bd_drawdown_delta d)),
      (''false_positive_rate_delta'', PFloat (bd_false_positive_rate_delta d)),
      (''improves'', PBool (improves d))]"

definition gate_sharpe :: "real list \<Rightarrow> real" where
  "gate_sharpe pnls =
     (if length pnls < 2 then 0
      else let sd = pstdev pnls in if sd \<le> 1 / 10 ^ 12 then 0 else py_round 4 (fmean pnls / sd))"

definition max_drawdown_pct :: "real list \<Rightarrow> real" where
  "max_drawdown_pct equity_curve =
     (let peak = (if equity_curve \<noteq> [] then hd equity_curve else 0)
      in py_round 4 (drawdown_loop peak 0 equity_curve * 100))"

section \<open>The replay\<close>

record bt_state =
  bt_cash :: real
  bt_open_dir :: int
  bt_open_price :: real
  bt_open_qty :: real
  bt_trade_pnls :: "real list"
  bt_equity_curve :: "real list"
  bt_signals :: nat
  bt_losing :: nat
  bt_draws :: nat

definition bt_init :: "real \<Rightarrow> bt_state" where
  "bt_init starting_equity = \<lparr>bt_cash = starting_equity, bt_open_dir = 0, bt_open_price = 0, bt_open_qty = 0,
     bt_trade_pnls = [], bt_equity_curve = [], bt_signals = 0, bt_losing = 0, bt_draws = 0\<rparr>"

text \<open>\<open>fill(price, direction)\<close> consumes one draw of the generator\<close>
definition gate_fill :: "(nat \<Rightarrow> real) \<Rightarrow> real \<Rightarrow> int \<Rightarrow> bt_state \<Rightarrow> real \<times> bt_state" where
  "gate_fill draws price direction st =
     (price * (1 + (if direction > 0 then 1 else - 1) * draws (bt_draws st)), st\<lparr>bt_draws := bt_draws st + 1\<rparr>)"

text \<open>close the open position at \<open>price\<close> and book the PnL\<close>
definition close_open :: "(nat \<Rightarrow> real) \<Rightarrow> real \<Rightarrow> bt_state \<Rightarrow> bt_state" where
  "close_open draws price st =
     (case gate_fill draws price (- bt_open_dir st) st of (exit_fill, st1) \<Rightarrow>
        let pnl = of_int (bt_open_dir st) * bt_open_qty st * (exit_fill - bt_open_price st)
        in st1\<lparr>bt_trade_pnls := bt_trade_pnls st @ [pnl], bt_cash := bt_cash st + pnl,
               bt_losing := (if pnl < 0 then bt_losing st + 1 else bt_losing st)\<rparr>)"

text \<open>\<open>target_dir != open_dir\<close>: close what is open, then open the target\<close>
definition flip_position :: "(nat \<Rightarrow> real) \<Rightarrow> real \<Rightarrow> real \<Rightarrow> int \<Rightarrow> bt_state \<Rightarrow> bt_state pyres" where
  "flip_position draws fraction price target_dir st =
     (let st1 = (if bt_open_dir st \<noteq> 0 then close_open draws price st else st)
      in if target_dir \<noteq> 0
         then (case gate_fill draws price target_dir st1 of (entry, st2) \<Rightarrow>
                if entry = 0 then Inl ZeroDivisionError
                else Inr (st2\<lparr>bt_open_qty := (bt_cash st1 * fraction) / entry, bt_open_price := entry,
                             bt_open_dir := target_dir\<rparr>))
         else Inr (st1\<lparr>bt_open_dir := 0, bt_open_qty := 0, bt_open_price := 0\<rparr>))"

definition gate_features :: "MarketView \<Rightarrow> features pyres" where
  "gate_features market =
     res_bind (agent_analyze (NewsAgent news_sentiment) market) (\<lambda>(_, n).
     res_bind (agent_analyze (TechnicalAgent (\<lambda>m. technical_trend TECH_WINDOW (mv_history m))) market) (\<lambda>(_, t).
     res_bind (agent_analyze (MacroAgent (\<lambda>m. macro_regime MACRO_WINDOW (mv_history m))) market) (\<lambda>(_, m).
     res_bind (agent_analyze (RiskAgent (\<lambda>m. risk_assessment RISK_WINDOW (mv_history m))) market) (\<lambda>(_, r).
       aggregate n t m r))))"

definition market_at :: "string \<Rightarrow> real list \<Rightarrow> real list option \<Rightarrow> nat \<Rightarrow> MarketView" where
  "market_at symbol prices news index =
     (let sentiment = (case news of None \<Rightarrow> None
            | Some ns \<Rightarrow> if index < length ns then Some (ns ! index) else None)
      in \<lparr>mv_symbol = symbol, mv_price = prices ! index,
          mv_history = drop (index + 1 - HISTORY_WINDOW) (take (index + 1) prices),
          mv_news_sentiment = sentiment,
          mv_news_confidence = (if sentiment \<noteq> None then 1 else 0), mv_ts = []\<rparr>)"

text \<open>the body of the loop over the bars\<close>
definition bt_step ::
  "(nat \<Rightarrow> real) \<Rightarrow> real \<Rightarrow> CognitiveConfig \<Rightarrow> string \<Rightarrow> real list \<Rightarrow> real list option \<Rightarrow> nat \<Rightarrow> bt_state
   \<Rightarrow> bt_state pyres" where
  "bt_step draws fraction config symbol prices news index st =
     res_bind (gate_features (market_at symbol prices news index)) (\<lambda>f.
       let price = prices ! index;
           action = dn_action (decide f config);
           st0 = (if action \<in> {''buy'', ''sell''} then st\<lparr>bt_signals := bt_signals st + 1\<rparr> else st);
           target_dir = (if action = ''buy'' then 1 else if action = ''sell'' then - 1 else bt_open_dir st0)
       in res_bind (if target_dir \<noteq> bt_open_dir st0 then flip_position draws fraction price target_dir st0
                    else Inr st0) (\<lambda>st1.
            let marked = bt_cash st1 + (if bt_open_dir st1 \<noteq> 0
                  then of_int (bt_open_dir st1) * bt_open_qty st1 * (price - bt_open_price st1) else 0)
            in Inr (st1\<lparr>bt_equity_curve := bt_equity_curve st1 @ [marked]\<rparr>)))"

text \<open>the state after the first \<open>n\<close> bars\<close>
primrec bt_steps ::
  "(nat \<Rightarrow> real) \<Rightarrow> real \<Rightarrow> CognitiveConfig \<Rightarrow> string \<Rightarrow> real list \<Rightarrow> real list option \<Rightarrow> real \<Rightarrow> nat \<Rightarrow> bt_state pyres" where
  "bt_steps draws fraction config symbol prices news equity 0 = Inr (bt_init equity)"
| "bt_steps draws fraction config symbol prices news equity (Suc n) =
     res_bind (bt_steps draws fraction config symbol prices news equity n)
       (bt_step draws fraction config symbol prices news n)"

definition metrics_of :: "real \<Rightarrow> bt_state \<Rightarrow> ConfigBacktestMetrics pyres" where
  "metrics_of equity st =
     (if equity = 0 then Inl ZeroDivisionError
      else let trades = length (bt_trade_pnls st); wins = length (filter (\<lambda>pnl. pnl > 0) (bt_trade_pnls st))
           in Inr \<lparr>bm_total_return_pct = py_round 4 ((bt_cash st / equity - 1) * 100),
                   bm_sharpe = gate_sharpe (bt_trade_pnls st),
                   bm_max_drawdown_pct = max_drawdown_pct (bt_equity_curve st), bm_trades = trades,
                   bm_signals = bt_signals st,
                   bm_win_rate = (if trades \<noteq> 0 then py_round 4 (real wins / real trades) else 0),
                   bm_false_positive_rate =
                     (if trades \<noteq> 0 then py_round 4 (real (bt_losing st) / real trades) else 0)\<rparr>)"

definition close_at_end :: "(nat \<Rightarrow> real) \<Rightarrow> real list \<Rightarrow> bt_state \<Rightarrow> bt_state" where
  "close_at_end draws prices st =
     (if bt_open_dir st \<noteq> 0 \<and> prices \<noteq> [] then close_open draws (last prices) st else st)"

definition run_config_backtest ::
  "(int \<Rightarrow> nat \<Rightarrow> real) \<Rightarrow> real list \<Rightarrow> CognitiveConfig \<Rightarrow> real list option \<Rightarrow> string \<Rightarrow> real \<Rightarrow> real \<Rightarrow> int
   \<Rightarrow> ConfigBacktestMetrics pyres" where
  "run_config_backtest rng prices config news symbol starting_equity fraction seed =
     res_bind (bt_steps (rng seed) fraction config symbol prices news starting_equity (length prices)) (\<lambda>st.
       metrics_of starting_equity (close_at_end (rng seed) prices st))"

section \<open>Paired comparison and walk-forward\<close>

definition default_backtest ::
  "(int \<Rightarrow> nat \<Rightarrow> real) \<Rightarrow> real list \<Rightarrow> CognitiveConfig \<Rightarrow> real list option \<Rightarrow> int \<Rightarrow> ConfigBacktestMetrics pyres" where
  "default_backtest rng prices config news seed =
     run_config_backtest rng prices config news ''SYNTHETIC'' STARTING_EQUITY DEFAULT_POSITION_FRACTION seed"

definition delta_of :: "ConfigBacktestMetrics \<Rightarrow> ConfigBacktestMetrics \<Rightarrow> BacktestDelta" where
  "delta_of baseline candidate =
     \<lparr>bd_baseline = baseline, bd_candidate = candidate,
      bd_pnl_delta = py_round 4 (bm_total_return_pct candidate - bm_total_return_pct baseline),
      bd_sharpe_delta = py_round 4 (bm_sharpe candidate - bm_sharpe baseline),
      bd_drawdown_delta = py_round 4 (bm_max_drawdown_pct candidate - bm_max_drawdown_pct baseline),
      bd_false_positive_rate_delta =
        py_round 4 (bm_false_positive_rate candidate - bm_false_positive_rate baseline)\<rparr>"

definition evaluate_proposal ::
  "(int \<Rightarrow> nat \<Rightarrow> real) \<Rightarrow> real list \<Rightarrow> CognitiveConfig \<Rightarrow> CognitiveConfig \<Rightarrow> real list option \<Rightarrow> int
   \<Rightarrow> BacktestDelta pyres" where
  "evaluate_proposal rng prices baseline_config candidate_config news seed =
     res_bind (default_backtest rng prices baseline_config news seed) (\<lambda>baseline.
     res_bind (default_backtest rng prices candidate_config news seed) (\<lambda>candidate.
       Inr (delta_of baseline candidate)))"

record WalkForwardResult =
  wf_folds :: "BacktestDelta list"
  wf_consistency :: real
  wf_mean_pnl_delta :: real
  wf_mean_sharpe_delta :: real

definition walk_forward_as_dict :: "WalkForwardResult \<Rightarrow> pydict" where
  "walk_forward_as_dict w =
     [(''consistency'', PFloat (wf_consistency w)), (''mean_pnl_delta'', PFloat (wf_mean_pnl_delta w)),
      (''mean_sharpe_delta'', PFloat (wf_mean_sharpe_delta w)),
      (''folds'', PList (map (\<lambda>d. PDict (delta_as_dict d)) (wf_folds w)))]"

text \<open>\<open>xs[a:b]\<close> for indices that are not negative\<close>
definition slice :: "nat \<Rightarrow> nat \<Rightarrow> 'a list \<Rightarrow> 'a list" where
  "slice a b xs = drop a (take b xs)"

definition fold_bounds :: "nat \<Rightarrow> nat \<Rightarrow> nat \<Rightarrow> nat \<times> nat" where
  "fold_bounds n folds fold_i =
     (let seg = n div folds
      in (fold_i * seg, if fold_i = folds - 1 then n else (fold_i + 1) * seg))"

fun walk_folds ::
  "(int \<Rightarrow> nat \<Rightarrow> real) \<Rightarrow> real list \<Rightarrow> CognitiveConfig \<Rightarrow> CognitiveConfig \<Rightarrow> real list option \<Rightarrow> int \<Rightarrow> nat
   \<Rightarrow> nat list \<Rightarrow> BacktestDelta list pyres" where
  "walk_folds rng prices base cand news seed folds [] = Inr []"
| "walk_folds rng prices base cand news seed folds (i # is) =
     (case fold_bounds (length prices) folds i of (a, b) \<Rightarrow>
        res_bind (evaluate_proposal rng (slice a b prices) base cand (map_option (slice a b) news) (seed + int i))
          (\<lambda>d. res_bind (walk_folds rng prices base cand news seed folds is) (\<lambda>ds. Inr (d # ds))))"

definition walk_forward ::
  "(int \<Rightarrow> nat \<Rightarrow> real) \<Rightarrow> real list \<Rightarrow> CognitiveConfig \<Rightarrow> CognitiveConfig \<Rightarrow> int \<Rightarrow> real list option \<Rightarrow> int
   \<Rightarrow> WalkForwardResult pyres" where
  "walk_forward rng prices base cand folds news seed =
     (if folds < 2 \<or> int (length prices) < folds * 2
      then res_bind (evaluate_proposal rng prices base cand news seed) (\<lambda>single.
             Inr \<lparr>wf_folds = [single], wf_consistency = (if bd_pnl_delta single > 0 then 1 else 0),
                  wf_mean_pnl_delta = bd_pnl_delta single, wf_mean_sharpe_delta = bd_sharpe_delta single\<rparr>)
      else res_bind (walk_folds rng prices base cand news seed (nat folds) [0 ..< nat folds]) (\<lambda>deltas.
             let positive = length (filter (\<lambda>d. bd_pnl_delta d > 0) deltas)
             in Inr \<lparr>wf_folds = deltas,
                     wf_consistency = py_round 4 (real positive / real (length deltas)),
                     wf_mean_pnl_delta = py_round 4 (fmean (map bd_pnl_delta deltas)),
                     wf_mean_sharpe_delta = py_round 4 (fmean (map bd_sharpe_delta deltas))\<rparr>))"

section \<open>The challenger\<close>

definition MIN_LEARNING_SAMPLES :: nat where "MIN_LEARNING_SAMPLES = 30"
definition MIN_TRADES :: nat where "MIN_TRADES = 30"
definition DRAWDOWN_TOLERANCE_PCT :: real where "DRAWDOWN_TOLERANCE_PCT = 1"
definition MIN_WALK_FORWARD_CONSISTENCY :: real where "MIN_WALK_FORWARD_CONSISTENCY = 6 / 10"

record challenger_checks =
  ch_statistical_sanity :: bool
  ch_no_overfit :: bool
  ch_risk_impact_ok :: bool
  ch_historically_consistent :: bool
  ch_improves_out_of_sample :: bool
  ch_walk_forward_consistent :: bool

record ChallengerVerdict =
  cv_approved :: bool
  cv_risk_score :: real
  cv_reasons :: "string list"
  cv_checks :: challenger_checks

definition verdict_as_dict :: "ChallengerVerdict \<Rightarrow> pydict" where
  "verdict_as_dict v =
     [(''type'', PStr (event_value CHALLENGER_VERDICT)), (''approved'', PBool (cv_approved v)),
      (''risk_score'', PFloat (cv_risk_score v)), (''reasons'', PList (map PStr (cv_reasons v))),
      (''checks'', PDict
         [(''statistical_sanity'', PBool (ch_statistical_sanity (cv_checks v))),
          (''no_overfit'', PBool (ch_no_overfit (cv_checks v))),
          (''risk_impact_ok'', PBool (ch_risk_impact_ok (cv_checks v))),
          (''historically_consistent'', PBool (ch_historically_consistent (cv_checks v))),
          (''improves_out_of_sample'', PBool (ch_improves_out_of_sample (cv_checks v))),
          (''walk_forward_consistent'', PBool (ch_walk_forward_consistent (cv_checks v)))])]"

definition all_checks :: "challenger_checks \<Rightarrow> bool" where
  "all_checks c = (ch_statistical_sanity c \<and> ch_no_overfit c \<and> ch_risk_impact_ok c
     \<and> ch_historically_consistent c \<and> ch_improves_out_of_sample c \<and> ch_walk_forward_consistent c)"

definition review_checks ::
  "BacktestDelta \<Rightarrow> BacktestDelta \<Rightarrow> nat \<Rightarrow> bool \<Rightarrow> bool \<Rightarrow> real \<Rightarrow> challenger_checks" where
  "review_checks in_sample out_sample learning_samples config_valid attribution_supports consistency =
     \<lparr>ch_statistical_sanity = (learning_samples \<ge> MIN_LEARNING_SAMPLES
        \<and> bm_trades (bd_candidate out_sample) \<ge> MIN_TRADES \<and> bm_trades (bd_baseline out_sample) \<ge> MIN_TRADES),
      ch_no_overfit = (\<not> (bd_pnl_delta in_sample > 0 \<and> bd_pnl_delta out_sample \<le> 0)),
      ch_risk_impact_ok = (config_valid \<and> bd_drawdown_delta out_sample \<le> DRAWDOWN_TOLERANCE_PCT),
      ch_historically_consistent = attribution_supports,
      ch_improves_out_of_sample = (bd_pnl_delta out_sample > 0),
      ch_walk_forward_consistent = (consistency \<ge> MIN_WALK_FORWARD_CONSISTENCY)\<rparr>"

definition fmt_plus :: "(pyval \<Rightarrow> string) \<Rightarrow> real \<Rightarrow> string" where
  "fmt_plus rp x = (if x < 0 then [] else ''+'') @ rp (PFloat x)"

text \<open>the messages, in the order the checks run; the dash is its UTF-8 bytes\<close>
definition review_reasons ::
  "(pyval \<Rightarrow> string) \<Rightarrow> challenger_checks \<Rightarrow> BacktestDelta \<Rightarrow> BacktestDelta \<Rightarrow> nat \<Rightarrow> bool \<Rightarrow> real \<Rightarrow> string list" where
  "review_reasons rp ck in_sample out_sample learning_samples config_valid consistency =
     (let num = (\<lambda>x. rp (PFloat x)) in
     (if ch_statistical_sanity ck then [] else
        [''insufficient sample: learning_samples='' @ nat_str learning_samples @ '' (need ''
         @ nat_str MIN_LEARNING_SAMPLES @ ''), OOS trades baseline='' @ nat_str (bm_trades (bd_baseline out_sample))
         @ ''/candidate='' @ nat_str (bm_trades (bd_candidate out_sample)) @ '' (need '' @ nat_str MIN_TRADES @ '' each)''])
   @ (if ch_no_overfit ck then [] else
        [''overfit: improves in-sample (+'' @ num (bd_pnl_delta in_sample) @ ''%) but not out-of-sample (''
         @ num (bd_pnl_delta out_sample) @ ''%)''])
   @ (if \<not> config_valid then [''candidate config is out of safe bounds'']
      else if bd_drawdown_delta out_sample > DRAWDOWN_TOLERANCE_PCT
      then [''drawdown worsens by '' @ num (bd_drawdown_delta out_sample) @ ''% out-of-sample (tolerance ''
            @ num DRAWDOWN_TOLERANCE_PCT @ ''%)'']
      else [])
   @ (if ch_historically_consistent ck then [] else [''proposed direction is not supported by PnL attribution''])
   @ (if ch_improves_out_of_sample ck then [] else
        [''no out-of-sample improvement ('' @ num (bd_pnl_delta out_sample) @ ''%)''])
   @ (if ch_walk_forward_consistent ck then [] else
        [''walk-forward consistency '' @ num consistency @ '' below '' @ num MIN_WALK_FORWARD_CONSISTENCY @ '' ''
         @ [CHR 0xE2, CHR 0x80, CHR 0x94] @ '' improvement does not hold across market periods (overfit risk)''])
   @ (if all_checks ck then
        [''approved: +'' @ num (bd_pnl_delta out_sample) @ ''% PnL and '' @ fmt_plus rp (bd_sharpe_delta out_sample)
         @ '' Sharpe out-of-sample, drawdown delta '' @ fmt_plus rp (bd_drawdown_delta out_sample) @ ''%'']
      else []))"

definition review_risk :: "challenger_checks \<Rightarrow> real" where
  "review_risk ck = py_round 4 (min 1
     ((if ch_statistical_sanity ck then 0 else 20 / 100) + (if ch_no_overfit ck then 0 else 35 / 100)
    + (if ch_risk_impact_ok ck then 0 else 20 / 100) + (if ch_historically_consistent ck then 0 else 10 / 100)
    + (if ch_walk_forward_consistent ck then 0 else 15 / 100)))"

definition review ::
  "(pyval \<Rightarrow> string) \<Rightarrow> BacktestDelta \<Rightarrow> BacktestDelta \<Rightarrow> nat \<Rightarrow> bool \<Rightarrow> bool \<Rightarrow> real \<Rightarrow> ChallengerVerdict" where
  "review rp in_sample out_sample learning_samples config_valid attribution_supports consistency =
     (let ck = review_checks in_sample out_sample learning_samples config_valid attribution_supports consistency
      in \<lparr>cv_approved = all_checks ck, cv_risk_score = review_risk ck,
          cv_reasons = review_reasons rp ck in_sample out_sample learning_samples config_valid consistency,
          cv_checks = ck\<rparr>)"

section \<open>The replay returns\<close>

lemma gate_features_total: "\<exists>f. gate_features market = Inr f \<and> features_ok f"
proof -
  obtain a b where 1: "news_sentiment market = (a, b)" by fastforce
  obtain c d where 2: "technical_trend TECH_WINDOW (mv_history market) = (c, d)" by fastforce
  obtain g h where 3: "risk_assessment RISK_WINDOW (mv_history market) = (g, h)" by fastforce
  have "\<exists>f. gate_features market = Inr f"
    by (simp add: gate_features_def agent_analyze_def aggregate_def payload_float_def 1 2 3)
  then show ?thesis using aggregate_ok
    by (auto simp: gate_features_def agent_analyze_def 1 2 3)
qed

text \<open>an account the loop keeps: cash is the start plus the booked PnL, losses are counted, and one
  equity point is recorded per bar\<close>
definition bt_ok :: "real \<Rightarrow> nat \<Rightarrow> bt_state \<Rightarrow> bool" where
  "bt_ok equity n st \<longleftrightarrow> bt_cash st = equity + sum_list (bt_trade_pnls st)
     \<and> bt_losing st = length (filter (\<lambda>p. p < 0) (bt_trade_pnls st))
     \<and> length (bt_equity_curve st) = n \<and> bt_open_dir st \<in> {- 1, 0, 1}
     \<and> bt_signals st \<le> n \<and> length (bt_trade_pnls st) + (if bt_open_dir st = 0 then 0 else 1) \<le> bt_signals st"

lemma close_open_fields [simp]:
  "bt_open_dir (close_open draws p st) = bt_open_dir st" "bt_signals (close_open draws p st) = bt_signals st"
  "bt_equity_curve (close_open draws p st) = bt_equity_curve st"
  "length (bt_trade_pnls (close_open draws p st)) = length (bt_trade_pnls st) + 1"
  by (simp_all add: close_open_def gate_fill_def Let_def)

lemma close_open_account:
  assumes "bt_cash st = equity + sum_list (bt_trade_pnls st)"
    and "bt_losing st = length (filter (\<lambda>p. p < 0) (bt_trade_pnls st))"
  shows "bt_cash (close_open draws p st) = equity + sum_list (bt_trade_pnls (close_open draws p st))"
    and "bt_losing (close_open draws p st) = length (filter (\<lambda>p. p < 0) (bt_trade_pnls (close_open draws p st)))"
  using assms by (simp_all add: close_open_def gate_fill_def Let_def)

lemma bt_step_shape:
  assumes "bt_step draws fr c s prices news i st = Inr st'"
  obtains st0 st1 d m where "st0 = st \<and> d = bt_open_dir st \<or> st0 = st\<lparr>bt_signals := bt_signals st + 1\<rparr> \<and> d \<in> {1, - 1}"
    "(if d \<noteq> bt_open_dir st0 then flip_position draws fr (prices ! i) d st0 else Inr st0) = Inr st1"
    "st' = st1\<lparr>bt_equity_curve := bt_equity_curve st1 @ [m]\<rparr>"
proof -
  obtain f where f: "gate_features (market_at s prices news i) = Inr f" using gate_features_total by blast
  let ?a = "dn_action (decide f c)"
  let ?st0 = "if ?a \<in> {''buy'', ''sell''} then st\<lparr>bt_signals := bt_signals st + 1\<rparr> else st"
  let ?d = "if ?a = ''buy'' then 1 else if ?a = ''sell'' then - 1 else bt_open_dir ?st0"
  obtain st1 where 1: "(if ?d \<noteq> bt_open_dir ?st0 then flip_position draws fr (prices ! i) ?d ?st0 else Inr ?st0) = Inr st1"
    and 2: "\<exists>m. st' = st1\<lparr>bt_equity_curve := bt_equity_curve st1 @ [m]\<rparr>"
    using assms unfolding bt_step_def f res_bind_simps Let_def res_bind_Inr_iff by blast
  have "?st0 = st \<and> ?d = bt_open_dir st \<or> ?st0 = st\<lparr>bt_signals := bt_signals st + 1\<rparr> \<and> ?d \<in> {1, - 1}" by auto
  then show ?thesis using that [OF _ 1] 2 by blast
qed

lemma bt_step_ok:
  assumes "bt_ok equity n st" "bt_step draws fr c s prices news i st = Inr st'"
  shows "bt_ok equity (Suc n) st'"
proof -
  obtain st0 st1 d m where s0: "st0 = st \<and> d = bt_open_dir st \<or> st0 = st\<lparr>bt_signals := bt_signals st + 1\<rparr> \<and> d \<in> {1, - 1}"
    and s1: "(if d \<noteq> bt_open_dir st0 then flip_position draws fr (prices ! i) d st0 else Inr st0) = Inr st1"
    and s': "st' = st1\<lparr>bt_equity_curve := bt_equity_curve st1 @ [m]\<rparr>"
    by (rule bt_step_shape [OF assms(2)])
  have fields: "bt_cash st0 = bt_cash st" "bt_trade_pnls st0 = bt_trade_pnls st" "bt_losing st0 = bt_losing st"
    "bt_open_dir st0 = bt_open_dir st" "bt_equity_curve st0 = bt_equity_curve st" using s0 by auto
  show ?thesis
  proof (cases "d = bt_open_dir st0")
    case True
    then show ?thesis using assms(1) s0 s1 s' fields by (auto simp: bt_ok_def)
  next
    case False
    then have d: "d \<in> {1, - 1}" "bt_signals st0 = bt_signals st + 1" using s0 fields by auto
    let ?c = "if bt_open_dir st0 \<noteq> 0 then close_open draws (prices ! i) st0 else st0"
    have f: "bt_cash st1 = bt_cash ?c" "bt_trade_pnls st1 = bt_trade_pnls ?c" "bt_losing st1 = bt_losing ?c"
      "bt_open_dir st1 = d" "bt_signals st1 = bt_signals st0" "bt_equity_curve st1 = bt_equity_curve st0"
      using s1 False d(1) by (auto simp: flip_position_def gate_fill_def Let_def split: if_splits)
    have acc: "bt_cash ?c = equity + sum_list (bt_trade_pnls ?c)"
      "bt_losing ?c = length (filter (\<lambda>p. p < 0) (bt_trade_pnls ?c))"
      using close_open_account [of st0 equity] assms(1) fields by (auto simp: bt_ok_def)
    have len: "length (bt_trade_pnls ?c) = length (bt_trade_pnls st) + (if bt_open_dir st = 0 then 0 else 1)"
      using fields by simp
    show ?thesis unfolding bt_ok_def s' using f acc len d assms(1) fields by (auto simp: bt_ok_def)
  qed
qed

lemma bt_steps_ok: "bt_steps draws fr c s prices news equity n = Inr st \<Longrightarrow> bt_ok equity n st"
proof (induction n arbitrary: st)
  case 0
  then show ?case by (auto simp: bt_ok_def bt_init_def)
next
  case (Suc n)
  then show ?case using bt_step_ok by (fastforce simp: res_bind_Inr_iff)
qed

lemma res_bind_total:
  "\<exists>x. m = Inr x \<Longrightarrow> (\<And>x. \<exists>y. g x = Inr y) \<Longrightarrow> \<exists>y. res_bind m g = Inr y"
  by auto

lemma fill_nonzero:
  fixes p :: real
  assumes "0 < p" "0 \<le> x" "x < 1"
  shows "p * (1 + (if b then 1 else - 1) * x) \<noteq> 0"
  using assms by auto

lemma bt_steps_total:
  assumes "\<forall>p\<in>set prices. 0 < p" "\<And>i. 0 \<le> draws i \<and> draws i < 1" "n \<le> length prices"
  shows "\<exists>st. bt_steps draws fr c s prices news equity n = Inr st"
  using assms(3)
proof (induction n)
  case (Suc n)
  then obtain st where st: "bt_steps draws fr c s prices news equity n = Inr st" by auto
  have p: "0 < prices ! n" using assms(1) Suc.prems by simp
  have "\<exists>st1. flip_position draws fr (prices ! n) d st0 = Inr st1" for d st0
  proof -
    have "prices ! n * (1 + (if b then 1 else - 1) * draws k) \<noteq> 0" for b k
      using fill_nonzero [OF p] assms(2) by blast
    then show ?thesis unfolding flip_position_def gate_fill_def Let_def by auto
  qed
  then have m: "\<exists>st1. (if P then flip_position draws fr (prices ! n) d st0 else Inr st0) = Inr st1" for P d st0
    by simp
  obtain f where f: "gate_features (market_at s prices news n) = Inr f" using gate_features_total by blast
  have "\<exists>st'. bt_step draws fr c s prices news n st = Inr st'"
    unfolding bt_step_def f res_bind_simps Let_def by (intro res_bind_total m) simp
  then show ?case using st by simp
qed simp

lemma wins_losses: "length (filter (\<lambda>p::real. p > 0) xs) + length (filter (\<lambda>p. p < 0) xs) \<le> length xs"
  by (induction xs) auto

lemma py_round_sum:
  assumes "a + b \<le> c"
  shows "py_round n a + py_round n b \<le> c + 1 / 10 ^ n"
proof -
  have "1 / (2 * 10 ^ n) + 1 / (2 * 10 ^ n) = (1 / 10 ^ n :: real)" by simp
  then show ?thesis using assms py_round_near [of n a] py_round_near [of n b] by linarith
qed



section \<open>No look-ahead\<close>

definition news_at :: "real list option \<Rightarrow> nat \<Rightarrow> real option" where
  "news_at news i = (case news of None \<Rightarrow> None | Some ns \<Rightarrow> if i < length ns then Some (ns ! i) else None)"

lemma market_at_prefix:
  assumes "take (Suc i) ps = take (Suc i) qs" "i < length ps" "i < length qs" "news_at n1 i = news_at n2 i"
  shows "market_at s ps n1 i = market_at s qs n2 i"
proof -
  have "ps ! i = qs ! i" using assms(1-3) by (metis lessI nth_take)
  then show ?thesis using assms(1,4) by (simp add: market_at_def news_at_def Let_def split: option.splits)
qed

text \<open>C38: The replay never looks ahead: after any number of bars its state (cash, position, equity
  curve, random draws) is determined by the prices and the news of those bars alone.\<close>
theorem backtest_no_look_ahead:
  assumes "take n ps = take n qs" "n \<le> length ps" "n \<le> length qs" "\<forall>i<n. news_at n1 i = news_at n2 i"
  shows "bt_steps draws fr c s ps n1 equity n = bt_steps draws fr c s qs n2 equity n"
  using assms
proof (induction n)
  case (Suc n)
  have t: "take n ps = take n qs" using arg_cong [OF Suc.prems(1), of "take n"] by (simp add: min_def)
  have m: "market_at s ps n1 n = market_at s qs n2 n" using Suc.prems by (intro market_at_prefix) auto
  have p: "ps ! n = qs ! n" using Suc.prems(1-3) by (metis Suc_le_lessD lessI nth_take)
  have "bt_step draws fr c s ps n1 n = bt_step draws fr c s qs n2 n"
    by (rule ext) (simp only: bt_step_def m p)
  then show ?case using Suc t by simp
qed simp

theorem backtest_no_look_ahead_witness:
  "take 2 [1, 2, 3::real] = take 2 [1, 2, 9]
   \<and> bt_steps (\<lambda>_. 0) 1 DEFAULT_CONFIG ''X'' [1, 2, 3] None 10 2 = bt_steps (\<lambda>_. 0) 1 DEFAULT_CONFIG ''X'' [1, 2, 9] None 10 2"
  using backtest_no_look_ahead [of 2 "[1, 2, 3]" "[1, 2, 9]" None None] by simp

section \<open>Walk-forward\<close>

lemma slices_prefix:
  assumes "j < k" "0 < k"
  shows "concat (map (\<lambda>i. slice (fst (fold_bounds (length xs) k i)) (snd (fold_bounds (length xs) k i)) xs) [0 ..< j])
    = take (j * (length xs div k)) xs"
  using assms(1)
proof (induction j)
  case (Suc j)
  let ?seg = "length xs div k"
  have "fold_bounds (length xs) k j = (j * ?seg, (j + 1) * ?seg)"
    using Suc.prems by (auto simp: fold_bounds_def Let_def)
  moreover have "take (j * ?seg) xs @ drop (j * ?seg) (take ((j + 1) * ?seg) xs) = take ((j + 1) * ?seg) xs"
    by (metis append_take_drop_id le_add1 min.absorb1 mult_le_mono1 take_take)
  ultimately show ?case using Suc by (simp add: slice_def)
qed simp

text \<open>The folds of the walk-forward evaluation partition the price series: laid end to end they are
  the whole series, in order, with nothing left out and nothing used twice.\<close>
theorem walk_forward_partitions_series:
  assumes "0 < k"
  shows "concat (map (\<lambda>i. case fold_bounds (length xs) k i of (a, b) \<Rightarrow> slice a b xs) [0 ..< k]) = xs"
proof -
  let ?n = "length xs" and ?j = "k - 1"
  have k: "[0 ..< k] = [0 ..< ?j] @ [?j]" using assms by (metis Suc_diff_1 upt_Suc_append zero_le)
  have l: "fold_bounds ?n k (k - Suc 0) = ((k - Suc 0) * (?n div k), ?n)" by (simp add: fold_bounds_def Let_def)
  have "concat (map (\<lambda>i. slice (fst (fold_bounds ?n k i)) (snd (fold_bounds ?n k i)) xs) [0 ..< ?j])
      = take (?j * (?n div k)) xs" using assms by (intro slices_prefix) simp_all
  then show ?thesis unfolding k by (simp add: l slice_def case_prod_unfold)
qed

theorem walk_forward_partitions_series_witness:
  "(0::nat) < 2 \<and> concat (map (\<lambda>i. case fold_bounds (length [1, 2, 3, 4, 5::real]) 2 i of (a, b) \<Rightarrow>
      slice a b [1, 2, 3, 4, 5]) [0 ..< 2]) = [1, 2, 3, 4, 5::real]"
  using walk_forward_partitions_series [of 2 "[1, 2, 3, 4, 5::real]"] by simp

lemma walk_folds_length: "walk_folds rng ps b c news seed k is = Inr ds \<Longrightarrow> length ds = length is"
  by (induction "is" arbitrary: ds) (auto simp: res_bind_Inr_iff split: prod.splits)

lemma walk_forward_consistency_range:
  assumes "walk_forward rng ps b c k news seed = Inr w"
  shows "0 \<le> wf_consistency w \<and> wf_consistency w \<le> 1"
proof -
  have "real (length (filter P ds)) / real (length ds) \<le> 1" for P and ds :: "BacktestDelta list"
    by (cases "ds = []") (simp_all add: divide_le_eq)
  then have "0 \<le> py_round 4 (real (length (filter P ds)) / real (length ds))
      \<and> py_round 4 (real (length (filter P ds)) / real (length ds)) \<le> 1" for P and ds :: "BacktestDelta list"
    by (intro round_unit01) auto
  then show ?thesis using assms
    by (auto simp: walk_forward_def res_bind_Inr_iff Let_def split: if_splits)
qed

section \<open>The verdict\<close>

lemma review_fields [simp]:
  "cv_approved (review rp i o' n v a c) = all_checks (review_checks i o' n v a c)"
  "cv_risk_score (review rp i o' n v a c) = review_risk (review_checks i o' n v a c)"
  "cv_checks (review rp i o' n v a c) = review_checks i o' n v a c"
  by (simp_all add: review_def Let_def)

lemma review_risk_range: "0 \<le> review_risk ck \<and> review_risk ck \<le> 1"
  unfolding review_risk_def by (intro round_unit01) auto

text \<open>The challenger approves exactly on full evidence: at least 30 learning samples and 30
  out-of-sample trades of each configuration, a valid candidate, a strictly positive
  out-of-sample return delta, at most one percent more drawdown, support from attribution and
  at least 60 percent of winning folds; an approval carries risk score 0, and every verdict
  says why.\<close>
theorem challenger_approves_on_evidence:
  "let v = review rp in_s out_s samples valid supports consistency
   in (cv_approved v \<longleftrightarrow> samples \<ge> 30 \<and> bm_trades (bd_candidate out_s) \<ge> 30 \<and> bm_trades (bd_baseline out_s) \<ge> 30
        \<and> valid \<and> bd_pnl_delta out_s > 0 \<and> bd_drawdown_delta out_s \<le> 1 \<and> supports \<and> consistency \<ge> 6 / 10)
      \<and> (if cv_approved v then cv_risk_score v = 0 else 0 \<le> cv_risk_score v \<and> cv_risk_score v \<le> 1)
      \<and> cv_reasons v \<noteq> []"
proof -
  let ?ck = "review_checks in_s out_s samples valid supports consistency"
  have a: "all_checks ?ck \<longleftrightarrow> samples \<ge> 30 \<and> bm_trades (bd_candidate out_s) \<ge> 30 \<and> bm_trades (bd_baseline out_s) \<ge> 30
      \<and> valid \<and> bd_pnl_delta out_s > 0 \<and> bd_drawdown_delta out_s \<le> 1 \<and> supports \<and> consistency \<ge> 6 / 10"
    by (auto simp: all_checks_def review_checks_def MIN_LEARNING_SAMPLES_def MIN_TRADES_def
        DRAWDOWN_TOLERANCE_PCT_def MIN_WALK_FORWARD_CONSISTENCY_def)
  have z: "all_checks ck \<Longrightarrow> review_risk ck = 0" for ck
    by (simp add: all_checks_def review_risk_def)
  have r: "review_reasons rp ?ck in_s out_s samples valid consistency \<noteq> []"
    by (auto simp: review_reasons_def all_checks_def Let_def) (auto simp: review_checks_def)
  have rs: "cv_reasons (review rp in_s out_s samples valid supports consistency)
      = review_reasons rp ?ck in_s out_s samples valid consistency" by (simp add: review_def Let_def)
  show ?thesis unfolding Let_def review_fields rs a [symmetric] using z [of ?ck] r review_risk_range [of ?ck] by simp
qed

lemma delta_of_self: "delta_of m m = \<lparr>bd_baseline = m, bd_candidate = m, bd_pnl_delta = 0, bd_sharpe_delta = 0,
    bd_drawdown_delta = 0, bd_false_positive_rate_delta = 0\<rparr>"
  by (simp add: delta_of_def)

lemma evaluate_unchanged:
  "evaluate_proposal rng ps c c news seed = Inr d \<Longrightarrow> bd_pnl_delta d = 0 \<and> \<not> improves d"
  by (auto simp: evaluate_proposal_def res_bind_Inr_iff delta_of_self improves_def)

end
