(* ===== verification/Cog_Gitops.thy ===== *)
theory Cog_Gitops
  imports Cog_Backtest "HOL-Library.List_Lexorder" "HOL-Library.Char_ord"
begin

text \<open>
  The pull-request planner (\<open>cognitive/gitops.py\<close>): branch names, the application of a
  proposal to the configuration, the configuration diff and the pull-request plan.
  \<open>json.loads\<close> and \<open>json.dumps\<close> are arguments of the text transform.
\<close>

section \<open>Branch names\<close>

definition slug_char :: "char \<Rightarrow> bool" where
  "slug_char c = (let n = of_char c :: nat in (97 \<le> n \<and> n \<le> 122) \<or> (48 \<le> n \<and> n \<le> 57))"

text \<open>\<open>re.sub(r"[^a-z0-9]+", "-", s)\<close>: each run of other characters becomes one dash\<close>
fun collapse_runs :: "bool \<Rightarrow> string \<Rightarrow> string" where
  "collapse_runs in_run [] = []"
| "collapse_runs in_run (c # s) =
     (if slug_char c then c # collapse_runs False s
      else if in_run then collapse_runs True s
      else CHR ''-'' # collapse_runs True s)"

definition strip_dashes :: "string \<Rightarrow> string" where
  "strip_dashes s = rev (dropWhile (\<lambda>c. c = CHR ''-'') (rev (dropWhile (\<lambda>c. c = CHR ''-'') s)))"

definition slugify :: "string \<Rightarrow> string" where
  "slugify s = strip_dashes (collapse_runs False (py_lower s))"

definition BRANCH_PREFIX :: string where "BRANCH_PREFIX = ''cognitive-evolution''"

definition branch_name :: "(pyval \<Rightarrow> string) \<Rightarrow> Proposal \<Rightarrow> string" where
  "branch_name rp p = BRANCH_PREFIX @ ''/'' @ slugify (pr_target p) @ ''-'' @ slugify (py_str rp (pr_new_value p))"

section \<open>Applying a proposal\<close>

text \<open>\<open>s.split(".")[-1]\<close>\<close>
definition last_segment :: "string \<Rightarrow> string" where
  "last_segment s = rev (takeWhile (\<lambda>c. c \<noteq> CHR ''.'') (rev s))"

text \<open>\<open>data[outer][key] = value\<close>\<close>
definition set_in :: "string \<Rightarrow> string \<Rightarrow> pyval \<Rightarrow> pydict \<Rightarrow> pydict" where
  "set_in outer key v data = dset outer (PDict (dset key v (sub_dict data outer))) data"

text \<open>the candidate dictionary, or nothing when the proposal does not target the file\<close>
definition proposed_dict :: "CognitiveConfig \<Rightarrow> Proposal \<Rightarrow> pydict option pyres" where
  "proposed_dict config p =
     (let data = config_to_dict config; key = last_segment (pr_target p)
      in if pr_type p = WEIGHT_CHANGE
         then (if key \<notin> set WEIGHT_KEYS then Inr None
               else res_bind (py_float (pr_new_value p)) (\<lambda>x.
                      Inr (Some (set_in ''weights'' key (PFloat (clamp_weight x)) data))))
         else if pr_type p = RISK_CHANGE
         then (if map_of (sub_dict data ''risk'') key = None then Inr None
               else res_bind (py_float (pr_new_value p)) (\<lambda>x.
                      Inr (Some (set_in ''risk'' key (PFloat x) data))))
         else Inr None)"

definition apply_proposal_to_config :: "CognitiveConfig \<Rightarrow> Proposal \<Rightarrow> CognitiveConfig option pyres" where
  "apply_proposal_to_config config p =
     res_bind (proposed_dict config p) (\<lambda>r. case r of
         None \<Rightarrow> Inr None
       | Some data \<Rightarrow>
           let data' = dset ''version'' (PInt (cc_version config + 1)) data
           in if validate_config_dict (PDict data') \<noteq> [] then Inr None
              else res_bind (config_from_dict data') (\<lambda>c. Inr (Some c)))"

datatype text_error = Invalid_json | Current_not_valid | Does_not_apply | No_change

text \<open>\<open>if raw_text.strip()\<close>: an empty file is the empty object\<close>
definition apply_to_config_text ::
  "(string \<Rightarrow> pyval option) \<Rightarrow> (pydict \<Rightarrow> string) \<Rightarrow> string \<Rightarrow> Proposal \<Rightarrow> (text_error + string) pyres" where
  "apply_to_config_text loads dumps raw_text p =
     (case (if py_strip raw_text \<noteq> [] then loads raw_text else Some (PDict [])) of
        None \<Rightarrow> Inr (Inl Invalid_json)
      | Some current \<Rightarrow>
          if validate_config_dict current \<noteq> [] then Inr (Inl Current_not_valid)
          else case current of
            PDict d \<Rightarrow>
              res_bind (config_from_dict d) (\<lambda>cfg.
              res_bind (apply_proposal_to_config cfg p) (\<lambda>r. case r of
                  None \<Rightarrow> Inr (Inl Does_not_apply)
                | Some updated \<Rightarrow>
                    let new_text = dumps (config_to_dict updated) @ [CHR 0x0A]
                    in if new_text = raw_text then Inr (Inl No_change) else Inr (Inr new_text)))
          | _ \<Rightarrow> Inl AttributeError)"

section \<open>The diff\<close>

lemma size_sub_dict:
  assumes "py_get d k = PDict d'"
  shows "size (PDict d') < size (PDict d)"
proof -
  have m: "(k, PDict d') \<in> set d"
    using assms by (auto simp: py_get_def dest: map_of_SomeD split: option.splits)
  have "size (PDict d') \<le> size_prod (\<lambda>_. 0) size (k, PDict d')" by simp
  also have "\<dots> \<le> size_list (size_prod (\<lambda>_. 0) size) d" using m by (rule size_list_estimation') simp
  also have "\<dots> < size (PDict d)" by simp
  finally show ?thesis .
qed

text \<open>\<open>sorted(set(old) | set(new))\<close>\<close>
definition diff_keys :: "pydict \<Rightarrow> pydict \<Rightarrow> string list" where
  "diff_keys old new = sort (remdups (map fst old @ map fst new))"

type_synonym diff_entry = "string \<times> pyval \<times> pyval"

function config_diff :: "pydict \<Rightarrow> pydict \<Rightarrow> string \<Rightarrow> diff_entry list" where
  "config_diff old new pre =
     concat (map (\<lambda>key.
       let path = pre @ key in
       case (py_get old key, py_get new key) of
         (PDict o', PDict n') \<Rightarrow> config_diff o' n' (path @ ''.'')
       | (o', n') \<Rightarrow> if o' \<noteq> n' then [(path, o', n')] else []) (diff_keys old new))"
  by pat_completeness auto
termination
  by (relation "measure (\<lambda>(old, _, _). size (PDict old))") (auto dest!: size_sub_dict [OF sym])

declare config_diff.simps [simp del]

section \<open>The pull request\<close>

record PullRequestPlan =
  pq_branch :: string
  pq_base_ref :: string
  pq_title :: string
  pq_body :: string
  pq_diff :: "diff_entry list"
  pq_config_before :: pydict
  pq_config_after :: pydict

definition diff_entry_dict :: "diff_entry \<Rightarrow> pyval" where
  "diff_entry_dict e = (case e of (path, o', n') \<Rightarrow>
     PDict [(''path'', PStr path), (''old'', o'), (''new'', n')])"

definition plan_as_dict :: "PullRequestPlan \<Rightarrow> pydict" where
  "plan_as_dict p =
     [(''type'', PStr ''pr_request''), (''branch'', PStr (pq_branch p)), (''base_ref'', PStr (pq_base_ref p)),
      (''title'', PStr (pq_title p)), (''body'', PStr (pq_body p)),
      (''diff'', PList (map diff_entry_dict (pq_diff p))),
      (''config_before'', PDict (pq_config_before p)), (''config_after'', PDict (pq_config_after p)),
      (''auto_merge'', PBool False)]"

text \<open>\<open>"\n".join(lines)\<close>\<close>
fun join_lines :: "string list \<Rightarrow> string" where
  "join_lines [] = []"
| "join_lines [l] = l"
| "join_lines (l # ls) = l @ CHR 0x0A # join_lines ls"

definition metric_row :: "(pyval \<Rightarrow> string) \<Rightarrow> string \<Rightarrow> real \<Rightarrow> real \<Rightarrow> real \<Rightarrow> string" where
  "metric_row rp label b c d =
     ''| '' @ label @ '' | '' @ rp (PFloat b) @ '' | '' @ rp (PFloat c) @ '' | '' @ fmt_plus rp d @ '' |''"

definition metrics_block :: "(pyval \<Rightarrow> string) \<Rightarrow> string \<Rightarrow> BacktestDelta \<Rightarrow> string" where
  "metrics_block rp label d =
     (let b = bd_baseline d; c = bd_candidate d
      in join_lines [''**'' @ label @ ''**'', [], ''| metric | baseline | candidate | delta |'',
           ''| --- | --- | --- | --- |'',
           metric_row rp ''return %'' (bm_total_return_pct b) (bm_total_return_pct c) (bd_pnl_delta d),
           metric_row rp ''sharpe'' (bm_sharpe b) (bm_sharpe c) (bd_sharpe_delta d),
           metric_row rp ''max drawdown %'' (bm_max_drawdown_pct b) (bm_max_drawdown_pct c) (bd_drawdown_delta d),
           metric_row rp ''false-positive rate'' (bm_false_positive_rate b) (bm_false_positive_rate c)
             (bd_false_positive_rate_delta d), []])"

definition diff_line :: "(pyval \<Rightarrow> string) \<Rightarrow> diff_entry \<Rightarrow> string" where
  "diff_line rp e = (case e of (path, o', n') \<Rightarrow>
     ''- `'' @ path @ ''`: '' @ py_str rp o' @ '' -> '' @ py_str rp n')"

definition plan_body ::
  "(pyval \<Rightarrow> string) \<Rightarrow> Proposal \<Rightarrow> ChallengerVerdict \<Rightarrow> BacktestDelta \<Rightarrow> BacktestDelta \<Rightarrow> diff_entry list \<Rightarrow> string" where
  "plan_body rp p v in_sample out_sample diff =
     (let diff_lines = join_lines (map (diff_line rp) diff)
      in join_lines ([''## Proposal'', ''- **Type:** '' @ pr_type p, ''- **Target:** `'' @ pr_target p @ ''`'',
           ''- **Reason:** '' @ pr_reason p, ''- **Expected impact:** '' @ pr_expected_impact p, [],
           ''## Config diff'', if diff_lines = [] then ''_(no leaf changes)_'' else diff_lines, [],
           ''## Challenger verdict'',
           ''- **Decision:** '' @ (if cv_approved v then ''APPROVE'' else ''REJECT''),
           ''- **Risk score:** '' @ rp (PFloat (cv_risk_score v))]
         @ map (\<lambda>r. ''- '' @ r) (cv_reasons v)
         @ [[], ''## Backtest evidence'', metrics_block rp ''In-sample'' in_sample,
            metrics_block rp ''Out-of-sample'' out_sample,
            ''> NO auto-merge. Behaviour changes only after this PR is reviewed and merged.'']))"

definition build_pull_request ::
  "(pyval \<Rightarrow> string) \<Rightarrow> Proposal \<Rightarrow> ChallengerVerdict \<Rightarrow> BacktestDelta \<Rightarrow> BacktestDelta \<Rightarrow> CognitiveConfig
   \<Rightarrow> CognitiveConfig \<Rightarrow> string \<Rightarrow> PullRequestPlan" where
  "build_pull_request rp p v in_sample out_sample config_before config_after base_ref =
     (let before = config_to_dict config_before; after = config_to_dict config_after;
          diff = config_diff before after []
      in \<lparr>pq_branch = branch_name rp p, pq_base_ref = base_ref,
          pq_title = ''cognitive: '' @ pr_type p @ '' '' @ pr_target p @ '' ('' @ py_str rp (pr_old_value p)
            @ '' -> '' @ py_str rp (pr_new_value p) @ '')'',
          pq_body = plan_body rp p v in_sample out_sample diff, pq_diff = diff,
          pq_config_before = before, pq_config_after = after\<rparr>)"

section \<open>A proposal changes one value\<close>

definition set_risk :: "string \<Rightarrow> real \<Rightarrow> CognitiveConfig \<Rightarrow> CognitiveConfig" where
  "set_risk key x c =
     (if key = ''max_position_size_pct'' then c\<lparr>cc_max_position_size_pct := x\<rparr>
      else if key = ''max_daily_loss_pct'' then c\<lparr>cc_max_daily_loss_pct := x\<rparr>
      else c\<lparr>cc_max_exposure_pct := x\<rparr>)"

lemma map_dset: "map (\<lambda>(k, w). (k, f w)) (dset key y ws) = dset key (f y) (map (\<lambda>(k, w). (k, f w)) ws)"
  by (induction ws) auto

lemma keys_dset: "key \<in> set (map fst ws) \<Longrightarrow> map fst (dset key y ws) = map fst ws"
  by (induction ws) auto

lemma snd_dset: "list_all P (map snd ws) \<Longrightarrow> P y \<Longrightarrow> list_all P (map snd (dset key y ws))"
  by (induction ws) auto

lemma set_weight_dict:
  "dset ''version'' (PInt v) (set_in ''weights'' key (PFloat y) (config_to_dict c))
   = config_to_dict (c\<lparr>cc_version := v, cc_weights := dset key y (cc_weights c)\<rparr>)"
  by (simp add: set_in_def config_to_dict_def sub_dict_def map_dset)

lemma set_risk_dict:
  assumes "map_of (sub_dict (config_to_dict c) ''risk'') key \<noteq> None"
  shows "dset ''version'' (PInt v) (set_in ''risk'' key (PFloat x) (config_to_dict c))
    = config_to_dict (set_risk key x (c\<lparr>cc_version := v\<rparr>))"
  using assms by (auto simp: set_in_def config_to_dict_def sub_dict_def set_risk_def split: if_splits)

lemma apply_dict:
  assumes "map fst (cc_weights c) = WEIGHT_KEYS"
  shows "(if validate_config_dict (PDict (config_to_dict c)) \<noteq> [] then Inr None
      else res_bind (config_from_dict (config_to_dict c)) (\<lambda>c'. Inr (Some c')))
    = Inr (if config_safe c then Some c else None)"
  using validate_to_dict [OF assms(1)] from_to_dict [OF assms(1)] by auto

text \<open>Applied to a safe configuration, a weight change with a numeric value for one of the three
  signals gives the same configuration with that weight clamped into its bounds and the version
  bumped; a risk change gives the same configuration with that limit replaced and the version
  bumped when the result is inside the guardrails, and nothing otherwise.\<close>
theorem apply_proposal_changes_one_value:
  assumes "config_safe c" "py_float (pr_new_value p) = Inr x"
  shows "(if pr_type p = WEIGHT_CHANGE \<and> last_segment (pr_target p) \<in> set WEIGHT_KEYS
     then apply_proposal_to_config c p = Inr (Some (c\<lparr>cc_version := cc_version c + 1,
            cc_weights := dset (last_segment (pr_target p)) (clamp_weight x) (cc_weights c)\<rparr>))
     else if pr_type p = RISK_CHANGE \<and> last_segment (pr_target p) \<in>
            {''max_position_size_pct'', ''max_daily_loss_pct'', ''max_exposure_pct''}
     then (let c' = set_risk (last_segment (pr_target p)) x (c\<lparr>cc_version := cc_version c + 1\<rparr>)
           in apply_proposal_to_config c p = Inr (if config_safe c' then Some c' else None))
     else apply_proposal_to_config c p = Inr None)"
proof -
  let ?k = "last_segment (pr_target p)"
  have k: "map fst (cc_weights c) = WEIGHT_KEYS" using assms(1) by (simp add: config_safe_def)
  let ?w = "c\<lparr>cc_version := cc_version c + 1, cc_weights := dset ?k (clamp_weight x) (cc_weights c)\<rparr>"
  let ?r = "set_risk ?k x (c\<lparr>cc_version := cc_version c + 1\<rparr>)"
  have types: "RISK_CHANGE \<noteq> WEIGHT_CHANGE" "WEIGHT_CHANGE \<noteq> RISK_CHANGE"
    by (simp_all add: WEIGHT_CHANGE_def RISK_CHANGE_def)
  have risk: "map_of (sub_dict (config_to_dict c) ''risk'') ?k \<noteq> None \<longleftrightarrow>
      ?k \<in> {''max_position_size_pct'', ''max_daily_loss_pct'', ''max_exposure_pct''}"
    by (simp add: config_to_dict_def sub_dict_def)
  consider (w) "pr_type p = WEIGHT_CHANGE" "?k \<in> set WEIGHT_KEYS"
    | (r) "pr_type p = RISK_CHANGE" "map_of (sub_dict (config_to_dict c) ''risk'') ?k \<noteq> None"
    | (n) "\<not> (pr_type p = WEIGHT_CHANGE \<and> ?k \<in> set WEIGHT_KEYS)"
        "\<not> (pr_type p = RISK_CHANGE \<and> map_of (sub_dict (config_to_dict c) ''risk'') ?k \<noteq> None)" by blast
  then show ?thesis
  proof cases
    case w
    have kw: "map fst (cc_weights ?w) = WEIGHT_KEYS" using k w(2) by (simp add: keys_dset)
    have "config_safe ?w" using assms(1) kw
      by (simp add: config_safe_def snd_dset clamp_weight_between)
    then have "apply_proposal_to_config c p = Inr (Some ?w)"
      using w assms(2) apply_dict [OF kw]
      by (simp add: apply_proposal_to_config_def proposed_dict_def set_weight_dict Let_def)
    then show ?thesis using w by simp
  next
    case r
    have "map fst (cc_weights ?r) = WEIGHT_KEYS" using k by (simp add: set_risk_def)
    from apply_dict [OF this] have "apply_proposal_to_config c p = Inr (if config_safe ?r then Some ?r else None)"
      using r assms(2) by (simp only: apply_proposal_to_config_def proposed_dict_def Let_def
          set_risk_dict [OF r(2)] types simp_thms if_False if_True res_bind_simps option.case)
    then show ?thesis using r risk by (simp add: WEIGHT_CHANGE_def RISK_CHANGE_def Let_def)
  next
    case n
    then have "apply_proposal_to_config c p = Inr None"
      using assms(2) by (auto simp: apply_proposal_to_config_def proposed_dict_def Let_def WEIGHT_CHANGE_def
          RISK_CHANGE_def)
    then show ?thesis using n risk by auto
  qed
qed

lemma apply_proposal_safe: "apply_proposal_to_config c p = Inr (Some c') \<Longrightarrow> config_safe c'"
  using from_valid_dict
  by (fastforce simp: apply_proposal_to_config_def res_bind_Inr_iff Let_def split: option.splits if_splits)

theorem apply_proposal_changes_one_value_witness:
  "config_safe DEFAULT_CONFIG
   \<and> apply_proposal_to_config DEFAULT_CONFIG (weight_change (\<lambda>_. []) ''tech'' (33 / 100) 2 [] [] None)
     = Inr (Some (DEFAULT_CONFIG\<lparr>cc_version := 2,
         cc_weights := [(''news'', 34 / 100), (''tech'', 1), (''macro'', 33 / 100)]\<rparr>))"
proof -
  let ?p = "weight_change (\<lambda>_. []) ''tech'' (33 / 100) 2 [] [] None"
  have "pr_type ?p = WEIGHT_CHANGE" "last_segment (pr_target ?p) = ''tech''" "py_float (pr_new_value ?p) = Inr 2"
    "''tech'' \<in> set WEIGHT_KEYS"
    by (simp_all add: weight_change_def Let_def last_segment_def WEIGHT_KEYS_def)
  then show ?thesis
    using apply_proposal_changes_one_value [OF default_config_safe, of ?p 2] default_config_safe
    by (simp add: DEFAULT_CONFIG_def clamp_weight_def WEIGHT_BOUNDS_def)
qed

section \<open>Slugs\<close>

text \<open>the shape of a slug: letters and digits with single dashes between them\<close>
fun dashed :: "bool \<Rightarrow> string \<Rightarrow> bool" where
  "dashed after [] = True"
| "dashed after (c # s) = (if slug_char c then dashed False s else c = CHR ''-'' \<and> \<not> after \<and> dashed True s)"

lemma dash_no_slug: "\<not> slug_char (CHR ''-'')"
  by code_simp

lemma slug_lower: "slug_char c \<Longrightarrow> lower_char c = c"
  by (auto simp: slug_char_def lower_char_def Let_def)

lemma lower_dash: "lower_char (CHR ''-'') = CHR ''-''"
  by code_simp

lemma collapse_dashed: "dashed r (collapse_runs r s)"
  by (induction r s rule: collapse_runs.induct) (auto simp: dash_no_slug)

lemma dashed_collapse: "dashed r s \<Longrightarrow> collapse_runs r s = s"
  by (induction r s rule: dashed.induct) (auto split: if_splits)

lemma dashed_weaken: "dashed True s \<Longrightarrow> dashed False s"
  by (cases s) (auto split: if_splits)

lemma dashed_drop: "dashed r s \<Longrightarrow> dashed False (dropWhile (\<lambda>c. c = CHR ''-'') s)"
proof (induction r s rule: dashed.induct)
  case (2 r c s)
  then show ?case by (cases "slug_char c") (auto simp: dash_no_slug)
qed simp

lemma dashed_prefix: "dashed r (s @ t) \<Longrightarrow> dashed r s"
  by (induction r s rule: dashed.induct) (auto split: if_splits)

lemma strip_end_prefix: "\<exists>t. s = rev (dropWhile P (rev s)) @ t"
  by (metis rev_append rev_rev_ident takeWhile_dropWhile_id)

lemma dashed_strip: "dashed r s \<Longrightarrow> dashed False (strip_dashes s)"
  unfolding strip_dashes_def
  by (metis dashed_drop dashed_prefix strip_end_prefix)

lemma dashed_lower: "dashed r s \<Longrightarrow> py_lower s = s"
  by (induction r s rule: dashed.induct) (auto simp: py_lower_def slug_lower lower_dash split: if_splits)

definition clean_ends :: "string \<Rightarrow> bool" where
  "clean_ends t \<longleftrightarrow> t = [] \<or> hd t \<noteq> CHR ''-'' \<and> last t \<noteq> CHR ''-''"

lemma dropWhile_hd: "xs = [] \<or> \<not> P (hd xs) \<Longrightarrow> dropWhile P xs = xs"
  by (cases xs) auto

lemma strip_fix: "clean_ends t \<Longrightarrow> strip_dashes t = t"
  by (cases "t = []") (simp_all add: clean_ends_def strip_dashes_def dropWhile_hd hd_rev)

lemma strip_clean: "clean_ends (strip_dashes s)"
proof -
  let ?P = "\<lambda>c. c = CHR ''-''"
  let ?d = "dropWhile ?P s"
  let ?e = "dropWhile ?P (rev ?d)"
  show ?thesis
  proof (cases "?e = []")
    case False
    obtain u where u: "?d = rev ?e @ u" using strip_end_prefix by blast
    have "hd (rev ?e) = hd ?d" using False u by (metis hd_append2 rev_is_Nil_conv)
    moreover have "?d \<noteq> []" using False by (metis dropWhile.simps(1) rev.simps(1))
    then have "\<not> ?P (hd ?d)" by (rule hd_dropWhile)
    moreover have "last (rev ?e) = hd ?e" using False by (simp add: last_rev)
    moreover have "\<not> ?P (hd ?e)" using False by (rule hd_dropWhile)
    ultimately show ?thesis unfolding clean_ends_def strip_dashes_def by metis
  next
    case True
    show ?thesis unfolding clean_ends_def strip_dashes_def True by (simp only: rev.simps simp_thms)
  qed
qed

text \<open>The slug of any text is a safe branch component: lowercase letters and digits with single
  dashes strictly between them, and slugging it again changes nothing.\<close>
theorem slugify_safe:
  "dashed False (slugify s) \<and> clean_ends (slugify s) \<and> slugify (slugify s) = slugify s"
proof -
  have d: "dashed False (slugify s)" unfolding slugify_def by (rule dashed_strip [OF collapse_dashed])
  have c: "clean_ends (slugify s)" unfolding slugify_def by (rule strip_clean)
  have "slugify (slugify s) = slugify s"
    by (simp add: slugify_def [of "slugify s"] dashed_lower [OF d] dashed_collapse [OF d] strip_fix [OF c])
  then show ?thesis using d c by blast
qed

theorem slugify_safe_witness:
  "slugify ''Weights.News  0.39!'' = ''weights-news-0-39''
   \<and> slugify (slugify ''Weights.News  0.39!'') = slugify ''Weights.News  0.39!''"
proof -
  have "slugify ''Weights.News  0.39!'' = ''weights-news-0-39''" by code_simp
  then show ?thesis using slugify_safe [of "''Weights.News  0.39!''"] by blast
qed

section \<open>The diff lists the changed leaves\<close>

definition leaf :: "string \<Rightarrow> pyval \<Rightarrow> pyval \<Rightarrow> diff_entry list" where
  "leaf path a b = (if a \<noteq> b then [(path, a, b)] else [])"

lemma config_keys:
  "diff_keys (config_to_dict c) (config_to_dict c')
     = [''buy_threshold'', ''risk'', ''sell_threshold'', ''version'', ''weights'']"
proof -
  have "sort (remdups ([''version'', ''weights'', ''buy_threshold'', ''sell_threshold'', ''risk'']
      @ [''version'', ''weights'', ''buy_threshold'', ''sell_threshold'', ''risk'']))
    = [''buy_threshold'', ''risk'', ''sell_threshold'', ''version'', ''weights'']" by code_simp
  then show ?thesis by (simp add: diff_keys_def config_to_dict_def)
qed

lemma risk_keys:
  "diff_keys [(''max_position_size_pct'', a), (''max_daily_loss_pct'', b), (''max_exposure_pct'', c)]
     [(''max_position_size_pct'', a'), (''max_daily_loss_pct'', b'), (''max_exposure_pct'', c')]
   = [''max_daily_loss_pct'', ''max_exposure_pct'', ''max_position_size_pct'']"
proof -
  have "sort (remdups ([''max_position_size_pct'', ''max_daily_loss_pct'', ''max_exposure_pct'']
      @ [''max_position_size_pct'', ''max_daily_loss_pct'', ''max_exposure_pct'']))
    = [''max_daily_loss_pct'', ''max_exposure_pct'', ''max_position_size_pct'']" by code_simp
  then show ?thesis by (simp add: diff_keys_def)
qed

lemma weight_keys:
  "diff_keys [(''news'', a), (''tech'', b), (''macro'', c)] [(''news'', a'), (''tech'', b'), (''macro'', c')]
   = [''macro'', ''news'', ''tech'']"
proof -
  have "sort (remdups ([''news'', ''tech'', ''macro''] @ [''news'', ''tech'', ''macro''])) = [''macro'', ''news'', ''tech'']"
    by code_simp
  then show ?thesis by (simp add: diff_keys_def)
qed

lemma flat_diff:
  "config_diff [(''max_position_size_pct'', PFloat a), (''max_daily_loss_pct'', PFloat b), (''max_exposure_pct'', PFloat c)]
     [(''max_position_size_pct'', PFloat a'), (''max_daily_loss_pct'', PFloat b'), (''max_exposure_pct'', PFloat c')] pre
   = leaf (pre @ ''max_daily_loss_pct'') (PFloat b) (PFloat b') @ leaf (pre @ ''max_exposure_pct'') (PFloat c) (PFloat c')
     @ leaf (pre @ ''max_position_size_pct'') (PFloat a) (PFloat a')"
  "config_diff [(''news'', PFloat a), (''tech'', PFloat b), (''macro'', PFloat c)]
     [(''news'', PFloat a'), (''tech'', PFloat b'), (''macro'', PFloat c')] pre
   = leaf (pre @ ''macro'') (PFloat c) (PFloat c') @ leaf (pre @ ''news'') (PFloat a) (PFloat a')
     @ leaf (pre @ ''tech'') (PFloat b) (PFloat b')"
  by (simp_all add: config_diff.simps risk_keys weight_keys leaf_def)

text \<open>The diff a pull request shows between two configurations lists exactly the leaves that differ,
  in key order, each with its old and its new value.\<close>
theorem config_diff_lists_changes:
  assumes "map fst (cc_weights c) = WEIGHT_KEYS" "map fst (cc_weights c') = WEIGHT_KEYS"
  shows "config_diff (config_to_dict c) (config_to_dict c') [] =
     leaf ''buy_threshold'' (PFloat (cc_buy_threshold c)) (PFloat (cc_buy_threshold c'))
   @ leaf ''risk.max_daily_loss_pct'' (PFloat (cc_max_daily_loss_pct c)) (PFloat (cc_max_daily_loss_pct c'))
   @ leaf ''risk.max_exposure_pct'' (PFloat (cc_max_exposure_pct c)) (PFloat (cc_max_exposure_pct c'))
   @ leaf ''risk.max_position_size_pct'' (PFloat (cc_max_position_size_pct c)) (PFloat (cc_max_position_size_pct c'))
   @ leaf ''sell_threshold'' (PFloat (cc_sell_threshold c)) (PFloat (cc_sell_threshold c'))
   @ leaf ''version'' (PInt (cc_version c)) (PInt (cc_version c'))
   @ leaf ''weights.macro'' (PFloat (dget (cc_weights c) ''macro'' 0)) (PFloat (dget (cc_weights c') ''macro'' 0))
   @ leaf ''weights.news'' (PFloat (dget (cc_weights c) ''news'' 0)) (PFloat (dget (cc_weights c') ''news'' 0))
   @ leaf ''weights.tech'' (PFloat (dget (cc_weights c) ''tech'' 0)) (PFloat (dget (cc_weights c') ''tech'' 0))"
proof -
  obtain n t m where w: "cc_weights c = [(''news'', n), (''tech'', t), (''macro'', m)]"
    using three_weights [OF assms(1)] by blast
  obtain n' t' m' where w': "cc_weights c' = [(''news'', n'), (''tech'', t'), (''macro'', m')]"
    using three_weights [OF assms(2)] by blast
  have g: "py_get (config_to_dict d) ''buy_threshold'' = PFloat (cc_buy_threshold d)"
    "py_get (config_to_dict d) ''sell_threshold'' = PFloat (cc_sell_threshold d)"
    "py_get (config_to_dict d) ''version'' = PInt (cc_version d)"
    "py_get (config_to_dict d) ''risk'' = PDict [(''max_position_size_pct'', PFloat (cc_max_position_size_pct d)),
       (''max_daily_loss_pct'', PFloat (cc_max_daily_loss_pct d)), (''max_exposure_pct'', PFloat (cc_max_exposure_pct d))]"
    "py_get (config_to_dict d) ''weights'' = PDict (map (\<lambda>(k, w). (k, PFloat w)) (cc_weights d))" for d
    by (simp_all add: config_to_dict_def)
  show ?thesis
    unfolding config_diff.simps [of "config_to_dict c"] config_keys
    by (simp add: g w w' flat_diff leaf_def)
qed

theorem config_diff_lists_changes_witness:
  "config_diff (config_to_dict DEFAULT_CONFIG) (config_to_dict (DEFAULT_CONFIG\<lparr>cc_version := 2, cc_max_exposure_pct := 1 / 2\<rparr>)) []
   = [(''risk.max_exposure_pct'', PFloat (30 / 100), PFloat (1 / 2)), (''version'', PInt 1, PInt 2)]"
proof -
  have k: "map fst (cc_weights DEFAULT_CONFIG) = WEIGHT_KEYS"
    "map fst (cc_weights (DEFAULT_CONFIG\<lparr>cc_version := 2, cc_max_exposure_pct := 1 / 2\<rparr>)) = WEIGHT_KEYS"
    by (simp_all add: DEFAULT_CONFIG_def WEIGHT_KEYS_def)
  show ?thesis unfolding config_diff_lists_changes [OF k] by (simp add: leaf_def DEFAULT_CONFIG_def)
qed

end
