(* ===== verification/Cog_Loop.thy ===== *)
theory Cog_Loop
  imports Cog_Gitops Effects
begin

text \<open>
  The cognitive loop (\<open>cognitive/loop.py\<close>): the forward pass, the closing of a trade, learning,
  evolution, the merge of a configuration, and the read-only snapshot. The loop is a record;
  its methods run in the exception monad of \<open>Effects\<close>, so what was emitted before an
  exception stays on the stream. \<open>rp\<close> is Python's \<open>repr\<close>, \<open>rng\<close> the seeded slippage source.
\<close>

section \<open>State\<close>

record CognitiveLoop =
  lp_stream :: EventStream
  lp_config :: CognitiveConfig
  lp_registry :: registry
  lp_learning :: LearningEngine
  lp_importance :: importance
  lp_scorecard :: scorecard
  lp_governor :: Governor
  lp_queue :: "QueueEntry list"
  lp_config_proposal_id :: "string option"
  lp_drift :: DriftMonitor
  lp_news :: agent
  lp_tech :: agent
  lp_macro :: agent
  lp_risk :: agent
  lp_reasoning :: agent
  lp_proposal_agent :: agent

type_synonym 'a lrun = "(CognitiveLoop, 'a) eff"

definition opt_str :: "string option \<Rightarrow> pyval" where
  "opt_str s = (case s of None \<Rightarrow> PNone | Some x \<Rightarrow> PStr x)"

definition lemit :: "EventType \<Rightarrow> pydict \<Rightarrow> string \<Rightarrow> string \<Rightarrow> string \<Rightarrow> unit lrun" where
  "lemit kind payload trace_id source ts =
     modify (\<lambda>l. l\<lparr>lp_stream := emit kind payload trace_id source ts (lp_stream l)\<rparr>)"

definition emit_config_version :: "ConfigGradeCard option \<Rightarrow> unit lrun" where
  "emit_config_version grade = bnd (gets lp_config) (\<lambda>config.
     lemit CONFIG_VERSION
       [(''type'', PStr (event_value CONFIG_VERSION)), (''version'', PInt (cc_version config)),
        (''config'', PDict (config_to_dict config)),
        (''grade'', opt_dict (map_option config_card_as_dict grade))] [] ''config_merge'' [])"

section \<open>Construction\<close>

text \<open>\<open>stream or EventStream(...)\<close>: a stream without events has length 0 and is falsy\<close>
definition stream_or_new :: "EventStream option \<Rightarrow> nat \<Rightarrow> EventStream" where
  "stream_or_new st max_events = (case st of
       Some s \<Rightarrow> if es_events s \<noteq> [] then s else new_stream (Some max_events)
     | None \<Rightarrow> new_stream (Some max_events))"

text \<open>\<open>{spec.emits: spec.instance for spec in ...}\<close>, then a subscript\<close>
definition signal_agent :: "registry \<Rightarrow> EventType \<Rightarrow> agent pyres" where
  "signal_agent reg kind =
     (case map_of (fold (\<lambda>spec. dset (as_emits spec) (as_instance spec)) (by_role ''signal'' reg) [])
             (event_value kind) of
        None \<Rightarrow> Inl (KeyError (event_value kind)) | Some a \<Rightarrow> Inr a)"

definition first_of_role :: "registry \<Rightarrow> string \<Rightarrow> agent pyres" where
  "first_of_role reg role = (case by_role role reg of [] \<Rightarrow> Inl IndexError | spec # _ \<Rightarrow> Inr (as_instance spec))"

definition default_drift :: DriftMonitor where
  "default_drift =
     drift_register ''direction_correct'' True (15 / 100)
    (drift_register ''decision_regret_pct'' False (1 / 2)
    (drift_register ''trade_grade_score'' True 8 (new_drift 20 10)))"

definition new_loop ::
  "CognitiveConfig option \<Rightarrow> pyval option \<Rightarrow> EventStream option \<Rightarrow> registry option \<Rightarrow> nat \<Rightarrow> CognitiveLoop pyres" where
  "new_loop config raw_file st reg max_events =
     res_bind (case config of Some c \<Rightarrow> Inr c | None \<Rightarrow> load_config raw_file) (\<lambda>cfg.
       let r = (case reg of Some x \<Rightarrow> x | None \<Rightarrow> build_default_registry)
       in res_bind (signal_agent r NEWS_SIGNAL) (\<lambda>news.
          res_bind (signal_agent r TECH_SIGNAL) (\<lambda>tech.
          res_bind (signal_agent r MACRO_SIGNAL) (\<lambda>macro.
          res_bind (signal_agent r RISK_SIGNAL) (\<lambda>risk.
          res_bind (first_of_role r ''reasoning'') (\<lambda>reasoning.
          res_bind (first_of_role r ''proposal'') (\<lambda>proposer.
            Inr (snd (emit_config_version None
              \<lparr>lp_stream = stream_or_new st max_events, lp_config = cfg, lp_registry = r,
               lp_learning = default_learning, lp_importance = new_importance, lp_scorecard = [],
               lp_governor = new_governor 3 10 5, lp_queue = [], lp_config_proposal_id = None,
               lp_drift = default_drift, lp_news = news, lp_tech = tech, lp_macro = macro, lp_risk = risk,
               lp_reasoning = reasoning, lp_proposal_agent = proposer\<rparr>)))))))))"

section \<open>The forward pass\<close>

definition emit_signal :: "agent \<Rightarrow> MarketView \<Rightarrow> string \<Rightarrow> pydict lrun" where
  "emit_signal a market trace_id l = (case agent_emit a market trace_id (lp_stream l) of
       Inl e \<Rightarrow> (Inl e, l) | Inr (payload, st) \<Rightarrow> (Inr payload, l\<lparr>lp_stream := st\<rparr>))"

definition emit_reasoning :: "agent \<Rightarrow> features \<Rightarrow> string \<Rightarrow> string \<Rightarrow> unit lrun" where
  "emit_reasoning a f trace_id ts l = (case reasoning_emit a f trace_id ts (lp_stream l) of
       Inl e \<Rightarrow> (Inl e, l) | Inr st \<Rightarrow> (Inr (), l\<lparr>lp_stream := st\<rparr>))"

definition lineage :: "CognitiveLoop \<Rightarrow> pydict \<Rightarrow> pydict" where
  "lineage l payload = dset ''config_proposal_id'' (opt_str (lp_config_proposal_id l))
     (dset ''config_version'' (PInt (cc_version (lp_config l))) payload)"

record StepResult =
  sr_trace_id :: string
  sr_features :: features
  sr_decision :: Decision
  sr_gate :: RiskGate
  sr_execution :: Execution

definition step_trace_id :: "string option \<Rightarrow> CognitiveLoop \<Rightarrow> string" where
  "step_trace_id trace_id l = id_or trace_id (''trace-'' @ nat_str (length (es_events (lp_stream l))))"

definition loop_step ::
  "MarketView \<Rightarrow> real \<Rightarrow> real \<Rightarrow> real \<Rightarrow> real \<Rightarrow> string option \<Rightarrow> StepResult lrun" where
  "loop_step market equity position_pct current_exposure_pct day_pnl_pct trace_arg =
     bnd (gets (step_trace_id trace_arg)) (\<lambda>tid.
     bnd (bnd (gets lp_news) (\<lambda>a. emit_signal a market tid)) (\<lambda>news.
     bnd (bnd (gets lp_tech) (\<lambda>a. emit_signal a market tid)) (\<lambda>tech.
     bnd (bnd (gets lp_macro) (\<lambda>a. emit_signal a market tid)) (\<lambda>macro.
     bnd (bnd (gets lp_risk) (\<lambda>a. emit_signal a market tid)) (\<lambda>risk.
     bnd (lift_res (aggregate news tech macro risk)) (\<lambda>f.
     andthen (lemit FEATURES ((''type'', PStr (event_value FEATURES)) # float_dict f) tid ''aggregator'' (mv_ts market))
    (andthen (bnd (gets lp_reasoning) (\<lambda>a. emit_reasoning a f tid (mv_ts market)))
    (bnd (gets (\<lambda>l. decide f (lp_config l))) (\<lambda>decision.
     andthen (bnd (gets (\<lambda>l. lineage l (decision_as_dict decision))) (\<lambda>p.
                lemit DECISION p tid ''decision_engine'' (mv_ts market)))
    (bnd (gets (\<lambda>l. evaluate_risk decision (lp_config l) position_pct current_exposure_pct day_pnl_pct)) (\<lambda>gate.
     andthen (lemit RISK_GATE (gate_as_dict gate) tid ''risk_engine'' (mv_ts market))
    (let execution = execute decision gate (mv_symbol market) (mv_price market) equity
     in andthen (bnd (gets (\<lambda>l. lineage l (execution_as_dict execution))) (\<lambda>p.
                   lemit EXECUTION p tid ''execution_engine'' (mv_ts market)))
          (ret \<lparr>sr_trace_id = tid, sr_features = f, sr_decision = decision, sr_gate = gate,
                sr_execution = execution\<rparr>)))))))))))))"

section \<open>Closing a trade\<close>

definition decision_for :: "CognitiveLoop \<Rightarrow> string \<Rightarrow> pydict option" where
  "decision_for l trace_id = map_option ev_payload
     (find_last (\<lambda>e. ev_kind e = DECISION \<and> ev_trace_id e = trace_id) (es_events (lp_stream l)))"

record closed_trade =
  ct_realized_pnl :: real
  ct_realized_pnl_pct :: real
  ct_max_adverse_pct :: real
  ct_slippage_bps :: real
  ct_side :: string
  ct_entry_price :: real
  ct_window_low :: real
  ct_window_high :: real

text \<open>\<open>dict(decision_payload.get("breakdown", {}))\<close>\<close>
definition breakdown_dict :: "pydict \<Rightarrow> pydict pyres" where
  "breakdown_dict d = (case dget d ''breakdown'' (PDict []) of PDict b \<Rightarrow> Inr b | _ \<Rightarrow> Inl TypeError)"

definition outcome_payload :: "closed_trade \<Rightarrow> int \<Rightarrow> pydict \<Rightarrow> pydict" where
  "outcome_payload tr version decision_payload =
     [(''type'', PStr (event_value TRADE_OUTCOME)), (''realized_pnl'', PFloat (py_round 6 (ct_realized_pnl tr))),
      (''realized_pnl_pct'', PFloat (py_round 6 (ct_realized_pnl_pct tr))), (''side'', PStr (ct_side tr)),
      (''config_version'', PInt version), (''config_proposal_id'', py_get decision_payload ''config_proposal_id'')]"

definition observe_drift :: "string \<Rightarrow> real \<Rightarrow> unit lrun" where
  "observe_drift metric x = modify (\<lambda>l. l\<lparr>lp_drift := drift_observe metric x (lp_drift l)\<rparr>)"

definition close_trade ::
  "(pyval \<Rightarrow> string) \<Rightarrow> string \<Rightarrow> closed_trade \<Rightarrow> (Attribution \<times> TradeGradeCard \<times> CounterfactualResult) lrun" where
  "close_trade rp trace_id tr =
     bnd (gets (\<lambda>l. case decision_for l trace_id of None \<Rightarrow> [] | Some d \<Rightarrow> d)) (\<lambda>d.
     bnd (lift_res (breakdown_dict d)) (\<lambda>breakdown.
     bnd (lift_res (py_float (dget d ''score'' (PFloat 0)))) (\<lambda>decision_score.
     bnd (bnd (gets (\<lambda>l. PInt (cc_version (lp_config l)))) (\<lambda>v. lift_res (py_int (dget d ''config_version'' v)))) (\<lambda>version.
     andthen (lemit TRADE_OUTCOME (outcome_payload tr version d) trace_id ''execution_engine'' [])
    (bnd (lift_res (attribute breakdown (ct_realized_pnl tr))) (\<lambda>attribution.
     andthen (lemit ATTRIBUTION (attribution_as_dict attribution) trace_id ''learning_engine'' [])
    (andthen (modify (\<lambda>l. l\<lparr>lp_importance := importance_update attribution (sign (ct_realized_pnl tr)) (lp_importance l)\<rparr>))
    (let card = grade_trade trace_id decision_score (ct_realized_pnl_pct tr) (ct_max_adverse_pct tr)
           (ct_slippage_bps tr) (ct_side tr) (ct_entry_price tr) (ct_window_low tr) (ct_window_high tr);
         chosen = py_str rp (py_or (py_get d ''action'') (PStr (ct_side tr)));
         result = counterfactual chosen (ct_realized_pnl_pct tr) (ct_side tr)
     in andthen (lemit GRADE (trade_card_as_dict card) trace_id ''learning_engine'' [])
       (andthen (lemit COUNTERFACTUAL (counterfactual_as_dict result) trace_id ''learning_engine'' [])
       (andthen (observe_drift ''trade_grade_score'' (tg_overall_score card))
       (andthen (observe_drift ''decision_regret_pct'' (cf_regret_pct result))
       (andthen (observe_drift ''direction_correct'' (if ct_realized_pnl_pct tr > 0 then 1 else 0))
         (ret (attribution, card, result))))))))))))))"

text \<open>\<open>for x in xs: stream.emit(...)\<close>\<close>
fun emit_all :: "EventType \<Rightarrow> string \<Rightarrow> pydict list \<Rightarrow> unit lrun" where
  "emit_all kind source [] = ret ()"
| "emit_all kind source (p # ps) = andthen (lemit kind p [] source []) (emit_all kind source ps)"

definition detect_drift :: "DriftAlert list lrun" where
  "detect_drift =
     bnd (gets lp_drift) (\<lambda>dm.
     bnd (lift_res (assess dm)) (\<lambda>alerts.
     andthen (emit_all DRIFT ''learning_engine'' (map alert_as_dict alerts)) (ret alerts)))"

section \<open>Learning and evolution\<close>

definition agent_grades :: "(string \<times> signal_stats) list \<Rightarrow> pydict list" where
  "agent_grades metadata = map (\<lambda>(signal, stats). agent_card_as_dict (grade_agent 30 signal stats)) metadata"

definition learn :: "Observation list lrun" where
  "learn =
     bnd (gets (\<lambda>l. importance_metadata (lp_importance l))) (\<lambda>metadata.
     bnd (gets lp_learning) (\<lambda>le.
     bnd (lift_res (observe le metadata)) (\<lambda>observations.
     andthen (emit_all OBSERVATION ''learning_engine'' (map observation_as_dict observations))
    (andthen (emit_all GRADE ''learning_engine'' (agent_grades metadata)) (ret observations)))))"

definition attribution_supports :: "CognitiveLoop \<Rightarrow> string \<Rightarrow> int \<Rightarrow> bool" where
  "attribution_supports l signal direction =
     (let stats = map_of (importance_metadata (lp_importance l)) signal;
          good = (case stats of None \<Rightarrow> False
                  | Some st \<Rightarrow> ss_total_pnl_attribution st \<ge> 0 \<and> ss_correct_rate st \<ge> 1 / 2)
      in if direction > 0 then good else \<not> good)"

definition samples_of :: "CognitiveLoop \<Rightarrow> string \<Rightarrow> nat" where
  "samples_of l signal = (case map_of (importance_metadata (lp_importance l)) signal of
     None \<Rightarrow> 0 | Some st \<Rightarrow> ss_samples st)"

record Bundle =
  bn_proposal :: Proposal
  bn_in_sample :: BacktestDelta
  bn_out_sample :: BacktestDelta
  bn_walk_forward :: WalkForwardResult
  bn_verdict :: ChallengerVerdict
  bn_proposal_grade :: ProposalGradeCard
  bn_candidate :: CognitiveConfig
  bn_pull_request :: "PullRequestPlan option"

datatype evolve_result =
    Ev_none
  | Ev_blocked Proposal string
  | Ev_unmapped Proposal
  | Ev_bundle Bundle

definition upd_queue :: "(QueueEntry list \<Rightarrow> QueueEntry list) \<Rightarrow> unit lrun" where
  "upd_queue f = modify (\<lambda>l. l\<lparr>lp_queue := f (lp_queue l)\<rparr>)"

definition governor_admit :: "(pyval \<Rightarrow> string) \<Rightarrow> Proposal \<Rightarrow> (bool \<times> string) lrun" where
  "governor_admit rp p l = (case gov_admit rp p (lp_governor l) of
     (r, g) \<Rightarrow> (Inr r, l\<lparr>lp_governor := g\<rparr>))"

definition record_outcome_of :: "Proposal \<Rightarrow> bool \<Rightarrow> unit lrun" where
  "record_outcome_of p approved = modify (\<lambda>l. l\<lparr>lp_governor := gov_record_outcome p approved (lp_governor l)\<rparr>)"

definition run_propose :: "(pyval \<Rightarrow> string) \<Rightarrow> Observation list \<Rightarrow> Proposal option lrun" where
  "run_propose rp observations l = (case lp_proposal_agent l of
       ProposalAgent step_size min_confidence \<Rightarrow>
         (propose rp step_size min_confidence observations (lp_config l) (Some (lp_scorecard l)), l)
     | _ \<Rightarrow> (Inl AttributeError, l))"

definition emit_proposal :: "Proposal \<Rightarrow> unit lrun" where
  "emit_proposal p = bnd (gets lp_proposal_agent) (\<lambda>a. lemit PROPOSAL (proposal_as_dict p) [] (agent_name a) [])"

definition backtest_payload :: "Proposal \<Rightarrow> BacktestDelta \<Rightarrow> BacktestDelta \<Rightarrow> WalkForwardResult \<Rightarrow> pydict" where
  "backtest_payload p in_delta out_delta wfr =
     [(''type'', PStr (event_value BACKTEST_RESULT)), (''proposal_id'', PStr (pr_id p)),
      (''in_sample'', PDict (delta_as_dict in_delta)), (''out_sample'', PDict (delta_as_dict out_delta)),
      (''walk_forward'', PDict (walk_forward_as_dict wfr))]"

record evolve_args =
  ea_prices :: "real list"
  ea_split :: real
  ea_seed :: int
  ea_base_ref :: string
  ea_news :: "real list option"
  ea_folds :: int

text \<open>\<open>max(1, int(len(prices) * split))\<close>\<close>
definition split_cut :: "evolve_args \<Rightarrow> nat" where
  "split_cut a = nat (max 1 (trunc_real (real (length (ea_prices a)) * ea_split a)))"

text \<open>the two paired backtests and the walk-forward, on the current configuration and the candidate\<close>
definition judge ::
  "(int \<Rightarrow> nat \<Rightarrow> real) \<Rightarrow> evolve_args \<Rightarrow> CognitiveConfig \<Rightarrow> CognitiveConfig
   \<Rightarrow> (BacktestDelta \<times> BacktestDelta \<times> WalkForwardResult) pyres" where
  "judge rng a config candidate =
     (let cut = split_cut a in
      res_bind (evaluate_proposal rng (take cut (ea_prices a)) config candidate (map_option (take cut) (ea_news a)) (ea_seed a)) (\<lambda>in_delta.
      res_bind (evaluate_proposal rng (drop cut (ea_prices a)) config candidate (map_option (drop cut) (ea_news a)) (ea_seed a)) (\<lambda>out_delta.
      res_bind (walk_forward rng (ea_prices a) config candidate (ea_folds a) (ea_news a) (ea_seed a)) (\<lambda>wfr.
        Inr (in_delta, out_delta, wfr)))))"

definition direction_of :: "Proposal \<Rightarrow> int pyres" where
  "direction_of p =
     res_bind (py_float (pr_new_value p)) (\<lambda>n. res_bind (py_float (pr_old_value p)) (\<lambda>o'. Inr (sign (n - o'))))"

text \<open>the tail of \<open>evolve\<close> once the verdict is in: grades, scorecard, governor, pull request, queue\<close>
definition conclude ::
  "(pyval \<Rightarrow> string) \<Rightarrow> evolve_args \<Rightarrow> Proposal \<Rightarrow> CognitiveConfig \<Rightarrow> BacktestDelta \<Rightarrow> BacktestDelta
   \<Rightarrow> WalkForwardResult \<Rightarrow> ChallengerVerdict \<Rightarrow> evolve_result lrun" where
  "conclude rp a p candidate in_delta out_delta wfr verdict =
     andthen (lemit CHALLENGER_VERDICT (dset ''proposal_id'' (PStr (pr_id p)) (verdict_as_dict verdict)) [] ''gitops'' [])
    (let card = grade_proposal (pr_id p) (pr_type p) (bd_pnl_delta out_delta) (bd_sharpe_delta out_delta)
     in andthen (lemit GRADE (proposal_card_as_dict card) [] ''gitops'' [])
       (andthen (modify (\<lambda>l. l\<lparr>lp_scorecard := scorecard_record (pr_type p) (cv_approved verdict) (lp_scorecard l)\<rparr>))
       (andthen (record_outcome_of p (cv_approved verdict))
       (bnd (gets lp_config) (\<lambda>config.
        let bundle = \<lparr>bn_proposal = p, bn_in_sample = in_delta, bn_out_sample = out_delta, bn_walk_forward = wfr,
              bn_verdict = verdict, bn_proposal_grade = card, bn_candidate = candidate, bn_pull_request = None\<rparr>
        in if cv_approved verdict
           then let pull = build_pull_request rp p verdict in_delta out_delta config candidate (ea_base_ref a)
                in andthen (lemit PR_REQUEST (plan_as_dict pull) [] ''gitops'' [])
                  (andthen (upd_queue (queue_update (pr_id p) (\<lambda>q. q\<lparr>qe_status := ''approved'',
                       qe_verdict := Some (verdict_as_dict verdict), qe_delta := Some (delta_as_dict out_delta),
                       qe_pull_request := Some (plan_as_dict pull),
                       qe_proposal_grade := Some (proposal_card_as_dict card)\<rparr>)))
                    (ret (Ev_bundle (bundle\<lparr>bn_pull_request := Some pull\<rparr>))))
           else andthen (upd_queue (queue_update (pr_id p) (\<lambda>q. q\<lparr>qe_status := ''rejected'',
                     qe_verdict := Some (verdict_as_dict verdict), qe_delta := Some (delta_as_dict out_delta),
                     qe_proposal_grade := Some (proposal_card_as_dict card)\<rparr>)))
                  (ret (Ev_bundle bundle)))))))"

text \<open>an admitted proposal: candidate configuration, backtests, review\<close>
definition evaluate_admitted ::
  "(pyval \<Rightarrow> string) \<Rightarrow> (int \<Rightarrow> nat \<Rightarrow> real) \<Rightarrow> evolve_args \<Rightarrow> Proposal \<Rightarrow> evolve_result lrun" where
  "evaluate_admitted rp rng a p =
     andthen (upd_queue (queue_add p ''backtesting''))
    (bnd (gets lp_config) (\<lambda>config.
     bnd (lift_res (apply_proposal_to_config config p)) (\<lambda>r. case r of
         None \<Rightarrow>
           andthen (record_outcome_of p False)
          (andthen (upd_queue (queue_update (pr_id p) (\<lambda>q. q\<lparr>qe_status := ''rejected''\<rparr>)))
             (ret (Ev_unmapped p)))
       | Some candidate \<Rightarrow>
           bnd (lift_res (judge rng a config candidate)) (\<lambda>(in_delta, out_delta, wfr).
           andthen (lemit BACKTEST_RESULT (backtest_payload p in_delta out_delta wfr) [] ''gitops'' [])
          (bnd (lift_res (direction_of p)) (\<lambda>direction.
           bnd (gets (\<lambda>l. review rp in_delta out_delta (samples_of l (last_segment (pr_target p))) True
                  (attribution_supports l (last_segment (pr_target p)) direction) (wf_consistency wfr))) (\<lambda>verdict.
             conclude rp a p candidate in_delta out_delta wfr verdict)))))))"

definition evolve ::
  "(pyval \<Rightarrow> string) \<Rightarrow> (int \<Rightarrow> nat \<Rightarrow> real) \<Rightarrow> evolve_args \<Rightarrow> evolve_result lrun" where
  "evolve rp rng a =
     bnd learn (\<lambda>observations.
     bnd (run_propose rp observations) (\<lambda>op. case op of
         None \<Rightarrow> ret Ev_none
       | Some p \<Rightarrow>
           andthen (emit_proposal p)
          (bnd (governor_admit rp p) (\<lambda>(admitted, reason).
             if \<not> admitted
             then andthen (upd_queue (queue_add p ''blocked''))
                 (andthen (upd_queue (queue_update (pr_id p) (\<lambda>q. q\<lparr>qe_verdict := Some [(''blocked'', PStr reason)]\<rparr>)))
                    (ret (Ev_blocked p reason)))
             else evaluate_admitted rp rng a p))))"

section \<open>Merge\<close>

definition merge_config :: "CognitiveConfig \<Rightarrow> real \<Rightarrow> real \<Rightarrow> string option \<Rightarrow> (int \<times> ConfigGradeCard) lrun" where
  "merge_config candidate sharpe max_dd proposal_id =
     andthen (modify (\<lambda>l. l\<lparr>lp_config := candidate, lp_config_proposal_id := proposal_id\<rparr>))
    (andthen (case proposal_id of None \<Rightarrow> ret ()
              | Some i \<Rightarrow> upd_queue (queue_update i (\<lambda>q. q\<lparr>qe_status := ''merged''\<rparr>)))
    (let grade = grade_config_version (cc_version candidate) sharpe max_dd
     in andthen (emit_config_version (Some grade)) (ret (cc_version candidate, grade))))"

section \<open>The read-only mirror\<close>

definition loop_payloads :: "CognitiveLoop \<Rightarrow> EventType \<Rightarrow> nat option \<Rightarrow> pydict list" where
  "loop_payloads l kind limit =
     (let out = map (\<lambda>e. dset ''source'' (PStr (ev_source e)) (dset ''trace_id'' (PStr (ev_trace_id e))
                    (dset ''seq'' (PInt (int (ev_seq e))) (ev_payload e))))
                  (stream_events (Some kind) None (lp_stream l))
      in case limit of None \<Rightarrow> out | Some n \<Rightarrow> last_n n out)"

text \<open>\<open>seen\<close> keeps the first occurrence of each non-empty trace id of a decision\<close>
definition trace_ids :: "CognitiveLoop \<Rightarrow> nat \<Rightarrow> string list" where
  "trace_ids l limit =
     last_n limit (rev (remdups (rev (map ev_trace_id
       (filter (\<lambda>e. ev_kind e = DECISION \<and> ev_trace_id e \<noteq> []) (es_events (lp_stream l)))))))"

definition stats_dict :: "signal_stats \<Rightarrow> pyval" where
  "stats_dict st = PDict [(''samples'', PInt (int (ss_samples st))),
     (''avg_abs_contribution'', PFloat (ss_avg_abs_contribution st)),
     (''total_pnl_attribution'', PFloat (ss_total_pnl_attribution st)),
     (''correct_rate'', PFloat (ss_correct_rate st))]"

definition dicts :: "pydict list \<Rightarrow> pyval" where
  "dicts ds = PList (map PDict ds)"

text \<open>\<open>(payloads or [None])[-1]\<close>\<close>
definition latest_or_none :: "pydict list \<Rightarrow> pyval" where
  "latest_or_none ds = (if ds = [] then PNone else PDict (last ds))"

text \<open>\<open>sum(c.get("regret_pct", 0.0) ...)\<close> over payloads that hold numbers\<close>
definition regret_of :: "pydict \<Rightarrow> real" where
  "regret_of d = (case safe_float (dget d ''regret_pct'' (PFloat 0)) of None \<Rightarrow> 0 | Some x \<Rightarrow> x)"

definition loop_snapshot :: "CognitiveLoop \<Rightarrow> nat \<Rightarrow> pydict" where
  "loop_snapshot l trace_limit =
     (let metadata = importance_metadata (lp_importance l);
          grades = agent_grades metadata;
          pl = (\<lambda>kind. loop_payloads l kind (Some trace_limit));
          one = (\<lambda>kind. latest_or_none (loop_payloads l kind (Some 1)));
          cfs = loop_payloads l COUNTERFACTUAL None; n = length cfs;
          cfg = lp_config l
      in [(''config'', PDict (config_to_dict cfg)),
          (''agents_roster'', dicts (registry_describe (lp_registry l))),
          (''live_agents'', PDict [(''news'', one NEWS_SIGNAL), (''tech'', one TECH_SIGNAL),
             (''macro'', one MACRO_SIGNAL), (''risk'', one RISK_SIGNAL)]),
          (''reasoning'', dicts (pl REASONING)),
          (''decision'', PDict [(''latest'', one DECISION), (''recent'', dicts (pl DECISION)),
             (''weights'', PDict (float_dict (cc_weights cfg))), (''buy_threshold'', PFloat (cc_buy_threshold cfg)),
             (''sell_threshold'', PFloat (cc_sell_threshold cfg))]),
          (''proposals'', dicts (queue_snapshot (lp_queue l))),
          (''challenger'', dicts (pl CHALLENGER_VERDICT)),
          (''learning'', PDict [(''importance'', PDict (map (\<lambda>(s, st). (s, stats_dict st)) metadata)),
             (''agent_grades'', dicts grades), (''observations'', dicts (pl OBSERVATION)),
             (''trade_grades'', dicts (last_n trace_limit
                (filter (\<lambda>p. py_get p ''subject'' = PStr ''trade'') (loop_payloads l GRADE None)))),
             (''mean_regret_pct'', PFloat (if n \<noteq> 0 then py_round 4 (sum_list (map regret_of cfs) / real n) else 0)),
             (''best_action_rate'', PFloat (if n \<noteq> 0
                then py_round 4 (real (length (filter (\<lambda>c. truthy (py_get c ''was_best'')) cfs)) / real n) else 0))]),
          (''evolution'', PDict [(''config_versions'', dicts (loop_payloads l CONFIG_VERSION None)),
             (''proposal_success_rates'', PDict (scorecard_snapshot (lp_scorecard l))),
             (''agent_grades'', dicts grades), (''governor'', PDict (gov_snapshot (lp_governor l)))]),
          (''counterfactuals'', dicts (last_n trace_limit cfs)),
          (''drift'', PDict [(''alerts'', dicts (pl DRIFT)), (''monitor'', PDict (drift_snapshot (lp_drift l)))]),
          (''health'', PDict (assess_health (lp_stream l))),
          (''traces'', dicts (map (build_trace (lp_stream l)) (trace_ids l trace_limit))),
          (''event_count'', PInt (int (length (es_events (lp_stream l)))))])"

section \<open>Who changes what\<close>

text \<open>the part of the loop only a merge writes\<close>
definition same_config :: "CognitiveLoop \<Rightarrow> CognitiveLoop \<Rightarrow> bool" where
  "same_config l l' \<longleftrightarrow> lp_config l' = lp_config l \<and> lp_config_proposal_id l' = lp_config_proposal_id l"

interpretation cfg: frame same_config
  by unfold_locales (auto simp: same_config_def)

lemma cfg_lemit: "keeps same_config (lemit k p t s ts)"
  by (simp add: lemit_def keeps_def same_config_def)

lemma cfg_signal: "keeps same_config (emit_signal a m t)"
  by (auto simp: keeps_def emit_signal_def same_config_def split: sum.splits)

lemma cfg_reasoning: "keeps same_config (emit_reasoning a f t ts)"
  by (auto simp: keeps_def emit_reasoning_def same_config_def split: sum.splits)

lemma cfg_emit_all: "keeps same_config (emit_all k s ps)"
  by (induction ps) (simp_all only: emit_all.simps cfg.keeps_pure cfg.keeps_andthen cfg_lemit)

lemma cfg_modifies:
  "keeps same_config (upd_queue f)" "keeps same_config (governor_admit rp p)"
  "keeps same_config (record_outcome_of p b)" "keeps same_config (run_propose rp obs)"
  "keeps same_config (observe_drift m x)"
  "keeps same_config (modify (\<lambda>l. l\<lparr>lp_scorecard := g l\<rparr>))" "keeps same_config (modify (\<lambda>l. l\<lparr>lp_importance := h l\<rparr>))"
  by (auto simp: keeps_def upd_queue_def governor_admit_def record_outcome_of_def run_propose_def
      observe_drift_def same_config_def split: prod.splits agent.splits)

lemmas cfg_keeps = cfg.keeps_pure cfg.keeps_bnd cfg.keeps_andthen cfg_lemit cfg_signal cfg_reasoning
  cfg_emit_all cfg_modifies

lemma cfg_learn: "keeps same_config learn"
  unfolding learn_def by (intro cfg_keeps)

lemma cfg_detect_drift: "keeps same_config detect_drift"
  unfolding detect_drift_def by (intro cfg_keeps)

lemma cfg_step: "keeps same_config (loop_step m e p x d t)"
  unfolding loop_step_def Let_def by (intro cfg_keeps)

lemma cfg_close: "keeps same_config (close_trade rp t tr)"
  unfolding close_trade_def Let_def by (intro cfg_keeps)

lemma cfg_conclude: "keeps same_config (conclude rp a p c i o' w v)"
  unfolding conclude_def Let_def by (intro cfg_keeps; cases "cv_approved v"; simp; intro cfg_keeps)

lemma cfg_evaluate: "keeps same_config (evaluate_admitted rp rng a p)"
  unfolding evaluate_admitted_def
  by (intro cfg_keeps) (auto split: option.splits intro!: cfg_keeps cfg_conclude)

lemma cfg_evolve: "keeps same_config (evolve rp rng a)"
  unfolding evolve_def emit_proposal_def
  by (intro cfg_keeps cfg_learn) (auto split: option.splits intro!: cfg_keeps cfg_evaluate)

section \<open>The forward pass leaves a complete trace\<close>

text \<open>a sequence of events with the same trace and time\<close>
definition emits :: "string \<Rightarrow> string \<Rightarrow> (EventType \<times> pydict \<times> string) list \<Rightarrow> EventStream \<Rightarrow> EventStream" where
  "emits tid ts es st = fold (\<lambda>(k, p, s). emit k p tid s ts) es st"

lemma emits_simps [simp]:
  "emits tid ts [] st = st" "emits tid ts ((k, p, s) # es) st = emits tid ts es (emit k p tid s ts st)"
  by (simp_all add: emits_def)

lemma emits_append: "emits tid ts (xs @ ys) st = emits tid ts ys (emits tid ts xs st)"
  by (simp add: emits_def)

lemma emits_counters: "es_emitted (emits tid ts es st) = es_emitted st + length es
    \<and> es_max_events (emits tid ts es st) = es_max_events st"
  by (induction es arbitrary: st) (auto simp: emit_fields)

lemma emits_ok: "stream_ok st \<Longrightarrow> stream_ok (emits tid ts es st)"
  by (induction es arbitrary: st) (auto simp: stream_ok_emit)

text \<open>room for \<open>n\<close> more events before the oldest is dropped\<close>
definition room :: "nat \<Rightarrow> EventStream \<Rightarrow> bool" where
  "room n st \<longleftrightarrow> (case es_max_events st of None \<Rightarrow> True | Some m \<Rightarrow> length (es_events st) + n \<le> m)"

lemma emit_room:
  assumes "room (Suc n) st"
  shows "es_events (emit k p t s ts st) = es_events st @ [next_event st k p t s ts]" "room n (emit k p t s ts st)"
  using assms by (auto simp: room_def emit_def Let_def over_cap_def split: option.splits)

abbreviation core :: "Event \<Rightarrow> EventType \<times> pydict \<times> string" where
  "core e \<equiv> (ev_kind e, ev_payload e, ev_source e)"

lemma emits_room:
  assumes "room (length es + n) st"
  shows "\<exists>new. es_events (emits tid ts es st) = es_events st @ new \<and> map core new = es
    \<and> (\<forall>e\<in>set new. ev_trace_id e = tid) \<and> room n (emits tid ts es st)"
  using assms
proof (induction es arbitrary: st)
  case (Cons x es)
  obtain k p s where x: "x = (k, p, s)" by (cases x)
  let ?ev = "next_event st k p tid s ts"
  have r: "room (Suc (length es + n)) st" using Cons.prems by simp
  obtain new where "es_events (emits tid ts es (emit k p tid s ts st)) = es_events (emit k p tid s ts st) @ new"
    "map core new = es" "\<forall>e\<in>set new. ev_trace_id e = tid" "room n (emits tid ts es (emit k p tid s ts st))"
    using Cons.IH [OF emit_room(2) [OF r]] by blast
  then show ?case using emit_room(1) [OF r]
    by (intro exI [of _ "?ev # new"]) (simp add: x next_event_def)
qed simp

definition wired :: "CognitiveLoop \<Rightarrow> bool" where
  "wired l \<longleftrightarrow> (\<exists>n t m r. lp_news l = NewsAgent n \<and> lp_tech l = TechnicalAgent t \<and> lp_macro l = MacroAgent m
     \<and> lp_risk l = RiskAgent r \<and> lp_reasoning l = ReasoningAgent)"

definition STEP_KINDS :: "EventType list" where
  "STEP_KINDS = [NEWS_SIGNAL, TECH_SIGNAL, MACRO_SIGNAL, RISK_SIGNAL, FEATURES, REASONING, DECISION,
     RISK_GATE, EXECUTION]"

lemma emit_signal_run:
  "agent_analyze a m = Inr (k, p) \<Longrightarrow> emit_signal a m tid l
     = (Inr p, l\<lparr>lp_stream := emit k p tid (agent_name a) (mv_ts m) (lp_stream l)\<rparr>)"
  by (simp add: emit_signal_def agent_emit_def)

lemma analyze_cases:
  "\<exists>p. agent_analyze (NewsAgent f1) m = Inr (NEWS_SIGNAL, p) \<and> py_get p ''sentiment'' = PFloat (fst (f1 m)) \<and> py_get p ''confidence'' = PFloat (snd (f1 m))"
  "\<exists>p. agent_analyze (TechnicalAgent f2) m = Inr (TECH_SIGNAL, p) \<and> py_get p ''trend'' = PFloat (fst (f2 m)) \<and> py_get p ''confidence'' = PFloat (snd (f2 m))"
  "\<exists>p. agent_analyze (MacroAgent f3) m = Inr (MACRO_SIGNAL, p) \<and> py_get p ''regime'' = PFloat (f3 m)"
  "\<exists>p. agent_analyze (RiskAgent f4) m = Inr (RISK_SIGNAL, p) \<and> py_get p ''risk_score'' = PFloat (fst (f4 m))"
  by (auto simp: agent_analyze_def split: prod.splits)

lemma payload_present: "py_get d k = PFloat x \<Longrightarrow> payload_float d k y = Inr x"
  by (auto simp: payload_float_def py_get_def dget_def split: option.splits)

lemma bnd_run: "m s = (Inr v, s') \<Longrightarrow> bnd m f s = f v s'"
  by (simp add: bnd_def)

lemma andthen_run: "m s = (Inr v, s') \<Longrightarrow> andthen m k s = k s'"
  by (simp add: andthen_def bnd_def)

lemma lemit_run: "lemit k p t s ts l = (Inr (), l\<lparr>lp_stream := emit k p t s ts (lp_stream l)\<rparr>)"
  by (simp add: lemit_def)

lemma reasoning_run: "emit_reasoning ReasoningAgent f t ts l
    = (Inr (), l\<lparr>lp_stream := emit REASONING (reasoning_analyze f) t ''reasoning_agent'' ts (lp_stream l)\<rparr>)"
  by (simp add: emit_reasoning_def reasoning_emit_def agent_name_def)

lemma loop_step_run:
  assumes "wired l"
  shows "\<exists>r es. loop_step market equity pct expo day targ l
      = (Inr r, l\<lparr>lp_stream := emits (step_trace_id targ l) (mv_ts market) es (lp_stream l)\<rparr>)
    \<and> map fst es = STEP_KINDS \<and> features_ok (sr_features r) \<and> sr_trace_id r = step_trace_id targ l
    \<and> sr_decision r = decide (sr_features r) (lp_config l)
    \<and> sr_gate r = evaluate_risk (sr_decision r) (lp_config l) pct expo day
    \<and> sr_execution r = execute (sr_decision r) (sr_gate r) (mv_symbol market) (mv_price market) equity
    \<and> es ! 6 = (DECISION, lineage l (decision_as_dict (sr_decision r)), ''decision_engine'')
    \<and> es ! 8 = (EXECUTION, lineage l (execution_as_dict (sr_execution r)), ''execution_engine'')"
proof -
  obtain n t m r where w: "lp_news l = NewsAgent n" "lp_tech l = TechnicalAgent t" "lp_macro l = MacroAgent m"
    "lp_risk l = RiskAgent r" "lp_reasoning l = ReasoningAgent" using assms by (auto simp: wired_def)
  obtain pn pt pm pr where
    p: "agent_analyze (NewsAgent n) market = Inr (NEWS_SIGNAL, pn)" "agent_analyze (TechnicalAgent t) market = Inr (TECH_SIGNAL, pt)"
      "agent_analyze (MacroAgent m) market = Inr (MACRO_SIGNAL, pm)" "agent_analyze (RiskAgent r) market = Inr (RISK_SIGNAL, pr)"
    and g: "py_get pn ''sentiment'' = PFloat (fst (n market))" "py_get pn ''confidence'' = PFloat (snd (n market))"
      "py_get pt ''trend'' = PFloat (fst (t market))" "py_get pt ''confidence'' = PFloat (snd (t market))"
      "py_get pm ''regime'' = PFloat (m market)" "py_get pr ''risk_score'' = PFloat (fst (r market))"
    using analyze_cases(1) [of n market] analyze_cases(2) [of t market] analyze_cases(3) [of m market]
      analyze_cases(4) [of r market] by blast
  have "\<exists>f. aggregate pn pt pm pr = Inr f"
    by (simp add: aggregate_def g [THEN payload_present])
  then obtain f where f: "aggregate pn pt pm pr = Inr f" "features_ok f" using aggregate_ok by blast
  let ?d = "decide f (lp_config l)"
  let ?g = "evaluate_risk ?d (lp_config l) pct expo day"
  let ?x = "execute ?d ?g (mv_symbol market) (mv_price market) equity"
  let ?es = "[(NEWS_SIGNAL, pn, ''news_agent''), (TECH_SIGNAL, pt, ''technical_agent''), (MACRO_SIGNAL, pm, ''macro_agent''),
     (RISK_SIGNAL, pr, ''risk_agent''), (FEATURES, (''type'', PStr (event_value FEATURES)) # float_dict f, ''aggregator''),
     (REASONING, reasoning_analyze f, ''reasoning_agent''), (DECISION, lineage l (decision_as_dict ?d), ''decision_engine''),
     (RISK_GATE, gate_as_dict ?g, ''risk_engine''), (EXECUTION, lineage l (execution_as_dict ?x), ''execution_engine'')]"
  let ?r = "\<lparr>sr_trace_id = step_trace_id targ l, sr_features = f, sr_decision = ?d, sr_gate = ?g, sr_execution = ?x\<rparr>"
  have "loop_step market equity pct expo day targ l
      = (Inr ?r, l\<lparr>lp_stream := emits (step_trace_id targ l) (mv_ts market) ?es (lp_stream l)\<rparr>)"
    unfolding loop_step_def Let_def
    by (simp add: bnd_def andthen_def w p [THEN emit_signal_run] f(1) lemit_run reasoning_run
        agent_name_def lineage_def)
  then show ?thesis using f(2) by (intro exI [of _ ?r] exI [of _ ?es]) (simp add: STEP_KINDS_def)
qed

lemma float_dict_get: "payload_float (float_dict b) k x = Inr (dget b k x)"
  by (induction b) (auto simp: payload_float_def float_dict_def)

lemma attribute_float_dict:
  "attribute (float_dict b) pnl = Inr (attribution_of [(''news'', dget b ''news'' 0), (''tech'', dget b ''tech'' 0),
     (''macro'', dget b ''macro'' 0)] pnl)"
  by (simp add: attribute_def float_dict_get)

definition CLOSE_KINDS :: "EventType list" where
  "CLOSE_KINDS = [TRADE_OUTCOME, ATTRIBUTION, GRADE, COUNTERFACTUAL]"

lemma close_trade_run:
  assumes "decision_for l tid = Some (lineage l0 (decision_as_dict d))"
  shows "\<exists>res es imp dr. close_trade rp tid tr l
      = (Inr res, l\<lparr>lp_stream := emits tid [] es (lp_stream l), lp_importance := imp, lp_drift := dr\<rparr>)
    \<and> map fst es = CLOSE_KINDS \<and> py_get (fst (snd (es ! 2))) ''subject'' = PStr ''trade''
    \<and> imp = importance_update (fst res) (sign (ct_realized_pnl tr)) (lp_importance l)"
proof -
  let ?p = "lineage l0 (decision_as_dict d)"
  have g: "dget ?p ''breakdown'' y = PDict (float_dict (dn_breakdown d))" "dget ?p ''score'' y' = PFloat (dn_score d)"
    "dget ?p ''config_version'' y'' = PInt (cc_version (lp_config l0))" for y y' y''
    by (simp_all add: lineage_def decision_as_dict_def)
  let ?a = "attribution_of [(''news'', dget (dn_breakdown d) ''news'' 0), (''tech'', dget (dn_breakdown d) ''tech'' 0),
     (''macro'', dget (dn_breakdown d) ''macro'' 0)] (ct_realized_pnl tr)"
  let ?c = "grade_trade tid (dn_score d) (ct_realized_pnl_pct tr) (ct_max_adverse_pct tr) (ct_slippage_bps tr)
     (ct_side tr) (ct_entry_price tr) (ct_window_low tr) (ct_window_high tr)"
  let ?r = "counterfactual (py_str rp (py_or (py_get ?p ''action'') (PStr (ct_side tr)))) (ct_realized_pnl_pct tr) (ct_side tr)"
  let ?es = "[(TRADE_OUTCOME, outcome_payload tr (cc_version (lp_config l0)) ?p, ''execution_engine''),
     (ATTRIBUTION, attribution_as_dict ?a, ''learning_engine''), (GRADE, trade_card_as_dict ?c, ''learning_engine''),
     (COUNTERFACTUAL, counterfactual_as_dict ?r, ''learning_engine'')]"
  let ?imp = "importance_update ?a (sign (ct_realized_pnl tr)) (lp_importance l)"
  let ?dr = "drift_observe ''direction_correct'' (if ct_realized_pnl_pct tr > 0 then 1 else 0)
     (drift_observe ''decision_regret_pct'' (cf_regret_pct ?r)
     (drift_observe ''trade_grade_score'' (tg_overall_score ?c) (lp_drift l)))"
  have "close_trade rp tid tr l
      = (Inr (?a, ?c, ?r), l\<lparr>lp_stream := emits tid [] ?es (lp_stream l), lp_importance := ?imp, lp_drift := ?dr\<rparr>)"
    unfolding close_trade_def
    by (simp add: bnd_def andthen_def assms breakdown_dict_def g attribute_float_dict lemit_run observe_drift_def Let_def)
  then show ?thesis
    by (intro exI [of _ "(?a, ?c, ?r)"] exI [of _ ?es] exI [of _ ?imp] exI [of _ ?dr])
      (simp add: CLOSE_KINDS_def trade_card_as_dict_def)
qed

lemma core_kinds: "map ev_kind es = map fst (map core es)"
  by simp

lemma find_last_append:
  "find_last P (xs @ ys) = (case find_last P ys of None \<Rightarrow> find_last P xs | Some y \<Rightarrow> Some y)"
  by (induction ys rule: rev_induct) (auto simp flip: append_assoc)

lemma step_then_decision:
  assumes "wired l" "room (9 + n) (lp_stream l)" "loop_step market equity pct expo day targ l = (Inr r, l1)"
  obtains new where "es_events (lp_stream l1) = es_events (lp_stream l) @ new" "map ev_kind new = STEP_KINDS"
    "\<forall>e\<in>set new. ev_trace_id e = sr_trace_id r" "room n (lp_stream l1)" "lp_config l1 = lp_config l"
    "ev_payload (new ! 6) = lineage l (decision_as_dict (sr_decision r))"
    "decision_for l1 (sr_trace_id r) = Some (lineage l (decision_as_dict (sr_decision r)))"
proof -
  obtain es where l1: "l1 = l\<lparr>lp_stream := emits (sr_trace_id r) (mv_ts market) es (lp_stream l)\<rparr>"
    and k: "map fst es = STEP_KINDS" and d: "es ! 6 = (DECISION, lineage l (decision_as_dict (sr_decision r)), ''decision_engine'')"
    using loop_step_run [OF assms(1), of market equity pct expo day targ] assms(3) by auto
  have len: "length es = 9" using arg_cong [OF k, of length] by (simp add: STEP_KINDS_def)
  obtain new where n: "es_events (lp_stream l1) = es_events (lp_stream l) @ new" "map core new = es"
    "\<forall>e\<in>set new. ev_trace_id e = sr_trace_id r" "room n (lp_stream l1)"
    using emits_room [of es n "lp_stream l" "sr_trace_id r" "mv_ts market"] assms(2) len l1 by auto
  have kinds: "map ev_kind new = STEP_KINDS" using core_kinds [of new] by (simp only: n(2) k)
  have len': "length new = 9" using arg_cong [OF n(2), of length] len by simp
  have six: "core (new ! 6) = es ! 6" using nth_map [of 6 new core] n(2) len' by simp
  obtain e0 e1 e2 e3 e4 e5 e6 e7 e8 where new: "new = [e0, e1, e2, e3, e4, e5, e6, e7, e8]"
    and ks: "ev_kind e6 = DECISION" "ev_kind e7 = RISK_GATE" "ev_kind e8 = EXECUTION"
    using kinds unfolding STEP_KINDS_def by (auto simp: map_eq_Cons_conv)
  have p6: "ev_payload e6 = lineage l (decision_as_dict (sr_decision r))" using six d new by simp
  have "find_last (\<lambda>e. ev_kind e = DECISION \<and> ev_trace_id e = sr_trace_id r) new = Some e6"
    using n(3) ks by (simp add: new find_last_def)
  then have "decision_for l1 (sr_trace_id r) = Some (lineage l (decision_as_dict (sr_decision r)))"
    using n(1) p6 by (simp add: decision_for_def find_last_append)
  then show ?thesis using that n kinds p6 new l1 by simp
qed

lemma latest_in_trace:
  "(\<exists>e\<in>set (es_events st). ev_kind e = k \<and> ev_trace_id e = tid) \<Longrightarrow> latest_payload (trace_events st tid) k \<noteq> None"
  by (auto simp: latest_payload_def find_last_None trace_events_def)


section \<open>Construction\<close>

lemma default_agents:
  "signal_agent build_default_registry NEWS_SIGNAL = Inr (NewsAgent news_sentiment)"
  "signal_agent build_default_registry TECH_SIGNAL = Inr (TechnicalAgent (\<lambda>m. technical_trend TECH_WINDOW (mv_history m)))"
  "signal_agent build_default_registry MACRO_SIGNAL = Inr (MacroAgent (\<lambda>m. macro_regime MACRO_WINDOW (mv_history m)))"
  "signal_agent build_default_registry RISK_SIGNAL = Inr (RiskAgent (\<lambda>m. risk_assessment RISK_WINDOW (mv_history m)))"
  "first_of_role build_default_registry ''reasoning'' = Inr ReasoningAgent"
  "first_of_role build_default_registry ''proposal'' = Inr (ProposalAgent WEIGHT_STEP MIN_OBSERVATION_CONFIDENCE)"
  by (simp_all add: signal_agent_def first_of_role_def by_role_def build_default_registry_def register_def
      agent_name_def event_value_def)

lemma new_loop_default:
  "\<exists>l. new_loop (Some c) raw_file st None cap = Inr l \<and> wired l \<and> lp_config l = c \<and> lp_config_proposal_id l = None
     \<and> lp_stream l = emit CONFIG_VERSION [(''type'', PStr (event_value CONFIG_VERSION)), (''version'', PInt (cc_version c)),
          (''config'', PDict (config_to_dict c)), (''grade'', PNone)] [] ''config_merge'' [] (stream_or_new st cap)
     \<and> lp_scorecard l = [] \<and> lp_governor l = new_governor 3 10 5 \<and> lp_queue l = []"
  by (simp add: new_loop_def default_agents wired_def emit_config_version_def lemit_run bnd_def opt_dict_def)

text \<open>An empty event stream handed to the loop is silently replaced by a fresh one, because an empty
  stream is falsy: the loop behaves as if none had been given, so subscribers registered on the
  given stream beforehand are never called.\<close>
theorem empty_stream_argument_is_dropped:
  assumes "es_events st = []" "new_loop config raw_file (Some st) reg cap = Inr l"
  shows "new_loop config raw_file None reg cap = Inr l \<and> es_subscribers (lp_stream l) = [] \<and> es_calls (lp_stream l) = []"
proof -
  have n: "stream_or_new (Some st) cap = new_stream (Some cap)" "stream_or_new None cap = new_stream (Some cap)"
    using assms(1) by (simp_all add: stream_or_new_def)
  have "new_loop config raw_file None reg cap = new_loop config raw_file (Some st) reg cap"
    by (simp add: new_loop_def n)
  moreover have "\<exists>g p. lp_stream l = emit CONFIG_VERSION p [] ''config_merge'' [] (new_stream (Some cap))"
    using assms(2) by (auto simp: new_loop_def n res_bind_Inr_iff Let_def emit_config_version_def lemit_run bnd_def)
  ultimately show ?thesis using assms(2)
    by (auto simp: emit_fields emit_calls new_stream_def)
qed

theorem empty_stream_argument_is_dropped_witness:
  "es_events (subscribe ''redis_mirror'' (new_stream None)) = []
   \<and> (\<exists>l. new_loop (Some DEFAULT_CONFIG) None (Some (subscribe ''redis_mirror'' (new_stream None))) None 100000 = Inr l
        \<and> es_subscribers (lp_stream l) = [])"
proof -
  let ?s = "subscribe ''redis_mirror'' (new_stream None)"
  have e: "es_events ?s = []" by (simp add: subscribe_def new_stream_def)
  obtain l where "new_loop (Some DEFAULT_CONFIG) None (Some ?s) None 100000 = Inr l"
    using new_loop_default by blast
  then show ?thesis using empty_stream_argument_is_dropped [OF e] e by blast
qed

text \<open>a fresh loop has one configuration event, which the health view counts as a merge\<close>
lemma fresh_loop_counts_a_merge:
  assumes "new_loop (Some c) raw_file None None (Suc cap) = Inr l"
  shows "by_type (es_events (lp_stream l)) CONFIG_VERSION = 1"
  using new_loop_default [of c raw_file None "Suc cap"] assms
  by (auto simp: by_type_def emit_def next_event_def new_stream_def stream_or_new_def over_cap_def Let_def)

section \<open>Trace identifiers\<close>

lemma emit_full:
  assumes "es_max_events st = Some m" "length (es_events st) = m" "0 < m"
  shows "length (es_events (emit k p t s ts st)) = m"
  using assms by (simp add: emit_def over_cap_def Let_def)

lemma emits_full:
  "es_max_events st = Some m \<Longrightarrow> length (es_events st) = m \<Longrightarrow> 0 < m \<Longrightarrow> length (es_events (emits tid ts es st)) = m"
proof (induction es arbitrary: st)
  case (Cons x es)
  then show ?case by (cases x) (simp add: emit_full emit_fields)
qed simp

text \<open>Default trace identifiers repeat once retention is full: they are formed from the length of the
  stream, which no longer grows, so the next forward pass reuses the identifier of this one and
  the traces of different trades run together.\<close>
theorem default_trace_ids_collide:
  assumes "wired l" "es_max_events (lp_stream l) = Some m" "length (es_events (lp_stream l)) = m" "0 < m"
    and "loop_step market equity pct expo day None l = (Inr r, l1)"
    and "loop_step market' equity' pct' expo' day' None l1 = (Inr r', l2)"
  shows "sr_trace_id r' = sr_trace_id r"
proof -
  obtain es where l1: "l1 = l\<lparr>lp_stream := emits (step_trace_id None l) (mv_ts market) es (lp_stream l)\<rparr>"
    and t: "sr_trace_id r = step_trace_id None l"
    using loop_step_run [OF assms(1), of market equity pct expo day None] assms(5) by auto
  have w1: "wired l1" using assms(1) by (simp add: wired_def l1)
  have "sr_trace_id r' = step_trace_id None l1"
    using loop_step_run [OF w1, of market' equity' pct' expo' day' None] assms(6) by auto
  moreover have "length (es_events (lp_stream l1)) = length (es_events (lp_stream l))"
    using emits_full [OF assms(2,3,4)] assms(3) l1 by simp
  ultimately show ?thesis using t by (simp add: step_trace_id_def)
qed

definition a_market :: MarketView where
  "a_market = \<lparr>mv_symbol = ''BTC'', mv_price = 100, mv_history = [100], mv_news_sentiment = None,
     mv_news_confidence = 0, mv_ts = []\<rparr>"

theorem default_trace_ids_collide_witness:
  "\<exists>l r l1 r' l2. new_loop (Some DEFAULT_CONFIG) None None None 1 = Inr l
     \<and> loop_step a_market 1000 (1 / 100) 0 0 None l = (Inr r, l1)
     \<and> loop_step a_market 1000 (1 / 100) 0 0 None l1 = (Inr r', l2) \<and> sr_trace_id r' = sr_trace_id r"
proof -
  obtain l where l: "new_loop (Some DEFAULT_CONFIG) None None None 1 = Inr l" "wired l"
    and st: "es_max_events (lp_stream l) = Some 1" "length (es_events (lp_stream l)) = 1"
    using new_loop_default [of DEFAULT_CONFIG None None 1]
    by (auto simp: emit_def new_stream_def stream_or_new_def over_cap_def Let_def)
  obtain r l1 where 1: "loop_step a_market 1000 (1 / 100) 0 0 None l = (Inr r, l1)" and w1: "wired l1"
    using loop_step_run [OF l(2), of a_market 1000 "1 / 100" 0 0 None] l(2) by (auto simp: wired_def)
  obtain r' l2 where 2: "loop_step a_market 1000 (1 / 100) 0 0 None l1 = (Inr r', l2)"
    using loop_step_run [OF w1, of a_market 1000 "1 / 100" 0 0 None] by auto
  show ?thesis using l(1) 1 2 default_trace_ids_collide [OF l(2) st _ 1 2] by auto
qed


end
