(* ===== verification/Cog_Evolution.thy ===== *)
theory Cog_Evolution
  imports Cog_Loop
begin

text \<open>
  The evolution half of \<open>src/cognitive/loop.py\<close> as a life cycle: which calls may change the
  configuration, what an approved bundle guarantees about its candidate, what every reachable
  configuration satisfies, and what the proposal queue remembers.
\<close>

section \<open>What an approved bundle guarantees\<close>

lemma bnd_Inr_iff: "bnd m f s = (Inr v, s'') \<longleftrightarrow> (\<exists>x s'. m s = (Inr x, s') \<and> f x s' = (Inr v, s''))"
  by (auto simp: bnd_def split: prod.splits sum.splits)

lemma andthen_Inr_iff: "andthen m k s = (Inr v, s'') \<longleftrightarrow> (\<exists>x s'. m s = (Inr x, s') \<and> k s' = (Inr v, s''))"
  by (simp add: andthen_def bnd_Inr_iff)

lemmas run_iffs = bnd_Inr_iff andthen_Inr_iff

lemma conclude_bundle:
  assumes "conclude rp a p c i o' w v l = (Inr r, l')"
  shows "\<exists>b. r = Ev_bundle b \<and> bn_proposal b = p \<and> bn_candidate b = c \<and> bn_verdict b = v \<and> bn_in_sample b = i
    \<and> bn_out_sample b = o' \<and> bn_walk_forward b = w \<and> (bn_pull_request b \<noteq> None \<longleftrightarrow> cv_approved v)"
  using assms by (cases "cv_approved v") (auto simp: conclude_def Let_def run_iffs)

text \<open>the evidence the challenger asks for, on the bundle's own figures\<close>
definition evidence :: "Bundle \<Rightarrow> bool" where
  "evidence b \<longleftrightarrow> bm_trades (bd_candidate (bn_out_sample b)) \<ge> 30 \<and> bm_trades (bd_baseline (bn_out_sample b)) \<ge> 30
     \<and> bd_pnl_delta (bn_out_sample b) > 0 \<and> bd_drawdown_delta (bn_out_sample b) \<le> 1
     \<and> wf_consistency (bn_walk_forward b) \<ge> 6 / 10"

lemma approved_evidence:
  "cv_approved (review rp i o' n v s c) \<Longrightarrow> bm_trades (bd_candidate o') \<ge> 30 \<and> bm_trades (bd_baseline o') \<ge> 30
    \<and> bd_pnl_delta o' > 0 \<and> bd_drawdown_delta o' \<le> 1 \<and> c \<ge> 6 / 10 \<and> n \<ge> 30 \<and> s"
  by (auto simp: all_checks_def review_checks_def MIN_LEARNING_SAMPLES_def MIN_TRADES_def
        DRAWDOWN_TOLERANCE_PCT_def MIN_WALK_FORWARD_CONSISTENCY_def)

definition good_bundle :: "CognitiveConfig \<Rightarrow> Bundle \<Rightarrow> bool" where
  "good_bundle c b \<longleftrightarrow> apply_proposal_to_config c (bn_proposal b) = Inr (Some (bn_candidate b))
     \<and> (bn_pull_request b \<noteq> None \<longrightarrow> evidence b)"

lemma judged_bundle:
  assumes "conclude rp a p c i o' w (review rp i o' n v s (wf_consistency w)) l = (Inr r, l')"
    and "apply_proposal_to_config cfg p = Inr (Some c)"
  shows "\<exists>b. r = Ev_bundle b \<and> good_bundle cfg b"
  using conclude_bundle [OF assms(1)] assms(2) approved_evidence [of rp i o' n v s "wf_consistency w"]
  by (auto simp: good_bundle_def evidence_def)

lemma evaluate_bundle:
  assumes "evaluate_admitted rp rng a p l = (Inr (Ev_bundle b), l')"
  shows "good_bundle (lp_config l) b"
proof -
  let ?l = "l\<lparr>lp_queue := queue_add p ''backtesting'' (lp_queue l)\<rparr>"
  obtain r where r: "apply_proposal_to_config (lp_config l) p = Inr r"
    using assms by (cases "apply_proposal_to_config (lp_config l) p")
      (simp_all add: evaluate_admitted_def upd_queue_def throw_def)
  show ?thesis
  proof (cases r)
    case None
    then show ?thesis using assms r
      by (simp add: evaluate_admitted_def upd_queue_def record_outcome_of_def)
  next
    case (Some c)
    obtain i o' w where j: "judge rng a (lp_config l) c = Inr (i, o', w)"
      using assms r Some by (cases "judge rng a (lp_config l) c")
        (auto simp: evaluate_admitted_def upd_queue_def throw_def)
    obtain d where d: "direction_of p = Inr d"
      using assms r Some j by (cases "direction_of p")
        (auto simp: evaluate_admitted_def upd_queue_def throw_def andthen_run [OF lemit_run])
    show ?thesis using assms r Some j d
      by (auto simp: evaluate_admitted_def upd_queue_def andthen_run [OF lemit_run]
          dest: judged_bundle [OF _ r [unfolded Some]])
  qed
qed

lemma evolve_bundle:
  assumes "evolve rp rng a l = (Inr (Ev_bundle b), l')"
  shows "good_bundle (lp_config l) b"
proof -
  obtain obs l1 where l1: "learn l = (Inr obs, l1)"
    and 1: "bnd (run_propose rp obs) (\<lambda>op. case op of
         None \<Rightarrow> ret Ev_none
       | Some p \<Rightarrow>
           andthen (emit_proposal p)
          (bnd (governor_admit rp p) (\<lambda>(admitted, reason).
             if \<not> admitted
             then andthen (upd_queue (queue_add p ''blocked''))
                 (andthen (upd_queue (queue_update (pr_id p) (\<lambda>q. q\<lparr>qe_verdict := Some [(''blocked'', PStr reason)]\<rparr>)))
                    (ret (Ev_blocked p reason)))
             else evaluate_admitted rp rng a p))) l1 = (Inr (Ev_bundle b), l')"
    using assms unfolding evolve_def bnd_Inr_iff [of learn] by blast
  obtain op l2 where l2: "run_propose rp obs l1 = (Inr op, l2)" and op: "op \<noteq> None"
    using 1 unfolding bnd_Inr_iff [of "run_propose rp obs"] by (auto split: option.splits)
  then obtain p where p: "op = Some p" by blast
  obtain l3 where l3: "emit_proposal p l2 = (Inr (), l3)"
    by (simp add: emit_proposal_def lemit_run)
  obtain ad re l4 where l4: "governor_admit rp p l3 = (Inr (ad, re), l4)"
    by (cases "gov_admit rp p (lp_governor l3)") (auto simp: governor_admit_def)
  have "ad \<and> evaluate_admitted rp rng a p l4 = (Inr (Ev_bundle b), l')"
    using 1 by (cases ad) (simp_all add: bnd_run [of "run_propose rp obs", OF l2] p andthen_run [of "emit_proposal p", OF l3]
        bnd_run [of "governor_admit rp p", OF l4] upd_queue_def)
  moreover have "lp_config l4 = lp_config l"
    using keepsD [OF cfg_learn, of l] keepsD [OF cfg_modifies(4), of l1 rp obs] keepsD [OF cfg_modifies(2), of l3 rp p]
      l1 l2 l3 l4 by (auto simp: same_config_def emit_proposal_def lemit_run)
  ultimately show ?thesis using evaluate_bundle by metis
qed

section \<open>Only a merge changes the configuration\<close>

text \<open>
  The life of a loop: it starts on a safe configuration or on whatever the configuration file
  loads to, runs any of its calls in any order (a call that raises included), and a pull request
  of an earlier evolution cycle may be merged at any later time. \<open>prs\<close> are the bundles with a
  pull request so far and \<open>merges\<close> the configurations adopted, oldest first: the loop keeps
  neither, they are the history the theorem is about.
\<close>
inductive loop_life ::
  "(pyval \<Rightarrow> string) \<Rightarrow> (int \<Rightarrow> nat \<Rightarrow> real) \<Rightarrow> CognitiveLoop \<Rightarrow> Bundle list \<Rightarrow> CognitiveConfig list \<Rightarrow> bool"
  for rp rng where
  ll_start: "new_loop cfg raw_file st reg cap = Inr l \<Longrightarrow> (case cfg of None \<Rightarrow> True | Some c \<Rightarrow> config_safe c)
    \<Longrightarrow> loop_life rp rng l [] [lp_config l]"
| ll_step: "loop_life rp rng l prs ms \<Longrightarrow> loop_life rp rng (snd (loop_step m e p x d t l)) prs ms"
| ll_close: "loop_life rp rng l prs ms \<Longrightarrow> loop_life rp rng (snd (close_trade rp t tr l)) prs ms"
| ll_drift: "loop_life rp rng l prs ms \<Longrightarrow> loop_life rp rng (snd (detect_drift l)) prs ms"
| ll_learn: "loop_life rp rng l prs ms \<Longrightarrow> loop_life rp rng (snd (learn l)) prs ms"
| ll_evolve: "loop_life rp rng l prs ms \<Longrightarrow> evolve rp rng a l = (r, l')
    \<Longrightarrow> prs' = (case r of Inr (Ev_bundle b) \<Rightarrow> if bn_pull_request b \<noteq> None then prs @ [b] else prs | _ \<Rightarrow> prs)
    \<Longrightarrow> loop_life rp rng l' prs' ms"
| ll_merge: "loop_life rp rng l prs ms \<Longrightarrow> b \<in> set prs
    \<Longrightarrow> loop_life rp rng (snd (merge_config (bn_candidate b) sharpe dd (Some (pr_id (bn_proposal b))) l)) prs
          (ms @ [bn_candidate b])"

lemma merge_sets: "lp_config (snd (merge_config c s d i l)) = c"
  by (cases i) (simp_all add: merge_config_def upd_queue_def emit_config_version_def lemit_run Let_def
      andthen_def bnd_def)

lemma load_config_result: "load_config raw_file = Inr c \<Longrightarrow> config_safe c"
  using default_config_safe
  by (auto simp: load_config_def Let_def dest!: from_valid_dict split: option.splits if_splits pyval.splits)

lemma new_loop_config:
  assumes "new_loop cfg raw_file st reg cap = Inr l" "case cfg of None \<Rightarrow> True | Some c \<Rightarrow> config_safe c"
  shows "config_safe (lp_config l)"
proof -
  obtain c where c: "(case cfg of Some c \<Rightarrow> Inr c | None \<Rightarrow> load_config raw_file) = Inr c" "lp_config l = c"
    using assms(1) by (auto simp: new_loop_def res_bind_Inr_iff Let_def emit_config_version_def lemit_run bnd_def)
  then show ?thesis using assms(2) load_config_result by (auto split: option.splits)
qed

text \<open>the history a life must have: what was merged, and where every pull request came from\<close>
definition history_ok :: "CognitiveLoop \<Rightarrow> Bundle list \<Rightarrow> CognitiveConfig list \<Rightarrow> bool" where
  "history_ok l prs ms \<longleftrightarrow> ms \<noteq> [] \<and> lp_config l = last ms \<and> list_all config_safe ms
     \<and> list_all (\<lambda>b. evidence b \<and> config_safe (bn_candidate b)
          \<and> list_ex (\<lambda>c. apply_proposal_to_config c (bn_proposal b) = Inr (Some (bn_candidate b))) ms) prs
     \<and> list_all (\<lambda>c. c \<in> bn_candidate ` set prs) (tl ms)"

lemma history_frame: "history_ok l prs ms \<Longrightarrow> lp_config l' = lp_config l \<Longrightarrow> history_ok l' prs ms"
  by (simp add: history_ok_def)

lemma history_keeps: "history_ok l prs ms \<Longrightarrow> keeps same_config m \<Longrightarrow> history_ok (snd (m l)) prs ms"
  using keepsD by (fastforce intro: history_frame simp: same_config_def)

lemma history_new_pr:
  assumes "history_ok l prs ms" "good_bundle (lp_config l) b" "bn_pull_request b \<noteq> None"
  shows "history_ok l (prs @ [b]) ms"
proof -
  have "config_safe (bn_candidate b)" using assms(2) apply_proposal_safe by (auto simp: good_bundle_def)
  then show ?thesis using assms
    by (auto simp: history_ok_def good_bundle_def list_ex_iff list_all_iff)
qed

lemma history_merge:
  assumes "history_ok l prs ms" "b \<in> set prs" "lp_config l' = bn_candidate b"
  shows "history_ok l' prs (ms @ [bn_candidate b])"
  using assms by (auto simp: history_ok_def list_all_iff)

lemma life_history: "loop_life rp rng l prs ms \<Longrightarrow> history_ok l prs ms"
proof (induction rule: loop_life.induct)
  case (ll_start cfg raw_file st reg cap l)
  then show ?case using new_loop_config by (auto simp: history_ok_def)
next
  case (ll_evolve l prs ms a r l' prs')
  have c: "history_ok l' prs ms" using history_keeps [OF ll_evolve.IH cfg_evolve] ll_evolve(2) by (metis snd_conv)
  have same: "lp_config l' = lp_config l"
    using keepsD [OF cfg_evolve, of l rp rng a] ll_evolve(2) by (simp add: same_config_def)
  show ?case using c history_new_pr [OF c] evolve_bundle same ll_evolve(2,3)
    by (auto split: sum.splits evolve_result.splits)
next
  case (ll_merge l prs ms b sharpe dd)
  then show ?case using history_merge merge_sets by blast
qed (blast intro: history_keeps cfg_step cfg_close cfg_detect_drift cfg_learn)+




section \<open>What the queue remembers\<close>

lemma emit_all_run: "\<exists>st. emit_all k s ps l = (Inr (), l\<lparr>lp_stream := st\<rparr>)"
proof (induction ps arbitrary: l)
  case Nil
  show ?case by (intro exI [of _ "lp_stream l"]) simp
next
  case (Cons p ps)
  obtain st where "emit_all k s ps (l\<lparr>lp_stream := emit k p [] s [] (lp_stream l)\<rparr>)
      = (Inr (), l\<lparr>lp_stream := emit k p [] s [] (lp_stream l)\<rparr>\<lparr>lp_stream := st\<rparr>)" using Cons.IH by blast
  then show ?case by (auto simp: andthen_run [OF lemit_run])
qed

lemma learn_run:
  assumes "observe (lp_learning l) (importance_metadata (lp_importance l)) = Inr obs"
  shows "\<exists>st. learn l = (Inr obs, l\<lparr>lp_stream := st\<rparr>)"
proof -
  let ?md = "importance_metadata (lp_importance l)"
  obtain st where 1: "emit_all OBSERVATION ''learning_engine'' (map observation_as_dict obs) l = (Inr (), l\<lparr>lp_stream := st\<rparr>)"
    using emit_all_run by blast
  obtain st' where 2: "emit_all GRADE ''learning_engine'' (agent_grades ?md) (l\<lparr>lp_stream := st\<rparr>)
      = (Inr (), l\<lparr>lp_stream := st\<rparr>\<lparr>lp_stream := st'\<rparr>)" using emit_all_run by blast
  show ?thesis using assms 1 2
    by (auto simp: learn_def andthen_run [of "emit_all OBSERVATION ''learning_engine'' (map observation_as_dict obs)", OF 1]
        andthen_run [of "emit_all GRADE ''learning_engine'' (agent_grades ?md)", OF 2])
qed

text \<open>the entry a blocked proposal leaves on the queue: its status says blocked, its verdict stays empty\<close>
definition blocked_entry :: "Proposal \<Rightarrow> QueueEntry" where
  "blocked_entry p = \<lparr>qe_proposal = p, qe_status = ''blocked'', qe_verdict = None, qe_delta = None,
     qe_pull_request = None, qe_proposal_grade = None\<rparr>"

text \<open>When the governor refuses a proposal whose identifier is already on the queue (a rejected proposal
  proposed again during its cooldown), the refusal is written over the verdict of the oldest entry
  with that identifier: the challenger's reasons recorded there are lost, and the new entry keeps
  no reason at all.\<close>
theorem blocked_repeat_overwrites_verdict:
  assumes "lp_proposal_agent l = ProposalAgent step conf"
    and "observe (lp_learning l) (importance_metadata (lp_importance l)) = Inr obs"
    and "propose rp step conf obs (lp_config l) (Some (lp_scorecard l)) = Inr (Some p)"
    and "gov_admit rp p (lp_governor l) = ((False, reason), g)"
    and "lp_queue l = before @ q # rest" "pr_id (qe_proposal q) = pr_id p"
    and "list_all (\<lambda>q'. pr_id (qe_proposal q') \<noteq> pr_id p) before"
  shows "\<exists>l'. evolve rp rng a l = (Inr (Ev_blocked p reason), l')
    \<and> lp_queue l' = before @ q\<lparr>qe_verdict := Some [(''blocked'', PStr reason)]\<rparr> # rest @ [blocked_entry p]"
proof -
  obtain st where 1: "learn l = (Inr obs, l\<lparr>lp_stream := st\<rparr>)" using learn_run [OF assms(2)] by blast
  have 2: "run_propose rp obs (l\<lparr>lp_stream := st\<rparr>) = (Inr (Some p), l\<lparr>lp_stream := st\<rparr>)"
    using assms(1,3) by (simp add: run_propose_def)
  obtain st' where 3: "emit_proposal p (l\<lparr>lp_stream := st\<rparr>) = (Inr (), l\<lparr>lp_stream := st'\<rparr>)"
    by (auto simp: emit_proposal_def lemit_run)
  have 4: "governor_admit rp p (l\<lparr>lp_stream := st'\<rparr>) = (Inr (False, reason), l\<lparr>lp_stream := st', lp_governor := g\<rparr>)"
    using assms(4) by (simp add: governor_admit_def)
  have u: "queue_update (pr_id p) f (before @ q # zs) = before @ f q # zs" for f zs
    using assms(6,7) by (induction before) auto
  show ?thesis using u
    by (simp add: evolve_def bnd_run [of learn, OF 1] bnd_run [of "run_propose rp obs", OF 2]
        andthen_run [of "emit_proposal p", OF 3] bnd_run [of "governor_admit rp p", OF 4]
        upd_queue_def queue_add_def assms(5) blocked_entry_def)
qed


definition strong_tech :: importance where
  "strong_tech = [(''tech'', \<lparr>sa_samples = 90, sa_abs_contribution = 9, sa_pnl = 1, sa_correct = 90\<rparr>)]"

lemma strong_tech_observed:
  "\<exists>ob. observe default_learning (importance_metadata strong_tech) = Inr [ob]
     \<and> ob_signal ob = ''tech'' \<and> ob_confidence ob = 1 \<and> ob_direction ob = ''outperforming''"
  by (simp add: strong_tech_def importance_metadata_def acc_stats_def observe_signal_def default_learning_def
      make_observation_def observation_confidence_def Let_def)

lemma strong_tech_proposed:
  assumes "ob_signal ob = ''tech''" "ob_confidence ob = 1"
  shows "\<exists>p. propose rp WEIGHT_STEP MIN_OBSERVATION_CONFIDENCE [ob] DEFAULT_CONFIG (Some []) = Inr (Some p)
    \<and> pr_target p = ''weights.tech''"
proof -
  have "decimals 6 (33 / 100)" by (auto simp: decimals_def intro!: exI [of _ 330000])
  then have a: "py_round 6 (33 / 100) = 33 / 100" by (rule py_round_decimals)
  have b: "py_round 4 (147 / 400) * 100 \<noteq> 33" "py_round 4 (117 / 400) * 100 \<noteq> 33"
    using py_round_near [of 4 "147 / 400"] py_round_near [of 4 "117 / 400"] by auto
  show ?thesis
    by (simp add: propose_def assms WEIGHT_KEYS_def DEFAULT_CONFIG_def Let_def weight_change_def
        required_confidence_def success_rate_def SCORECARD_PRIOR_def MIN_OBSERVATION_CONFIDENCE_def
        WEIGHT_STEP_def clamp_weight_def WEIGHT_BOUNDS_def a b)
qed

definition a_cycle :: evolve_args where
  "a_cycle = \<lparr>ea_prices = [], ea_split = 1 / 2, ea_seed = 0, ea_base_ref = ''main'', ea_news = None, ea_folds = 4\<rparr>"

lemma fresh_parts:
  "\<exists>l. new_loop (Some DEFAULT_CONFIG) None None None cap = Inr l \<and> lp_learning l = default_learning
     \<and> lp_config l = DEFAULT_CONFIG \<and> lp_scorecard l = []
     \<and> lp_proposal_agent l = ProposalAgent WEIGHT_STEP MIN_OBSERVATION_CONFIDENCE"
  by (simp add: new_loop_def default_agents emit_config_version_def lemit_run bnd_def)

theorem blocked_repeat_overwrites_verdict_witness:
  "\<exists>l p l'. list_ex (\<lambda>q. qe_verdict q = Some [(''approved'', PBool False)]) (lp_queue l)
     \<and> evolve (\<lambda>_. []) (\<lambda>_ _. 0) a_cycle l = (Inr (Ev_blocked p ''cooldown''), l')
     \<and> map qe_verdict (lp_queue l') = [Some [(''blocked'', PStr ''cooldown'')], None]"
proof -
  let ?rp = "\<lambda>_. []"
  obtain ob where ob: "observe default_learning (importance_metadata strong_tech) = Inr [ob]"
     "ob_signal ob = ''tech''" "ob_confidence ob = 1" using strong_tech_observed by blast
  obtain p where p: "propose ?rp WEIGHT_STEP MIN_OBSERVATION_CONFIDENCE [ob] DEFAULT_CONFIG (Some []) = Inr (Some p)"
    "pr_target p = ''weights.tech''" using strong_tech_proposed [OF ob(2,3)] by blast
  obtain l0 :: CognitiveLoop where l0: "lp_learning l0 = default_learning" "lp_config l0 = DEFAULT_CONFIG" "lp_scorecard l0 = []"
    "lp_proposal_agent l0 = ProposalAgent WEIGHT_STEP MIN_OBSERVATION_CONFIDENCE"
    using fresh_parts [of 100] by blast
  let ?q = "(blocked_entry p)\<lparr>qe_status := ''rejected'', qe_verdict := Some [(''approved'', PBool False)]\<rparr>"
  let ?g = "gov_record_outcome p False (new_governor 3 10 5)"
  let ?l = "l0\<lparr>lp_importance := strong_tech, lp_governor := ?g, lp_queue := [?q]\<rparr>"
  have g: "gov_admit ?rp p ?g = ((False, ''cooldown''), snd (gov_admit ?rp p ?g))"
    by (simp add: gov_admit_def gov_advance_def gov_record_outcome_def new_governor_def gov_block_def Let_def p(2))
  obtain l' where "evolve ?rp (\<lambda>_ _. 0) a_cycle ?l = (Inr (Ev_blocked p ''cooldown''), l')"
    "lp_queue l' = [] @ ?q\<lparr>qe_verdict := Some [(''blocked'', PStr ''cooldown'')]\<rparr> # [] @ [blocked_entry p]"
    using blocked_repeat_overwrites_verdict [of ?l WEIGHT_STEP MIN_OBSERVATION_CONFIDENCE "[ob]" ?rp p "''cooldown''"
        "snd (gov_admit ?rp p ?g)" "[]" ?q "[]" "\<lambda>_ _. 0" a_cycle] l0 ob(1) p(1) g
    by (auto simp: blocked_entry_def)
  then show ?thesis by (intro exI [of _ ?l] exI [of _ p] exI [of _ l']) (simp add: blocked_entry_def)
qed

end
