(* ===== verification/Event_Bus.thy ===== *)
theory Event_Bus
  imports Effects "HOL-Library.Product_Lexorder" "HOL-Library.List_Lexorder" "HOL-Library.Char_ord"
begin

text \<open>
  The event bus over Redis streams (\<open>api/events/bus.py\<close>) and the dead-letter queue
  (\<open>api/events/dlq.py\<close>). The state \<open>bus\<close> is what Redis documents for streams: per stream the entries
  with strictly increasing ids and the last id generated, per consumer group the last id delivered and
  the pending entries with their delivery time; besides, the dead-letter hashes and the retry counters.
  \<open>bus_env\<close> is one call's view of the outside: clock, printing, JSON, how many entries an approximate
  trim drops, and which Redis calls raise.
\<close>

section \<open>State and environment\<close>

type_synonym msg_id = "nat \<times> nat"

datatype bus_call = B_xadd | B_xread | B_xack | B_group_create | B_group_info | B_set_id | B_claim | B_info
  | B_hset | B_hget | B_hdel | B_incr | B_expire | B_del

record bus_env =
  be_rp :: "pyval \<Rightarrow> string"
  be_dumps :: "pyval \<Rightarrow> string option"
  be_loads :: "string \<Rightarrow> pyval option"
  be_now_iso :: string
  be_ms :: nat
  be_trim :: nat
  be_fault :: "bus_call \<Rightarrow> bool"

record stream_state =
  ss_entries :: "(msg_id \<times> (string \<times> string) list) list"
  ss_last :: msg_id

record group_state =
  gr_last :: msg_id
  gr_pending :: "(msg_id \<times> nat) list"

record dlq_record =
  dq_stream :: string
  dq_event_id :: string
  dq_payload :: pydict
  dq_error :: string
  dq_retries :: int
  dq_timestamp :: string

record bus =
  bu_streams :: "string \<Rightarrow> stream_state option"
  bu_groups :: "string \<times> string \<Rightarrow> group_state option"
  bu_dlq :: "string \<Rightarrow> (string \<times> dlq_record) list"
  bu_retries :: "string \<Rightarrow> int"

type_synonym 'a brun = "(bus, 'a) eff"

definition STREAMS :: "string list" where
  "STREAMS = [''market_events'', ''market_ticks'', ''signals'', ''decisions'', ''graded_decisions'', ''orders'',
     ''executions'', ''trade_completed'', ''trade_performance'', ''risk_alerts'', ''learning_events'',
     ''system_metrics'', ''agent_logs'', ''agent_grades'', ''factor_ic_history'', ''reflection_outputs'',
     ''proposals'', ''notifications'', ''github_prs'', ''trade_lifecycle'', ''dlq'', ''sell_rejected'']"

definition DEFAULT_GROUP :: string where "DEFAULT_GROUP = ''workers''"
definition PIPELINE_GROUP :: string where "PIPELINE_GROUP = ''broadcast_pipeline''"
definition DB_SCHEMA_VERSION :: string where "DB_SCHEMA_VERSION = ''v3''"
definition DLQ_MAX_RETRIES :: int where "DLQ_MAX_RETRIES = 3"

definition id_text :: "msg_id \<Rightarrow> string" where
  "id_text i = nat_str (fst i) @ ''-'' @ nat_str (snd i)"

section \<open>Serialisation\<close>

text \<open>\<open>bool\<close> is an \<open>int\<close>, so it is printed, not dumped\<close>
definition serialize :: "bus_env \<Rightarrow> pyval \<Rightarrow> string" where
  "serialize e v = (case v of
       PNone \<Rightarrow> []
     | PStr s \<Rightarrow> s
     | PInt _ \<Rightarrow> py_str (be_rp e) v
     | PFloat _ \<Rightarrow> py_str (be_rp e) v
     | PBool _ \<Rightarrow> py_str (be_rp e) v
     | _ \<Rightarrow> (case be_dumps e v of Some t \<Rightarrow> t | None \<Rightarrow> py_str (be_rp e) v))"

definition json_start :: "string \<Rightarrow> bool" where
  "json_start s \<longleftrightarrow> s \<noteq> [] \<and> hd s \<in> {CHR ''{'', CHR ''['', CHR 0x22}"

definition deserialize :: "bus_env \<Rightarrow> string \<Rightarrow> pyval" where
  "deserialize e s =
     (if py_lower s = ''true'' then PBool True
      else if py_lower s = ''false'' then PBool False
      else if json_start s then (case be_loads e s of Some v \<Rightarrow> v | None \<Rightarrow> PStr s)
      else PStr s)"

definition decode_fields :: "bus_env \<Rightarrow> (string \<times> string) list \<Rightarrow> pydict" where
  "decode_fields e fs = dmerge [] (map (\<lambda>(k, v). (k, deserialize e v)) fs)"

definition decode_entries :: "bus_env \<Rightarrow> (msg_id \<times> (string \<times> string) list) list \<Rightarrow> (msg_id \<times> pydict) list" where
  "decode_entries e es = map (\<lambda>(i, fs). (i, decode_fields e fs)) es"

text \<open>the event with its defaults, as the fields of one entry\<close>
definition with_defaults :: "bus_env \<Rightarrow> pydict \<Rightarrow> pydict" where
  "with_defaults e event =
     setdefault ''timestamp'' (PStr (be_now_iso e)) (setdefault ''schema_version'' (PStr DB_SCHEMA_VERSION) event)"

definition serialize_event :: "bus_env \<Rightarrow> pydict \<Rightarrow> (string \<times> string) list" where
  "serialize_event e event = map (\<lambda>(k, v). (k, serialize e v)) (with_defaults e event)"

section \<open>Streams\<close>

definition empty_stream :: stream_state where
  "empty_stream = \<lparr>ss_entries = [], ss_last = (0, 0)\<rparr>"

definition stream_of :: "bus \<Rightarrow> string \<Rightarrow> stream_state" where
  "stream_of b stream = (case bu_streams b stream of None \<Rightarrow> empty_stream | Some s \<Rightarrow> s)"

text \<open>an id greater than every earlier one of the stream\<close>
definition next_id :: "nat \<Rightarrow> msg_id \<Rightarrow> msg_id" where
  "next_id ms l = (if fst l < ms then (ms, 0) else (fst l, Suc (snd l)))"

definition xadd :: "bus_env \<Rightarrow> string \<Rightarrow> (string \<times> string) list \<Rightarrow> nat \<Rightarrow> bus \<Rightarrow> msg_id \<times> bus" where
  "xadd e stream fs trim b =
     (let s = stream_of b stream; i = next_id (be_ms e) (ss_last s)
      in (i, b\<lparr>bu_streams := (bu_streams b)(stream \<mapsto>
             \<lparr>ss_entries = drop trim (ss_entries s @ [(i, fs)]), ss_last = i\<rparr>)\<rparr>))"

text \<open>\<open>publish\<close>: None when the write was swallowed\<close>
definition publish :: "bus_env \<Rightarrow> string \<Rightarrow> pydict \<Rightarrow> nat option \<Rightarrow> bus \<Rightarrow> msg_id option \<times> bus" where
  "publish e stream event maxlen b =
     (if be_fault e B_xadd then (None, b)
      else let trim = (case maxlen of Some n \<Rightarrow> if n > 0 then be_trim e else 0 | None \<Rightarrow> 0)
           in case xadd e stream (serialize_event e event) trim b of (i, b') \<Rightarrow> (Some i, b'))"

text \<open>\<open>XGROUP CREATE ... MKSTREAM\<close>; True when the group was created, False on BUSYGROUP\<close>
definition group_create :: "string \<Rightarrow> string \<Rightarrow> bool \<Rightarrow> bus \<Rightarrow> bool \<times> bus" where
  "group_create stream grp from_end b = (case bu_groups b (stream, grp) of
       Some _ \<Rightarrow> (False, b)
     | None \<Rightarrow> (True, b\<lparr>bu_streams := (bu_streams b)(stream \<mapsto> stream_of b stream),
         bu_groups := (bu_groups b)((stream, grp) \<mapsto>
           \<lparr>gr_last = (if from_end then ss_last (stream_of b stream) else (0, 0)), gr_pending = []\<rparr>)\<rparr>))"

definition ensure_stream_and_group :: "bus_env \<Rightarrow> string \<Rightarrow> string \<Rightarrow> bus \<Rightarrow> bus" where
  "ensure_stream_and_group e stream grp b =
     (if be_fault e B_group_create then b else snd (group_create stream grp True b))"

definition create_consumer_group :: "bus_env \<Rightarrow> string \<Rightarrow> string \<Rightarrow> bool \<Rightarrow> unit brun" where
  "create_consumer_group e stream grp from_end =
     andthen (guard_fault (be_fault e B_group_create)) (modify (\<lambda>b. snd (group_create stream grp from_end b)))"

text \<open>entries behind the group's position\<close>
definition undelivered :: "stream_state \<Rightarrow> group_state \<Rightarrow> (msg_id \<times> (string \<times> string) list) list" where
  "undelivered s g = filter (\<lambda>(i, _). gr_last g < i) (ss_entries s)"

definition deliver :: "bus_env \<Rightarrow> (msg_id \<times> (string \<times> string) list) list \<Rightarrow> group_state \<Rightarrow> group_state" where
  "deliver e new g = (if new = [] then g
     else \<lparr>gr_last = fst (last new), gr_pending = gr_pending g @ map (\<lambda>(i, _). (i, be_ms e)) new\<rparr>)"

text \<open>\<open>XREADGROUP\<close> with \<open>>\<close>: only entries never delivered to the group\<close>
definition consume :: "bus_env \<Rightarrow> string \<Rightarrow> string \<Rightarrow> nat \<Rightarrow> bus \<Rightarrow> (msg_id \<times> pydict) list \<times> bus" where
  "consume e stream grp count b =
     (if be_fault e B_xread then ([], b)
      else case bu_groups b (stream, grp) of
        None \<Rightarrow> ([], ensure_stream_and_group e stream grp b)
      | Some g \<Rightarrow>
          let new = take count (undelivered (stream_of b stream) g)
          in (decode_entries e new, b\<lparr>bu_groups := (bu_groups b)((stream, grp) \<mapsto> deliver e new g)\<rparr>))"

definition xack :: "msg_id list \<Rightarrow> group_state \<Rightarrow> group_state" where
  "xack ids g = g\<lparr>gr_pending := filter (\<lambda>(i, _). i \<notin> set ids) (gr_pending g)\<rparr>"

definition acknowledge :: "bus_env \<Rightarrow> string \<Rightarrow> string \<Rightarrow> msg_id list \<Rightarrow> bus \<Rightarrow> nat \<times> bus" where
  "acknowledge e stream grp ids b =
     (if ids = [] \<or> be_fault e B_xack then (0, b)
      else case bu_groups b (stream, grp) of
        None \<Rightarrow> (0, b)
      | Some g \<Rightarrow> (length (gr_pending g) - length (gr_pending (xack ids g)),
          b\<lparr>bu_groups := (bu_groups b)((stream, grp) \<mapsto> xack ids g)\<rparr>))"

definition AUTOCLAIM_COUNT :: nat where "AUTOCLAIM_COUNT = 100"

text \<open>\<open>XAUTOCLAIM\<close> from the start: the idle pending entries, at most a hundred, delivered again\<close>
definition reclaimable :: "bus_env \<Rightarrow> nat \<Rightarrow> group_state \<Rightarrow> msg_id list" where
  "reclaimable e min_idle g =
     take AUTOCLAIM_COUNT (map fst (filter (\<lambda>(_, t). t + min_idle \<le> be_ms e) (gr_pending g)))"

definition reclaim_stale :: "bus_env \<Rightarrow> string \<Rightarrow> string \<Rightarrow> nat \<Rightarrow> bus \<Rightarrow> (msg_id \<times> pydict) list \<times> bus" where
  "reclaim_stale e stream grp min_idle b =
     (if be_fault e B_claim then ([], b)
      else case bu_groups b (stream, grp) of
        None \<Rightarrow> ([], ensure_stream_and_group e stream grp b)
      | Some g \<Rightarrow>
          let ids = reclaimable e min_idle g; es = ss_entries (stream_of b stream)
          in (decode_entries e (filter (\<lambda>(i, _). i \<in> set ids) es),
              b\<lparr>bu_groups := (bu_groups b)((stream, grp) \<mapsto>
                g\<lparr>gr_pending := map (\<lambda>(i, t). (i, if i \<in> set ids then be_ms e else t))
                   (filter (\<lambda>(i, _). i \<in> set ids \<longrightarrow> i \<in> fst ` set es) (gr_pending g))\<rparr>)\<rparr>))"

section \<open>Start-up\<close>

text \<open>\<open>_maybe_fastforward_group\<close>: a group at the beginning with nothing pending jumps to the end\<close>
definition maybe_fastforward_group :: "bus_env \<Rightarrow> string \<Rightarrow> bus \<Rightarrow> bus" where
  "maybe_fastforward_group e stream b =
     (if be_fault e B_group_info \<or> be_fault e B_set_id then b
      else case bu_groups b (stream, DEFAULT_GROUP) of
        None \<Rightarrow> b
      | Some g \<Rightarrow>
          if gr_pending g = [] \<and> gr_last g \<in> {(0, 0), (0, 1)}
          then b\<lparr>bu_groups := (bu_groups b)((stream, DEFAULT_GROUP) \<mapsto> g\<lparr>gr_last := ss_last (stream_of b stream)\<rparr>)\<rparr>
          else b)"

definition create_group :: "bus_env \<Rightarrow> string \<Rightarrow> string \<Rightarrow> unit brun" where
  "create_group e stream grp =
     andthen (guard_fault (be_fault e B_group_create))
       (modify (\<lambda>b. case group_create stream grp True b of
          (True, b') \<Rightarrow> b'
        | (False, b') \<Rightarrow> if grp = DEFAULT_GROUP then maybe_fastforward_group e stream b' else b'))"

fun create_groups :: "bus_env \<Rightarrow> string list \<Rightarrow> unit brun" where
  "create_groups e [] = ret ()"
| "create_groups e (s # ss) =
     andthen (create_group e s DEFAULT_GROUP) (andthen (create_group e s PIPELINE_GROUP) (create_groups e ss))"

definition missing_groups :: "bus_env \<Rightarrow> bus \<Rightarrow> string \<Rightarrow> (string \<times> string) list" where
  "missing_groups e b s =
     (if be_fault e B_group_info then [(s, DEFAULT_GROUP), (s, PIPELINE_GROUP)]
      else filter (\<lambda>k. bu_groups b k = None) [(s, DEFAULT_GROUP), (s, PIPELINE_GROUP)])"

definition ensure_all_streams_ready :: "bus_env \<Rightarrow> unit brun" where
  "ensure_all_streams_ready e =
     andthen (create_groups e STREAMS)
       (modify (\<lambda>b. fold (\<lambda>(s, g). ensure_stream_and_group e s g) (concat (map (missing_groups e b) STREAMS)) b))"

record stream_info =
  si_length :: nat
  si_lag :: nat
  si_groups :: nat

text \<open>\<open>names\<close> are the groups Redis lists for the stream\<close>
definition get_stream_info :: "bus_env \<Rightarrow> (string \<Rightarrow> string list) \<Rightarrow> bus \<Rightarrow> (string \<times> stream_info) list" where
  "get_stream_info e names b = map (\<lambda>s. (s,
     if be_fault e B_info then \<lparr>si_length = 0, si_lag = 0, si_groups = 0\<rparr>
     else let gs = (if be_fault e B_group_info then [] else List.map_filter (\<lambda>n. bu_groups b (s, n)) (names s))
          in \<lparr>si_length = length (ss_entries (stream_of b s)),
              si_lag = fold max (map (\<lambda>g. length (gr_pending g)) gs) 0, si_groups = length gs\<rparr>)) STREAMS"

section \<open>Dead letters\<close>

definition dlq_push :: "bus_env \<Rightarrow> string \<Rightarrow> string \<Rightarrow> pydict \<Rightarrow> string \<Rightarrow> int \<Rightarrow> unit brun" where
  "dlq_push e stream event_id payload err retries =
     andthen (guard_fault (be_fault e B_hset))
       (modify (\<lambda>b. b\<lparr>bu_dlq := (bu_dlq b)(stream := dset event_id
          \<lparr>dq_stream = stream, dq_event_id = event_id, dq_payload = payload, dq_error = err, dq_retries = retries,
           dq_timestamp = be_now_iso e\<rparr> (bu_dlq b stream))\<rparr>))"

definition should_dlq :: "bus_env \<Rightarrow> string \<Rightarrow> bool brun" where
  "should_dlq e event_id =
     andthen (guard_fault (be_fault e B_incr))
    (andthen (modify (\<lambda>b. b\<lparr>bu_retries := (bu_retries b)(event_id := bu_retries b event_id + 1)\<rparr>))
    (andthen (guard_fault (be_fault e B_expire))
       (gets (\<lambda>b. bu_retries b event_id \<ge> DLQ_MAX_RETRIES))))"

definition dlq_items :: "bus \<Rightarrow> dlq_record list" where
  "dlq_items b = concat (map (\<lambda>s. map snd (bu_dlq b s)) STREAMS)"

text \<open>\<open>sort(reverse=True)\<close> keeps the order of equal keys\<close>
definition get_recent :: "nat \<Rightarrow> bus \<Rightarrow> dlq_record list" where
  "get_recent limit b = take limit (rev (sort_key dq_timestamp (rev (dlq_items b))))"

definition get_all :: "bus \<Rightarrow> dlq_record list" where
  "get_all b = get_recent 10000 b"

record dlq_stats =
  ds_total :: nat
  ds_per_stream :: "(string \<times> nat) list"
  ds_retry_buckets :: "(int \<times> nat) list"
  ds_last_error :: "string option"

definition count_bucket :: "dlq_record \<Rightarrow> (int \<times> nat) list \<Rightarrow> (int \<times> nat) list" where
  "count_bucket r d = dset (dq_retries r) (dget d (dq_retries r) 0 + 1) d"

definition keep_error :: "dlq_record \<Rightarrow> string option \<Rightarrow> string option" where
  "keep_error r l = (if dq_error r \<noteq> [] then Some (dq_error r) else l)"

definition stats :: "bus \<Rightarrow> dlq_stats" where
  "stats b = \<lparr>ds_total = length (dlq_items b), ds_per_stream = map (\<lambda>s. (s, length (bu_dlq b s))) STREAMS,
     ds_retry_buckets = fold count_bucket (dlq_items b) [], ds_last_error = fold keep_error (dlq_items b) None\<rparr>"

text \<open>the deletions over all streams are one write of the model\<close>
definition dlq_clear :: "bus_env \<Rightarrow> string \<Rightarrow> unit brun" where
  "dlq_clear e event_id =
     andthen (guard_fault (be_fault e B_hdel))
    (andthen (modify (\<lambda>b. b\<lparr>bu_dlq := (\<lambda>s. if s \<in> set STREAMS then AList.delete event_id (bu_dlq b s) else bu_dlq b s)\<rparr>))
    (andthen (guard_fault (be_fault e B_del))
       (modify (\<lambda>b. b\<lparr>bu_retries := (bu_retries b)(event_id := 0)\<rparr>))))"

definition dlq_find :: "string \<Rightarrow> bus \<Rightarrow> dlq_record option" where
  "dlq_find event_id b =
     (case List.map_filter (\<lambda>s. map_of (bu_dlq b s) event_id) STREAMS of [] \<Rightarrow> None | r # _ \<Rightarrow> Some r)"

definition dlq_replay :: "bus_env \<Rightarrow> string \<Rightarrow> bool brun" where
  "dlq_replay e event_id =
     andthen (guard_fault (be_fault e B_hget))
    (bnd (gets (dlq_find event_id)) (\<lambda>r. case r of
         None \<Rightarrow> ret False
       | Some rec \<Rightarrow>
           andthen (modify (\<lambda>b. snd (publish e (dq_stream rec) (dq_payload rec) None b)))
          (andthen (dlq_clear e event_id) (ret True))))"

section \<open>What arrives\<close>

text \<open>
  What the bus relies on: JSON gives containers back and its texts look like JSON, booleans print as
  \<open>True\<close> and \<open>False\<close>, and the text of a number is neither a boolean nor looks like JSON.
\<close>
definition plain_text :: "string \<Rightarrow> bool" where
  "plain_text s \<longleftrightarrow> py_lower s \<noteq> ''true'' \<and> py_lower s \<noteq> ''false'' \<and> \<not> json_start s"

definition good_codec :: "bus_env \<Rightarrow> bool" where
  "good_codec e \<longleftrightarrow> (\<forall>v t. be_dumps e v = Some t \<longrightarrow> be_loads e t = Some v \<and> json_start t)
     \<and> be_rp e (PBool True) = ''True'' \<and> be_rp e (PBool False) = ''False''
     \<and> (\<forall>n. plain_text (be_rp e (PInt n))) \<and> (\<forall>x. plain_text (be_rp e (PFloat x)))"

text \<open>the value a subscriber sees: numbers have become text, \<open>None\<close> the empty string\<close>
definition wire_value :: "bus_env \<Rightarrow> pyval \<Rightarrow> pyval" where
  "wire_value e v = (case v of
       PNone \<Rightarrow> PStr []
     | PBool b \<Rightarrow> PBool b
     | PInt n \<Rightarrow> PStr (be_rp e v)
     | PFloat x \<Rightarrow> PStr (be_rp e v)
     | PStr s \<Rightarrow> deserialize e s
     | _ \<Rightarrow> (if be_dumps e v = None then deserialize e (be_rp e v) else v))"

lemma json_start_head: "json_start s \<Longrightarrow> py_lower s \<noteq> ''true'' \<and> py_lower s \<noteq> ''false''"
  by (cases s) (auto simp: json_start_def py_lower_def lower_char_def Let_def)

lemma lower_bools: "py_lower ''True'' = ''true''" "py_lower ''False'' = ''false''" "py_lower [] = []"
  by code_simp+

lemma deserialize_plain: "plain_text s \<Longrightarrow> deserialize e s = PStr s"
  by (simp add: deserialize_def plain_text_def)

lemma deserialize_dumped: "good_codec e \<Longrightarrow> be_dumps e v = Some t \<Longrightarrow> deserialize e t = v"
  by (auto simp: deserialize_def good_codec_def dest: json_start_head)

lemma wire_round_trip:
  assumes "good_codec e"
  shows "deserialize e (serialize e v) = wire_value e v"
proof -
  have num: "deserialize e (be_rp e (PInt n)) = PStr (be_rp e (PInt n))"
      "deserialize e (be_rp e (PFloat x)) = PStr (be_rp e (PFloat x))" for n x
    using assms by (simp_all add: deserialize_plain good_codec_def)
  have bool: "deserialize e (be_rp e (PBool b)) = PBool b" for b
    using assms by (cases b) (simp_all add: good_codec_def deserialize_def lower_bools)
  have cont: "deserialize e (case be_dumps e w of Some t \<Rightarrow> t | None \<Rightarrow> be_rp e w)
      = (if be_dumps e w = None then deserialize e (be_rp e w) else w)" for w
    using deserialize_dumped [OF assms] by (cases "be_dumps e w") auto
  have none: "deserialize e [] = PStr []" by (simp add: deserialize_def json_start_def lower_bools)
  show ?thesis
    by (cases v) (simp_all only: serialize_def wire_value_def py_str_def pyval.case num bool cont none)
qed

section \<open>Delivery\<close>

lemma next_id_greater: "l < next_id ms l"
  by (cases l) (auto simp: next_id_def less_prod_def)

lemma fold_dset_new:
  "distinct (map fst xs) \<Longrightarrow> fst ` set xs \<inter> fst ` set acc = {} \<Longrightarrow> fold (\<lambda>(k, v). dset k v) xs acc = acc @ xs"
proof (induction xs arbitrary: acc)
  case (Cons x xs)
  obtain k v where x: "x = (k, v)" by (cases x)
  have "dset k v acc = acc @ [(k, v)]"
    using Cons.prems x by (induction acc) auto
  then show ?case using Cons.IH [of "acc @ [(k, v)]"] Cons.prems x by auto
qed simp

lemma dmerge_Nil_distinct: "distinct (map fst xs) \<Longrightarrow> dmerge [] xs = xs"
  using fold_dset_new [of xs "[]"] by (simp add: dmerge_def)

lemma keys_setdefault: "distinct (map fst d) \<Longrightarrow> distinct (map fst (setdefault k v d))"
  by (auto simp: setdefault_def map_of_eq_None_iff split: option.splits)

lemma keys_with_defaults: "distinct (map fst d) \<Longrightarrow> distinct (map fst (with_defaults e d))"
  by (simp add: with_defaults_def keys_setdefault)

lemma decode_serialized:
  assumes "good_codec e" "be_loads e2 = be_loads e" "distinct (map fst event)"
  shows "decode_fields e2 (serialize_event e event) = map (\<lambda>(k, v). (k, wire_value e v)) (with_defaults e event)"
proof -
  have d: "deserialize e2 t = deserialize e t" for t using assms(2) by (simp add: deserialize_def)
  have "map (\<lambda>(k, v). (k, deserialize e2 v)) (serialize_event e event)
      = map (\<lambda>(k, v). (k, wire_value e v)) (with_defaults e event)"
    using wire_round_trip [OF assms(1)] d by (auto simp: serialize_event_def)
  moreover have "distinct (map fst (map (\<lambda>(k, v). (k, wire_value e v)) (with_defaults e event)))"
    using keys_with_defaults [OF assms(3)] by (simp add: case_prod_unfold comp_def)
  ultimately show ?thesis unfolding decode_fields_def by (metis dmerge_Nil_distinct)
qed

text \<open>C18: An event published to a stream whose group is up to date is the next thing the group gets, under
  the id the publisher was given: its fields with the schema version and timestamp filled in, containers and
  booleans as they were, but numbers as their text and \<open>None\<close> as the empty string; a text that looks like a
  boolean or JSON is decoded.\<close>
theorem published_event_arrives:
  assumes "good_codec e" "be_loads e2 = be_loads e" "distinct (map fst event)"
    and "\<not> be_fault e B_xadd" "\<not> be_fault e2 B_xread" "0 < n"
    and "bu_groups b (stream, g) = Some gr" "gr_last gr \<le> ss_last (stream_of b stream)"
    and "undelivered (stream_of b stream) gr = []"
  shows "\<exists>i b1. publish e stream event None b = (Some i, b1)
     \<and> fst (consume e2 stream g n b1) = [(i, map (\<lambda>(k, v). (k, wire_value e v)) (with_defaults e event))]"
proof -
  let ?s = "stream_of b stream"
  let ?i = "next_id (be_ms e) (ss_last ?s)" and ?fs = "serialize_event e event"
  let ?b1 = "b\<lparr>bu_streams := (bu_streams b)(stream \<mapsto> \<lparr>ss_entries = ss_entries ?s @ [(?i, ?fs)], ss_last = ?i\<rparr>)\<rparr>"
  have p: "publish e stream event None b = (Some ?i, ?b1)"
    using assms(4) by (simp add: publish_def xadd_def Let_def)
  have "gr_last gr < ?i" using assms(8) next_id_greater by (rule le_less_trans)
  then have "undelivered (stream_of ?b1 stream) gr = [(?i, ?fs)]"
    using assms(9) by (simp add: undelivered_def stream_of_def)
  then have "fst (consume e2 stream g n ?b1) = decode_entries e2 [(?i, ?fs)]"
    using assms(5-7) by (cases n) (simp_all add: consume_def Let_def)
  then show ?thesis using p decode_serialized [OF assms(1-3)] by (simp add: decode_entries_def)
qed

definition empty_bus :: bus where
  "empty_bus = \<lparr>bu_streams = (\<lambda>_. None), bu_groups = (\<lambda>_. None), bu_dlq = (\<lambda>_. []), bu_retries = (\<lambda>_. 0)\<rparr>"

definition bus_env0 :: bus_env where
  "bus_env0 = \<lparr>be_rp = (\<lambda>v. case v of PBool True \<Rightarrow> ''True'' | PBool False \<Rightarrow> ''False'' | _ \<Rightarrow> ''5''),
     be_dumps = (\<lambda>v. if v = PDict [] then Some ''{}'' else None),
     be_loads = (\<lambda>t. if t = ''{}'' then Some (PDict []) else None), be_now_iso = ''t0'', be_ms = 7, be_trim = 0,
     be_fault = (\<lambda>_. False)\<rparr>"

lemma good_codec0: "good_codec bus_env0"
proof -
  have "py_lower ''5'' = ''5''" by code_simp
  then show ?thesis by (auto simp: good_codec_def bus_env0_def plain_text_def json_start_def)
qed

theorem published_event_arrives_witness:
  "\<exists>i b1. publish bus_env0 ''signals'' [(''p'', PInt 5), (''d'', PDict []), (''x'', PNone)] None
       (snd (group_create ''signals'' ''workers'' True empty_bus)) = (Some i, b1)
     \<and> fst (consume bus_env0 ''signals'' ''workers'' 10 b1) = [(i, [(''p'', PStr ''5''), (''d'', PDict []), (''x'', PStr []),
         (''schema_version'', PStr ''v3''), (''timestamp'', PStr ''t0'')])]"
proof -
  have low: "py_lower ''v3'' = ''v3''" "py_lower ''t0'' = ''t0''" by code_simp+
  have "wire_value bus_env0 (PInt 5) = PStr ''5''" "wire_value bus_env0 (PDict []) = PDict []"
    "wire_value bus_env0 PNone = PStr []" "wire_value bus_env0 (PStr ''v3'') = PStr ''v3''"
    "wire_value bus_env0 (PStr ''t0'') = PStr ''t0''"
    by (simp_all add: wire_value_def bus_env0_def deserialize_def low json_start_def)
  then show ?thesis
    using published_event_arrives [OF good_codec0 refl, of "[(''p'', PInt 5), (''d'', PDict []), (''x'', PNone)]" 10
        "snd (group_create ''signals'' ''workers'' True empty_bus)" "''signals''" "''workers''"
        "\<lparr>gr_last = (0, 0), gr_pending = []\<rparr>"]
    by (simp add: group_create_def empty_bus_def stream_of_def empty_stream_def undelivered_def with_defaults_def
        setdefault_def DB_SCHEMA_VERSION_def) (simp add: bus_env0_def)
qed

section \<open>Dead letters\<close>

text \<open>Replaying a dead letter while the bus cannot write drops it: the publish is swallowed, the record is
  cleared all the same, and the caller is told that the replay worked.\<close>
theorem replay_can_drop_the_event:
  assumes "be_fault e B_xadd" "\<not> be_fault e B_hget" "\<not> be_fault e B_hdel" "\<not> be_fault e B_del"
    and "dlq_find event_id b = Some r"
  shows "\<exists>b'. dlq_replay e event_id b = (Inr True, b') \<and> dlq_find event_id b' = None
     \<and> bu_streams b' = bu_streams b"
proof -
  have f: "List.map_filter (\<lambda>s. map_of (if s \<in> set STREAMS then AList.delete event_id (bu_dlq b s) else bu_dlq b s) event_id)
      ss = []" if "set ss \<subseteq> set STREAMS" for ss
    using that by (induction ss) (auto simp: map_filter_simps delete_conv')
  show ?thesis using assms f [of STREAMS]
    by (simp add: dlq_replay_def dlq_clear_def publish_def dlq_find_def eff_defs)
qed

definition dead_bus :: bus where
  "dead_bus = snd (dlq_push bus_env0 ''signals'' ''7-0'' [(''p'', PInt 5)] ''boom'' 3 empty_bus)"

theorem replay_can_drop_the_event_witness:
  "\<exists>b'. dlq_replay (bus_env0\<lparr>be_fault := (\<lambda>c. c = B_xadd)\<rparr>) ''7-0'' dead_bus = (Inr True, b')
     \<and> dlq_find ''7-0'' b' = None \<and> bu_streams b' = bu_streams dead_bus"
proof -
  have "\<exists>r. dlq_find ''7-0'' dead_bus = Some r"
    by (simp add: dead_bus_def dlq_push_def bus_env0_def eff_defs dlq_find_def STREAMS_def empty_bus_def map_filter_simps)
  then obtain r where "dlq_find ''7-0'' dead_bus = Some r" by blast
  then show ?thesis by (intro replay_can_drop_the_event) simp_all
qed

text \<open>
  Ids are per stream, records are found and cleared by the id alone: replaying the first of two records that
  share an id publishes one event and deletes both.
\<close>
lemma replay_clears_the_same_id_everywhere:
  assumes "\<And>c. \<not> be_fault e c" "dlq_find event_id b = Some r" "s \<in> set STREAMS"
  shows "map_of (bu_dlq (snd (dlq_replay e event_id b)) s) event_id = None"
  using assms by (simp add: dlq_replay_def dlq_clear_def publish_def xadd_def Let_def eff_defs delete_conv')

end
