(* ===== verification/Stream_Consumer.thy ===== *)
theory Stream_Consumer
  imports Event_Bus
begin

text \<open>
  The stream consumers (\<open>api/events/consumer.py\<close>, \<open>api/services/agents/base.py\<close>) and their supervisor
  (\<open>api/services/agent_supervisor.py\<close>). \<open>consumer\<close> is the state of one consumer beside the bus: the
  messages handed to \<open>process()\<close> (\<open>cn_handled\<close>) and those it finished (\<open>cn_done\<close>) are the observable
  effect of the subclass; \<open>consumer_env\<close> says how each call of \<open>process()\<close> ends.
\<close>

section \<open>The consumer\<close>

text \<open>how a call of \<open>process()\<close> ends within its time limit\<close>
datatype outcome = Done | Raised py_exc | Hung

record consumer_env =
  ce_bus :: bus_env
  ce_process :: "pydict \<Rightarrow> outcome"
  ce_text :: "py_exc \<Rightarrow> string"
  ce_connection :: "py_exc \<Rightarrow> bool"
  ce_stop_after :: nat

record consumer =
  cn_stream :: string
  cn_group :: string
  cn_bus :: bus
  cn_handled :: "(msg_id \<times> pydict) list"
  cn_done :: "msg_id list"
  cn_events_processed :: nat
  cn_backoff :: nat

type_synonym 'a crun = "(consumer, 'a) eff"

definition on_bus :: "(bus \<Rightarrow> 'a \<times> bus) \<Rightarrow> 'a crun" where
  "on_bus f s = (case f (cn_bus s) of (x, b) \<Rightarrow> (Inr x, s\<lparr>cn_bus := b\<rparr>))"

definition on_bus_eff :: "'a brun \<Rightarrow> 'a crun" where
  "on_bus_eff m s = (case m (cn_bus s) of (r, b) \<Rightarrow> (r, s\<lparr>cn_bus := b\<rparr>))"

definition ack :: "consumer_env \<Rightarrow> msg_id \<Rightarrow> unit crun" where
  "ack e i s = (case on_bus (acknowledge (ce_bus e) (cn_stream s) (cn_group s) [i]) s of (_, s') \<Rightarrow> (Inr (), s'))"

definition push_dead :: "consumer_env \<Rightarrow> msg_id \<Rightarrow> pydict \<Rightarrow> string \<Rightarrow> int \<Rightarrow> unit crun" where
  "push_dead e i data err retries s = on_bus_eff (dlq_push (ce_bus e) (cn_stream s) (id_text i) data err retries) s"

text \<open>\<open>msg_id\<close> falls back to the stream id\<close>
definition backfill :: "msg_id \<Rightarrow> pydict \<Rightarrow> pydict" where
  "backfill i data = (case map_of data ''msg_id'' of
     None \<Rightarrow> dmerge data [(''msg_id'', PStr (id_text i))] | Some _ \<Rightarrow> data)"

text \<open>\<open>schema_version in ACCEPTED_DB_SCHEMA_VERSIONS\<close>: a list or a dict cannot be hashed\<close>
definition schema_accepted :: "pyval \<Rightarrow> bool pyres" where
  "schema_accepted v = (case v of
       PList _ \<Rightarrow> Inl TypeError
     | PDict _ \<Rightarrow> Inl TypeError
     | _ \<Rightarrow> Inr (v \<in> {PStr DB_SCHEMA_VERSION, PStr ''legacy'', PNone, PStr []}))"

definition process_with_timeout :: "consumer_env \<Rightarrow> msg_id \<Rightarrow> pydict \<Rightarrow> unit crun" where
  "process_with_timeout e i data =
     andthen (modify (\<lambda>s. s\<lparr>cn_handled := cn_handled s @ [(i, data)]\<rparr>))
       (case ce_process e data of
          Done \<Rightarrow> modify (\<lambda>s. s\<lparr>cn_done := cn_done s @ [i]\<rparr>)
        | Raised x \<Rightarrow> throw x
        | Hung \<Rightarrow> throw (RuntimeError ''message_processing_timeout''))"

text \<open>the \<open>except\<close> branch: count the failure, at the limit move the message to the dead letters\<close>
definition handle_failure :: "consumer_env \<Rightarrow> msg_id \<Rightarrow> pydict \<Rightarrow> py_exc \<Rightarrow> unit crun" where
  "handle_failure e i data x =
     bnd (on_bus_eff (should_dlq (ce_bus e) (id_text i))) (\<lambda>send.
       if send
       then bnd (gets (\<lambda>s. bu_retries (cn_bus s) (id_text i))) (\<lambda>retries.
            andthen (push_dead e i data (ce_text e x) retries) (ack e i))
       else ret ())"

definition handle_message :: "consumer_env \<Rightarrow> msg_id \<Rightarrow> pydict \<Rightarrow> unit crun" where
  "handle_message e i data0 =
     (let data = backfill i data0
      in bnd (lift_res (schema_accepted (py_get data ''schema_version''))) (\<lambda>ok.
         if \<not> ok
         then andthen (push_dead e i data (''Invalid schema version: '' @ py_str (be_rp (ce_bus e)) (py_get data ''schema_version'')) 0)
                (ack e i)
         else catch (andthen (process_with_timeout e i data)
                    (andthen (ack e i) (modify (\<lambda>s. s\<lparr>cn_events_processed := cn_events_processed s + 1\<rparr>))))
                (\<lambda>x. catch (handle_failure e i data x) (\<lambda>_. ret ()))))"

fun handle_all :: "consumer_env \<Rightarrow> (msg_id \<times> pydict) list \<Rightarrow> unit crun" where
  "handle_all e [] = ret ()"
| "handle_all e ((i, data) # ms) = andthen (handle_message e i data) (handle_all e ms)"

definition CONSUME_COUNT :: nat where "CONSUME_COUNT = 10"
definition MAX_BACKOFF :: nat where "MAX_BACKOFF = 10"
definition MIN_IDLE_MS :: nat where "MIN_IDLE_MS = 60000"

text \<open>the messages of a batch that are started before the shutdown flag is seen\<close>
definition poll_body :: "consumer_env \<Rightarrow> unit crun" where
  "poll_body e s =
     bnd (on_bus (consume (ce_bus e) (cn_stream s) (cn_group s) CONSUME_COUNT)) (\<lambda>messages.
     andthen (modify (\<lambda>s. s\<lparr>cn_backoff := 1\<rparr>)) (handle_all e (take (ce_stop_after e) messages))) s"

text \<open>one turn of the main loop: a connection error backs off, any other exception ends the task\<close>
definition poll :: "consumer_env \<Rightarrow> unit crun" where
  "poll e = catch (poll_body e) (\<lambda>x.
     if ce_connection e x then modify (\<lambda>s. s\<lparr>cn_backoff := min (cn_backoff s * 2) MAX_BACKOFF\<rparr>) else throw x)"

text \<open>the start of \<open>_run\<close>: stale messages of the group are claimed and handled\<close>
definition startup :: "consumer_env \<Rightarrow> unit crun" where
  "startup e s =
     bnd (on_bus (reclaim_stale (ce_bus e) (cn_stream s) (cn_group s) MIN_IDLE_MS)) (\<lambda>messages.
       handle_all e (take (ce_stop_after e) messages)) s"

section \<open>Agents on several streams\<close>

definition deliver_one :: "consumer_env \<Rightarrow> msg_id \<Rightarrow> pydict \<Rightarrow> unit crun" where
  "deliver_one e i data =
     catch (andthen (process_with_timeout e i data)
           (andthen (ack e i) (modify (\<lambda>s. s\<lparr>cn_events_processed := cn_events_processed s + 1\<rparr>))))
       (\<lambda>x. catch (andthen (push_dead e i data (ce_text e x) 1) (ack e i)) (\<lambda>_. ret ()))"

fun deliver_all :: "consumer_env \<Rightarrow> (msg_id \<times> pydict) list \<Rightarrow> unit crun" where
  "deliver_all e [] = ret ()"
| "deliver_all e ((i, data) # ms) = andthen (deliver_one e i data) (deliver_all e ms)"

definition AGENT_COUNT :: nat where "AGENT_COUNT = 20"

text \<open>one stream of one turn of \<open>MultiStreamAgent._run\<close>\<close>
definition agent_poll :: "consumer_env \<Rightarrow> unit crun" where
  "agent_poll e s = bnd (on_bus (consume (ce_bus e) (cn_stream s) (cn_group s) AGENT_COUNT)) (deliver_all e) s"

text \<open>\<open>PairedCloseDeduper\<close>: the keys seen, oldest first\<close>
definition is_duplicate :: "(pyval \<Rightarrow> string) \<Rightarrow> nat \<Rightarrow> pydict \<Rightarrow> string list \<Rightarrow> bool \<times> string list" where
  "is_duplicate rp max_traces data seen =
     (let trace_id = py_get data ''trace_id''; pnl = py_get data ''pnl''
      in if \<not> truthy trace_id \<or> pnl = PNone \<or> pnl = PStr [] then (False, seen)
         else let key = py_str rp trace_id
              in if key \<in> set seen then (True, filter (\<lambda>k. k \<noteq> key) seen @ [key])
                 else (False, drop (Suc (length seen) - max_traces) (seen @ [key])))"

section \<open>The supervisor\<close>

text \<open>what an agent's \<open>start()\<close> looks at: whether its task ended with an exception, and its own running flag\<close>
datatype agent_kind = Stream_kind | Multi_kind

record supervised =
  ag_name :: string
  ag_kind :: agent_kind
  ag_crashed :: bool
  ag_running :: bool

definition SUPERVISOR_MAX_RESTARTS_PER_WINDOW :: nat where "SUPERVISOR_MAX_RESTARTS_PER_WINDOW = 3"
definition SUPERVISOR_RESTART_WINDOW_SECONDS :: real where "SUPERVISOR_RESTART_WINDOW_SECONDS = 300"

text \<open>\<open>BaseStreamConsumer.start\<close> replaces a finished task; \<open>MultiStreamAgent.start\<close> returns while its flag is set\<close>
definition agent_start :: "supervised \<Rightarrow> supervised" where
  "agent_start a = (case ag_kind a of
       Stream_kind \<Rightarrow> a\<lparr>ag_crashed := False, ag_running := True\<rparr>
     | Multi_kind \<Rightarrow> if ag_running a then a else a\<lparr>ag_crashed := False, ag_running := True\<rparr>)"

definition agent_stop :: "supervised \<Rightarrow> supervised" where
  "agent_stop a = a\<lparr>ag_crashed := False, ag_running := False\<rparr>"

definition restarts_in_window :: "real \<Rightarrow> real list \<Rightarrow> real list" where
  "restarts_in_window now hist = dropWhile (\<lambda>t. t < now - SUPERVISOR_RESTART_WINDOW_SECONDS) hist"

record supervisor =
  su_agents :: "supervised list"
  su_history :: "string \<Rightarrow> real list"
  su_alerts :: "string list"

text \<open>one agent of \<open>_check_health\<close>; \<open>start_fails\<close> says whether \<open>start()\<close> raises\<close>
definition check_agent :: "real \<Rightarrow> (string \<Rightarrow> bool) \<Rightarrow> supervised \<Rightarrow> (string \<Rightarrow> real list) \<times> string list
    \<Rightarrow> supervised \<times> (string \<Rightarrow> real list) \<times> string list" where
  "check_agent now start_fails a hl = (case hl of (hist, alerts) \<Rightarrow>
     if \<not> ag_crashed a then (a, hist, alerts)
     else let n = ag_name a; alerts' = alerts @ [n]; h = restarts_in_window now (hist n); hist' = hist(n := h)
          in if \<not> length h < SUPERVISOR_MAX_RESTARTS_PER_WINDOW then (a, hist', alerts')
             else if start_fails n then (a, hist', alerts')
             else (agent_start a, hist'(n := h @ [now]), alerts'))"

fun check_agents :: "real \<Rightarrow> (string \<Rightarrow> bool) \<Rightarrow> supervised list \<Rightarrow> (string \<Rightarrow> real list) \<times> string list
    \<Rightarrow> supervised list \<times> (string \<Rightarrow> real list) \<times> string list" where
  "check_agents now f [] hl = ([], hl)"
| "check_agents now f (a # as) hl =
     (case check_agent now f a hl of (a', hl') \<Rightarrow>
        case check_agents now f as hl' of (as', hl'') \<Rightarrow> (a' # as', hl''))"

definition check_health :: "real \<Rightarrow> (string \<Rightarrow> bool) \<Rightarrow> supervisor \<Rightarrow> supervisor" where
  "check_health now f s = (case check_agents now f (su_agents s) (su_history s, su_alerts s) of
     (as, hist, alerts) \<Rightarrow> s\<lparr>su_agents := as, su_history := hist, su_alerts := alerts\<rparr>)"

section \<open>Handling a message settles it\<close>

definition grp_of :: "consumer \<Rightarrow> group_state option" where
  "grp_of s = bu_groups (cn_bus s) (cn_stream s, cn_group s)"

definition pend :: "consumer \<Rightarrow> msg_id set" where
  "pend s = (case grp_of s of None \<Rightarrow> {} | Some g \<Rightarrow> fst ` set (gr_pending g))"

definition ids :: "consumer \<Rightarrow> msg_id list" where
  "ids s = map fst (ss_entries (stream_of (cn_bus s) (cn_stream s)))"

text \<open>finished by \<open>process()\<close>, or kept as a dead letter\<close>
definition covered :: "consumer \<Rightarrow> msg_id \<Rightarrow> bool" where
  "covered s i \<longleftrightarrow> i \<in> set (cn_done s) \<or> id_text i \<in> fst ` set (bu_dlq (cn_bus s) (cn_stream s))"

text \<open>streams and group position are untouched, and what stops being pending is covered\<close>
definition settle :: "consumer \<Rightarrow> consumer \<Rightarrow> bool" where
  "settle s s' \<longleftrightarrow> cn_stream s' = cn_stream s \<and> cn_group s' = cn_group s \<and> bu_streams (cn_bus s') = bu_streams (cn_bus s)
     \<and> map_option gr_last (grp_of s') = map_option gr_last (grp_of s)
     \<and> (\<forall>i. covered s i \<longrightarrow> covered s' i)
     \<and> (\<forall>i \<in> pend s. i \<in> set (ids s) \<longrightarrow> i \<in> pend s' \<or> covered s' i)"

lemma ids_settle: "bu_streams (cn_bus s') = bu_streams (cn_bus s) \<Longrightarrow> cn_stream s' = cn_stream s \<Longrightarrow> ids s' = ids s"
  by (simp add: ids_def stream_of_def)

interpretation st: frame settle
proof unfold_locales
  fix s t u
  show "settle s s" by (simp add: settle_def)
  show "settle s t \<Longrightarrow> settle t u \<Longrightarrow> settle s u"
    using ids_settle [of t s] by (auto simp: settle_def)
qed

lemma keys_of_dset: "fst ` set (dset k v d) = insert k (fst ` set d)"
  by (induction d) auto

lemma settle_push_dead: "keeps settle (push_dead e i data err n)"
  by (auto simp: keeps_def push_dead_def on_bus_eff_def dlq_push_def eff_defs settle_def covered_def grp_of_def pend_def
      keys_of_dset)

lemma push_dead_covers: "push_dead e i data err n s = (Inr (), s') \<Longrightarrow> covered s' i"
  by (auto simp: push_dead_def on_bus_eff_def dlq_push_def eff_defs covered_def keys_of_dset split: if_splits)

lemma settle_should_dlq: "keeps settle (on_bus_eff (should_dlq e t))"
  by (auto simp: keeps_def on_bus_eff_def should_dlq_def eff_defs settle_def covered_def grp_of_def pend_def)

lemma settle_process: "keeps settle (process_with_timeout e i data)"
  unfolding process_with_timeout_def
  by (intro st.keeps_andthen st.keeps_modify)
    (auto simp: settle_def covered_def grp_of_def pend_def split: outcome.splits
      intro!: st.keeps_modify st.keeps_pure)

lemma process_covers: "process_with_timeout e i data s = (Inr (), s') \<Longrightarrow> covered s' i"
  by (auto simp: process_with_timeout_def eff_defs covered_def split: outcome.splits)

lemma pending_xack: "fst ` set (gr_pending (xack [i] g)) = fst ` set (gr_pending g) - {i}"
  by (force simp: xack_def)

lemma ack_run: "\<exists>s'. ack e i s = (Inr (), s') \<and> (covered s i \<longrightarrow> settle s s')"
proof (cases "be_fault (ce_bus e) B_xack \<or> grp_of s = None")
  case True
  then show ?thesis
    by (auto simp: ack_def on_bus_def acknowledge_def grp_of_def intro: st.R_refl)
next
  case False
  then obtain g where g: "\<not> be_fault (ce_bus e) B_xack" "bu_groups (cn_bus s) (cn_stream s, cn_group s) = Some g"
    by (auto simp: grp_of_def)
  let ?b = "(cn_bus s)\<lparr>bu_groups := (bu_groups (cn_bus s))((cn_stream s, cn_group s) \<mapsto> xack [i] g)\<rparr>"
  have "settle s (s\<lparr>cn_bus := ?b\<rparr>)" if "covered s i"
  proof -
    have "gr_last (xack [i] g) = gr_last g" by (simp add: xack_def)
    moreover have "pend (s\<lparr>cn_bus := ?b\<rparr>) = pend s - {i}" using g(2) by (simp add: pend_def grp_of_def pending_xack)
    ultimately show ?thesis using that g(2) by (auto simp: settle_def covered_def grp_of_def)
  qed
  then show ?thesis using g by (simp add: ack_def on_bus_def acknowledge_def)
qed

lemma settle_then_ack:
  assumes "keeps settle m" "\<And>s s'. m s = (Inr (), s') \<Longrightarrow> covered s' i"
  shows "keeps settle (andthen m (ack e i))"
proof -
  have "settle s (snd (andthen m (ack e i) s))" for s
  proof (cases "m s")
    fix r s1 assume m: "m s = (r, s1)"
    have s1: "settle s s1" using keepsD [OF assms(1), of s] m by simp
    show ?thesis
    proof (cases r)
      case (Inl x)
      then show ?thesis using m s1 by (simp add: andthen_def bnd_def)
    next
      case (Inr u)
      obtain s2 where "ack e i s1 = (Inr (), s2)" "covered s1 i \<longrightarrow> settle s1 s2" using ack_run by blast
      then show ?thesis using m s1 Inr assms(2) [of s s1] st.R_trans [of s s1 s2] by (simp add: andthen_def bnd_def)
    qed
  qed
  then show ?thesis by (simp add: keeps_def)
qed

lemma settle_then_ack_then:
  "keeps settle m \<Longrightarrow> (\<And>s s'. m s = (Inr (), s') \<Longrightarrow> covered s' i) \<Longrightarrow> keeps settle k \<Longrightarrow>
     keeps settle (andthen m (andthen (ack e i) k))"
  using st.keeps_andthen [OF settle_then_ack [of m i e]] by (simp add: andthen_bnd andthen_def [of "andthen _ _"] andthen_def [of "ack _ _"])

lemma settle_failure: "keeps settle (handle_failure e i data x)"
  unfolding handle_failure_def
  by (intro st.keeps_bnd settle_should_dlq st.keeps_if st.keeps_pure settle_then_ack settle_push_dead push_dead_covers)

lemma settle_events: "keeps settle (modify (\<lambda>s. s\<lparr>cn_events_processed := cn_events_processed s + 1\<rparr>))"
  by (intro st.keeps_modify) (simp add: settle_def covered_def grp_of_def pend_def)

lemma settle_handle: "keeps settle (handle_message e i data)"
  unfolding handle_message_def Let_def
  by (intro st.keeps_bnd st.keeps_pure st.keeps_if settle_then_ack settle_push_dead push_dead_covers st.keeps_catch
      settle_then_ack_then settle_process process_covers settle_events settle_failure)

lemma settle_handle_all: "keeps settle (handle_all e ms)"
proof (induction ms)
  case Nil
  show ?case unfolding handle_all.simps by (rule st.keeps_pure)
next
  case (Cons m ms)
  then show ?case by (cases m) (auto intro: st.keeps_andthen settle_handle)
qed

lemma settle_deliver: "keeps settle (deliver_all e ms)"
proof -
  have "keeps settle (deliver_one e i data)" for i data
    unfolding deliver_one_def
    by (intro st.keeps_catch settle_then_ack_then settle_process process_covers settle_events st.keeps_pure
        settle_then_ack settle_push_dead push_dead_covers)
  note one = this
  show ?thesis
  proof (induction ms)
    case Nil
    show ?case unfolding deliver_all.simps by (rule st.keeps_pure)
  next
    case (Cons m ms)
    then show ?case by (cases m) (auto intro: st.keeps_andthen one)
  qed
qed

section \<open>Handing out a message\<close>

definition same_handled :: "consumer \<Rightarrow> consumer \<Rightarrow> bool" where
  "same_handled s s' \<longleftrightarrow> cn_handled s' = cn_handled s"

text \<open>at most one call of \<open>process()\<close>, for message \<open>i\<close>\<close>
definition handed :: "msg_id \<Rightarrow> consumer \<Rightarrow> consumer \<Rightarrow> bool" where
  "handed i s s' \<longleftrightarrow> (\<exists>d. cn_handled s' = cn_handled s @ [(i, d)])"

interpretation ho: once_frame same_handled "handed i" for i
  by unfold_locales (auto simp: same_handled_def handed_def)

lemma handled_bus:
  "keeps same_handled (push_dead e i data err n)" "keeps same_handled (ack e i)"
  "keeps same_handled (on_bus_eff m)"
  "keeps same_handled (modify (\<lambda>s. s\<lparr>cn_events_processed := cn_events_processed s + 1\<rparr>))"
  by (auto simp: keeps_def push_dead_def ack_def on_bus_def on_bus_eff_def same_handled_def split: prod.splits)

lemma handled_failure: "keeps same_handled (handle_failure e i data x)"
  unfolding handle_failure_def by (intro ho.keeps_rules handled_bus)

lemma handed_process: "at_most_once same_handled (handed i) (process_with_timeout e i data)"
  by (auto simp: at_most_once_def process_with_timeout_def eff_defs handed_def split: outcome.splits)

text \<open>a failure of the body is handled without calling \<open>process()\<close> again\<close>
lemma handed_catch:
  assumes "at_most_once same_handled (handed i) m" "\<And>x. keeps same_handled (h x)"
  shows "at_most_once same_handled (handed i) (catch m h)"
  unfolding at_most_once_def snd_catch
proof
  fix s
  have "same_handled s (snd (m s)) \<or> handed i s (snd (m s))" using assms(1) by (rule at_most_onceD)
  then show "same_handled s (case fst (m s) of Inl x \<Rightarrow> snd (h x (snd (m s))) | Inr v \<Rightarrow> snd (m s))
      \<or> handed i s (case fst (m s) of Inl x \<Rightarrow> snd (h x (snd (m s))) | Inr v \<Rightarrow> snd (m s))"
    using keepsD [OF assms(2), of "snd (m s)"] by (auto simp: same_handled_def handed_def split: sum.splits)
qed

lemma handed_message: "at_most_once same_handled (handed i) (handle_message e i data)"
proof -
  have body: "at_most_once same_handled (handed i)
      (andthen (process_with_timeout e i d) (andthen (ack e i) (modify (\<lambda>s. s\<lparr>cn_events_processed := cn_events_processed s + 1\<rparr>))))" for d
    unfolding andthen_def [of "process_with_timeout e i d"]
    by (intro ho.once_bnd_post handed_process ho.keeps_andthen handled_bus)
  have err: "keeps same_handled (catch (handle_failure e i d x) (\<lambda>_. ret ()))" for d x
    by (intro ho.keeps_catch handled_failure ho.keeps_pure)
  have inv: "keeps same_handled (andthen (push_dead e i d t 0) (ack e i))" for d t
    by (intro ho.keeps_andthen handled_bus)
  show ?thesis unfolding handle_message_def Let_def
    by (intro ho.once_bnd_pre ho.keeps_pure) (simp only: split: if_split, intro conjI impI ho.once_keeps inv handed_catch body err)
qed

lemma handed_all:
  "\<exists>hs. cn_handled (snd (handle_all e ms s)) = cn_handled s @ hs \<and> (\<forall>j. count_list (map fst hs) j \<le> count_list (map fst ms) j)"
proof (induction ms arbitrary: s)
  case (Cons m ms)
  obtain i d where m: "m = (i, d)" by (cases m)
  obtain r s1 where h: "handle_message e i d s = (r, s1)" by fastforce
  have one: "cn_handled s1 = cn_handled s \<or> (\<exists>x. cn_handled s1 = cn_handled s @ [(i, x)])"
    using at_most_onceD [OF handed_message [of i e d], of s] h by (simp add: same_handled_def handed_def)
  obtain hs where hs: "cn_handled (snd (handle_all e ms s1)) = cn_handled s1 @ hs"
      "\<forall>j. count_list (map fst hs) j \<le> count_list (map fst ms) j"
    using Cons.IH [of s1] by blast
  show ?case
  proof (cases r)
    case (Inl x)
    then have "snd (handle_all e (m # ms) s) = s1" using h m by (simp add: andthen_def bnd_def)
    then show ?thesis using one m by (elim disjE exE) (auto intro: exI [of _ "[]"])
  next
    case (Inr u)
    then have "snd (handle_all e (m # ms) s) = snd (handle_all e ms s1)" using h m by (simp add: andthen_def bnd_def)
    then show ?thesis using one m hs
      by (elim disjE exE) (auto intro!: exI [of _ hs] exI [of _ "(i, _) # hs"] simp: le_SucI)
  qed
qed simp

section \<open>The life of a consumer\<close>

text \<open>
  \<open>consumer_life s0 n s\<close>: from \<open>s0\<close>, by publications of anyone, turns of the loop and \<open>n\<close> restarts of
  the task, whatever fails on the way.
\<close>
inductive consumer_life :: "consumer \<Rightarrow> nat \<Rightarrow> consumer \<Rightarrow> bool" for s0 where
  Life_start: "consumer_life s0 0 s0"
| Life_publish: "consumer_life s0 n s \<Longrightarrow>
    consumer_life s0 n (s\<lparr>cn_bus := snd (publish e stream event maxlen (cn_bus s))\<rparr>)"
| Life_poll: "consumer_life s0 n s \<Longrightarrow> consumer_life s0 n (snd (poll e s))"
| Life_restart: "consumer_life s0 n s \<Longrightarrow> consumer_life s0 (Suc n) (snd (startup e s))"

definition own_stream :: "consumer \<Rightarrow> stream_state" where
  "own_stream s = stream_of (cn_bus s) (cn_stream s)"

text \<open>ids grow along the log, the group has not read past its end, and nothing it read after \<open>l0\<close> is lost\<close>
definition consumer_inv :: "msg_id \<Rightarrow> consumer \<Rightarrow> bool" where
  "consumer_inv l0 s \<longleftrightarrow> sorted_wrt (<) (ids s) \<and> (\<forall>i \<in> set (ids s). i \<le> ss_last (own_stream s))
     \<and> (\<exists>g. grp_of s = Some g \<and> gr_last g \<le> ss_last (own_stream s) \<and> l0 \<le> gr_last g
          \<and> (\<forall>i \<in> set (ids s). l0 < i \<longrightarrow> i \<le> gr_last g \<longrightarrow> i \<in> pend s \<or> covered s i))"

lemma inv_settle: "consumer_inv l0 s \<Longrightarrow> settle s s' \<Longrightarrow> consumer_inv l0 s'"
proof -
  assume i: "consumer_inv l0 s" and k: "settle s s'"
  have same: "ids s' = ids s" "own_stream s' = own_stream s"
    using k by (simp_all add: settle_def ids_def own_stream_def stream_of_def)
  obtain g g' where g: "grp_of s = Some g" "grp_of s' = Some g'" "gr_last g' = gr_last g"
    using i k by (auto simp: consumer_inv_def settle_def)
  show ?thesis using i k g same unfolding consumer_inv_def settle_def by auto
qed

lemma inv_publish: "consumer_inv l0 s \<Longrightarrow> consumer_inv l0 (s\<lparr>cn_bus := snd (publish e stream event maxlen (cn_bus s))\<rparr>)"
proof -
  assume i: "consumer_inv l0 s"
  let ?s' = "s\<lparr>cn_bus := snd (publish e stream event maxlen (cn_bus s))\<rparr>"
  show ?thesis
  proof (cases "be_fault e B_xadd \<or> stream \<noteq> cn_stream s")
    case True
    then have "ids ?s' = ids s" "own_stream ?s' = own_stream s" "grp_of ?s' = grp_of s" "pend ?s' = pend s"
      "\<And>j. covered ?s' j = covered s j"
      by (auto simp: publish_def xadd_def Let_def ids_def own_stream_def stream_of_def grp_of_def pend_def covered_def)
    then show ?thesis using i by (simp add: consumer_inv_def)
  next
    case False
    define t where "t = (case maxlen of Some n \<Rightarrow> if n > 0 then be_trim e else 0 | None \<Rightarrow> 0)"
    let ?l = "ss_last (own_stream s)"
    let ?i = "next_id (be_ms e) ?l"
    have x: "ids ?s' = drop t (ids s @ [?i])" "ss_last (own_stream ?s') = ?i" "grp_of ?s' = grp_of s"
      "pend ?s' = pend s" "\<And>j. covered ?s' j = covered s j"
      using False by (auto simp: publish_def xadd_def Let_def ids_def own_stream_def stream_of_def grp_of_def
          pend_def covered_def t_def drop_map [symmetric])
    have l: "?l < ?i" by (rule next_id_greater)
    have all: "j \<le> ?i" "j < ?i \<or> j = ?i" if "j \<in> set (ids s @ [?i])" for j
      using that i l unfolding consumer_inv_def by (auto dest: order_le_less_trans)
    have "sorted_wrt (<) (ids s @ [?i])"
      using i l unfolding consumer_inv_def by (auto simp: sorted_wrt_append dest: order_le_less_trans)
    then have so: "sorted_wrt (<) (drop t (ids s @ [?i]))" by (rule sorted_wrt_drop)
    obtain g where g: "grp_of s = Some g" "gr_last g \<le> ?l" "l0 \<le> gr_last g"
      "\<forall>i \<in> set (ids s). l0 < i \<longrightarrow> i \<le> gr_last g \<longrightarrow> i \<in> pend s \<or> covered s i"
      using i by (auto simp: consumer_inv_def)
    have "j \<in> pend s \<or> covered s j" if "j \<in> set (drop t (ids s @ [?i]))" "l0 < j" "j \<le> gr_last g" for j
    proof -
      have "j \<in> set (ids s @ [?i])" using that(1) by (rule in_set_dropD)
      moreover have "j \<noteq> ?i" using that(3) g(2) l by (metis leD order_trans)
      ultimately show ?thesis using that g(4) by auto
    qed
    moreover have "gr_last g \<le> ?i" using g(2) l by simp
    moreover have "\<forall>j \<in> set (drop t (ids s @ [?i])). j \<le> ?i" using all(1) by (meson in_set_dropD)
    ultimately show ?thesis unfolding consumer_inv_def x using so g(1,3) by blast
  qed
qed

lemma sorted_last_ge:
  fixes xs :: "'a :: linorder list"
  shows "sorted xs \<Longrightarrow> x \<in> set xs \<Longrightarrow> x \<le> last xs"
  by (induction xs) auto

lemma sorted_take_closed:
  fixes xs :: "'a :: linorder list"
  assumes "sorted_wrt (<) xs" "x \<in> set xs" "y \<in> set (take n xs)" "x \<le> y"
  shows "x \<in> set (take n xs)"
proof (rule ccontr)
  assume "x \<notin> set (take n xs)"
  then have "x \<in> set (drop n xs)" using assms(2) by (metis append_take_drop_id Un_iff set_append)
  moreover have "sorted_wrt (<) (take n xs @ drop n xs)" using assms(1) by simp
  ultimately have "y < x" using assms(3) unfolding sorted_wrt_append by blast
  then show False using assms(4) by simp
qed

text \<open>a batch: the entries read are the next ones in order, all past the old position and up to the new one\<close>
lemma consume_run:
  assumes "consumer_inv l0 s" "grp_of s = Some g"
    and r: "on_bus (consume (ce_bus e) (cn_stream s) (cn_group s) n) s = (Inr ms, s')"
  shows "consumer_inv l0 s' \<and> distinct (map fst ms) \<and> cn_handled s' = cn_handled s
    \<and> (\<exists>g'. grp_of s' = Some g' \<and> gr_last g \<le> gr_last g' \<and> (\<forall>i \<in> set (map fst ms). gr_last g < i \<and> i \<le> gr_last g'))"
proof (cases "be_fault (ce_bus e) B_xread")
  case True
  then show ?thesis using assms by (auto simp: on_bus_def consume_def)
next
  case False
  define new where "new = take n (undelivered (own_stream s) g)"
  let ?g' = "deliver (ce_bus e) new g"
  have gb: "bu_groups (cn_bus s) (cn_stream s, cn_group s) = Some g" using assms(2) by (simp add: grp_of_def)
  have s': "s' = s\<lparr>cn_bus := (cn_bus s)\<lparr>bu_groups := (bu_groups (cn_bus s))((cn_stream s, cn_group s) \<mapsto> ?g')\<rparr>\<rparr>"
    and ms: "ms = decode_entries (ce_bus e) new"
    using r gb False by (auto simp: on_bus_def consume_def Let_def new_def own_stream_def)
  have keep: "ids s' = ids s" "own_stream s' = own_stream s" "grp_of s' = Some ?g'" "\<And>j. covered s' j = covered s j"
    by (auto simp: s' ids_def own_stream_def stream_of_def grp_of_def covered_def)
  have mf: "map fst ms = map fst new" by (simp add: ms decode_entries_def case_prod_unfold comp_def)
  have so: "sorted_wrt (<) (ids s)" using assms(1) by (simp add: consumer_inv_def)
  have fm: "map fst (undelivered (own_stream s) g) = filter (\<lambda>i. gr_last g < i) (ids s)"
    by (simp add: undelivered_def ids_def own_stream_def filter_map case_prod_unfold comp_def)
  define us where "us = filter (\<lambda>i. gr_last g < i) (ids s)"
  have nw: "map fst new = take n us" by (simp add: new_def take_map [symmetric] fm us_def)
  have sous: "sorted_wrt (<) us" using so by (simp add: us_def sorted_wrt_filter)
  then have sn: "sorted_wrt (<) (map fst new)" unfolding nw by (rule sorted_wrt_take)
  have dist: "distinct (map fst new)" using sn by (simp add: strict_sorted_iff)
  have gt: "gr_last g < i" "i \<in> set (ids s)" if "i \<in> set (map fst new)" for i
    using that unfolding nw us_def by (auto dest: in_set_takeD)
  show ?thesis
  proof (cases "new = []")
    case True
    then have "consumer_inv l0 s'" using assms(1,2) keep unfolding consumer_inv_def
      by (auto simp: deliver_def pend_def)
    then show ?thesis using True keep mf by (auto simp: deliver_def s')
  next
    case False
    let ?k = "fst (last new)"
    have l': "gr_last ?g' = ?k" and p': "pend s' = pend s \<union> set (map fst new)"
      using False assms(2) keep(3) by (auto simp: deliver_def pend_def image_Un case_prod_unfold image_image)
    have lastin: "?k \<in> set (map fst new)" using False by simp
    have top: "i \<le> ?k" if "i \<in> set (map fst new)" for i
    proof -
      have "?k = last (map fst new)" using False by (simp add: last_map)
      then show ?thesis using that sn by (metis strict_sorted_imp_sorted sorted_last_ge)
    qed
    have cov: "i \<in> pend s' \<or> covered s' i" if "i \<in> set (ids s)" "l0 < i" "i \<le> ?k" for i
    proof (cases "i \<le> gr_last g")
      case True
      then show ?thesis using that assms(1,2) p' keep(4) by (auto simp: consumer_inv_def)
    next
      case False
      then have "i \<in> set us" using that by (auto simp: us_def)
      then have "i \<in> set (take n us)"
        by (intro sorted_take_closed [OF sous, of i ?k]) (use lastin that(3) in \<open>simp_all add: nw\<close>)
      then show ?thesis using p' nw by simp
    qed
    have "\<forall>i \<in> set (ids s). i \<le> ss_last (own_stream s)" "l0 \<le> gr_last g"
      using assms(1,2) by (auto simp: consumer_inv_def)
    moreover have "?k \<le> ss_last (own_stream s)" using calculation gt(2) [OF lastin] by blast
    moreover have "l0 \<le> ?k" using calculation gt(1) [OF lastin] by (metis order_less_imp_le order_trans)
    ultimately have "consumer_inv l0 s'"
      unfolding consumer_inv_def keep(1,2)
      by (intro conjI exI [of _ ?g']) (use so cov l' keep(3) in simp_all)
    then show ?thesis using keep(3) l' top gt gt(1) [OF lastin] dist mf by (auto simp: s')
  qed
qed

lemma count_distinct: "distinct xs \<Longrightarrow> count_list xs x = (if x \<in> set xs then 1 else 0)"
  by (induction xs) auto

lemma count_take: "count_list (take n xs) x \<le> count_list xs x"
proof -
  have "count_list xs x = count_list (take n xs) x + count_list (drop n xs) x"
    using count_list_append [of "take n xs" "drop n xs" x] by simp
  then show ?thesis by simp
qed

lemma settle_backoff: "settle s (s\<lparr>cn_backoff := n\<rparr>)"
  by (simp add: settle_def covered_def grp_of_def pend_def ids_def)

lemma on_bus_run: "\<exists>x s'. on_bus f s = (Inr x, s')"
  by (cases "f (cn_bus s)") (simp add: on_bus_def)

text \<open>handling a batch keeps the invariant and the position, and hands out each entry at most once\<close>
lemma batch_run:
  assumes "consumer_inv l0 s" "distinct (map fst ms)"
  shows "consumer_inv l0 (snd (handle_all e (take k ms) s))
    \<and> map_option gr_last (grp_of (snd (handle_all e (take k ms) s))) = map_option gr_last (grp_of s)
    \<and> (\<exists>hs. cn_handled (snd (handle_all e (take k ms) s)) = cn_handled s @ hs
         \<and> (\<forall>i. count_list (map fst hs) i \<le> (if i \<in> set (map fst ms) then 1 else 0)))"
proof -
  have k: "settle s (snd (handle_all e (take k ms) s))" by (rule keepsD [OF settle_handle_all])
  obtain hs where hs: "cn_handled (snd (handle_all e (take k ms) s)) = cn_handled s @ hs"
      "\<forall>i. count_list (map fst hs) i \<le> count_list (map fst (take k ms)) i"
    using handed_all by blast
  have "count_list (map fst hs) i \<le> (if i \<in> set (map fst ms) then 1 else 0)" for i
    using hs(2) [rule_format, of i] count_take [of k "map fst ms" i] count_distinct [OF assms(2), of i]
    unfolding take_map [symmetric] by linarith
  then show ?thesis using inv_settle [OF assms(1) k] k hs(1) by (auto simp: settle_def)
qed

text \<open>the message was past the position before and is not any more\<close>
definition newly_read :: "consumer \<Rightarrow> consumer \<Rightarrow> msg_id \<Rightarrow> bool" where
  "newly_read s s' i \<longleftrightarrow> (\<exists>g g'. grp_of s = Some g \<and> grp_of s' = Some g' \<and> gr_last g < i \<and> i \<le> gr_last g')"

definition position_grows :: "consumer \<Rightarrow> consumer \<Rightarrow> bool" where
  "position_grows s s' \<longleftrightarrow> (\<exists>g g'. grp_of s = Some g \<and> grp_of s' = Some g' \<and> gr_last g \<le> gr_last g')"

lemma poll_run:
  assumes "consumer_inv l0 s"
  shows "consumer_inv l0 (snd (poll e s)) \<and> position_grows s (snd (poll e s))
    \<and> (\<exists>hs. cn_handled (snd (poll e s)) = cn_handled s @ hs
        \<and> (\<forall>i. count_list (map fst hs) i \<le> (if newly_read s (snd (poll e s)) i then 1 else 0)))"
proof -
  obtain g where g: "grp_of s = Some g" using assms by (auto simp: consumer_inv_def)
  obtain ms s1 where c: "on_bus (consume (ce_bus e) (cn_stream s) (cn_group s) CONSUME_COUNT) s = (Inr ms, s1)"
    using on_bus_run [of "consume (ce_bus e) (cn_stream s) (cn_group s) CONSUME_COUNT" s] by blast
  note cr = consume_run [OF assms g c]
  let ?s2 = "s1\<lparr>cn_backoff := 1\<rparr>"
  have i2: "consumer_inv l0 ?s2" using inv_settle [OF _ settle_backoff] cr by blast
  obtain g' where g': "grp_of ?s2 = Some g'" "gr_last g \<le> gr_last g'" "\<forall>i \<in> set (map fst ms). gr_last g < i \<and> i \<le> gr_last g'"
    using cr by (auto simp: grp_of_def)
  let ?s3 = "snd (handle_all e (take (ce_stop_after e) ms) ?s2)"
  note br = batch_run [OF i2, of ms e "ce_stop_after e"]
  have body: "snd (poll_body e s) = ?s3" using c by (simp add: poll_body_def bnd_def)
  define n where "n = min (cn_backoff ?s3 * 2) MAX_BACKOFF"
  have fin: "snd (poll e s) = ?s3 \<or> snd (poll e s) = ?s3\<lparr>cn_backoff := n\<rparr>"
    unfolding poll_def snd_catch body n_def by (cases "fst (poll_body e s)") simp_all
  have i3: "consumer_inv l0 ?s3" and p3: "map_option gr_last (grp_of ?s3) = Some (gr_last g')"
    using br cr g'(1) by auto
  obtain hs where hs: "cn_handled ?s3 = cn_handled s @ hs"
      "\<forall>i. count_list (map fst hs) i \<le> (if i \<in> set (map fst ms) then 1 else 0)"
    using br cr by auto
  obtain g3 where g3: "grp_of ?s3 = Some g3" "gr_last g3 = gr_last g'" using p3 by auto
  have same: "grp_of (snd (poll e s)) = Some g3" "cn_handled (snd (poll e s)) = cn_handled s @ hs"
    using fin g3(1) hs(1) by (auto simp: grp_of_def)
  have "consumer_inv l0 (snd (poll e s))" using fin i3 inv_settle [OF i3 settle_backoff] by auto
  moreover have "position_grows s (snd (poll e s))" using g g3 g' same by (simp add: position_grows_def)
  moreover have "count_list (map fst hs) i \<le> (if newly_read s (snd (poll e s)) i then 1 else 0)" for i
    using hs(2) [rule_format, of i] g g3 g' same(1) by (auto simp: newly_read_def split: if_splits)
  ultimately show ?thesis using same(2) by blast
qed

lemma startup_run:
  assumes "consumer_inv l0 s"
  shows "consumer_inv l0 (snd (startup e s)) \<and> position_grows s (snd (startup e s))
    \<and> (\<exists>hs. cn_handled (snd (startup e s)) = cn_handled s @ hs \<and> (\<forall>i. count_list (map fst hs) i \<le> 1))"
proof -
  obtain g where g: "grp_of s = Some g" using assms by (auto simp: consumer_inv_def)
  obtain ms s1 where c: "on_bus (reclaim_stale (ce_bus e) (cn_stream s) (cn_group s) MIN_IDLE_MS) s = (Inr ms, s1)"
    using on_bus_run [of "reclaim_stale (ce_bus e) (cn_stream s) (cn_group s) MIN_IDLE_MS" s] by blast
  have k: "settle s s1 \<and> distinct (map fst ms) \<and> cn_handled s1 = cn_handled s"
  proof (cases "be_fault (ce_bus e) B_claim")
    case True
    then show ?thesis using c by (auto simp: on_bus_def reclaim_stale_def intro: st.R_refl)
  next
    case False
    let ?R = "reclaimable (ce_bus e) MIN_IDLE_MS g" and ?es = "ss_entries (own_stream s)"
    let ?g' = "g\<lparr>gr_pending := map (\<lambda>(i, t). (i, if i \<in> set ?R then be_ms (ce_bus e) else t))
                   (filter (\<lambda>(i, _). i \<in> set ?R \<longrightarrow> i \<in> fst ` set ?es) (gr_pending g))\<rparr>"
    have s1: "s1 = s\<lparr>cn_bus := (cn_bus s)\<lparr>bu_groups := (bu_groups (cn_bus s))((cn_stream s, cn_group s) \<mapsto> ?g')\<rparr>\<rparr>"
      and ms: "ms = decode_entries (ce_bus e) (filter (\<lambda>(i, _). i \<in> set ?R) ?es)"
      using c g False by (auto simp: on_bus_def reclaim_stale_def Let_def grp_of_def own_stream_def)
    have "sorted_wrt (<) (ids s)" using assms by (simp add: consumer_inv_def)
    then have "distinct (map fst ?es)" by (simp add: ids_def own_stream_def strict_sorted_iff)
    moreover have "map fst ms = filter (\<lambda>i. i \<in> set ?R) (map fst ?es)"
      by (simp add: ms decode_entries_def case_prod_unfold comp_def filter_map)
    ultimately have "distinct (map fst ms)" by simp
    moreover have "pend s1 \<supseteq> pend s \<inter> set (ids s)"
      using g by (force simp: s1 pend_def grp_of_def ids_def own_stream_def)
    then have "settle s s1" using g by (auto simp: settle_def s1 covered_def grp_of_def)
    ultimately show ?thesis by (simp add: s1)
  qed
  have i1: "consumer_inv l0 s1" using inv_settle [OF assms] k by blast
  note br = batch_run [OF i1, of ms e "ce_stop_after e"]
  have body: "snd (startup e s) = snd (handle_all e (take (ce_stop_after e) ms) s1)"
    using c by (simp add: startup_def bnd_def)
  have p: "map_option gr_last (grp_of (snd (startup e s))) = Some (gr_last g)"
    using br k g unfolding body by (auto simp: settle_def)
  obtain hs where hs: "cn_handled (snd (startup e s)) = cn_handled s @ hs"
      "\<forall>i. count_list (map fst hs) i \<le> (if i \<in> set (map fst ms) then 1 else 0)"
    using br k unfolding body by auto
  have "count_list (map fst hs) i \<le> 1" for i using hs(2) [rule_format, of i] by (auto split: if_splits)
  moreover have "position_grows s (snd (startup e s))" using p g by (auto simp: position_grows_def)
  moreover have "consumer_inv l0 (snd (startup e s))" unfolding body using br k by blast
  ultimately show ?thesis using hs(1) by blast
qed

lemma life_inv: "consumer_life s0 n s \<Longrightarrow> consumer_inv l0 s0 \<Longrightarrow> consumer_inv l0 s"
  by (induction rule: consumer_life.induct) (use inv_publish poll_run startup_run in blast)+


lemma publish_same_group: "grp_of (s\<lparr>cn_bus := snd (publish e stream event maxlen (cn_bus s))\<rparr>) = grp_of s"
  by (simp add: grp_of_def publish_def xadd_def Let_def split: option.splits)

lemma life_counts:
  assumes "consumer_life s0 n s" "consumer_inv l0 s0"
  shows "position_grows s0 s \<and> (\<exists>hs. cn_handled s = cn_handled s0 @ hs
     \<and> (\<forall>i. count_list (map fst hs) i \<le> n + (if newly_read s0 s i then 1 else 0)))"
  using assms(1)
proof induction
  case Life_start
  then show ?case using assms(2) by (auto simp: consumer_inv_def position_grows_def)
next
  case (Life_publish n s e stream event maxlen)
  then show ?case by (auto simp: position_grows_def newly_read_def publish_same_group)
next
  case (Life_poll n s e)
  let ?t = "snd (poll e s)"
  obtain g0 g where g: "grp_of s0 = Some g0" "grp_of s = Some g" "gr_last g0 \<le> gr_last g"
    using Life_poll.IH by (auto simp: position_grows_def)
  obtain hs where hs: "cn_handled s = cn_handled s0 @ hs"
      "\<forall>i. count_list (map fst hs) i \<le> n + (if newly_read s0 s i then 1 else 0)"
    using Life_poll.IH by blast
  obtain ks where ks: "cn_handled ?t = cn_handled s @ ks"
      "\<forall>i. count_list (map fst ks) i \<le> (if newly_read s ?t i then 1 else 0)" and grow: "position_grows s ?t"
    using poll_run [OF life_inv [OF Life_poll.hyps assms(2)], of e] by blast
  obtain g' where g': "grp_of ?t = Some g'" "gr_last g \<le> gr_last g'" using grow g(2) by (auto simp: position_grows_def)
  have "count_list (map fst (hs @ ks)) i \<le> n + (if newly_read s0 ?t i then 1 else 0)" for i
  proof -
    have "(if newly_read s0 s i then 1 else 0) + (if newly_read s ?t i then 1 else 0)
        \<le> ((if newly_read s0 ?t i then 1 else 0)::nat)"
      using g g' by (auto simp: newly_read_def)
    then show ?thesis using hs(2) [rule_format, of i] ks(2) [rule_format, of i] by (simp only: map_append count_list_append)
  qed
  moreover have "position_grows s0 ?t" using g g' by (auto simp: position_grows_def)
  ultimately show ?case using hs(1) ks(1) by auto
next
  case (Life_restart n s e)
  let ?t = "snd (startup e s)"
  obtain g0 g where g: "grp_of s0 = Some g0" "grp_of s = Some g" "gr_last g0 \<le> gr_last g"
    using Life_restart.IH by (auto simp: position_grows_def)
  obtain hs where hs: "cn_handled s = cn_handled s0 @ hs"
      "\<forall>i. count_list (map fst hs) i \<le> n + (if newly_read s0 s i then 1 else 0)"
    using Life_restart.IH by blast
  obtain ks where ks: "cn_handled ?t = cn_handled s @ ks" "\<forall>i. count_list (map fst ks) i \<le> 1" and grow: "position_grows s ?t"
    using startup_run [OF life_inv [OF Life_restart.hyps assms(2)], of e] by blast
  obtain g' where g': "grp_of ?t = Some g'" "gr_last g \<le> gr_last g'" using grow g(2) by (auto simp: position_grows_def)
  have "count_list (map fst (hs @ ks)) i \<le> Suc n + (if newly_read s0 ?t i then 1 else 0)" for i
  proof -
    have "(if newly_read s0 s i then 1 else 0) \<le> ((if newly_read s0 ?t i then 1 else 0)::nat)"
      using g g' by (auto simp: newly_read_def)
    then show ?thesis using hs(2) [rule_format, of i] ks(2) [rule_format, of i] by (simp only: map_append count_list_append)
  qed
  moreover have "position_grows s0 ?t" using g g' by (auto simp: position_grows_def)
  ultimately show ?case using hs(1) ks(1) by auto
qed

text \<open>The log says that a failed message will be retried, and the retry limit is three, but the loop only
  reads new entries: a message is handed to \<open>process()\<close> at most once when it is read, and once more for every
  restart of the task. One that was read before \<open>s0\<close> is not tried again in any number of turns of the loop.\<close>
theorem failed_message_waits_for_a_restart:
  assumes "consumer_life s0 n s" "consumer_inv l0 s0"
  shows "\<exists>hs. cn_handled s = cn_handled s0 @ hs
     \<and> (\<forall>i. count_list (map fst hs) i \<le> n + (if newly_read s0 s i then 1 else 0))"
  using life_counts [OF assms] by blast

section \<open>Samples\<close>

definition failing_env :: consumer_env where
  "failing_env = \<lparr>ce_bus = bus_env0, ce_process = (\<lambda>_. Raised ValueError), ce_text = (\<lambda>_. ''boom''),
     ce_connection = (\<lambda>_. False), ce_stop_after = 10\<rparr>"

definition consumer0 :: consumer where
  "consumer0 = \<lparr>cn_stream = ''signals'', cn_group = ''workers'', cn_bus = snd (group_create ''signals'' ''workers'' True empty_bus),
     cn_handled = [], cn_done = [], cn_events_processed = 0, cn_backoff = 1\<rparr>"

definition published0 :: consumer where
  "published0 = consumer0\<lparr>cn_bus := snd (publish bus_env0 ''signals'' [] None (cn_bus consumer0))\<rparr>"

definition failed_once :: consumer where
  "failed_once = snd (poll failing_env published0)"

lemma inv0: "consumer_inv (0, 0) consumer0"
  by (simp add: consumer_inv_def consumer0_def group_create_def empty_bus_def ids_def own_stream_def stream_of_def
      empty_stream_def grp_of_def)

lemma life0: "consumer_life consumer0 0 failed_once"
  unfolding failed_once_def published0_def by (intro Life_poll Life_publish Life_start)

lemma failed_once_run:
  "ids failed_once = [(7, 0)]" "map_option gr_last (grp_of failed_once) = Some (7, 0)"
  "map fst (cn_handled failed_once) = [(7, 0)]"
  by code_simp+


text \<open>the message failed once and is pending; after any more turns of the loop without a restart it still was
  tried only once\<close>
theorem failed_message_waits_for_a_restart_witness:
  "\<exists>hs. cn_handled (snd (poll failing_env failed_once)) = cn_handled consumer0 @ hs \<and> count_list (map fst hs) (7, 0) \<le> 1"
proof -
  have life: "consumer_life consumer0 0 (snd (poll failing_env failed_once))" by (rule Life_poll [OF life0])
  obtain hs where "cn_handled (snd (poll failing_env failed_once)) = cn_handled consumer0 @ hs"
      "\<forall>i. count_list (map fst hs) i \<le> 0 + (if newly_read consumer0 (snd (poll failing_env failed_once)) i then 1 else 0)"
    using failed_message_waits_for_a_restart [OF life inv0] by blast
  moreover have "count_list (map fst hs) (7, 0) \<le> 1"
    using calculation(2) [rule_format, of "(7, 0)"] by (simp split: if_splits)
  ultimately show ?thesis by blast
qed

section \<open>Paired closes\<close>

text \<open>the key under which an event is deduplicated, if it is\<close>
definition close_key :: "(pyval \<Rightarrow> string) \<Rightarrow> pydict \<Rightarrow> string option" where
  "close_key rp d = (if truthy (py_get d ''trace_id'') \<and> py_get d ''pnl'' \<notin> {PNone, PStr []}
     then Some (py_str rp (py_get d ''trace_id'')) else None)"

definition seen_after :: "(pyval \<Rightarrow> string) \<Rightarrow> nat \<Rightarrow> pydict list \<Rightarrow> string list" where
  "seen_after rp m ds = fold (\<lambda>d seen. snd (is_duplicate rp m d seen)) ds []"

lemma is_duplicate_key: "is_duplicate rp m d seen = (case close_key rp d of
     None \<Rightarrow> (False, seen)
   | Some k \<Rightarrow> if k \<in> set seen then (True, filter (\<lambda>x. x \<noteq> k) seen @ [k])
               else (False, drop (Suc (length seen) - m) (seen @ [k])))"
  by (auto simp: is_duplicate_def close_key_def Let_def)

lemma card_keys_mono: "card (set (List.map_filter f ds)) \<le> card (set (List.map_filter f (ds @ es)))"
  by (intro card_mono) (auto simp: List.map_filter_def)

lemma seen_after_keys:
  "card (set (List.map_filter (close_key rp) ds)) \<le> m \<Longrightarrow>
     set (seen_after rp m ds) = set (List.map_filter (close_key rp) ds) \<and> distinct (seen_after rp m ds)"
proof (induction ds rule: rev_induct)
  case Nil
  then show ?case by (simp add: seen_after_def map_filter_simps)
next
  case (snoc d ds)
  let ?K = "set (List.map_filter (close_key rp) ds)" and ?s = "seen_after rp m ds"
  have ih: "set ?s = ?K" "distinct ?s"
    using snoc.IH snoc.prems card_keys_mono [of "close_key rp" ds "[d]"] by auto
  have len: "length ?s = card ?K" using ih by (metis distinct_card)
  have step: "seen_after rp m (ds @ [d]) = snd (is_duplicate rp m d ?s)" by (simp add: seen_after_def)
  show ?case
  proof (cases "close_key rp d")
    case None
    then show ?thesis using ih step by (simp add: is_duplicate_key map_filter_simps List.map_filter_def)
  next
    case (Some k)
    have K: "set (List.map_filter (close_key rp) (ds @ [d])) = insert k ?K" using Some by (auto simp: List.map_filter_def)
    show ?thesis
    proof (cases "k \<in> ?K")
      case True
      then show ?thesis using ih step Some K by (auto simp: is_duplicate_key)
    next
      case False
      then have "Suc (length ?s) \<le> m" using snoc.prems len unfolding K by simp
      then show ?thesis using ih step Some K False by (simp add: is_duplicate_key)
    qed
  qed
qed



section \<open>Restarts\<close>

lemma check_agents_keeps:
  assumes "ag_kind a = Multi_kind" "ag_crashed a" "ag_running a"
  shows "a \<in> set as \<Longrightarrow> a \<in> set (fst (check_agents now f as hl))"
proof (induction as arbitrary: hl)
  case (Cons b as)
  obtain b' hl' where b: "check_agent now f b hl = (b', hl')" by (meson surj_pair)
  obtain as' hl'' where r: "check_agents now f as hl' = (as', hl'')" by (meson surj_pair)
  have "b' = a" if "b = a" using b that assms
    by (auto simp: check_agent_def agent_start_def Let_def split: prod.splits if_splits)
  then show ?case using Cons b r Cons.IH [of hl'] by auto
qed simp

text \<open>C27: An agent of the multi-stream kind whose task died with an exception is never brought back: its running
  flag is still set, so the supervisor's \<open>start()\<close> returns at once, although the supervisor records and logs a
  restart; no number of health checks changes it.\<close>
theorem crashed_agent_never_restarts:
  assumes "a \<in> set (su_agents s)" "ag_kind a = Multi_kind" "ag_crashed a" "ag_running a"
  shows "a \<in> set (su_agents (fold (\<lambda>(now, f). check_health now f) checks s))"
  using assms(1)
proof (induction checks arbitrary: s)
  case (Cons c checks)
  obtain now f where c: "c = (now, f)" by (cases c)
  have "a \<in> set (su_agents (check_health now f s))"
    using check_agents_keeps [OF assms(2-4) Cons.prems, of now f "(su_history s, su_alerts s)"]
    by (auto simp: check_health_def split: prod.splits)
  then show ?case using Cons.IH c by simp
qed simp

definition dead_agent :: supervised where
  "dead_agent = \<lparr>ag_name = ''grade'', ag_kind = Multi_kind, ag_crashed = True, ag_running = True\<rparr>"

theorem crashed_agent_never_restarts_witness:
  "dead_agent \<in> set (su_agents (fold (\<lambda>(now, f). check_health now f) [(0, \<lambda>_. False), (30, \<lambda>_. False)]
     \<lparr>su_agents = [dead_agent], su_history = (\<lambda>_. []), su_alerts = []\<rparr>))"
  by (rule crashed_agent_never_restarts) (simp_all add: dead_agent_def)

lemma restarted_stream_agent:
  "ag_kind a = Stream_kind \<Longrightarrow> ag_crashed a \<Longrightarrow> length (restarts_in_window now (hist (ag_name a))) < 3 \<Longrightarrow>
     \<not> f (ag_name a) \<Longrightarrow> \<not> ag_crashed (fst (check_agent now f a (hist, l)))"
  by (simp add: check_agent_def Let_def agent_start_def SUPERVISOR_MAX_RESTARTS_PER_WINDOW_def)

end
