(* ===== verification/Signal_Rules.thy ===== *)
theory Signal_Rules
  imports Py_Prelude
begin

text \<open>
  The buy/sell/hold rule (\<open>classify_signal\<close>, \<open>compute_return_sigma\<close> of
  \<open>api/services/signal_generator.py\<close>), pure and shared by the live signal agent and the backtest: which
  moves are tradeable, in which direction, and with how much confidence.
\<close>

datatype SignalType = STRONG_MOMENTUM | MOMENTUM | PRICE_UPDATE
datatype SignalStrength = HIGH | NORMAL | LOW
datatype MarketDirection = BULLISH | BEARISH | NEUTRAL

fun signal_type_value :: "SignalType \<Rightarrow> string" where
  "signal_type_value STRONG_MOMENTUM = ''STRONG_MOMENTUM''"
| "signal_type_value MOMENTUM = ''MOMENTUM''"
| "signal_type_value PRICE_UPDATE = ''PRICE_UPDATE''"

fun strength_value :: "SignalStrength \<Rightarrow> string" where
  "strength_value HIGH = ''HIGH''" | "strength_value NORMAL = ''NORMAL''" | "strength_value LOW = ''LOW''"

fun direction_value :: "MarketDirection \<Rightarrow> string" where
  "direction_value BULLISH = ''bullish''" | "direction_value BEARISH = ''bearish''"
| "direction_value NEUTRAL = ''neutral''"

definition STRONG_MOMENTUM_PCT :: real where "STRONG_MOMENTUM_PCT = 3"
definition MOMENTUM_PCT :: real where "MOMENTUM_PCT = 3 / 2"
definition STRONG_MOMENTUM_SIGMA :: real where "STRONG_MOMENTUM_SIGMA = 5 / 2"
definition MOMENTUM_SIGMA :: real where "MOMENTUM_SIGMA = 3 / 2"
definition SIGMA_MIN_SAMPLES :: nat where "SIGMA_MIN_SAMPLES = 20"
definition SIGMA_FLOOR_PCT :: real where "SIGMA_FLOOR_PCT = 1 / 50"
definition MOMENTUM_SCORE_FLOOR :: real where "MOMENTUM_SCORE_FLOOR = 55"
definition STRONG_MOMENTUM_SCORE_FLOOR :: real where "STRONG_MOMENTUM_SCORE_FLOOR = 80"
definition STRONG_MOMENTUM_SCORE_CEIL :: real where "STRONG_MOMENTUM_SCORE_CEIL = 95"
definition STRONG_MOMENTUM_SIGMA_CEIL :: real where "STRONG_MOMENTUM_SIGMA_CEIL = 4"
definition STRONG_MOMENTUM_PCT_CEIL :: real where "STRONG_MOMENTUM_PCT_CEIL = 6"

lemmas tier_defs = STRONG_MOMENTUM_PCT_def MOMENTUM_PCT_def STRONG_MOMENTUM_SIGMA_def MOMENTUM_SIGMA_def
  SIGMA_FLOOR_PCT_def MOMENTUM_SCORE_FLOOR_def STRONG_MOMENTUM_SCORE_FLOOR_def
  STRONG_MOMENTUM_SCORE_CEIL_def STRONG_MOMENTUM_SIGMA_CEIL_def STRONG_MOMENTUM_PCT_CEIL_def

definition graduate_score :: "real \<Rightarrow> real \<Rightarrow> real \<Rightarrow> real \<Rightarrow> real \<Rightarrow> real" where
  "graduate_score value lo hi score_lo score_hi =
     (if hi \<le> lo then score_lo
      else let frac = (value - lo) / (hi - lo);
               frac = (if frac < 0 then 0 else if frac > 1 then 1 else frac)
           in score_lo + frac * (score_hi - score_lo))"

text \<open>percent returns of consecutive prices; a zero price is skipped\<close>
fun pct_returns :: "real list \<Rightarrow> real list" where
  "pct_returns (a # b # xs) =
     (if a \<noteq> 0 then (b - a) / a * 100 # pct_returns (b # xs) else pct_returns (b # xs))"
| "pct_returns _ = []"

definition compute_return_sigma :: "nat \<Rightarrow> real list \<Rightarrow> real option" where
  "compute_return_sigma min_samples prices =
     (if prices = [] \<or> length prices < min_samples + 1 then None
      else let returns = pct_returns prices
           in if length returns < min_samples then None
              else let mean = sum_list returns / real (length returns);
                       variance = sum_list (map (\<lambda>r. (r - mean)\<^sup>2) returns) / real (length returns)
                   in Some (sqrt variance))"

record classified =
  cl_type :: SignalType
  cl_strength :: SignalStrength
  cl_score :: real
  cl_direction :: MarketDirection
  cl_action :: string

definition direction_of_move :: "real \<Rightarrow> MarketDirection" where
  "direction_of_move pct = (if pct > 0 then BULLISH else if pct < 0 then BEARISH else NEUTRAL)"

text \<open>the fixed thresholds: warm-up, or too flat a market\<close>
definition fixed_tier :: "real \<Rightarrow> SignalType \<times> SignalStrength \<times> real" where
  "fixed_tier abs_pct =
     (if abs_pct \<ge> STRONG_MOMENTUM_PCT then (STRONG_MOMENTUM, HIGH, graduate_score abs_pct STRONG_MOMENTUM_PCT
         STRONG_MOMENTUM_PCT_CEIL STRONG_MOMENTUM_SCORE_FLOOR STRONG_MOMENTUM_SCORE_CEIL)
      else if abs_pct \<ge> MOMENTUM_PCT then (MOMENTUM, NORMAL, graduate_score abs_pct MOMENTUM_PCT
         STRONG_MOMENTUM_PCT MOMENTUM_SCORE_FLOOR STRONG_MOMENTUM_SCORE_FLOOR)
      else (PRICE_UPDATE, LOW, 30))"

text \<open>type, strength and score of a move of size \<open>abs_pct\<close>\<close>
definition tier :: "real \<Rightarrow> real option \<Rightarrow> SignalType \<times> SignalStrength \<times> real" where
  "tier abs_pct sigma =
     (case sigma of
        Some sg \<Rightarrow>
          if sg \<ge> SIGMA_FLOOR_PCT then
            let z = abs_pct / sg in
            if z \<ge> STRONG_MOMENTUM_SIGMA then (STRONG_MOMENTUM, HIGH, graduate_score z STRONG_MOMENTUM_SIGMA
                STRONG_MOMENTUM_SIGMA_CEIL STRONG_MOMENTUM_SCORE_FLOOR STRONG_MOMENTUM_SCORE_CEIL)
            else if z \<ge> MOMENTUM_SIGMA then (MOMENTUM, NORMAL, graduate_score z MOMENTUM_SIGMA
                STRONG_MOMENTUM_SIGMA MOMENTUM_SCORE_FLOOR STRONG_MOMENTUM_SCORE_FLOOR)
            else (PRICE_UPDATE, LOW, 30)
          else fixed_tier abs_pct
      | None \<Rightarrow> fixed_tier abs_pct)"

definition classify_signal :: "real \<Rightarrow> real option \<Rightarrow> classified" where
  "classify_signal pct sigma =
     (case tier \<bar>pct\<bar> sigma of (signal_type, strength, score) \<Rightarrow>
        let direction = direction_of_move pct;
            action = (if strength = LOW \<or> direction = NEUTRAL then ''hold''
                      else if direction = BULLISH then ''buy'' else ''sell'')
        in \<lparr>cl_type = signal_type, cl_strength = strength, cl_score = score, cl_direction = direction,
            cl_action = action\<rparr>)"

section \<open>The rule\<close>

text \<open>
  The specification: a move is measured in one unit, against one pair of thresholds. Confidence is a
  piecewise linear function of the number of units.
\<close>
definition calibrated :: "real option \<Rightarrow> bool" where
  "calibrated sigma \<longleftrightarrow> (case sigma of None \<Rightarrow> False | Some sg \<Rightarrow> sg \<ge> SIGMA_FLOOR_PCT)"

definition trade_threshold :: "real option \<Rightarrow> real" where
  "trade_threshold sigma = (if calibrated sigma then MOMENTUM_SIGMA * the sigma else MOMENTUM_PCT)"

definition strong_threshold :: "real option \<Rightarrow> real" where
  "strong_threshold sigma = (if calibrated sigma then STRONG_MOMENTUM_SIGMA * the sigma else STRONG_MOMENTUM_PCT)"

definition saturation :: "real option \<Rightarrow> real" where
  "saturation sigma = (if calibrated sigma then STRONG_MOMENTUM_SIGMA_CEIL * the sigma else STRONG_MOMENTUM_PCT_CEIL)"

definition confidence_curve :: "real option \<Rightarrow> real \<Rightarrow> real" where
  "confidence_curve sigma m =
     (if m < trade_threshold sigma then 30
      else if m < strong_threshold sigma
        then 55 + 25 * (m - trade_threshold sigma) / (strong_threshold sigma - trade_threshold sigma)
      else if m < saturation sigma
        then 80 + 15 * (m - strong_threshold sigma) / (saturation sigma - strong_threshold sigma)
      else 95)"


lemma thresholds_ordered:
  "0 < trade_threshold sigma" "trade_threshold sigma < strong_threshold sigma"
  "strong_threshold sigma < saturation sigma"
  by (auto simp: trade_threshold_def strong_threshold_def saturation_def calibrated_def tier_defs split: option.splits)

text \<open>both measures, one reading of the tier\<close>
lemma fixed_tier_eq:
  assumes "\<not> calibrated sigma" "0 \<le> m"
  shows "fixed_tier m = (if m < trade_threshold sigma then PRICE_UPDATE
       else if m < strong_threshold sigma then MOMENTUM else STRONG_MOMENTUM,
     if m < trade_threshold sigma then LOW else if m < strong_threshold sigma then NORMAL else HIGH,
     confidence_curve sigma m)"
  using assms(1)
  by (auto simp: fixed_tier_def trade_threshold_def strong_threshold_def saturation_def confidence_curve_def
      graduate_score_def Let_def tier_defs field_simps)

lemma tier_eq:
  assumes "0 \<le> m"
  shows "tier m sigma = (if m < trade_threshold sigma then PRICE_UPDATE
       else if m < strong_threshold sigma then MOMENTUM else STRONG_MOMENTUM,
     if m < trade_threshold sigma then LOW else if m < strong_threshold sigma then NORMAL else HIGH,
     confidence_curve sigma m)"
proof (cases "calibrated sigma")
  case True
  then obtain sg where s: "sigma = Some sg" "SIGMA_FLOOR_PCT \<le> sg" "0 < sg"
    by (auto simp: calibrated_def tier_defs split: option.splits)
  then show ?thesis using True
    by (auto simp: tier_def trade_threshold_def strong_threshold_def saturation_def confidence_curve_def
        graduate_score_def Let_def tier_defs field_simps)
next
  case False
  then have "tier m sigma = fixed_tier m" by (auto simp: tier_def calibrated_def split: option.splits)
  then show ?thesis using fixed_tier_eq [OF False assms] by simp
qed

lemma curve_mono: "m \<le> n \<Longrightarrow> confidence_curve sigma m \<le> confidence_curve sigma n"
proof -
  assume mn: "m \<le> n"
  note t = thresholds_ordered [of sigma]
  let ?a = "trade_threshold sigma" and ?b = "strong_threshold sigma" and ?c = "saturation sigma"
  define u where "u x = 25 * (x - ?a) / (?b - ?a)" for x
  define v where "v x = 15 * (x - ?b) / (?c - ?b)" for x
  have c: "confidence_curve sigma x = (if x < ?a then 30 else if x < ?b then 55 + u x else if x < ?c then 80 + v x else 95)" for x
    by (simp add: confidence_curve_def u_def v_def)
  have "0 \<le> u x" if "?a \<le> x" for x using t that by (simp add: u_def)
  moreover have "u x \<le> 25" if "x < ?b" for x using t that by (simp add: u_def divide_simps)
  moreover have "0 \<le> v x" if "?b \<le> x" for x using t that by (simp add: v_def)
  moreover have "v x \<le> 15" if "x < ?c" for x using t that by (simp add: v_def divide_simps)
  moreover have "u m \<le> u n" "v m \<le> v n" using t mn by (simp_all add: u_def v_def divide_right_mono)
  ultimately show ?thesis using mn t unfolding c by (smt (verit))
qed

lemma curve_bounds: "30 \<le> confidence_curve sigma m" "confidence_curve sigma m \<le> 95"
proof -
  note t = thresholds_ordered [of sigma]
  have "confidence_curve sigma (min m (trade_threshold sigma - 1)) \<le> confidence_curve sigma m"
    "confidence_curve sigma m \<le> confidence_curve sigma (max m (saturation sigma))"
    by (rule curve_mono, simp)+
  moreover have "confidence_curve sigma (min m (trade_threshold sigma - 1)) = 30"
    "confidence_curve sigma (max m (saturation sigma)) = 95"
    using t by (auto simp: confidence_curve_def)
  ultimately show "30 \<le> confidence_curve sigma m" "confidence_curve sigma m \<le> 95" by simp_all
qed

lemma curve_tradeable: "trade_threshold sigma \<le> m \<Longrightarrow> 55 \<le> confidence_curve sigma m"
  using curve_mono [of "trade_threshold sigma" m sigma] thresholds_ordered [of sigma]
  by (simp add: confidence_curve_def)

lemma classify_score: "cl_score (classify_signal pct sigma) = confidence_curve sigma \<bar>pct\<bar>"
  by (simp add: classify_signal_def tier_eq Let_def)

lemma classify_strength:
  "cl_strength (classify_signal pct sigma) = LOW \<longleftrightarrow> \<bar>pct\<bar> < trade_threshold sigma"
  by (simp add: classify_signal_def tier_eq Let_def)

lemma classify_action:
  "cl_action (classify_signal pct sigma) =
     (if \<bar>pct\<bar> < trade_threshold sigma then ''hold'' else if pct > 0 then ''buy'' else ''sell'')"
  using thresholds_ordered(1) [of sigma]
  by (auto simp: classify_signal_def tier_eq Let_def direction_of_move_def)

text \<open>C31: The classifier buys exactly the moves up of at least the trading threshold and sells exactly the moves
  down of that size, where the threshold is 1.5 standard deviations once the market is calibrated and 1.5
  per cent before; the confidence is one piecewise linear curve of the size of the move, so it has no jump
  above the threshold and does not depend on the direction.\<close>
theorem classifier_follows_one_curve:
  "cl_score (classify_signal pct sigma) = confidence_curve sigma \<bar>pct\<bar>
   \<and> (cl_action (classify_signal pct sigma) = ''buy'' \<longleftrightarrow> trade_threshold sigma \<le> pct)
   \<and> (cl_action (classify_signal pct sigma) = ''sell'' \<longleftrightarrow> pct \<le> - trade_threshold sigma)
   \<and> (cl_type (classify_signal pct sigma) = STRONG_MOMENTUM \<longleftrightarrow> strong_threshold sigma \<le> \<bar>pct\<bar>)"
  using thresholds_ordered [of sigma]
  by (auto simp: classify_score classify_action) (auto simp: classify_signal_def tier_eq Let_def split: if_splits)

text \<open>A larger move never earns less confidence, and confidence tells a trade from noise: it stays between 30
  and 95, and reaches 55 exactly when the action is not to hold.\<close>
theorem confidence_is_monotone:
  assumes "\<bar>p\<bar> \<le> \<bar>q\<bar>"
  shows "cl_score (classify_signal p sigma) \<le> cl_score (classify_signal q sigma)
    \<and> 30 \<le> cl_score (classify_signal p sigma) \<and> cl_score (classify_signal p sigma) \<le> 95
    \<and> (55 \<le> cl_score (classify_signal p sigma) \<longleftrightarrow> cl_action (classify_signal p sigma) \<noteq> ''hold'')"
  using curve_mono [OF assms] curve_bounds curve_tradeable [of sigma "\<bar>p\<bar>"]
  by (auto simp: classify_score classify_action) (auto simp: confidence_curve_def)

theorem confidence_is_monotone_witness:
  "\<bar>2 :: real\<bar> \<le> \<bar>- 4\<bar> \<and> cl_score (classify_signal 2 None) \<le> cl_score (classify_signal (- 4) None)"
  using confidence_is_monotone [of 2 "- 4" None] by simp

section \<open>Volatility\<close>

lemma pct_returns_scale: "k \<noteq> 0 \<Longrightarrow> pct_returns (map (\<lambda>p. k * p) ps) = pct_returns ps"
proof (induction ps rule: pct_returns.induct)
  case (1 a b xs)
  have "(k * b - k * a) / (k * a) = (b - a) / a"
    using 1(3) by (simp add: right_diff_distrib [symmetric])
  then show ?case using 1 by simp
qed auto

text \<open>The volatility, and with it the decision, does not depend on the currency the prices are quoted in.\<close>
lemma sigma_scale_free:
  "k \<noteq> 0 \<Longrightarrow> compute_return_sigma n (map (\<lambda>p. k * p) ps) = compute_return_sigma n ps"
  by (simp add: compute_return_sigma_def pct_returns_scale)

lemma sigma_nonneg: "compute_return_sigma n ps = Some sg \<Longrightarrow> 0 \<le> sg"
  by (auto simp: compute_return_sigma_def Let_def split: if_splits intro!: divide_nonneg_nonneg sum_list_nonneg)

text \<open>a flat market is never calibrated: the classifier falls back to fixed percentages\<close>
lemma flat_market: "compute_return_sigma n (replicate m p) = Some sg \<Longrightarrow> sg = 0"
proof -
  have "pct_returns (replicate m p) = replicate (length (pct_returns (replicate m p))) 0"
  proof (induction m)
    case (Suc m) then show ?case by (cases m) auto
  qed simp
  then obtain k where r: "pct_returns (replicate m p) = replicate k 0" by blast
  then show "compute_return_sigma n (replicate m p) = Some sg \<Longrightarrow> sg = 0"
    by (auto simp: compute_return_sigma_def Let_def sum_list_replicate split: if_splits)
qed

end
