(* ===== verification/Agent_Heartbeat.thy ===== *)
theory Agent_Heartbeat
  imports In_Memory_Store Event_Bus
begin

text \<open>
  The heartbeat every agent writes after an event (\<open>api/services/agent_heartbeat.py\<close>): into the
  in-memory store, into Redis and, when the database is up, into \<open>agent_heartbeats\<close> and
  \<open>agent_instances\<close>. \<open>beats\<close> is that state; a failing Redis or database call is swallowed.
\<close>

record instance_row =
  ai_pool :: string
  ai_status :: string
  ai_count :: int
  ai_metadata :: pydict

record beats =
  hb_store :: mem_store
  hb_redis :: "(string \<times> pydict) list"
  hb_rows :: "(string \<times> string \<times> int) list"
  hb_instances :: "(string \<times> instance_row) list"

record beat_env =
  hv_now :: real
  hv_iso :: string
  hv_db_up :: bool
  hv_redis_fails :: bool
  hv_db_fails :: bool

definition REDIS_AGENT_STATUS_KEY :: "string \<Rightarrow> string" where
  "REDIS_AGENT_STATUS_KEY name = ''agent:status:'' @ name"

text \<open>\<open>agent_name.lower().replace("_", "-")\<close>\<close>
definition instance_key :: "string \<Rightarrow> string" where
  "instance_key name = map (\<lambda>c. if c = CHR ''_'' then CHR ''-'' else c) (py_lower name)"

definition heartbeat_payload :: "beat_env \<Rightarrow> string \<Rightarrow> int \<Rightarrow> pydict \<Rightarrow> pydict" where
  "heartbeat_payload e last_event event_count extra = dmerge
     [(''status'', PStr ''ACTIVE''), (''source'', PStr ''heartbeat''), (''last_event'', PStr last_event),
      (''event_count'', PInt event_count), (''last_seen'', PInt (trunc_real (hv_now e))),
      (''last_seen_at'', PStr (hv_iso e)), (''updated_at'', PStr (hv_iso e)),
      (''heartbeat_count'', PInt (max event_count 1))] extra"

definition beat_metadata :: "pydict \<Rightarrow> pydict" where
  "beat_metadata payload = map (\<lambda>k. (k, py_get payload k)) [''last_seen_at'', ''updated_at'', ''heartbeat_count'', ''source'']"

definition new_instance :: "string \<Rightarrow> int \<Rightarrow> pydict \<Rightarrow> instance_row" where
  "new_instance name event_count payload = \<lparr>ai_pool = name, ai_status = ''active'', ai_count = event_count,
     ai_metadata = [(''agent_name'', PStr name), (''last_seen_at'', py_get payload ''last_seen_at''),
       (''updated_at'', py_get payload ''updated_at''), (''heartbeat_count'', py_get payload ''heartbeat_count''),
       (''source'', PStr ''heartbeat_upsert'')]\<rparr>"

text \<open>\<open>UPDATE agent_instances\<close>, then the \<open>INSERT\<close> for a missing row\<close>
definition upsert_instance ::
  "string \<Rightarrow> int \<Rightarrow> pydict \<Rightarrow> (string \<times> instance_row) list \<Rightarrow> (string \<times> instance_row) list" where
  "upsert_instance name event_count payload rows =
     (case map_of rows (instance_key name) of
        Some r \<Rightarrow> dset (instance_key name) (r\<lparr>ai_status := ''active'', ai_count := max (ai_count r) event_count,
            ai_metadata := dmerge (ai_metadata r) (beat_metadata payload)\<rparr>) rows
      | None \<Rightarrow> rows @ [(instance_key name, new_instance name event_count payload)])"

definition write_agent_heartbeat :: "beat_env \<Rightarrow> string \<Rightarrow> string \<Rightarrow> int \<Rightarrow> pydict \<Rightarrow> beats \<Rightarrow> beats" where
  "write_agent_heartbeat e agent_name last_event event_count extra s =
     (let payload = heartbeat_payload e last_event event_count extra;
          s1 = s\<lparr>hb_store := upsert_agent agent_name payload (hb_store s)\<rparr>;
          s2 = (if hv_redis_fails e then s1
                else s1\<lparr>hb_redis := dset (REDIS_AGENT_STATUS_KEY agent_name) payload (hb_redis s1)\<rparr>)
      in if \<not> hv_db_up e \<or> hv_db_fails e then s2
         else s2\<lparr>hb_rows := dset agent_name (last_event, event_count) (hb_rows s2),
                hb_instances := upsert_instance agent_name event_count payload (hb_instances s2)\<rparr>)"

section \<open>What a heartbeat leaves alone, and what it shows\<close>

lemma heartbeat_store:
  "hb_store (write_agent_heartbeat e a l n x s) = upsert_agent a (heartbeat_payload e l n x) (hb_store s)"
  by (simp add: write_agent_heartbeat_def Let_def)

lemma upsert_agent_frame [simp]:
  "ms_grade_history (upsert_agent a d st) = ms_grade_history st"
  "ms_event_history (upsert_agent a d st) = ms_event_history st"
  "ms_agent_runs (upsert_agent a d st) = ms_agent_runs st"
  "ms_agent_logs (upsert_agent a d st) = ms_agent_logs st"
  "ms_positions (upsert_agent a d st) = ms_positions st"
  by (simp_all add: upsert_agent_def)

lemma map_of_dmerge: "map_of (dmerge a b) k = (case map_of (rev b) k of None \<Rightarrow> map_of a k | Some v \<Rightarrow> Some v)"
proof (induction b arbitrary: a)
  case (Cons p b)
  then show ?case by (cases p) (auto simp: dmerge_def map_add_def split: option.splits)
qed (simp add: dmerge_def)

text \<open>the store, Redis and the instance table agree that the agent is alive\<close>
lemma heartbeat_visible:
  "\<not> hv_redis_fails e \<Longrightarrow>
   map_of (hb_redis (write_agent_heartbeat e a l n [] s)) (REDIS_AGENT_STATUS_KEY a) = Some (heartbeat_payload e l n [])"
  by (simp add: write_agent_heartbeat_def Let_def)

definition instance_count :: "string \<Rightarrow> beats \<Rightarrow> int option" where
  "instance_count a s = map_option ai_count (map_of (hb_instances s) (instance_key a))"

text \<open>The event count of an instance row never falls, however often the agent restarts its own count.\<close>
lemma instance_count_grows:
  "instance_count a s = Some c \<Longrightarrow> \<exists>d \<ge> c. instance_count a (write_agent_heartbeat e b l n x s) = Some d"
  by (auto simp: instance_count_def write_agent_heartbeat_def upsert_instance_def Let_def split: option.splits)

end
