(* ===== verification/Signal_Generator.thy ===== *)
theory Signal_Generator
  imports Signal_Rules Risk_Filters Agent_Heartbeat
begin

text \<open>
  The signal agent (\<open>api/services/signal_generator.py\<close>): from a tick on \<open>market_events\<close> to a classified
  signal on \<open>signals\<close>. \<open>generator\<close> is the state behind it: the bus, heartbeats and in-memory store, the
  tables it writes, and its rolling histories. \<open>gen_env\<close> is one call's view of the outside. A symbol that is
  no string raises; the buffers the code has opened under that key by then are never read again and left out.
\<close>

section \<open>State\<close>

datatype gen_call = G_pool | G_dedup | G_run_start | G_signal | G_complete

record run_row =
  rr_trace :: string
  rr_input :: pydict
  rr_status :: string
  rr_output :: "pydict option"
  rr_elapsed :: "int option"

record signal_event =
  sq_entity :: string
  sq_data :: pydict
  sq_idem :: string

record signal_grade =
  sq_run :: string
  sq_agent :: "string option"
  sq_score :: real
  sq_trace :: string

record signal_tables =
  tb_runs :: "(string \<times> run_row) list"
  tb_events :: "signal_event list"
  tb_grades :: "signal_grade list"
  tb_logs :: "(string \<times> pydict) list"
  tb_processed :: "string list"

record generator =
  gn_bus :: bus
  gn_beats :: beats
  gn_tables :: signal_tables
  gn_total_events :: int
  gn_pool_id :: "string option"
  gn_price_history :: "(string \<times> real list) list"
  gn_atr_history :: "(string \<times> real list) list"
  gn_ticks :: "(string \<times> int) list"

text \<open>
  \<open>gx_uuid\<close> gives the uuids of the call in the order they are drawn, \<open>gx_row_id\<close> the key the database
  generates for a run, \<open>gx_bars\<close> the closes the broker returns (None when it raises or times out), and
  \<open>gx_foreign_keys\<close> whether grades and logs reference \<open>agent_runs(id)\<close>, as the models declare.
\<close>
record gen_env =
  gx_bus :: bus_env
  gx_beat :: beat_env
  gx_uuid :: "nat \<Rightarrow> string"
  gx_row_id :: string
  gx_hour :: int
  gx_every_n :: int
  gx_has_keys :: bool
  gx_market_open :: bool
  gx_bars :: "string \<Rightarrow> real list option"
  gx_pool_row :: "string option"
  gx_foreign_keys :: bool
  gx_fails :: "gen_call \<Rightarrow> bool"
  gx_pct_text :: "real \<Rightarrow> string"
  gx_elapsed :: int

type_synonym 'a sgrun = "(generator, 'a) eff"

definition AGENT_SIGNAL :: string where "AGENT_SIGNAL = ''SIGNAL_AGENT''"
definition SOURCE_SIGNAL :: string where "SOURCE_SIGNAL = ''signal_generator''"
definition STREAM_MARKET_EVENTS :: string where "STREAM_MARKET_EVENTS = ''market_events''"
definition STREAM_SIGNALS :: string where "STREAM_SIGNALS = ''signals''"
definition REGIME_ATR_PERIOD :: nat where "REGIME_ATR_PERIOD = 14"
definition REGIME_ATR_AVG_PERIOD :: nat where "REGIME_ATR_AVG_PERIOD = 20"
definition PRICE_WINDOW :: nat where "PRICE_WINDOW = 50"
definition ATR_WINDOW :: nat where "ATR_WINDOW = 25"

abbreviation db_up :: "gen_env \<Rightarrow> bool" where "db_up e \<equiv> hv_db_up (gx_beat e)"

definition beat :: "gen_env \<Rightarrow> string \<Rightarrow> generator \<Rightarrow> generator" where
  "beat e text s = s\<lparr>gn_beats := write_agent_heartbeat (gx_beat e) AGENT_SIGNAL text (gn_total_events s) [] (gn_beats s)\<rparr>"

section \<open>The tick\<close>

record tick =
  tk_payload :: pydict
  tk_symbol :: pyval
  tk_price :: real
  tk_pct :: real
  tk_trace :: pyval
  tk_msg :: pyval

definition tick_payload :: "gen_env \<Rightarrow> pydict \<Rightarrow> pydict pyres" where
  "tick_payload e data = (case py_get data ''payload'' of
       PStr raw \<Rightarrow> (case be_loads (gx_bus e) raw of
           None \<Rightarrow> Inl ValueError | Some (PDict d) \<Rightarrow> Inr d | Some _ \<Rightarrow> Inl AttributeError)
     | PDict d \<Rightarrow> Inr d
     | _ \<Rightarrow> Inr data)"

definition parse_tick :: "gen_env \<Rightarrow> pydict \<Rightarrow> tick pyres" where
  "parse_tick e data =
     res_bind (tick_payload e data) (\<lambda>payload.
     res_bind (py_float (dget payload ''price'' (PInt 0))) (\<lambda>price.
     res_bind (py_float (dget payload ''pct'' (PInt 0))) (\<lambda>pct.
       Inr \<lparr>tk_payload = payload, tk_symbol = py_get payload ''symbol'', tk_price = price, tk_pct = pct,
         tk_trace = py_or (py_get payload ''trace_id'') (PStr (gx_uuid e 0)),
         tk_msg = py_or (py_get data ''msg_id'') (PStr (gx_uuid e 1))\<rparr>)))"

section \<open>Histories and indicators\<close>

text \<open>best effort: no keys, a closed market or a failing call leave the buffer empty\<close>
definition bootstrap_price_history :: "gen_env \<Rightarrow> string \<Rightarrow> real list" where
  "bootstrap_price_history e symbol =
     (if \<not> gx_has_keys e then []
      else if \<not> is_infix ''/'' symbol \<and> \<not> gx_market_open e then []
      else case gx_bars e symbol of None \<Rightarrow> []
           | Some closes \<Rightarrow> filter (\<lambda>p. p > 0) (last_n 50 closes))"

definition open_history :: "gen_env \<Rightarrow> string \<Rightarrow> generator \<Rightarrow> generator" where
  "open_history e symbol s = (case map_of (gn_price_history s) symbol of
       Some _ \<Rightarrow> s
     | None \<Rightarrow> s\<lparr>gn_price_history := dset symbol
            (fold (push_capped PRICE_WINDOW) (bootstrap_price_history e symbol) []) (gn_price_history s),
          gn_atr_history := dset symbol [] (gn_atr_history s)\<rparr>)"

definition push_price :: "string \<Rightarrow> real \<Rightarrow> generator \<Rightarrow> generator" where
  "push_price symbol price s = s\<lparr>gn_price_history :=
     dset symbol (push_capped PRICE_WINDOW price (dget (gn_price_history s) symbol [])) (gn_price_history s)\<rparr>"

definition push_atr :: "string \<Rightarrow> real option \<Rightarrow> generator \<Rightarrow> generator" where
  "push_atr symbol atr s = (case atr of None \<Rightarrow> s
     | Some a \<Rightarrow> s\<lparr>gn_atr_history :=
         dset symbol (push_capped ATR_WINDOW a (dget (gn_atr_history s) symbol [])) (gn_atr_history s)\<rparr>)"

definition atr_regime_ratio :: "real option \<Rightarrow> real list \<Rightarrow> real option" where
  "atr_regime_ratio atr hist = (case atr of None \<Rightarrow> None
     | Some a \<Rightarrow>
         if length hist \<ge> REGIME_ATR_AVG_PERIOD then
           let avg = sum_list (last_n REGIME_ATR_AVG_PERIOD hist) / real REGIME_ATR_AVG_PERIOD
           in if avg > 0 then Some (py_round 4 (a / avg)) else None
         else None)"

record tick_features =
  fe_prices :: "real list"
  fe_rsi :: "real option"
  fe_atr :: "real option"
  fe_ratio :: "real option"

definition observe_tick :: "gen_env \<Rightarrow> string \<Rightarrow> real \<Rightarrow> tick_features sgrun" where
  "observe_tick e symbol price =
     andthen (modify (\<lambda>s. push_price symbol price (open_history e symbol s)))
     (bnd (gets (\<lambda>s. dget (gn_price_history s) symbol [])) (\<lambda>prices.
      bnd (lift_res (compute_rsi prices REGIME_ATR_PERIOD)) (\<lambda>rsi.
      bnd (lift_res (compute_atr_from_prices prices REGIME_ATR_PERIOD)) (\<lambda>atr.
      andthen (modify (push_atr symbol atr))
      (bnd (gets (\<lambda>s. dget (gn_atr_history s) symbol [])) (\<lambda>hist.
       ret \<lparr>fe_prices = prices, fe_rsi = rsi, fe_atr = atr, fe_ratio = atr_regime_ratio atr hist\<rparr>))))))"

definition time_of_day :: "string \<Rightarrow> int \<Rightarrow> string" where
  "time_of_day symbol hour =
     (if is_infix ''/'' symbol then
        (if 14 \<le> hour \<and> hour < 17 then ''us_open''
         else if 17 \<le> hour \<and> hour < 21 then ''us_afternoon''
         else if 0 \<le> hour \<and> hour < 8 then ''asia_session''
         else if 8 \<le> hour \<and> hour < 14 then ''europe_session''
         else ''overnight'')
      else
        (if 14 \<le> hour \<and> hour < 16 then ''market_open''
         else if 16 \<le> hour \<and> hour < 19 then ''midday''
         else if 19 \<le> hour \<and> hour < 21 then ''market_close''
         else ''after_hours''))"

section \<open>The throttle\<close>

definition should_publish :: "int \<Rightarrow> string \<Rightarrow> SignalStrength \<Rightarrow> (string \<times> int) list \<Rightarrow> bool \<times> (string \<times> int) list" where
  "should_publish setting symbol strength ticks =
     (let every_n = max 1 setting in
      if strength \<noteq> LOW then (True, dset symbol 0 ticks)
      else let cnt = dget ticks symbol every_n + 1
           in if cnt \<ge> every_n then (True, dset symbol 0 ticks) else (False, dset symbol cnt ticks))"

definition signal_payload :: "gen_env \<Rightarrow> tick \<Rightarrow> string \<Rightarrow> tick_features \<Rightarrow> classified \<Rightarrow> pydict" where
  "signal_payload e t symbol f c =
     [(''type'', PStr (signal_type_value (cl_type c))), (''symbol'', PStr symbol), (''price'', PFloat (tk_price t)),
      (''pct'', PFloat (tk_pct t)), (''direction'', PStr (direction_value (cl_direction c))),
      (''strength'', PStr (strength_value (cl_strength c))),
      (''composite_score'', PFloat (py_round 4 (cl_score c / 100))),
      (''confidence'', PFloat (py_round 4 (cl_score c / 100))), (''action'', PStr (cl_action c)),
      (''trace_id'', tk_trace t), (''ts'', PInt (trunc_real (hv_now (gx_beat e)))),
      (''source'', PStr AGENT_SIGNAL), (''msg_id'', PStr (gx_uuid e 2)), (''rsi'', opt_float (fe_rsi f)),
      (''atr'', opt_float (fe_atr f)), (''atr_regime_ratio'', opt_float (fe_ratio f)),
      (''time_of_day'', PStr (time_of_day symbol (gx_hour e)))]"

section \<open>Persistence\<close>

text \<open>a value bound to a text column; the driver rejects any other type\<close>
definition bind_text :: "pyval \<Rightarrow> string option" where
  "bind_text v = (case v of PStr t \<Rightarrow> Some t | _ \<Rightarrow> None)"

definition resolve_agent_pool_id :: "gen_env \<Rightarrow> generator \<Rightarrow> generator" where
  "resolve_agent_pool_id e s =
     (if gn_pool_id s \<noteq> None \<or> \<not> db_up e \<or> gx_fails e G_pool then s
      else case gx_pool_row e of None \<Rightarrow> s | Some i \<Rightarrow> s\<lparr>gn_pool_id := Some i\<rparr>)"

text \<open>a failing check lets the message through\<close>
definition seen_before :: "gen_env \<Rightarrow> pyval \<Rightarrow> signal_tables \<Rightarrow> bool" where
  "seen_before e msg_id db = (\<not> gx_fails e G_dedup \<and>
     (case bind_text msg_id of None \<Rightarrow> False | Some m \<Rightarrow> m \<in> set (tb_processed db)))"

definition db_write_run_start :: "gen_env \<Rightarrow> tick \<Rightarrow> signal_tables \<Rightarrow> string option \<times> signal_tables" where
  "db_write_run_start e t db = (case bind_text (tk_trace t) of
       None \<Rightarrow> (None, db)
     | Some trace \<Rightarrow>
         if gx_fails e G_run_start then (None, db)
         else (Some (gx_row_id e), db\<lparr>tb_runs := tb_runs db @ [(gx_row_id e,
             \<lparr>rr_trace = trace, rr_input = tk_payload t, rr_status = ''running'', rr_output = None, rr_elapsed = None\<rparr>)]\<rparr>))"

definition reference_ok :: "gen_env \<Rightarrow> string \<Rightarrow> signal_tables \<Rightarrow> bool" where
  "reference_ok e run_id db \<longleftrightarrow> (gx_foreign_keys e \<longrightarrow> run_id \<in> fst ` set (tb_runs db))"

definition idem_key :: "string \<Rightarrow> string \<Rightarrow> string" where
  "idem_key symbol trace = ''signal-'' @ symbol @ ''-'' @ trace"

text \<open>one transaction: event, grade and processed marker, all or nothing\<close>
definition db_write_signal ::
  "gen_env \<Rightarrow> tick \<Rightarrow> string \<Rightarrow> pydict \<Rightarrow> real \<Rightarrow> string option \<Rightarrow> string \<Rightarrow> signal_tables \<Rightarrow> signal_tables" where
  "db_write_signal e t symbol payload score pool_id run_id db =
     (case (bind_text (tk_trace t), bind_text (tk_msg t)) of
        (Some trace, Some msg) \<Rightarrow>
          if gx_fails e G_signal \<or> \<not> reference_ok e run_id db then db
          else db\<lparr>tb_events := (if idem_key symbol trace \<in> sq_idem ` set (tb_events db) then tb_events db
                 else tb_events db @ [\<lparr>sq_entity = trace, sq_data = payload, sq_idem = idem_key symbol trace\<rparr>]),
               tb_grades := tb_grades db @ [\<lparr>sq_run = run_id, sq_agent = pool_id, sq_score = score, sq_trace = trace\<rparr>],
               tb_processed := List.insert msg (tb_processed db)\<rparr>
      | _ \<Rightarrow> db)"

definition complete_row :: "pydict \<Rightarrow> int \<Rightarrow> run_row \<Rightarrow> run_row" where
  "complete_row payload elapsed r = r\<lparr>rr_status := ''completed'', rr_output := Some payload, rr_elapsed := Some elapsed\<rparr>"

definition db_write_run_complete ::
  "gen_env \<Rightarrow> tick \<Rightarrow> string option \<Rightarrow> string \<Rightarrow> pydict \<Rightarrow> signal_tables \<Rightarrow> signal_tables" where
  "db_write_run_complete e t db_run_id run_id payload db =
     (case bind_text (tk_trace t) of None \<Rightarrow> db
      | Some trace \<Rightarrow>
          if gx_fails e G_complete \<or> \<not> reference_ok e run_id db then db
          else db\<lparr>tb_runs := (case db_run_id of None \<Rightarrow> tb_runs db
                 | Some i \<Rightarrow> map (\<lambda>(k, r). (k, if k = i then complete_row payload (gx_elapsed e) r else r)) (tb_runs db)),
               tb_logs := tb_logs db @ [(run_id, payload)]\<rparr>)"

definition store_run :: "gen_env \<Rightarrow> tick \<Rightarrow> string \<Rightarrow> mem_store \<Rightarrow> mem_store" where
  "store_run e t run_id st = add_agent_run (hv_now (gx_beat e))
     [(''run_id'', PStr run_id), (''trace_id'', tk_trace t), (''input_data'', PDict (tk_payload t)),
      (''schema_version'', PStr DB_SCHEMA_VERSION), (''source'', PStr SOURCE_SIGNAL), (''status'', PStr ''running''),
      (''created_at'', PFloat (hv_now (gx_beat e)))] st"

text \<open>the first run with the id is completed\<close>
fun complete_first :: "string \<Rightarrow> pydict \<Rightarrow> pydict list \<Rightarrow> pydict list" where
  "complete_first run_id upd [] = []"
| "complete_first run_id upd (r # rs) =
     (if py_get r ''run_id'' = PStr run_id then dmerge r upd # rs else r # complete_first run_id upd rs)"

definition store_signal ::
  "gen_env \<Rightarrow> tick \<Rightarrow> string \<Rightarrow> pydict \<Rightarrow> real \<Rightarrow> string \<Rightarrow> mem_store \<Rightarrow> mem_store" where
  "store_signal e t symbol payload score run_id st =
     (let now = hv_now (gx_beat e);
          st = add_event now [(''event_type'', PStr ''signal.generated''), (''entity_type'', PStr ''signal''),
            (''entity_id'', tk_trace t), (''data'', PDict payload),
            (''idempotency_key'', PStr (idem_key symbol (py_str (be_rp (gx_bus e)) (tk_trace t)))),
            (''schema_version'', PStr DB_SCHEMA_VERSION), (''source'', PStr SOURCE_SIGNAL)] st;
          st = add_grade now [(''trace_id'', tk_trace t), (''grade_type'', PStr ''accuracy''), (''score'', PFloat score),
            (''metrics'', PDict [(''signal_type'', py_get payload ''type''), (''symbol'', PStr symbol)]),
            (''source'', PStr SOURCE_SIGNAL), (''schema_version'', PStr DB_SCHEMA_VERSION)] st;
          st = st\<lparr>ms_agent_runs := complete_first run_id [(''status'', PStr ''completed''),
            (''output_data'', PDict payload), (''execution_time_ms'', PInt (gx_elapsed e))] (ms_agent_runs st)\<rparr>
      in add_event now [(''agent_run_id'', PStr run_id), (''trace_id'', tk_trace t),
            (''log_type'', PStr ''SIGNAL_GENERATED''), (''payload'', PDict payload),
            (''schema_version'', PStr DB_SCHEMA_VERSION), (''source'', PStr AGENT_SIGNAL),
            (''timestamp'', PFloat now)] st)"

definition on_memory :: "(mem_store \<Rightarrow> mem_store) \<Rightarrow> generator \<Rightarrow> generator" where
  "on_memory f s = s\<lparr>gn_beats := (gn_beats s)\<lparr>hb_store := f (hb_store (gn_beats s))\<rparr>\<rparr>"

text \<open>deduplication against the database, then the start of the run\<close>
definition begin_run :: "gen_env \<Rightarrow> tick \<Rightarrow> string \<Rightarrow> generator \<Rightarrow> (bool \<times> string option) \<times> generator" where
  "begin_run e t run_id s =
     (if db_up e then
        if seen_before e (tk_msg t) (gn_tables s) then ((False, None), s)
        else case db_write_run_start e t (gn_tables s) of (i, db) \<Rightarrow> ((True, i), s\<lparr>gn_tables := db\<rparr>)
      else ((True, None), on_memory (store_run e t run_id) s))"

definition persist_signal_complete ::
  "gen_env \<Rightarrow> tick \<Rightarrow> string \<Rightarrow> pydict \<Rightarrow> real \<Rightarrow> string \<Rightarrow> string option \<Rightarrow> generator \<Rightarrow> generator" where
  "persist_signal_complete e t symbol payload score run_id db_run_id s =
     (if db_up e then s\<lparr>gn_tables := db_write_run_complete e t db_run_id run_id payload
          (db_write_signal e t symbol payload score (gn_pool_id s) run_id (gn_tables s))\<rparr>
      else on_memory (store_signal e t symbol payload score run_id) s)"

section \<open>The agent\<close>

text \<open>\<open>publish\<close> fills its defaults into the payload it is given, so what is persisted afterwards has them\<close>
definition publish_signal :: "gen_env \<Rightarrow> pydict \<Rightarrow> generator \<Rightarrow> generator" where
  "publish_signal e payload s =
     s\<lparr>gn_bus := snd (publish (gx_bus e) STREAM_SIGNALS payload None (gn_bus s))\<rparr>"

definition publish_and_persist :: "gen_env \<Rightarrow> tick \<Rightarrow> string \<Rightarrow> tick_features \<Rightarrow> classified \<Rightarrow> generator \<Rightarrow> generator" where
  "publish_and_persist e t symbol f c s =
     (let payload = signal_payload e t symbol f c; run_id = gx_uuid e 3; s0 = resolve_agent_pool_id e s
      in case begin_run e t run_id s0 of ((proceed, db_run_id), s1) \<Rightarrow>
           if \<not> proceed then s1
           else let s2 = publish_signal e payload s1;
                    s3 = s2\<lparr>gn_total_events := gn_total_events s2 + 1\<rparr>;
                    s4 = persist_signal_complete e t symbol (with_defaults (gx_bus e) payload) (cl_score c) run_id db_run_id s3
                in beat e (signal_type_value (cl_type c) @ '' '' @ symbol @ '' '' @ gx_pct_text e (tk_pct t) @ ''%'') s4)"

definition classify_tick :: "tick \<Rightarrow> tick_features \<Rightarrow> classified" where
  "classify_tick t f = classify_signal (tk_pct t) (compute_return_sigma SIGMA_MIN_SAMPLES (fe_prices f))"

definition handle_tick :: "gen_env \<Rightarrow> tick \<Rightarrow> string \<Rightarrow> tick_features \<Rightarrow> generator \<Rightarrow> generator" where
  "handle_tick e t symbol f s =
     (let c = classify_tick t f in
      case should_publish (gx_every_n e) symbol (cl_strength c) (gn_ticks s) of (due, ticks) \<Rightarrow>
        let s1 = s\<lparr>gn_ticks := ticks\<rparr>
        in if due then publish_and_persist e t symbol f c s1
           else beat e (''throttled '' @ symbol @ '' '' @ gx_pct_text e (tk_pct t) @ ''%'') s1)"

definition generator_process :: "gen_env \<Rightarrow> pydict \<Rightarrow> unit sgrun" where
  "generator_process e data =
     bnd (lift_res (parse_tick e data)) (\<lambda>t.
       if \<not> truthy (tk_symbol t) \<or> tk_price t \<le> 0 then ret ()
       else case tk_symbol t of
         PStr symbol \<Rightarrow> bnd (observe_tick e symbol (tk_price t)) (\<lambda>f. modify (handle_tick e t symbol f))
       | _ \<Rightarrow> throw TypeError)"

section \<open>The throttle publishes every n-th noise tick and every trade\<close>

fun throttle_run :: "int \<Rightarrow> string \<Rightarrow> SignalStrength list \<Rightarrow> (string \<times> int) list \<Rightarrow> bool list" where
  "throttle_run n symbol [] ticks = []"
| "throttle_run n symbol (x # xs) ticks =
     (case should_publish n symbol x ticks of (due, ticks') \<Rightarrow> due # throttle_run n symbol xs ticks')"

lemma length_throttle_run [simp]: "length (throttle_run n symbol xs ticks) = length xs"
  by (induction xs arbitrary: ticks) (auto split: prod.splits)

lemma should_publish_low:
  "1 \<le> n \<Longrightarrow> should_publish n symbol LOW ticks =
     (n \<le> dget ticks symbol n + 1,
      dset symbol (if n \<le> dget ticks symbol n + 1 then 0 else dget ticks symbol n + 1) ticks)"
  by (simp add: should_publish_def Let_def max_def)

lemma should_publish_trade: "x \<noteq> LOW \<Longrightarrow> should_publish n symbol x ticks = (True, dset symbol 0 ticks)"
  by (simp add: should_publish_def)

lemma throttle_trades:
  "i < length xs \<Longrightarrow> xs ! i \<noteq> LOW \<Longrightarrow> throttle_run n symbol xs ticks ! i"
proof (induction xs arbitrary: i ticks)
  case (Cons x xs)
  then show ?case by (cases i) (auto simp: should_publish_trade split: prod.splits)
qed simp

lemma throttle_wait:
  assumes "1 \<le> n" "0 \<le> dget ticks symbol n" "n \<le> dget ticks symbol n + int (length xs)" "xs \<noteq> []"
  shows "True \<in> set (throttle_run n symbol xs ticks)"
  using assms(2-)
proof (induction xs arbitrary: ticks)
  case (Cons x xs)
  show ?case
  proof (cases "x = LOW \<and> \<not> n \<le> dget ticks symbol n + 1")
    case True
    then have "xs \<noteq> []" using Cons.prems by auto
    then show ?thesis using True Cons.IH [of "dset symbol (dget ticks symbol n + 1) ticks"] Cons.prems assms(1)
      by (simp add: should_publish_low)
  next
    case False
    then show ?thesis using assms(1) by (cases "x = LOW") (auto simp: should_publish_low should_publish_trade)
  qed
qed simp

lemma throttle_noise:
  assumes "1 \<le> n" "0 \<le> dget ticks symbol n" "dget ticks symbol n < n"
  shows "int (count_list (throttle_run n symbol (replicate k LOW) ticks) True) = (dget ticks symbol n + int k) div n"
  using assms(2,3)
proof (induction k arbitrary: ticks)
  case (Suc k)
  let ?c = "dget ticks symbol n"
  show ?case
  proof (cases "n \<le> ?c + 1")
    case True
    then have c: "?c + int (Suc k) = n + int k" using Suc.prems by simp
    have "(?c + int (Suc k)) div n = 1 + int k div n" unfolding c using assms(1) by simp
    then show ?thesis using True Suc.IH [of "dset symbol 0 ticks"] assms(1) by (simp add: should_publish_low)
  next
    case False
    then show ?thesis using Suc.IH [of "dset symbol (?c + 1) ticks"] Suc.prems assms(1)
      by (simp add: should_publish_low algebra_simps)
  qed
qed (simp add: div_pos_pos_trivial)

text \<open>The throttle never swallows a trade and never goes silent: every tick that is more than noise is
  published, among any \<open>n\<close> consecutive ticks of a symbol at least one is, and a run of \<open>k\<close> noise
  ticks that starts with counter \<open>c\<close> publishes exactly \<open>(c + k) div n\<close> of them.\<close>
theorem throttle_law:
  assumes "1 \<le> n" "0 \<le> dget ticks symbol n" "dget ticks symbol n \<le> n"
  shows "(\<forall>i < length xs. xs ! i \<noteq> LOW \<longrightarrow> throttle_run n symbol xs ticks ! i)
    \<and> (nat n \<le> length xs \<longrightarrow> True \<in> set (throttle_run n symbol xs ticks))
    \<and> (dget ticks symbol n < n \<longrightarrow> int (count_list (throttle_run n symbol (replicate k LOW) ticks) True)
         = (dget ticks symbol n + int k) div n)"
proof (intro conjI impI allI)
  assume l: "nat n \<le> length xs"
  then have "xs \<noteq> []" "n \<le> dget ticks symbol n + int (length xs)" using assms by auto
  then show "True \<in> set (throttle_run n symbol xs ticks)" using throttle_wait assms by blast
qed (use throttle_trades throttle_noise assms in blast)+

theorem throttle_law_witness:
  "throttle_run 3 ''BTC/USD'' [LOW, LOW, LOW, NORMAL, LOW] [] = [True, False, False, True, False]
   \<and> int (count_list (throttle_run 3 ''BTC/USD'' (replicate 8 LOW) [(''BTC/USD'', 1)]) True) = 3"
  using throttle_law [of 3 "[(''BTC/USD'', 1)]" "''BTC/USD''" "[]" 8]
  by (simp add: should_publish_def)

section \<open>One tick\<close>

lemma observe_run:
  obtains f where "observe_tick e symbol price s = (Inr f, push_atr symbol (fe_atr f) (push_price symbol price (open_history e symbol s)))"
proof -
  define s1 where "s1 = push_price symbol price (open_history e symbol s)"
  define prices where "prices = dget (gn_price_history s1) symbol []"
  have "\<exists>r. compute_rsi prices REGIME_ATR_PERIOD = Inr r" "\<exists>a. compute_atr_from_prices prices REGIME_ATR_PERIOD = Inr a"
    by (auto simp: compute_rsi_def compute_atr_from_prices_def REGIME_ATR_PERIOD_def Let_def)
  then obtain r a where "compute_rsi prices REGIME_ATR_PERIOD = Inr r" "compute_atr_from_prices prices REGIME_ATR_PERIOD = Inr a"
    by blast
  then have "observe_tick e symbol price s = (Inr \<lparr>fe_prices = prices, fe_rsi = r, fe_atr = a,
      fe_ratio = atr_regime_ratio a (dget (gn_atr_history (push_atr symbol a s1)) symbol [])\<rparr>, push_atr symbol a s1)"
    by (simp add: observe_tick_def prices_def s1_def)
  then show thesis using that unfolding s1_def by fastforce
qed

lemma window_frame [simp]:
  "gn_bus (open_history e symbol s) = gn_bus s" "gn_tables (open_history e symbol s) = gn_tables s"
  "gn_beats (open_history e symbol s) = gn_beats s" "gn_ticks (open_history e symbol s) = gn_ticks s"
  "gn_bus (push_price symbol p s) = gn_bus s" "gn_tables (push_price symbol p s) = gn_tables s"
  "gn_beats (push_price symbol p s) = gn_beats s" "gn_ticks (push_price symbol p s) = gn_ticks s"
  "gn_bus (push_atr symbol a s) = gn_bus s" "gn_tables (push_atr symbol a s) = gn_tables s"
  "gn_beats (push_atr symbol a s) = gn_beats s" "gn_ticks (push_atr symbol a s) = gn_ticks s"
  by (simp_all add: open_history_def push_price_def push_atr_def split: option.splits)

lemma process_run:
  assumes "parse_tick e data = Inr t" "tk_symbol t = PStr symbol" "symbol \<noteq> []" "0 < tk_price t"
  obtains f s1 where "observe_tick e symbol (tk_price t) s = (Inr f, s1)" "gn_bus s1 = gn_bus s" "gn_tables s1 = gn_tables s"
    "gn_ticks s1 = gn_ticks s" "generator_process e data s = (Inr (), handle_tick e t symbol f s1)"
proof -
  obtain f where "observe_tick e symbol (tk_price t) s = (Inr f, push_atr symbol (fe_atr f)
      (push_price symbol (tk_price t) (open_history e symbol s)))" by (rule observe_run)
  then show thesis using that [of f] assms by (simp add: generator_process_def bnd_def)
qed

text \<open>a tick is refused, ignored, or observed and handled\<close>
lemma process_cases:
  obtains (refused) x where "generator_process e data s = (Inl x, s)"
  | (ignored) "generator_process e data s = (Inr (), s)"
  | (handled) t symbol f s1 where "parse_tick e data = Inr t" "tk_symbol t = PStr symbol" "symbol \<noteq> []" "0 < tk_price t"
      "observe_tick e symbol (tk_price t) s = (Inr f, s1)" "gn_bus s1 = gn_bus s" "gn_tables s1 = gn_tables s" "gn_ticks s1 = gn_ticks s"
      "generator_process e data s = (Inr (), handle_tick e t symbol f s1)"
proof (cases "parse_tick e data")
  case (Inl x)
  then show ?thesis using refused [of x] by (simp add: generator_process_def)
next
  case (Inr t)
  consider "\<not> truthy (tk_symbol t) \<or> tk_price t \<le> 0"
    | symbol where "truthy (tk_symbol t)" "0 < tk_price t" "tk_symbol t = PStr symbol"
    | "truthy (tk_symbol t)" "0 < tk_price t" "\<forall>symbol. tk_symbol t \<noteq> PStr symbol"
    by fastforce
  then show ?thesis
  proof cases
    case 1
    then show ?thesis using ignored Inr by (auto simp: generator_process_def)
  next
    case 2
    then show ?thesis using process_run [OF Inr 2(3), of s] handled [OF Inr 2(3)] by (metis truthy_simps(5))
  next
    case 3
    then have "generator_process e data s = (Inl TypeError, s)"
      using Inr by (cases "tk_symbol t") (auto simp: generator_process_def)
    then show ?thesis by (rule refused)
  qed
qed

lemma frame_beat [simp]:
  "gn_bus (beat e x s) = gn_bus s" "gn_tables (beat e x s) = gn_tables s"
  "gn_price_history (beat e x s) = gn_price_history s" "gn_atr_history (beat e x s) = gn_atr_history s"
  by (simp_all add: beat_def)

lemma frame_pool [simp]:
  "gn_bus (resolve_agent_pool_id e s) = gn_bus s" "gn_tables (resolve_agent_pool_id e s) = gn_tables s"
  "gn_price_history (resolve_agent_pool_id e s) = gn_price_history s"
  "gn_atr_history (resolve_agent_pool_id e s) = gn_atr_history s"
  by (simp_all add: resolve_agent_pool_id_def split: option.splits)

lemma frame_begin:
  assumes "begin_run e t run_id s = (r, s')"
  shows "gn_bus s' = gn_bus s" "gn_price_history s' = gn_price_history s" "gn_atr_history s' = gn_atr_history s"
    "gn_pool_id s' = gn_pool_id s"
  using assms by (auto simp: begin_run_def on_memory_def split: if_splits prod.splits)

lemma frame_persist [simp]:
  "gn_bus (persist_signal_complete e t symbol p sc r d s) = gn_bus s"
  "gn_price_history (persist_signal_complete e t symbol p sc r d s) = gn_price_history s"
  "gn_atr_history (persist_signal_complete e t symbol p sc r d s) = gn_atr_history s"
  by (simp_all add: persist_signal_complete_def on_memory_def)

lemma frame_publish [simp]:
  "gn_price_history (publish_signal e p s) = gn_price_history s" "gn_atr_history (publish_signal e p s) = gn_atr_history s"
  "gn_tables (publish_signal e p s) = gn_tables s"
  by (simp_all add: publish_signal_def)

text \<open>emitting either skips a duplicate or publishes its payload\<close>
lemma emit_bus:
  "gn_bus (publish_and_persist e t symbol f c s) =
     (if db_up e \<and> seen_before e (tk_msg t) (gn_tables s) then gn_bus s
      else snd (publish (gx_bus e) STREAM_SIGNALS (signal_payload e t symbol f c) None (gn_bus s)))"
proof -
  obtain p d s1 where b: "begin_run e t (gx_uuid e 3) (resolve_agent_pool_id e s) = ((p, d), s1)" by (metis surj_pair)
  moreover have "p \<longleftrightarrow> \<not> (db_up e \<and> seen_before e (tk_msg t) (gn_tables s))"
    using b by (auto simp: begin_run_def split: if_splits prod.splits)
  moreover note frame_begin [OF b]
  ultimately show ?thesis by (auto simp: publish_and_persist_def Let_def publish_signal_def)
qed

lemma handle_cases:
  obtains (emitted) ticks where "handle_tick e t symbol f s = publish_and_persist e t symbol f (classify_tick t f) (s\<lparr>gn_ticks := ticks\<rparr>)"
  | (throttled) x ticks where "handle_tick e t symbol f s = beat e x (s\<lparr>gn_ticks := ticks\<rparr>)"
proof -
  obtain due ticks where "should_publish (gx_every_n e) symbol (cl_strength (classify_tick t f)) (gn_ticks s) = (due, ticks)"
    by (metis surj_pair)
  then show thesis using that by (cases due) (simp_all add: handle_tick_def Let_def)
qed

lemma handle_bus:
  "gn_bus (handle_tick e t symbol f s) = gn_bus s \<or>
   gn_bus (handle_tick e t symbol f s) =
     snd (publish (gx_bus e) STREAM_SIGNALS (signal_payload e t symbol f (classify_tick t f)) None (gn_bus s))"
  by (simp add: handle_tick_def emit_bus Let_def split: prod.splits)

text \<open>\<open>round(score / 100, 4)\<close> keeps the tiers apart\<close>
lemma confidence_rounded:
  "1 / 5 \<le> py_round 4 (cl_score (classify_signal pct sigma) / 100)"
  "py_round 4 (cl_score (classify_signal pct sigma) / 100) \<le> 1"
  "cl_action (classify_signal pct sigma) \<noteq> ''hold'' \<Longrightarrow> 11 / 20 \<le> py_round 4 (cl_score (classify_signal pct sigma) / 100)"
proof -
  let ?s = "cl_score (classify_signal pct sigma)"
  have d: "decimals 4 (1 / 5)" "decimals 4 (11 / 20)" unfolding decimals_def
    by (rule exI [of _ 2000], simp) (rule exI [of _ 5500], simp)
  have b: "30 \<le> ?s" "?s \<le> 95" using curve_bounds by (simp_all add: classify_score)
  show "1 / 5 \<le> py_round 4 (?s / 100)" using b by (intro py_round_ge d) simp
  show "py_round 4 (?s / 100) \<le> 1" using b by (intro py_round_le) simp_all
  show "11 / 20 \<le> py_round 4 (?s / 100)" if "cl_action (classify_signal pct sigma) \<noteq> ''hold''"
    using that curve_tradeable [of sigma "\<bar>pct\<bar>"] by (intro py_round_ge d) (simp add: classify_score classify_action split: if_splits)
qed

text \<open>One tick publishes at most one signal, on \<open>signals\<close> only, for a named symbol at a positive price; its
  confidence is a fraction, at least 0.55 whenever it says to trade, and it says to buy only on a rise and to
  sell only on a fall.\<close>
theorem tick_publishes_at_most_one_signal:
  "gn_bus (snd (generator_process e data s)) = gn_bus s \<or>
   (\<exists>payload conf pct. gn_bus (snd (generator_process e data s)) = snd (publish (gx_bus e) STREAM_SIGNALS payload None (gn_bus s))
      \<and> py_get payload ''symbol'' \<noteq> PStr [] \<and> py_get payload ''pct'' = PFloat pct
      \<and> py_get payload ''confidence'' = PFloat conf \<and> 1 / 5 \<le> conf \<and> conf \<le> 1
      \<and> py_get payload ''action'' \<in> {PStr ''hold'', PStr ''buy'', PStr ''sell''}
      \<and> (py_get payload ''action'' \<noteq> PStr ''hold'' \<longrightarrow> 11 / 20 \<le> conf)
      \<and> (py_get payload ''action'' = PStr ''buy'' \<longrightarrow> 0 < pct)
      \<and> (py_get payload ''action'' = PStr ''sell'' \<longrightarrow> pct < 0))"
proof (cases rule: process_cases [of e data s])
  case (handled t symbol f s1)
  let ?c = "classify_tick t f"
  have conf: "1 / 5 \<le> py_round 4 (cl_score ?c / 100)" "py_round 4 (cl_score ?c / 100) \<le> 1"
      "cl_action ?c \<noteq> ''hold'' \<Longrightarrow> 11 / 20 \<le> py_round 4 (cl_score ?c / 100)"
    using confidence_rounded by (simp_all add: classify_tick_def)
  have act: "cl_action ?c \<in> {''hold'', ''buy'', ''sell''}" "cl_action ?c = ''buy'' \<Longrightarrow> 0 < tk_pct t"
      "cl_action ?c = ''sell'' \<Longrightarrow> tk_pct t < 0"
    using thresholds_ordered(1) [of "compute_return_sigma SIGMA_MIN_SAMPLES (fe_prices f)"]
    by (auto simp: classify_tick_def classify_action split: if_splits)
  show ?thesis using handle_bus [of e t symbol f s1] handled conf act
    by (fastforce simp: signal_payload_def intro!: exI [of _ "signal_payload e t symbol f ?c"])
qed auto

section \<open>Redelivery\<close>

text \<open>While the database is up, a tick whose message id has been recorded publishes nothing and writes no row.\<close>
theorem recorded_tick_is_skipped:
  assumes "db_up e" "\<not> gx_fails e G_dedup" "parse_tick e data = Inr t" "tk_msg t = PStr m"
    and "m \<in> set (tb_processed (gn_tables s))"
  shows "gn_bus (snd (generator_process e data s)) = gn_bus s
    \<and> gn_tables (snd (generator_process e data s)) = gn_tables s"
proof (cases rule: process_cases [of e data s])
  case (handled t' symbol f s1)
  then have [simp]: "t' = t" using assms(3) by simp
  have "seen_before e (tk_msg t) db \<longleftrightarrow> m \<in> set (tb_processed db)" for db
    using assms by (simp add: seen_before_def bind_text_def)
  then have dup: "seen_before e (tk_msg t) (gn_tables (resolve_agent_pool_id e z))" if "gn_tables z = gn_tables s" for z
    using that assms(5) by simp
  have "publish_and_persist e t symbol f c z = resolve_agent_pool_id e z" if "gn_tables z = gn_tables s" for c z
    using dup [OF that] assms(1) by (simp add: publish_and_persist_def begin_run_def Let_def)
  then show ?thesis using handled by (simp add: handle_tick_def Let_def split: prod.splits)
qed auto

lemma write_signal_records:
  assumes "\<not> gx_fails e G_signal" "reference_ok e run_id db" "tk_trace t = PStr tr" "tk_msg t = PStr m"
  shows "m \<in> set (tb_processed (db_write_signal e t symbol p sc pool run_id db))"
  using assms by (simp add: db_write_signal_def bind_text_def)

lemma run_complete_processed [simp]:
  "tb_processed (db_write_run_complete e t d r p db) = tb_processed db"
  by (simp add: db_write_run_complete_def split: option.splits)

lemma run_start_processed [simp]:
  "tb_processed (snd (db_write_run_start e t db)) = tb_processed db"
  by (simp add: db_write_run_start_def split: option.splits)

lemma emit_records:
  assumes "db_up e" "\<not> gx_fails e G_signal" "\<not> gx_foreign_keys e" "tk_trace t = PStr tr" "tk_msg t = PStr m"
    and "\<not> seen_before e (tk_msg t) (gn_tables s)"
  shows "m \<in> set (tb_processed (gn_tables (publish_and_persist e t symbol f c s)))"
proof -
  obtain d db where b: "begin_run e t (gx_uuid e 3) (resolve_agent_pool_id e s) = ((True, d), (resolve_agent_pool_id e s)\<lparr>gn_tables := db\<rparr>)"
    using assms(1,6) by (cases "db_write_run_start e t (gn_tables s)") (auto simp: begin_run_def)
  then show ?thesis using assms
    by (simp add: publish_and_persist_def Let_def persist_signal_complete_def publish_signal_def write_signal_records reference_ok_def)
qed

text \<open>Without foreign keys on the run id, a tick that was published is published once: when the writes of its
  first delivery succeed, no later delivery under the same message id publishes again, whatever that
  delivery's environment is as long as it can read the database.\<close>
theorem redelivered_tick_publishes_once:
  assumes "db_up e" "\<not> gx_fails e G_signal" "\<not> gx_foreign_keys e" "parse_tick e data = Inr t"
    and "tk_trace t = PStr tr" "tk_msg t = PStr m"
    and "gn_bus (snd (generator_process e data s)) \<noteq> gn_bus s"
    and "db_up e'" "\<not> gx_fails e' G_dedup" "parse_tick e' data = Inr t'" "tk_msg t' = PStr m"
    and "s1 = snd (generator_process e data s)"
  shows "gn_bus (snd (generator_process e' data s1)) = gn_bus s1"
proof -
  have "m \<in> set (tb_processed (gn_tables s1))"
  proof (cases rule: process_cases [of e data s])
    case (handled t2 symbol f s2)
    then have [simp]: "t2 = t" using assms(4) by simp
    show ?thesis
    proof (cases rule: handle_cases [of e t symbol f s2])
      case (emitted ticks)
      then have "\<not> seen_before e (tk_msg t) (gn_tables (s2\<lparr>gn_ticks := ticks\<rparr>))"
        using assms(1,7) handled by (auto simp: emit_bus)
      then show ?thesis using emitted handled assms(12) emit_records [OF assms(1-3,5,6)] by simp
    next
      case (throttled x ticks)
      then show ?thesis using assms(7) handled by simp
    qed
  qed (use assms(7,12) in auto)
  moreover have "gn_bus (snd (generator_process e' data s1)) = gn_bus s1" if "m \<in> set (tb_processed (gn_tables s1))"
  proof (cases rule: process_cases [of e' data s1])
    case (handled t2 symbol f s2)
    then have "t2 = t'" using assms(10) by simp
    moreover have "seen_before e' (tk_msg t') (gn_tables s2)"
      using that handled assms by (simp add: seen_before_def bind_text_def)
    ultimately show ?thesis using handled assms(8) by (simp add: handle_tick_def emit_bus Let_def split: prod.splits)
  qed auto
  ultimately show ?thesis by simp
qed

text \<open>With the foreign keys the models declare, the write that records a signal always fails, because the
  grade and the log reference the agent's own run id, which is not the key of the run row: no event, grade,
  log or processed mark is ever stored, every run that was running stays so, and the failure is swallowed
  after the signal went out.\<close>
theorem foreign_keys_lose_every_record:
  assumes "gx_foreign_keys e" "db_up e" "gx_uuid e 3 \<noteq> gx_row_id e"
    and "gx_uuid e 3 \<notin> fst ` set (tb_runs (gn_tables s))"
  shows "\<exists>new. gn_tables (snd (generator_process e data s)) = (gn_tables s)\<lparr>tb_runs := tb_runs (gn_tables s) @ new\<rparr>
    \<and> set (map (rr_status \<circ> snd) new) \<subseteq> {''running''}"
proof (cases rule: process_cases [of e data s])
  case (handled t symbol f s1)
  have emit: "\<exists>new. gn_tables (publish_and_persist e t symbol f c z) = (gn_tables z)\<lparr>tb_runs := tb_runs (gn_tables z) @ new\<rparr>
      \<and> set (map (rr_status \<circ> snd) new) \<subseteq> {''running''}" if "gn_tables z = gn_tables s" for c z
  proof (cases "seen_before e (tk_msg t) (gn_tables z)")
    case True
    then have "gn_tables (publish_and_persist e t symbol f c z) = gn_tables z"
      using assms(2) by (simp add: publish_and_persist_def begin_run_def Let_def)
    then show ?thesis by (intro exI [of _ "[]"]) simp
  next
    case False
    obtain d db where w: "db_write_run_start e t (gn_tables z) = (d, db)" by (metis surj_pair)
    then obtain new where n: "db = (gn_tables z)\<lparr>tb_runs := tb_runs (gn_tables z) @ new\<rparr>"
        "set (map (rr_status \<circ> snd) new) \<subseteq> {''running''}" "fst ` set new \<subseteq> {gx_row_id e}"
      by (fastforce simp: db_write_run_start_def split: option.splits if_splits intro: that [of "[]"])
    then have r: "\<not> reference_ok e (gx_uuid e 3) db"
      using assms that by (auto simp: reference_ok_def)
    have "gn_tables (publish_and_persist e t symbol f c z) = db"
      using False assms(2) w r
      by (simp add: publish_and_persist_def begin_run_def Let_def persist_signal_complete_def publish_signal_def
          db_write_signal_def db_write_run_complete_def split: option.splits)
    then show ?thesis using n by blast
  qed
  show ?thesis
  proof (cases rule: handle_cases [of e t symbol f s1])
    case (emitted ticks)
    then show ?thesis using handled emit [of "s1\<lparr>gn_ticks := ticks\<rparr>" "classify_tick t f"] by simp
  next
    case (throttled x ticks)
    then show ?thesis using handled by (intro exI [of _ "[]"]) simp
  qed
qed (auto intro!: exI [of _ "[]"])

section \<open>The histories\<close>

definition windows_ok :: "generator \<Rightarrow> bool" where
  "windows_ok s \<longleftrightarrow> (\<forall>(k, ps) \<in> set (gn_price_history s). length ps \<le> PRICE_WINDOW \<and> (\<forall>p \<in> set ps. 0 < p))
     \<and> (\<forall>(k, as) \<in> set (gn_atr_history s). length as \<le> ATR_WINDOW \<and> (\<forall>a \<in> set as. 0 \<le> a))"

lemma dget_in: "dget d k x = x \<or> (k, dget d k x) \<in> set d"
  by (auto simp: dget_def split: option.splits dest: map_of_SomeD)

lemma fold_push_capped:
  "0 < n \<Longrightarrow> length xs \<le> n \<Longrightarrow> length (fold (push_capped n) ys xs) \<le> n \<and> set (fold (push_capped n) ys xs) \<subseteq> set xs \<union> set ys"
proof (induction ys arbitrary: xs)
  case (Cons y ys)
  then show ?case using Cons.IH [of "push_capped n y xs"] length_push_capped [of n xs y] set_push_capped [of n y xs] by auto
qed simp

lemma windows_open: "windows_ok s \<Longrightarrow> windows_ok (open_history e symbol s)"
proof -
  assume ok: "windows_ok s"
  let ?h = "fold (push_capped PRICE_WINDOW) (bootstrap_price_history e symbol) []"
  have "length ?h \<le> PRICE_WINDOW" "set ?h \<subseteq> set (bootstrap_price_history e symbol)"
    using fold_push_capped [of PRICE_WINDOW "[]" "bootstrap_price_history e symbol"] by (auto simp: PRICE_WINDOW_def)
  moreover have "\<forall>p \<in> set (bootstrap_price_history e symbol). 0 < p"
    by (auto simp: bootstrap_price_history_def split: option.splits)
  ultimately show ?thesis using ok unfolding windows_ok_def open_history_def
    by (simp split: option.splits, intro impI conjI dset_all) (auto dest: subsetD)
qed

lemma windows_push:
  assumes "windows_ok s" "0 < p"
  shows "windows_ok (push_price symbol p s)"
proof -
  let ?h = "push_capped PRICE_WINDOW p (dget (gn_price_history s) symbol [])"
  have "length (dget (gn_price_history s) symbol []) \<le> PRICE_WINDOW" "\<forall>q \<in> set (dget (gn_price_history s) symbol []). 0 < q"
    using assms(1) dget_in [of "gn_price_history s" symbol "[]"] by (fastforce simp: windows_ok_def)+
  then have "length ?h \<le> PRICE_WINDOW" "\<forall>q \<in> set ?h. 0 < q"
    using length_push_capped set_push_capped [of PRICE_WINDOW p] assms(2) by (fastforce simp: PRICE_WINDOW_def)+
  then show ?thesis using assms(1) unfolding windows_ok_def push_price_def by (simp, intro conjI dset_all) simp_all
qed

lemma windows_push_atr:
  assumes "windows_ok s" "\<forall>a. atr = Some a \<longrightarrow> 0 \<le> a"
  shows "windows_ok (push_atr symbol atr s)"
proof (cases atr)
  case (Some a)
  let ?h = "push_capped ATR_WINDOW a (dget (gn_atr_history s) symbol [])"
  have "length (dget (gn_atr_history s) symbol []) \<le> ATR_WINDOW" "\<forall>q \<in> set (dget (gn_atr_history s) symbol []). 0 \<le> q"
    using assms(1) dget_in [of "gn_atr_history s" symbol "[]"] by (fastforce simp: windows_ok_def)+
  then have "length ?h \<le> ATR_WINDOW" "\<forall>q \<in> set ?h. 0 \<le> q"
    using length_push_capped set_push_capped [of ATR_WINDOW a] assms(2) Some by (fastforce simp: ATR_WINDOW_def)+
  then show ?thesis using assms(1) Some unfolding windows_ok_def push_atr_def by (simp, intro conjI dset_all) simp_all
qed (simp add: push_atr_def assms(1))

lemma atr_nonneg: "compute_atr_from_prices ps n = Inr (Some a) \<Longrightarrow> 0 \<le> a"
  using set_last_n [of n "map abs (deltas ps)"]
  by (auto simp: compute_atr_from_prices_def split: if_splits intro!: py_round_ge divide_nonneg_nonneg sum_list_nonneg)

lemma observe_atr: "observe_tick e symbol price s = (Inr f, s') \<Longrightarrow> fe_atr f = Some a \<Longrightarrow> 0 \<le> a"
  by (auto simp: observe_tick_def bnd_def andthen_def lift_res_def gets_def modify_def ret_def atr_nonneg split: sum.splits)

lemma emit_histories:
  "gn_price_history (publish_and_persist e t symbol f c s) = gn_price_history s"
  "gn_atr_history (publish_and_persist e t symbol f c s) = gn_atr_history s"
proof -
  obtain p d s1 where b: "begin_run e t (gx_uuid e 3) (resolve_agent_pool_id e s) = ((p, d), s1)" by (metis surj_pair)
  show "gn_price_history (publish_and_persist e t symbol f c s) = gn_price_history s"
    "gn_atr_history (publish_and_persist e t symbol f c s) = gn_atr_history s"
    using frame_begin [OF b] b by (auto simp: publish_and_persist_def Let_def)
qed

text \<open>Whatever ticks arrive and whatever fails, the rolling histories stay windows: at most fifty prices, all
  positive, and at most twenty-five true ranges, none negative.\<close>
theorem histories_stay_windows:
  assumes "windows_ok s"
  shows "windows_ok (snd (generator_process e data s))"
proof (cases rule: process_cases [of e data s])
  case (handled t symbol f s1)
  obtain f' where f: "observe_tick e symbol (tk_price t) s = (Inr f', push_atr symbol (fe_atr f')
      (push_price symbol (tk_price t) (open_history e symbol s)))" by (rule observe_run)
  then have s1: "s1 = push_atr symbol (fe_atr f) (push_price symbol (tk_price t) (open_history e symbol s))"
    using handled(5) by simp
  have "windows_ok s1"
    unfolding s1 using windows_push_atr windows_push [OF windows_open [OF assms] handled(4)] observe_atr [OF handled(5)] by blast
  then show ?thesis using handled by (cases rule: handle_cases [of e t symbol f s1]) (auto simp: windows_ok_def emit_histories)
qed (use assms in auto)

section \<open>A tick in an empty system\<close>

definition no_beats :: beats where
  "no_beats = \<lparr>hb_store = empty_store, hb_redis = [], hb_rows = [], hb_instances = []\<rparr>"

definition gen0 :: generator where
  "gen0 = \<lparr>gn_bus = empty_bus, gn_beats = no_beats,
     gn_tables = \<lparr>tb_runs = [], tb_events = [], tb_grades = [], tb_logs = [], tb_processed = []\<rparr>,
     gn_total_events = 0, gn_pool_id = None, gn_price_history = [], gn_atr_history = [], gn_ticks = []\<rparr>"

definition gen_env0 :: gen_env where
  "gen_env0 = \<lparr>gx_bus = bus_env0,
     gx_beat = \<lparr>hv_now = 1000, hv_iso = ''t0'', hv_db_up = True, hv_redis_fails = False, hv_db_fails = False\<rparr>,
     gx_uuid = (\<lambda>n. ''u'' @ nat_str n), gx_row_id = ''row'', gx_hour = 15, gx_every_n = 10, gx_has_keys = False,
     gx_market_open = True, gx_bars = (\<lambda>_. None), gx_pool_row = None, gx_foreign_keys = False,
     gx_fails = (\<lambda>_. False), gx_pct_text = (\<lambda>_. ''+2.00''), gx_elapsed = 3\<rparr>"

definition tick0 :: pydict where
  "tick0 = [(''symbol'', PStr ''AAPL''), (''price'', PFloat 100), (''pct'', PFloat 2), (''trace_id'', PStr ''t''), (''msg_id'', PStr ''m'')]"

lemma parse_tick0: "parse_tick (gen_env0\<lparr>gx_foreign_keys := b\<rparr>) tick0 = Inr \<lparr>tk_payload = tick0, tk_symbol = PStr ''AAPL'',
    tk_price = 100, tk_pct = 2, tk_trace = PStr ''t'', tk_msg = PStr ''m''\<rparr>"
  by (simp add: parse_tick_def tick_payload_def tick0_def py_simps)

lemma gen_env0_self: "gen_env0 = gen_env0\<lparr>gx_foreign_keys := False\<rparr>"
  by (simp add: gen_env0_def)

text \<open>the first tick of a symbol is always published\<close>
lemma first_tick_due:
  "map_of ticks symbol = None \<Longrightarrow> \<exists>ticks'. should_publish n symbol x ticks = (True, ticks')"
  by (auto simp: should_publish_def dget_def Let_def max_def)

lemma tick0_bus:
  fixes b defines "e \<equiv> gen_env0\<lparr>gx_foreign_keys := b\<rparr>"
  shows "gn_bus (snd (generator_process e tick0 gen0)) \<noteq> gn_bus gen0"
proof -
  define t where "t = \<lparr>tk_payload = tick0, tk_symbol = PStr ''AAPL'', tk_price = 100, tk_pct = 2, tk_trace = PStr ''t'', tk_msg = PStr ''m''\<rparr>"
  obtain f s1 where run: "gn_bus s1 = gn_bus gen0" "gn_tables s1 = gn_tables gen0" "gn_ticks s1 = gn_ticks gen0"
      "generator_process e tick0 gen0 = (Inr (), handle_tick e t ''AAPL'' f s1)"
    by (rule process_run [of e tick0 t "''AAPL''" gen0]) (simp_all add: parse_tick0 e_def t_def)
  have "map_of (gn_ticks s1) ''AAPL'' = None" using run by (simp add: gen0_def)
  then obtain ticks where "should_publish (gx_every_n e) ''AAPL'' (cl_strength (classify_tick t f)) (gn_ticks s1) = (True, ticks)"
    using first_tick_due by blast
  then have "gn_bus (handle_tick e t ''AAPL'' f s1) =
      snd (publish bus_env0 STREAM_SIGNALS (signal_payload e t ''AAPL'' f (classify_tick t f)) None (gn_bus s1))"
    using run by (simp add: handle_tick_def Let_def emit_bus seen_before_def bind_text_def gen0_def t_def)
      (simp add: gen_env0_def e_def)
  then have "bu_streams (gn_bus (handle_tick e t ''AAPL'' f s1)) STREAM_SIGNALS \<noteq> None"
    by (simp add: publish_def xadd_def Let_def bus_env0_def)
  then show ?thesis using run by (auto simp: gen0_def empty_bus_def)
qed


theorem tick_publishes_at_most_one_signal_witness:
  "gn_bus (snd (generator_process gen_env0 tick0 gen0)) \<noteq> gn_bus gen0
   \<and> (\<exists>payload conf. gn_bus (snd (generator_process gen_env0 tick0 gen0))
        = snd (publish (gx_bus gen_env0) STREAM_SIGNALS payload None (gn_bus gen0))
      \<and> py_get payload ''confidence'' = PFloat conf \<and> conf \<le> 1)"
  using tick_publishes_at_most_one_signal [of gen_env0 tick0 gen0] tick0_bus [of False] gen_env0_self by auto

theorem recorded_tick_is_skipped_witness:
  "gn_bus (snd (generator_process gen_env0 tick0 (gen0\<lparr>gn_tables := (gn_tables gen0)\<lparr>tb_processed := [''m'']\<rparr>\<rparr>))) = gn_bus gen0"
  using recorded_tick_is_skipped [of gen_env0 tick0 _ "''m''" "gen0\<lparr>gn_tables := (gn_tables gen0)\<lparr>tb_processed := [''m'']\<rparr>\<rparr>"]
    parse_tick0 [of False] gen_env0_self by (simp add: gen0_def) (simp add: gen_env0_def)

theorem redelivered_tick_publishes_once_witness:
  "gn_bus (snd (generator_process gen_env0 tick0 gen0)) \<noteq> gn_bus gen0
   \<and> gn_bus (snd (generator_process gen_env0 tick0 (snd (generator_process gen_env0 tick0 gen0))))
     = gn_bus (snd (generator_process gen_env0 tick0 gen0))"
proof -
  have env: "db_up gen_env0" "\<not> gx_fails gen_env0 c" "\<not> gx_foreign_keys gen_env0" for c
    by (simp_all add: gen_env0_def)
  have p: "parse_tick gen_env0 tick0 = Inr \<lparr>tk_payload = tick0, tk_symbol = PStr ''AAPL'',
      tk_price = 100, tk_pct = 2, tk_trace = PStr ''t'', tk_msg = PStr ''m''\<rparr>"
    using parse_tick0 [of False] gen_env0_self by simp
  show ?thesis
    using redelivered_tick_publishes_once [OF env(1,2,3) p _ _ _ env(1,2) p] tick0_bus [of False] gen_env0_self by simp
qed

theorem histories_stay_windows_witness:
  "windows_ok gen0 \<and> windows_ok (snd (generator_process gen_env0 tick0 gen0))"
proof -
  have "windows_ok gen0" by (simp add: windows_ok_def gen0_def)
  then show ?thesis using histories_stay_windows by blast
qed

theorem foreign_keys_lose_every_record_witness:
  "gn_bus (snd (generator_process (gen_env0\<lparr>gx_foreign_keys := True\<rparr>) tick0 gen0)) \<noteq> gn_bus gen0
   \<and> tb_events (gn_tables (snd (generator_process (gen_env0\<lparr>gx_foreign_keys := True\<rparr>) tick0 gen0))) = []
   \<and> tb_processed (gn_tables (snd (generator_process (gen_env0\<lparr>gx_foreign_keys := True\<rparr>) tick0 gen0))) = []"
proof -
  have "''u'' @ nat_str 3 \<noteq> ''row''" by simp
  then show ?thesis
    using foreign_keys_lose_every_record [of "gen_env0\<lparr>gx_foreign_keys := True\<rparr>" gen0 tick0] tick0_bus [of True]
    by (auto simp: gen_env0_def gen0_def)
qed

end
