(* ===== verification/Reasoning_Rules.thy ===== *)
theory Reasoning_Rules
  imports Decision_Policy Risk_Filters Decision_Utils
begin

text \<open>
  The rules of the reasoning agent (\<open>api/services/agents/reasoning_agent.py\<close>) that need no state: which signals
  are repeats, what the risk hierarchy does to a decision, how a position is sized, how a reply of the
  language model is read, and what is decided without it. The texts of the deterministic policy (\<open>pt\<close>) are a
  parameter, like \<open>rp\<close>.
\<close>

definition KELLY_FRACTION_SCALE :: real where "KELLY_FRACTION_SCALE = 1 / 4"
definition MAX_RISK_PER_TRADE_PCT :: real where "MAX_RISK_PER_TRADE_PCT = 15 / 1000"
definition MIN_RR_RATIO :: real where "MIN_RR_RATIO = 2"
definition AGENT_TRUST_DEFAULT :: real where "AGENT_TRUST_DEFAULT = 1"
definition AGENT_TRUST_MIN :: real where "AGENT_TRUST_MIN = 1 / 2"
definition AGENT_TRUST_MAX :: real where "AGENT_TRUST_MAX = 5 / 4"
definition REACT_CRITIQUE_CONFIDENCE_THRESHOLD :: real where "REACT_CRITIQUE_CONFIDENCE_THRESHOLD = 7 / 10"

text \<open>\<open>float(d.get(k) or x)\<close>\<close>
definition float_field :: "pydict \<Rightarrow> string \<Rightarrow> real \<Rightarrow> real pyres" where
  "float_field d k x = py_float (py_or (py_get d k) (PFloat x))"

text \<open>\<open>str(d.get(k) or "")\<close>\<close>
definition text_or :: "(pyval \<Rightarrow> string) \<Rightarrow> pydict \<Rightarrow> string \<Rightarrow> string" where
  "text_or rp d k = py_str rp (py_or (py_get d k) (PStr []))"

text \<open>\<open>list(v or [])\<close>\<close>
definition list_of :: "pyval \<Rightarrow> pyval list pyres" where
  "list_of v = (if \<not> truthy v then Inr [] else case v of
       PList l \<Rightarrow> Inr l
     | PStr s \<Rightarrow> Inr (map (\<lambda>c. PStr [c]) s)
     | PDict d \<Rightarrow> Inr (map (PStr \<circ> fst) d)
     | _ \<Rightarrow> Inl TypeError)"

definition add_factor :: "string \<Rightarrow> pyval list \<Rightarrow> pyval list" where
  "add_factor f fs = (if PStr f \<in> set fs then fs else fs @ [PStr f])"

section \<open>Repeated signals\<close>

definition signal_fingerprint :: "(pyval \<Rightarrow> string) \<Rightarrow> pydict \<Rightarrow> (string \<times> real) pyres" where
  "signal_fingerprint rp data =
     res_bind (float_field data ''price'' 0) (\<lambda>price.
       Inr (py_lower (py_str rp (py_or (py_get data ''action'') (py_or (py_get data ''side'')
              (py_or (py_get data ''signal'') (PStr []))))), price))"

definition is_duplicate_signal ::
  "(pyval \<Rightarrow> string) \<Rightarrow> (string \<times> real) option \<Rightarrow> pydict \<Rightarrow> real \<Rightarrow> bool pyres" where
  "is_duplicate_signal rp prev data dedup_pct = (case prev of
       None \<Rightarrow> Inr False
     | Some (prev_side, prev_price) \<Rightarrow>
         res_bind (signal_fingerprint rp data) (\<lambda>(side, price).
           Inr (\<not> (side \<noteq> prev_side \<or> prev_price \<le> 0) \<and> \<bar>price - prev_price\<bar> / prev_price \<le> dedup_pct / 100)))"

section \<open>The risk hierarchy\<close>

text \<open>\<open>max(items, key=\<dots>)\<close>: the first of several largest\<close>
fun first_max :: "(string \<times> real) list \<Rightarrow> string option" where
  "first_max [] = None"
| "first_max ((k, x) # rest) = (if \<forall>(k', y) \<in> set rest. y \<le> x then Some k else first_max rest)"

fun float_items :: "pydict \<Rightarrow> (string \<times> real) list option" where
  "float_items [] = Some []"
| "float_items ((k, v) # rest) = (case (py_float v, float_items rest) of
       (Inr x, Some l) \<Rightarrow> Some ((k, x) # l) | _ \<Rightarrow> None)"

text \<open>None when there is no weight or they cannot be compared\<close>
definition dominant_factor :: "pyval \<Rightarrow> string option" where
  "dominant_factor ic_weights = (case ic_weights of
       PDict d \<Rightarrow> (case float_items d of None \<Rightarrow> None | Some items \<Rightarrow> first_max items)
     | _ \<Rightarrow> None)"

definition ic_aligns :: "string \<Rightarrow> pyval \<Rightarrow> pydict \<Rightarrow> bool pyres" where
  "ic_aligns action ic_weights decision =
     (if dominant_factor ic_weights \<noteq> Some ''composite_score'' then Inr True
      else res_bind (py_float (py_or (py_get decision ''composite_score'') (py_or (py_get decision ''confidence'') (PFloat 0))))
        (\<lambda>score. Inr (if score > 1 / 2 then py_lower action \<in> {''buy'', ''long''}
            else py_lower action \<in> {''sell'', ''hold'', ''short'', ''flat''})))"

definition action_of :: "(pyval \<Rightarrow> string) \<Rightarrow> pydict \<Rightarrow> string" where
  "action_of rp decision = py_lower (py_str rp (dget decision ''action'' (PStr ''hold'')))"

definition drawdown_of :: "pydict \<Rightarrow> real pyres" where
  "drawdown_of context = (case dget context ''risk_state'' (PDict []) of
       PDict d \<Rightarrow> float_field d ''drawdown'' 0 | _ \<Rightarrow> Inl AttributeError)"

text \<open>no open long: a sale becomes a hold\<close>
definition hold_unmatched_sell :: "pyval list \<Rightarrow> pydict \<Rightarrow> pydict" where
  "hold_unmatched_sell fs d = dset ''risk_factors'' (PList (add_factor ''NO_OPEN_POSITION'' fs))
     (dset ''downgrade_reason'' (PStr ''sell_without_open_long'') (dset ''action'' (PStr ''hold'') d))"

definition hold_drawdown :: "pyval list \<Rightarrow> pydict \<Rightarrow> pydict" where
  "hold_drawdown fs d = dset ''risk_factors'' (PList (add_factor ''MAX_DRAWDOWN_EXCEEDED'' fs))
     (dset ''confidence'' (PFloat 0) (dset ''action'' (PStr ''hold'') d))"

definition hold_misaligned :: "pyval list \<Rightarrow> real \<Rightarrow> pydict \<Rightarrow> pydict" where
  "hold_misaligned fs conf d = dset ''risk_factors'' (PList (add_factor ''IC_MISALIGNMENT'' fs))
     (dset ''confidence'' (PFloat (py_round 4 (conf * (3 / 10)))) (dset ''action'' (PStr ''hold'') d))"

definition hold_low_consensus :: "pyval list \<Rightarrow> pydict \<Rightarrow> pydict" where
  "hold_low_consensus fs d = dset ''risk_factors'' (PList (add_factor ''LOW_CONSENSUS'' fs)) (dset ''action'' (PStr ''hold'') d)"

definition apply_risk_hierarchy :: "(pyval \<Rightarrow> string) \<Rightarrow> pydict \<Rightarrow> pydict \<Rightarrow> pydict pyres" where
  "apply_risk_hierarchy rp decision context =
     res_bind (list_of (py_get decision ''risk_factors'')) (\<lambda>fs.
     let action = action_of rp decision in
     res_bind (float_field context ''open_position_qty'' 0) (\<lambda>open_long_qty.
     if action = ''sell'' \<and> open_long_qty \<le> 0 then Inr (hold_unmatched_sell fs decision)
     else res_bind (drawdown_of context) (\<lambda>drawdown.
     if drawdown \<le> - (15 / 100) then Inr (hold_drawdown fs decision)
     else res_bind (ic_aligns action (dget context ''ic_weights'' (PDict [])) decision) (\<lambda>aligned.
     if \<not> aligned then res_bind (float_field decision ''confidence'' 0) (\<lambda>conf. Inr (hold_misaligned fs conf decision))
     else res_bind (float_field decision ''agreement_ratio'' 1) (\<lambda>ratio.
       Inr (if ratio < 1 / 2 then hold_low_consensus fs decision else decision))))))"

section \<open>Size and weight\<close>

definition kelly_position_size :: "pydict \<Rightarrow> pyval \<Rightarrow> string \<Rightarrow> real pyres" where
  "kelly_position_size summary macro_regime action =
     res_bind (float_field summary ''confidence'' 0) (\<lambda>confidence.
     res_bind (float_field summary ''rr_ratio'' MIN_RR_RATIO) (\<lambda>rr.
     let kelly = compute_dynamic_position_size confidence STOP_LOSS_PCT (STOP_LOSS_PCT * max rr MIN_RR_RATIO)
           KELLY_FRACTION_SCALE MAX_RISK_PER_TRADE_PCT;
         multiplier = size_multiplier (regime_of macro_regime) (py_lower action = ''buy'')
     in if kelly > 0 then Inr (kelly * multiplier)
        else res_bind (float_field summary ''size_pct'' (1 / 100)) (\<lambda>llm_size.
          Inr (min llm_size MAX_RISK_PER_TRADE_PCT * multiplier))))"

definition apply_trust_weighting :: "real \<Rightarrow> real \<Rightarrow> real" where
  "apply_trust_weighting weight_scale trust = min (weight_scale * trust) AGENT_TRUST_MAX"

text \<open>a raw Redis text; absent or malformed is the default\<close>
definition weight_scale_of :: "string option \<Rightarrow> real" where
  "weight_scale_of raw = (case raw of None \<Rightarrow> 1 | Some t \<Rightarrow> (case float_of_string t of None \<Rightarrow> 1
     | Some scale \<Rightarrow> if scale \<le> 0 \<or> scale > 1 then 1 else scale))"

definition agent_trust_of :: "string option \<Rightarrow> real" where
  "agent_trust_of raw = (case raw of None \<Rightarrow> AGENT_TRUST_DEFAULT | Some t \<Rightarrow> (case float_of_string t of
       None \<Rightarrow> AGENT_TRUST_DEFAULT | Some x \<Rightarrow> min (max x AGENT_TRUST_MIN) AGENT_TRUST_MAX))"

section \<open>Decisions of the deterministic policy as dictionaries\<close>

record policy_texts =
  pt_rationale :: "rationale \<Rightarrow> string"
  pt_factor :: "risk_factor \<Rightarrow> string"

definition policy_dict :: "policy_texts \<Rightarrow> policy_decision \<Rightarrow> pydict" where
  "policy_dict pt d = [(''action'', PStr (pd_action d)), (''confidence'', PFloat (pd_confidence d)),
     (''primary_edge'', PStr (pd_primary_edge d)), (''reasoning'', PStr (pt_rationale pt (pd_reasoning d))),
     (''risk_factors'', PList (map (PStr \<circ> pt_factor pt) (pd_risk_factors d))), (''size_pct'', PFloat (pd_size_pct d)),
     (''stop_atr_x'', PFloat (pd_stop_atr_x d)), (''rr_ratio'', PFloat (pd_rr_ratio d))]"

definition run_policy :: "(pyval \<Rightarrow> string) \<Rightarrow> policy_texts \<Rightarrow> PolicyParams \<Rightarrow> pydict \<Rightarrow> pydict \<Rightarrow> pydict pyres" where
  "run_policy rp pt params data context = res_bind (decide_policy rp data context params) (\<lambda>d. Inr (policy_dict pt d))"

text \<open>what every path without a model call adds\<close>
definition costless :: "string \<Rightarrow> bool \<Rightarrow> pydict" where
  "costless trace_id fallback = [(''latency_ms'', PInt 0), (''cost_usd'', PFloat 0), (''trace_id'', PStr trace_id),
     (''fallback'', PBool fallback)]"

text \<open>the policy's decision with the reason it had to step in\<close>
definition policy_fallback ::
  "(pyval \<Rightarrow> string) \<Rightarrow> policy_texts \<Rightarrow> PolicyParams \<Rightarrow> pydict \<Rightarrow> pydict \<Rightarrow> string \<Rightarrow> string \<Rightarrow> string \<Rightarrow> pydict pyres" where
  "policy_fallback rp pt params data context trace_id reason edge =
     res_bind (run_policy rp pt params data context) (\<lambda>d.
     res_bind (list_of (dget d ''risk_factors'' (PList []))) (\<lambda>fs.
       Inr (dmerge (dset ''primary_edge'' (PStr edge) (dset ''risk_factors'' (PList (fs @ [PStr reason])) d))
              (costless trace_id True))))"

section \<open>Deciding without the model\<close>

definition base_action :: "(pyval \<Rightarrow> string) \<Rightarrow> pydict \<Rightarrow> string pyres" where
  "base_action rp data =
     (let act = py_lower (py_str rp (py_or (py_get data ''action'') (py_or (py_get data ''signal'') (PStr ''hold''))));
          direction = py_lower (text_or rp data ''direction'')
      in if act \<notin> {''none'', [], ''hold''} then Inr act
         else if direction \<in> {''bullish'', ''buy'', ''long''} then Inr ''buy''
         else if direction \<in> {''bearish'', ''sell'', ''short''} then Inr ''sell''
         else res_bind (float_field data ''pct'' 0) (\<lambda>pct.
           Inr (if pct > 0 then ''buy'' else if pct < 0 then ''sell'' else ''hold'')))"

text \<open>\<open>action not in valid_actions\<close>: a list or a dict cannot be hashed\<close>
definition reflected_action :: "pydict \<Rightarrow> string \<Rightarrow> pyval pyres" where
  "reflected_action reflection base =
     (let act = (if reflection = [] then PStr base else dget reflection ''action'' (PStr base))
      in case act of
           PList _ \<Rightarrow> Inl TypeError
         | PDict _ \<Rightarrow> Inl TypeError
         | _ \<Rightarrow> Inr (if act \<in> {PStr ''buy'', PStr ''sell'', PStr ''hold'', PStr ''reject''} then act else PStr base))"

definition fallback_action :: "string \<Rightarrow> pydict \<Rightarrow> string \<Rightarrow> pyval pyres" where
  "fallback_action mode reflection base =
     (if mode = ''reject_signal'' then Inr (PStr ''reject'')
      else if mode = ''use_last_reflection'' then reflected_action reflection base
      else Inr (PStr base))"

definition apply_fallback ::
  "(pyval \<Rightarrow> string) \<Rightarrow> policy_texts \<Rightarrow> PolicyParams \<Rightarrow> string \<Rightarrow> pydict \<Rightarrow> pydict \<Rightarrow> pydict \<Rightarrow> string \<Rightarrow> string \<Rightarrow> pydict pyres" where
  "apply_fallback rp pt params mode reflection data context trace_id reason =
     (if mode = ''local_policy'' then policy_fallback rp pt params data context trace_id reason ''fallback:local_policy''
      else res_bind (base_action rp data) (\<lambda>base.
        res_bind (float_field data ''composite_score'' 0) (\<lambda>composite.
        res_bind (fallback_action mode reflection base) (\<lambda>act.
        res_bind (float_field data ''size_pct'' (1 / 100)) (\<lambda>size.
        res_bind (float_field data ''stop_atr_x'' (3 / 2)) (\<lambda>stop.
        res_bind (float_field data ''rr_ratio'' 2) (\<lambda>rr.
          Inr ([(''action'', act), (''confidence'', PFloat (py_round 4 (max composite (1 / 10)))),
            (''primary_edge'', PStr (''fallback:'' @ mode)), (''risk_factors'', PList [PStr reason]),
            (''size_pct'', PFloat (py_round 4 (max size (1 / 100)))), (''stop_atr_x'', PFloat stop),
            (''rr_ratio'', PFloat rr)] @ costless trace_id True))))))))"

definition degrade ::
  "(pyval \<Rightarrow> string) \<Rightarrow> policy_texts \<Rightarrow> PolicyParams \<Rightarrow> string \<Rightarrow> string \<Rightarrow> pydict \<Rightarrow> pydict \<Rightarrow> pydict \<Rightarrow> string \<Rightarrow> string \<Rightarrow> pydict pyres" where
  "degrade rp pt params decision_mode fallback_mode reflection data context trace_id reason =
     (if decision_mode = ''hybrid'' then policy_fallback rp pt params data context trace_id reason (''hybrid_fallback:'' @ reason)
      else apply_fallback rp pt params fallback_mode reflection data context trace_id reason)"

section \<open>Reading a reply\<close>

definition py_rstrip :: "string \<Rightarrow> string" where
  "py_rstrip s = rev (dropWhile is_space (rev s))"

definition fence :: string where "fence = ''```''"

text \<open>\<open>s.endswith(p)\<close>\<close>
definition ends_with :: "string \<Rightarrow> string \<Rightarrow> bool" where
  "ends_with p s = is_prefix (rev p) (rev s)"

definition newline :: char where "newline = CHR 0x0A"

definition strip_fences :: "string \<Rightarrow> string" where
  "strip_fences raw =
     (let cleaned = py_strip raw in
      if \<not> is_prefix fence cleaned then cleaned
      else let body = drop 3 cleaned;
               first = takeWhile (\<lambda>c. c \<noteq> newline) body;
               rest = drop (length first + 1) body;
               body = (if newline \<in> set body \<and> py_strip first \<in> {''json'', ''JSON'', []} then rest else body)
           in if ends_with fence (py_rstrip body)
              then py_strip (take (length (py_rstrip body) - 3) (py_rstrip body)) else body)"

definition invalid_json_decision :: pydict where
  "invalid_json_decision = [(''action'', PStr ''hold''), (''confidence'', PFloat 0), (''primary_edge'', PStr ''invalid_json''),
     (''risk_factors'', PList [PStr ''invalid_llm_json'']), (''size_pct'', PFloat (1 / 100)),
     (''stop_atr_x'', PFloat (3 / 2)), (''rr_ratio'', PFloat 2)]"

text \<open>a reply that is no JSON object is a hold\<close>
definition parse_reply :: "(string \<Rightarrow> pyval option) \<Rightarrow> string \<Rightarrow> pydict" where
  "parse_reply loads raw = (case loads (strip_fences raw) of Some (PDict d) \<Rightarrow> d | _ \<Rightarrow> invalid_json_decision)"

text \<open>\<open>c not in v\<close>: in a text, a part of it; in a list, an element\<close>
definition new_concerns :: "pyval \<Rightarrow> pyval list \<Rightarrow> pyval list \<Rightarrow> pyval list pyres" where
  "new_concerns v fs concerns = (case v of
       PStr s \<Rightarrow> if s = [] then Inr concerns
         else if list_all (\<lambda>c. case c of PStr t \<Rightarrow> True | _ \<Rightarrow> False) concerns
           then Inr (filter (\<lambda>c. case c of PStr t \<Rightarrow> \<not> is_infix t s | _ \<Rightarrow> False) concerns) else Inl TypeError
     | _ \<Rightarrow> Inr (filter (\<lambda>c. c \<notin> set fs) concerns))"

text \<open>\<open>critique.get(\<dots>)\<close> of a reply that is no object, a missing key, a bad number: the original decision stands\<close>
definition apply_critique :: "(pyval \<Rightarrow> string) \<Rightarrow> pydict \<Rightarrow> pyval option \<Rightarrow> pydict pyres" where
  "apply_critique rp decision reply = (case reply of
       None \<Rightarrow> Inl ValueError
     | Some (PDict critique) \<Rightarrow>
         if truthy (dget critique ''justified'' (PBool True)) then Inr decision
         else
           let rec_action = py_get critique ''recommended_action''; rec_conf = py_get critique ''recommended_confidence''
           in if \<not> truthy rec_action \<and> map_of decision ''action'' = None then Inl (KeyError ''action'')
              else if \<not> truthy rec_conf \<and> map_of decision ''confidence'' = None then Inl (KeyError ''confidence'')
              else res_bind (py_float (py_or rec_conf (py_get decision ''confidence''))) (\<lambda>conf.
                res_bind (list_of (py_get decision ''risk_factors'')) (\<lambda>fs.
                res_bind (case dget critique ''concerns'' (PList []) of PNone \<Rightarrow> Inl TypeError | PBool _ \<Rightarrow> Inl TypeError
                    | PInt _ \<Rightarrow> Inl TypeError | PFloat _ \<Rightarrow> Inl TypeError | v \<Rightarrow> list_of v) (\<lambda>concerns.
                res_bind (new_concerns (py_get decision ''risk_factors'') fs concerns) (\<lambda>fresh.
                  Inr (dmerge decision
                    [(''action'', PStr (py_lower (py_str rp (py_or rec_action (py_get decision ''action''))))),
                     (''confidence'', PFloat (py_round 4 conf)),
                     (''risk_factors'', PList (fs @ fresh))])))))
     | Some _ \<Rightarrow> Inl AttributeError)"

section \<open>Records of a decision\<close>

text \<open>\<open>_is_fallback_decision\<close>\<close>
definition reasoning_is_fallback :: "(pyval \<Rightarrow> string) \<Rightarrow> bool \<Rightarrow> pydict \<Rightarrow> pydict \<Rightarrow> bool" where
  "reasoning_is_fallback rp is_fallback payload summary =
     (is_fallback \<or> py_get payload ''llm_succeeded'' = PBool False
      \<or> is_infix ''fallback'' (py_lower (text_or rp payload ''reasoning_summary''))
      \<or> is_infix ''fallback'' (py_lower (py_str rp (py_or (py_get summary ''fallback_reason'')
           (py_or (py_get summary ''reason'') (PStr [])))))
      \<or> py_lower (text_or rp summary ''source'') = ''fallback'')"

definition build_decision_payload ::
  "(pyval \<Rightarrow> string) \<Rightarrow> pydict \<Rightarrow> pydict \<Rightarrow> string \<Rightarrow> string \<Rightarrow> bool \<Rightarrow> pydict list \<Rightarrow> pydict pyres" where
  "build_decision_payload rp data summary trace_id act is_fallback tools =
     res_bind (float_field summary ''confidence'' 0) (\<lambda>confidence.
       Inr [(''trace_id'', PStr trace_id), (''action'', PStr act), (''symbol'', PStr (text_or rp data ''symbol'')),
         (''price'', py_or (py_get data ''price'') (py_get data ''last_price'')), (''confidence'', PFloat confidence),
         (''reasoning_summary'', PStr (text_or rp summary ''primary_edge'')), (''llm_succeeded'', PBool (\<not> is_fallback)),
         (''tools_used'', PList (map PDict tools)), (''downgrade_reason'', PStr (text_or rp summary ''downgrade_reason''))])"

text \<open>the price is shown when it is a number; \<open>money\<close> is its text\<close>
definition price_text :: "(real \<Rightarrow> string) \<Rightarrow> pyval \<Rightarrow> string" where
  "price_text money price = (case price of
       PInt i \<Rightarrow> if i \<noteq> 0 then '' at $'' @ money (of_int i) else []
     | PFloat x \<Rightarrow> if x \<noteq> 0 then '' at $'' @ money x else []
     | PBool b \<Rightarrow> if b then '' at $'' @ money 1 else []
     | _ \<Rightarrow> [])"

text \<open>the dash of the titles\<close>
definition dash :: string where "dash = '' '' @ [CHR 0xE2, CHR 0x80, CHR 0x94] @ '' ''"

definition fallback_notification :: "string \<Rightarrow> string \<Rightarrow> string \<Rightarrow> string \<Rightarrow> pydict" where
  "fallback_notification act symbol trace_id reason =
     (let why = (if reason = [] then ''fallback_detected'' else reason)
      in [(''type'', PStr ''fallback_trade_blocked''),
        (''title'', PStr (''Fallback '' @ py_upper act @ '' decision'' @ dash @ symbol)),
        (''body'', PStr (''Degraded fallback decision for '' @ symbol @ '': '' @ why)), (''severity'', PStr ''warning''),
        (''notification_type'', PStr ''decision_degraded''), (''original_action'', PStr act), (''symbol'', PStr symbol),
        (''action'', PStr ''hold''), (''trace_id'', PStr trace_id), (''reason'', PStr why), (''llm_succeeded'', PBool False)])"

definition build_decision_notification ::
  "(real \<Rightarrow> string) \<Rightarrow> string \<Rightarrow> string \<Rightarrow> pyval \<Rightarrow> string \<Rightarrow> bool \<Rightarrow> string \<Rightarrow> pydict" where
  "build_decision_notification money act symbol price trace_id is_fallback reason =
     (if is_fallback then fallback_notification act symbol trace_id reason
      else [(''type'', PStr ''trade_signal''), (''title'', PStr (py_upper act @ '' signal'' @ dash @ symbol)),
        (''body'', PStr (''Reasoning agent decided to '' @ act @ '' '' @ symbol @ price_text money price)),
        (''severity'', PStr ''info''), (''symbol'', PStr symbol), (''action'', PStr act), (''trace_id'', PStr trace_id),
        (''llm_succeeded'', PBool True)])"

section \<open>What the hierarchy guarantees\<close>

lemma risk_hierarchy_actions:
  "apply_risk_hierarchy rp d ctx = Inr d' \<Longrightarrow> py_get d' ''action'' = PStr ''hold'' \<or> d' = d"
  by (auto simp: apply_risk_hierarchy_def res_bind_def Let_def hold_unmatched_sell_def hold_drawdown_def
      hold_misaligned_def hold_low_consensus_def split: sum.splits if_splits)

text \<open>The risk hierarchy only ever holds back: it returns the decision as it was or a hold, never a trade the decision
  did not ask for; and a decision it lets through as a sale has an open long behind it, is not in drawdown and
  has the consensus.\<close>
theorem risk_hierarchy_only_holds_back:
  assumes "apply_risk_hierarchy rp d ctx = Inr d'"
  shows "(py_get d' ''action'' = PStr ''hold'' \<or> d' = d)
    \<and> (action_of rp d' = ''sell'' \<longrightarrow> (\<exists>q. float_field ctx ''open_position_qty'' 0 = Inr q \<and> 0 < q))
    \<and> (action_of rp d' \<noteq> ''hold'' \<longrightarrow> (\<exists>x. drawdown_of ctx = Inr x \<and> - (15 / 100) < x)
         \<and> (\<exists>r. float_field d ''agreement_ratio'' 1 = Inr r \<and> 1 / 2 \<le> r))"
proof (intro conjI)
  show "py_get d' ''action'' = PStr ''hold'' \<or> d' = d" using assms by (rule risk_hierarchy_actions)
  have act: "action_of rp (hold_unmatched_sell fs z) = ''hold''" "action_of rp (hold_drawdown fs z) = ''hold''"
    "action_of rp (hold_misaligned fs c z) = ''hold''" "action_of rp (hold_low_consensus fs z) = ''hold''" for fs c z
    by (simp_all add: action_of_def hold_unmatched_sell_def hold_drawdown_def hold_misaligned_def hold_low_consensus_def)
  show "action_of rp d' = ''sell'' \<longrightarrow> (\<exists>q. float_field ctx ''open_position_qty'' 0 = Inr q \<and> 0 < q)"
    using assms act by (auto simp: apply_risk_hierarchy_def res_bind_def Let_def split: sum.splits if_splits)
  show "action_of rp d' \<noteq> ''hold'' \<longrightarrow> (\<exists>x. drawdown_of ctx = Inr x \<and> - (15 / 100) < x)
         \<and> (\<exists>r. float_field d ''agreement_ratio'' 1 = Inr r \<and> 1 / 2 \<le> r)"
    using assms act by (auto simp: apply_risk_hierarchy_def res_bind_def Let_def split: sum.splits if_splits)
qed

theorem risk_hierarchy_only_holds_back_witness:
  "apply_risk_hierarchy (\<lambda>_. []) [(''action'', PStr ''sell''), (''confidence'', PFloat (8 / 10))]
     [(''open_position_qty'', PFloat 0)]
   = Inr [(''action'', PStr ''hold''), (''confidence'', PFloat (8 / 10)), (''downgrade_reason'', PStr ''sell_without_open_long''),
       (''risk_factors'', PList [PStr ''NO_OPEN_POSITION''])]
   \<and> action_of (\<lambda>_. []) [(''action'', PStr ''sell'')] = ''sell''
   \<and> (\<exists>q. float_field [(''open_position_qty'', PFloat 3)] ''open_position_qty'' 0 = Inr q \<and> 0 < q)"
proof -
  have "apply_risk_hierarchy (\<lambda>_. []) [(''action'', PStr ''sell'')] [(''open_position_qty'', PFloat 3)] = Inr [(''action'', PStr ''sell'')]"
    by (simp add: apply_risk_hierarchy_def list_of_def action_of_def float_field_def drawdown_of_def ic_aligns_def
        dominant_factor_def py_simps dget_def)
  from risk_hierarchy_only_holds_back [OF this] show ?thesis
    by (simp add: apply_risk_hierarchy_def list_of_def action_of_def float_field_def hold_unmatched_sell_def add_factor_def py_simps dget_def)
qed

text \<open>When the composite score carries the largest information coefficient, a confident sale never gets through: with
  more than even confidence only a buy counts as aligned, so every sale is turned into a hold at three tenths
  of its confidence, whatever is open. A buy of at most even confidence is held the same way.\<close>
theorem dominant_composite_blocks_confident_sales:
  assumes "dominant_factor (dget ctx ''ic_weights'' (PDict [])) = Some ''composite_score''"
    and "py_get d ''composite_score'' = PNone" "py_get d ''confidence'' = PFloat c" "1 / 2 < c"
    and "action_of rp d = ''sell''" "apply_risk_hierarchy rp d ctx = Inr d'"
  shows "py_get d' ''action'' = PStr ''hold''"
proof -
  have "ic_aligns ''sell'' (dget ctx ''ic_weights'' (PDict [])) d = Inr False"
    using assms(1-4) by (simp add: ic_aligns_def py_simps)
  then show ?thesis using assms(5,6)
    by (auto simp: apply_risk_hierarchy_def res_bind_def Let_def hold_unmatched_sell_def hold_drawdown_def
        hold_misaligned_def split: sum.splits if_splits)
qed

theorem dominant_composite_blocks_confident_sales_witness:
  "apply_risk_hierarchy (\<lambda>_. []) [(''action'', PStr ''sell''), (''confidence'', PFloat (9 / 10))]
     [(''open_position_qty'', PFloat 5), (''ic_weights'', PDict [(''momentum'', PFloat (1 / 10)), (''composite_score'', PFloat (6 / 10))])]
   = Inr [(''action'', PStr ''hold''), (''confidence'', PFloat (27 / 100)), (''risk_factors'', PList [PStr ''IC_MISALIGNMENT''])]
   \<and> py_get [(''action'', PStr ''hold''), (''confidence'', PFloat (27 / 100)), (''risk_factors'', PList [PStr ''IC_MISALIGNMENT''])] ''action''
     = PStr ''hold''"
proof -
  let ?d = "[(''action'', PStr ''sell''), (''confidence'', PFloat (9 / 10))]"
  let ?c = "[(''open_position_qty'', PFloat 5), (''ic_weights'', PDict [(''momentum'', PFloat (1 / 10)), (''composite_score'', PFloat (6 / 10))])]"
  have "decimals 4 (27 / 100)" unfolding decimals_def by (rule exI [of _ 2700]) simp
  then have r: "py_round 4 (27 / 100) = 27 / 100" by (rule py_round_decimals)
  have dom: "dominant_factor (dget ?c ''ic_weights'' (PDict [])) = Some ''composite_score''"
    by (simp add: dominant_factor_def)
  have run: "apply_risk_hierarchy (\<lambda>_. []) ?d ?c
      = Inr [(''action'', PStr ''hold''), (''confidence'', PFloat (27 / 100)), (''risk_factors'', PList [PStr ''IC_MISALIGNMENT''])]"
    by (simp add: apply_risk_hierarchy_def list_of_def action_of_def float_field_def drawdown_of_def ic_aligns_def
        dominant_factor_def hold_misaligned_def add_factor_def py_simps r)
  show ?thesis
    using dominant_composite_blocks_confident_sales [OF dom _ _ _ _ run] run by (simp add: action_of_def)
qed

section \<open>Sizing and weights\<close>

lemma regime_multiplier_bounds: "0 < size_multiplier r l" "size_multiplier r l \<le> 1"
  by (simp_all add: size_multiplier_def RISK_OFF_SIZE_MULTIPLIER_def)

lemma kelly_le: "compute_dynamic_position_size c sl tp ks MAX_RISK_PER_TRADE_PCT \<le> MAX_RISK_PER_TRADE_PCT"
proof -
  have d: "decimals 6 MAX_RISK_PER_TRADE_PCT" unfolding decimals_def MAX_RISK_PER_TRADE_PCT_def by (rule exI [of _ 15000]) simp
  have "py_round 6 (min x MAX_RISK_PER_TRADE_PCT) \<le> MAX_RISK_PER_TRADE_PCT" for x by (intro py_round_le d) simp
  moreover have "0 \<le> MAX_RISK_PER_TRADE_PCT" by (simp add: MAX_RISK_PER_TRADE_PCT_def)
  ultimately show ?thesis by (simp add: compute_dynamic_position_size_def compute_kelly_size_def Let_def)
qed

lemma kelly_capped:
  assumes "kelly_position_size summary macro act = Inr sz"
  obtains b where "sz = b * size_multiplier (regime_of macro) (py_lower act = ''buy'')" "b \<le> MAX_RISK_PER_TRADE_PCT"
    "sz \<le> MAX_RISK_PER_TRADE_PCT"
proof -
  let ?m = "size_multiplier (regime_of macro) (py_lower act = ''buy'')"
  have "\<exists>b. sz = b * ?m \<and> b \<le> MAX_RISK_PER_TRADE_PCT"
    using assms kelly_le by (fastforce simp: kelly_position_size_def res_bind_def Let_def split: sum.splits if_splits
        intro: min.cobounded2)
  then obtain b where b: "sz = b * ?m" "b \<le> MAX_RISK_PER_TRADE_PCT" by blast
  have "b * ?m \<le> MAX_RISK_PER_TRADE_PCT * ?m" using b(2) regime_multiplier_bounds(1) by (intro mult_right_mono) (auto intro: less_imp_le)
  moreover have "MAX_RISK_PER_TRADE_PCT * ?m \<le> MAX_RISK_PER_TRADE_PCT"
    using regime_multiplier_bounds(2) by (simp add: MAX_RISK_PER_TRADE_PCT_def)
  ultimately show thesis using that b by auto
qed

text \<open>No decision is sized beyond the risk cap of one and a half per cent, whatever confidence, reward ratio or size
  the model asked for, and a new long in a risk-off market gets at most half of that.\<close>
theorem position_size_within_risk_cap:
  assumes "kelly_position_size summary macro act = Inr sz"
  shows "sz \<le> MAX_RISK_PER_TRADE_PCT
    \<and> (py_lower act = ''buy'' \<and> is_risk_off (regime_of macro) \<longrightarrow> sz \<le> MAX_RISK_PER_TRADE_PCT / 2)"
  by (rule kelly_capped [OF assms]) (auto simp: size_multiplier_def RISK_OFF_SIZE_MULTIPLIER_def)

theorem position_size_within_risk_cap_witness:
  "kelly_position_size [(''confidence'', PFloat 0), (''size_pct'', PFloat 5)] (PDict [(''regime'', PStr ''risk_off'')]) ''buy''
     = Inr (MAX_RISK_PER_TRADE_PCT / 2)
   \<and> MAX_RISK_PER_TRADE_PCT / 2 \<le> MAX_RISK_PER_TRADE_PCT"
proof -
  have "kelly_position_size [(''confidence'', PFloat 0), (''size_pct'', PFloat 5)] (PDict [(''regime'', PStr ''risk_off'')]) ''buy''
     = Inr (MAX_RISK_PER_TRADE_PCT / 2)"
    by (simp add: kelly_position_size_def float_field_def py_simps compute_dynamic_position_size_def size_multiplier_def
        regime_of_def is_risk_off_def RISK_OFF_SIZE_MULTIPLIER_def MAX_RISK_PER_TRADE_PCT_def)
  then show ?thesis using position_size_within_risk_cap by blast
qed

lemma weight_scale_bounds: "0 < weight_scale_of raw" "weight_scale_of raw \<le> 1"
  by (auto simp: weight_scale_of_def split: option.splits)

lemma agent_trust_bounds: "AGENT_TRUST_MIN \<le> agent_trust_of raw" "agent_trust_of raw \<le> AGENT_TRUST_MAX"
  by (auto simp: agent_trust_of_def AGENT_TRUST_MIN_def AGENT_TRUST_MAX_def AGENT_TRUST_DEFAULT_def split: option.splits)

text \<open>The effective weight stays positive and at most the trust cap; but any trust above one raises it above the
  scale the learning loop has set, a dampened scale included.\<close>
theorem trust_raises_a_dampened_scale:
  assumes "1 < agent_trust_of trust"
  shows "weight_scale_of scale < apply_trust_weighting (weight_scale_of scale) (agent_trust_of trust)
    \<and> apply_trust_weighting (weight_scale_of scale) (agent_trust_of trust) \<le> AGENT_TRUST_MAX"
  using assms weight_scale_bounds [of scale] by (auto simp: apply_trust_weighting_def AGENT_TRUST_MAX_def)

theorem trust_raises_a_dampened_scale_witness:
  "weight_scale_of (Some ''0.7'') = 7 / 10
   \<and> weight_scale_of (Some ''0.7'') < apply_trust_weighting (weight_scale_of (Some ''0.7'')) (agent_trust_of (Some ''1.25''))"
proof -
  have f: "float_of_string ''0.7'' = Some (7 / 10)" "float_of_string ''1.25'' = Some (5 / 4)" by code_simp+
  then have "1 < agent_trust_of (Some ''1.25'')"
    by (simp add: agent_trust_of_def AGENT_TRUST_MIN_def AGENT_TRUST_MAX_def)
  from trust_raises_a_dampened_scale [OF this, of "Some ''0.7''"] show ?thesis using f by (simp add: weight_scale_of_def)
qed

section \<open>Fenced replies\<close>

text \<open>text that starts and ends with something visible\<close>
definition trimmed :: "string \<Rightarrow> bool" where
  "trimmed s \<longleftrightarrow> s \<noteq> [] \<and> \<not> is_space (hd s) \<and> \<not> is_space (last s)"

lemma py_strip_eq: "py_strip s = rev (dropWhile is_space (rev (dropWhile is_space s)))"
  by (simp add: py_strip_def)

lemma dropWhile_trimmed: "trimmed s \<Longrightarrow> dropWhile is_space s = s" "trimmed s \<Longrightarrow> dropWhile is_space (rev s) = rev s"
  by (cases s; simp add: trimmed_def) (cases s rule: rev_cases; simp add: trimmed_def)

lemma strip_trimmed: "trimmed s \<Longrightarrow> py_strip s = s"
  by (simp add: py_strip_eq dropWhile_trimmed)

lemma strip_padded: "trimmed s \<Longrightarrow> is_space c \<Longrightarrow> py_strip (s @ [c]) = s"
proof -
  assume t: "trimmed s" and c: "is_space c"
  then have "dropWhile is_space (s @ [c]) = s @ [c]" by (cases s) (auto simp: trimmed_def)
  then show ?thesis using t c by (simp add: py_strip_eq dropWhile_trimmed)
qed

lemma is_prefix_append [simp]: "is_prefix p (p @ s)"
  by (induction p) auto

text \<open>A reply wrapped in a Markdown fence, with or without the language tag, is read as its content, and a reply
  without a fence as itself.\<close>
theorem fences_are_stripped:
  assumes "trimmed body" "tag \<in> {''json'', ''JSON'', []}"
  shows "strip_fences (fence @ tag @ [newline] @ body @ [newline] @ fence) = body
    \<and> (\<not> is_prefix fence body \<longrightarrow> strip_fences body = body)"
proof
  let ?raw = "fence @ tag @ [newline] @ body @ [newline] @ fence"
  have nl: "is_space newline" by (simp add: is_space_def newline_def)
  have fc: "fence = [CHR 0x60, CHR 0x60, CHR 0x60]" "\<not> is_space (CHR 0x60)" by (simp_all add: fence_def is_space_def)
  have raw: "py_strip ?raw = ?raw" by (rule strip_trimmed) (simp add: trimmed_def fc)
  have tag: "takeWhile (\<lambda>c. c \<noteq> newline) (tag @ [newline] @ body @ [newline] @ fence) = tag" "py_strip tag = tag"
    using assms(2) by (auto simp: newline_def py_strip_def is_space_def)
  have rs: "py_rstrip (body @ [newline] @ fence) = body @ [newline] @ fence"
    unfolding py_rstrip_def fc(1) using fc(2) by simp
  have ends: "ends_with fence (body @ [newline] @ fence)" by (simp add: ends_with_def fc)
  have cut: "take (length (body @ [newline] @ fence) - 3) (body @ [newline] @ fence) = body @ [newline]" by (simp add: fc)
  have drop3: "drop 3 ?raw = tag @ [newline] @ body @ [newline] @ fence" by (simp add: fc)
  show "strip_fences ?raw = body"
    unfolding strip_fences_def Let_def raw drop3 tag(1)
    using assms tag(2) rs ends cut strip_padded [OF assms(1) nl] by simp
  show "\<not> is_prefix fence body \<longrightarrow> strip_fences body = body"
    using strip_trimmed [OF assms(1)] by (simp add: strip_fences_def Let_def)
qed

theorem fences_are_stripped_witness:
  "strip_fences (fence @ ''json'' @ [newline] @ ''{}'' @ [newline] @ fence) = ''{}'' \<and> strip_fences ''{}'' = ''{}''"
proof -
  have "trimmed ''{}''" "\<not> is_prefix fence ''{}''" by (simp_all add: trimmed_def is_space_def fence_def)
  then show ?thesis using fences_are_stripped [of "''{}''" "''json''"] by simp
qed

end
