(* ===== verification/Agent_Records.thy ===== *)
theory Agent_Records
  imports In_Memory_Store Event_Bus Redis_Store
begin

text \<open>
  What the agents write down (\<open>api/services/agents/db_helpers.py\<close>, \<open>vector_helpers.py\<close>): log rows, grades, proposals
  and recalled memories, each either in the database or in the in-memory store, as start-up decided. A
  database write that fails is swallowed.
\<close>

record log_row =
  lg_run :: pyval
  lg_trace :: pyval
  lg_type :: string
  lg_payload :: pydict

definition first_truthy :: "pyval list \<Rightarrow> pyval" where
  "first_truthy vs = foldr py_or (butlast vs) (last vs)"

definition log_message :: "string \<Rightarrow> pydict \<Rightarrow> pyval" where
  "log_message log_type p = first_truthy [py_get p ''message'', py_get p ''content'', py_get p ''reason'',
     py_get p ''primary_edge'', PStr log_type]"

definition grade_of_log :: "string \<Rightarrow> string \<Rightarrow> pydict \<Rightarrow> pydict" where
  "grade_of_log now_iso trace_id p = [(''trace_id'', PStr trace_id), (''grade'', py_get p ''grade''), (''score'', py_get p ''score''),
     (''score_pct'', py_get p ''score_pct''), (''metrics'', dget p ''metrics'' (PDict [])),
     (''fills_graded'', py_get p ''fills_graded''), (''timestamp'', py_or (py_get p ''timestamp'') (PStr now_iso))]"

definition thought_of_log :: "string \<Rightarrow> string \<Rightarrow> string \<Rightarrow> pydict \<Rightarrow> mem_store \<Rightarrow> pydict" where
  "thought_of_log now_iso trace_id log_type p st =
     [(''id'', PStr (''mem-'' @ nat_str (length (ms_agent_logs st) + 1))),
      (''agent_name'', first_truthy [py_get p ''source'', py_get p ''agent'', py_get p ''agent_name'', PStr log_type]),
      (''message'', log_message log_type p), (''reasoning'', py_or (py_get p ''reasoning'') (log_message log_type p)),
      (''log_level'', PStr ''info''), (''trace_id'', PStr trace_id), (''log_type'', PStr log_type),
      (''confidence'', py_or (py_get p ''confidence_score'') (py_get p ''confidence'')),
      (''timestamp'', py_or (py_get p ''timestamp'') (PStr now_iso))]"

text \<open>\<open>write_agent_log\<close> without a database\<close>
definition log_to_memory ::
  "real \<Rightarrow> string \<Rightarrow> string \<Rightarrow> string \<Rightarrow> pydict \<Rightarrow> pyval \<Rightarrow> mem_store \<Rightarrow> mem_store" where
  "log_to_memory now now_iso trace_id log_type p run_id st =
     (let st = (if log_type = ''grade'' then add_grade now (grade_of_log now_iso trace_id p) st
            else add_event now [(''log_type'', PStr log_type), (''trace_id'', PStr trace_id), (''agent_run_id'', run_id),
              (''payload'', PDict p)] st)
      in add_agent_log now (thought_of_log now_iso trace_id log_type p st) st)"

definition write_agent_log ::
  "bool \<Rightarrow> bool \<Rightarrow> real \<Rightarrow> string \<Rightarrow> string \<Rightarrow> string \<Rightarrow> pydict \<Rightarrow> pyval \<Rightarrow> mem_store \<times> log_row list \<Rightarrow> mem_store \<times> log_row list" where
  "write_agent_log db_up fails now now_iso trace_id log_type p run_id = (\<lambda>(st, rows).
     if \<not> db_up then (log_to_memory now now_iso trace_id log_type p run_id st, rows)
     else if fails then (st, rows)
     else (st, rows @ [\<lparr>lg_run = run_id, lg_trace = PStr trace_id, lg_type = log_type, lg_payload = p\<rparr>]))"

section \<open>Grades and proposals\<close>

record grade_row =
  gd_score :: real
  gd_metrics :: pydict
  gd_trace :: string

definition write_grade_to_db ::
  "bool \<Rightarrow> bool \<Rightarrow> real \<Rightarrow> string \<Rightarrow> string \<Rightarrow> real \<Rightarrow> pydict \<Rightarrow> pydict \<Rightarrow> mem_store \<times> grade_row list \<Rightarrow> mem_store \<times> grade_row list" where
  "write_grade_to_db db_up fails now now_iso trace_id score_pct metrics self_correction = (\<lambda>(st, rows).
     if \<not> db_up then (add_grade now [(''trace_id'', PStr trace_id), (''grade'', PNone), (''score'', PFloat score_pct),
         (''score_pct'', PFloat (py_round 2 score_pct)), (''metrics'', PDict metrics), (''self_correction'', PDict self_correction),
         (''fills_graded'', py_get metrics ''fills_graded''), (''timestamp'', PStr now_iso)] st, rows)
     else if fails then (st, rows)
     else (st, rows @ [\<lparr>gd_score = score_pct, gd_metrics = metrics, gd_trace = trace_id\<rparr>]))"

definition proposal_trace :: "pydict \<Rightarrow> pyval" where
  "proposal_trace p = py_or (py_get p ''reflection_trace_id'') (py_or (py_get p ''msg_id'') (PStr []))"

definition persist_proposal ::
  "bool \<Rightarrow> bool \<Rightarrow> real \<Rightarrow> redis_env option \<Rightarrow> pydict \<Rightarrow> mem_store \<times> log_row list \<times> redis_lists
     \<Rightarrow> mem_store \<times> log_row list \<times> redis_lists" where
  "persist_proposal db_up fails now store p = (\<lambda>(st, rows, ls).
     if \<not> db_up then
       (add_event now [(''log_type'', PStr ''proposal''), (''trace_id'', proposal_trace p), (''payload'', PDict p)] st, rows,
        case store of None \<Rightarrow> ls | Some e \<Rightarrow> snd (push_proposal e p ls))
     else if fails then (st, rows, ls)
     else (st, rows @ [\<lparr>lg_run = PNone, lg_trace = proposal_trace p, lg_type = ''proposal'', lg_payload = p\<rparr>], ls))"

text \<open>the newest reflection in the log; \<open>{}\<close> without one, without a database, or when the query fails\<close>
definition get_last_reflection :: "bool \<Rightarrow> bool \<Rightarrow> log_row list \<Rightarrow> pydict" where
  "get_last_reflection db_up fails rows =
     (if \<not> db_up \<or> fails then []
      else case rev (filter (\<lambda>r. lg_type r = ''reflection'') rows) of [] \<Rightarrow> [] | r # _ \<Rightarrow> lg_payload r)"

section \<open>Vector memory\<close>

definition memory_hit :: "(pyval \<Rightarrow> string) \<Rightarrow> nat \<Rightarrow> pydict \<Rightarrow> pydict" where
  "memory_hit rp i item = [(''id'', PStr (py_str rp (dget item ''id'' (PStr (''mem-'' @ nat_str i))))),
     (''content'', py_get item ''content''), (''metadata'', dget item ''metadata'' (PDict [])),
     (''outcome'', dget item ''outcome'' (PDict [])), (''sim'', PFloat 0)]"

text \<open>newest first, numbered from one\<close>
definition memory_vector_results :: "(pyval \<Rightarrow> string) \<Rightarrow> pydict list \<Rightarrow> pydict list" where
  "memory_vector_results rp entries = map2 (memory_hit rp) [1 ..< length entries + 1] (rev entries)"

text \<open>\<open>db\<close>: what the similarity query returns\<close>
definition search_vector_memory :: "(pyval \<Rightarrow> string) \<Rightarrow> bool \<Rightarrow> pydict list \<Rightarrow> mem_store \<Rightarrow> pydict list" where
  "search_vector_memory rp db_up db st =
     (if \<not> db_up then memory_vector_results rp (last_n 5 (ms_vector_memory st)) else db)"

section \<open>One place for every record\<close>

text \<open>a record goes to the store or to the database, never to both, and without a database it is never lost\<close>
lemma agent_log_one_place:
  "write_agent_log db_up fails now t0 tr ty p r (st, rows) = (st', rows') \<Longrightarrow>
     (db_up \<longrightarrow> st' = st) \<and> (\<not> db_up \<longrightarrow> rows' = rows)"
  by (auto simp: write_agent_log_def split: if_splits)

lemma last_reflection_is_newest:
  "get_last_reflection True False (rows @ [\<lparr>lg_run = r, lg_trace = t, lg_type = ''reflection'', lg_payload = p\<rparr>]) = p"
  by (simp add: get_last_reflection_def)

lemma memory_results_bounded: "length (search_vector_memory rp False db st) \<le> 5"
  by (simp add: search_vector_memory_def memory_vector_results_def length_last_n)

lemma first_truthy_simps [simp]: "first_truthy [v] = v" "first_truthy (v # w # vs) = py_or v (first_truthy (w # vs))"
  by (simp_all add: first_truthy_def)

end
