(* ===== verification/Tool_Registry.thy ===== *)
theory Tool_Registry
  imports Py_Prelude "HOL-Library.Product_Lexorder" "HOL-Library.List_Lexorder" "HOL-Library.Char_ord"
begin

text \<open>
  The tool tool_registry (\<open>api/services/tool_registry.py\<close>): which tools the reasoning model may see, what is
  learned about each from its calls, and which ones governance switches off. The tool_registry is the dictionary
  \<open>name \<mapsto> tool\<close> in registration order; descriptions and cache lifetimes are not read by any operation.
\<close>

datatype ToolPhase = PERCEPTION | MEMORY | RISK | EXECUTION | OPTIMIZATION

record tool =
  tl_name :: string
  tl_phase :: ToolPhase
  tl_enabled :: bool
  tl_alpha :: real
  tl_latency :: real
  tl_failure :: real
  tl_calls :: int
  tl_successes :: int
  tl_flags :: "string list"
  tl_unlocks :: "string list"

type_synonym tool_registry = "(string \<times> tool) list"

definition EMA_ALPHA :: real where "EMA_ALPHA = 1 / 5"

definition ema :: "real \<Rightarrow> real \<Rightarrow> int \<Rightarrow> real" where
  "ema prev sample calls = (if calls \<le> 0 then sample else (1 - EMA_ALPHA) * prev + EMA_ALPHA * sample)"

section \<open>Registration and selection\<close>

definition register_tool :: "tool \<Rightarrow> tool_registry \<Rightarrow> tool_registry" where
  "register_tool t r = dset (tl_name t) t r"

definition register_many :: "tool list \<Rightarrow> tool_registry \<Rightarrow> tool_registry" where
  "register_many ts r = fold register_tool ts r"

definition get_tool :: "tool_registry \<Rightarrow> string \<Rightarrow> tool option" where
  "get_tool r name = map_of r name"

text \<open>True when the state changed\<close>
definition set_enabled :: "string \<Rightarrow> bool \<Rightarrow> tool_registry \<Rightarrow> bool \<times> tool_registry" where
  "set_enabled name enabled r = (case map_of r name of
       None \<Rightarrow> (False, r)
     | Some t \<Rightarrow> if tl_enabled t = enabled then (False, r) else (True, dset name (t\<lparr>tl_enabled := enabled\<rparr>) r))"

definition all_tools :: "tool_registry \<Rightarrow> tool list" where
  "all_tools r = map snd r"

definition eligible :: "ToolPhase \<Rightarrow> string set \<Rightarrow> real option \<Rightarrow> real option \<Rightarrow> bool \<Rightarrow> tool \<Rightarrow> bool" where
  "eligible phase flags max_latency min_alpha include_disabled t \<longleftrightarrow>
     tl_phase t = phase \<and> (include_disabled \<or> tl_enabled t) \<and> set (tl_flags t) \<subseteq> flags
     \<and> (case max_latency of None \<Rightarrow> True | Some l \<Rightarrow> tl_latency t \<le> l)
     \<and> (case min_alpha of None \<Rightarrow> True | Some a \<Rightarrow> tl_alpha t \<ge> a)"

definition rank_key :: "tool \<Rightarrow> real \<times> real \<times> string" where
  "rank_key t = (- tl_alpha t, tl_latency t, tl_name t)"

definition select_tools ::
  "ToolPhase \<Rightarrow> string set \<Rightarrow> real option \<Rightarrow> real option \<Rightarrow> bool \<Rightarrow> tool_registry \<Rightarrow> tool list" where
  "select_tools phase flags max_latency min_alpha include_disabled r =
     sort_key rank_key (filter (eligible phase flags max_latency min_alpha include_disabled) (all_tools r))"

definition capability_graph :: "tool_registry \<Rightarrow> (string \<times> string list) list" where
  "capability_graph r = map (\<lambda>t. (tl_name t, tl_unlocks t)) (filter (\<lambda>t. tl_unlocks t \<noteq> []) (all_tools r))"

section \<open>Telemetry\<close>

definition record_sample :: "real \<Rightarrow> bool \<Rightarrow> real option \<Rightarrow> tool \<Rightarrow> tool" where
  "record_sample latency success pnl t = t\<lparr>
     tl_latency := ema (tl_latency t) latency (tl_calls t),
     tl_failure := ema (tl_failure t) (if success then 0 else 1) (tl_calls t),
     tl_alpha := (case pnl of None \<Rightarrow> tl_alpha t | Some p \<Rightarrow> ema (tl_alpha t) p (tl_calls t)),
     tl_calls := tl_calls t + 1,
     tl_successes := (if success then tl_successes t + 1 else tl_successes t)\<rparr>"

definition record_call :: "string \<Rightarrow> real \<Rightarrow> bool \<Rightarrow> real option \<Rightarrow> tool_registry \<Rightarrow> tool_registry" where
  "record_call name latency success pnl r = (case map_of r name of
       None \<Rightarrow> r | Some t \<Rightarrow> dset name (record_sample latency success pnl t) r)"

definition snapshot_row :: "tool \<Rightarrow> pydict" where
  "snapshot_row t = [(''call_count'', PInt (tl_calls t)), (''success_count'', PInt (tl_successes t)),
     (''alpha_score'', PFloat (tl_alpha t)), (''latency_ms'', PFloat (tl_latency t)),
     (''failure_rate'', PFloat (tl_failure t)), (''enabled'', PBool (tl_enabled t))]"

definition snapshot :: "tool_registry \<Rightarrow> pydict" where
  "snapshot r = map (\<lambda>(name, t). (name, PDict (snapshot_row t))) r"

text \<open>
  One tool from its saved row. The fields are assigned one by one, so a malformed one leaves those before it
  changed; True when the row was read to its end.
\<close>
definition restore_tool :: "pydict \<Rightarrow> tool \<Rightarrow> bool \<times> tool" where
  "restore_tool saved t =
     (case py_int (dget saved ''call_count'' (PInt (tl_calls t))) of Inl _ \<Rightarrow> (False, t) | Inr calls \<Rightarrow>
      let t1 = t\<lparr>tl_calls := calls\<rparr> in
      case py_int (dget saved ''success_count'' (PInt (tl_successes t))) of Inl _ \<Rightarrow> (False, t1) | Inr succ \<Rightarrow>
      let t2 = t1\<lparr>tl_successes := succ\<rparr> in
      case py_float (dget saved ''alpha_score'' (PFloat (tl_alpha t))) of Inl _ \<Rightarrow> (False, t2) | Inr alpha \<Rightarrow>
      let t3 = t2\<lparr>tl_alpha := alpha\<rparr> in
      case py_float (dget saved ''latency_ms'' (PFloat (tl_latency t))) of Inl _ \<Rightarrow> (False, t3) | Inr lat \<Rightarrow>
      let t4 = t3\<lparr>tl_latency := lat\<rparr> in
      case py_float (dget saved ''failure_rate'' (PFloat (tl_failure t))) of Inl _ \<Rightarrow> (False, t4) | Inr fail \<Rightarrow>
      let t5 = t4\<lparr>tl_failure := fail\<rparr> in
      (True, case map_of saved ''enabled'' of None \<Rightarrow> t5 | Some v \<Rightarrow> t5\<lparr>tl_enabled := truthy v\<rparr>))"

definition restore_entry :: "pydict \<Rightarrow> string \<times> tool \<Rightarrow> bool \<times> string \<times> tool" where
  "restore_entry data = (\<lambda>(name, t). case py_get data name of
       PDict saved \<Rightarrow> (case restore_tool saved t of (ok, t') \<Rightarrow> (ok, name, t'))
     | _ \<Rightarrow> (False, name, t))"

definition restore :: "pydict \<Rightarrow> tool_registry \<Rightarrow> nat \<times> tool_registry" where
  "restore data r = (length (filter fst (map (restore_entry data) r)), map (snd \<circ> restore_entry data) r)"

section \<open>Governance\<close>

definition dead :: "int \<Rightarrow> real \<Rightarrow> real \<Rightarrow> tool \<Rightarrow> bool" where
  "dead min_calls max_failure min_alpha t \<longleftrightarrow> tl_enabled t \<and> min_calls \<le> tl_calls t
     \<and> (tl_failure t > max_failure \<or> tl_alpha t < min_alpha)"

definition disable_dead_tools :: "int \<Rightarrow> real \<Rightarrow> real \<Rightarrow> tool_registry \<Rightarrow> string list \<times> tool_registry" where
  "disable_dead_tools min_calls max_failure min_alpha r =
     (map tl_name (filter (dead min_calls max_failure min_alpha) (all_tools r)),
      map (\<lambda>(name, t). (name, if dead min_calls max_failure min_alpha t then t\<lparr>tl_enabled := False\<rparr> else t)) r)"

definition attribution :: "tool_registry \<Rightarrow> tool list" where
  "attribution r = sort_key (\<lambda>t. (- tl_alpha t, tl_name t)) (all_tools r)"

datatype advice = Negative_alpha real | Unreliable real int | Never_exercised | Highest_alpha real

fun advice_action :: "advice \<Rightarrow> string" where
  "advice_action (Negative_alpha _) = ''disable''"
| "advice_action (Unreliable _ _) = ''disable''"
| "advice_action Never_exercised = ''review''"
| "advice_action (Highest_alpha _) = ''prioritize''"

fun advice_severity :: "advice \<Rightarrow> string" where
  "advice_severity (Negative_alpha _) = ''warning''"
| "advice_severity (Unreliable _ _) = ''warning''"
| "advice_severity Never_exercised = ''info''"
| "advice_severity (Highest_alpha _) = ''info''"

record suggestion =
  sn_tool :: string
  sn_advice :: advice

definition suggest_for :: "int \<Rightarrow> real \<Rightarrow> int \<Rightarrow> tool \<Rightarrow> suggestion list" where
  "suggest_for min_calls max_failure all_calls t =
     (if \<not> tl_enabled t then []
      else if tl_alpha t < 0 then [\<lparr>sn_tool = tl_name t, sn_advice = Negative_alpha (tl_alpha t)\<rparr>]
      else if min_calls \<le> tl_calls t \<and> tl_failure t > max_failure
        then [\<lparr>sn_tool = tl_name t, sn_advice = Unreliable (tl_failure t) (tl_calls t)\<rparr>]
      else if 0 < all_calls \<and> tl_calls t = 0 then [\<lparr>sn_tool = tl_name t, sn_advice = Never_exercised\<rparr>]
      else [])"

text \<open>\<open>max\<close> keeps the first of several largest\<close>
fun top_tool :: "tool list \<Rightarrow> tool option" where
  "top_tool [] = None"
| "top_tool (t # ts) = (case top_tool ts of
       None \<Rightarrow> Some t | Some u \<Rightarrow> if tl_alpha t \<ge> tl_alpha u then Some t else Some u)"

definition suggest_tool_changes :: "int \<Rightarrow> real \<Rightarrow> tool_registry \<Rightarrow> suggestion list" where
  "suggest_tool_changes min_calls max_failure r =
     concat (map (suggest_for min_calls max_failure (sum_list (map tl_calls (all_tools r)))) (attribution r))
     @ (case top_tool (filter (\<lambda>t. tl_enabled t \<and> tl_alpha t > 0) (all_tools r)) of
          None \<Rightarrow> [] | Some t \<Rightarrow> [\<lparr>sn_tool = tl_name t, sn_advice = Highest_alpha (tl_alpha t)\<rparr>])"


section \<open>The catalog\<close>

definition seed :: "string \<Rightarrow> ToolPhase \<Rightarrow> real \<Rightarrow> real \<Rightarrow> string list \<Rightarrow> string list \<Rightarrow> tool" where
  "seed name phase alpha latency flags unlocks = \<lparr>tl_name = name, tl_phase = phase, tl_enabled = True,
     tl_alpha = alpha, tl_latency = latency, tl_failure = 0, tl_calls = 0, tl_successes = 0,
     tl_flags = flags, tl_unlocks = unlocks\<rparr>"

definition default_tools :: "tool list" where
  "default_tools =
    [seed ''get_stream_confluence_metrics'' PERCEPTION (6 / 10) 42 []
       [''scan_sector_correlation'', ''calculate_vwap_execution''],
     seed ''fetch_macro_regime'' PERCEPTION (4 / 10) 15 [] [],
     seed ''scan_sector_correlation'' PERCEPTION (- 2 / 10) 120 [''confluence_loaded''] [],
     seed ''get_order_book_depth'' PERCEPTION (35 / 100) 50 [] [],
     seed ''get_news_sentiment'' PERCEPTION (2 / 10) 110 [] [],
     seed ''check_cross_asset_correlation'' PERCEPTION (25 / 100) 90 [''confluence_loaded''] [],
     seed ''query_similar_trades'' MEMORY (5 / 10) 60 [] [],
     seed ''get_ic_weights'' MEMORY (3 / 10) 8 [] [],
     seed ''evaluate_risk_cage'' RISK 0 5 [] [],
     seed ''calculate_vwap_execution'' EXECUTION 0 30 [''risk_approved''] [],
     seed ''execute_bracket_order'' EXECUTION 0 200 [''risk_approved'', ''thesis_committed''] [],
     seed ''replay_regression_check'' OPTIMIZATION 0 1500 [] []]"

definition default_registry :: tool_registry where
  "default_registry = register_many default_tools []"

section \<open>The tool_registry stays well formed\<close>

definition tool_ok :: "tool \<Rightarrow> bool" where
  "tool_ok t \<longleftrightarrow> 0 \<le> tl_failure t \<and> tl_failure t \<le> 1 \<and> 0 \<le> tl_latency t
     \<and> 0 \<le> tl_successes t \<and> tl_successes t \<le> tl_calls t"

definition tools_ok :: "tool_registry \<Rightarrow> bool" where
  "tools_ok r \<longleftrightarrow> distinct (map fst r) \<and> (\<forall>(name, t) \<in> set r. tl_name t = name \<and> tool_ok t)"

lemma ema_between: "lo \<le> a \<Longrightarrow> lo \<le> x \<Longrightarrow> lo \<le> ema a x n"
  and ema_below: "a \<le> hi \<Longrightarrow> x \<le> hi \<Longrightarrow> ema a x n \<le> hi"
  by (auto simp: ema_def EMA_ALPHA_def)

lemma record_sample_ok: "tool_ok t \<Longrightarrow> 0 \<le> lat \<Longrightarrow> tool_ok (record_sample lat ok p t)"
  by (auto simp: tool_ok_def record_sample_def ema_between ema_below)

lemma record_sample_name [simp]:
  "tl_name (record_sample lat ok p t) = tl_name t" "tl_phase (record_sample lat ok p t) = tl_phase t"
  "tl_enabled (record_sample lat ok p t) = tl_enabled t" "tl_flags (record_sample lat ok p t) = tl_flags t"
  by (simp_all add: record_sample_def)

lemma tools_ok_dset:
  "tools_ok r \<Longrightarrow> tool_ok t \<Longrightarrow> tl_name t = name \<Longrightarrow> tools_ok (dset name t r)"
  unfolding tools_ok_def by (intro conjI dset_all distinct_update) auto

lemma tools_ok_lookup: "tools_ok r \<Longrightarrow> map_of r name = Some t \<Longrightarrow> tl_name t = name \<and> tool_ok t"
  by (auto simp: tools_ok_def dest: map_of_SomeD)

lemma record_call_ok: "tools_ok r \<Longrightarrow> 0 \<le> lat \<Longrightarrow> tools_ok (record_call name lat ok p r)"
  by (auto simp: record_call_def record_sample_ok dest: tools_ok_lookup intro!: tools_ok_dset split: option.splits)

lemma set_enabled_ok: "tools_ok r \<Longrightarrow> tools_ok (snd (set_enabled name b r))"
  by (auto simp: set_enabled_def tool_ok_def dest: tools_ok_lookup intro!: tools_ok_dset split: option.splits)

lemma disable_dead_ok: "tools_ok r \<Longrightarrow> tools_ok (snd (disable_dead_tools m f a r))"
  by (auto simp: tools_ok_def disable_dead_tools_def tool_ok_def case_prod_unfold comp_def)

lemma default_registry_ok: "tools_ok default_registry"
  by code_simp

text \<open>every history of the tool_registry between start-up and now\<close>
inductive tools_life :: "tool_registry \<Rightarrow> bool" where
  start: "tools_life default_registry"
| called: "tools_life r \<Longrightarrow> 0 \<le> latency \<Longrightarrow> tools_life (record_call name latency success pnl r)"
| switched: "tools_life r \<Longrightarrow> tools_life (snd (set_enabled name b r))"
| pruned: "tools_life r \<Longrightarrow> tools_life (snd (disable_dead_tools min_calls max_failure min_alpha r))"

lemma tools_life_ok: "tools_life r \<Longrightarrow> tools_ok r"
  by (induction rule: tools_life.induct) (auto intro: default_registry_ok record_call_ok set_enabled_ok disable_dead_ok)

text \<open>In every history of the tool_registry the telemetry keeps its meaning: failure rates are fractions, latencies
  are not negative, successes never exceed calls, and each tool stays under its own name.\<close>
theorem telemetry_stays_meaningful:
  assumes "tools_life r" "get_tool r name = Some t"
  shows "tl_name t = name \<and> 0 \<le> tl_failure t \<and> tl_failure t \<le> 1 \<and> 0 \<le> tl_latency t
    \<and> 0 \<le> tl_successes t \<and> tl_successes t \<le> tl_calls t"
  using tools_ok_lookup [OF tools_life_ok [OF assms(1)]] assms(2) by (simp add: get_tool_def tool_ok_def)

section \<open>What the model may see\<close>

text \<open>only enabled tools of the phase whose prerequisites hold, each at most once, best first\<close>
lemma select_tools_spec:
  "set (select_tools phase flags lat alpha inc r) = {t \<in> snd ` set r. eligible phase flags lat alpha inc t}"
  "sorted (map rank_key (select_tools phase flags lat alpha inc r))"
  by (auto simp: select_tools_def all_tools_def)

definition catalog :: "string \<Rightarrow> (ToolPhase \<times> string list) option" where
  "catalog name = map_option (\<lambda>t. (tl_phase t, tl_flags t)) (map_of default_registry name)"

lemma catalog_fixed:
  "tools_life r \<Longrightarrow> map_of r name = Some t \<Longrightarrow> catalog name = Some (tl_phase t, tl_flags t)"
proof (induction arbitrary: name t rule: tools_life.induct)
  case (pruned r min_calls max_failure min_alpha)
  have "map_of (map (\<lambda>(n, t). (n, g t)) r) name = map_option g (map_of r name)" for g :: "tool \<Rightarrow> tool"
    by (induction r) auto
  then show ?case using pruned by (auto simp: disable_dead_tools_def split: if_splits)
qed (auto simp: catalog_def record_call_def set_enabled_def split: option.splits if_splits)

lemma catalog_mutating:
  "catalog name = Some (phase, flags) \<Longrightarrow> phase = EXECUTION \<Longrightarrow> ''risk_approved'' \<in> set flags"
  by (auto simp: catalog_def default_registry_def register_many_def register_tool_def default_tools_def seed_def split: if_splits)



theorem telemetry_stays_meaningful_witness:
  "tools_life (record_call ''get_ic_weights'' 12 False None default_registry)
   \<and> (case get_tool (record_call ''get_ic_weights'' 12 False None default_registry) ''get_ic_weights'' of
        None \<Rightarrow> False | Some t \<Rightarrow> tl_failure t = 1 \<and> tl_failure t \<le> 1)"
proof -
  have life: "tools_life (record_call ''get_ic_weights'' 12 False None default_registry)"
    by (intro tools_life.called tools_life.start) simp
  obtain t where t: "get_tool (record_call ''get_ic_weights'' 12 False None default_registry) ''get_ic_weights'' = Some t"
    by (simp add: get_tool_def record_call_def default_registry_def register_many_def register_tool_def default_tools_def seed_def)
  have "tl_failure t = 1"
    using t by (auto simp: get_tool_def record_call_def default_registry_def register_many_def register_tool_def
        default_tools_def seed_def record_sample_def ema_def)
  then show ?thesis using life t telemetry_stays_meaningful [OF life t] by simp
qed

section \<open>Persistence\<close>

definition same_catalog :: "tool_registry \<Rightarrow> tool_registry \<Rightarrow> bool" where
  "same_catalog r r0 \<longleftrightarrow> list_all2 (\<lambda>(n, t) (n0, t0). n = n0 \<and> tl_name t = tl_name t0 \<and> tl_phase t = tl_phase t0
     \<and> tl_flags t = tl_flags t0 \<and> tl_unlocks t = tl_unlocks t0) r r0"

lemma restore_tool_row: "restore_tool (snapshot_row t) t0 = (True, t0\<lparr>tl_calls := tl_calls t, tl_successes := tl_successes t,
    tl_alpha := tl_alpha t, tl_latency := tl_latency t, tl_failure := tl_failure t, tl_enabled := tl_enabled t\<rparr>)"
  by (simp add: restore_tool_def snapshot_row_def Let_def)

lemma restore_entry_snapshot:
  assumes "map_of r n = Some t" "tl_name t = tl_name t0" "tl_phase t = tl_phase t0" "tl_flags t = tl_flags t0" "tl_unlocks t = tl_unlocks t0"
  shows "restore_entry (snapshot r) (n, t0) = (True, n, t)"
proof -
  have "map_of (snapshot r) n = Some (PDict (snapshot_row t))"
    using assms(1) by (induction r) (auto simp: snapshot_def split: if_splits)
  then show ?thesis using assms(2-) by (simp add: restore_entry_def py_get_def restore_tool_row)
qed

text \<open>Telemetry survives a restart: restoring the snapshot of a tool_registry onto a freshly seeded catalog with the
  same tools gives the tool_registry back, and counts every tool.\<close>
theorem snapshot_restores_the_registry:
  assumes "distinct (map fst r)" "same_catalog r r0"
  shows "restore (snapshot r) r0 = (length r, r)"
proof -
  have len: "length r = length r0" using assms(2) by (simp add: same_catalog_def list_all2_lengthD)
  have e: "map (restore_entry (snapshot r)) r0 = map (\<lambda>p. (True, p)) r"
  proof (rule nth_equalityI)
    fix i assume i: "i < length (map (restore_entry (snapshot r)) r0)"
    obtain n t n0 t0 where p: "r ! i = (n, t)" "r0 ! i = (n0, t0)" by (metis surj_pair)
    have "map_of r n = Some t" using assms(1) i len p by (metis length_map map_of_is_SomeI nth_mem)
    moreover have "n = n0" "tl_name t = tl_name t0" "tl_phase t = tl_phase t0" "tl_flags t = tl_flags t0" "tl_unlocks t = tl_unlocks t0"
      using assms(2) i len p by (auto simp: same_catalog_def list_all2_conv_all_nth)
    ultimately show "map (restore_entry (snapshot r)) r0 ! i = map (\<lambda>p. (True, p)) r ! i"
      using i len p by (simp add: restore_entry_snapshot)
  qed (simp add: len)
  have "map (snd \<circ> restore_entry (snapshot r)) r0 = map snd (map (restore_entry (snapshot r)) r0)" by simp
  then show ?thesis unfolding restore_def e by (simp add: comp_def)
qed

theorem snapshot_restores_the_registry_witness:
  "restore (snapshot (record_call ''get_ic_weights'' 12 False None default_registry)) default_registry
     = (12, record_call ''get_ic_weights'' 12 False None default_registry)"
proof -
  have "distinct (map fst (record_call ''get_ic_weights'' 12 False None default_registry))"
    "same_catalog (record_call ''get_ic_weights'' 12 False None default_registry) default_registry"
    "length (record_call ''get_ic_weights'' 12 False None default_registry) = 12" by code_simp+
  then show ?thesis using snapshot_restores_the_registry by metis
qed

section \<open>Attribution\<close>

text \<open>the call the grade loop makes for each tool behind a closed trade\<close>
definition attribute_pnl :: "string \<Rightarrow> real \<Rightarrow> tool_registry \<Rightarrow> tool_registry" where
  "attribute_pnl name pnl r = record_call name 0 True (Some pnl) r"

definition attribute_many :: "string \<Rightarrow> real list \<Rightarrow> tool_registry \<Rightarrow> tool_registry" where
  "attribute_many name pnls r = fold (attribute_pnl name) pnls r"

text \<open>Crediting profit to a tool is booked as a successful call of no latency: every closed trade pulls the failure
  rate and the latency of each tool behind it a fifth of the way to zero, so a tool whose every real call
  fails can be kept below any failure limit by trades it informed.\<close>
theorem attribution_erases_failures:
  assumes "get_tool r name = Some t" "0 < tl_calls t"
  shows "\<exists>t'. get_tool (attribute_many name pnls r) name = Some t'
    \<and> tl_failure t' = (4 / 5) ^ length pnls * tl_failure t \<and> tl_latency t' = (4 / 5) ^ length pnls * tl_latency t
    \<and> tl_calls t' = tl_calls t + int (length pnls) \<and> tl_successes t' = tl_successes t + int (length pnls)"
  using assms
proof (induction pnls arbitrary: r t)
  case (Cons p ps)
  let ?t = "record_sample 0 True (Some p) t"
  have "get_tool (attribute_pnl name p r) name = Some ?t" "0 < tl_calls ?t"
    using Cons.prems by (simp_all add: get_tool_def attribute_pnl_def record_call_def record_sample_def)
  from Cons.IH [OF this] show ?case using Cons.prems
    by (auto simp: attribute_many_def record_sample_def ema_def EMA_ALPHA_def)
qed (simp add: attribute_many_def)

theorem attribution_erases_failures_witness:
  "\<exists>t'. get_tool (attribute_many ''get_ic_weights'' [5, 5, 5, 5] (record_call ''get_ic_weights'' 12 False None default_registry))
       ''get_ic_weights'' = Some t' \<and> tl_failure t' < 1 / 2"
proof -
  obtain t where t: "get_tool (record_call ''get_ic_weights'' 12 False None default_registry) ''get_ic_weights'' = Some t"
      "0 < tl_calls t" "tl_failure t = 1"
    by (simp add: get_tool_def record_call_def default_registry_def register_many_def register_tool_def default_tools_def
        seed_def record_sample_def ema_def)
  then show ?thesis using attribution_erases_failures [OF t(1,2), of "[5, 5, 5, 5]"] by auto
qed

text \<open>a fresh tool_registry already advises dropping a tool that was never called, on its seeded alpha alone\<close>
lemma seeded_prior_triggers_advice:
  "map (\<lambda>s. (sn_tool s, advice_action (sn_advice s))) (suggest_tool_changes 20 (1 / 2) default_registry)
     = [(''scan_sector_correlation'', ''disable''), (''get_stream_confluence_metrics'', ''prioritize'')]"
  by code_simp

lemma disable_dead_idempotent:
  "disable_dead_tools m f a (snd (disable_dead_tools m f a r)) = ([], snd (disable_dead_tools m f a r))"
  by (auto simp: disable_dead_tools_def all_tools_def dead_def filter_empty_conv intro!: map_idI split: if_splits)

end
