(* ===== verification/Reasoning_Agent.thy ===== *)
theory Reasoning_Agent
  imports Reasoning_Rules Agent_Records Agent_Heartbeat Paper_Broker Tool_Registry Effects
begin

text \<open>
  The reasoning agent (\<open>api/services/agents/reasoning_agent.py\<close>): from a signal to an advisory decision on
  \<open>decisions\<close>. \<open>reasoner\<close> is the state behind it and \<open>reason_env\<close> one call's view of the outside. The language
  model (\<open>rq_model\<close>, \<open>rq_critic\<close>), the market-intelligence tools, the embedding and the texts of numbers are
  parameters; so is the exception text. A cost row that fails to insert inside the transaction, the shadow
  comparison, which only logs, and telemetry are left out.
\<close>

datatype reason_call = RC_suspended | RC_tokens_get | RC_ic_get | RC_position | RC_tool_record | RC_transaction
  | RC_vector_insert | RC_log_insert | RC_tokens_incr | RC_cost_incr | RC_cost_get | RC_tokens_reget
  | RC_scale_get | RC_trust_get

datatype model_reply = Timed_out | Failed string | Replied_dict pydict | Replied string

record model_result =
  mr_reply :: model_reply
  mr_tokens :: int
  mr_cost :: real
  mr_label :: "string option"

record reason_env =
  rq_bus :: bus_env
  rq_beat :: beat_env
  rq_redis :: "redis_env option"
  rq_today :: string
  rq_mono :: real
  rq_uuid :: "nat \<Rightarrow> string"
  rq_row_id :: string
  rq_dedup_pct :: real
  rq_cooldown :: real
  rq_critique :: bool
  rq_mode :: string
  rq_fallback_mode :: string
  rq_budget :: int
  rq_trust_enabled :: bool
  rq_params :: PolicyParams
  rq_texts :: policy_texts
  rq_exc_text :: "py_exc \<Rightarrow> string"
  rq_money :: "real \<Rightarrow> string"
  rq_percent :: "real \<Rightarrow> string"
  rq_summary_text :: "pydict \<Rightarrow> string"
  rq_embed :: "string \<Rightarrow> real list pyres"
  rq_db_similar :: "real list \<Rightarrow> pydict list"
  rq_intel :: "string \<Rightarrow> string \<Rightarrow> pydict option"
  rq_latency :: "string \<Rightarrow> real"
  rq_directive :: "string option"
  rq_default_model :: string
  rq_model :: "pydict \<Rightarrow> pydict \<Rightarrow> pydict list \<Rightarrow> model_result"
  rq_critic :: "pydict \<Rightarrow> pydict \<Rightarrow> model_result"
  rq_fails :: "reason_call \<Rightarrow> bool"
  rq_reflection_fails :: bool

record reasoner =
  rz_bus :: bus
  rz_beats :: beats
  rz_broker :: broker
  rz_lists :: redis_lists
  rz_tools :: tool_registry
  rz_suspended :: "string option"
  rz_tokens :: "(string \<times> int) list"
  rz_cost :: "(string \<times> real) list"
  rz_ic :: "string option"
  rz_scale :: "string option"
  rz_trust :: "string option"
  rz_last_at :: "(pyval \<times> real) list"
  rz_seen :: "(pyval \<times> string \<times> real) list"
  rz_label :: "string option"
  rz_cycle_tools :: "pydict list"
  rz_runs :: "(string \<times> pydict) list"
  rz_cost_rows :: "(string \<times> int \<times> real) list"
  rz_vectors :: "pydict list"
  rz_logs :: "log_row list"

type_synonym 'a rrun = "(reasoner, 'a) eff"

abbreviation rq_rp :: "reason_env \<Rightarrow> pyval \<Rightarrow> string" where "rq_rp e \<equiv> be_rp (rq_bus e)"
abbreviation rq_db :: "reason_env \<Rightarrow> bool" where "rq_db e \<equiv> hv_db_up (rq_beat e)"
abbreviation rq_store :: "reasoner \<Rightarrow> mem_store" where "rq_store s \<equiv> hb_store (rz_beats s)"

definition on_rz_store :: "(mem_store \<Rightarrow> mem_store) \<Rightarrow> reasoner \<Rightarrow> reasoner" where
  "on_rz_store f s = s\<lparr>rz_beats := (rz_beats s)\<lparr>hb_store := f (hb_store (rz_beats s))\<rparr>\<rparr>"

definition rfault :: "reason_env \<Rightarrow> reason_call \<Rightarrow> unit rrun" where
  "rfault e c = guard_fault (rq_fails e c)"

definition AGENT_REASONING :: string where "AGENT_REASONING = ''REASONING_AGENT''"
definition SOURCE_REASONING :: string where "SOURCE_REASONING = ''reasoning_agent''"
definition STREAM_DECISIONS :: string where "STREAM_DECISIONS = ''decisions''"
definition STREAM_AGENT_LOGS :: string where "STREAM_AGENT_LOGS = ''agent_logs''"
definition STREAM_SYSTEM_METRICS :: string where "STREAM_SYSTEM_METRICS = ''system_metrics''"
definition STREAM_RISK_ALERTS :: string where "STREAM_RISK_ALERTS = ''risk_alerts''"

section \<open>Admission\<close>

definition hashable :: "pyval \<Rightarrow> bool" where
  "hashable v = (case v of PList _ \<Rightarrow> False | PDict _ \<Rightarrow> False | _ \<Rightarrow> True)"

text \<open>the key of a dictionary lookup\<close>
definition as_key :: "pyval \<Rightarrow> unit pyres" where
  "as_key v = (if hashable v then Inr () else Inl TypeError)"

text \<open>True when the signal repeats the last one reasoned on\<close>
definition repeats_signal :: "reason_env \<Rightarrow> pydict \<Rightarrow> bool rrun" where
  "repeats_signal e data =
     (let symbol = py_get data ''symbol'' in
      if \<not> (rq_dedup_pct e > 0 \<and> truthy symbol) then ret False
      else bnd (lift_res (as_key symbol)) (\<lambda>_.
        bnd (gets (\<lambda>s. map_of (rz_seen s) symbol)) (\<lambda>prev.
        lift_res (is_duplicate_signal (rq_rp e) prev data (rq_dedup_pct e)))))"

text \<open>True within the cooldown; otherwise the cycle starts it\<close>
definition cooling_down :: "reason_env \<Rightarrow> pyval \<Rightarrow> bool rrun" where
  "cooling_down e symbol =
     (if \<not> (rq_cooldown e > 0 \<and> truthy symbol) then ret False
      else bnd (lift_res (as_key symbol)) (\<lambda>_.
        bnd (gets (\<lambda>s. map_of (rz_last_at s) symbol)) (\<lambda>last_at.
        case last_at of
          Some t \<Rightarrow> if rq_mono e - t < rq_cooldown e then ret True
                    else andthen (modify (\<lambda>s. s\<lparr>rz_last_at := dset symbol (rq_mono e) (rz_last_at s)\<rparr>)) (ret False)
        | None \<Rightarrow> andthen (modify (\<lambda>s. s\<lparr>rz_last_at := dset symbol (rq_mono e) (rz_last_at s)\<rparr>)) (ret False))))"

definition remember_signal :: "reason_env \<Rightarrow> pydict \<Rightarrow> unit rrun" where
  "remember_signal e data =
     (let symbol = py_get data ''symbol'' in
      if \<not> truthy symbol then ret ()
      else bnd (lift_res (signal_fingerprint (rq_rp e) data)) (\<lambda>fp.
        bnd (lift_res (as_key symbol)) (\<lambda>_. modify (\<lambda>s. s\<lparr>rz_seen := dset symbol fp (rz_seen s)\<rparr>))))"

text \<open>suspension, repetition, cooldown; then the signal is remembered\<close>
definition admit_signal :: "reason_env \<Rightarrow> pydict \<Rightarrow> bool rrun" where
  "admit_signal e data =
     andthen (rfault e RC_suspended) (bnd (gets rz_suspended) (\<lambda>flag.
     if flag = Some ''1'' then ret False
     else bnd (repeats_signal e data) (\<lambda>repeated.
     if repeated then ret False
     else bnd (cooling_down e (py_get data ''symbol'')) (\<lambda>cooling.
     if cooling then ret False
     else andthen (remember_signal e data) (ret True)))))"

section \<open>Context\<close>

definition tool_row :: "string \<Rightarrow> real \<Rightarrow> bool \<Rightarrow> pydict \<Rightarrow> pydict" where
  "tool_row name latency success outputs = [(''name'', PStr name), (''latency_ms'', PFloat (py_round 1 latency)),
     (''success'', PBool success), (''outputs'', PDict outputs)]"

definition record_tool :: "reason_env \<Rightarrow> string \<Rightarrow> real \<Rightarrow> bool \<Rightarrow> pydict \<Rightarrow> reasoner \<Rightarrow> reasoner" where
  "record_tool e name latency success outputs s =
     (let s1 = s\<lparr>rz_cycle_tools := rz_cycle_tools s @ [tool_row name latency success outputs]\<rparr>
      in if rq_fails e RC_tool_record then s1
         else s1\<lparr>rz_tools := record_call name latency success None (rz_tools s1)\<rparr>)"

definition tool_enabled :: "string \<Rightarrow> reasoner \<Rightarrow> bool" where
  "tool_enabled name s = (case get_tool (rz_tools s) name of None \<Rightarrow> False | Some t \<Rightarrow> tl_enabled t)"

definition REASONING_TOOL_MIN_ALPHA :: real where "REASONING_TOOL_MIN_ALPHA = 0"

definition reasoning_state_flags :: "pydict \<Rightarrow> pydict \<Rightarrow> string set" where
  "reasoning_state_flags data context =
     (if py_get data ''composite_score'' \<noteq> PNone \<or> truthy (py_get context ''ic_weights'') then {''confluence_loaded''} else {})"

text \<open>the tools the prompt names\<close>
definition select_reasoning_tools :: "pydict \<Rightarrow> pydict \<Rightarrow> tool_registry \<Rightarrow> tool list" where
  "select_reasoning_tools data context r =
     (let flags = reasoning_state_flags data context
      in select_tools PERCEPTION flags None (Some REASONING_TOOL_MIN_ALPHA) False r
         @ select_tools MEMORY flags None (Some REASONING_TOOL_MIN_ALPHA) False r)"

text \<open>the weights, when the read and the JSON go through, and whether they did\<close>
definition read_ic_weights :: "reason_env \<Rightarrow> reasoner \<Rightarrow> bool \<times> pyval option" where
  "read_ic_weights e s =
     (if rq_fails e RC_ic_get then (False, None)
      else case rz_ic s of None \<Rightarrow> (True, None) | Some raw \<Rightarrow>
        if raw = [] then (True, None)
        else (case be_loads (rq_bus e) raw of None \<Rightarrow> (False, None) | Some v \<Rightarrow> (True, Some v)))"

definition gather_ic :: "reason_env \<Rightarrow> reasoner \<Rightarrow> pydict \<times> reasoner" where
  "gather_ic e s = (case read_ic_weights e s of (ok, v) \<Rightarrow>
     let context = (case v of None \<Rightarrow> [] | Some w \<Rightarrow> [(''ic_weights'', w)])
     in (context, record_tool e ''get_ic_weights'' (rq_latency e ''get_ic_weights'') ok
          [(''ic_weights'', py_or (py_get context ''ic_weights'') (PDict []))] s))"

definition open_long_qty :: "reason_env \<Rightarrow> pyval \<Rightarrow> reasoner \<Rightarrow> real" where
  "open_long_qty e symbol s =
     (if \<not> truthy symbol \<or> rq_fails e RC_position then 0
      else let p = get_position (rz_broker s) (py_str (rq_rp e) symbol)
           in if py_lower (pos_side p) = ''long'' \<and> pos_qty p > 0 then pos_qty p else 0)"

definition INTEL_TOOLS :: "(string \<times> string) list" where
  "INTEL_TOOLS = [(''get_order_book_depth'', ''order_book''), (''get_news_sentiment'', ''news_sentiment''),
     (''check_cross_asset_correlation'', ''correlation''), (''fetch_macro_regime'', ''macro_regime'')]"

definition consult :: "reason_env \<Rightarrow> string \<Rightarrow> string \<times> string \<Rightarrow> pydict \<times> reasoner \<Rightarrow> pydict \<times> reasoner" where
  "consult e symbol = (\<lambda>(tool, key) (context, s).
     if \<not> tool_enabled tool s then (context, s)
     else let result = (case rq_intel e tool symbol of None \<Rightarrow> [] | Some d \<Rightarrow> d)
          in (if result = [] then context else dset key (PDict result) context,
              record_tool e tool (rq_latency e tool) (rq_intel e tool symbol \<noteq> None) result s))"

definition gather_market_intel :: "reason_env \<Rightarrow> pyval \<Rightarrow> pydict \<times> reasoner \<Rightarrow> pydict \<times> reasoner" where
  "gather_market_intel e symbol =
     (if truthy symbol then fold (consult e (py_str (rq_rp e) symbol)) INTEL_TOOLS else id)"

definition risk_state_of :: "pydict \<Rightarrow> pydict pyres" where
  "risk_state_of data =
     res_bind (float_field data ''composite_score'' 0) (\<lambda>composite.
     res_bind (float_field data ''pct'' 0) (\<lambda>pct.
       Inr [(''composite_score'', PFloat composite), (''momentum_pct'', PFloat pct),
         (''signal_strength'', dget data ''strength'' (PStr ''NORMAL'')),
         (''signal_type'', py_or (py_get data ''type'') (dget data ''signal_type'' (PStr ''UNKNOWN'')))]))"

text \<open>the composite score is recorded as a consulted tool\<close>
definition record_confluence :: "reason_env \<Rightarrow> pydict \<Rightarrow> unit rrun" where
  "record_confluence e data =
     bnd (gets (tool_enabled ''get_stream_confluence_metrics'')) (\<lambda>on.
     if \<not> on then ret ()
     else bnd (lift_res (float_field data ''composite_score'' 0)) (\<lambda>composite.
       modify (record_tool e ''get_stream_confluence_metrics'' 0 (py_get data ''composite_score'' \<noteq> PNone)
         [(''composite_score'', PFloat composite),
          (''signal_type'', py_or (py_get data ''type'') (dget data ''signal_type'' (PStr ''UNKNOWN'')))])))"

definition gather_context :: "reason_env \<Rightarrow> pydict \<Rightarrow> pydict rrun" where
  "gather_context e data s =
     (let symbol = py_get data ''symbol'' in
      case gather_ic e s of (c0, s0) \<Rightarrow>
        let c1 = dset ''open_position_qty'' (PFloat (open_long_qty e symbol s0)) c0
        in case gather_market_intel e symbol (c1, s0) of (c2, s1) \<Rightarrow>
          let c3 = (case rq_directive e of None \<Rightarrow> c2 | Some d \<Rightarrow> if d = [] then c2 else dset ''prompt_variant'' (PStr d) c2)
          in (bnd (lift_res (risk_state_of data)) (\<lambda>risk.
               andthen (record_confluence e data) (ret (dset ''risk_state'' (PDict risk) c3)))) s1)"

section \<open>The decision\<close>

text \<open>no recalled trade: smaller sizing is asked for\<close>
definition model_context :: "pydict list \<Rightarrow> pydict \<Rightarrow> pydict" where
  "model_context similar context = (if similar \<noteq> [] then context else
     case py_get context ''risk_state'' of
       PDict d \<Rightarrow> dset ''risk_state'' (PDict (setdefault ''size_pct_scale'' (PFloat (1 / 2)) d)) context
     | _ \<Rightarrow> context)"

definition degraded :: "reason_env \<Rightarrow> pydict \<Rightarrow> pydict \<Rightarrow> string \<Rightarrow> string \<Rightarrow> (pydict \<times> int \<times> real \<times> string option) rrun" where
  "degraded e data context trace_id reason =
     bnd (gets rz_logs) (\<lambda>logs.
     bnd (lift_res (degrade (rq_rp e) (rq_texts e) (rq_params e) (rq_mode e) (rq_fallback_mode e)
         (get_last_reflection (rq_db e) (rq_reflection_fails e) logs) data context trace_id reason)) (\<lambda>d.
       ret (d, 0, 0, Some reason)))"

definition policy_decides :: "reason_env \<Rightarrow> pydict \<Rightarrow> pydict \<Rightarrow> string \<Rightarrow> (pydict \<times> int \<times> real \<times> string option) rrun" where
  "policy_decides e data context trace_id =
     andthen (modify (\<lambda>s. s\<lparr>rz_label := Some ''policy''\<rparr>))
     (bnd (lift_res (run_policy (rq_rp e) (rq_texts e) (rq_params e) data context)) (\<lambda>d.
       ret (dmerge d (costless trace_id False), 0, 0, None)))"

definition model_decides ::
  "reason_env \<Rightarrow> pydict \<Rightarrow> pydict \<Rightarrow> pydict list \<Rightarrow> string \<Rightarrow> (pydict \<times> int \<times> real \<times> string option) rrun" where
  "model_decides e data context similar trace_id =
     (case float_field data ''composite_score'' 0 of
        Inl x \<Rightarrow> degraded e data context trace_id (rq_exc_text e x)
      | Inr _ \<Rightarrow>
          let ctx = model_context similar context; r = rq_model e data ctx similar;
              accept = (\<lambda>d. andthen (modify (\<lambda>s. s\<lparr>rz_label := mr_label r\<rparr>)) (ret (d, mr_tokens r, mr_cost r, None)))
          in case mr_reply r of
               Timed_out \<Rightarrow> degraded e data ctx trace_id ''llm_timeout''
             | Failed msg \<Rightarrow> degraded e data ctx trace_id msg
             | Replied_dict d \<Rightarrow> accept d
             | Replied raw \<Rightarrow> accept (parse_reply (be_loads (rq_bus e)) raw))"

definition produce_decision ::
  "reason_env \<Rightarrow> pydict \<Rightarrow> pydict \<Rightarrow> pydict list \<Rightarrow> string \<Rightarrow> int \<Rightarrow> (pydict \<times> int \<times> real \<times> string option) rrun" where
  "produce_decision e data context similar trace_id budget_used =
     (if rq_mode e = ''policy'' then policy_decides e data context trace_id
      else if budget_used \<ge> rq_budget e then degraded e data context trace_id ''budget_exceeded''
      else model_decides e data context similar trace_id)"

text \<open>any error of the critique leaves the decision and costs nothing\<close>
definition self_critique :: "reason_env \<Rightarrow> pydict \<Rightarrow> pydict \<Rightarrow> pydict \<times> int \<times> real" where
  "self_critique e decision context =
     (let r = rq_critic e decision context
      in case mr_reply r of
           Replied raw \<Rightarrow> (case apply_critique (rq_rp e) decision (be_loads (rq_bus e) (strip_fences raw)) of
               Inl _ \<Rightarrow> (decision, 0, 0) | Inr d \<Rightarrow> (d, mr_tokens r, mr_cost r))
         | _ \<Rightarrow> (decision, 0, 0))"

definition wants_critique :: "reason_env \<Rightarrow> bool \<Rightarrow> pydict \<Rightarrow> bool pyres" where
  "wants_critique e is_fallback summary =
     res_bind (float_field summary ''confidence'' 0) (\<lambda>confidence.
       Inr (rq_critique e \<and> rq_mode e \<noteq> ''policy'' \<and> \<not> is_fallback
         \<and> py_lower (py_str (rq_rp e) (dget summary ''action'' (PStr []))) \<notin> NO_ORDER_ACTIONS
         \<and> confidence \<ge> REACT_CRITIQUE_CONFIDENCE_THRESHOLD))"

section \<open>Persistence\<close>

text \<open>\<open>summary[k]\<close>: the first missing key raises\<close>
fun require_keys :: "string list \<Rightarrow> pydict \<Rightarrow> unit pyres" where
  "require_keys [] d = Inr ()"
| "require_keys (k # ks) d = (case map_of d k of None \<Rightarrow> Inl (KeyError k) | Some _ \<Rightarrow> require_keys ks d)"

definition RUN_KEYS :: "string list" where
  "RUN_KEYS = [''action'', ''confidence'', ''primary_edge'', ''risk_factors'', ''size_pct'', ''stop_atr_x'', ''rr_ratio'',
     ''latency_ms'', ''cost_usd'']"

definition run_values :: "pydict \<Rightarrow> pydict \<Rightarrow> string \<Rightarrow> bool \<Rightarrow> pydict" where
  "run_values data summary trace_id fallback =
     [(''strategy_id'', py_get data ''strategy_id''), (''symbol'', py_get data ''symbol''), (''signal_data'', PDict data)]
     @ map (\<lambda>k. (k, py_get summary k)) RUN_KEYS
     @ [(''trace_id'', PStr trace_id), (''fallback'', PBool fallback), (''source'', PStr AGENT_REASONING),
        (''schema_version'', PStr DB_SCHEMA_VERSION), (''status'', PStr ''running'')]"

definition mem_store_agent_run :: "reason_env \<Rightarrow> pydict \<Rightarrow> pydict \<Rightarrow> string \<Rightarrow> bool \<Rightarrow> mem_store \<Rightarrow> mem_store" where
  "mem_store_agent_run e data summary trace_id fallback = add_agent_run (hv_now (rq_beat e))
     [(''id'', PStr (''mem-'' @ trace_id)), (''trace_id'', PStr trace_id), (''symbol'', py_get data ''symbol''),
      (''action'', py_get summary ''action''), (''confidence'', py_get summary ''confidence''),
      (''fallback'', PBool fallback), (''source'', PStr AGENT_REASONING), (''status'', PStr ''running'')]"

text \<open>the run and its cost in one transaction, or the run in the store; the id of the run\<close>
definition persist_run ::
  "reason_env \<Rightarrow> pydict \<Rightarrow> pydict \<Rightarrow> string \<Rightarrow> bool \<Rightarrow> int \<Rightarrow> real \<Rightarrow> string rrun" where
  "persist_run e data summary trace_id fallback tokens cost =
     (if rq_db e then
        bnd (lift_res (require_keys RUN_KEYS summary)) (\<lambda>_.
        andthen (rfault e RC_transaction)
        (andthen (modify (\<lambda>s. s\<lparr>rz_runs := rz_runs s @ [(rq_row_id e, run_values data summary trace_id fallback)],
             rz_cost_rows := rz_cost_rows s @ [(rq_today e, tokens, cost)]\<rparr>)) (ret (rq_row_id e))))
      else andthen (modify (on_rz_store (mem_store_agent_run e data summary trace_id fallback))) (ret (''mem-'' @ trace_id)))"

definition vector_row :: "string \<Rightarrow> real list \<Rightarrow> pydict \<Rightarrow> pydict" where
  "vector_row content embedding summary = [(''content'', PStr content), (''embedding'', PList (map PFloat embedding)),
     (''metadata'', PDict [(''trace_id'', py_get summary ''trace_id'')]),
     (''outcome'', PDict [(''action'', py_get summary ''action''), (''confidence'', py_get summary ''confidence'')])]"

definition persist_vector :: "reason_env \<Rightarrow> string \<Rightarrow> real list \<Rightarrow> pydict \<Rightarrow> reasoner \<Rightarrow> reasoner" where
  "persist_vector e content embedding summary s =
     (if \<not> rq_db e then on_rz_store (add_vector_memory (hv_now (rq_beat e)) (vector_row content embedding summary)) s
      else case require_keys [''trace_id'', ''action'', ''confidence''] summary of
             Inl _ \<Rightarrow> s
           | Inr _ \<Rightarrow> if rq_fails e RC_vector_insert then s
                      else s\<lparr>rz_vectors := rz_vectors s @ [vector_row content embedding summary]\<rparr>)"

definition log_summary :: "reason_env \<Rightarrow> string \<Rightarrow> pydict \<Rightarrow> string option \<Rightarrow> string \<Rightarrow> reasoner \<Rightarrow> reasoner" where
  "log_summary e trace_id summary fallback_reason run_id s =
     (let p = dmerge summary [(''fallback_reason'', case fallback_reason of None \<Rightarrow> PNone | Some r \<Rightarrow> PStr r),
            (''source'', PStr SOURCE_REASONING)]
      in case write_agent_log (rq_db e) (rq_fails e RC_log_insert) (hv_now (rq_beat e)) (hv_iso (rq_beat e)) trace_id
           ''reasoning_summary'' p (PStr run_id) (rq_store s, rz_logs s) of
         (st, rows) \<Rightarrow> on_rz_store (\<lambda>_. st) (s\<lparr>rz_logs := rows\<rparr>))"

section \<open>Cost\<close>

definition rq_publish :: "reason_env \<Rightarrow> string \<Rightarrow> pydict \<Rightarrow> reasoner \<Rightarrow> reasoner" where
  "rq_publish e stream event s = s\<lparr>rz_bus := snd (publish (rq_bus e) stream event None (rz_bus s))\<rparr>"

definition cost_metric :: "real \<Rightarrow> pydict" where
  "cost_metric cost = [(''type'', PStr ''system_metric''), (''metric_name'', PStr ''llm_cost_today''), (''value'', PFloat cost),
     (''source'', PStr SOURCE_REASONING)]"

definition budget_alert :: "reason_env \<Rightarrow> int \<Rightarrow> pydict" where
  "budget_alert e used = [(''type'', PStr ''llm_budget''), (''message'', PStr ''Daily LLM token budget exceeded''),
     (''tokens_used'', PInt used), (''limit'', PInt (rq_budget e))]"

definition track_cost :: "reason_env \<Rightarrow> int \<Rightarrow> real \<Rightarrow> unit rrun" where
  "track_cost e tokens cost =
     andthen (rfault e RC_tokens_incr)
     (andthen (modify (\<lambda>s. s\<lparr>rz_tokens := dset (rq_today e) (dget (rz_tokens s) (rq_today e) 0 + tokens) (rz_tokens s)\<rparr>))
     (andthen (rfault e RC_cost_incr)
     (andthen (modify (\<lambda>s. s\<lparr>rz_cost := dset (rq_today e) (dget (rz_cost s) (rq_today e) 0 + cost) (rz_cost s)\<rparr>))
     (andthen (modify (\<lambda>s. if rq_fails e RC_cost_get then s
         else rq_publish e STREAM_SYSTEM_METRICS (cost_metric (dget (rz_cost s) (rq_today e) 0)) s))
     (andthen (rfault e RC_tokens_reget)
     (modify (\<lambda>s. let used = dget (rz_tokens s) (rq_today e) 0 in
         if used \<ge> rq_budget e then rq_publish e STREAM_RISK_ALERTS (budget_alert e used) s else s)))))))"

section \<open>Publication\<close>

definition thought_event :: "reason_env \<Rightarrow> pydict \<Rightarrow> pydict pyres" where
  "thought_event e summary =
     res_bind (float_field summary ''confidence'' 0) (\<lambda>conf.
     let edge = text_or (rq_rp e) summary ''primary_edge'';
         act = py_str (rq_rp e) (py_or (py_get summary ''action'') (PStr ''hold''));
         head = py_upper act @ '' ('' @ rq_percent e conf @ '')''
     in Inr (dmerge [(''type'', PStr ''agent_log''), (''msg_id'', PStr (rq_uuid e 1)), (''source'', PStr SOURCE_REASONING),
          (''agent_name'', PStr AGENT_REASONING), (''confidence_score'', PFloat (conf * 100)),
          (''reasoning'', PStr (if edge = [] then ''reasoning decision'' else edge)),
          (''message'', PStr (if edge = [] then head else head @ dash @ edge)),
          (''timestamp'', PStr (be_now_iso (rq_bus e)))] summary))"

definition weight_of :: "reason_env \<Rightarrow> reasoner \<Rightarrow> real" where
  "weight_of e s =
     (let scale = (if rq_fails e RC_scale_get then 1 else weight_scale_of (rz_scale s))
      in if rq_trust_enabled e
         then apply_trust_weighting scale (if rq_fails e RC_trust_get then AGENT_TRUST_DEFAULT else agent_trust_of (rz_trust s))
         else scale)"

text \<open>\<open>summary.get("action", "").lower()\<close>\<close>
definition final_action :: "pydict \<Rightarrow> string pyres" where
  "final_action summary = (case dget summary ''action'' (PStr []) of PStr a \<Rightarrow> Inr (py_lower a) | _ \<Rightarrow> Inl AttributeError)"

definition advisory_event ::
  "reason_env \<Rightarrow> pydict \<Rightarrow> pydict \<Rightarrow> pydict \<Rightarrow> string \<Rightarrow> string \<Rightarrow> real \<Rightarrow> real \<Rightarrow> pydict pyres" where
  "advisory_event e data context summary trace_id act cost scale =
     (let strategy_id = py_str (rq_rp e) (py_or (py_get data ''strategy_id'') (PStr (rq_uuid e 2))) in
      res_bind (float_field summary ''confidence'' 0) (\<lambda>conf.
      res_bind (py_float (py_or (py_get data ''composite_score'') (py_or (py_get data ''confidence'') (PFloat 0)))) (\<lambda>signal.
      res_bind (float_field data ''qty'' 1) (\<lambda>qty.
      res_bind (py_float (dget data ''price'' (dget data ''last_price'' (PFloat 0)))) (\<lambda>price.
      res_bind (kelly_position_size summary (py_get context ''macro_regime'') act) (\<lambda>kelly.
      res_bind (float_field summary ''stop_atr_x'' (3 / 2)) (\<lambda>stop.
      res_bind (float_field summary ''rr_ratio'' MIN_RR_RATIO) (\<lambda>rr.
        Inr [(''msg_id'', PStr (rq_uuid e 3)), (''source'', PStr SOURCE_REASONING), (''strategy_id'', PStr strategy_id),
          (''signal_id'', PStr (py_str (rq_rp e) (py_or (py_get data ''signal_id'') (py_or (py_get data ''msg_id'') (PStr []))))),
          (''symbol'', py_get data ''symbol''), (''action'', PStr act), (''reasoning_score'', PFloat (py_round 6 (conf * scale))),
          (''signal_confidence'', PFloat (py_round 6 (signal * scale))), (''weight_scale'', PFloat (py_round 6 scale)),
          (''qty'', PFloat qty), (''price'', PFloat price), (''session_id'', PStr strategy_id),
          (''timestamp'', dget data ''timestamp'' (PStr (be_now_iso (rq_bus e)))), (''trace_id'', PStr trace_id),
          (''primary_edge'', dget summary ''primary_edge'' (PStr [])), (''risk_factors'', dget summary ''risk_factors'' (PList [])),
          (''downgrade_reason'', PStr (text_or (rq_rp e) summary ''downgrade_reason'')),
          (''model_used'', dget summary ''model_used'' (PStr [])), (''decision_cost_usd'', PFloat cost),
          (''size_pct'', PFloat kelly), (''stop_atr_x'', PFloat stop), (''rr_ratio'', PFloat (max rr MIN_RR_RATIO))]))))))))"

definition push_to_redis ::
  "(redis_env \<Rightarrow> pydict \<Rightarrow> redis_lists \<Rightarrow> pydict \<times> redis_lists) \<Rightarrow> reason_env \<Rightarrow> pydict \<Rightarrow> reasoner \<Rightarrow> pydict \<times> reasoner" where
  "push_to_redis push e payload s = (case rq_redis e of None \<Rightarrow> (payload, s)
     | Some r \<Rightarrow> (case push r payload (rz_lists s) of (p, ls) \<Rightarrow> (p, s\<lparr>rz_lists := ls\<rparr>)))"

definition notify_decision :: "reason_env \<Rightarrow> pydict \<Rightarrow> pydict \<Rightarrow> string \<Rightarrow> string \<Rightarrow> bool \<Rightarrow> reasoner \<Rightarrow> reasoner" where
  "notify_decision e payload summary trace_id act is_fallback s =
     (if act \<notin> {''buy'', ''sell''} then s
      else let degraded = reasoning_is_fallback (rq_rp e) is_fallback payload summary;
               reason = py_str (rq_rp e) (py_or (py_get summary ''fallback_reason'') (py_or (py_get summary ''primary_edge'') (PStr [])));
               n = build_decision_notification (rq_money e) act (py_str (rq_rp e) (py_get payload ''symbol''))
                     (py_get payload ''price'') trace_id degraded reason
           in case push_to_redis push_notification e n s of (persisted, s1) \<Rightarrow>
                if rq_db e then s1 else on_rz_store (record_notification (hv_now (rq_beat e)) persisted) s1)"

definition record_decision_to_redis ::
  "reason_env \<Rightarrow> pydict \<Rightarrow> pydict \<Rightarrow> string \<Rightarrow> string \<Rightarrow> bool \<Rightarrow> unit rrun" where
  "record_decision_to_redis e data summary trace_id act is_fallback =
     bnd (gets rz_cycle_tools) (\<lambda>tools.
     bnd (lift_res (build_decision_payload (rq_rp e) data summary trace_id act is_fallback tools)) (\<lambda>payload.
     modify (\<lambda>s. case push_to_redis push_decision e payload s of (persisted, s1) \<Rightarrow>
       let s2 = (if rq_db e then s1
                 else on_rz_store (\<lambda>st. snd (record_decision (rq_rp e) (hv_iso (rq_beat e)) persisted st)) s1)
       in notify_decision e payload summary trace_id act is_fallback s2)))"

section \<open>The agent\<close>

record reasoned =
  re_summary :: pydict
  re_context :: pydict
  re_tokens :: int
  re_cost :: real
  re_reason :: "string option"
  re_text :: string
  re_embedding :: "real list"

definition signal_summary :: "reason_env \<Rightarrow> pydict \<Rightarrow> string" where
  "signal_summary e data = rq_summary_text e
     [(''symbol'', py_get data ''symbol''), (''price'', py_get data ''price''), (''composite_score'', py_get data ''composite_score''),
      (''signal_type'', py_or (py_get data ''signal_type'') (py_get data ''type'')), (''context'', dget data ''context'' (PDict []))]"

definition recall :: "reason_env \<Rightarrow> real list \<Rightarrow> pydict list rrun" where
  "recall e embedding =
     bnd (gets rq_store) (\<lambda>st.
     let similar = search_vector_memory (rq_rp e) (rq_db e) (rq_db_similar e embedding) st
     in andthen (modify (record_tool e ''query_similar_trades'' (rq_latency e ''query_similar_trades'') True
          [(''count'', PInt (int (length similar)))])) (ret similar))"

definition stamp_model :: "reason_env \<Rightarrow> bool \<Rightarrow> string option \<Rightarrow> pydict \<Rightarrow> pydict" where
  "stamp_model e is_fallback label summary = dset ''model_used'' (PStr (if is_fallback then ''fallback''
     else case label of Some l \<Rightarrow> if l = [] then rq_default_model e else l | None \<Rightarrow> rq_default_model e)) summary"

text \<open>context, decision, critique and the risk hierarchy\<close>
definition reason_about :: "reason_env \<Rightarrow> pydict \<Rightarrow> string \<Rightarrow> int \<Rightarrow> reasoned rrun" where
  "reason_about e data trace_id budget_used =
     bnd (gather_context e data) (\<lambda>context.
     bnd (lift_res (rq_embed e (signal_summary e data))) (\<lambda>embedding.
     bnd (recall e embedding) (\<lambda>similar.
     bnd (produce_decision e data context similar trace_id budget_used) (\<lambda>(summary, tokens, cost, reason).
     bnd (lift_res (wants_critique e (reason \<noteq> None) summary)) (\<lambda>critique.
     let (summary, extra_tokens, extra_cost) =
           (if critique then self_critique e summary (model_context similar context) else (summary, 0, 0))
     in bnd (lift_res (apply_risk_hierarchy (rq_rp e) summary context)) (\<lambda>safe.
        bnd (gets rz_label) (\<lambda>label.
        ret \<lparr>re_summary = stamp_model e (reason \<noteq> None) label safe, re_context = context,
             re_tokens = tokens + extra_tokens, re_cost = cost + extra_cost, re_reason = reason,
             re_text = signal_summary e data, re_embedding = embedding\<rparr>)))))))"

definition store_reasoned :: "reason_env \<Rightarrow> pydict \<Rightarrow> string \<Rightarrow> reasoned \<Rightarrow> unit rrun" where
  "store_reasoned e data trace_id r =
     bnd (persist_run e data (re_summary r) trace_id (re_reason r \<noteq> None) (re_tokens r) (re_cost r)) (\<lambda>run_id.
     andthen (modify (log_summary e trace_id (re_summary r) (re_reason r) run_id))
     (andthen (modify (persist_vector e (re_text r) (re_embedding r) (re_summary r)))
     (andthen (modify (\<lambda>s. s\<lparr>rz_beats := write_agent_heartbeat (rq_beat e) AGENT_REASONING
         (''action='' @ py_str (rq_rp e) (py_get (re_summary r) ''action'') @ '' symbol='' @ py_str (rq_rp e) (py_get data ''symbol''))
         0 [] (rz_beats s)\<rparr>))
     (track_cost e (re_tokens r) (re_cost r)))))"

definition publish_reasoned :: "reason_env \<Rightarrow> pydict \<Rightarrow> string \<Rightarrow> reasoned \<Rightarrow> unit rrun" where
  "publish_reasoned e data trace_id r =
     bnd (lift_res (thought_event e (re_summary r))) (\<lambda>thought.
     andthen (modify (rq_publish e STREAM_AGENT_LOGS thought))
     (bnd (lift_res (final_action (re_summary r))) (\<lambda>act.
      bnd (gets (weight_of e)) (\<lambda>scale.
      bnd (lift_res (advisory_event e data (re_context r) (re_summary r) trace_id act (re_cost r) scale)) (\<lambda>event.
      andthen (modify (rq_publish e STREAM_DECISIONS event))
      (record_decision_to_redis e data (re_summary r) trace_id act (re_reason r \<noteq> None)))))))"

definition reason_cycle :: "reason_env \<Rightarrow> pydict \<Rightarrow> string \<Rightarrow> unit rrun" where
  "reason_cycle e data trace_id =
     andthen (rfault e RC_tokens_get)
     (bnd (gets (\<lambda>s. dget (rz_tokens s) (rq_today e) 0)) (\<lambda>budget_used.
      andthen (modify (\<lambda>s. s\<lparr>rz_label := None, rz_cycle_tools := []\<rparr>))
      (bnd (reason_about e data trace_id budget_used) (\<lambda>r.
       andthen (store_reasoned e data trace_id r) (publish_reasoned e data trace_id r)))))"

definition trace_of :: "reason_env \<Rightarrow> pydict \<Rightarrow> string" where
  "trace_of e data = py_str (rq_rp e) (py_or (py_get data ''trace_id'') (PStr (rq_uuid e 0)))"

definition reasoning_process :: "reason_env \<Rightarrow> pydict \<Rightarrow> unit rrun" where
  "reasoning_process e data =
     bnd (admit_signal e data) (\<lambda>admitted. if admitted then reason_cycle e data (trace_of e data) else ret ())"

end
