(* ===== verification/Reasoning_Properties.thy ===== *)
theory Reasoning_Properties
  imports Reasoning_Agent
begin

text \<open>
  What the reasoning agent guarantees. \<open>other_model\<close> replaces what the language model would have answered, and the
  lemmas collected in \<open>model_free\<close> say which steps cannot see it; \<open>same f\<close> are the frames of a cycle: what is
  \<open>paid\<close> and published, what is \<open>noted\<close> of past signals, and what is \<open>heard\<close> on \<open>decisions\<close>. The concrete agent at the
  end evaluates the properties.
\<close>

section \<open>Without the model\<close>

definition other_model ::
  "(pydict \<Rightarrow> pydict \<Rightarrow> pydict list \<Rightarrow> model_result) \<Rightarrow> (pydict \<Rightarrow> pydict \<Rightarrow> model_result) \<Rightarrow> reason_env \<Rightarrow> reason_env" where
  "other_model m c e = e\<lparr>rq_model := m, rq_critic := c\<rparr>"

named_theorems model_free

lemma other_model_fields [simp, model_free]:
  "rq_bus (other_model m c e) = rq_bus e" "rq_beat (other_model m c e) = rq_beat e" "rq_redis (other_model m c e) = rq_redis e"
  "rq_today (other_model m c e) = rq_today e" "rq_mono (other_model m c e) = rq_mono e" "rq_uuid (other_model m c e) = rq_uuid e"
  "rq_row_id (other_model m c e) = rq_row_id e" "rq_dedup_pct (other_model m c e) = rq_dedup_pct e"
  "rq_cooldown (other_model m c e) = rq_cooldown e" "rq_critique (other_model m c e) = rq_critique e"
  "rq_mode (other_model m c e) = rq_mode e" "rq_fallback_mode (other_model m c e) = rq_fallback_mode e"
  "rq_budget (other_model m c e) = rq_budget e" "rq_trust_enabled (other_model m c e) = rq_trust_enabled e"
  "rq_params (other_model m c e) = rq_params e" "rq_texts (other_model m c e) = rq_texts e"
  "rq_exc_text (other_model m c e) = rq_exc_text e" "rq_money (other_model m c e) = rq_money e"
  "rq_percent (other_model m c e) = rq_percent e" "rq_summary_text (other_model m c e) = rq_summary_text e"
  "rq_embed (other_model m c e) = rq_embed e" "rq_db_similar (other_model m c e) = rq_db_similar e"
  "rq_intel (other_model m c e) = rq_intel e" "rq_latency (other_model m c e) = rq_latency e"
  "rq_directive (other_model m c e) = rq_directive e" "rq_default_model (other_model m c e) = rq_default_model e"
  "rq_fails (other_model m c e) = rq_fails e" "rq_reflection_fails (other_model m c e) = rq_reflection_fails e"
  by (simp_all add: other_model_def)

lemma other_model_admission [model_free]:
  "rfault (other_model m c e) = rfault e" "repeats_signal (other_model m c e) = repeats_signal e"
  "cooling_down (other_model m c e) = cooling_down e" "remember_signal (other_model m c e) = remember_signal e"
  unfolding rfault_def repeats_signal_def cooling_down_def remember_signal_def model_free by (rule refl)+

lemma other_model_admit [model_free]:
  "admit_signal (other_model m c e) = admit_signal e"
  unfolding admit_signal_def model_free by (rule refl)+

lemma other_model_tool [model_free]:
  "record_tool (other_model m c e) = record_tool e" "read_ic_weights (other_model m c e) = read_ic_weights e"
  "open_long_qty (other_model m c e) = open_long_qty e"
  unfolding record_tool_def read_ic_weights_def open_long_qty_def model_free by (rule refl)+

lemma other_model_gather [model_free]:
  "gather_ic (other_model m c e) = gather_ic e" "consult (other_model m c e) = consult e"
  "record_confluence (other_model m c e) = record_confluence e"
  unfolding gather_ic_def consult_def record_confluence_def model_free by (rule refl)+

lemma other_model_intel [model_free]:
  "gather_market_intel (other_model m c e) = gather_market_intel e"
  unfolding gather_market_intel_def model_free by (rule refl)+

lemma other_model_context [model_free]:
  "gather_context (other_model m c e) = gather_context e"
  unfolding gather_context_def model_free by (rule refl)+

lemma other_model_decide [model_free]:
  "degraded (other_model m c e) = degraded e" "policy_decides (other_model m c e) = policy_decides e"
  "wants_critique (other_model m c e) = wants_critique e" "stamp_model (other_model m c e) = stamp_model e"
  "signal_summary (other_model m c e) = signal_summary e" "recall (other_model m c e) = recall e"
  unfolding degraded_def policy_decides_def wants_critique_def stamp_model_def signal_summary_def recall_def model_free by (rule refl)+

lemma other_model_store [model_free]:
  "rq_publish (other_model m c e) = rq_publish e" "budget_alert (other_model m c e) = budget_alert e"
  "mem_store_agent_run (other_model m c e) = mem_store_agent_run e"
  "persist_vector (other_model m c e) = persist_vector e" "log_summary (other_model m c e) = log_summary e"
  unfolding rq_publish_def budget_alert_def mem_store_agent_run_def persist_vector_def log_summary_def model_free by (rule refl)+

lemma other_model_persist [model_free]:
  "persist_run (other_model m c e) = persist_run e" "track_cost (other_model m c e) = track_cost e"
  unfolding persist_run_def track_cost_def model_free by (rule refl)+

lemma other_model_events [model_free]:
  "thought_event (other_model m c e) = thought_event e" "weight_of (other_model m c e) = weight_of e"
  "advisory_event (other_model m c e) = advisory_event e"
  unfolding thought_event_def weight_of_def advisory_event_def model_free by (rule refl)+

lemma other_model_push [model_free]:
  "push_to_redis p (other_model m c e) = push_to_redis p e"
  unfolding push_to_redis_def model_free by (rule refl)+

lemma other_model_notify [model_free]:
  "notify_decision (other_model m c e) = notify_decision e"
  unfolding notify_decision_def model_free by (rule refl)+

lemma other_model_record [model_free]:
  "record_decision_to_redis (other_model m c e) = record_decision_to_redis e"
  unfolding record_decision_to_redis_def model_free by (rule refl)+

lemma other_model_stages [model_free]:
  "store_reasoned (other_model m c e) = store_reasoned e" "publish_reasoned (other_model m c e) = publish_reasoned e"
  "trace_of (other_model m c e) = trace_of e"
  unfolding store_reasoned_def publish_reasoned_def trace_of_def model_free by (rule refl)+

lemma critique_needs_a_model: "wants_critique e fb d = Inr True \<Longrightarrow> rq_mode e \<noteq> ''policy'' \<and> \<not> fb"
  by (auto simp: wants_critique_def res_bind_def split: sum.splits)

lemma degraded_names_reason: "degraded e data context t reason s = (Inr (d, k, c, r), s') \<Longrightarrow> r = Some reason"
  by (auto simp: degraded_def bnd_def lift_res_def ret_def gets_def split: prod.splits sum.splits)

lemma no_model_decision:
  assumes "rq_mode e = ''policy'' \<or> rq_budget e \<le> used"
  shows "produce_decision (other_model m c e) data ctx sim t used = produce_decision e data ctx sim t used"
    and "produce_decision e data ctx sim t used s = (Inr (d, k, cost, r), s') \<Longrightarrow> rq_mode e = ''policy'' \<or> r \<noteq> None"
  using assms by (auto simp: produce_decision_def other_model_decide dest!: degraded_names_reason)

lemma no_model_critique:
  assumes "rq_mode e = ''policy'' \<or> rq_budget e \<le> used"
    and "produce_decision e data ctx sim t used s = (Inr (d, k, cost, r), s')"
    and "lift_res (wants_critique e (r \<noteq> None) d) s1 = (Inr critique, s2)"
  shows "\<not> critique"
  using no_model_decision(2) [OF assms(1,2)] critique_needs_a_model assms(3)
  by (cases critique) (fastforce simp: lift_res_def)+

lemma no_model_reasoning:
  assumes "rq_mode e = ''policy'' \<or> rq_budget e \<le> used"
  shows "reason_about (other_model m c e) data t used = reason_about e data t used"
  unfolding reason_about_def model_free no_model_decision(1) [OF assms]
  by (intro bnd_cong_result, clarify, intro bnd_cong_result, drule (1) no_model_critique [OF assms], simp)

section \<open>What a cycle touches\<close>

text \<open>\<open>same f\<close>: what \<open>f\<close> reads stays as it was\<close>
definition same :: "('s \<Rightarrow> 'v) \<Rightarrow> 's \<Rightarrow> 's \<Rightarrow> bool" where
  "same f s t \<longleftrightarrow> f t = f s"

interpretation same: frame "same f" for f :: "'s \<Rightarrow> 'v"
  by unfold_locales (auto simp: same_def)

lemmas same_rules = same.keeps_rules

text \<open>what is paid for and published, what is remembered of signals, what is heard as a decision\<close>
definition paid :: "reasoner \<Rightarrow> bus \<times> (string \<times> int) list \<times> (string \<times> pydict) list \<times> broker \<times> string option" where
  "paid s = (rz_bus s, rz_tokens s, rz_runs s, rz_broker s, rz_suspended s)"

definition noted :: "reasoner \<Rightarrow> (pyval \<times> string \<times> real) list \<times> string option" where
  "noted s = (rz_seen s, rz_suspended s)"

definition heard :: "reasoner \<Rightarrow> stream_state option \<times> broker" where
  "heard s = (bu_streams (rz_bus s) STREAM_DECISIONS, rz_broker s)"

lemma paid_heard: "paid t = paid s \<Longrightarrow> heard t = heard s"
  by (simp add: paid_def heard_def)

lemma paid_writes [simp]:
  "paid (s\<lparr>rz_last_at := x1\<rparr>) = paid s" "paid (s\<lparr>rz_seen := x2\<rparr>) = paid s" "paid (s\<lparr>rz_label := x3\<rparr>) = paid s"
  "paid (s\<lparr>rz_cycle_tools := x4\<rparr>) = paid s" "paid (s\<lparr>rz_tools := x5\<rparr>) = paid s"
  "paid (s\<lparr>rz_label := x3, rz_cycle_tools := x4\<rparr>) = paid s"
  by (simp_all add: paid_def)

lemma noted_writes [simp]:
  "noted (s\<lparr>rz_label := x3\<rparr>) = noted s" "noted (s\<lparr>rz_cycle_tools := x4\<rparr>) = noted s" "noted (s\<lparr>rz_tools := x5\<rparr>) = noted s"
  "noted (s\<lparr>rz_label := x3, rz_cycle_tools := x4\<rparr>) = noted s" "noted (s\<lparr>rz_bus := x6\<rparr>) = noted s"
  "noted (s\<lparr>rz_tokens := x7\<rparr>) = noted s" "noted (s\<lparr>rz_cost := x8\<rparr>) = noted s" "noted (s\<lparr>rz_lists := x9\<rparr>) = noted s"
  "noted (s\<lparr>rz_beats := x10\<rparr>) = noted s" "noted (s\<lparr>rz_vectors := x11\<rparr>) = noted s" "noted (s\<lparr>rz_logs := x12\<rparr>) = noted s"
  "noted (s\<lparr>rz_runs := x13, rz_cost_rows := x14\<rparr>) = noted s"
  by (simp_all add: noted_def)

lemma heard_writes [simp]:
  "heard (s\<lparr>rz_label := x3, rz_cycle_tools := x4\<rparr>) = heard s" "heard (s\<lparr>rz_tokens := x7\<rparr>) = heard s"
  "heard (s\<lparr>rz_cost := x8\<rparr>) = heard s" "heard (s\<lparr>rz_lists := x9\<rparr>) = heard s" "heard (s\<lparr>rz_beats := x10\<rparr>) = heard s"
  "heard (s\<lparr>rz_vectors := x11\<rparr>) = heard s" "heard (s\<lparr>rz_logs := x12\<rparr>) = heard s"
  "heard (s\<lparr>rz_runs := x13, rz_cost_rows := x14\<rparr>) = heard s"
  by (simp_all add: heard_def)

lemma store_writes [simp]: "noted (on_rz_store f s) = noted s" "heard (on_rz_store f s) = heard s"
  by (simp_all add: on_rz_store_def)

lemma record_tool_touches [simp]:
  "paid (record_tool e n l b d s) = paid s" "noted (record_tool e n l b d s) = noted s"
  by (simp_all add: record_tool_def Let_def paid_def noted_def)

lemma publish_touches [simp]: "noted (rq_publish e stream ev s) = noted s"
  by (simp add: rq_publish_def)

lemma publish_elsewhere [simp]: "stream \<noteq> STREAM_DECISIONS \<Longrightarrow> heard (rq_publish e stream ev s) = heard s"
  by (simp add: rq_publish_def heard_def publish_def xadd_def Let_def)

lemma other_streams [simp]: "STREAM_AGENT_LOGS \<noteq> STREAM_DECISIONS" "STREAM_SYSTEM_METRICS \<noteq> STREAM_DECISIONS"
  "STREAM_RISK_ALERTS \<noteq> STREAM_DECISIONS"
  by (simp_all add: STREAM_AGENT_LOGS_def STREAM_SYSTEM_METRICS_def STREAM_RISK_ALERTS_def STREAM_DECISIONS_def)

lemma gather_ic_touches: "gather_ic e s = (c, t) \<Longrightarrow> paid t = paid s \<and> noted t = noted s"
  by (auto simp: gather_ic_def Let_def split: prod.splits)

lemma consult_touches: "consult e symbol p (c, s) = (c', t) \<Longrightarrow> paid t = paid s \<and> noted t = noted s"
  by (auto simp: consult_def Let_def split: prod.splits if_splits)

lemma market_intel_touches: "gather_market_intel e symbol (c, s) = (c', t) \<Longrightarrow> paid t = paid s \<and> noted t = noted s"
proof -
  have "fold (consult e y) ps (c, s) = (c', t) \<Longrightarrow> paid t = paid s \<and> noted t = noted s" for y ps c s
  proof (induction ps arbitrary: c s)
    case (Cons p ps)
    obtain c1 s1 where "consult e y p (c, s) = (c1, s1)" by (metis surj_pair)
    then show ?case using Cons consult_touches by fastforce
  qed simp
  then show "gather_market_intel e symbol (c, s) = (c', t) \<Longrightarrow> paid t = paid s \<and> noted t = noted s"
    by (auto simp: gather_market_intel_def split: if_splits)
qed

lemma confluence_touches: "keeps (same paid) (record_confluence e data)" "keeps (same noted) (record_confluence e data)"
  unfolding record_confluence_def by (intro same_rules; simp add: same_def)+

lemma consult_keeps_key: "snd p \<noteq> k \<Longrightarrow> consult e symbol p (c, s) = (c', t) \<Longrightarrow> py_get c' k = py_get c k"
  by (auto simp: consult_def Let_def split: prod.splits if_splits)

lemma market_intel_keeps_key:
  assumes "k \<notin> snd ` set INTEL_TOOLS" "gather_market_intel e symbol (c, s) = (c', t)"
  shows "py_get c' k = py_get c k"
proof -
  have "k \<notin> snd ` set ps \<Longrightarrow> fold (consult e y) ps (c, s) = (c', t) \<Longrightarrow> py_get c' k = py_get c k" for y ps c s
  proof (induction ps arbitrary: c s)
    case (Cons p ps)
    obtain c1 s1 where "consult e y p (c, s) = (c1, s1)" by (metis surj_pair)
    then show ?case using Cons consult_keeps_key [of p k e y c s] by fastforce
  qed simp
  then show ?thesis using assms by (auto simp: gather_market_intel_def split: if_splits)
qed

lemma gather_context_run:
  obtains c s1 where "paid s1 = paid s" "noted s1 = noted s"
    "py_get c ''open_position_qty'' = PFloat (open_long_qty e (py_get data ''symbol'') s)"
    "gather_context e data s = bnd (lift_res (risk_state_of data)) (\<lambda>risk.
       andthen (record_confluence e data) (ret (dset ''risk_state'' (PDict risk) c))) s1"
proof -
  let ?symbol = "py_get data ''symbol''"
  obtain c0 s0 where ic: "gather_ic e s = (c0, s0)" by (metis surj_pair)
  let ?c1 = "dset ''open_position_qty'' (PFloat (open_long_qty e ?symbol s0)) c0"
  obtain c2 s1 where intel: "gather_market_intel e ?symbol (?c1, s0) = (c2, s1)" by (metis surj_pair)
  define c3 where "c3 = (case rq_directive e of None \<Rightarrow> c2 | Some d \<Rightarrow> if d = [] then c2 else dset ''prompt_variant'' (PStr d) c2)"
  have t: "paid s1 = paid s" "noted s1 = noted s" "open_long_qty e ?symbol s0 = open_long_qty e ?symbol s"
    using gather_ic_touches [OF ic] market_intel_touches [OF intel] by (simp_all add: paid_def open_long_qty_def Let_def)
  have "py_get c2 ''open_position_qty'' = PFloat (open_long_qty e ?symbol s)"
    using market_intel_keeps_key [OF _ intel, of "''open_position_qty''"] t by (simp add: INTEL_TOOLS_def)
  then have "py_get c3 ''open_position_qty'' = PFloat (open_long_qty e ?symbol s)"
    by (auto simp: c3_def split: option.splits)
  moreover have "gather_context e data s = bnd (lift_res (risk_state_of data)) (\<lambda>risk.
       andthen (record_confluence e data) (ret (dset ''risk_state'' (PDict risk) c3))) s1"
    by (simp add: gather_context_def ic intel Let_def c3_def)
  ultimately show ?thesis using that t by blast
qed

lemma gather_context_touches: "keeps (same paid) (gather_context e data)" "keeps (same noted) (gather_context e data)"
proof -
  have tail: "keeps (same paid) (bnd (lift_res r) (\<lambda>risk. andthen (record_confluence e data) (ret (f risk))))"
    "keeps (same noted) (bnd (lift_res r) (\<lambda>risk. andthen (record_confluence e data) (ret (f risk))))" for r :: "pydict pyres" and f :: "pydict \<Rightarrow> pydict"
    by (intro same_rules confluence_touches)+
  have "paid (snd (gather_context e data s)) = paid s \<and> noted (snd (gather_context e data s)) = noted s" for s
  proof (rule gather_context_run [of s e data])
    fix c s1
    assume t: "paid s1 = paid s" "noted s1 = noted s"
      and run: "gather_context e data s = bnd (lift_res (risk_state_of data)) (\<lambda>risk.
         andthen (record_confluence e data) (ret (dset ''risk_state'' (PDict risk) c))) s1"
    show ?thesis unfolding run
      using keepsD [OF tail(1), of s1] keepsD [OF tail(2), of s1] t unfolding same_def by metis
  qed
  then show "keeps (same paid) (gather_context e data)" "keeps (same noted) (gather_context e data)"
    by (simp_all add: keeps_def same_def)
qed

lemma decision_touches:
  "keeps (same paid) (produce_decision e data ctx sim t used)" "keeps (same noted) (produce_decision e data ctx sim t used)"
  by (auto simp: produce_decision_def policy_decides_def model_decides_def degraded_def Let_def same_def
      split: sum.splits model_reply.splits intro!: same_rules)

lemma recall_touches: "keeps (same paid) (recall e v)" "keeps (same noted) (recall e v)"
  by (auto simp: recall_def Let_def same_def intro!: same_rules)

lemma reason_about_touches: "keeps (same paid) (reason_about e data t used)" "keeps (same noted) (reason_about e data t used)"
  unfolding reason_about_def Let_def
  by (intro same_rules gather_context_touches recall_touches decision_touches)+

lemma admit_touches: "keeps (same paid) (admit_signal e data)"
  by (auto simp: admit_signal_def rfault_def repeats_signal_def cooling_down_def remember_signal_def Let_def same_def
      intro!: same_rules)

lemma track_cost_touches: "keeps (same heard) (track_cost e k c)" "keeps (same noted) (track_cost e k c)"
  by (auto simp: track_cost_def rfault_def Let_def same_def intro!: same_rules)

lemma log_summary_touches [simp]:
  "heard (log_summary e t d r i s) = heard s" "noted (log_summary e t d r i s) = noted s"
  by (simp_all add: log_summary_def Let_def split: prod.splits)

lemma persist_vector_touches [simp]:
  "heard (persist_vector e c v d s) = heard s" "noted (persist_vector e c v d s) = noted s"
  by (simp_all add: persist_vector_def split: sum.splits)

lemma persist_run_touches: "keeps (same heard) (persist_run e data d t f k c)" "keeps (same noted) (persist_run e data d t f k c)"
  by (auto simp: persist_run_def rfault_def same_def intro!: same_rules)

lemma store_touches: "keeps (same heard) (store_reasoned e data t r)" "keeps (same noted) (store_reasoned e data t r)"
  unfolding store_reasoned_def
  by (auto simp: same_def intro!: same_rules persist_run_touches track_cost_touches)

lemma push_touches [simp]:
  "push_to_redis p e d s = (d', t) \<Longrightarrow> heard t = heard s" "push_to_redis p e d s = (d', t) \<Longrightarrow> noted t = noted s"
  by (auto simp: push_to_redis_def split: option.splits prod.splits)

lemma notify_touches [simp]:
  "heard (notify_decision e p d t a f s) = heard s" "noted (notify_decision e p d t a f s) = noted s"
  by (auto simp: notify_decision_def Let_def split: prod.splits dest: push_touches)

lemma record_decision_touches:
  "keeps (same heard) (record_decision_to_redis e data d t a f)" "keeps (same noted) (record_decision_to_redis e data d t a f)"
  by (auto simp: record_decision_to_redis_def Let_def same_def split: prod.splits dest: push_touches intro!: same_rules)

lemma publish_reasoned_touches: "keeps (same noted) (publish_reasoned e data t r)"
  unfolding publish_reasoned_def by (auto simp: same_def intro!: same_rules record_decision_touches)

lemma cycle_touches: "keeps (same noted) (reason_cycle e data t)"
  unfolding reason_cycle_def rfault_def
  by (auto simp: same_def intro!: same_rules reason_about_touches store_touches publish_reasoned_touches)

section \<open>Properties\<close>

text \<open>no execution tool, no disabled tool and none with a negative edge ever reaches the prompt\<close>
lemma reasoning_tools_are_eligible:
  "t \<in> set (select_reasoning_tools data context r) \<Longrightarrow>
     tl_phase t \<in> {PERCEPTION, MEMORY} \<and> tl_enabled t \<and> 0 \<le> tl_alpha t \<and> set (tl_flags t) \<subseteq> {''confluence_loaded''}"
  by (auto simp: select_reasoning_tools_def select_tools_spec eligible_def REASONING_TOOL_MIN_ALPHA_def
      reasoning_state_flags_def Let_def split: if_splits)

text \<open>C9: Whenever the deterministic policy decides, or the day's token budget is spent, the language model has no say: the
  whole call, every record, charge and event included, is the same whatever the model or its critic would have
  answered.\<close>
theorem offline_decision_ignores_the_model:
  assumes "rq_mode e = ''policy'' \<or> rq_budget e \<le> dget (rz_tokens s) (rq_today e) 0"
  shows "reasoning_process (other_model m c e) data s = reasoning_process e data s"
proof -
  obtain r t where admit: "admit_signal e data s = (r, t)" by (metis surj_pair)
  then have "rz_tokens t = rz_tokens s" using keepsD [OF admit_touches, of s e data] by (simp add: same_def paid_def)
  then have "reason_about (other_model m c e) data x (dget (rz_tokens t) (rq_today e) 0)
      = reason_about e data x (dget (rz_tokens t) (rq_today e) 0)" for x
    using assms by (intro no_model_reasoning) auto
  then have "reason_cycle (other_model m c e) data x t = reason_cycle e data x t" for x
    by (simp add: reason_cycle_def model_free rfault_def guard_fault_def andthen_def bnd_def gets_def)
  then show ?thesis using admit by (simp add: reasoning_process_def model_free bnd_def split: sum.splits)
qed

lemma remember_signal_run:
  assumes "remember_signal e data s = (Inr (), t)" "truthy (py_get data ''symbol'')"
  obtains fp where "hashable (py_get data ''symbol'')" "signal_fingerprint (rq_rp e) data = Inr fp"
    "rz_seen t = dset (py_get data ''symbol'') fp (rz_seen s)"
  using assms by (auto simp: remember_signal_def Let_def as_key_def elim!: bndE split: if_splits)

lemma admitted_is_noted:
  assumes "admit_signal e data s = (Inr True, t)" "truthy (py_get data ''symbol'')"
  obtains fp where "hashable (py_get data ''symbol'')" "signal_fingerprint (rq_rp e) data = Inr fp"
    "map_of (rz_seen t) (py_get data ''symbol'') = Some fp"
proof -
  from assms(1) obtain u where "remember_signal e data u = (Inr (), t)"
    by (auto simp: admit_signal_def andthen_def ret_def elim!: bndE split: if_splits)
  then show ?thesis using remember_signal_run [OF _ assms(2)] that by (metis map_of_dset)
qed

lemma repeated_signal_is_skipped:
  assumes "map_of (rz_seen s) (py_get data ''symbol'') = Some fp" "signal_fingerprint (rq_rp e) data = Inr fp"
    and "hashable (py_get data ''symbol'')" "truthy (py_get data ''symbol'')" "0 < snd fp" "0 < rq_dedup_pct e"
    and "\<not> rq_fails e RC_suspended"
  shows "reasoning_process e data s = (Inr (), s)"
proof -
  obtain side price where fp: "fp = (side, price)" by (metis surj_pair)
  have "is_duplicate_signal (rq_rp e) (Some fp) data (rq_dedup_pct e) = Inr True"
    using assms(2,5,6) fp by (simp add: is_duplicate_signal_def)
  then have "repeats_signal e data s = (Inr True, s)"
    using assms by (simp add: repeats_signal_def as_key_def Let_def)
  then show ?thesis using assms(7) by (simp add: reasoning_process_def admit_signal_def rfault_def bnd_def gets_def ret_def)
qed


lemma gathered_context:
  assumes "gather_context e data s = (Inr ctx, s')"
  obtains c risk where "py_get c ''open_position_qty'' = PFloat (open_long_qty e (py_get data ''symbol'') s)"
    "risk_state_of data = Inr risk" "ctx = dset ''risk_state'' (PDict risk) c"
proof (rule gather_context_run [of s e data])
  fix c s1
  assume "py_get c ''open_position_qty'' = PFloat (open_long_qty e (py_get data ''symbol'') s)"
    and "gather_context e data s = bnd (lift_res (risk_state_of data)) (\<lambda>risk.
         andthen (record_confluence e data) (ret (dset ''risk_state'' (PDict risk) c))) s1"
  moreover from this have "bnd (lift_res (risk_state_of data)) (\<lambda>risk.
         andthen (record_confluence e data) (ret (dset ''risk_state'' (PDict risk) c))) s1 = (Inr ctx, s')" using assms by simp
  ultimately show thesis using that by (auto simp: andthen_def ret_def lift_res_def elim!: bndE)
qed

lemma context_facts:
  assumes "gather_context e data s = (Inr ctx, s')"
  shows "drawdown_of ctx = Inr 0"
    and "float_field ctx ''open_position_qty'' 0 = Inr (open_long_qty e (py_get data ''symbol'') s)"
proof -
  obtain c risk where c: "py_get c ''open_position_qty'' = PFloat (open_long_qty e (py_get data ''symbol'') s)"
    "risk_state_of data = Inr risk" "ctx = dset ''risk_state'' (PDict risk) c"
    using gathered_context [OF assms] by metis
  then have "py_get risk ''drawdown'' = PNone" by (auto simp: risk_state_of_def res_bind_def split: sum.splits)
  then show "drawdown_of ctx = Inr 0" using c(3) by (simp add: drawdown_of_def float_field_def py_simps)
  show "float_field ctx ''open_position_qty'' 0 = Inr (open_long_qty e (py_get data ''symbol'') s)"
    using c(1,3) by (simp add: float_field_def py_simps)
qed

lemma hierarchy_outcomes:
  assumes "apply_risk_hierarchy rp d ctx = Inr d'" "list_of (py_get d ''risk_factors'') = Inr fs" "drawdown_of ctx = Inr 0"
  shows "d' \<in> {hold_unmatched_sell fs d, hold_low_consensus fs d, d} \<or> (\<exists>conf. d' = hold_misaligned fs conf d)"
  using assms by (auto simp: apply_risk_hierarchy_def res_bind_def Let_def split: sum.splits if_splits)

text \<open>C30: The drawdown stop of the risk hierarchy never fires: the context the agent gathers for it carries no drawdown, so
  the hierarchy reads zero and a decision is never held for the account's drawdown, however deep that is.\<close>
theorem drawdown_stop_cannot_fire:
  assumes "gather_context e data s = (Inr ctx, s')" "apply_risk_hierarchy (rq_rp e) d ctx = Inr d'"
    and "list_of (py_get d ''risk_factors'') = Inr fs" "PStr ''MAX_DRAWDOWN_EXCEEDED'' \<notin> set fs"
    and "list_of (py_get d' ''risk_factors'') = Inr fs'"
  shows "drawdown_of ctx = Inr 0 \<and> PStr ''MAX_DRAWDOWN_EXCEEDED'' \<notin> set fs'"
proof
  show zero: "drawdown_of ctx = Inr 0" by (rule context_facts [OF assms(1)])
  have factors: "list_of (PList l) = Inr l" for l by (cases l) (simp_all add: list_of_def py_simps)
  from hierarchy_outcomes [OF assms(2,3) zero] show "PStr ''MAX_DRAWDOWN_EXCEEDED'' \<notin> set fs'"
    using assms(3-5) by (auto simp: hold_unmatched_sell_def hold_low_consensus_def hold_misaligned_def factors add_factor_def
        split: if_splits)
qed

section \<open>Replies without a latency\<close>

text \<open>what \<open>_call_llm\<close> makes of a reply\<close>
definition reply_decision :: "reason_env \<Rightarrow> model_reply \<Rightarrow> pydict option" where
  "reply_decision e r = (case r of Replied_dict d \<Rightarrow> Some d | Replied raw \<Rightarrow> Some (parse_reply (be_loads (rq_bus e)) raw) | _ \<Rightarrow> None)"

definition lacks :: "string \<Rightarrow> pydict \<Rightarrow> bool" where
  "lacks k d \<longleftrightarrow> map_of d k = None"

lemma lacks_dset [simp]: "lacks k (dset k' v d) \<longleftrightarrow> k \<noteq> k' \<and> lacks k d"
  by (simp add: lacks_def)

lemma require_lacking: "lacks k d \<Longrightarrow> k \<in> set ks \<Longrightarrow> \<exists>k'. require_keys ks d = Inl (KeyError k')"
  by (induction ks) (auto simp: lacks_def split: option.splits)

lemma latency_required: "''latency_ms'' \<in> set RUN_KEYS"
  by (simp add: RUN_KEYS_def)

lemma hierarchy_lacks: "apply_risk_hierarchy rp d ctx = Inr d' \<Longrightarrow> lacks ''latency_ms'' d \<Longrightarrow> lacks ''latency_ms'' d'"
  by (auto simp: apply_risk_hierarchy_def res_bind_def Let_def hold_unmatched_sell_def hold_drawdown_def hold_misaligned_def
      hold_low_consensus_def split: sum.splits if_splits)

lemma stamp_lacks: "lacks ''latency_ms'' (stamp_model e f l d) \<longleftrightarrow> lacks ''latency_ms'' d"
  by (simp add: stamp_model_def)

lemma critique_lacks: "self_critique e d ctx = (d', k, c) \<Longrightarrow> lacks ''latency_ms'' d \<Longrightarrow> lacks ''latency_ms'' d'"
  by (auto simp: self_critique_def apply_critique_def res_bind_def Let_def dmerge_def
      split: model_reply.splits sum.splits option.splits pyval.splits if_splits)

lemma model_decision:
  assumes "produce_decision e data ctx sim t used s = (Inr (d, k, c, r), s')" "rq_mode e \<noteq> ''policy''" "used < rq_budget e"
    and "float_field data ''composite_score'' 0 = Inr x"
    and "reply_decision e (mr_reply (rq_model e data (model_context sim ctx) sim)) = Some d0"
  shows "d = d0"
  using assms by (auto simp: produce_decision_def model_decides_def reply_decision_def Let_def andthen_def ret_def
      elim!: bndE split: model_reply.splits)

definition silent_on :: "string \<Rightarrow> reason_env \<Rightarrow> pydict \<Rightarrow> bool" where
  "silent_on k e data \<longleftrightarrow> (\<forall>ctx sim. \<exists>d. reply_decision e (mr_reply (rq_model e data ctx sim)) = Some d \<and> lacks k d)"

lemma reasoning_lacks:
  assumes "reason_about e data t used s = (Inr r, s')" "rq_mode e \<noteq> ''policy''" "used < rq_budget e"
    and "float_field data ''composite_score'' 0 = Inr x" "silent_on ''latency_ms'' e data"
  shows "lacks ''latency_ms'' (re_summary r)"
  using assms(1) unfolding reason_about_def
proof (elim bndE, clarify, elim bndE)
  fix ctx emb sim d k c w sd se sf critique
  assume pd: "produce_decision e data ctx sim t used sd = (Inr (d, k, c, w), se)"
    and rest: "(let (summary, extra_tokens, extra_cost) =
             (if critique then self_critique e d (model_context sim ctx) else (d, 0, 0))
           in bnd (lift_res (apply_risk_hierarchy (rq_rp e) summary ctx)) (\<lambda>safe. bnd (gets rz_label) (\<lambda>label.
              ret \<lparr>re_summary = stamp_model e (w \<noteq> None) label safe, re_context = ctx, re_tokens = k + extra_tokens,
                re_cost = c + extra_cost, re_reason = w, re_text = signal_summary e data, re_embedding = emb\<rparr>))) sf = (Inr r, s')"
  have d: "lacks ''latency_ms'' d"
    using model_decision [OF pd assms(2-4)] assms(5) unfolding silent_on_def by metis
  obtain d1 k1 c1 where p: "(if critique then self_critique e d (model_context sim ctx) else (d, 0, 0)) = (d1, k1, c1)" by (metis surj_pair)
  then have d1: "lacks ''latency_ms'' d1" using d critique_lacks by (auto split: if_splits)
  from rest obtain safe label where "apply_risk_hierarchy (rq_rp e) d1 ctx = Inr safe"
      "re_summary r = stamp_model e (w \<noteq> None) label safe"
    unfolding p by (auto simp: lift_res_def ret_def elim!: bndE)
  then show ?thesis using hierarchy_lacks [OF _ d1] by (simp add: stamp_lacks)
qed

text \<open>C28: With a database, a decision of the language model that carries no latency, as every reply to the output contract
  of the prompt does and every reply that is no JSON object, is lost: the run fails on the missing key before
  anything is recorded, so nothing is published, no run stored and no token charged.\<close>
theorem reply_without_latency_is_lost:
  assumes "rq_db e" "rq_mode e \<noteq> ''policy''" "dget (rz_tokens s) (rq_today e) 0 < rq_budget e"
    and "float_field data ''composite_score'' 0 = Inr x" "silent_on ''latency_ms'' e data"
  shows "rz_bus (snd (reasoning_process e data s)) = rz_bus s
    \<and> rz_runs (snd (reasoning_process e data s)) = rz_runs s
    \<and> rz_tokens (snd (reasoning_process e data s)) = rz_tokens s
    \<and> (fst (admit_signal e data s) = Inr True \<longrightarrow> (\<exists>x. fst (reasoning_process e data s) = Inl x))"
proof -
  obtain a t where admit: "admit_signal e data s = (a, t)" by (metis surj_pair)
  then have t: "paid t = paid s" using keepsD [OF admit_touches, of s e data] by (simp add: same_def)
  have cycle: "paid (snd (reason_cycle e data y t)) = paid s \<and> (\<exists>x. fst (reason_cycle e data y t) = Inl x)" for y
  proof (cases "rq_fails e RC_tokens_get")
    case True
    then show ?thesis using t by (simp add: reason_cycle_def rfault_def andthen_def)
  next
    case False
    let ?t = "t\<lparr>rz_label := None, rz_cycle_tools := []\<rparr>" and ?u = "dget (rz_tokens t) (rq_today e) 0"
    obtain r u where about: "reason_about e data y ?u ?t = (r, u)" by (metis surj_pair)
    have u: "paid u = paid s" using keepsD [OF reason_about_touches(1), of ?t e data y ?u] about t by (simp add: same_def)
    have budget: "?u < rq_budget e" using assms(3) t by (simp add: paid_def)
    have run: "reason_cycle e data y t = (case r of Inl x \<Rightarrow> (Inl x, u)
        | Inr v \<Rightarrow> andthen (store_reasoned e data y v) (publish_reasoned e data y v) u)"
      using False about by (simp add: reason_cycle_def rfault_def bnd_def)
    show ?thesis
    proof (cases r)
      case (Inr v)
      then have "lacks ''latency_ms'' (re_summary v)"
        using reasoning_lacks [OF _ assms(2) budget assms(4,5)] about by metis
      then obtain k where "require_keys RUN_KEYS (re_summary v) = Inl (KeyError k)"
        using require_lacking [of "''latency_ms''" _ RUN_KEYS] latency_required by blast
      then show ?thesis using Inr run u assms(1) by (simp add: store_reasoned_def persist_run_def andthen_def)
    qed (use run u in simp)
  qed
  have "paid (snd (reasoning_process e data s)) = paid s"
    using admit t cycle by (auto simp: reasoning_process_def bnd_def split: sum.splits)
  then show ?thesis using admit cycle by (auto simp: reasoning_process_def bnd_def paid_def)
qed

section \<open>The published decision\<close>

definition sound_advice :: "reason_env \<Rightarrow> pydict \<Rightarrow> reasoner \<Rightarrow> pydict \<Rightarrow> bool" where
  "sound_advice e data s ev \<longleftrightarrow>
     (\<exists>x. py_get ev ''size_pct'' = PFloat x \<and> x \<le> MAX_RISK_PER_TRADE_PCT)
   \<and> (\<exists>x. py_get ev ''rr_ratio'' = PFloat x \<and> MIN_RR_RATIO \<le> x)
   \<and> (py_get ev ''action'' = PStr ''sell'' \<longrightarrow> 0 < open_long_qty e (py_get data ''symbol'') s)"

lemma open_long_of_broker: "rz_broker t = rz_broker s \<Longrightarrow> open_long_qty e symbol t = open_long_qty e symbol s"
  by (simp add: open_long_qty_def)

lemma hierarchy_sales:
  assumes "apply_risk_hierarchy rp d ctx = Inr d'" "action_of rp d' = ''sell''" "float_field ctx ''open_position_qty'' 0 = Inr q"
  shows "0 < q"
  using assms by (auto simp: apply_risk_hierarchy_def res_bind_def Let_def action_of_def hold_unmatched_sell_def
      hold_drawdown_def hold_misaligned_def hold_low_consensus_def split: sum.splits if_splits)

lemma sale_has_a_long:
  assumes "reason_about e data t used s = (Inr r, s')" "final_action (re_summary r) = Inr ''sell''"
  shows "0 < open_long_qty e (py_get data ''symbol'') s"
  using assms(1) unfolding reason_about_def
proof (elim bndE, clarify, elim bndE)
  fix ctx emb sim d k c w sa sf critique
  assume ctx: "gather_context e data s = (Inr ctx, sa)"
    and rest: "(let (summary, extra_tokens, extra_cost) =
             (if critique then self_critique e d (model_context sim ctx) else (d, 0, 0))
           in bnd (lift_res (apply_risk_hierarchy (rq_rp e) summary ctx)) (\<lambda>safe. bnd (gets rz_label) (\<lambda>label.
              ret \<lparr>re_summary = stamp_model e (w \<noteq> None) label safe, re_context = ctx, re_tokens = k + extra_tokens,
                re_cost = c + extra_cost, re_reason = w, re_text = signal_summary e data, re_embedding = emb\<rparr>))) sf = (Inr r, s')"
  obtain d1 k1 c1 where p: "(if critique then self_critique e d (model_context sim ctx) else (d, 0, 0)) = (d1, k1, c1)" by (metis surj_pair)
  from rest obtain safe label where safe: "apply_risk_hierarchy (rq_rp e) d1 ctx = Inr safe"
      "re_summary r = stamp_model e (w \<noteq> None) label safe"
    unfolding p by (auto simp: lift_res_def ret_def elim!: bndE)
  have "action_of (rq_rp e) safe = ''sell''"
    using assms(2) safe(2) by (auto simp: final_action_def stamp_model_def action_of_def dget_def py_str_def py_lower_def split: option.splits pyval.splits)
  then show ?thesis using hierarchy_sales [OF safe(1) _ context_facts(2) [OF ctx]] by simp
qed

lemma advisory_fields:
  assumes "advisory_event e data ctx summary t act cost scale = Inr ev"
  shows "py_get ev ''action'' = PStr act"
    and "\<exists>x. py_get ev ''size_pct'' = PFloat x \<and> x \<le> MAX_RISK_PER_TRADE_PCT"
    and "\<exists>x. py_get ev ''rr_ratio'' = PFloat x \<and> MIN_RR_RATIO \<le> x"
  using assms by (auto simp: advisory_event_def res_bind_def Let_def py_get_def dget_def split: sum.splits elim: kelly_capped)

lemma publish_reasoned_outcome:
  obtains (none) "heard (snd (publish_reasoned e data t r s)) = heard s"
  | (advice) act scale ev b where "final_action (re_summary r) = Inr act"
      "advisory_event e data (re_context r) (re_summary r) t act (re_cost r) scale = Inr ev"
      "heard b = heard s" "heard (snd (publish_reasoned e data t r s)) = heard (rq_publish e STREAM_DECISIONS ev b)"
proof (cases "thought_event e (re_summary r)")
  case (Inr thought)
  let ?b = "rq_publish e STREAM_AGENT_LOGS thought s"
  show ?thesis
  proof (cases "final_action (re_summary r)")
    case act: (Inr act)
    show ?thesis
    proof (cases "advisory_event e data (re_context r) (re_summary r) t act (re_cost r) (weight_of e ?b)")
      case (Inr ev)
      have "heard (snd (publish_reasoned e data t r s)) = heard (rq_publish e STREAM_DECISIONS ev ?b)"
        using \<open>thought_event e (re_summary r) = Inr thought\<close> act Inr
          keepsD [OF record_decision_touches(1), of "rq_publish e STREAM_DECISIONS ev ?b" e data "re_summary r" t act "re_reason r \<noteq> None"]
        by (simp add: publish_reasoned_def same_def)
      then show ?thesis using advice [OF act Inr, of ?b] by simp
    qed (use Inr act none in \<open>simp add: publish_reasoned_def\<close>)
  qed (use Inr none in \<open>simp add: publish_reasoned_def\<close>)
qed (use none in \<open>simp add: publish_reasoned_def\<close>)

lemma cycle_outcome:
  "heard (snd (reason_cycle e data t s)) = heard s \<or>
   (\<exists>ev b. heard b = heard s \<and> heard (snd (reason_cycle e data t s)) = heard (rq_publish e STREAM_DECISIONS ev b) \<and> sound_advice e data s ev)"
proof (cases "rq_fails e RC_tokens_get")
  case True
  then show ?thesis by (simp add: reason_cycle_def rfault_def andthen_def)
next
  case False
  let ?t = "s\<lparr>rz_label := None, rz_cycle_tools := []\<rparr>" and ?u = "dget (rz_tokens s) (rq_today e) 0"
  obtain r u where about: "reason_about e data t ?u ?t = (r, u)" by (metis surj_pair)
  have u: "heard u = heard s"
    using keepsD [OF reason_about_touches(1), of ?t e data t ?u] about paid_heard [of u ?t] by (simp add: same_def)
  have run: "reason_cycle e data t s = (case r of Inl x \<Rightarrow> (Inl x, u)
      | Inr v \<Rightarrow> andthen (store_reasoned e data t v) (publish_reasoned e data t v) u)"
    using False about by (simp add: reason_cycle_def rfault_def bnd_def)
  show ?thesis
  proof (cases r)
    case (Inr v)
    obtain q w where st: "store_reasoned e data t v u = (q, w)" by (metis surj_pair)
    have w: "heard w = heard s" using keepsD [OF store_touches(1), of u e data t v] st u by (simp add: same_def)
    show ?thesis
    proof (cases q)
      case q: (Inr z)
      then have run: "snd (reason_cycle e data t s) = snd (publish_reasoned e data t v w)"
        using run Inr st by (simp add: andthen_def bnd_def)
      show ?thesis
      proof (cases rule: publish_reasoned_outcome [of e data t v w])
        case (advice act scale ev b)
        have "0 < open_long_qty e (py_get data ''symbol'') s" if "act = ''sell''"
          using sale_has_a_long [of e data t ?u ?t v u] about Inr advice(1) that open_long_of_broker [of ?t s] by simp
        then have "sound_advice e data s ev" using advisory_fields [OF advice(2)] by (auto simp: sound_advice_def)
        then show ?thesis using advice(3,4) run w by metis
      qed (use run w in simp)
    qed (use run Inr st w in \<open>simp add: andthen_def bnd_def\<close>)
  qed (use run u in simp)
qed

text \<open>C3: One signal yields at most one event on \<open>decisions\<close>, and that event is sound: its size stays within the risk
  cap of one and a half per cent, its reward ratio is at least two, and it says to sell only while the broker holds
  a long position in the symbol.\<close>
theorem signal_yields_at_most_one_sound_decision:
  "bu_streams (rz_bus (snd (reasoning_process e data s))) STREAM_DECISIONS = bu_streams (rz_bus s) STREAM_DECISIONS \<or>
   (\<exists>ev b. bu_streams b STREAM_DECISIONS = bu_streams (rz_bus s) STREAM_DECISIONS
      \<and> bu_streams (rz_bus (snd (reasoning_process e data s))) STREAM_DECISIONS
          = bu_streams (snd (publish (rq_bus e) STREAM_DECISIONS ev None b)) STREAM_DECISIONS
      \<and> sound_advice e data s ev)"
proof -
  obtain a t where admit: "admit_signal e data s = (a, t)" by (metis surj_pair)
  then have t: "heard t = heard s" "rz_broker t = rz_broker s"
    using keepsD [OF admit_touches, of s e data] paid_heard by (auto simp: same_def paid_def heard_def)
  have sound: "sound_advice e data t ev = sound_advice e data s ev" for ev
    using open_long_of_broker [OF t(2)] by (simp add: sound_advice_def)
  show ?thesis
  proof (cases "a = Inr True")
    case True
    then have "snd (reasoning_process e data s) = snd (reason_cycle e data (trace_of e data) t)"
      using admit by (simp add: reasoning_process_def bnd_def)
    then show ?thesis using cycle_outcome [of e data "trace_of e data" t] t(1) sound
      by (fastforce simp: heard_def rq_publish_def)
  next
    case False
    then have "snd (reasoning_process e data s) = t" using admit by (auto simp: reasoning_process_def bnd_def split: sum.splits)
    then show ?thesis using t(1) by (simp add: heard_def)
  qed
qed

section \<open>A concrete agent\<close>

definition reason_env0 :: reason_env where
  "reason_env0 = \<lparr>rq_bus = bus_env0,
     rq_beat = \<lparr>hv_now = 1000, hv_iso = ''t0'', hv_db_up = False, hv_redis_fails = False, hv_db_fails = False\<rparr>,
     rq_redis = None, rq_today = ''d'', rq_mono = 50, rq_uuid = (\<lambda>n. ''u'' @ nat_str n), rq_row_id = ''row'', rq_dedup_pct = 1 / 10,
     rq_cooldown = 30, rq_critique = True, rq_mode = ''llm'', rq_fallback_mode = ''reject_signal'', rq_budget = 1000,
     rq_trust_enabled = False, rq_params = DEFAULT_POLICY_PARAMS,
     rq_texts = \<lparr>pt_rationale = (\<lambda>_. ''why''), pt_factor = (\<lambda>_. ''factor'')\<rparr>, rq_exc_text = (\<lambda>_. ''error''),
     rq_money = (\<lambda>_. ''m''), rq_percent = (\<lambda>_. ''p''), rq_summary_text = (\<lambda>_. ''summary''), rq_embed = (\<lambda>_. Inr [1]),
     rq_db_similar = (\<lambda>_. []), rq_intel = (\<lambda>_ _. None), rq_latency = (\<lambda>_. 0), rq_directive = None, rq_default_model = ''groq'',
     rq_model = (\<lambda>_ _ _. \<lparr>mr_reply = Replied_dict [(''action'', PStr ''buy''), (''confidence'', PFloat (1 / 2)), (''primary_edge'', PStr ''edge''),
        (''risk_factors'', PList []), (''size_pct'', PFloat (1 / 100)), (''stop_atr_x'', PFloat (3 / 2)), (''rr_ratio'', PFloat 3)],
        mr_tokens = 200, mr_cost = 1, mr_label = Some ''groq''\<rparr>),
     rq_critic = (\<lambda>_ _. \<lparr>mr_reply = Timed_out, mr_tokens = 0, mr_cost = 0, mr_label = None\<rparr>),
     rq_fails = (\<lambda>_. False), rq_reflection_fails = False\<rparr>"

definition reasoner0 :: reasoner where
  "reasoner0 = \<lparr>rz_bus = empty_bus, rz_beats = \<lparr>hb_store = empty_store, hb_redis = [], hb_rows = [], hb_instances = []\<rparr>,
     rz_broker = empty_broker, rz_lists = empty_lists, rz_tools = [], rz_suspended = None, rz_tokens = [], rz_cost = [],
     rz_ic = None, rz_scale = None, rz_trust = None, rz_last_at = [], rz_seen = [], rz_label = None, rz_cycle_tools = [],
     rz_runs = [], rz_cost_rows = [], rz_vectors = [], rz_logs = []\<rparr>"

definition signal0 :: pydict where
  "signal0 = [(''symbol'', PStr ''AAPL''), (''price'', PFloat 100), (''action'', PStr ''buy''), (''composite_score'', PFloat (4 / 5)),
     (''pct'', PFloat 2), (''trace_id'', PStr ''t'')]"

definition other_reply :: model_result where
  "other_reply = \<lparr>mr_reply = Replied ''sell everything'', mr_tokens = 9, mr_cost = 9, mr_label = None\<rparr>"

theorem offline_decision_ignores_the_model_witness:
  "reasoning_process (other_model (\<lambda>_ _ _. other_reply) (\<lambda>_ _. other_reply) (reason_env0\<lparr>rq_mode := ''policy''\<rparr>)) signal0 reasoner0
     = reasoning_process (reason_env0\<lparr>rq_mode := ''policy''\<rparr>) signal0 reasoner0
   \<and> reasoning_process (other_model (\<lambda>_ _ _. other_reply) (\<lambda>_ _. other_reply) reason_env0) signal0 (reasoner0\<lparr>rz_tokens := [(''d'', 1000)]\<rparr>)
     = reasoning_process reason_env0 signal0 (reasoner0\<lparr>rz_tokens := [(''d'', 1000)]\<rparr>)"
  using offline_decision_ignores_the_model [of "reason_env0\<lparr>rq_mode := ''policy''\<rparr>" reasoner0]
    offline_decision_ignores_the_model [of reason_env0 "reasoner0\<lparr>rz_tokens := [(''d'', 1000)]\<rparr>"]
  by (simp add: reason_env0_def)

text \<open>the token counter cannot be read, so the first delivery fails\<close>
definition outage :: reason_env where
  "outage = reason_env0\<lparr>rq_fails := (\<lambda>c. c = RC_tokens_get)\<rparr>"


theorem drawdown_stop_cannot_fire_witness:
  "\<exists>ctx s'. gather_context reason_env0 signal0 reasoner0 = (Inr ctx, s')
     \<and> apply_risk_hierarchy (rq_rp reason_env0) [(''action'', PStr ''buy'')] ctx = Inr [(''action'', PStr ''buy'')]
     \<and> drawdown_of ctx = Inr 0"
proof -
  define ctx where "ctx = [(''open_position_qty'', PFloat 0), (''risk_state'', PDict [(''composite_score'', PFloat (4 / 5)),
     (''momentum_pct'', PFloat 2), (''signal_strength'', PStr ''NORMAL''), (''signal_type'', PStr ''UNKNOWN'')])]"
  have "fst (gather_context reason_env0 signal0 reasoner0) = Inr ctx" unfolding ctx_def by code_simp
  then obtain s' where g: "gather_context reason_env0 signal0 reasoner0 = (Inr ctx, s')" by (metis fst_conv surj_pair)
  have h: "apply_risk_hierarchy (rq_rp reason_env0) [(''action'', PStr ''buy'')] ctx = Inr [(''action'', PStr ''buy'')]"
    unfolding ctx_def by code_simp
  from drawdown_stop_cannot_fire [OF g h, of "[]" "[]"] g h show ?thesis by (auto simp: list_of_def py_simps)
qed

text \<open>the model answers to the contract and the database is up\<close>
theorem reply_without_latency_is_lost_witness:
  "fst (reasoning_process (reason_env0\<lparr>rq_beat := (rq_beat reason_env0)\<lparr>hv_db_up := True\<rparr>\<rparr>) signal0 reasoner0)
     = Inl (KeyError ''latency_ms'')
   \<and> rz_bus (snd (reasoning_process (reason_env0\<lparr>rq_beat := (rq_beat reason_env0)\<lparr>hv_db_up := True\<rparr>\<rparr>) signal0 reasoner0)) = empty_bus"
proof -
  let ?e = "reason_env0\<lparr>rq_beat := (rq_beat reason_env0)\<lparr>hv_db_up := True\<rparr>\<rparr>"
  have "fst (reasoning_process ?e signal0 reasoner0) = Inl (KeyError ''latency_ms'')" by code_simp
  moreover have "silent_on ''latency_ms'' ?e signal0" by (simp add: silent_on_def reason_env0_def reply_decision_def lacks_def)
  moreover have "float_field signal0 ''composite_score'' 0 = Inr (4 / 5)" by (simp add: signal0_def float_field_def py_simps)
  moreover have "rq_db ?e" "rq_mode ?e \<noteq> ''policy''" "dget (rz_tokens reasoner0) (rq_today ?e) 0 < rq_budget ?e"
    by (simp_all add: reason_env0_def reasoner0_def dget_def)
  moreover have "rz_bus reasoner0 = empty_bus" by (simp add: reasoner0_def)
  ultimately show ?thesis using reply_without_latency_is_lost [of ?e reasoner0 signal0 "4 / 5"] by metis
qed

end
