(* ===== verification/Param_Evolution.thy ===== *)
theory Param_Evolution
  imports Effects "HOL-Library.Multiset" "HOL-Library.List_Lexorder" "HOL-Library.Char_ord"
begin

text \<open>
  The data side of the learning loop's parameter changes: which constants may be tuned and within which bounds
  (\<open>api/services/param_evolution.py\<close>), the overrides file that is read at start-up and edited by a pull request
  (\<open>api/services/param_overrides.py\<close>), and the daily quota and deduplication of proposals
  (\<open>api/services/agents/proposal_guardrails.py\<close>). JSON, the SHA-256 digest and the file's content are parameters.
\<close>

section \<open>Bounds\<close>

definition PARAM_BOUNDS :: "(string \<times> real \<times> real) list" where
  "PARAM_BOUNDS = [(''SIGNAL_CONFIDENCE_MIN_GATE'', 30 / 100, 80 / 100), (''EXECUTION_DECISION_THRESHOLD'', 40 / 100, 80 / 100),
     (''EXECUTION_DECISION_THRESHOLD_MEMORY'', 30 / 100, 80 / 100), (''STOP_LOSS_PCT'', 1 / 100, 15 / 100),
     (''TAKE_PROFIT_PCT'', 2 / 100, 40 / 100), (''MAX_RISK_PER_TRADE_PCT'', 5 / 1000, 5 / 100),
     (''KELLY_FRACTION_SCALE'', 5 / 100, 50 / 100), (''TRAILING_STOP_ARM_PCT'', 5 / 1000, 8 / 100),
     (''TRAILING_STOP_GIVEBACK_FRAC'', 10 / 100, 80 / 100), (''STALE_POSITION_MAX_AGE_SECONDS'', 1800, 259200),
     (''STALE_POSITION_PNL_BAND_PCT'', 0, 5 / 100), (''LLM_CALL_DELAY_MS'', 0, 2000)]"

definition HYPOTHESIS_PARAM_MAP :: "(string \<times> string) list" where
  "HYPOTHESIS_PARAM_MAP = [(''signal_confidence'', ''SIGNAL_CONFIDENCE_MIN_GATE''), (''confidence'', ''SIGNAL_CONFIDENCE_MIN_GATE''),
     (''confidence_gate'', ''SIGNAL_CONFIDENCE_MIN_GATE''), (''low_confidence'', ''SIGNAL_CONFIDENCE_MIN_GATE''),
     (''signal_confidence_too_low'', ''SIGNAL_CONFIDENCE_MIN_GATE''), (''execution_threshold'', ''EXECUTION_DECISION_THRESHOLD''),
     (''execution_decision_threshold'', ''EXECUTION_DECISION_THRESHOLD''), (''decision_threshold'', ''EXECUTION_DECISION_THRESHOLD''),
     (''execution_threshold_too_low'', ''EXECUTION_DECISION_THRESHOLD''), (''decision_threshold_too_low'', ''EXECUTION_DECISION_THRESHOLD''),
     (''stop_loss'', ''STOP_LOSS_PCT''), (''take_profit'', ''TAKE_PROFIT_PCT''), (''risk_per_trade'', ''MAX_RISK_PER_TRADE_PCT''),
     (''position_size'', ''MAX_RISK_PER_TRADE_PCT''), (''position_sizing'', ''MAX_RISK_PER_TRADE_PCT''),
     (''kelly'', ''KELLY_FRACTION_SCALE''), (''trailing_stop'', ''TRAILING_STOP_ARM_PCT'')]"

definition parameter_for_hypothesis :: "string option \<Rightarrow> string option" where
  "parameter_for_hypothesis h = (case h of None \<Rightarrow> None
     | Some t \<Rightarrow> if t = [] then None else map_of HYPOTHESIS_PARAM_MAP (py_lower (py_strip t)))"

definition is_upper :: "char \<Rightarrow> bool" where
  "is_upper c = (let n = of_char c :: nat in 65 \<le> n \<and> n \<le> 90)"

text \<open>\<open>^[A-Z][A-Z0-9_]*$\<close>; the dollar also matches before a final newline\<close>
definition name_matches :: "string \<Rightarrow> bool" where
  "name_matches s = (let t = (if s \<noteq> [] \<and> last s = CHR 0x0A then butlast s else s)
     in t \<noteq> [] \<and> is_upper (hd t) \<and> list_all (\<lambda>c. is_upper c \<or> is_digit c \<or> c = CHR ''_'') (tl t))"

datatype param_error = Invalid_name | Not_in_allowlist | Not_numeric | Outside_bounds | Not_an_object | Invalid_json | No_change

definition validate_param_change :: "string \<Rightarrow> pyval \<Rightarrow> param_error option" where
  "validate_param_change parameter proposed =
     (if parameter = [] \<or> \<not> name_matches parameter then Some Invalid_name
      else case map_of PARAM_BOUNDS parameter of
        None \<Rightarrow> Some Not_in_allowlist
      | Some (lo, hi) \<Rightarrow>
          (case proposed of
             PNone \<Rightarrow> Some Not_numeric
           | PBool _ \<Rightarrow> Some Not_numeric
           | v \<Rightarrow> (case py_float v of
               Inl _ \<Rightarrow> Some Not_numeric
             | Inr x \<Rightarrow> if \<not> (lo \<le> x \<and> x \<le> hi) then Some Outside_bounds else None)))"

text \<open>\<open>constants\<close>: the attributes of \<open>api.constants\<close>\<close>
definition tunable_parameters :: "(string \<Rightarrow> pyval option) \<Rightarrow> (string \<times> real \<times> real \<times> real) list" where
  "tunable_parameters constants = concat (map (\<lambda>(name, lo, hi). case constants name of
       Some (PInt i) \<Rightarrow> [(name, of_int i, lo, hi)] | Some (PFloat x) \<Rightarrow> [(name, x, lo, hi)] | _ \<Rightarrow> []) PARAM_BOUNDS)"

section \<open>Overrides\<close>

definition whole :: "real \<Rightarrow> bool" where
  "whole x \<longleftrightarrow> of_int \<lfloor>x\<rfloor> = x"

definition coerce_like_bounds :: "string \<Rightarrow> real \<Rightarrow> pyval" where
  "coerce_like_bounds parameter v = (case map_of PARAM_BOUNDS parameter of
       None \<Rightarrow> PNone
     | Some (lo, hi) \<Rightarrow> if whole lo \<and> whole hi then PInt (trunc_real v) else PFloat v)"

fun sanitize_items :: "pydict \<Rightarrow> pydict \<Rightarrow> pydict" where
  "sanitize_items [] clean = clean"
| "sanitize_items ((k, v) # rest) clean =
     (if validate_param_change k v \<noteq> None then sanitize_items rest clean
      else case py_float v of
        Inl _ \<Rightarrow> sanitize_items rest clean
      | Inr x \<Rightarrow> sanitize_items rest (dset k (coerce_like_bounds k x) clean))"

definition sanitize_overrides :: "pyval \<Rightarrow> pydict" where
  "sanitize_overrides raw = (case raw of PDict d \<Rightarrow> sanitize_items d [] | _ \<Rightarrow> [])"

text \<open>\<open>content\<close> is None for a file that is missing or cannot be read\<close>
definition load_overrides :: "(string \<Rightarrow> pyval option) \<Rightarrow> string option \<Rightarrow> pydict" where
  "load_overrides loads content = (case content of None \<Rightarrow> []
     | Some t \<Rightarrow> (case loads t of None \<Rightarrow> [] | Some raw \<Rightarrow> sanitize_overrides raw))"

text \<open>\<open>==\<close> between a stored value and a number\<close>
definition equals_number :: "pyval \<Rightarrow> pyval \<Rightarrow> bool" where
  "equals_number a b = (case a of PStr _ \<Rightarrow> False | _ \<Rightarrow> (case py_float a of Inl _ \<Rightarrow> False | Inr x \<Rightarrow> py_float b = Inr x))"

text \<open>the new text or why there is none; \<open>dumps\<close> prints with sorted keys and a final newline\<close>
definition apply_param_override ::
  "(string \<Rightarrow> pyval option) \<Rightarrow> (pydict \<Rightarrow> string) \<Rightarrow> string \<Rightarrow> string \<Rightarrow> pyval \<Rightarrow> param_error + string" where
  "apply_param_override loads dumps raw_text parameter proposed =
     (case validate_param_change parameter proposed of Some err \<Rightarrow> Inl err
      | None \<Rightarrow>
        (case (if py_strip raw_text \<noteq> [] then loads raw_text else Some (PDict [])) of
           None \<Rightarrow> Inl Invalid_json
         | Some (PDict current) \<Rightarrow>
             (case py_float proposed of Inl _ \<Rightarrow> Inl Not_numeric
              | Inr x \<Rightarrow>
                let new_value = coerce_like_bounds parameter x
                in if equals_number (py_get current parameter) new_value then Inl No_change
                   else Inr (dumps (sort_key fst (dset parameter new_value current))))
         | Some _ \<Rightarrow> Inl Not_an_object))"

section \<open>The quota of proposals\<close>

datatype guard_call = PG_get | PG_sadd | PG_incr

record proposal_env =
  pg_today :: string
  pg_cap :: int
  pg_redis :: bool
  pg_fails :: "guard_call \<Rightarrow> bool"
  pg_digest :: "string \<Rightarrow> string"
  pg_dumps :: "pyval \<Rightarrow> string"
  pg_rp :: "pyval \<Rightarrow> string"

record quota =
  qt_count :: "(string \<times> int) list"
  qt_seen :: "(string \<times> string list) list"

definition proposal_dedup_key :: "proposal_env \<Rightarrow> pydict \<Rightarrow> string" where
  "proposal_dedup_key e p = take 32 (pg_digest e
     (py_str (pg_rp e) (dget p ''proposal_type'' (PStr [])) @ ''|'' @ pg_dumps e (dget p ''content'' (PDict []))))"

definition proposals_today :: "proposal_env \<Rightarrow> quota \<Rightarrow> int" where
  "proposals_today e q = dget (qt_count q) (pg_today e) 0"

definition seen_today :: "proposal_env \<Rightarrow> quota \<Rightarrow> string list" where
  "seen_today e q = dget (qt_seen q) (pg_today e) []"

definition register_proposal_creation :: "proposal_env \<Rightarrow> pydict \<Rightarrow> quota \<Rightarrow> bool \<times> quota" where
  "register_proposal_creation e p q =
     (if \<not> pg_redis e \<or> pg_cap e \<le> 0 then (True, q)
      else if pg_fails e PG_get then (True, q)
      else if proposals_today e q \<ge> pg_cap e then (False, q)
      else if pg_fails e PG_sadd then (True, q)
      else if proposal_dedup_key e p \<in> set (seen_today e q) then (False, q)
      else let q1 = q\<lparr>qt_seen := dset (pg_today e) (seen_today e q @ [proposal_dedup_key e p]) (qt_seen q)\<rparr>
           in if pg_fails e PG_incr then (True, q1)
              else (True, q1\<lparr>qt_count := dset (pg_today e) (proposals_today e q + 1) (qt_count q)\<rparr>))"

section \<open>What a loaded override is\<close>

definition safe_override :: "string \<times> pyval \<Rightarrow> bool" where
  "safe_override = (\<lambda>(k, v). case map_of PARAM_BOUNDS k of None \<Rightarrow> False | Some (lo, hi) \<Rightarrow> (case v of
       PInt i \<Rightarrow> whole lo \<and> whole hi \<and> lo \<le> of_int i \<and> of_int i \<le> hi
     | PFloat x \<Rightarrow> \<not> (whole lo \<and> whole hi) \<and> lo \<le> x \<and> x \<le> hi
     | _ \<Rightarrow> False))"

lemma whole_int: "whole x \<Longrightarrow> \<exists>i. x = of_int i"
  unfolding whole_def by metis

lemma trunc_between:
  assumes "whole lo" "whole hi" "lo \<le> x" "x \<le> hi"
  shows "lo \<le> of_int (trunc_real x)" "of_int (trunc_real x) \<le> hi"
proof -
  obtain a b :: int where "lo = of_int a" "hi = of_int b" using assms(1,2) whole_int by metis
  then show "lo \<le> of_int (trunc_real x)" "of_int (trunc_real x) \<le> hi"
    using assms(3,4) by (auto simp: trunc_real_def le_floor_iff ceiling_le_iff) linarith+
qed

lemma validated:
  assumes "validate_param_change k v = None"
  obtains lo hi x where "map_of PARAM_BOUNDS k = Some (lo, hi)" "py_float v = Inr x" "lo \<le> x" "x \<le> hi"
    "k \<noteq> []" "name_matches k"
  using assms by (auto simp: validate_param_change_def split: if_splits option.splits pyval.splits sum.splits)

lemma coerced_is_safe: "validate_param_change k v = None \<Longrightarrow> py_float v = Inr x \<Longrightarrow> safe_override (k, coerce_like_bounds k x)"
  by (erule validated) (auto simp: safe_override_def coerce_like_bounds_def trunc_between)

text \<open>one entry: dropped, or set to its coerced value\<close>
lemma sanitize_item:
  obtains "validate_param_change k v \<noteq> None" "sanitize_items ((k, v) # rest) clean = sanitize_items rest clean"
  | x where "validate_param_change k v = None" "py_float v = Inr x"
      "sanitize_items ((k, v) # rest) clean = sanitize_items rest (dset k (coerce_like_bounds k x) clean)"
proof (cases "validate_param_change k v = None")
  case True
  then obtain x where x: "py_float v = Inr x" by (rule validated)
  show thesis by (rule that(2) [OF True x]) (simp add: True x)
next
  case False
  show thesis by (rule that(1) [OF False]) (simp add: False)
qed

lemma sanitize_items_safe: "list_all safe_override clean \<Longrightarrow> list_all safe_override (sanitize_items d clean)"
proof (induction d arbitrary: clean)
  case (Cons p rest)
  obtain k v where p: "p = (k, v)" by (cases p)
  show ?case unfolding p
  proof (cases rule: sanitize_item [of k v rest clean])
    case (2 x)
    have "\<forall>y \<in> set (dset k (coerce_like_bounds k x) clean). safe_override y"
      by (rule dset_all [of safe_override, OF coerced_is_safe [OF 2(1,2)]]) (use Cons.prems in \<open>simp add: list_all_iff\<close>)
    then show "list_all safe_override (sanitize_items ((k, v) # rest) clean)"
      unfolding 2(3) by (intro Cons.IH) (simp only: list_all_iff)
  next
    case 1
    show "list_all safe_override (sanitize_items ((k, v) # rest) clean)" unfolding 1(2) by (rule Cons.IH [OF Cons.prems])
  qed
qed simp

lemma sanitize_items_distinct: "distinct (map fst clean) \<Longrightarrow> distinct (map fst (sanitize_items d clean))"
proof (induction d arbitrary: clean)
  case (Cons p rest)
  obtain k v where p: "p = (k, v)" by (cases p)
  show ?case unfolding p
    by (cases rule: sanitize_item [of k v rest clean]) (use Cons in \<open>simp_all add: distinct_update\<close>)
qed simp

text \<open>C20: Whatever the overrides file holds, and if it is missing or no JSON at all, every override that is applied at
  start-up names a parameter of the allowlist once, lies within its safe bounds, and is an integer exactly when the
  bounds are whole numbers.\<close>
theorem loaded_overrides_are_safe:
  "list_all safe_override (load_overrides loads content) \<and> distinct (map fst (load_overrides loads content))"
  by (auto simp: load_overrides_def sanitize_overrides_def sanitize_items_safe sanitize_items_distinct
      split: option.splits pyval.splits)

section \<open>Editing the file\<close>

lemma map_of_sort_key:
  assumes "distinct (map fst d)"
  shows "map_of (sort_key fst d) = map_of d"
proof -
  have "mset (map fst (sort_key fst d)) = mset (map fst d)" by simp
  then have "distinct (map fst (sort_key fst d))" using assms mset_eq_imp_distinct_iff by blast
  then show ?thesis using assms by (intro map_of_inject_set [THEN iffD2]) simp_all
qed

definition loaded_value :: "string \<Rightarrow> pyval \<Rightarrow> pyval option" where
  "loaded_value k v = (if validate_param_change k v \<noteq> None then None
     else case py_float v of Inl _ \<Rightarrow> None | Inr x \<Rightarrow> Some (coerce_like_bounds k x))"

lemma map_of_sanitize:
  "distinct (map fst d) \<Longrightarrow> map_of (sanitize_items d clean) k =
     (case Option.bind (map_of d k) (loaded_value k) of None \<Rightarrow> map_of clean k | Some w \<Rightarrow> Some w)"
proof (induction d arbitrary: clean)
  case (Cons p rest)
  obtain k' v where p: "p = (k', v)" by (cases p)
  have fresh: "k = k' \<Longrightarrow> map_of rest k = None" using Cons.prems p by (auto simp: map_of_eq_None_iff)
  show ?case unfolding p
  proof (cases rule: sanitize_item [of k' v rest clean])
    case 1
    have lv: "loaded_value k' v = None" using 1(1) by (simp add: loaded_value_def)
    show "map_of (sanitize_items ((k', v) # rest) clean) k = (case Option.bind (map_of ((k', v) # rest) k) (loaded_value k) of
        None \<Rightarrow> map_of clean k | Some w \<Rightarrow> Some w)"
      unfolding 1(2) using Cons p fresh lv by (cases "k = k'") simp_all
  next
    case (2 x)
    have lv: "loaded_value k' v = Some (coerce_like_bounds k' x)" using 2(1,2) by (simp add: loaded_value_def)
    show "map_of (sanitize_items ((k', v) # rest) clean) k = (case Option.bind (map_of ((k', v) # rest) k) (loaded_value k) of
        None \<Rightarrow> map_of clean k | Some w \<Rightarrow> Some w)"
      unfolding 2(3) using Cons p fresh lv by (cases "k = k'") (simp_all split: option.split)
  qed
qed simp

text \<open>what the text of the file amounts to: a blank one is an empty object\<close>
definition overrides_in :: "(string \<Rightarrow> pyval option) \<Rightarrow> string \<Rightarrow> pydict" where
  "overrides_in loads t = (if py_strip t \<noteq> [] then load_overrides loads (Some t) else [])"

lemma coerce_idem:
  assumes "validate_param_change k v = None" "py_float v = Inr x"
  shows "validate_param_change k (coerce_like_bounds k x) = None"
    "\<exists>y. py_float (coerce_like_bounds k x) = Inr y \<and> coerce_like_bounds k y = coerce_like_bounds k x"
proof -
  obtain lo hi where b: "map_of PARAM_BOUNDS k = Some (lo, hi)" "lo \<le> x" "x \<le> hi" "k \<noteq> []" "name_matches k"
    using validated [OF assms(1)] assms(2) by (metis sum.inject(2))
  have t: "trunc_real (of_int i) = i" for i by (simp add: trunc_real_def)
  show "validate_param_change k (coerce_like_bounds k x) = None"
    using b by (auto simp: validate_param_change_def coerce_like_bounds_def trunc_between)
  show "\<exists>y. py_float (coerce_like_bounds k x) = Inr y \<and> coerce_like_bounds k y = coerce_like_bounds k x"
    using b(1) by (auto simp: coerce_like_bounds_def t)
qed

text \<open>C19: A change that the editor accepts is what the next start-up loads: the parameter gets the proposed value, as an
  integer where the bounds are whole, every other override stays as it was, and proposing the same change again is
  refused as no change.\<close>
theorem accepted_override_is_loaded:
  assumes "apply_param_override loads dumps t parameter v = Inr t'"
    and codec: "\<And>d. dumps d = t' \<Longrightarrow> loads t' = Some (PDict d)"
    and keys: "\<And>d. loads t = Some (PDict d) \<Longrightarrow> distinct (map fst d)"
    and "py_strip t' \<noteq> []"
  shows "(\<exists>x. py_float v = Inr x \<and> map_of (overrides_in loads t') parameter = Some (coerce_like_bounds parameter x))
    \<and> (\<forall>k. k = parameter \<or> map_of (overrides_in loads t') k = map_of (overrides_in loads t) k)
    \<and> apply_param_override loads dumps t' parameter v = Inl No_change"
proof -
  have ok: "validate_param_change parameter v = None"
    using assms(1) by (auto simp: apply_param_override_def split: option.splits)
  obtain x where x: "py_float v = Inr x" using ok by (rule validated)
  let ?w = "coerce_like_bounds parameter x"
  obtain cur where cur: "(if py_strip t \<noteq> [] then loads t else Some (PDict [])) = Some (PDict cur)"
      "t' = dumps (sort_key fst (dset parameter ?w cur))"
    using assms(1) ok x by (auto simp: apply_param_override_def Let_def split: option.splits pyval.splits if_splits)
  let ?d = "sort_key fst (dset parameter ?w cur)"
  have dist: "distinct (map fst cur)" using cur(1) keys by (auto split: if_splits)
  then have d: "distinct (map fst (dset parameter ?w cur))" by (rule distinct_update)
  then have m: "map_of ?d = (map_of cur)(parameter \<mapsto> ?w)" by (simp add: map_of_sort_key fun_eq_iff)
  have dd: "distinct (map fst ?d)"
    using d mset_eq_imp_distinct_iff [of "map fst ?d" "map fst (dset parameter ?w cur)"] by simp
  have loads': "loads t' = Some (PDict ?d)" using codec cur(2) by simp
  have after: "overrides_in loads t' = sanitize_items ?d []"
    using assms(4) loads' by (simp add: overrides_in_def load_overrides_def sanitize_overrides_def)
  have before: "overrides_in loads t = sanitize_items cur []"
    using cur(1) by (auto simp: overrides_in_def load_overrides_def sanitize_overrides_def split: if_splits)
  obtain y where y: "py_float ?w = Inr y" "coerce_like_bounds parameter y = ?w" "validate_param_change parameter ?w = None"
    using coerce_idem [OF ok x] by metis
  have lv: "loaded_value parameter ?w = Some ?w" using y by (simp add: loaded_value_def)
  have one: "map_of (overrides_in loads t') parameter = Some ?w"
    unfolding after map_of_sanitize [OF dd] m using lv by simp
  have others: "map_of (overrides_in loads t') k = map_of (overrides_in loads t) k" if "k \<noteq> parameter" for k
    unfolding after before map_of_sanitize [OF dd] map_of_sanitize [OF dist] m using that by simp
  have "py_get ?d parameter = ?w" unfolding py_get_def m by simp
  moreover have "equals_number ?w ?w"
    using y(1) by (auto simp: equals_number_def coerce_like_bounds_def split: option.splits)
  ultimately have "apply_param_override loads dumps t' parameter v = Inl No_change"
    using ok x loads' assms(4) by (simp add: apply_param_override_def Let_def)
  then show ?thesis using x one others by metis
qed

section \<open>A day of proposals\<close>

fun register_all :: "(proposal_env \<times> pydict) list \<Rightarrow> quota \<Rightarrow> bool list \<times> quota" where
  "register_all [] q = ([], q)"
| "register_all ((e, p) # rest) q = (case register_proposal_creation e p q of (ok, q1) \<Rightarrow>
     case register_all rest q1 of (oks, q2) \<Rightarrow> (ok # oks, q2))"

text \<open>first occurrences, in order\<close>
definition nub :: "'a list \<Rightarrow> 'a list" where
  "nub xs = rev (remdups (rev xs))"

lemma nub_snoc: "nub (xs @ [x]) = (if x \<in> set xs then nub xs else nub xs @ [x])"
  by (simp add: nub_def)

lemma set_nub [simp]: "set (nub xs) = set xs"
  by (simp add: nub_def)

lemma register_all_snoc:
  "register_all (xs @ [(e, p)]) q = (case register_all xs q of (oks, q1) \<Rightarrow>
     case register_proposal_creation e p q1 of (ok, q2) \<Rightarrow> (oks @ [ok], q2))"
  by (induction xs arbitrary: q) (auto split: prod.splits)

lemma length_register_all: "register_all xs q = (oks, q') \<Longrightarrow> length oks = length xs"
  by (induction xs arbitrary: q oks q') (auto split: prod.splits)

definition plain_day :: "string \<Rightarrow> int \<Rightarrow> proposal_env \<Rightarrow> bool" where
  "plain_day day cap e \<longleftrightarrow> pg_redis e \<and> pg_today e = day \<and> pg_cap e = cap
     \<and> \<not> pg_fails e PG_get \<and> \<not> pg_fails e PG_sadd \<and> \<not> pg_fails e PG_incr"

definition empty_quota :: quota where
  "empty_quota = \<lparr>qt_count = [], qt_seen = []\<rparr>"

text \<open>The proposals admitted in one day are the first occurrences of distinct proposals, up to the cap and in their order:
  a repeat never gets through and never costs quota.\<close>
theorem quota_admits_the_first_distinct:
  assumes "list_all (\<lambda>(e, p). plain_day day cap e) reqs" "0 < cap" "register_all reqs empty_quota = (oks, q)"
  shows "map (\<lambda>((e, p), ok). proposal_dedup_key e p) (filter snd (zip reqs oks))
      = take (nat cap) (nub (map (\<lambda>(e, p). proposal_dedup_key e p) reqs))
    \<and> dget (qt_count q) day 0 = int (length (filter (\<lambda>ok. ok) oks))"
proof -
  let ?fp = "\<lambda>(e, p). proposal_dedup_key e p"
  let ?got = "\<lambda>reqs oks. map (\<lambda>(r, ok). ?fp r) (filter snd (zip reqs oks))"
  have "list_all (\<lambda>(e, p). plain_day day cap e) reqs \<Longrightarrow> register_all reqs empty_quota = (oks, q) \<Longrightarrow>
      ?got reqs oks = take (nat cap) (nub (map ?fp reqs)) \<and> dget (qt_seen q) day [] = ?got reqs oks
      \<and> dget (qt_count q) day 0 = int (length (?got reqs oks)) \<and> length (filter (\<lambda>ok. ok) oks) = length (?got reqs oks)" for oks q
  proof (induction reqs arbitrary: oks q rule: rev_induct)
    case Nil
    then show ?case by (auto simp: empty_quota_def nub_def)
  next
    case (snoc r reqs)
    obtain e p where r: "r = (e, p)" by (cases r)
    obtain oks1 q1 where run: "register_all reqs empty_quota = (oks1, q1)" by (metis surj_pair)
    obtain ok where step: "register_proposal_creation e p q1 = (ok, q)" "oks = oks1 @ [ok]"
      using snoc.prems(2) r run by (auto simp: register_all_snoc split: prod.splits)
    have day: "plain_day day cap e" using snoc.prems(1) r by simp
    have pre: "list_all (\<lambda>(e, p). plain_day day cap e) reqs" using snoc.prems(1) by simp
    from snoc.IH [OF pre run] have ih: "?got reqs oks1 = take (nat cap) (nub (map ?fp reqs))" "dget (qt_seen q1) day [] = ?got reqs oks1"
      "dget (qt_count q1) day 0 = int (length (?got reqs oks1))" "length (filter (\<lambda>ok. ok) oks1) = length (?got reqs oks1)"
      by blast+
    have len: "length oks1 = length reqs" using run by (rule length_register_all)
    have got: "?got (reqs @ [r]) (oks1 @ [ok]) = ?got reqs oks1 @ (if ok then [?fp r] else [])" using len r by simp
    let ?new = "nub (map ?fp reqs @ [?fp r])"
    consider (full) "cap \<le> int (length (?got reqs oks1))" | (dup) "\<not> cap \<le> int (length (?got reqs oks1))" "?fp r \<in> set (?got reqs oks1)"
      | (new) "\<not> cap \<le> int (length (?got reqs oks1))" "?fp r \<notin> set (?got reqs oks1)" by blast
    then show ?case
    proof cases
      case full
      then have "ok = False \<and> q = q1"
        using step(1) day assms(2) ih(3) by (auto simp: register_proposal_creation_def plain_day_def proposals_today_def)
      moreover have "take (nat cap) ?new = take (nat cap) (nub (map ?fp reqs))"
        using full ih(1) by (auto simp: nub_snoc)
      ultimately show ?thesis using ih got step(2) r by simp
    next
      case dup
      then have "ok = False \<and> q = q1"
        using step(1) day assms(2) ih(2,3) r by (auto simp: register_proposal_creation_def plain_day_def proposals_today_def seen_today_def)
      moreover have "?new = nub (map ?fp reqs)" using dup ih(1) by (auto simp: nub_snoc dest: in_set_takeD)
      ultimately show ?thesis using ih got step(2) r by simp
    next
      case new
      then have ok: "ok" "qt_seen q = dset day (dget (qt_seen q1) day [] @ [?fp r]) (qt_seen q1)"
          "qt_count q = dset day (dget (qt_count q1) day 0 + 1) (qt_count q1)"
        using step(1) day assms(2) ih(2,3) r
        by (auto simp: register_proposal_creation_def plain_day_def proposals_today_def seen_today_def Let_def)
      have short: "length (nub (map ?fp reqs)) < nat cap" using new(1) ih(1) assms(2) by (auto simp: min_def split: if_splits)
      then have "?fp r \<notin> set (map ?fp reqs)" using new(2) ih(1) by simp
      then have "take (nat cap) ?new = ?got reqs oks1 @ [?fp r]" using short ih(1) by (simp add: nub_snoc)
      then show ?thesis using ih got step(2) ok r by simp
    qed
  qed
  from this [OF assms(1,3)] show ?thesis by (simp add: case_prod_unfold)
qed

section \<open>Concrete inputs\<close>

definition loads0 :: "string \<Rightarrow> pyval option" where
  "loads0 t = (if t = ''old'' then Some (PDict [(''STOP_LOSS_PCT'', PFloat (3 / 100)), (''HOME'', PInt 7)])
     else if t = ''new'' then Some (PDict [(''HOME'', PInt 7), (''LLM_CALL_DELAY_MS'', PInt 250), (''STOP_LOSS_PCT'', PFloat (3 / 100))])
     else None)"

definition dumps0 :: "pydict \<Rightarrow> string" where
  "dumps0 d = (if d = [(''HOME'', PInt 7), (''LLM_CALL_DELAY_MS'', PInt 250), (''STOP_LOSS_PCT'', PFloat (3 / 100))] then ''new'' else [])"

theorem accepted_override_is_loaded_witness:
  "apply_param_override loads0 dumps0 ''old'' ''LLM_CALL_DELAY_MS'' (PFloat (501 / 2)) = Inr ''new''
   \<and> map_of (overrides_in loads0 ''new'') ''LLM_CALL_DELAY_MS'' = Some (PInt 250)
   \<and> map_of (overrides_in loads0 ''new'') ''STOP_LOSS_PCT'' = Some (PFloat (3 / 100))"
proof -
  have run: "apply_param_override loads0 dumps0 ''old'' ''LLM_CALL_DELAY_MS'' (PFloat (501 / 2)) = Inr ''new''" by code_simp
  have codec: "dumps0 d = ''new'' \<Longrightarrow> loads0 ''new'' = Some (PDict d)" for d
    by (auto simp: dumps0_def loads0_def split: if_splits)
  have keys: "loads0 ''old'' = Some (PDict d) \<Longrightarrow> distinct (map fst d)" for d by (auto simp: loads0_def)
  have v: "map_of (overrides_in loads0 ''old'') ''STOP_LOSS_PCT'' = Some (PFloat (3 / 100))"
    "coerce_like_bounds ''LLM_CALL_DELAY_MS'' (501 / 2) = PInt 250" "py_strip ''new'' \<noteq> []" by code_simp+
  note applied = accepted_override_is_loaded [OF run codec keys v(3)]
  have "map_of (overrides_in loads0 ''new'') ''LLM_CALL_DELAY_MS'' = Some (PInt 250)"
    using applied v(2) by (metis py_float_simps(4) sum.inject(2))
  moreover have "''STOP_LOSS_PCT'' \<noteq> ''LLM_CALL_DELAY_MS''" by simp
  then have "map_of (overrides_in loads0 ''new'') ''STOP_LOSS_PCT'' = Some (PFloat (3 / 100))"
    using applied v(1) by metis
  ultimately show ?thesis using run by blast
qed

definition proposal_env0 :: proposal_env where
  "proposal_env0 = \<lparr>pg_today = ''d'', pg_cap = 2, pg_redis = True, pg_fails = (\<lambda>_. False), pg_digest = (\<lambda>s. s), pg_dumps = (\<lambda>_. ''c''), pg_rp = (\<lambda>_. [])\<rparr>"

theorem quota_admits_the_first_distinct_witness:
  "fst (register_all (map (\<lambda>t. (proposal_env0, [(''proposal_type'', PStr t)])) [''a'', ''a'', ''b'', ''c'']) empty_quota)
     = [True, False, True, False]
   \<and> take 2 (nub (map (\<lambda>t. proposal_dedup_key proposal_env0 [(''proposal_type'', PStr t)]) [''a'', ''a'', ''b'', ''c''])) = [''a|c'', ''b|c'']"
proof -
  let ?reqs = "map (\<lambda>t. (proposal_env0, [(''proposal_type'', PStr t)])) [''a'', ''a'', ''b'', ''c'']"
  obtain oks q where run: "register_all ?reqs empty_quota = (oks, q)" by (metis surj_pair)
  have oks: "oks = [True, False, True, False]"
    using run arg_cong [OF run, of fst] by (simp add: register_proposal_creation_def proposal_env0_def empty_quota_def
      proposals_today_def seen_today_def proposal_dedup_key_def)
  have day: "list_all (\<lambda>(e, p). plain_day ''d'' 2 e) ?reqs" by (simp add: plain_day_def proposal_env0_def)
  from quota_admits_the_first_distinct [OF day _ run] oks run show ?thesis
    by (simp add: proposal_dedup_key_def proposal_env0_def)
qed

end
