(* ===== verification/IC_Updater.thy ===== *)
theory IC_Updater
  imports Stream_Consumer Reasoning_Rules Agent_Heartbeat "HOL-Library.Multiset"
begin

text \<open>
  The factor weights (\<open>api/services/agents/ic_updater.py\<close> and the arithmetic of
  \<open>api/services/agents/scoring.py\<close>): closed trades are paired with the composite score behind them, and every few
  fills the rank correlation of the scores with the profits becomes the weights that the reasoning agent reads from
  \<open>alpha:ic_weights\<close>. The score stored in \<open>agent_runs\<close>, the clock, the ids and the texts of numbers are parameters.
\<close>

section \<open>Scoring\<close>

definition GRADE_THRESHOLDS :: "(string \<times> real) list" where
  "GRADE_THRESHOLDS = [(''A+'', 9 / 10), (''A'', 8 / 10), (''B'', 65 / 100), (''C'', 1 / 2), (''D'', 35 / 100), (''F'', 0)]"

definition GRADE_SEVERITY :: "(string \<times> string option) list" where
  "GRADE_SEVERITY = [(''A+'', None), (''A'', None), (''B'', Some ''INFO''), (''C'', Some ''WARNING''),
     (''D'', Some ''URGENT''), (''F'', Some ''CRITICAL'')]"

text \<open>the positions of the values in the order of a stable sort; equal values keep their order of arrival\<close>
definition by_value :: "real list \<Rightarrow> nat list" where
  "by_value values = map fst (sort_key snd (zip [0..<length values] values))"

text \<open>\<open>ranks[orig_idx] = rank_pos + 1\<close>\<close>
definition ranks :: "real list \<Rightarrow> real list" where
  "ranks values = map (\<lambda>i. case map_of (zip (by_value values) [0..<length values]) i of
       None \<Rightarrow> 0 | Some rank_pos \<Rightarrow> real (Suc rank_pos)) [0..<length values]"

text \<open>both lists have one length at every call\<close>
definition spearman_correlation :: "real list \<Rightarrow> real list \<Rightarrow> real" where
  "spearman_correlation xs ys =
     (let n = length xs
      in if n < 3 then 0
         else 1 - 6 * (\<Sum>(rx, ry) \<leftarrow> zip (ranks xs) (ranks ys). (rx - ry)\<^sup>2) / (real n * ((real n)\<^sup>2 - 1)))"

fun first_threshold :: "real \<Rightarrow> (string \<times> real) list \<Rightarrow> string" where
  "first_threshold score [] = ''F''"
| "first_threshold score ((letter, threshold) # rest) = (if score \<ge> threshold then letter else first_threshold score rest)"

definition score_letter :: "real \<Rightarrow> string" where
  "score_letter score = first_threshold score GRADE_THRESHOLDS"

definition normalize_ic :: "real \<Rightarrow> real" where
  "normalize_ic raw_ic = (raw_ic + 1) / 2"

definition normalize_cost_eff :: "real \<Rightarrow> real" where
  "normalize_cost_eff pnl_per_dollar = min (max ((pnl_per_dollar + 10) / 20) 0) 1"

definition compute_weighted_score :: "real \<Rightarrow> real \<Rightarrow> real \<Rightarrow> real \<Rightarrow> real" where
  "compute_weighted_score accuracy ic_norm cost_norm latency =
     py_round 4 (min (max (accuracy * (35 / 100) + ic_norm * (3 / 10) + cost_norm * (2 / 10) + latency * (15 / 100)) 0) 1)"

section \<open>State\<close>

record ic_env =
  iv_bus :: bus_env
  iv_beat :: beat_env
  iv_uuid :: "nat \<Rightarrow> string"
  iv_every :: int
  iv_threshold :: real
  iv_stored_score :: "pyval \<Rightarrow> real option pyres"
  iv_signed :: "real \<Rightarrow> string"
  iv_set_fails :: bool
  iv_insert_fails :: bool

record ic_updater =
  iu_bus :: bus
  iu_beats :: beats
  iu_fills :: nat
  iu_buffer :: "(real \<times> real) list"
  iu_closes :: "string list"
  iu_weights :: "string option"
  iu_history :: "(string \<times> real \<times> string) list"

type_synonym 'a irun = "(ic_updater, 'a) eff"

definition AGENT_IC_UPDATER :: string where "AGENT_IC_UPDATER = ''IC_UPDATER''"
definition SOURCE_IC_UPDATER :: string where "SOURCE_IC_UPDATER = ''ic_updater''"
definition STREAM_FACTOR_IC_HISTORY :: string where "STREAM_FACTOR_IC_HISTORY = ''factor_ic_history''"
definition CLOSE_TRACES :: nat where "CLOSE_TRACES = 500"
definition SCORE_PNL_MAX :: nat where "SCORE_PNL_MAX = 200"

definition iu_publish :: "ic_env \<Rightarrow> string \<Rightarrow> pydict \<Rightarrow> ic_updater \<Rightarrow> ic_updater" where
  "iu_publish e stream event s = s\<lparr>iu_bus := snd (publish (iv_bus e) stream event None (iu_bus s))\<rparr>"

definition iu_heartbeat :: "ic_env \<Rightarrow> string \<Rightarrow> pydict \<Rightarrow> ic_updater \<Rightarrow> ic_updater" where
  "iu_heartbeat e last_event extra s =
     s\<lparr>iu_beats := write_agent_heartbeat (iv_beat e) AGENT_IC_UPDATER last_event (int (iu_fills s)) extra (iu_beats s)\<rparr>"

section \<open>Weights\<close>

definition momentum_signals :: "real list \<Rightarrow> real list" where
  "momentum_signals scores = map (\<lambda>s. if s > 1 / 2 then 1 else - 1) scores"

definition raw_factors :: "(real \<times> real) list \<Rightarrow> (string \<times> real) list" where
  "raw_factors recent =
     [(''composite_score'', spearman_correlation (map fst recent) (map snd recent)),
      (''momentum'', spearman_correlation (momentum_signals (map fst recent)) (map snd recent))]"

definition active_factors :: "real \<Rightarrow> (string \<times> real) list \<Rightarrow> (string \<times> real) list" where
  "active_factors threshold raw = map (\<lambda>(f, ic). (f, max ic 0)) (filter (\<lambda>(f, ic). \<bar>ic\<bar> > threshold) raw)"

definition factor_weights :: "real \<Rightarrow> (string \<times> real) list \<Rightarrow> (string \<times> real) list" where
  "factor_weights threshold raw =
     (let active = active_factors threshold raw; total = sum_list (map snd active)
      in if total \<le> 0 then [(''composite_score'', 1)] else map (\<lambda>(k, v). (k, py_round 6 (v / total))) active)"

definition weights_dict :: "(string \<times> real) list \<Rightarrow> pyval" where
  "weights_dict ws = PDict (map (\<lambda>(k, w). (k, PFloat w)) ws)"

definition lookback :: "(real \<times> real) list \<Rightarrow> (real \<times> real) list" where
  "lookback buffer = last_n (min (length buffer) 100) buffer"

definition persist_factor_ic :: "ic_env \<Rightarrow> string \<Rightarrow> real \<Rightarrow> ic_updater \<Rightarrow> ic_updater" where
  "persist_factor_ic e factor ic_score s =
     (if \<not> hv_db_up (iv_beat e) \<or> iv_insert_fails e then s
      else s\<lparr>iu_history := iu_history s @ [(factor, ic_score, hv_iso (iv_beat e))]\<rparr>)"

definition ic_event :: "ic_env \<Rightarrow> string \<Rightarrow> string \<Rightarrow> real \<Rightarrow> (string \<times> real) list \<Rightarrow> nat \<Rightarrow> pydict" where
  "ic_event e uid factor ic_val weights fills =
     [(''msg_id'', PStr uid), (''source'', PStr SOURCE_IC_UPDATER), (''type'', PStr ''ic_update''),
      (''factor_name'', PStr factor), (''ic_score'', PFloat (py_round 6 ic_val)), (''weight'', PFloat (dget weights factor 0)),
      (''fills'', PInt (int fills)), (''timestamp'', PStr (hv_iso (iv_beat e)))]"

definition record_factor :: "ic_env \<Rightarrow> string \<Rightarrow> (string \<times> real) list \<Rightarrow> string \<times> real \<Rightarrow> ic_updater \<Rightarrow> ic_updater" where
  "record_factor e uid weights f s =
     persist_factor_ic e (fst f) (snd f)
       (iu_publish e STREAM_FACTOR_IC_HISTORY (ic_event e uid (fst f) (snd f) weights (iu_fills s)) s)"

definition ic_notification :: "ic_env \<Rightarrow> real \<Rightarrow> real \<Rightarrow> (string \<times> real) list \<Rightarrow> nat \<Rightarrow> pydict" where
  "ic_notification e composite_ic momentum_ic weights fills =
     [(''msg_id'', PStr (iv_uuid e 2)), (''source'', PStr SOURCE_IC_UPDATER), (''type'', PStr ''notification''),
      (''severity'', PStr ''INFO''), (''notification_type'', PStr ''ic_update''),
      (''message'', PStr (''IC weights updated after '' @ nat_str fills @ '' fills'' @ dash @ ''composite='' @
         iv_signed e composite_ic @ '' momentum='' @ iv_signed e momentum_ic)),
      (''weights'', weights_dict weights), (''timestamp'', PStr (hv_iso (iv_beat e)))]"

definition recompute_and_publish :: "ic_env \<Rightarrow> unit irun" where
  "recompute_and_publish e s =
     (let recent = lookback (iu_buffer s)
      in if length recent < 3 then (Inr (), s)
         else let raw = raw_factors recent; weights = factor_weights (iv_threshold e) raw;
                  composite_ic = snd (raw ! 0); momentum_ic = snd (raw ! 1)
              in case be_dumps (iv_bus e) (weights_dict weights) of None \<Rightarrow> (Inl TypeError, s)
                 | Some t \<Rightarrow> if iv_set_fails e then (Inl (RuntimeError ''redis''), s) else
                   let s1 = s\<lparr>iu_weights := Some t\<rparr>;
                       s2 = record_factor e (iv_uuid e 1) weights (raw ! 1) (record_factor e (iv_uuid e 0) weights (raw ! 0) s1);
                       s3 = iu_publish e ''notifications'' (ic_notification e composite_ic momentum_ic weights (iu_fills s)) s2
                   in (Inr (), iu_heartbeat e (''ic_update fills='' @ nat_str (iu_fills s) @ '' composite_ic='' @ iv_signed e composite_ic)
                         [(''composite_ic'', PFloat (py_round 4 composite_ic)), (''weights'', weights_dict weights)] s3))"

section \<open>One fill\<close>

definition composite_score_of :: "ic_env \<Rightarrow> pyval \<Rightarrow> real" where
  "composite_score_of e trace_id =
     (if \<not> truthy trace_id \<or> \<not> hv_db_up (iv_beat e) then 1 / 2
      else case iv_stored_score e trace_id of Inr (Some v) \<Rightarrow> v | _ \<Rightarrow> 1 / 2)"

definition trigger_of :: "ic_env \<Rightarrow> nat" where
  "trigger_of e = nat (max (iv_every e) 1)"

definition fill_progress :: "ic_env \<Rightarrow> unit irun" where
  "fill_progress e s =
     (if iu_fills s mod trigger_of e \<noteq> 0
      then (Inr (), iu_heartbeat e (''fill_buffered:'' @ nat_str (iu_fills s) @ ''/'' @ nat_str (trigger_of e))
              [(''exec_status'', PStr ''idle:buffering'')] s)
      else recompute_and_publish e s)"

definition ic_process :: "ic_env \<Rightarrow> pydict \<Rightarrow> unit irun" where
  "ic_process e data s =
     (case is_duplicate (be_rp (iv_bus e)) CLOSE_TRACES data (iu_closes s) of (dup, seen) \<Rightarrow>
      if dup then (Inr (), s\<lparr>iu_closes := seen\<rparr>)
      else let s1 = s\<lparr>iu_closes := seen, iu_fills := Suc (iu_fills s)\<rparr>
           in bnd (lift_res (float_field data ''pnl'' 0)) (\<lambda>pnl.
              andthen (modify (\<lambda>t. t\<lparr>iu_buffer := last_n SCORE_PNL_MAX
                  (iu_buffer t @ [(composite_score_of e (py_get data ''trace_id''), pnl)])\<rparr>))
                (fill_progress e)) s1)"

section \<open>Ranks\<close>

lemma by_value_perm: "mset (by_value xs) = mset [0..<length xs]"
  unfolding by_value_def mset_map mset_sort by (simp flip: mset_map)

lemma by_value_facts: "distinct (by_value xs)" "length (by_value xs) = length xs"
proof -
  show "distinct (by_value xs)"
    using by_value_perm [of xs] by (metis distinct_upt mset_eq_imp_distinct_iff)
qed (simp add: by_value_def)

text \<open>the ranks of \<open>n\<close> values are the numbers from 1 to \<open>n\<close>\<close>
lemma mset_ranks: "mset (ranks xs) = mset (map (\<lambda>k. real (Suc k)) [0..<length xs])"
proof -
  let ?n = "length xs" and ?p = "by_value xs"
  let ?f = "\<lambda>i. case map_of (zip ?p [0..<?n]) i of None \<Rightarrow> 0 | Some r \<Rightarrow> real (Suc r)"
  have "mset (ranks xs) = image_mset ?f (mset ?p)"
    unfolding ranks_def by_value_perm by (rule mset_map)
  also have "\<dots> = mset (map ?f ?p)" by (rule mset_map [symmetric])
  also have "map ?f ?p = map (\<lambda>k. real (Suc k)) [0..<?n]"
  proof (rule nth_equalityI)
    fix i assume i: "i < length (map ?f ?p)"
    have "map_of (zip ?p [0..<?n]) (?p ! i) = Some ([0..<?n] ! i)"
      using i by (intro map_of_zip_nth) (auto simp: by_value_facts)
    then show "map ?f ?p ! i = map (\<lambda>k. real (Suc k)) [0..<?n] ! i" using i by (simp add: by_value_facts)
  qed (simp add: by_value_facts)
  finally show ?thesis .
qed

lemma length_ranks [simp]: "length (ranks xs) = length xs"
  by (simp add: ranks_def)

lemma sum_over_ranks: "sum_list (map f (ranks xs)) = (\<Sum>k = 1..length xs. f (real k))"
proof -
  have "sum_list (map f (ranks xs)) = sum_mset (image_mset f (mset (ranks xs)))"
    by (metis mset_map sum_mset_sum_list)
  also have "\<dots> = sum_list (map (\<lambda>k. f (real (Suc k))) [0..<length xs])"
    unfolding mset_ranks by (simp add: sum_mset_sum_list comp_def flip: mset_map)
  also have "\<dots> = (\<Sum>k = 0..<length xs. f (real (Suc k)))"
    by (simp add: interv_sum_list_conv_sum_set_nat)
  also have "\<dots> = (\<Sum>k = 1..length xs. f (real k))"
    using sum.shift_bounds_Suc_ivl [of "\<lambda>k. f (real k)" 0 "length xs"] by (simp add: atLeastLessThanSuc_atLeastAtMost)
  finally show ?thesis .
qed

lemma sum_to: "(\<Sum>k = 1..n. real k) = real n * (real n + 1) / 2"
  by (induction n) (auto simp: field_simps)

lemma sum_squares_to: "(\<Sum>k = 1..n. (real k)\<^sup>2) = real n * (real n + 1) * (2 * real n + 1) / 6"
  by (induction n) (auto simp: field_simps power2_eq_square)

lemma sum_zip:
  "length xs = length ys \<Longrightarrow> sum_list (map2 (\<lambda>x y. g x + h y) xs ys) = sum_list (map g xs) + (sum_list (map h ys) :: real)"
  by (induction xs ys rule: list_induct2) auto

text \<open>\<open>(x - y)\<^sup>2\<close> and \<open>(x + y - m)\<^sup>2\<close> add up to a function of \<open>x\<close> plus a function of \<open>y\<close>\<close>
lemma rank_distance:
  assumes "length xs = length ys"
  shows "(\<Sum>(x, y) \<leftarrow> zip (ranks xs) (ranks ys). (x - y)\<^sup>2)
     + (\<Sum>(x, y) \<leftarrow> zip (ranks xs) (ranks ys). (x + y - (real (length xs) + 1))\<^sup>2)
     = real (length xs) * ((real (length xs))\<^sup>2 - 1) / 3"
proof -
  define n where "n = real (length xs)"
  let ?g = "\<lambda>x. 2 * x\<^sup>2 - 2 * (n + 1) * x + (n + 1)\<^sup>2 / 2"
  have "(\<Sum>(x, y) \<leftarrow> zip (ranks xs) (ranks ys). (x - y)\<^sup>2) + (\<Sum>(x, y) \<leftarrow> zip (ranks xs) (ranks ys). (x + y - (n + 1))\<^sup>2)
    = (\<Sum>(x, y) \<leftarrow> zip (ranks xs) (ranks ys). ?g x + ?g y)"
    by (simp add: sum_list_addf [symmetric] case_prod_unfold)
       (rule arg_cong [where f = sum_list], rule map_cong, simp, simp add: power2_eq_square field_simps)
  also have "\<dots> = 2 * (\<Sum>k = 1..length xs. ?g (real k))"
    using sum_zip [of "ranks xs" "ranks ys" ?g ?g] assms unfolding sum_over_ranks by simp
  also have "(\<Sum>k = 1..length xs. ?g (real k)) = n * (n\<^sup>2 - 1) / 6"
    unfolding sum.distrib sum_subtractf sum_distrib_left [symmetric] sum_squares_to sum_to n_def
    by (simp add: field_simps power2_eq_square power3_eq_cube)
  finally show ?thesis by (simp add: n_def)
qed

lemma sum_list_squares: "0 \<le> (\<Sum>(x, y) \<leftarrow> l. (f x y :: real)\<^sup>2)"
  by (rule sum_list_nonneg) auto

lemma spearman_between:
  assumes "length xs = length ys"
  shows "\<bar>spearman_correlation xs ys\<bar> \<le> 1"
proof (cases "length xs < 3")
  case False
  let ?n = "real (length xs)"
  let ?d = "(\<Sum>(x, y) \<leftarrow> zip (ranks xs) (ranks ys). (x - y)\<^sup>2)" and ?k = "?n * (?n\<^sup>2 - 1)"
  have k: "0 < ?k"
  proof -
    have "1 < ?n * ?n" using False by (intro less_1_mult) auto
    then show ?thesis using False by (intro mult_pos_pos) (auto simp: power2_eq_square)
  qed
  have "0 \<le> ?d" by (rule sum_list_squares)
  moreover have "?d \<le> ?k / 3"
    using rank_distance [OF assms] sum_list_squares [of "\<lambda>x y. x + y - (?n + 1)" "zip (ranks xs) (ranks ys)"] by linarith
  ultimately have "0 \<le> 6 * ?d / ?k" "6 * ?d / ?k \<le> 2" using k by (auto simp: divide_le_eq)
  then show ?thesis using False by (simp add: spearman_correlation_def Let_def)
qed (simp add: spearman_correlation_def)

text \<open>equal values are ranked by their order of arrival\<close>
lemma ranks_sorted: "sorted xs \<Longrightarrow> ranks xs = map (\<lambda>k. real (Suc k)) [0..<length xs]"
proof -
  assume "sorted xs"
  then have order: "by_value xs = [0..<length xs]"
    by (simp add: by_value_def sort_key_id_if_sorted)
  show ?thesis
  proof (rule nth_equalityI)
    fix i assume i: "i < length (ranks xs)"
    have "map_of (zip [0..<length xs] [0..<length xs]) ([0..<length xs] ! i) = Some ([0..<length xs] ! i)"
      using i by (intro map_of_zip_nth) auto
    then show "ranks xs ! i = map (\<lambda>k. real (Suc k)) [0..<length xs] ! i"
      using i by (simp add: ranks_def order)
  qed simp
qed

lemma spearman_same_ranks: "ranks xs = ranks ys \<Longrightarrow> 3 \<le> length xs \<Longrightarrow> spearman_correlation xs ys = 1"
proof -
  assume same: "ranks xs = ranks ys" and n: "3 \<le> length xs"
  have "(\<Sum>(x, y) \<leftarrow> zip l l. (x - y)\<^sup>2) = (0::real)" for l by (induction l) auto
  then show ?thesis using n by (simp add: spearman_correlation_def same Let_def)
qed

section \<open>What the weights are\<close>

definition unit_interval :: "real \<Rightarrow> bool" where
  "unit_interval x \<longleftrightarrow> 0 \<le> x \<and> x \<le> 1"

lemma py_round_int: "py_round n (of_int k) = of_int k"
proof -
  have "real_of_int k * 10 ^ n = of_int (k * 10 ^ n)" by simp
  then show ?thesis by (simp only: py_round_def round_half_even_of_int) simp
qed

lemma py_round_unit: "unit_interval x \<Longrightarrow> unit_interval (py_round 6 x)"
  using py_round_mono [of 0 x 6] py_round_mono [of x 1 6] py_round_int [of 6 0] py_round_int [of 6 1]
  by (simp add: unit_interval_def)

lemma active_nonneg: "(f, v) \<in> set (active_factors th raw) \<Longrightarrow> 0 \<le> v"
  by (auto simp: active_factors_def)

lemma active_sum: "\<forall>(f, v) \<in> set l. 0 \<le> v \<Longrightarrow> (f, v) \<in> set l \<Longrightarrow> v \<le> (sum_list (map snd l) :: real)"
  by (rule member_le_sum_list) (force intro: image_eqI)+

text \<open>the shares before rounding add up to one\<close>
lemma share_sum: "0 < t \<Longrightarrow> (\<Sum>(k, v) \<leftarrow> l. v / t) = sum_list (map snd l) / (t :: real)"
  by (induction l) (auto simp: add_divide_distrib)

lemma rounding_gap:
  "\<bar>sum_list (map (\<lambda>x. py_round 6 (g x)) l) - sum_list (map g l)\<bar> \<le> real (length l) / (2 * 10 ^ 6)"
proof (induction l)
  case (Cons x l)
  let ?r = "sum_list (map (\<lambda>x. py_round 6 (g x)) l)" and ?s = "sum_list (map g l)"
  have "\<bar>(py_round 6 (g x) + ?r) - (g x + ?s)\<bar> \<le> \<bar>py_round 6 (g x) - g x\<bar> + \<bar>?r - ?s\<bar>" by linarith
  also have "\<dots> \<le> 1 / (2 * 10 ^ 6) + real (length l) / (2 * 10 ^ 6)"
    by (rule add_mono [OF py_round_near Cons.IH])
  also have "\<dots> = real (length (x # l)) / (2 * 10 ^ 6)" by (simp add: add_divide_distrib)
  finally show ?case by simp
qed simp

lemma raw_length: "length (active_factors th (raw_factors recent)) \<le> 2"
  unfolding active_factors_def length_map by (rule order_trans [OF length_filter_le]) (simp add: raw_factors_def)

text \<open>C22: Both information coefficients lie between -1 and 1, every published weight lies between 0 and 1, and the
  weights add up to 1 up to their rounding to six decimals, whatever the trades and the threshold.\<close>
theorem weights_are_a_distribution:
  "list_all (\<lambda>(f, ic). \<bar>ic\<bar> \<le> 1) (raw_factors recent)
   \<and> list_all (\<lambda>(f, w). unit_interval w) (factor_weights th (raw_factors recent))
   \<and> \<bar>sum_list (map snd (factor_weights th (raw_factors recent))) - 1\<bar> \<le> 1 / 10 ^ 6"
proof -
  let ?a = "active_factors th (raw_factors recent)"
  let ?t = "sum_list (map snd ?a)"
  have ics: "list_all (\<lambda>(f, ic). \<bar>ic\<bar> \<le> 1) (raw_factors recent)"
    by (simp add: raw_factors_def spearman_between momentum_signals_def)
  show ?thesis
  proof (cases "?t \<le> 0")
    case True
    then show ?thesis using ics by (simp add: factor_weights_def Let_def unit_interval_def)
  next
    case False
    have ws: "factor_weights th (raw_factors recent) = map (\<lambda>(k, v). (k, py_round 6 (v / ?t))) ?a"
      using False by (simp add: factor_weights_def Let_def)
    have "unit_interval (v / ?t)" if "(k, v) \<in> set ?a" for k v
      using that False active_nonneg [OF that] active_sum [OF _ that] active_nonneg
      by (auto simp: unit_interval_def)
    then have 1: "list_all (\<lambda>(f, w). unit_interval w) (factor_weights th (raw_factors recent))"
      unfolding ws by (auto simp: list_all_iff intro: py_round_unit)
    have "map snd (factor_weights th (raw_factors recent)) = map (\<lambda>(k, v). py_round 6 (v / ?t)) ?a"
      unfolding ws by auto
    then have "\<bar>sum_list (map snd (factor_weights th (raw_factors recent))) - (\<Sum>(k, v) \<leftarrow> ?a. v / ?t)\<bar> \<le> real (length ?a) / (2 * 10 ^ 6)"
      using rounding_gap [of "\<lambda>(k, v). v / ?t" ?a] by (simp add: case_prod_unfold)
    also have "\<dots> \<le> 1 / 10 ^ 6" using raw_length [of th recent] by simp
    finally have "\<bar>sum_list (map snd (factor_weights th (raw_factors recent))) - 1\<bar> \<le> 1 / 10 ^ 6"
      using False share_sum [of ?t ?a] by simp
    then show ?thesis using ics 1 by blast
  qed
qed

section \<open>Without a database\<close>

definition composite_only :: "(string \<times> real) list" where
  "composite_only = [(''composite_score'', 1)]"

definition even_split :: "(string \<times> real) list" where
  "even_split = [(''composite_score'', 1 / 2), (''momentum'', 1 / 2)]"

lemma half_rounds: "py_round 6 (1 / 2) = 1 / 2"
  by (simp add: py_round_def round_half_even_def)

text \<open>a score that never changes has the ranks of the order of arrival, and so has its momentum\<close>
lemma constant_factors:
  assumes "set (map fst recent) \<subseteq> {c}"
  shows "snd (raw_factors recent ! 1) = snd (raw_factors recent ! 0)"
proof -
  have "map fst recent = replicate (length recent) c"
    using assms by (intro nth_equalityI) (auto dest!: nth_mem)
  moreover have "sorted (replicate n x)" for n and x :: real by (induction n) auto
  ultimately have "ranks (map fst recent) = ranks (momentum_signals (map fst recent))"
    by (simp add: momentum_signals_def ranks_sorted map_replicate)
  moreover have "length (momentum_signals (map fst recent)) = length (map fst recent)"
    by (simp add: momentum_signals_def)
  ultimately show ?thesis
    by (simp only: raw_factors_def spearman_correlation_def) simp
qed

lemma constant_weights:
  assumes "set (map fst recent) \<subseteq> {c}"
  shows "factor_weights th (raw_factors recent) \<in> {composite_only, even_split}"
proof -
  obtain v where raw: "raw_factors recent = [(''composite_score'', v), (''momentum'', v)]"
    using constant_factors [OF assms] by (auto simp: raw_factors_def)
  show ?thesis
    by (cases "v \<le> 0"; cases "\<bar>v\<bar> > th")
      (auto simp: raw factor_weights_def active_factors_def composite_only_def even_split_def half_rounds Let_def max_def)
qed

lemma composite_dominates:
  "dominant_factor (weights_dict composite_only) = Some ''composite_score''"
  "dominant_factor (weights_dict even_split) = Some ''composite_score''"
  by (simp_all add: dominant_factor_def weights_dict_def composite_only_def even_split_def py_float_def)

definition ic_run :: "(ic_env \<times> pydict) list \<Rightarrow> ic_updater \<Rightarrow> ic_updater" where
  "ic_run msgs s = fold (\<lambda>(e, data) t. snd (ic_process e data t)) msgs s"

definition memory_mode :: "(pyval \<Rightarrow> string option) \<Rightarrow> ic_env \<Rightarrow> bool" where
  "memory_mode dumps e \<longleftrightarrow> \<not> hv_db_up (iv_beat e) \<and> be_dumps (iv_bus e) = dumps"

definition fresh_updater :: ic_updater where
  "fresh_updater = \<lparr>iu_bus = empty_bus, iu_beats = \<lparr>hb_store = empty_store, hb_redis = [], hb_rows = [], hb_instances = []\<rparr>,
     iu_fills = 0, iu_buffer = [], iu_closes = [], iu_weights = None, iu_history = []\<rparr>"

lemma iu_frames [simp]:
  "iu_buffer (iu_publish e st ev s) = iu_buffer s" "iu_weights (iu_publish e st ev s) = iu_weights s"
  "iu_buffer (iu_heartbeat e l x s) = iu_buffer s" "iu_weights (iu_heartbeat e l x s) = iu_weights s"
  "iu_buffer (persist_factor_ic e f v s) = iu_buffer s" "iu_weights (persist_factor_ic e f v s) = iu_weights s"
  "iu_buffer (record_factor e u w p s) = iu_buffer s" "iu_weights (record_factor e u w p s) = iu_weights s"
  by (simp_all add: iu_publish_def iu_heartbeat_def persist_factor_ic_def record_factor_def)

definition neutral :: "(pyval \<Rightarrow> string option) \<Rightarrow> ic_updater \<Rightarrow> bool" where
  "neutral dumps s \<longleftrightarrow> fst ` set (iu_buffer s) \<subseteq> {1 / 2}
     \<and> iu_weights s \<in> {None, dumps (weights_dict composite_only), dumps (weights_dict even_split)}"

lemma lookback_subset: "set (lookback b) \<subseteq> set b"
  by (simp add: lookback_def set_last_n)

lemma recompute_neutral:
  assumes "memory_mode dumps e" "neutral dumps s"
  shows "neutral dumps (snd (recompute_and_publish e s))"
proof -
  let ?ws = "factor_weights (iv_threshold e) (raw_factors (lookback (iu_buffer s)))"
  have "set (map fst (lookback (iu_buffer s))) \<subseteq> {1 / 2}"
    using assms(2) lookback_subset [of "iu_buffer s"] by (auto simp: neutral_def)
  then have "?ws = composite_only \<or> ?ws = even_split" using constant_weights by blast
  then show ?thesis
    using assms by (auto simp: recompute_and_publish_def neutral_def memory_mode_def Let_def split: option.splits)
qed

lemma ic_process_neutral:
  assumes "memory_mode dumps e" "neutral dumps s"
  shows "neutral dumps (snd (ic_process e data s))"
proof -
  have step: "neutral dumps (snd (fill_progress e t))" if "neutral dumps t" for t
    using that recompute_neutral [OF assms(1) that] by (simp add: fill_progress_def neutral_def)
  have half: "composite_score_of e v = 1 / 2" for v
    using assms(1) by (simp add: composite_score_of_def memory_mode_def)
  have push: "fst ` set (last_n SCORE_PNL_MAX (iu_buffer s @ [(1 / 2, pnl)])) \<subseteq> {1 / 2}" for pnl
  proof -
    have "fst ` set (last_n SCORE_PNL_MAX (iu_buffer s @ [(1 / 2, pnl)])) \<subseteq> fst ` set (iu_buffer s @ [(1 / 2, pnl)])"
      by (rule image_mono [OF set_last_n])
    also have "\<dots> \<subseteq> {1 / 2}" using assms(2) by (simp add: neutral_def)
    finally show ?thesis .
  qed
  obtain dup seen where d: "is_duplicate (be_rp (iv_bus e)) CLOSE_TRACES data (iu_closes s) = (dup, seen)"
    by (cases "is_duplicate (be_rp (iv_bus e)) CLOSE_TRACES data (iu_closes s)")
  show ?thesis
  proof (cases "float_field data ''pnl'' 0")
    case (Inl x)
    then show ?thesis using assms(2) d by (simp add: ic_process_def neutral_def snd_bnd Let_def)
  next
    case (Inr pnl)
    let ?t = "s\<lparr>iu_closes := seen, iu_fills := Suc (iu_fills s),
        iu_buffer := last_n SCORE_PNL_MAX (iu_buffer s @ [(1 / 2, pnl)])\<rparr>"
    have "neutral dumps ?t" using push [of pnl] assms(2) by (simp add: neutral_def)
    from step [OF this] show ?thesis
      using assms(2) d Inr by (simp add: ic_process_def snd_bnd Let_def half neutral_def)
  qed
qed

lemma ic_run_neutral:
  "list_all (\<lambda>(e, data). memory_mode dumps e) msgs \<Longrightarrow> neutral dumps s \<Longrightarrow> neutral dumps (ic_run msgs s)"
  by (induction msgs arbitrary: s) (auto simp: ic_run_def ic_process_neutral)

text \<open>Without a database no score is ever known, so the weights never leave two constants, whatever is traded: the
  composite score always dominates, and the reasoning agent finds a sale aligned exactly when its confidence is at most
  one half.\<close>
theorem memory_mode_never_learns_weights:
  assumes "list_all (\<lambda>(e, data). memory_mode dumps e) msgs"
  shows "case iu_weights (ic_run msgs fresh_updater) of None \<Rightarrow> True
     | Some t \<Rightarrow> \<exists>w. dumps (weights_dict w) = Some t \<and> w \<in> {composite_only, even_split}
         \<and> ic_aligns ''sell'' (weights_dict w) [(''confidence'', PFloat c)] = Inr (c \<le> 1 / 2)"
proof -
  have start: "neutral dumps fresh_updater" by (simp add: neutral_def fresh_updater_def)
  have sale: "ic_aligns ''sell'' (weights_dict w) [(''confidence'', PFloat c)] = Inr (c \<le> 1 / 2)"
    if "w \<in> {composite_only, even_split}" for w
  proof -
    have "dominant_factor (weights_dict w) = Some ''composite_score''" using that composite_dominates by auto
    then show ?thesis
      by (simp add: ic_aligns_def py_or_def py_get_def dget_def truthy_def py_float_def py_lower_def lower_char_def)
  qed
  from ic_run_neutral [OF assms start] show ?thesis
    unfolding neutral_def using sale by (auto split: option.splits)
qed

definition ic_env0 :: ic_env where
  "ic_env0 = \<lparr>iv_bus = bus_env0\<lparr>be_dumps := (\<lambda>v. Some (if v = weights_dict even_split then ''even'' else ''other''))\<rparr>,
     iv_beat = \<lparr>hv_now = 0, hv_iso = ''t'', hv_db_up = False, hv_redis_fails = False, hv_db_fails = False\<rparr>,
     iv_uuid = (\<lambda>n. nat_str n), iv_every = 3, iv_threshold = 5 / 100, iv_stored_score = (\<lambda>_. Inr None),
     iv_signed = (\<lambda>_. ''0''), iv_set_fails = False, iv_insert_fails = False\<rparr>"

definition three_closes :: "(ic_env \<times> pydict) list" where
  "three_closes = map (\<lambda>(t, p). (ic_env0, [(''trace_id'', PStr t), (''pnl'', PFloat p)])) [(''a'', -5), (''b'', 0), (''c'', 7)]"

theorem memory_mode_never_learns_weights_witness:
  "iu_weights (ic_run three_closes fresh_updater) = Some ''even'' \<and> (case iu_weights (ic_run three_closes fresh_updater) of None \<Rightarrow> True
     | Some t \<Rightarrow> \<exists>w. be_dumps (iv_bus ic_env0) (weights_dict w) = Some t \<and> w \<in> {composite_only, even_split}
         \<and> ic_aligns ''sell'' (weights_dict w) [(''confidence'', PFloat (9 / 10))] = Inr ((9 / 10 :: real) \<le> 1 / 2))"
proof
  show "iu_weights (ic_run three_closes fresh_updater) = Some ''even''" by code_simp
qed (rule memory_mode_never_learns_weights, simp add: three_closes_def memory_mode_def ic_env0_def)

text \<open>Trades with one and the same score, closed with ever larger profits, get a perfect information coefficient:
  equal scores are ranked by their order of arrival.\<close>
theorem equal_scores_correlate_with_time:
  assumes "3 \<le> length pnls" "sorted pnls"
  shows "spearman_correlation (replicate (length pnls) score) pnls = 1"
proof -
  have "sorted (replicate n score)" for n by (induction n) auto
  then show ?thesis using assms by (simp add: spearman_same_ranks ranks_sorted)
qed

theorem equal_scores_correlate_with_time_witness:
  "spearman_correlation (replicate 3 (1 / 2)) [-5, 0, 7] = 1"
  using equal_scores_correlate_with_time [of "[-5, 0, 7]" "1 / 2"] by (simp add: numeral_3_eq_3)

end
