(* ===== verification/Prompt_Store.thy ===== *)
theory Prompt_Store
  imports Py_Prelude Effects
begin

text \<open>
  The adaptive directive (\<open>api/services/prompt_store.py\<close>): the learned block of guidance below the constitution, one
  record and a capped history per node, kept as JSON in Redis. A text is a list of lines; line breaks beyond ASCII
  are not modelled. JSON, the clock and the failures of Redis are parameters.
\<close>

section \<open>Lines\<close>

definition is_break :: "char \<Rightarrow> bool" where
  "is_break c = (c \<in> {CHR 0x0A, CHR 0x0B, CHR 0x0C, CHR 0x0D, CHR 0x1C, CHR 0x1D, CHR 0x1E})"

text \<open>a carriage return and a line feed are one break\<close>
fun crlf :: "string \<Rightarrow> string" where
  "crlf (c # d # cs) = (if c = CHR 0x0D \<and> d = CHR 0x0A then d # crlf cs else c # crlf (d # cs))"
| "crlf cs = cs"

text \<open>\<open>line\<close> is what has been read of the current line, last character first\<close>
fun lines_from :: "string \<Rightarrow> string \<Rightarrow> string list" where
  "lines_from line [] = (if line = [] then [] else [rev line])"
| "lines_from line (c # cs) = (if is_break c then rev line # lines_from [] cs else lines_from (c # line) cs)"

definition splitlines :: "string \<Rightarrow> string list" where
  "splitlines s = lines_from [] (crlf s)"

fun unsplit :: "string list \<Rightarrow> string" where
  "unsplit [] = []"
| "unsplit [l] = l"
| "unsplit (l # l' # ls) = l @ CHR 0x0A # unsplit (l' # ls)"

section \<open>Promotion advisories\<close>

definition apostrophe :: char where "apostrophe = CHR 0x27"

definition promoted :: string where "promoted = ''Promoted strategy '' @ [apostrophe]"

text \<open>\<open>^Promoted strategy '([^']+)':\<close>\<close>
definition advisory_strategy :: "string \<Rightarrow> string option" where
  "advisory_strategy line =
     (if \<not> is_prefix promoted line then None
      else let rest = drop (length promoted) line; name = takeWhile (\<lambda>c. c \<noteq> apostrophe) rest
           in if name \<noteq> [] \<and> is_prefix [apostrophe, CHR '':''] (drop (length name) rest) then Some name else None)"

text \<open>whether a later line is an advisory for the same strategy\<close>
definition superseded :: "string \<Rightarrow> string list \<Rightarrow> bool" where
  "superseded line later = (case advisory_strategy (py_strip line) of None \<Rightarrow> False
     | Some name \<Rightarrow> Some name \<in> (\<lambda>l. advisory_strategy (py_strip l)) ` set later)"

fun newest_advisories :: "string list \<Rightarrow> string list" where
  "newest_advisories [] = []"
| "newest_advisories (l # ls) = (if superseded l ls then newest_advisories ls else l # newest_advisories ls)"

definition dedupe_promotion_advisories :: "string \<Rightarrow> string" where
  "dedupe_promotion_advisories s = unsplit (newest_advisories (splitlines s))"

section \<open>The store\<close>

datatype directive_call = PD_read | PD_reread | PD_push | PD_trim | PD_set | PD_range

record prompt_env =
  pd_loads :: "string \<Rightarrow> pyval option"
  pd_dumps :: "pyval \<Rightarrow> string"
  pd_rp :: "pyval \<Rightarrow> string"
  pd_now :: string
  pd_fails :: "directive_call \<Rightarrow> bool"

record prompt_store =
  pk_active :: "(string \<times> string) list"
  pk_history :: "(string \<times> string list) list"

type_synonym 'a prun = "(prompt_store, 'a) eff"

definition PROMPT_DIRECTIVE_HISTORY_CAP :: nat where "PROMPT_DIRECTIVE_HISTORY_CAP = 20"

definition heal :: "pyval \<Rightarrow> pyval" where
  "heal v = (case v of PDict d \<Rightarrow> (case py_get d ''text'' of
       PStr t \<Rightarrow> PDict (dset ''text'' (PStr (dedupe_promotion_advisories t)) d) | _ \<Rightarrow> v) | _ \<Rightarrow> v)"

text \<open>\<open>call\<close>: which of the reads this one is\<close>
definition get_directive :: "prompt_env \<Rightarrow> directive_call \<Rightarrow> string \<Rightarrow> prompt_store \<Rightarrow> pyval" where
  "get_directive e call node s =
     (if pd_fails e call then PNone
      else case map_of (pk_active s) node of
        None \<Rightarrow> PNone
      | Some raw \<Rightarrow> if raw = [] then PNone else case pd_loads e raw of None \<Rightarrow> PNone | Some v \<Rightarrow> heal v)"

definition get_active_text :: "prompt_env \<Rightarrow> string \<Rightarrow> prompt_store \<Rightarrow> pyval pyres" where
  "get_active_text e node s =
     res_bind (dict_or_empty (get_directive e PD_read node s)) (\<lambda>d. Inr (py_or (py_get d ''text'') PNone))"

definition write_directive :: "prompt_env \<Rightarrow> string \<Rightarrow> pyval option \<Rightarrow> pydict \<Rightarrow> prompt_store \<Rightarrow> prompt_store" where
  "write_directive e node prev new_record s =
     (let push = (\<lambda>raw s. s\<lparr>pk_history := dset node (raw # dget (pk_history s) node []) (pk_history s)\<rparr>);
          trim = (\<lambda>s. s\<lparr>pk_history := dset node (take PROMPT_DIRECTIVE_HISTORY_CAP (dget (pk_history s) node [])) (pk_history s)\<rparr>);
          set_active = (\<lambda>s. if pd_fails e PD_set then s
             else s\<lparr>pk_active := dset node (pd_dumps e (PDict new_record)) (pk_active s)\<rparr>)
      in case prev of None \<Rightarrow> set_active s
         | Some p \<Rightarrow> if pd_fails e PD_push then s
             else if pd_fails e PD_trim then push (pd_dumps e p) s
             else set_active (trim (push (pd_dumps e p) s)))"

definition directive_record :: "prompt_env \<Rightarrow> string \<Rightarrow> string \<Rightarrow> int \<Rightarrow> string \<Rightarrow> string \<Rightarrow> pydict" where
  "directive_record e node txt version rationale source =
     [(''node'', PStr node), (''text'', PStr txt), (''version'', PInt version), (''rationale'', PStr rationale),
      (''source'', PStr source), (''updated_at'', PStr (pd_now e))]"

definition set_directive ::
  "prompt_env \<Rightarrow> string \<Rightarrow> string \<Rightarrow> string \<Rightarrow> string \<Rightarrow> bool \<Rightarrow> pyval prun" where
  "set_directive e node txt rationale source bump_version s =
     (let prev = get_directive e PD_reread node s
      in bnd (lift_res (dict_or_empty prev)) (\<lambda>d.
         if prev \<noteq> PNone \<and> py_strip txt = py_strip (py_str (pd_rp e) (py_or (py_get d ''text'') (PStr []))) then ret prev
         else let in_place = prev \<noteq> PNone \<and> \<not> bump_version
              in bnd (lift_res (py_int (dget d ''version'' (PInt 0)))) (\<lambda>v.
                 let new_record = directive_record e node txt (max (v + (if in_place then 0 else 1)) 1) rationale source
                 in andthen (modify (write_directive e node (if truthy prev \<and> \<not> in_place then Some prev else None) new_record))
                      (ret (PDict new_record)))) s)"

definition list_history :: "prompt_env \<Rightarrow> string \<Rightarrow> nat \<Rightarrow> prompt_store \<Rightarrow> pyval list" where
  "list_history e node limit s =
     (if pd_fails e PD_range then []
      else List.map_filter (pd_loads e) (take limit (dget (pk_history s) node [])))"

section \<open>A promoted strategy\<close>

definition REASONING_NODE :: string where "REASONING_NODE = ''reasoning''"

definition stale_prefix :: "string \<Rightarrow> string" where
  "stale_prefix strategy = promoted @ strategy @ [apostrophe, CHR '':'']"

definition stale :: "string \<Rightarrow> string \<Rightarrow> bool" where
  "stale strategy line = is_prefix (stale_prefix strategy) (py_strip line)"

definition promoted_text :: "string \<Rightarrow> string \<Rightarrow> string \<Rightarrow> string" where
  "promoted_text strategy advisory current =
     py_strip (unsplit (filter (\<lambda>l. \<not> stale strategy l) (splitlines current) @ [advisory]))"

definition promotion_rationale :: "string \<Rightarrow> string" where
  "promotion_rationale strategy = ''operator-approved challenger promotion: '' @ strategy"

text \<open>\<open>_bias_directive_toward\<close> with a store installed: the new record, or None when there is nothing to change\<close>
definition bias_directive_toward :: "prompt_env \<Rightarrow> string \<Rightarrow> string \<Rightarrow> string \<Rightarrow> pyval option prun" where
  "bias_directive_toward e source strategy advisory s =
     (case get_active_text e REASONING_NODE s of
        Inl x \<Rightarrow> (Inl x, s)
      | Inr v \<Rightarrow>
         (case py_or v (PStr []) of
            PStr current \<Rightarrow>
              let had_prior = list_ex (stale strategy) (splitlines current);
                  new_text = promoted_text strategy advisory current
              in if new_text = py_strip current then (Inr None, s)
                 else bnd (set_directive e REASONING_NODE new_text (promotion_rationale strategy)
                        source (\<not> had_prior)) (\<lambda>r. ret (Some r)) s
          | _ \<Rightarrow> (Inl AttributeError, s)))"

section \<open>Lines and blanks\<close>

text \<open>the lines without their margins and without the blank ones\<close>
definition gist :: "string list \<Rightarrow> string list" where
  "gist ls = filter (\<lambda>l. l \<noteq> []) (map py_strip ls)"

definition one_line :: "string \<Rightarrow> bool" where
  "one_line l \<longleftrightarrow> list_all (\<lambda>c. \<not> is_break c) l"

lemma gist_simps [simp]:
  "gist [] = []" "gist (l # ls) = (if py_strip l = [] then gist ls else py_strip l # gist ls)"
  "gist (ls @ ls') = gist ls @ gist ls'"
  by (simp_all add: gist_def)

lemma break_space: "is_break c \<Longrightarrow> is_space c"
  by (auto simp: is_break_def is_space_def)

lemma strip_Nil [simp]: "py_strip [] = []"
  by (simp add: py_strip_def)

lemma strip_front: "is_space c \<Longrightarrow> py_strip (c # l) = py_strip l"
  by (simp add: py_strip_def)

lemma strip_back: "is_space c \<Longrightarrow> py_strip (l @ [c]) = py_strip l"
  by (induction l) (auto simp: py_strip_def dropWhile_append)

lemma gist_crlf: "gist (lines_from line (crlf s)) = gist (lines_from line s)"
  by (induction s arbitrary: line rule: crlf.induct) (auto simp: is_break_def)

lemma gist_front: "is_space c \<Longrightarrow> gist (lines_from (line @ [c]) s) = gist (lines_from line s)"
proof (induction s arbitrary: line)
  case (Cons a s)
  then show ?case using Cons.IH [of "a # line"] strip_front [of c "rev line"] by simp
qed (simp add: strip_front)

lemma gist_back: "is_space c \<Longrightarrow> gist (lines_from line (s @ [c])) = gist (lines_from line s)"
  by (induction s arbitrary: line) (auto simp: strip_back)

lemma gist_drop: "gist (lines_from [] (dropWhile is_space s)) = gist (lines_from [] s)"
  by (induction s) (auto simp: gist_front [of _ "[]", simplified] dest: break_space)

lemma gist_rdrop: "gist (lines_from [] (rev (dropWhile is_space (rev s)))) = gist (lines_from [] s)"
  by (induction s rule: rev_induct) (auto simp: gist_back)

text \<open>stripping a text changes no line but the blank ones and the margins\<close>
lemma gist_strip: "gist (splitlines (py_strip s)) = gist (splitlines s)"
  by (simp add: splitlines_def gist_crlf py_strip_def gist_rdrop gist_drop)

lemma lines_one_line: "list_all (\<lambda>c. \<not> is_break c) line \<Longrightarrow> list_all one_line (lines_from line s)"
  by (induction s arbitrary: line) (auto simp: one_line_def)

lemma splitlines_one_line: "list_all one_line (splitlines s)"
  by (simp add: splitlines_def lines_one_line)

lemma crlf_id: "CHR 0x0D \<notin> set s \<Longrightarrow> crlf s = s"
  by (induction s rule: crlf.induct) auto

lemma lines_from_append: "one_line l \<Longrightarrow> lines_from line (l @ s) = lines_from (rev l @ line) s"
  by (induction l arbitrary: line) (auto simp: one_line_def)

lemma join_no_cr: "list_all one_line ls \<Longrightarrow> CHR 0x0D \<notin> set (unsplit ls)"
  by (induction ls rule: unsplit.induct) (auto simp: one_line_def list_all_iff is_break_def)

text \<open>a last line that is empty is lost\<close>
lemma splitlines_join:
  assumes "list_all one_line ls"
  shows "splitlines (unsplit ls) = (if ls \<noteq> [] \<and> last ls = [] then butlast ls else ls)"
proof -
  have "lines_from [] (unsplit ls) = (if ls \<noteq> [] \<and> last ls = [] then butlast ls else ls)"
    using assms
  proof (induction ls rule: unsplit.induct)
    case (2 l)
    then show ?case using lines_from_append [of l "[]" "[]"] by auto
  next
    case (3 l l' ls)
    then show ?case using lines_from_append [of l "[]" "CHR 0x0A # unsplit (l' # ls)"]
      by (auto simp: is_break_def)
  qed simp
  then show ?thesis using assms by (simp add: splitlines_def crlf_id join_no_cr)
qed

lemma gist_filter_stale: "gist (filter (\<lambda>l. \<not> stale p l) ls) = filter (\<lambda>l. \<not> is_prefix (stale_prefix p) l) (gist ls)"
  by (induction ls) (auto simp: stale_def stale_prefix_def promoted_def)

lemma list_all_filter: "list_all P xs \<Longrightarrow> list_all P (filter Q xs)"
  by (auto simp: list_all_iff)

text \<open>the other guidance stays, and the strategy has exactly its new line\<close>
lemma gist_promoted:
  assumes "one_line advisory" "py_strip advisory \<noteq> []"
  shows "gist (splitlines (promoted_text p advisory current))
     = filter (\<lambda>l. \<not> is_prefix (stale_prefix p) l) (gist (splitlines current)) @ [py_strip advisory]"
proof -
  let ?kept = "filter (\<lambda>l. \<not> stale p l) (splitlines current)"
  have "list_all one_line (?kept @ [advisory])"
    using assms(1) splitlines_one_line [of current] by (simp add: list_all_filter)
  moreover have "advisory \<noteq> []" using assms(2) by auto
  ultimately have "splitlines (unsplit (?kept @ [advisory])) = ?kept @ [advisory]" by (simp add: splitlines_join)
  then show ?thesis using assms(2) by (simp add: promoted_text_def gist_strip gist_filter_stale)
qed

section \<open>Promotions\<close>

lemma strip_cases:
  obtains "py_strip s = []" "list_all is_space s"
  | l r where "s = l @ py_strip s @ r" "py_strip s \<noteq> []" "\<not> is_space (hd (py_strip s))" "\<not> is_space (last (py_strip s))"
proof -
  let ?d = "dropWhile is_space s"
  have s: "s = takeWhile is_space s @ ?d" by simp
  have d: "rev ?d = takeWhile is_space (rev ?d) @ dropWhile is_space (rev ?d)" by simp
  then have d': "?d = py_strip s @ rev (takeWhile is_space (rev ?d))"
    unfolding py_strip_def by (metis rev_append rev_rev_ident)
  show thesis
  proof (cases "?d = []")
    case True
    then have "list_all is_space s" by (simp add: dropWhile_eq_Nil_conv list_all_iff)
    moreover have "py_strip s = []" using True by (simp add: py_strip_def del: dropWhile_eq_Nil_conv)
    ultimately show thesis using that(1) by blast
  next
    case False
    have h: "\<not> is_space (hd ?d)" by (rule hd_dropWhile [OF False])
    have "dropWhile is_space (rev ?d) \<noteq> []"
    proof
      assume "dropWhile is_space (rev ?d) = []"
      then have "list_all is_space ?d" by (simp add: dropWhile_eq_Nil_conv list_all_iff)
      then show False using h False by (cases ?d) auto
    qed
    then have ne: "py_strip s \<noteq> []" and l: "\<not> is_space (last (py_strip s))"
      using hd_dropWhile [of is_space "rev ?d"] by (auto simp: py_strip_def last_rev dropWhile_eq_Nil_conv)
    have "hd (py_strip s) = hd ?d" using d' ne by (metis hd_append2)
    then show thesis using that(2) [of "takeWhile is_space s" "rev (takeWhile is_space (rev ?d))"] s d' h l ne by auto
  qed
qed

text \<open>text with no margin\<close>
definition tight :: "string \<Rightarrow> bool" where
  "tight s \<longleftrightarrow> s \<noteq> [] \<and> \<not> is_space (hd s) \<and> \<not> is_space (last s)"

lemma strip_tight: "tight s \<Longrightarrow> py_strip s = s"
proof -
  assume "tight s"
  then have "dropWhile is_space s = s" "dropWhile is_space (rev s) = rev s"
    by (auto simp: tight_def dropWhile_eq_self_iff hd_rev)
  then show ?thesis by (simp add: py_strip_def)
qed

lemma strip_strip [simp]: "py_strip (py_strip s) = py_strip s"
proof (cases s rule: strip_cases)
  case (2 l r)
  then show ?thesis by (intro strip_tight) (simp add: tight_def)
qed simp

text \<open>the lines that are left of \<open>ls\<close> when the margin of the joined text goes\<close>
fun trim_first :: "string list \<Rightarrow> string list" where
  "trim_first [] = []"
| "trim_first (l # ls) = (if dropWhile is_space l = [] then trim_first ls else dropWhile is_space l # ls)"

lemma join_Cons: "ls \<noteq> [] \<Longrightarrow> unsplit (l # ls) = l @ CHR 0x0A # unsplit ls"
  by (cases ls) auto

lemma join_snoc_last: "l \<noteq> [] \<Longrightarrow> unsplit (ls @ [l]) \<noteq> [] \<and> last (unsplit (ls @ [l])) = last l"
  by (induction ls) (auto simp: join_Cons)

lemma drop_join: "tight a \<Longrightarrow> dropWhile is_space (unsplit (ls @ [a])) = unsplit (trim_first ls @ [a])"
proof (induction ls)
  case Nil
  then show ?case by (cases a) (auto simp: tight_def)
next
  case (Cons l ls)
  have nl: "is_space (CHR 0x0A)" by (simp add: is_space_def)
  show ?case
  proof (cases "dropWhile is_space l = []")
    case True
    then have "\<forall>c \<in> set l. is_space c" by (simp add: dropWhile_eq_Nil_conv)
    then show ?thesis using Cons True nl by (simp add: join_Cons dropWhile_append2)
  next
    case False
    then obtain c where c: "c \<in> set l" "\<not> is_space c" by (auto simp: dropWhile_eq_Nil_conv)
    then have "dropWhile is_space (l @ r) = dropWhile is_space l @ r" for r by (rule dropWhile_append1)
    moreover have "trim_first (l # ls) = dropWhile is_space l # ls" using False by (simp only: trim_first.simps if_False)
    ultimately show ?thesis by (simp add: join_Cons del: trim_first.simps)
  qed
qed

lemma strip_join: "tight a \<Longrightarrow> py_strip (unsplit (ls @ [a])) = unsplit (trim_first ls @ [a])"
proof -
  assume a: "tight a"
  let ?j = "unsplit (trim_first ls @ [a])"
  have "?j \<noteq> []" "last ?j = last a" using a join_snoc_last [of a "trim_first ls"] by (auto simp: tight_def)
  then have "dropWhile is_space (rev ?j) = rev ?j"
    using a by (auto simp: dropWhile_eq_self_iff hd_rev tight_def)
  then show ?thesis using a by (simp add: py_strip_def drop_join)
qed

lemma strip_dropWhile: "py_strip (dropWhile is_space l) = py_strip l"
  by (simp add: py_strip_def)

lemma trim_first_keeps:
  "list_all (\<lambda>l. \<not> stale p l) ls \<Longrightarrow> list_all (\<lambda>l. \<not> stale p l) (trim_first ls)"
  "list_all one_line ls \<Longrightarrow> list_all one_line (trim_first ls)"
  by (induction ls) (auto simp: stale_def strip_dropWhile one_line_def list_all_iff dest: set_dropWhileD)

lemma newest_snoc: "\<exists>ls'. newest_advisories (ls @ [a]) = ls' @ [a] \<and> set ls' \<subseteq> set ls"
proof (induction ls)
  case Nil
  then show ?case by (auto simp: superseded_def split: option.splits)
next
  case (Cons l ls)
  then obtain ls' where "newest_advisories (ls @ [a]) = ls' @ [a]" "set ls' \<subseteq> set ls" by blast
  then show ?case by (cases "superseded l (ls @ [a])") (auto intro: exI [of _ "l # ls'"])
qed

text \<open>what the applier writes for a strategy: one line with the strategy's prefix and no margin\<close>
definition advisory_for :: "string \<Rightarrow> string \<Rightarrow> bool" where
  "advisory_for p a \<longleftrightarrow> one_line a \<and> tight a \<and> is_prefix (stale_prefix p) a"

text \<open>a promoted text, read back and promoted again, is the text that was read back\<close>
lemma promoted_twice:
  assumes "advisory_for p a"
  shows "promoted_text p a (dedupe_promotion_advisories (promoted_text p a current))
     = py_strip (dedupe_promotion_advisories (promoted_text p a current))"
proof -
  let ?kept = "filter (\<lambda>l. \<not> stale p l) (splitlines current)"
  let ?t = "dedupe_promotion_advisories (promoted_text p a current)"
  have a: "a \<noteq> []" "one_line a" "tight a" "stale p a"
    using assms by (auto simp: advisory_for_def tight_def stale_def strip_tight)
  have kept: "list_all (\<lambda>l. \<not> stale p l) (trim_first ?kept)" "list_all one_line (trim_first ?kept)"
    by (rule trim_first_keeps(1), simp add: list_all_iff)
       (rule trim_first_keeps(2), rule list_all_filter, rule splitlines_one_line)
  have sp: "splitlines (promoted_text p a current) = trim_first ?kept @ [a]"
    unfolding promoted_text_def strip_join [OF a(3)] using kept(2) a by (subst splitlines_join) auto
  obtain ls where ls: "newest_advisories (trim_first ?kept @ [a]) = ls @ [a]" "set ls \<subseteq> set (trim_first ?kept)"
    using newest_snoc [of "trim_first ?kept" a] by blast
  have plain: "list_all one_line ls" "list_all (\<lambda>l. \<not> stale p l) ls" using kept ls(2) unfolding list_all_iff by blast+
  have t: "?t = unsplit (ls @ [a])" by (simp add: dedupe_promotion_advisories_def sp ls(1))
  have "splitlines ?t = ls @ [a]" unfolding t using plain(1) a by (subst splitlines_join) auto
  then have "filter (\<lambda>l. \<not> stale p l) (splitlines ?t) = ls"
    using plain(2) a(4) by (simp add: list_all_iff filter_id_conv)
  then show ?thesis unfolding promoted_text_def [of p a ?t] by (simp add: t)
qed

definition redis_answers :: "prompt_env \<Rightarrow> bool" where
  "redis_answers e \<longleftrightarrow> pd_fails e = (\<lambda>_. False)"

definition readable :: "prompt_env \<Rightarrow> pyval \<Rightarrow> bool" where
  "readable e v \<longleftrightarrow> pd_dumps e v \<noteq> [] \<and> pd_loads e (pd_dumps e v) = Some v"

lemma get_directive_quiet: "redis_answers e \<Longrightarrow> get_directive e c n s = get_directive e PD_read n s"
  by (simp add: get_directive_def redis_answers_def)

text \<open>the text that the store and the applier both read off a record\<close>
definition text_of :: "pyval \<Rightarrow> pyval" where
  "text_of v = (case v of PDict d \<Rightarrow> py_or (py_get d ''text'') (PStr []) | _ \<Rightarrow> PStr [])"

lemma dict_or_empty_cases:
  assumes "dict_or_empty v = Inr d"
  shows "py_or (py_get d k) x = (case v of PDict d' \<Rightarrow> py_or (py_get d' k) x | _ \<Rightarrow> x)"
  using assms by (auto simp: dict_or_empty_def py_or_def py_get_def dget_def split: if_splits pyval.splits)

lemma py_or_None: "py_or (py_or v PNone) (PStr []) = py_or v (PStr [])"
  by (simp add: py_or_def)

lemma py_or_falsy [simp]: "\<not> truthy v \<Longrightarrow> py_or v w = w"
  by (simp add: py_or_def)

lemma active_text:
  "get_active_text e n s = Inr v \<Longrightarrow> py_or v (PStr []) = text_of (get_directive e PD_read n s)"
  by (auto simp: get_active_text_def text_of_def res_bind_def py_or_None dict_or_empty_cases
      split: sum.splits pyval.splits)

lemma write_active:
  "redis_answers e \<Longrightarrow> map_of (pk_active (write_directive e n prev r s)) n = Some (pd_dumps e (PDict r))"
  by (simp add: write_directive_def redis_answers_def Let_def split: option.splits)

lemma write_history:
  "redis_answers e \<Longrightarrow> dget (pk_history (write_directive e n prev r s)) n [] = (case prev of None \<Rightarrow> dget (pk_history s) n []
     | Some p \<Rightarrow> take PROMPT_DIRECTIVE_HISTORY_CAP (pd_dumps e p # dget (pk_history s) n []))"
  by (simp add: write_directive_def redis_answers_def Let_def dget_def split: option.splits)

text \<open>a promotion that writes\<close>
lemma bias_writes:
  assumes q: "redis_answers e" and run: "bias_directive_toward e src p a s = (Inr (Some r), s')"
  obtains current v d had where "text_of (get_directive e PD_read REASONING_NODE s) = PStr current"
    "dict_or_empty (get_directive e PD_read REASONING_NODE s) = Inr d"
    "py_int (dget d ''version'' (PInt 0)) = Inr v" "had = list_ex (stale p) (splitlines current)"
    "r = PDict (directive_record e REASONING_NODE (promoted_text p a current)
        (max (v + (if get_directive e PD_read REASONING_NODE s \<noteq> PNone \<and> had then 0 else 1)) 1)
        (promotion_rationale p) src)"
    "promoted_text p a current \<noteq> py_strip current"
    "map_of (pk_active s') REASONING_NODE = Some (pd_dumps e r)"
    "dget (pk_history s') REASONING_NODE [] = (if truthy (get_directive e PD_read REASONING_NODE s) \<and> \<not> had
       then take PROMPT_DIRECTIVE_HISTORY_CAP (pd_dumps e (get_directive e PD_read REASONING_NODE s) # dget (pk_history s) REASONING_NODE [])
       else dget (pk_history s) REASONING_NODE [])"
proof -
  let ?prev = "get_directive e PD_read REASONING_NODE s"
  obtain v0 current where v0: "get_active_text e REASONING_NODE s = Inr v0" "py_or v0 (PStr []) = PStr current"
    using run by (auto simp: bias_directive_toward_def split: sum.splits pyval.splits)
  have tx: "text_of ?prev = PStr current" using active_text [OF v0(1)] v0(2) by simp
  let ?new = "promoted_text p a current" and ?had = "list_ex (stale p) (splitlines current)"
  have new: "?new \<noteq> py_strip current"
    and wr: "set_directive e REASONING_NODE ?new (promotion_rationale p) src (\<not> ?had) s = (Inr r, s')"
    using run v0 by (auto simp: bias_directive_toward_def Let_def bnd_def split: if_splits prod.splits sum.splits)
  obtain d where d: "dict_or_empty ?prev = Inr d"
    using wr by (auto simp: set_directive_def get_directive_quiet [OF q, of PD_reread] bnd_def Let_def split: sum.splits)
  have "py_or (py_get d ''text'') (PStr []) = PStr current"
    using tx by (simp add: dict_or_empty_cases [OF d] text_of_def split: pyval.splits)
  moreover have "py_strip ?new = ?new" by (simp add: promoted_text_def)
  ultimately have early: "py_strip ?new \<noteq> py_strip (py_str (pd_rp e) (py_or (py_get d ''text'') (PStr [])))" using new by simp
  obtain v where v: "py_int (dget d ''version'' (PInt 0)) = Inr v"
    using wr d early by (auto simp: set_directive_def get_directive_quiet [OF q, of PD_reread] bnd_def Let_def split: sum.splits)
  let ?rec = "directive_record e REASONING_NODE ?new (max (v + (if ?prev \<noteq> PNone \<and> ?had then 0 else 1)) 1)
        (promotion_rationale p) src"
  have r: "r = PDict ?rec"
    and s': "s' = write_directive e REASONING_NODE (if truthy ?prev \<and> \<not> (?prev \<noteq> PNone \<and> ?had) then Some ?prev else None) ?rec s"
    using wr d early v by (simp_all add: set_directive_def get_directive_quiet [OF q, of PD_reread] Let_def)
  have h: "dget (pk_history s') REASONING_NODE [] = (if truthy ?prev \<and> \<not> ?had
       then take PROMPT_DIRECTIVE_HISTORY_CAP (pd_dumps e ?prev # dget (pk_history s) REASONING_NODE [])
       else dget (pk_history s) REASONING_NODE [])"
    unfolding s' write_history [OF q] by (cases "?prev = PNone") auto
  have "map_of (pk_active s') REASONING_NODE = Some (pd_dumps e r)" unfolding s' r by (rule write_active [OF q])
  then show thesis using that [OF tx d v refl r new _ h] by simp
qed

text \<open>A promotion made twice changes nothing the second time: no version, no history entry, no write.\<close>
theorem promotion_is_idempotent:
  assumes "advisory_for p a" "redis_answers e" "bias_directive_toward e src p a s = (Inr (Some r), s')" "readable e r"
  shows "bias_directive_toward e src p a s' = (Inr None, s')"
proof -
  obtain current v d had where w: "r = PDict (directive_record e REASONING_NODE (promoted_text p a current) v
        (promotion_rationale p) src)"
    "map_of (pk_active s') REASONING_NODE = Some (pd_dumps e r)"
    using bias_writes [OF assms(2,3)] by metis
  let ?t = "dedupe_promotion_advisories (promoted_text p a current)"
  obtain d where d: "get_directive e PD_read REASONING_NODE s' = PDict d" "py_get d ''text'' = PStr ?t" "d \<noteq> []"
    using w assms(2,4) by (auto simp: get_directive_def redis_answers_def readable_def heal_def directive_record_def py_get_def dget_def)
  then have "get_active_text e REASONING_NODE s' = Inr (py_or (PStr ?t) PNone)"
    by (simp add: get_active_text_def dict_or_empty_def)
  then show ?thesis
    using promoted_twice [OF assms(1), of current] by (cases "?t = []") (simp_all add: bias_directive_toward_def py_or_def Let_def)
qed

text \<open>A promotion replaces the strategy's own line and touches no other guidance; the version moves, and the
  history grows, only when the strategy had no line before.\<close>
theorem promotion_replaces_its_own_line:
  assumes "advisory_for p a" "redis_answers e" "bias_directive_toward e src p a s = (Inr (Some r), s')"
    and "get_directive e PD_read REASONING_NODE s = PDict d" "py_get d ''text'' = PStr t" "py_get d ''version'' = PInt v" "1 \<le> v"
  shows "\<exists>t' d'. r = PDict d' \<and> py_get d' ''text'' = PStr t'
     \<and> gist (splitlines t') = filter (\<lambda>l. \<not> is_prefix (stale_prefix p) l) (gist (splitlines t)) @ [a]
     \<and> py_get d' ''version'' = PInt (if list_ex (stale p) (splitlines t) then v else v + 1)
     \<and> dget (pk_history s') REASONING_NODE [] = (if list_ex (stale p) (splitlines t) then dget (pk_history s) REASONING_NODE []
         else take 20 (pd_dumps e (PDict d) # dget (pk_history s) REASONING_NODE []))"
proof -
  obtain current u d0 had where w: "text_of (PDict d) = PStr current" "dict_or_empty (PDict d) = Inr d0"
    "py_int (dget d0 ''version'' (PInt 0)) = Inr u" "had = list_ex (stale p) (splitlines current)"
    "r = PDict (directive_record e REASONING_NODE (promoted_text p a current) (max (u + (if PDict d \<noteq> PNone \<and> had then 0 else 1)) 1)
        (promotion_rationale p) src)"
    "dget (pk_history s') REASONING_NODE [] = (if truthy (PDict d) \<and> \<not> had
       then take PROMPT_DIRECTIVE_HISTORY_CAP (pd_dumps e (PDict d) # dget (pk_history s) REASONING_NODE [])
       else dget (pk_history s) REASONING_NODE [])"
    using bias_writes [OF assms(2,3)] unfolding assms(4) by metis
  have c: "current = t" using w(1) assms(5) by (simp add: text_of_def py_or_def split: if_splits)
  have d: "d \<noteq> []" using assms(5) by (auto simp: py_get_def dget_def)
  have u: "u = v" using w(2,3) assms(6) d by (auto simp: dict_or_empty_def py_get_def dget_def split: option.splits)
  have a: "one_line a" "py_strip a = a" "py_strip a \<noteq> []"
    using assms(1) strip_tight [of a] by (auto simp: advisory_for_def tight_def)
  show ?thesis
    using gist_promoted [OF a(1,3), of p t] w(4-6) c u d assms(7) a(2)
    by (auto simp: directive_record_def py_get_def dget_def PROMPT_DIRECTIVE_HISTORY_CAP_def)
qed

text \<open>When the directive cannot be read for a moment, a promotion erases it: the text becomes the promotion line
  alone, and the lost guidance enters no history.\<close>
theorem unreadable_directive_is_erased:
  assumes "pd_fails e PD_read" "pd_fails e PD_reread" "\<not> pd_fails e PD_set" "tight a"
  shows "\<exists>s'. bias_directive_toward e src p a s
       = (Inr (Some (PDict (directive_record e REASONING_NODE a 1 (promotion_rationale p) src))), s')
     \<and> map_of (pk_active s') REASONING_NODE
       = Some (pd_dumps e (PDict (directive_record e REASONING_NODE a 1 (promotion_rationale p) src)))
     \<and> pk_history s' = pk_history s"
proof -
  have none: "get_directive e PD_read n s = PNone" "get_directive e PD_reread n s = PNone" for n
    using assms by (simp_all add: get_directive_def)
  have empty: "splitlines [] = []" by (simp add: splitlines_def)
  have "promoted_text p a [] = a" by (simp add: promoted_text_def empty strip_tight assms(4))
  moreover have "a \<noteq> []" using assms(4) by (simp add: tight_def)
  ultimately show ?thesis
    using assms(3) by (simp add: bias_directive_toward_def get_active_text_def none dict_or_empty_def py_or_def py_get_def dget_def
        empty set_directive_def write_directive_def Let_def bnd_def ret_def lift_res_def andthen_def modify_def)
qed

section \<open>Concrete inputs\<close>

definition line0 :: "string \<Rightarrow> string" where
  "line0 x = stale_prefix ''m'' @ '' '' @ x"

text \<open>a codec for records that differ in their text only\<close>
definition prompt_env0 :: prompt_env where
  "prompt_env0 = \<lparr>
     pd_loads = (\<lambda>t. Some (PDict [(''node'', PStr REASONING_NODE), (''text'', PStr t), (''version'', PInt 1),
        (''rationale'', PStr (promotion_rationale ''m'')), (''source'', PStr ''A''), (''updated_at'', PStr ''t0'')])),
     pd_dumps = (\<lambda>v. case text_of v of PStr t \<Rightarrow> t | _ \<Rightarrow> []), pd_rp = (\<lambda>_. []), pd_now = ''t0'', pd_fails = (\<lambda>_. False)\<rparr>"

definition prompt0 :: prompt_store where
  "prompt0 = \<lparr>pk_active = [], pk_history = []\<rparr>"

definition prompt1 :: prompt_store where
  "prompt1 = snd (bias_directive_toward prompt_env0 ''A'' ''m'' (line0 ''x'') prompt0)"

definition record0 :: "string \<Rightarrow> pydict" where
  "record0 t = directive_record prompt_env0 REASONING_NODE t 1 (promotion_rationale ''m'') ''A''"

lemma promotions0:
  "bias_directive_toward prompt_env0 ''A'' ''m'' (line0 ''x'') prompt0 = (Inr (Some (PDict (record0 (line0 ''x'')))), prompt1)"
  "fst (bias_directive_toward prompt_env0 ''A'' ''m'' (line0 ''y'') prompt1) = Inr (Some (PDict (record0 (line0 ''y''))))"
  "advisory_for ''m'' (line0 ''x'')" "advisory_for ''m'' (line0 ''y'')"
  "get_directive prompt_env0 PD_read REASONING_NODE prompt1 = PDict (record0 (line0 ''x''))"
  by code_simp+

theorem promotion_is_idempotent_witness:
  "bias_directive_toward prompt_env0 ''A'' ''m'' (line0 ''x'') prompt1 = (Inr None, prompt1)"
proof (rule promotion_is_idempotent [OF promotions0(3) _ promotions0(1)])
  show "readable prompt_env0 (PDict (record0 (line0 ''x'')))" by code_simp
qed (simp add: redis_answers_def prompt_env0_def)

theorem promotion_replaces_its_own_line_witness:
  "\<exists>t' d'. PDict (record0 (line0 ''y'')) = PDict d' \<and> py_get d' ''text'' = PStr t'
     \<and> gist (splitlines t') = [line0 ''y''] \<and> py_get d' ''version'' = PInt 1"
proof -
  obtain s' where run: "bias_directive_toward prompt_env0 ''A'' ''m'' (line0 ''y'') prompt1 = (Inr (Some (PDict (record0 (line0 ''y'')))), s')"
    using promotions0(2) by (metis prod.collapse)
  have "filter (\<lambda>l. \<not> is_prefix (stale_prefix ''m'') l) (gist (splitlines (line0 ''x''))) @ [line0 ''y''] = [line0 ''y'']"
    "list_ex (stale ''m'') (splitlines (line0 ''x''))" by code_simp+
  moreover have "redis_answers prompt_env0" by (simp add: redis_answers_def prompt_env0_def)
  moreover have "py_get (record0 t) ''text'' = PStr t" "py_get (record0 t) ''version'' = PInt 1" for t
    by (simp_all add: record0_def directive_record_def py_get_def dget_def)
  ultimately show ?thesis
    using promotion_replaces_its_own_line [OF promotions0(4) _ run promotions0(5), of "line0 ''x''" 1] by (auto; force)
qed

theorem unreadable_directive_is_erased_witness:
  "let e = prompt_env0\<lparr>pd_fails := (\<lambda>c. c \<in> {PD_read, PD_reread})\<rparr>;
       r = PDict (directive_record e REASONING_NODE (line0 ''x'') 1 (promotion_rationale ''m'') ''A'')
   in \<exists>s'. bias_directive_toward e ''A'' ''m'' (line0 ''x'') prompt1 = (Inr (Some r), s')
     \<and> map_of (pk_active s') REASONING_NODE = Some (pd_dumps e r) \<and> pk_history s' = pk_history prompt1"
proof -
  have "tight (line0 ''x'')" using promotions0(3) by (simp add: advisory_for_def)
  then show ?thesis unfolding Let_def by (intro unreadable_directive_is_erased) simp_all
qed

end
