(* ===== verification/Challenger_Store.thy ===== *)
theory Challenger_Store
  imports Py_Prelude Effects
begin

text \<open>
  The shadow track record of a strategy (\<open>api/services/challenger_store.py\<close>), one Redis hash per strategy, and the
  spawner that starts challengers (\<open>api/services/challenger_spawner.py\<close>) under its two guards. JSON of number lists,
  the clock, fresh ids and the failures of Redis are parameters; the spawner's calls run one after another.
\<close>

section \<open>The track record\<close>

definition CHALLENGER_PERF_PNL_CAP :: nat where "CHALLENGER_PERF_PNL_CAP = 1000"

record track_env =
  kt_dumps :: "real list \<Rightarrow> string"
  kt_loads :: "string \<Rightarrow> pyval option"
  kt_now :: string
  kt_fails :: bool

type_synonym tracks = "(string \<times> (string \<times> string) list) list"

record track =
  kr_pnls :: "real list"
  kr_baseline :: "real list"
  kr_emitted :: bool
  kr_graduated :: bool
  kr_graduated_at :: "string option"
  kr_updated_at :: "string option"

text \<open>\<open>HSET\<close>\<close>
definition hset :: "string \<Rightarrow> (string \<times> string) list \<Rightarrow> tracks \<Rightarrow> tracks" where
  "hset strategy fs ts = dset strategy (dmerge (dget ts strategy []) fs) ts"

definition save_performance :: "track_env \<Rightarrow> string \<Rightarrow> real list \<Rightarrow> real list \<Rightarrow> bool \<Rightarrow> tracks \<Rightarrow> tracks" where
  "save_performance e strategy own_pnls baseline_pnls proposal_emitted ts =
     (if strategy = [] \<or> kt_fails e then ts
      else hset strategy [(''pnls'', kt_dumps e (last_n CHALLENGER_PERF_PNL_CAP own_pnls)),
          (''baseline_pnls'', kt_dumps e (last_n CHALLENGER_PERF_PNL_CAP baseline_pnls)),
          (''proposal_emitted'', if proposal_emitted then ''1'' else ''0''), (''updated_at'', kt_now e)] ts)"

definition mark_graduated :: "track_env \<Rightarrow> string \<Rightarrow> tracks \<Rightarrow> tracks" where
  "mark_graduated e strategy ts =
     (if strategy = [] \<or> kt_fails e then ts
      else hset strategy [(''graduated'', ''1''), (''graduated_at'', kt_now e)] ts)"

fun float_list :: "pyval list \<Rightarrow> real list" where
  "float_list [] = []"
| "float_list (v # vs) = (case py_float v of Inl _ \<Rightarrow> float_list vs | Inr x \<Rightarrow> x # float_list vs)"

definition parse_floats :: "track_env \<Rightarrow> string option \<Rightarrow> real list" where
  "parse_floats e raw = (case raw of None \<Rightarrow> [] | Some t \<Rightarrow>
     if t = [] then [] else case kt_loads e t of Some (PList vs) \<Rightarrow> float_list vs | _ \<Rightarrow> [])"

definition some_text :: "string option \<Rightarrow> string option" where
  "some_text v = (if v = Some [] then None else v)"

definition coerce_record :: "track_env \<Rightarrow> (string \<times> string) list \<Rightarrow> track option" where
  "coerce_record e raw =
     (if raw = [] then None
      else Some \<lparr>kr_pnls = parse_floats e (map_of raw ''pnls''), kr_baseline = parse_floats e (map_of raw ''baseline_pnls''),
        kr_emitted = (map_of raw ''proposal_emitted'' = Some ''1''), kr_graduated = (map_of raw ''graduated'' = Some ''1''),
        kr_graduated_at = some_text (map_of raw ''graduated_at''), kr_updated_at = some_text (map_of raw ''updated_at'')\<rparr>)"

definition load_track :: "track_env \<Rightarrow> string \<Rightarrow> tracks \<Rightarrow> track option" where
  "load_track e strategy ts =
     (if strategy = [] \<or> kt_fails e then None else coerce_record e (dget ts strategy []))"

section \<open>The spawner\<close>

definition MAX_CONCURRENT_CHALLENGERS :: nat where "MAX_CONCURRENT_CHALLENGERS = 3"
definition DEFAULT_MAX_FILLS :: int where "DEFAULT_MAX_FILLS = 20"

record challenger_row =
  kc_id :: string
  kc_instance :: string
  kc_config :: pyval
  kc_running :: bool
  kc_max_fills :: int

record spawn_env =
  sw_rp :: "pyval \<Rightarrow> string"
  sw_id :: string
  sw_instance :: string
  sw_now :: string
  sw_start :: "py_exc option"

type_synonym fleet = "challenger_row list"

definition running_challengers :: "fleet \<Rightarrow> fleet" where
  "running_challengers f = filter kc_running f"

definition strategy_of :: "(pyval \<Rightarrow> string) \<Rightarrow> pyval \<Rightarrow> string pyres" where
  "strategy_of rp config = res_bind (dict_or_empty config) (\<lambda>d. Inr (py_str rp (py_or (py_get d ''strategy'') (PStr []))))"

text \<open>the first running challenger of the strategy; a configuration that is no dictionary raises\<close>
fun same_strategy :: "(pyval \<Rightarrow> string) \<Rightarrow> string \<Rightarrow> fleet \<Rightarrow> challenger_row option pyres" where
  "same_strategy rp strategy [] = Inr None"
| "same_strategy rp strategy (c # cs) = res_bind (strategy_of rp (kc_config c))
     (\<lambda>s. if s = strategy then Inr (Some c) else same_strategy rp strategy cs)"

definition descriptor :: "spawn_env \<Rightarrow> challenger_row \<Rightarrow> string \<Rightarrow> pydict" where
  "descriptor e c status = [(''challenger_id'', PStr (kc_id c)), (''instance_id'', PStr (kc_instance c)),
     (''consumer'', PStr (''challenger-'' @ kc_id c)), (''max_fills'', PInt (kc_max_fills c)), (''status'', PStr status),
     (''timestamp'', PStr (sw_now e))]"

definition new_challenger :: "spawn_env \<Rightarrow> pyval \<Rightarrow> int option \<Rightarrow> challenger_row" where
  "new_challenger e config max_fills = \<lparr>kc_id = sw_id e, kc_instance = sw_instance e,
     kc_config = (if truthy config then config else PDict []), kc_running = True,
     kc_max_fills = (case max_fills of None \<Rightarrow> DEFAULT_MAX_FILLS | Some n \<Rightarrow> if n = 0 then DEFAULT_MAX_FILLS else n)\<rparr>"

definition capacity_refusal :: "spawn_env \<Rightarrow> nat \<Rightarrow> pydict" where
  "capacity_refusal e running = [(''status'', PStr ''capacity''),
     (''reason'', PStr (nat_str running @ '' challengers already running (cap '' @ nat_str MAX_CONCURRENT_CHALLENGERS @ '')'')),
     (''timestamp'', PStr (sw_now e))]"

text \<open>\<open>start()\<close> may raise; then the challenger is not added\<close>
definition launch :: "spawn_env \<Rightarrow> challenger_row \<Rightarrow> (fleet, pydict) eff" where
  "launch e c = (case sw_start e of Some x \<Rightarrow> throw x
     | None \<Rightarrow> andthen (modify (\<lambda>f. f @ [c])) (ret (descriptor e c ''spawned'')))"

definition spawn :: "spawn_env \<Rightarrow> pyval \<Rightarrow> int option \<Rightarrow> (fleet, pydict) eff" where
  "spawn e challenger_config max_fills f =
     (let running = running_challengers f
      in bnd (lift_res (strategy_of (sw_rp e) challenger_config)) (\<lambda>strategy.
         bnd (lift_res (if strategy = [] then Inr None else same_strategy (sw_rp e) strategy running)) (\<lambda>existing.
         case existing of Some c \<Rightarrow> ret (descriptor e c ''already_running'')
         | None \<Rightarrow>
           if length running \<ge> MAX_CONCURRENT_CHALLENGERS then ret (capacity_refusal e (length running))
           else launch e (new_challenger e challenger_config max_fills))) f)"

text \<open>a challenger retires or crashes\<close>
definition stop_challenger :: "string \<Rightarrow> fleet \<Rightarrow> fleet" where
  "stop_challenger cid f = map (\<lambda>c. if kc_id c = cid then c\<lparr>kc_running := False\<rparr> else c) f"

section \<open>One writer's fields survive the other's\<close>

lemma map_of_merge: "map_of (dmerge a b) k = (case map_of (rev b) k of None \<Rightarrow> map_of a k | Some v \<Rightarrow> Some v)"
proof (induction b arbitrary: a)
  case (Cons p b)
  then show ?case by (cases p) (auto simp: dmerge_def map_add_def split: option.splits)
qed (simp add: dmerge_def)

lemma merge_nonempty: "b \<noteq> [] \<Longrightarrow> dmerge a b \<noteq> []"
proof
  assume "b \<noteq> []" "dmerge a b = []"
  moreover obtain k where "map_of (rev b) k \<noteq> None" using \<open>b \<noteq> []\<close>
    by (metis fst_conv image_eqI list.set_intros(1) map_of_eq_None_iff neq_Nil_conv rev_is_Nil_conv)
  ultimately show False using map_of_merge [of a b k] by auto
qed

text \<open>JSON of a list of numbers, read back\<close>
definition number_codec :: "track_env \<Rightarrow> real list \<Rightarrow> bool" where
  "number_codec e xs \<longleftrightarrow> kt_dumps e xs \<noteq> [] \<and> kt_loads e (kt_dumps e xs) = Some (PList (map PFloat xs))"

lemma float_list_floats [simp]: "float_list (map PFloat xs) = xs"
  by (induction xs) (auto simp: py_float_def)

lemma dget_hset: "dget (hset s fs ts) s [] = dmerge (dget ts s []) fs"
  by (simp add: hset_def dget_def)

text \<open>A challenger that restarts resumes the record it saved, whether or not the strategy was graduated in between:
  the last thousand profits of both engines and the promotion latch.\<close>
theorem track_record_survives_a_restart:
  assumes "strategy \<noteq> []" "\<not> kt_fails e"
    and "number_codec e (last_n CHALLENGER_PERF_PNL_CAP own)" "number_codec e (last_n CHALLENGER_PERF_PNL_CAP base)"
  shows "case load_track e strategy ((if graduated then mark_graduated e strategy else (\<lambda>t. t)) (save_performance e strategy own base emitted ts)) of
      None \<Rightarrow> False
    | Some t \<Rightarrow> kr_pnls t = last_n CHALLENGER_PERF_PNL_CAP own \<and> kr_baseline t = last_n CHALLENGER_PERF_PNL_CAP base
        \<and> kr_emitted t = emitted
        \<and> kr_graduated t = (graduated \<or> map_of (dget ts strategy []) ''graduated'' = Some ''1'')"
proof -
  have base: "load_track e strategy t = coerce_record e (dget t strategy [])" for t
    using assms(1,2) by (simp add: load_track_def)
  show ?thesis
    using assms merge_nonempty
    by (cases graduated) (auto simp: base save_performance_def mark_graduated_def dget_hset coerce_record_def map_of_merge
        parse_floats_def number_codec_def split: option.splits)
qed

section \<open>The guards of the spawner\<close>

text \<open>the named strategies of the running challengers; the configuration of a spawned challenger is a dictionary\<close>
definition running_strategies :: "(pyval \<Rightarrow> string) \<Rightarrow> fleet \<Rightarrow> string list" where
  "running_strategies rp f = filter (\<lambda>s. s \<noteq> [])
     (map (\<lambda>c. case strategy_of rp (kc_config c) of Inl _ \<Rightarrow> [] | Inr s \<Rightarrow> s) (running_challengers f))"

inductive fleet_life :: "(pyval \<Rightarrow> string) \<Rightarrow> fleet \<Rightarrow> bool" for rp where
  no_challenger: "fleet_life rp []"
| spawned: "fleet_life rp f \<Longrightarrow> sw_rp e = rp \<Longrightarrow> fleet_life rp (snd (spawn e config max_fills f))"
| stopped: "fleet_life rp f \<Longrightarrow> fleet_life rp (stop_challenger cid f)"

lemma same_strategy_None:
  "same_strategy rp s f = Inr None \<Longrightarrow> c \<in> set f \<Longrightarrow> strategy_of rp (kc_config c) \<noteq> Inr s"
proof (induction f)
  case (Cons c' f)
  then show ?case by (cases "strategy_of rp (kc_config c')") (auto split: if_splits)
qed simp

lemma running_snoc: "kc_running c \<Longrightarrow> running_challengers (f @ [c]) = running_challengers f @ [c]"
  by (simp add: running_challengers_def)

lemma strategy_of_default: "strategy_of rp (if truthy v then v else PDict []) = strategy_of rp v"
  by (simp add: strategy_of_def dict_or_empty_def)

lemma spawn_cases:
  obtains "snd (spawn e config n f) = f"
  | c s where "snd (spawn e config n f) = f @ [c]" "kc_running c" "strategy_of (sw_rp e) (kc_config c) = Inr s"
      "s = [] \<or> same_strategy (sw_rp e) s (running_challengers f) = Inr None"
      "length (running_challengers f) < MAX_CONCURRENT_CHALLENGERS"
proof (cases "strategy_of (sw_rp e) config")
  case (Inl x)
  then show ?thesis using that(1) by (simp add: spawn_def Let_def snd_bnd)
next
  case (Inr s)
  let ?c = "new_challenger e config n"
  have c: "kc_running ?c" "strategy_of (sw_rp e) (kc_config ?c) = Inr s"
    using Inr strategy_of_default [of "sw_rp e" config] by (simp_all add: new_challenger_def)
  have l: "snd (launch e ?c f) = f \<or> snd (launch e ?c f) = f @ [?c]" by (cases "sw_start e") (simp_all add: launch_def)
  show ?thesis
  proof (cases "if s = [] then Inr None else same_strategy (sw_rp e) s (running_challengers f)")
    case (Inl x)
    then show ?thesis using Inr that(1) by (simp add: spawn_def Let_def snd_bnd)
  next
    case r: (Inr r)
    then have free: "r = None \<Longrightarrow> s = [] \<or> same_strategy (sw_rp e) s (running_challengers f) = Inr None"
      by (simp split: if_splits)
    have "snd (spawn e config n f) = (case r of Some c' \<Rightarrow> f | None \<Rightarrow>
        if length (running_challengers f) \<ge> MAX_CONCURRENT_CHALLENGERS then f else snd (launch e ?c f))"
      using Inr r by (cases r) (simp_all add: spawn_def Let_def snd_bnd)
    then show ?thesis using that(1) that(2) [OF _ c] free l by (cases r) (auto split: if_splits)
  qed
qed

lemma stop_running: "running_challengers (stop_challenger cid f) = filter (\<lambda>c. kc_id c \<noteq> cid) (running_challengers f)"
  by (induction f) (auto simp: running_challengers_def stop_challenger_def)

lemma distinct_sub: "distinct (filter R (map g xs)) \<Longrightarrow> distinct (filter R (map g (filter Q xs)))"
  by (induction xs) auto

text \<open>C26: However challengers are spawned and stopped, no strategy ever has two running challengers, and no more than
  three run at once.\<close>
theorem fleet_stays_within_its_guards:
  assumes "fleet_life rp f"
  shows "distinct (running_strategies rp f) \<and> length (running_challengers f) \<le> MAX_CONCURRENT_CHALLENGERS"
  using assms
proof induction
  case (spawned f e config max_fills)
  show ?case
  proof (cases rule: spawn_cases [of e config max_fills f])
    case (2 c s)
    let ?name = "\<lambda>c. case strategy_of rp (kc_config c) of Inl _ \<Rightarrow> [] | Inr s \<Rightarrow> s"
    have "s \<noteq> [] \<Longrightarrow> s \<notin> ?name ` set (running_challengers f)"
      using 2(4) same_strategy_None [of rp s "running_challengers f"] spawned(2) by (auto split: sum.splits)
    then show ?thesis using spawned 2 by (auto simp: running_strategies_def running_snoc)
  qed (use spawned in simp)
next
  case (stopped f cid)
  have "length (filter (\<lambda>c. kc_id c \<noteq> cid) (running_challengers f)) \<le> MAX_CONCURRENT_CHALLENGERS"
    using stopped.IH length_filter_le order_trans by blast
  then show ?case
    using stopped.IH by (simp add: running_strategies_def stop_running distinct_sub)
qed (simp_all add: running_strategies_def running_challengers_def)

section \<open>Concrete inputs\<close>

definition track_env0 :: track_env where
  "track_env0 = \<lparr>kt_dumps = (\<lambda>xs. if xs = [5, -2] then ''a'' else ''b''),
     kt_loads = (\<lambda>t. Some (PList (if t = ''a'' then [PFloat 5, PFloat (-2)] else []))), kt_now = ''t0'', kt_fails = False\<rparr>"

theorem track_record_survives_a_restart_witness:
  "case load_track track_env0 ''m'' (mark_graduated track_env0 ''m'' (save_performance track_env0 ''m'' [5, -2] [] True [])) of
      None \<Rightarrow> False
    | Some t \<Rightarrow> kr_pnls t = [5, -2] \<and> kr_baseline t = [] \<and> kr_emitted t \<and> kr_graduated t"
proof -
  have codec: "number_codec track_env0 (last_n CHALLENGER_PERF_PNL_CAP [5, -2])" "number_codec track_env0 (last_n CHALLENGER_PERF_PNL_CAP [])"
    "\<not> kt_fails track_env0" "last_n CHALLENGER_PERF_PNL_CAP [5, -2] = [5, -2 :: real]" "last_n CHALLENGER_PERF_PNL_CAP [] = ([] :: real list)"
    by (simp_all add: number_codec_def track_env0_def last_n_def CHALLENGER_PERF_PNL_CAP_def)
  then show ?thesis
    using track_record_survives_a_restart [of "''m''" track_env0 "[5, -2]" "[]" True True "[]"] by (simp split: option.splits)
qed

definition spawn_env0 :: "string \<Rightarrow> spawn_env" where
  "spawn_env0 cid = \<lparr>sw_rp = (\<lambda>_. []), sw_id = cid, sw_instance = cid, sw_now = ''t0'', sw_start = None\<rparr>"

definition fleet0 :: fleet where
  "fleet0 = fold (\<lambda>(cid, name) f. snd (spawn (spawn_env0 cid) (PDict [(''strategy'', PStr name)]) None f))
     [(''c1'', ''m''), (''c2'', ''m''), (''c3'', ''n''), (''c4'', ''o''), (''c5'', ''p'')] []"

theorem fleet_stays_within_its_guards_witness:
  "map kc_id fleet0 = [''c1'', ''c3'', ''c4''] \<and> distinct (running_strategies (\<lambda>_. []) fleet0)
   \<and> length (running_challengers fleet0) \<le> MAX_CONCURRENT_CHALLENGERS"
proof -
  have "map kc_id fleet0 = [''c1'', ''c3'', ''c4'']" by code_simp
  moreover have "fleet_life (\<lambda>_. []) fleet0"
    unfolding fleet0_def by (simp add: fleet_life.intros spawn_env0_def)
  ultimately show ?thesis using fleet_stays_within_its_guards [of "\<lambda>_. []" fleet0] by blast
qed

end
