(* ===== verification/Gitops_Publisher.thy ===== *)
theory Gitops_Publisher
  imports Param_Evolution
begin

text \<open>
  Pull requests for parameter changes (\<open>api/services/gitops_publisher.py\<close>): what is asked of GitHub, as the list
  of its writing requests, for any answers of the service. The titles and bodies that a person reads, base64 and
  the answers are parameters of \<open>github_env\<close>.
\<close>

datatype failure = Http_status nat string | Other_failure

datatype gh_write =
    Create_branch string string
  | Put_file string string string "string option"
  | Open_pr string string
  | Post_issue string string "string list"

record github_env =
  gh_enabled :: bool
  gh_token :: string
  gh_repo :: string
  gh_base_branch :: string
  gh_uid :: string
  gh_loads :: "string \<Rightarrow> pyval option"
  gh_dumps :: "pydict \<Rightarrow> string"
  gh_rp :: "pyval \<Rightarrow> string"
  gh_error_text :: "param_error \<Rightarrow> string"
  gh_base_sha :: "failure + string option"
  gh_file :: "failure + string \<times> string option"
  gh_create :: "failure option"
  gh_put :: "failure option"
  gh_pr :: "failure + string"
  gh_issue :: "failure + string"
  gh_repo_status :: "failure + nat"

text \<open>an answer and the writing requests that were sent, in order\<close>
type_synonym 'a ghrun = "(gh_write list, failure + 'a) eff"

definition DEFAULT_OVERRIDES_PATH :: string where
  "DEFAULT_OVERRIDES_PATH = ''config/param_overrides.json''"

definition autopr_ready :: "github_env \<Rightarrow> bool" where
  "autopr_ready e \<longleftrightarrow> gh_enabled e \<and> gh_token e \<noteq> [] \<and> gh_repo e \<noteq> []"

definition gh_status :: "string \<Rightarrow> pydict" where
  "gh_status s = [(''status'', PStr s)]"

definition gh_refusal :: "string \<Rightarrow> string \<Rightarrow> pydict" where
  "gh_refusal s reason = [(''status'', PStr s), (''reason'', PStr reason)]"

definition failure_answer :: "failure \<Rightarrow> pydict" where
  "failure_answer f = (case f of
       Http_status code detail \<Rightarrow> gh_refusal ''error'' (''github_'' @ nat_str code @ '': '' @ detail)
     | Other_failure \<Rightarrow> gh_refusal ''error'' ''github_api_error'')"

text \<open>the auto-PR may write the overrides document only\<close>
definition put_file :: "github_env \<Rightarrow> string \<Rightarrow> string \<Rightarrow> string \<Rightarrow> string option \<Rightarrow> gh_write list \<Rightarrow> failure option \<times> gh_write list" where
  "put_file e path content_text branch sha ws =
     (if path \<noteq> DEFAULT_OVERRIDES_PATH then (Some Other_failure, ws)
      else (gh_put e, ws @ [Put_file path content_text branch (if sha = Some [] then None else sha)]))"

text \<open>branch, file and pull request; the first failure ends it\<close>
definition publish_change :: "github_env \<Rightarrow> string \<Rightarrow> string \<Rightarrow> string \<Rightarrow> string option \<Rightarrow> (failure + string) \<times> gh_write list" where
  "publish_change e branch base_sha new_text file_sha =
     (let ws = [Create_branch branch base_sha] in case gh_create e of Some f \<Rightarrow> (Inl f, ws)
      | None \<Rightarrow> (case put_file e DEFAULT_OVERRIDES_PATH new_text branch file_sha ws of
          (Some f, ws) \<Rightarrow> (Inl f, ws)
        | (None, ws) \<Rightarrow> (gh_pr e, ws @ [Open_pr branch (gh_base_branch e)])))"

definition pr_branch :: "github_env \<Rightarrow> string \<Rightarrow> string" where
  "pr_branch e parameter = ''auto/param-'' @ py_lower parameter @ ''-'' @ gh_uid e"

definition pr_parameter :: "github_env \<Rightarrow> pydict \<Rightarrow> string" where
  "pr_parameter e artifact = py_strip (py_str (gh_rp e) (py_or (py_get artifact ''parameter'') (PStr [])))"

definition open_parameter_pr :: "github_env \<Rightarrow> pydict \<Rightarrow> pydict \<times> gh_write list" where
  "open_parameter_pr e artifact =
     (if \<not> autopr_ready e then (gh_status ''dry_run'', [])
      else let parameter = pr_parameter e artifact; proposed = py_get artifact ''proposed_value'';
               branch = pr_branch e parameter
      in case validate_param_change parameter proposed of
        Some err \<Rightarrow> (gh_refusal ''rejected'' (gh_error_text e err), [])
      | None \<Rightarrow> (case gh_base_sha e of Inl f \<Rightarrow> (failure_answer f, [])
        | Inr None \<Rightarrow> (gh_refusal ''error'' ''base_ref_not_found'', [])
        | Inr (Some base_sha) \<Rightarrow>
          if base_sha = [] then (gh_refusal ''error'' ''base_ref_not_found'', [])
          else (case gh_file e of Inl f \<Rightarrow> (failure_answer f, [])
          | Inr (current_text, file_sha) \<Rightarrow>
            (case apply_param_override (gh_loads e) (gh_dumps e) current_text parameter proposed of
               Inl err \<Rightarrow> (gh_refusal ''rejected'' (gh_error_text e err), [])
             | Inr new_text \<Rightarrow>
                (case publish_change e branch base_sha new_text file_sha of
                   (Inl f, ws) \<Rightarrow> (failure_answer f, ws)
                 | (Inr pr_url, ws) \<Rightarrow> ([(''status'', PStr ''opened''), (''pr_url'', PStr pr_url), (''branch'', PStr branch)], ws))))))"

definition open_feature_issue :: "github_env \<Rightarrow> string \<Rightarrow> string \<Rightarrow> string list \<Rightarrow> pydict \<times> gh_write list" where
  "open_feature_issue e title body labels =
     (if \<not> autopr_ready e then (gh_status ''dry_run'', [])
      else (case gh_issue e of Inl f \<Rightarrow> failure_answer f | Inr url \<Rightarrow> [(''status'', PStr ''opened''), (''pr_url'', PStr url)],
            [Post_issue title body labels]))"

definition missing_settings :: "github_env \<Rightarrow> string list" where
  "missing_settings e = map fst (filter (\<lambda>(name, present). \<not> present)
     [(''GITHUB_AUTOPR_ENABLED'', gh_enabled e), (''GITHUB_TOKEN'', gh_token e \<noteq> []), (''GITHUB_REPO'', gh_repo e \<noteq> [])])"

text \<open>\<open>ready\<close>, by reading requests only\<close>
definition verify_access :: "github_env \<Rightarrow> string \<times> bool" where
  "verify_access e =
     (if \<not> autopr_ready e then (''disabled'', False)
      else case gh_repo_status e of Inl _ \<Rightarrow> (''error'', False)
      | Inr status \<Rightarrow> if status \<noteq> 200 then (''error'', False)
          else (case gh_base_sha e of Inl _ \<Rightarrow> (''error'', False)
            | Inr sha \<Rightarrow> if sha \<noteq> None then (''ok'', True) else (''error'', False)))"

section \<open>What a pull request can change\<close>

definition opened_with :: "github_env \<Rightarrow> pydict \<Rightarrow> string \<Rightarrow> bool" where
  "opened_with e artifact new_text \<longleftrightarrow> autopr_ready e
     \<and> validate_param_change (pr_parameter e artifact) (py_get artifact ''proposed_value'') = None
     \<and> (case gh_file e of Inl _ \<Rightarrow> False | Inr (cur, _) \<Rightarrow>
          apply_param_override (gh_loads e) (gh_dumps e) cur (pr_parameter e artifact) (py_get artifact ''proposed_value'') = Inr new_text)"

text \<open>Whatever GitHub answers, the requests sent for a parameter change are a branch, the overrides file on that
  branch and a pull request from it, in this order and cut short by the first failure. They are sent only for a change
  that passes the bounds and gives a new text of the overrides file; a refused change leaves no branch behind.\<close>
theorem pull_request_edits_the_overrides_only:
  "case open_parameter_pr e artifact of (answer, ws) \<Rightarrow>
     ws = [] \<and> py_get answer ''status'' \<noteq> PStr ''opened''
   \<or> (\<exists>base_sha new_text sha n. opened_with e artifact new_text \<and> 1 \<le> n
       \<and> ws = take n [Create_branch (pr_branch e (pr_parameter e artifact)) base_sha,
            Put_file DEFAULT_OVERRIDES_PATH new_text (pr_branch e (pr_parameter e artifact)) sha,
            Open_pr (pr_branch e (pr_parameter e artifact)) (gh_base_branch e)]
       \<and> py_get answer ''status'' = (if n = 3 \<and> \<not> isl (gh_pr e) then PStr ''opened'' else PStr ''error''))"
proof -
  let ?p = "pr_parameter e artifact" and ?v = "py_get artifact ''proposed_value''"
  let ?b = "pr_branch e ?p"
  have st: "py_get (gh_refusal a b) ''status'' = PStr a" "py_get (gh_status a) ''status'' = PStr a"
    "py_get (failure_answer f) ''status'' = PStr ''error''" for a b f
    by (simp_all add: gh_refusal_def gh_status_def failure_answer_def split: failure.splits)
  show ?thesis
  proof (cases "\<exists>base_sha new_text file_sha cur. autopr_ready e \<and> validate_param_change ?p ?v = None
      \<and> gh_base_sha e = Inr (Some base_sha) \<and> base_sha \<noteq> [] \<and> gh_file e = Inr (cur, file_sha)
      \<and> apply_param_override (gh_loads e) (gh_dumps e) cur ?p ?v = Inr new_text")
    case True
    then obtain base_sha new_text file_sha cur where facts: "autopr_ready e" "validate_param_change ?p ?v = None"
      "gh_base_sha e = Inr (Some base_sha)" "base_sha \<noteq> []" "gh_file e = Inr (cur, file_sha)"
      "apply_param_override (gh_loads e) (gh_dumps e) cur ?p ?v = Inr new_text" by blast
    have ok: "opened_with e artifact new_text" using facts by (simp add: opened_with_def)
    let ?r = "publish_change e ?b base_sha new_text file_sha"
    have run: "open_parameter_pr e artifact = (case ?r of (Inl f, ws) \<Rightarrow> (failure_answer f, ws)
        | (Inr pr_url, ws) \<Rightarrow> ([(''status'', PStr ''opened''), (''pr_url'', PStr pr_url), (''branch'', PStr ?b)], ws))"
      using facts by (simp add: open_parameter_pr_def Let_def)
    let ?n = "if gh_create e \<noteq> None then 1 else if gh_put e \<noteq> None then 2 else 3 :: nat"
    let ?sha = "if file_sha = Some [] then None else file_sha"
    have "snd ?r = take ?n [Create_branch ?b base_sha, Put_file DEFAULT_OVERRIDES_PATH new_text ?b ?sha, Open_pr ?b (gh_base_branch e)]"
      "(\<not> isl (fst ?r)) = (?n = 3 \<and> \<not> isl (gh_pr e))"
      by (simp_all add: publish_change_def put_file_def Let_def numeral_2_eq_2 numeral_3_eq_3 split: option.splits)
    moreover have "1 \<le> ?n" by simp
    ultimately show ?thesis using ok st(3)
      unfolding run by (cases ?r; cases "fst ?r") (fastforce split: sum.splits)+
  next
    case False
    then have "snd (open_parameter_pr e artifact) = [] \<and> py_get (fst (open_parameter_pr e artifact)) ''status'' \<noteq> PStr ''opened''"
      using st by (auto simp: open_parameter_pr_def Let_def split: option.splits sum.splits)
    then show ?thesis by (simp add: case_prod_unfold)
  qed
qed

end
