(* ===== verification/Proposal_Applier.thy ===== *)
theory Proposal_Applier
  imports Prompt_Store Challenger_Store Gitops_Publisher Reasoning_Agent Strategy_Registry Trade_Scorer
begin

text \<open>
  The applier of proposals (\<open>api/services/agents/proposal_applier.py\<close>): each proposal of the learning loop becomes
  control keys in Redis, a directive, a disabled tool, a running shadow challenger, a canary strategy, a pull request
  or an issue. \<open>applier\<close> is everything a handler can change and \<open>applier_env\<close> one call's view of the outside. The
  text of an issue (\<open>proposal_brief.build_implementation_brief\<close>), number formats, ids and the clock are parameters.
\<close>

section \<open>Evidence\<close>

definition PROPOSAL_SOLID_EVIDENCE_TRADES :: int where "PROPOSAL_SOLID_EVIDENCE_TRADES = 20"
definition EMERGING_EVIDENCE_TRADES :: int where "EMERGING_EVIDENCE_TRADES = 5"

definition classify_evidence :: "int \<Rightarrow> bool \<Rightarrow> string" where
  "classify_evidence sample_size has_backtest =
     (if sample_size \<ge> PROPOSAL_SOLID_EVIDENCE_TRADES \<and> has_backtest then ''solid''
      else if sample_size \<ge> EMERGING_EVIDENCE_TRADES then ''emerging'' else ''preliminary'')"

definition brief_int :: "pyval \<Rightarrow> int" where
  "brief_int v = (case py_float v of Inl _ \<Rightarrow> 0 | Inr x \<Rightarrow> trunc_real x)"

definition evidence_is_solid :: "pydict \<Rightarrow> bool" where
  "evidence_is_solid evidence \<longleftrightarrow>
     classify_evidence (brief_int (py_get evidence ''sample_size'')) (truthy (py_get evidence ''backtest'')) = ''solid''"

definition evidence_blocks_issue :: "pyval \<Rightarrow> bool" where
  "evidence_blocks_issue evidence = (case evidence of
       PDict d \<Rightarrow> if d = [] then False
         else let sufficient = py_get d ''evidence_sufficient''
              in if sufficient \<noteq> PNone then \<not> truthy sufficient else \<not> evidence_is_solid d
     | _ \<Rightarrow> False)"

section \<open>State\<close>

datatype applier_call = PC_scale_get | PC_scale_set | PC_suspend | PC_pause | PC_reason | PC_log

record applier_env =
  pv_bus :: bus_env
  pv_beat :: beat_env
  pv_redis :: "redis_env option"
  pv_prompts :: "prompt_env option"
  pv_tracks :: "track_env option"
  pv_spawner :: "spawn_env option"
  pv_github :: github_env
  pv_prompt_auto :: bool
  pv_promotion_auto :: bool
  pv_to_canary :: bool
  pv_need_evidence :: bool
  pv_paper :: bool
  pv_uuid :: "nat \<Rightarrow> string"
  pv_clock :: "nat \<Rightarrow> real"
  pv_fixed4 :: "real \<Rightarrow> string"
  pv_fixed6 :: "real \<Rightarrow> string"
  pv_issue_body :: "string \<Rightarrow> pydict \<Rightarrow> string \<Rightarrow> string"
  pv_fails :: "applier_call \<Rightarrow> bool"

text \<open>a key with the seconds it lives\<close>
type_synonym ttl_text = "(string \<times> int) option"

record applier =
  pa_bus :: bus
  pa_beats :: beats
  pa_lists :: redis_lists
  pa_logs :: "log_row list"
  pa_tools :: tool_registry
  pa_strategies :: StrategyRegistry
  pa_prompts :: prompt_store
  pa_tracks :: tracks
  pa_fleet :: fleet
  pa_github :: "gh_write list"
  pa_scale :: ttl_text
  pa_suspended :: "(string \<times> int) list"
  pa_paused :: ttl_text
  pa_pause_reason :: ttl_text
  pa_applied_keys :: "string list"
  pa_count :: nat

type_synonym 'a arun = "(applier, 'a) eff"

abbreviation pv_rp :: "applier_env \<Rightarrow> pyval \<Rightarrow> string" where "pv_rp e \<equiv> be_rp (pv_bus e)"
abbreviation pv_iso :: "applier_env \<Rightarrow> string" where "pv_iso e \<equiv> hv_iso (pv_beat e)"

definition pfault :: "applier_env \<Rightarrow> applier_call \<Rightarrow> unit arun" where
  "pfault e c = guard_fault (pv_fails e c)"

text \<open>an operation on one part of the state\<close>
definition zoom :: "('s \<Rightarrow> 't) \<Rightarrow> ('t \<Rightarrow> 's \<Rightarrow> 's) \<Rightarrow> ('t, 'a) eff \<Rightarrow> ('s, 'a) eff" where
  "zoom g put m s = (case m (g s) of (r, t) \<Rightarrow> (r, put t s))"

definition on_prompts :: "(prompt_store, 'a) eff \<Rightarrow> 'a arun" where
  "on_prompts = zoom pa_prompts (\<lambda>t s. s\<lparr>pa_prompts := t\<rparr>)"

definition on_fleet :: "(fleet, 'a) eff \<Rightarrow> 'a arun" where
  "on_fleet = zoom pa_fleet (\<lambda>t s. s\<lparr>pa_fleet := t\<rparr>)"

definition AGENT_PROPOSAL_APPLIER :: string where "AGENT_PROPOSAL_APPLIER = ''PROPOSAL_APPLIER''"
definition SOURCE_PROPOSAL_APPLIER :: string where "SOURCE_PROPOSAL_APPLIER = ''proposal_applier''"
definition STREAM_GITHUB_PRS :: string where "STREAM_GITHUB_PRS = ''github_prs''"
definition SIGNAL_WEIGHT_SCALE_MIN :: real where "SIGNAL_WEIGHT_SCALE_MIN = 5 / 100"
definition SIGNAL_WEIGHT_REDUCTION_FACTOR :: real where "SIGNAL_WEIGHT_REDUCTION_FACTOR = 7 / 10"
definition AGENT_SUSPEND_TTL_SECONDS :: int where "AGENT_SUSPEND_TTL_SECONDS = 86400"
definition LEARNING_CONTROL_TTL_SECONDS :: int where "LEARNING_CONTROL_TTL_SECONDS = 90000"
definition TRADING_PAUSE_PROBATION_SECONDS :: int where "TRADING_PAUSE_PROBATION_SECONDS = 1800"
definition APPLIED_KEYS_MAX :: nat where "APPLIED_KEYS_MAX = 1000"

definition strategy_names :: "string list" where
  "strategy_names = [''baseline_momentum'', ''strong_only'', ''confirmed_trend'', ''mean_reversion'']"

definition int_text :: "int \<Rightarrow> string" where
  "int_text i = (if i < 0 then ''-'' @ nat_str (nat (- i)) else nat_str (nat i))"

definition arrow :: string where "arrow = [CHR 0xE2, CHR 0x86, CHR 0x92]"

section \<open>Reading the content\<close>

text \<open>\<open>content.get(k, d)\<close>\<close>
definition cget :: "pyval \<Rightarrow> string \<Rightarrow> pyval \<Rightarrow> pyval pyres" where
  "cget content k d = (case content of PDict c \<Rightarrow> Inr (dget c k d) | _ \<Rightarrow> Inl AttributeError)"

definition ctext :: "applier_env \<Rightarrow> pyval \<Rightarrow> string \<Rightarrow> string pyres" where
  "ctext e content k = res_bind (cget content k PNone) (\<lambda>v. Inr (py_str (pv_rp e) (py_or v (PStr []))))"

section \<open>Control keys\<close>

text \<open>the stored scale; a text that is no number counts as 1\<close>
definition current_scale :: "ttl_text \<Rightarrow> real" where
  "current_scale raw = (case raw of None \<Rightarrow> 1 | Some (t, _) \<Rightarrow> (case float_of_string t of None \<Rightarrow> 1 | Some x \<Rightarrow> x))"

definition reduced_scale :: "real \<Rightarrow> real" where
  "reduced_scale current = max (current * SIGNAL_WEIGHT_REDUCTION_FACTOR) SIGNAL_WEIGHT_SCALE_MIN"

text \<open>the scale before and after\<close>
definition reduce_scale :: "applier_env \<Rightarrow> (real \<times> real) arun" where
  "reduce_scale e = andthen (pfault e PC_scale_get)
     (bnd (gets (\<lambda>s. current_scale (pa_scale s))) (\<lambda>current.
      andthen (pfault e PC_scale_set)
        (andthen (modify (\<lambda>s. s\<lparr>pa_scale := Some (pv_fixed6 e (reduced_scale current), LEARNING_CONTROL_TTL_SECONDS)\<rparr>))
          (ret (current, reduced_scale current)))))"

definition apply_signal_weight_reduction :: "applier_env \<Rightarrow> pyval \<Rightarrow> pydict option arun" where
  "apply_signal_weight_reduction e content =
     bnd (reduce_scale e) (\<lambda>(current, new_scale).
     bnd (lift_res (cget content ''reason'' (PStr []))) (\<lambda>reason.
     ret (Some [(''message'', PStr (''signal_weight_scale '' @ pv_fixed4 e current @ '' -> '' @ pv_fixed4 e new_scale)),
       (''weight_scale'', PFloat (py_round 6 new_scale)), (''previous_scale'', PFloat (py_round 6 current)), (''reason'', reason)])))"

definition suspension_target :: "applier_env \<Rightarrow> pyval \<Rightarrow> pyval pyres" where
  "suspension_target e content =
     res_bind (cget content ''agent_name'' PNone) (\<lambda>a. if truthy a then Inr a else
     res_bind (cget content ''agent'' PNone) (\<lambda>b. if truthy b then Inr b else
     res_bind (cget content ''target_agent'' PNone) (\<lambda>c. Inr (if truthy c then c else PStr AGENT_REASONING))))"

definition apply_agent_suspension :: "applier_env \<Rightarrow> pyval \<Rightarrow> pydict option arun" where
  "apply_agent_suspension e content =
     bnd (lift_res (suspension_target e content)) (\<lambda>agent_name.
     andthen (pfault e PC_suspend)
       (andthen (modify (\<lambda>s. s\<lparr>pa_suspended := dset (py_str (pv_rp e) agent_name) AGENT_SUSPEND_TTL_SECONDS (pa_suspended s)\<rparr>))
       (bnd (lift_res (cget content ''reason'' (PStr []))) (\<lambda>reason.
        ret (Some [(''message'', PStr (''agent '' @ py_str (pv_rp e) agent_name @ '' suspended for '' @ int_text AGENT_SUSPEND_TTL_SECONDS @ ''s'')),
          (''agent_name'', agent_name), (''suspended_until'', PFloat (pv_clock e 0 + of_int AGENT_SUSPEND_TTL_SECONDS)),
          (''reason'', reason)])))))"

text \<open>live trading stops until a person looks; paper trading resumes after a probation, with a smaller scale\<close>
definition apply_trading_pause :: "applier_env \<Rightarrow> pyval \<Rightarrow> pydict option arun" where
  "apply_trading_pause e content =
     bnd (lift_res (cget content ''reason'' PNone)) (\<lambda>r.
     let reason = (if truthy r then r else PStr ''grade F retirement proposal'');
         shown = py_str (pv_rp e) reason;
         pause_ttl = (if pv_paper e then TRADING_PAUSE_PROBATION_SECONDS else LEARNING_CONTROL_TTL_SECONDS)
     in andthen (pfault e PC_pause)
       (andthen (modify (\<lambda>s. s\<lparr>pa_paused := Some (''1'', pause_ttl)\<rparr>))
       (andthen (pfault e PC_reason)
       (andthen (modify (\<lambda>s. s\<lparr>pa_pause_reason := Some (shown, pause_ttl)\<rparr>))
       (if \<not> pv_paper e
        then ret (Some [(''message'', PStr (''LIVE trading halted for '' @ int_text pause_ttl @ ''s pending review (no auto-resume): '' @ shown)),
               (''reason'', reason)])
        else bnd (reduce_scale e) (\<lambda>(current, new_scale).
          ret (Some [(''message'', PStr (''trading paused '' @ int_text TRADING_PAUSE_PROBATION_SECONDS
                 @ ''s (probation), then resumes at signal weight '' @ pv_fixed4 e new_scale @ '': '' @ shown)),
            (''reason'', reason), (''weight_scale'', PFloat (py_round 6 new_scale)), (''previous_scale'', PFloat (py_round 6 current))])))))))"

section \<open>Parameter changes\<close>

definition on_github :: "pydict \<times> gh_write list \<Rightarrow> pydict arun" where
  "on_github r = andthen (modify (\<lambda>s. s\<lparr>pa_github := pa_github s @ snd r\<rparr>)) (ret (fst r))"

definition change_request :: "pyval \<Rightarrow> pyval \<Rightarrow> pyval \<Rightarrow> pyval \<Rightarrow> pyval \<Rightarrow> pydict" where
  "change_request parameter previous proposed reason trace_id =
     [(''parameter'', parameter), (''previous_value'', previous), (''proposed_value'', proposed), (''reason'', reason), (''trace_id'', trace_id)]"

definition pr_request :: "applier_env \<Rightarrow> pydict \<Rightarrow> pydict" where
  "pr_request e change = [(''msg_id'', PStr (pv_uuid e 0)), (''type'', PStr ''pr_request''), (''source'', PStr SOURCE_PROPOSAL_APPLIER),
     (''proposal_type'', PStr ''parameter_change'')] @ change @ [(''timestamp'', PStr (pv_iso e))]"

definition pr_message :: "applier_env \<Rightarrow> pydict \<Rightarrow> string \<Rightarrow> string" where
  "pr_message e pr_result change =
     (let status = py_get pr_result ''status''
      in if status = PStr ''opened''
         then ''config PR opened for '' @ change @ '' ('' @ py_str (pv_rp e) (py_get pr_result ''pr_url'') @ '')''
         else if status = PStr ''dry_run''
         then ''PR artifact queued for '' @ change @ ''; auto-PR dry-run'' @ dash
           @ ''GitOps not configured (set GITHUB_TOKEN / GITHUB_REPO / GITHUB_AUTOPR_ENABLED)''
         else ''PR artifact queued for '' @ change @ ''; auto-PR failed ('' @ py_str (pv_rp e) (py_or (py_get pr_result ''reason'') status)
           @ '')'' @ dash @ ''left for the GitHub Action'')"

definition emit_param_change_artifact :: "applier_env \<Rightarrow> pyval \<Rightarrow> pyval \<Rightarrow> pydict option arun" where
  "emit_param_change_artifact e content trace_id =
     bnd (lift_res (cget content ''parameter'' PNone)) (\<lambda>parameter.
     if \<not> truthy parameter then ret None
     else bnd (lift_res (cget content ''previous_value'' PNone)) (\<lambda>previous.
       bnd (lift_res (cget content ''new_value'' PNone)) (\<lambda>proposed.
       bnd (lift_res (cget content ''reason'' (PStr []))) (\<lambda>reason.
       if validate_param_change (py_str (pv_rp e) parameter) proposed \<noteq> None then ret None
       else let change = change_request parameter previous proposed reason trace_id
            in andthen (modify (\<lambda>s. s\<lparr>pa_bus := snd (publish (pv_bus e) STREAM_GITHUB_PRS (pr_request e change) None (pa_bus s))\<rparr>))
              (bnd (on_github (open_parameter_pr (pv_github e) change)) (\<lambda>pr_result.
               ret (Some [(''message'', PStr (pr_message e pr_result (py_str (pv_rp e) parameter @ '': '' @ py_str (pv_rp e) previous
                     @ '' -> '' @ py_str (pv_rp e) proposed))),
                 (''parameter'', parameter), (''previous_value'', previous), (''proposed_value'', proposed),
                 (''status'', PStr (if py_get pr_result ''status'' = PStr ''opened'' then ''opened'' else ''pending_pr'')),
                 (''reason'', reason), (''pr_url'', py_get pr_result ''pr_url'')])))))))"

section \<open>Directives, tools and issues\<close>

definition version_of :: "pyval \<Rightarrow> pyval pyres" where
  "version_of r = (case r of PDict d \<Rightarrow> (case map_of d ''version'' of None \<Rightarrow> Inl (KeyError ''version'') | Some v \<Rightarrow> Inr v)
     | _ \<Rightarrow> Inl TypeError)"

definition apply_prompt_evolution :: "applier_env \<Rightarrow> pyval \<Rightarrow> pydict option arun" where
  "apply_prompt_evolution e content =
     (if \<not> pv_prompt_auto e then ret None
      else case pv_prompts e of None \<Rightarrow> ret None
      | Some p \<Rightarrow>
         bnd (lift_res (cget content ''node'' PNone)) (\<lambda>n.
         bnd (lift_res (ctext e content ''text'')) (\<lambda>raw.
         let node = py_or n (PStr REASONING_NODE); body = py_strip raw
         in if body = [] then ret None
            else bnd (lift_res (ctext e content ''rationale'')) (\<lambda>rationale.
              bnd (on_prompts (set_directive p (py_str (pv_rp e) node) body rationale AGENT_PROPOSAL_APPLIER True)) (\<lambda>r.
              bnd (lift_res (version_of r)) (\<lambda>v.
              ret (Some [(''message'', PStr (''adaptive directive for '' @ py_str (pv_rp e) node @ '' '' @ arrow @ '' v'' @ py_str (pv_rp e) v)),
                (''node'', node), (''version'', v)])))))))"

text \<open>only \<open>disable\<close> is acted on; a name that is no string finds no tool\<close>
definition disable_suggested :: "pyval \<Rightarrow> tool_registry \<Rightarrow> string list pyres \<times> tool_registry" where
  "disable_suggested suggestion reg = (case suggestion of
       PDict d \<Rightarrow> if py_get d ''action'' \<noteq> PStr ''disable'' then (Inr [], reg)
         else (case py_get d ''tool'' of
             PStr name \<Rightarrow> if name = [] then (Inr [], reg)
               else (case set_enabled name False reg of (done, reg') \<Rightarrow> (Inr (if done then [name] else []), reg'))
           | v \<Rightarrow> if truthy v \<and> \<not> hashable v then (Inl TypeError, reg) else (Inr [], reg))
     | _ \<Rightarrow> (Inr [], reg))"

fun disable_all :: "pyval list \<Rightarrow> tool_registry \<Rightarrow> string list pyres \<times> tool_registry" where
  "disable_all [] reg = (Inr [], reg)"
| "disable_all (v # vs) reg = (case disable_suggested v reg of
       (Inl x, reg') \<Rightarrow> (Inl x, reg')
     | (Inr names, reg') \<Rightarrow> (case disable_all vs reg' of (Inl x, reg'') \<Rightarrow> (Inl x, reg'') | (Inr rest, reg'') \<Rightarrow> (Inr (names @ rest), reg'')))"

fun comma_join :: "string list \<Rightarrow> string" where
  "comma_join [] = []"
| "comma_join [x] = x"
| "comma_join (x # y # zs) = x @ '', '' @ comma_join (y # zs)"

definition apply_tool_governance :: "applier_env \<Rightarrow> pyval \<Rightarrow> pydict option arun" where
  "apply_tool_governance e content =
     bnd (lift_res (cget content ''suggestions'' PNone)) (\<lambda>v.
     bnd (lift_res (if truthy v then py_iter v else Inr [])) (\<lambda>suggestions.
     bnd (zoom pa_tools (\<lambda>t s. s\<lparr>pa_tools := t\<rparr>) (disable_all suggestions)) (\<lambda>disabled.
     if disabled = [] then ret None
     else bnd (lift_res (cget content ''reason'' (PStr []))) (\<lambda>reason.
       ret (Some [(''message'', PStr (''disabled '' @ nat_str (length disabled) @ '' tool(s): '' @ comma_join disabled)),
         (''tools'', PList (map PStr disabled)), (''reason'', reason)])))))"

definition watch_item :: "string \<Rightarrow> pydict" where
  "watch_item proposal_type = [(''message'', PStr (''GitHub issue NOT opened for '' @ proposal_type @ dash
       @ ''evidence insufficient (recorded as watch-item; escalates once a backtest-backed sample firms up)'')),
     (''proposal_type'', PStr proposal_type), (''status'', PStr ''watch_item''), (''pr_url'', PNone)]"

definition issue_title :: "string \<Rightarrow> string \<Rightarrow> string" where
  "issue_title proposal_type description = ''[auto] '' @ proposal_type @ '': ''
     @ (if take 80 description = [] then ''learning-loop proposal'' else take 80 description)"

definition issue_message :: "applier_env \<Rightarrow> string \<Rightarrow> pydict \<Rightarrow> string" where
  "issue_message e proposal_type result =
     (let status = py_get result ''status''
      in if status = PStr ''opened''
         then ''GitHub issue opened for '' @ proposal_type @ '': '' @ py_str (pv_rp e) (py_get result ''pr_url'')
         else if status = PStr ''dry_run''
         then ''GitHub issue NOT opened for '' @ proposal_type @ dash
           @ ''GitOps not configured (set GITHUB_TOKEN / GITHUB_REPO / GITHUB_AUTOPR_ENABLED); proposal recorded only''
         else ''GitHub issue failed for '' @ proposal_type @ '' ('' @ py_str (pv_rp e) (py_or (py_get result ''reason'') status) @ '')'')"

definition file_feature_issue :: "applier_env \<Rightarrow> string \<Rightarrow> pyval \<Rightarrow> string \<Rightarrow> pydict option arun" where
  "file_feature_issue e proposal_type content trace_id =
     (case content of
        PDict c \<Rightarrow>
          let description = py_strip (py_str (pv_rp e) (py_or (py_get c ''description'') (py_or (py_get c ''reason'') (PStr []))))
          in if pv_need_evidence e \<and> evidence_blocks_issue (py_or (py_get c ''evidence'') (PDict [])) then ret (Some (watch_item proposal_type))
             else bnd (on_github (open_feature_issue (pv_github e) (issue_title proposal_type description)
                    (pv_issue_body e proposal_type c trace_id) [''auto-proposal'', proposal_type])) (\<lambda>result.
               ret (Some [(''message'', PStr (issue_message e proposal_type result)), (''proposal_type'', PStr proposal_type),
                 (''status'', py_get result ''status''), (''pr_url'', py_get result ''pr_url'')]))
      | _ \<Rightarrow> throw AttributeError)"

section \<open>Challengers\<close>

definition apply_new_agent :: "applier_env \<Rightarrow> pyval \<Rightarrow> string \<Rightarrow> pydict option arun" where
  "apply_new_agent e content trace_id =
     bnd (lift_res (cget content ''challenger_config'' PNone)) (\<lambda>config.
     bnd (lift_res (strategy_of (pv_rp e) config)) (\<lambda>strategy.
     case pv_spawner e of
       Some sp \<Rightarrow> if strategy \<in> set strategy_names
         then bnd (on_fleet (spawn sp (py_or config (PDict [])) None)) (\<lambda>d.
           ret (Some (dmerge [(''message'', PStr (''challenger spawned for strategy '' @ apostrophe # strategy @ [apostrophe])),
              (''proposal_type'', PStr ''new_agent'')] d)))
         else file_feature_issue e ''new_agent'' content trace_id
     | None \<Rightarrow> file_feature_issue e ''new_agent'' content trace_id))"

definition stage_text :: "StrategyStatus \<Rightarrow> string" where
  "stage_text st = (case st of PROPOSED \<Rightarrow> ''proposed'' | BACKTESTED \<Rightarrow> ''backtested'' | SHADOW \<Rightarrow> ''shadow''
     | CANARY \<Rightarrow> ''canary'' | LIVE \<Rightarrow> ''live'' | RETIRED \<Rightarrow> ''retired'')"

definition advance_to_canary :: "applier_env \<Rightarrow> string \<Rightarrow> StrategyRegistry \<Rightarrow> string \<times> StrategyRegistry" where
  "advance_to_canary e strategy reg = (case find_by_strategy strategy reg of
       None \<Rightarrow> (''lifecycle unchanged'' @ dash @ ''strategy not in registry'', reg)
     | Some r \<Rightarrow> if sc_status r = SHADOW
         then (case transition (sv_version_id (sc_strategy r)) CANARY (pv_clock e) reg of
             (Inr _, reg') \<Rightarrow> (''lifecycle SHADOW'' @ arrow @ ''CANARY (v'' @ nat_str (sv_version (sc_strategy r)) @ '')'', reg')
           | (Inl (Missing_record _), reg') \<Rightarrow> (''lifecycle transition errored'', reg')
           | (Inl _, reg') \<Rightarrow> (''lifecycle transition rejected'', reg'))
         else (''lifecycle unchanged'' @ dash @ ''already '' @ stage_text (sc_status r), reg))"

definition graduate_strategy :: "applier_env \<Rightarrow> string \<Rightarrow> applier \<Rightarrow> string \<times> applier" where
  "graduate_strategy e strategy s =
     (let (first, s1) = (case pv_tracks e of
            Some k \<Rightarrow> (''record graduated'', s\<lparr>pa_tracks := mark_graduated k strategy (pa_tracks s)\<rparr>)
          | None \<Rightarrow> (''graduation record skipped'' @ dash @ ''no challenger store'', s));
          (second, s2) = (if \<not> pv_to_canary e then (''lifecycle unchanged (graduate-to-canary disabled)'', s1)
            else case advance_to_canary e strategy (pa_strategies s1) of (t, reg) \<Rightarrow> (t, s1\<lparr>pa_strategies := reg\<rparr>))
      in (first @ ''; '' @ second, s2))"

definition promotion_advisory :: "applier_env \<Rightarrow> string \<Rightarrow> pyval \<Rightarrow> pyval \<Rightarrow> string" where
  "promotion_advisory e strategy edge confidence = stale_prefix strategy @ '' favor '' @ strategy
     @ ''-aligned setups (beat baseline by edge '' @ py_str (pv_rp e) edge @ '', shadow win-rate '' @ py_str (pv_rp e) confidence @ '').''"

text \<open>the new directive, and what the record says about it\<close>
definition bias_if_store :: "applier_env \<Rightarrow> string \<Rightarrow> string \<Rightarrow> (pyval option \<times> string) arun" where
  "bias_if_store e strategy advisory = (case pv_prompts e of
       None \<Rightarrow> ret (None, ''directive skipped'' @ dash @ ''no prompt store installed'')
     | Some p \<Rightarrow> bnd (on_prompts (bias_directive_toward p AGENT_PROPOSAL_APPLIER strategy advisory)) (\<lambda>directive.
         case directive of None \<Rightarrow> ret (None, ''directive already biased (idempotent re-approval)'')
         | Some r \<Rightarrow> bnd (lift_res (version_of r)) (\<lambda>v. ret (Some v, ''directive biased (v'' @ py_str (pv_rp e) v @ '')''))))"

definition spawn_candidate :: "applier_env \<Rightarrow> string \<Rightarrow> pyval \<Rightarrow> (pydict \<times> string) arun" where
  "spawn_candidate e strategy config = (case pv_spawner e of
       None \<Rightarrow> ret ([], ''spawn skipped'' @ dash @ ''challenger spawner unavailable'')
     | Some sp \<Rightarrow> if strategy \<notin> set strategy_names
         then ret ([], ''spawn skipped'' @ dash @ ''strategy '' @ apostrophe # strategy @ apostrophe # '' not in backtest.strategies'')
         else bnd (on_fleet (spawn sp config None)) (\<lambda>d. ret (d, ''candidate spawned'')))"

definition apply_challenger_promotion :: "applier_env \<Rightarrow> pyval \<Rightarrow> pydict option arun" where
  "apply_challenger_promotion e content =
     bnd (lift_res (ctext e content ''strategy'')) (\<lambda>strategy.
     if strategy = [] then ret None
     else bnd (lift_res (cget content ''shadow_edge'' PNone)) (\<lambda>edge.
       bnd (lift_res (cget content ''confidence'' PNone)) (\<lambda>confidence.
       let advisory = promotion_advisory e strategy edge confidence
       in bnd (bias_if_store e strategy advisory) (\<lambda>(version, directive_status).
       bnd (lift_res (cget content ''challenger_config'' PNone)) (\<lambda>c.
       bnd (spawn_candidate e strategy (py_or c (PDict [(''strategy'', PStr strategy)]))) (\<lambda>(spawned, spawn_status).
       bnd (\<lambda>s. case graduate_strategy e strategy s of (t, s') \<Rightarrow> (Inr t, s')) (\<lambda>graduation_status.
       let result = dmerge [(''message'', PStr (''challenger '' @ apostrophe # strategy @ apostrophe # '' promotion applied: ''
                @ directive_status @ ''; '' @ spawn_status @ ''; '' @ graduation_status)),
              (''proposal_type'', PStr ''challenger_promotion''), (''strategy'', PStr strategy), (''advisory'', PStr advisory),
              (''shadow_edge'', edge), (''graduated'', PBool True)] spawned
       in ret (Some (case version of None \<Rightarrow> result | Some v \<Rightarrow> dset ''version'' v result)))))))))"

section \<open>One proposal\<close>

definition handler :: "applier_env \<Rightarrow> string \<Rightarrow> pyval \<Rightarrow> string \<Rightarrow> pydict option arun option" where
  "handler e proposal_type content trace_id =
     (if proposal_type = ''signal_weight_reduction'' then Some (apply_signal_weight_reduction e content)
      else if proposal_type = ''agent_suspension'' then Some (apply_agent_suspension e content)
      else if proposal_type = ''agent_retirement'' then Some (apply_trading_pause e content)
      else if proposal_type = ''parameter_change'' then Some (emit_param_change_artifact e content (PStr trace_id))
      else if proposal_type = ''prompt_evolution'' then Some (apply_prompt_evolution e content)
      else if proposal_type = ''new_agent'' then Some (apply_new_agent e content trace_id)
      else if proposal_type = ''code_change'' then Some (file_feature_issue e ''code_change'' content trace_id)
      else if proposal_type = ''regime_adjustment'' then Some (file_feature_issue e ''regime_adjustment'' content trace_id)
      else if proposal_type = ''tool_governance'' then Some (apply_tool_governance e content)
      else if proposal_type = ''challenger_promotion'' then Some (apply_challenger_promotion e content)
      else None)"

definition proposal_key :: "applier_env \<Rightarrow> pydict \<Rightarrow> pyval \<Rightarrow> string \<Rightarrow> string" where
  "proposal_key e data proposal_type trace_id =
     (let m = py_get data ''msg_id'';
          identity = (if truthy m then py_str (pv_rp e) m else py_str (pv_rp e) proposal_type @ '':'' @ trace_id)
      in identity @ ''|approved='' @ (if truthy (py_get data ''approved'') then ''True'' else ''False''))"

definition trace_of_proposal :: "applier_env \<Rightarrow> pydict \<Rightarrow> string" where
  "trace_of_proposal e data = (if truthy (py_get data ''trace_id'') then py_str (pv_rp e) (py_get data ''trace_id'')
     else ''applier_'' @ take 8 (pv_uuid e 2))"

definition key_of_proposal :: "applier_env \<Rightarrow> pydict \<Rightarrow> string" where
  "key_of_proposal e data = proposal_key e data (py_get data ''proposal_type'') (trace_of_proposal e data)"

text \<open>the keys, oldest first; a key that is met again keeps its place\<close>
definition already_applied :: "string \<Rightarrow> string list \<Rightarrow> bool \<times> string list" where
  "already_applied key keys = (if key \<in> set keys then (True, keys)
     else (False, drop (Suc (length keys) - APPLIED_KEYS_MAX) (keys @ [key])))"

definition applied_record :: "applier_env \<Rightarrow> pyval \<Rightarrow> pyval \<Rightarrow> string \<Rightarrow> pydict \<Rightarrow> pydict" where
  "applied_record e proposal_type action trace_id applied =
     [(''source'', PStr SOURCE_PROPOSAL_APPLIER), (''agent_name'', PStr AGENT_PROPOSAL_APPLIER), (''proposal_type'', proposal_type),
      (''action'', action), (''applied'', PBool True), (''applied_at'', PStr (pv_iso e)), (''applied_by'', PStr AGENT_PROPOSAL_APPLIER),
      (''trace_id'', PStr trace_id), (''message'', dget applied ''message'' (PStr [])), (''payload'', PDict applied),
      (''status'', PStr ''applied''), (''content'', PDict applied), (''requires_approval'', PBool False), (''msg_id'', PStr (pv_uuid e 1))]"

definition applied_notification :: "applier_env \<Rightarrow> string \<Rightarrow> string \<Rightarrow> pydict \<Rightarrow> pydict" where
  "applied_notification e proposal_type trace_id applied =
     [(''severity'', PStr ''info''), (''title'', PStr (''Proposal applied: '' @ proposal_type)),
      (''message'', dget applied ''message'' (PStr [])), (''notification_type'', PStr ''proposal.applied''),
      (''trace_id'', PStr trace_id), (''timestamp'', PStr (pv_iso e))]"

text \<open>the audit row, the notification and the heartbeat of an applied proposal\<close>
definition record_applied :: "applier_env \<Rightarrow> string \<Rightarrow> pyval \<Rightarrow> string \<Rightarrow> pydict \<Rightarrow> applier \<Rightarrow> applier" where
  "record_applied e proposal_type action trace_id applied s =
     (let s1 = s\<lparr>pa_count := Suc (pa_count s)\<rparr>;
          (st, rows) = write_agent_log (hv_db_up (pv_beat e)) (pv_fails e PC_log) (hv_now (pv_beat e)) (pv_iso e) trace_id ''proposal''
            (applied_record e (PStr proposal_type) action trace_id applied) PNone (hb_store (pa_beats s1), pa_logs s1);
          s2 = s1\<lparr>pa_beats := (pa_beats s1)\<lparr>hb_store := st\<rparr>, pa_logs := rows\<rparr>;
          s3 = (case pv_redis e of None \<Rightarrow> s2
            | Some r \<Rightarrow> s2\<lparr>pa_lists := snd (push_notification r (applied_notification e proposal_type trace_id applied) (pa_lists s2))\<rparr>)
      in s3\<lparr>pa_beats := write_agent_heartbeat (pv_beat e) AGENT_PROPOSAL_APPLIER (''applied '' @ proposal_type) (int (pa_count s3)) [] (pa_beats s3)\<rparr>)"

definition awaits_approval :: "applier_env \<Rightarrow> pydict \<Rightarrow> bool" where
  "awaits_approval e data \<longleftrightarrow> py_get data ''proposal_type'' = PStr ''challenger_promotion''
     \<and> \<not> truthy (py_get data ''approved'') \<and> \<not> pv_promotion_auto e"

text \<open>a handler that raises, or that has nothing to report, leaves no record\<close>
definition act_on :: "applier_env \<Rightarrow> string \<Rightarrow> pyval \<Rightarrow> pyval \<Rightarrow> string \<Rightarrow> applier \<Rightarrow> applier" where
  "act_on e proposal_type content action trace_id s = (case handler e proposal_type content trace_id of None \<Rightarrow> s
     | Some h \<Rightarrow> (case h s of
           (Inl _, s') \<Rightarrow> s'
         | (Inr None, s') \<Rightarrow> s'
         | (Inr (Some applied), s') \<Rightarrow> record_applied e proposal_type action trace_id applied s'))"

text \<open>a type that is no string has no handler\<close>
definition applier_process :: "applier_env \<Rightarrow> pydict \<Rightarrow> unit arun" where
  "applier_process e data s =
     (let proposal_type = py_get data ''proposal_type''; content = py_or (py_get data ''content'') (PDict []);
          action = (case content of PDict c \<Rightarrow> py_get c ''action'' | _ \<Rightarrow> PNone);
          trace_id = trace_of_proposal e data
      in case already_applied (key_of_proposal e data) (pa_applied_keys s) of (seen, keys) \<Rightarrow>
         if seen then (Inr (), s)
         else let s1 = s\<lparr>pa_applied_keys := keys\<rparr>
              in if \<not> hashable proposal_type then (Inl TypeError, s1)
                 else if awaits_approval e data then (Inr (), s1)
                 else (Inr (), case proposal_type of PStr pt \<Rightarrow> act_on e pt content action trace_id s1 | _ \<Rightarrow> s1))"

section \<open>What a proposal can do\<close>

text \<open>the writes a handler is made of; a relation that holds over each of them holds over every proposal\<close>
locale handler_frame = frame R for R :: "applier \<Rightarrow> applier \<Rightarrow> bool" +
  fixes e :: applier_env
  assumes R_scale: "keeps R (reduce_scale e)"
    and R_suspend: "R s (s\<lparr>pa_suspended := a\<rparr>)"
    and R_pause: "R s (s\<lparr>pa_paused := p\<rparr>)" "R s (s\<lparr>pa_pause_reason := p\<rparr>)"
    and R_parts: "R s (s\<lparr>pa_tools := tools\<rparr>)" "R s (s\<lparr>pa_prompts := prompts\<rparr>)" "R s (s\<lparr>pa_fleet := f\<rparr>)"
    and R_github: "R s (s\<lparr>pa_github := pa_github s @ snd (open_parameter_pr (pv_github e) change)\<rparr>)"
      "R s (s\<lparr>pa_github := pa_github s @ snd (open_feature_issue (pv_github e) title body labels)\<rparr>)"
    and R_request: "validate_param_change (py_str (pv_rp e) parameter) proposed = None \<Longrightarrow>
      R s (s\<lparr>pa_bus := snd (publish (pv_bus e) STREAM_GITHUB_PRS
        (pr_request e (change_request parameter previous proposed reason trace_id)) None (pa_bus s))\<rparr>)"
    and R_graduate: "R s (snd (graduate_strategy e strategy s))"
begin

lemma keeps_zooms: "keeps R (on_prompts m)" "keeps R (on_fleet n)" "keeps R (zoom pa_tools (\<lambda>t s. s\<lparr>pa_tools := t\<rparr>) k)"
  by (simp_all add: keeps_def on_prompts_def on_fleet_def zoom_def case_prod_unfold R_parts)

lemma keeps_github: "keeps R (on_github (open_parameter_pr (pv_github e) change))"
  "keeps R (on_github (open_feature_issue (pv_github e) title body labels))"
  unfolding on_github_def by (intro keeps_rules R_github)+

lemma keeps_control:
  "keeps R (apply_signal_weight_reduction e content)" "keeps R (apply_agent_suspension e content)"
  "keeps R (apply_trading_pause e content)"
  unfolding apply_signal_weight_reduction_def apply_agent_suspension_def apply_trading_pause_def pfault_def Let_def
  by (intro keeps_rules R_scale R_suspend R_pause)+

lemma keeps_request: "keeps R (emit_param_change_artifact e content trace_id)"
  unfolding emit_param_change_artifact_def Let_def
  by (intro keeps_rules keeps_github R_request) auto

lemma keeps_directive: "keeps R (apply_prompt_evolution e content)"
  unfolding apply_prompt_evolution_def Let_def by (intro keeps_rules keeps_zooms)

lemma keeps_governance: "keeps R (apply_tool_governance e content)"
  unfolding apply_tool_governance_def by (intro keeps_rules keeps_zooms)

lemma keeps_issue: "keeps R (file_feature_issue e pt content trace_id)"
  unfolding file_feature_issue_def Let_def
  by (cases content) (auto intro!: keeps_rules keeps_github)

lemma keeps_agent: "keeps R (apply_new_agent e content trace_id)"
  unfolding apply_new_agent_def by (intro keeps_rules keeps_zooms keeps_issue)

lemma keeps_promotion: "keeps R (apply_challenger_promotion e content)"
proof -
  have "keeps R (\<lambda>s. case graduate_strategy e strategy s of (t, s') \<Rightarrow> (Inr t, s'))" for strategy
    using R_graduate by (simp add: keeps_def case_prod_unfold)
  moreover have "keeps R (bias_if_store e x a)" "keeps R (spawn_candidate e x c)" for x a c
    unfolding bias_if_store_def spawn_candidate_def by (intro keeps_rules keeps_zooms)+
  ultimately show ?thesis unfolding apply_challenger_promotion_def Let_def by (intro keeps_rules)
qed

lemma keeps_handler: "handler e pt content trace_id = Some h \<Longrightarrow> keeps R h"
  unfolding handler_def
  by (auto split: if_splits intro: keeps_control keeps_request keeps_directive keeps_governance keeps_issue keeps_agent keeps_promotion)

end

text \<open>and over a whole proposal, when its bookkeeping is within the relation too\<close>
locale applier_frame = handler_frame R e for R e +
  assumes R_seen: "R s (s\<lparr>pa_applied_keys := ks\<rparr>)"
    and R_record: "R s (record_applied e pt action tr applied s)"
begin

lemma act_related: "R s (act_on e pt content action tr s)"
proof (cases "handler e pt content tr")
  case (Some h)
  obtain r s' where h: "h s = (r, s')" by (cases "h s")
  then have "R s s'" using keepsD [OF keeps_handler [OF Some], of s] by simp
  then show ?thesis using Some h R_trans R_record by (auto simp: act_on_def split: sum.splits option.splits)
qed (simp add: act_on_def R_refl)

lemma process_related: "R s (snd (applier_process e data s))"
proof -
  have "R s (act_on e pt c a t (s\<lparr>pa_applied_keys := ks\<rparr>))" for pt c a t ks
    using R_trans [OF R_seen act_related] .
  then have "R s (case v of PStr pt \<Rightarrow> act_on e pt c a t (s\<lparr>pa_applied_keys := ks\<rparr>) | _ \<Rightarrow> s\<lparr>pa_applied_keys := ks\<rparr>)" for v c a t ks
    by (cases v) (simp_all add: R_seen)
  then show ?thesis
    unfolding applier_process_def Let_def case_prod_unfold by (simp only: if_distrib [of snd] snd_conv R_refl R_seen split: if_split) simp
qed

end

text \<open>stages move from shadow to canary and no other way; versions and the live stack stay\<close>
definition only_canary :: "StrategyRegistry \<Rightarrow> StrategyRegistry \<Rightarrow> bool" where
  "only_canary reg reg' \<longleftrightarrow> sg_live_stack reg' = sg_live_stack reg \<and> sg_next_version reg' = sg_next_version reg
     \<and> (\<forall>vid. case map_of (sg_records reg') vid of
          None \<Rightarrow> map_of (sg_records reg) vid = None
        | Some r' \<Rightarrow> (\<exists>r. map_of (sg_records reg) vid = Some r \<and> sc_strategy r' = sc_strategy r
            \<and> (sc_status r' = sc_status r \<or> sc_status r = SHADOW \<and> sc_status r' = CANARY)))"

definition canary_only :: "applier \<Rightarrow> applier \<Rightarrow> bool" where
  "canary_only s s' \<longleftrightarrow> only_canary (pa_strategies s) (pa_strategies s')"

lemma only_canary_refl [simp]: "only_canary reg reg"
  by (auto simp: only_canary_def split: option.splits)

lemma only_canary_trans:
  assumes "only_canary a b" "only_canary b c"
  shows "only_canary a c"
  unfolding only_canary_def
proof (intro conjI allI)
  fix vid
  show "case map_of (sg_records c) vid of None \<Rightarrow> map_of (sg_records a) vid = None
    | Some r' \<Rightarrow> (\<exists>r. map_of (sg_records a) vid = Some r \<and> sc_strategy r' = sc_strategy r
        \<and> (sc_status r' = sc_status r \<or> sc_status r = SHADOW \<and> sc_status r' = CANARY))"
    using assms(1)[unfolded only_canary_def] assms(2)[unfolded only_canary_def]
    by (elim conjE allE[of _ vid]) (auto split: option.splits; metis option.distinct(1) option.inject StrategyStatus.distinct)
qed (use assms in \<open>auto simp: only_canary_def\<close>)

lemma advance_only_canary: "only_canary reg (snd (advance_to_canary e strategy reg))"
proof (cases "find_by_strategy strategy reg")
  case None
  then show ?thesis by (simp add: advance_to_canary_def)
next
  case (Some r)
  let ?v = "sv_version_id (sc_strategy r)"
  show ?thesis
  proof (cases "map_of (sg_records reg) ?v")
    case None
    then show ?thesis using Some by (simp add: advance_to_canary_def transition_def)
  next
    case (Some r')
    have "snd (transition ?v CANARY (pv_clock e) reg) = (if CANARY \<in> VALID_TRANSITIONS (sc_status r')
        then set_status ?v CANARY (pv_clock e 0) reg else reg)"
      using Some by (simp add: transition_def)
    moreover have "CANARY \<in> VALID_TRANSITIONS st \<Longrightarrow> st = SHADOW" for st
      by (cases st) (auto simp: VALID_TRANSITIONS_def)
    ultimately have "only_canary reg (snd (transition ?v CANARY (pv_clock e) reg))"
      using Some by (auto simp: only_canary_def set_status_def split: option.splits if_splits)
    then show ?thesis using \<open>find_by_strategy strategy reg = Some r\<close>
      by (auto simp: advance_to_canary_def split: prod.splits sum.splits transition_error.splits)
  qed
qed

lemma record_applied_frame [simp]:
  "pa_strategies (record_applied e pt a t d s) = pa_strategies s" "pa_scale (record_applied e pt a t d s) = pa_scale s"
  "pa_bus (record_applied e pt a t d s) = pa_bus s" "pa_applied_keys (record_applied e pt a t d s) = pa_applied_keys s"
  by (simp_all add: record_applied_def Let_def case_prod_unfold split: option.splits)

lemma graduate_canary: "canary_only s (snd (graduate_strategy e strategy s))"
  using advance_only_canary [of "pa_strategies s" e strategy]
  by (simp add: graduate_strategy_def canary_only_def Let_def case_prod_unfold split: option.splits)

interpretation canary: applier_frame canary_only e for e
  by unfold_locales (auto simp: canary_only_def keeps_def reduce_scale_def snd_bnd andthen_def pfault_def guard_fault_def modify_def gets_def ret_def
      intro: only_canary_trans graduate_canary [unfolded canary_only_def] split: sum.splits if_splits)


definition applier_run :: "(applier_env \<times> pydict) list \<Rightarrow> applier \<Rightarrow> applier" where
  "applier_run msgs s = fold (\<lambda>(e, data) t. snd (applier_process e data t)) msgs s"

lemma run_related:
  assumes "\<And>s. R s s" "\<And>s t u. R s t \<Longrightarrow> R t u \<Longrightarrow> R s u" "\<And>e data s. (e, data) \<in> set msgs \<Longrightarrow> R s (snd (applier_process e data s))"
  shows "R s (applier_run msgs s)"
  using assms(3)
proof (induction msgs arbitrary: s)
  case (Cons m msgs)
  obtain e data where m: "m = (e, data)" by (cases m)
  have "R s (snd (applier_process e data s))" using Cons.prems m by simp
  moreover have "R (snd (applier_process e data s)) (applier_run msgs (snd (applier_process e data s)))"
    using Cons.IH Cons.prems by simp
  ultimately show ?case using assms(2) by (simp add: m applier_run_def)
qed (simp add: applier_run_def assms(1))


section \<open>The signal weight\<close>

text \<open>the scale after so many reductions, as it is stored\<close>
definition scale_after :: "nat \<Rightarrow> real" where
  "scale_after k = ((\<lambda>x. py_round 6 (reduced_scale x)) ^^ k) 1"

text \<open>the six decimals of the stored scale read back\<close>
definition prints_scales :: "applier_env \<Rightarrow> bool" where
  "prints_scales e \<longleftrightarrow> (\<forall>k. float_of_string (pv_fixed6 e (reduced_scale (scale_after k))) = Some (scale_after (Suc k)))"

definition on_scale :: "applier \<Rightarrow> bool" where
  "on_scale s \<longleftrightarrow> (\<exists>k. current_scale (pa_scale s) = scale_after k)"

definition scale_kept :: "applier_env \<Rightarrow> applier \<Rightarrow> applier \<Rightarrow> bool" where
  "scale_kept e s s' \<longleftrightarrow> (prints_scales e \<longrightarrow> on_scale s \<longrightarrow> on_scale s')"

lemma reduce_scale_state:
  "snd (reduce_scale e s) = (if pv_fails e PC_scale_get \<or> pv_fails e PC_scale_set then s
     else s\<lparr>pa_scale := Some (pv_fixed6 e (reduced_scale (current_scale (pa_scale s))), LEARNING_CONTROL_TTL_SECONDS)\<rparr>)"
  by (simp add: reduce_scale_def pfault_def guard_fault_def andthen_def snd_bnd ret_def throw_def)

lemma reduce_on_scale: "keeps (scale_kept e) (reduce_scale e)"
proof -
  have "on_scale (s\<lparr>pa_scale := Some (pv_fixed6 e (reduced_scale (scale_after k)), n)\<rparr>)" if "prints_scales e" for s :: applier and k n
    using that by (auto simp: on_scale_def current_scale_def prints_scales_def)
  then show ?thesis by (auto simp: keeps_def scale_kept_def reduce_scale_state on_scale_def [of "_ :: applier"])
qed

lemma graduate_frame:
  "pa_scale (snd (graduate_strategy e x s)) = pa_scale s" "pa_bus (snd (graduate_strategy e x s)) = pa_bus s"
  "pa_github (snd (graduate_strategy e x s)) = pa_github s" "pa_applied_keys (snd (graduate_strategy e x s)) = pa_applied_keys s"
  by (simp_all add: graduate_strategy_def Let_def case_prod_unfold split: option.splits)

interpretation scale: applier_frame "scale_kept e" e for e
  by unfold_locales (auto simp: reduce_on_scale, auto simp: scale_kept_def on_scale_def graduate_frame)

lemma reduced_range: "5 / 100 \<le> x \<Longrightarrow> x \<le> 1 \<Longrightarrow> 5 / 100 \<le> reduced_scale x \<and> reduced_scale x \<le> 1"
  by (simp add: reduced_scale_def SIGNAL_WEIGHT_SCALE_MIN_def SIGNAL_WEIGHT_REDUCTION_FACTOR_def max_def)

lemma scale_range: "5 / 100 \<le> scale_after k \<and> scale_after k \<le> 1"
proof (induction k)
  case (Suc k)
  have "py_round 6 (5 / 100) = 5 / 100" "py_round 6 1 = 1" by (simp_all add: py_round_def round_half_even_def)
  then show ?case
    using Suc reduced_range [of "scale_after k"] py_round_mono [of "5 / 100" "reduced_scale (scale_after k)" 6]
      py_round_mono [of "reduced_scale (scale_after k)" 1 6]
    by (simp add: scale_after_def)
qed (simp add: scale_after_def)

text \<open>C21: Whatever proposals are applied, the scale the reasoning agent then reads is 1 after some number of reductions by
  30 percent, rounded to six decimals: it never exceeds 1 and never falls below 5 percent, so the agent is never muted.\<close>
theorem signal_weight_is_never_muted:
  assumes "list_all (\<lambda>(e, data). prints_scales e) msgs" "pa_scale s = None"
  shows "\<exists>k. weight_scale_of (map_option fst (pa_scale (applier_run msgs s))) = scale_after k
     \<and> 5 / 100 \<le> scale_after k \<and> scale_after k \<le> 1"
proof -
  have "on_scale s" using assms(2) by (auto simp: on_scale_def current_scale_def scale_after_def intro: exI [of _ 0])
  moreover have "on_scale s \<longrightarrow> on_scale (applier_run msgs s)"
  proof (rule run_related [of "\<lambda>s s'. on_scale s \<longrightarrow> on_scale s'"])
    fix e data t assume "(e, data) \<in> set msgs"
    then have "prints_scales e" using assms(1) by (auto simp: list_all_iff)
    then show "on_scale t \<longrightarrow> on_scale (snd (applier_process e data t))"
      using scale.process_related [of e t data] by (simp add: scale_kept_def)
  qed auto
  ultimately obtain k where k: "current_scale (pa_scale (applier_run msgs s)) = scale_after k" by (auto simp: on_scale_def)
  then have "weight_scale_of (map_option fst (pa_scale (applier_run msgs s))) = scale_after k"
    using scale_range [of k] by (auto simp: current_scale_def weight_scale_of_def split: option.splits)
  then show ?thesis using scale_range by blast
qed

section \<open>What leaves the system\<close>

text \<open>no write to GitHub touches a file but the overrides document\<close>
definition safe_write :: "gh_write \<Rightarrow> bool" where
  "safe_write w = (case w of Put_file file_path _ _ _ \<Rightarrow> file_path = DEFAULT_OVERRIDES_PATH | _ \<Rightarrow> True)"

definition checked_change :: "applier_env \<Rightarrow> pydict \<Rightarrow> bool" where
  "checked_change e change \<longleftrightarrow>
     validate_param_change (py_str (pv_rp e) (py_get change ''parameter'')) (py_get change ''proposed_value'') = None"

definition request_all :: "applier_env \<Rightarrow> pydict list \<Rightarrow> bus \<Rightarrow> bus" where
  "request_all e changes b = fold (\<lambda>change b. snd (publish (pv_bus e) STREAM_GITHUB_PRS (pr_request e change) None b)) changes b"

definition sends :: "applier_env \<Rightarrow> applier \<Rightarrow> applier \<Rightarrow> bool" where
  "sends e s s' \<longleftrightarrow> (\<exists>changes ws. list_all (checked_change e) changes \<and> list_all safe_write ws
     \<and> pa_bus s' = request_all e changes (pa_bus s) \<and> pa_github s' = pa_github s @ ws)"

lemma pr_writes_safe: "list_all safe_write (snd (open_parameter_pr g change))"
  by (auto simp: open_parameter_pr_def publish_change_def put_file_def safe_write_def Let_def
      split: option.splits sum.splits prod.splits)

lemma issue_writes_safe: "list_all safe_write (snd (open_feature_issue g title body labels))"
  by (simp add: open_feature_issue_def safe_write_def)

lemma sends_nothing: "pa_bus s' = pa_bus s \<Longrightarrow> pa_github s' = pa_github s \<Longrightarrow> sends e s s'"
  unfolding sends_def by (rule exI [of _ "[]"], rule exI [of _ "[]"]) (simp add: request_all_def)

lemma sends_trans:
  assumes "sends e s t" "sends e t u"
  shows "sends e s u"
proof -
  obtain c1 w1 c2 w2 where "list_all (checked_change e) (c1 @ c2)" "list_all safe_write (w1 @ w2)"
    "pa_bus u = request_all e (c1 @ c2) (pa_bus s)" "pa_github u = pa_github s @ (w1 @ w2)"
    using assms by (auto simp: sends_def request_all_def)
  then show ?thesis unfolding sends_def by blast
qed

lemma sends_request: "checked_change e change \<Longrightarrow>
    sends e s (s\<lparr>pa_bus := snd (publish (pv_bus e) STREAM_GITHUB_PRS (pr_request e change) None (pa_bus s))\<rparr>)"
  unfolding sends_def by (rule exI [of _ "[change]"], rule exI [of _ "[]"]) (simp add: request_all_def)

lemma sends_write: "list_all safe_write ws \<Longrightarrow> sends e s (s\<lparr>pa_github := pa_github s @ ws\<rparr>)"
  unfolding sends_def by (rule exI [of _ "[]"], rule exI [of _ ws]) (simp add: request_all_def)

lemma record_applied_github [simp]: "pa_github (record_applied e pt a t d s) = pa_github s"
  by (simp add: record_applied_def Let_def case_prod_unfold split: option.splits)

interpretation sent: applier_frame "sends e" e for e
proof
  fix s t u :: applier and f ws strategy title body labels change parameter proposed previous reason trace_id ks pt action tr applied
  show "sends e s t \<Longrightarrow> sends e t u \<Longrightarrow> sends e s u" by (rule sends_trans)
  show "keeps (sends e) (reduce_scale e)" by (simp add: keeps_def reduce_scale_state sends_nothing)
  show "sends e s (s\<lparr>pa_github := pa_github s @ snd (open_parameter_pr (pv_github e) change)\<rparr>)"
    "sends e s (s\<lparr>pa_github := pa_github s @ snd (open_feature_issue (pv_github e) title body labels)\<rparr>)"
    by (rule sends_write, rule pr_writes_safe) (rule sends_write, rule issue_writes_safe)
  show "sends e s (snd (graduate_strategy e strategy s))" by (simp add: sends_nothing graduate_frame)
  show "validate_param_change (py_str (pv_rp e) parameter) proposed = None \<Longrightarrow>
      sends e s (s\<lparr>pa_bus := snd (publish (pv_bus e) STREAM_GITHUB_PRS
        (pr_request e (change_request parameter previous proposed reason trace_id)) None (pa_bus s))\<rparr>)"
    by (rule sends_request) (simp add: checked_change_def change_request_def py_get_def dget_def)
qed (simp_all add: sends_nothing)

text \<open>C11: A proposal publishes nothing but pull-request artifacts for parameter changes that passed the bounds, and asks
  GitHub to write no file but the overrides document, whatever the proposal says.\<close>
theorem proposals_request_checked_changes_only:
  "\<exists>changes ws. list_all (checked_change e) changes \<and> list_all safe_write ws
     \<and> pa_bus (snd (applier_process e data s)) = request_all e changes (pa_bus s)
     \<and> pa_github (snd (applier_process e data s)) = pa_github s @ ws"
  using sent.process_related [of e s data] by (simp add: sends_def)

section \<open>Once each\<close>

definition keys_kept :: "applier \<Rightarrow> applier \<Rightarrow> bool" where
  "keys_kept s s' \<longleftrightarrow> pa_applied_keys s' = pa_applied_keys s"

interpretation keys: handler_frame keys_kept e for e
  by unfold_locales (auto simp: keys_kept_def keeps_def reduce_scale_state graduate_frame)

lemma act_keys: "pa_applied_keys (act_on e pt content action tr s) = pa_applied_keys s"
proof (cases "handler e pt content tr")
  case (Some h)
  then show ?thesis using keepsD [OF keys.keeps_handler [OF Some], of s]
    by (auto simp: act_on_def keys_kept_def split: prod.splits sum.splits option.splits)
qed (simp add: act_on_def)

text \<open>the key of a proposal with an id of its own\<close>
definition own_key :: "(pyval \<Rightarrow> string) \<Rightarrow> pydict \<Rightarrow> string" where
  "own_key rp data = py_str rp (py_get data ''msg_id'') @ ''|approved='' @ (if truthy (py_get data ''approved'') then ''True'' else ''False'')"

lemma own_key: "truthy (py_get data ''msg_id'') \<Longrightarrow> proposal_key e data pt tr = own_key (pv_rp e) data"
  by (simp add: proposal_key_def own_key_def)

text \<open>what a proposal does to the keys\<close>
lemma seen_proposal: "key_of_proposal e data \<in> set (pa_applied_keys s) \<Longrightarrow> applier_process e data s = (Inr (), s)"
  by (simp add: applier_process_def already_applied_def Let_def)

lemma act_case_keys:
  "pa_applied_keys (case v of PStr pt \<Rightarrow> act_on e pt c a t u | _ \<Rightarrow> u) = pa_applied_keys u"
  by (cases v) (simp_all add: act_keys)

lemma process_keys:
  "pa_applied_keys (snd (applier_process e data s)) = snd (already_applied (key_of_proposal e data) (pa_applied_keys s))"
proof (cases "key_of_proposal e data \<in> set (pa_applied_keys s)")
  case True
  then show ?thesis by (simp add: seen_proposal already_applied_def)
next
  case False
  then obtain ks where "already_applied (key_of_proposal e data) (pa_applied_keys s) = (False, ks)"
    by (simp add: already_applied_def)
  then show ?thesis
    by (simp add: applier_process_def Let_def act_case_keys)
qed

text \<open>\<open>k\<close> is among the keys, with at most \<open>n\<close> newer ones\<close>
definition recent_key :: "string \<Rightarrow> nat \<Rightarrow> string list \<Rightarrow> bool" where
  "recent_key k n ks \<longleftrightarrow> (\<exists>older newer. ks = older @ k # newer \<and> length newer \<le> n)"

lemma recent_step:
  assumes "recent_key k n ks" "Suc n < APPLIED_KEYS_MAX"
  shows "recent_key k (Suc n) (snd (already_applied k' ks))"
proof -
  obtain older newer where ks: "ks = older @ k # newer" "length newer \<le> n" using assms(1) by (auto simp: recent_key_def)
  show ?thesis
  proof (cases "k' \<in> set ks")
    case True
    then show ?thesis using assms(1) by (auto simp: already_applied_def recent_key_def intro: le_SucI)
  next
    case False
    let ?d = "Suc (length ks) - APPLIED_KEYS_MAX"
    have "?d \<le> length older" using ks assms(2) by simp
    then have "drop ?d (ks @ [k']) = drop ?d older @ k # (newer @ [k'])" using ks by simp
    moreover have "length (newer @ [k']) \<le> Suc n" using ks(2) by simp
    moreover have "snd (already_applied k' ks) = drop ?d (ks @ [k'])" using False by (simp add: already_applied_def)
    ultimately show ?thesis unfolding recent_key_def
      by (intro exI [of _ "drop ?d older"] exI [of _ "newer @ [k']"]) simp
  qed
qed

lemma recent_run:
  "recent_key k n (pa_applied_keys s) \<Longrightarrow> n + length msgs < APPLIED_KEYS_MAX \<Longrightarrow>
     recent_key k (n + length msgs) (pa_applied_keys (applier_run msgs s))"
proof (induction msgs arbitrary: n s)
  case (Cons m msgs)
  obtain e data where m: "m = (e, data)" by (cases m)
  have "recent_key k (Suc n) (pa_applied_keys (snd (applier_process e data s)))"
    unfolding process_keys using recent_step [OF Cons.prems(1)] Cons.prems(2) by simp
  from Cons.IH [OF this] Cons.prems(2) show ?case by (simp add: m applier_run_def)
qed (simp add: applier_run_def)

lemma recent_now: "recent_key k 0 (snd (already_applied k ks)) \<or> k \<in> set ks"
proof (cases "k \<in> set ks")
  case False
  let ?d = "Suc (length ks) - APPLIED_KEYS_MAX"
  have "?d \<le> length ks" by (simp add: APPLIED_KEYS_MAX_def)
  then have "drop ?d (ks @ [k]) = drop ?d ks @ k # []" by simp
  moreover have "snd (already_applied k ks) = drop ?d (ks @ [k])" using False by (simp add: already_applied_def)
  ultimately show ?thesis unfolding recent_key_def by force
qed simp

text \<open>A proposal that was delivered is not acted on again when it is redelivered within a thousand proposals, even
  when the first delivery did not apply it: after a handler that failed half-way nothing is retried.\<close>
theorem proposal_is_acted_on_once:
  assumes "truthy (py_get data ''msg_id'')" "pv_rp e' = pv_rp e" "length later < 999"
    and "own_key (pv_rp e) data \<notin> set (pa_applied_keys s)"
  shows "applier_process e' data (applier_run later (snd (applier_process e data s)))
     = (Inr (), applier_run later (snd (applier_process e data s)))"
proof -
  let ?k = "own_key (pv_rp e) data" and ?s1 = "snd (applier_process e data s)"
  let ?s2 = "applier_run later ?s1"
  have key: "key_of_proposal e data = ?k" "key_of_proposal e' data = ?k"
    unfolding key_of_proposal_def own_key [OF assms(1)] assms(2) by (rule refl)+
  have "pa_applied_keys ?s1 = snd (already_applied ?k (pa_applied_keys s))"
    unfolding process_keys key by (rule refl)
  then have "recent_key ?k 0 (pa_applied_keys ?s1)" using recent_now [of ?k] assms(4) by auto
  from recent_run [OF this, of later] assms(3) have "?k \<in> set (pa_applied_keys ?s2)"
    by (auto simp: recent_key_def APPLIED_KEYS_MAX_def)
  then show ?thesis by (intro seen_proposal) (simp only: key)
qed

section \<open>Concrete inputs\<close>

definition scale_table :: "(real \<times> string) list" where
  "scale_table = [(7 / 10, ''0.700000''), (49 / 100, ''0.490000''), (343 / 1000, ''0.343000''), (2401 / 10000, ''0.240100''),
     (16807 / 100000, ''0.168070''), (117649 / 1000000, ''0.117649''), (823543 / 10000000, ''0.082354''),
     (576478 / 10000000, ''0.057648''), (5 / 100, ''0.050000'')]"

lemma scale_step: "scale_after (Suc k) = py_round 6 (reduced_scale (scale_after k))"
  by (simp add: scale_after_def)

lemma reduced_eq: "reduced_scale x = (if x * 7 / 10 \<ge> 5 / 100 then x * 7 / 10 else 5 / 100)"
  by (simp add: reduced_scale_def SIGNAL_WEIGHT_REDUCTION_FACTOR_def SIGNAL_WEIGHT_SCALE_MIN_def max_def)

lemma rounded_scales:
  "py_round 6 (7 / 10) = 7 / 10" "py_round 6 (49 / 100) = 49 / 100" "py_round 6 (343 / 1000) = 343 / 1000"
  "py_round 6 (2401 / 10000) = 2401 / 10000" "py_round 6 (16807 / 100000) = 16807 / 100000"
  "py_round 6 (117649 / 1000000) = 117649 / 1000000" "py_round 6 (823543 / 10000000) = 82354 / 1000000"
  "py_round 6 (576478 / 10000000) = 57648 / 1000000" "py_round 6 (5 / 100) = 5 / 100"
  by (simp_all add: py_round_def round_half_even_def)

lemma reduced_scales:
  "reduced_scale 1 = 7 / 10" "reduced_scale (7 / 10) = 49 / 100" "reduced_scale (49 / 100) = 343 / 1000"
  "reduced_scale (343 / 1000) = 2401 / 10000" "reduced_scale (2401 / 10000) = 16807 / 100000"
  "reduced_scale (16807 / 100000) = 117649 / 1000000" "reduced_scale (117649 / 1000000) = 823543 / 10000000"
  "reduced_scale (82354 / 1000000) = 576478 / 10000000" "reduced_scale (57648 / 1000000) = 5 / 100" "reduced_scale (5 / 100) = 5 / 100"
  by (simp_all add: reduced_eq)

text \<open>nine reductions reach the floor\<close>
lemma scale_cases:
  "scale_after k \<in> {1, 7 / 10, 49 / 100, 343 / 1000, 2401 / 10000, 16807 / 100000, 117649 / 1000000, 82354 / 1000000, 57648 / 1000000, 5 / 100}"
proof (induction k)
  case (Suc k)
  then show ?case unfolding scale_step by (elim insertE) (simp_all only: reduced_scales rounded_scales insert_iff simp_thms empty_iff)
qed (simp add: scale_after_def)

lemmas float_text = float_of_string_def parse_unsigned_def parse_exponent_def py_strip_def is_space_def digits_val_def is_digit_def

lemma table_reads: "list_all (\<lambda>(x, t). float_of_string t = Some (py_round 6 x)) scale_table"
  unfolding scale_table_def list.pred_inject prod.case rounded_scales
  by (intro conjI; simp add: float_text)

definition applier_env0 :: applier_env where
  "applier_env0 = \<lparr>pv_bus = bus_env0,
     pv_beat = \<lparr>hv_now = 1000, hv_iso = ''t0'', hv_db_up = False, hv_redis_fails = False, hv_db_fails = False\<rparr>,
     pv_redis = None, pv_prompts = Some prompt_env0, pv_tracks = Some track_env0,
     pv_spawner = Some ((spawn_env0 ''c1'')\<lparr>sw_start := Some (RuntimeError ''no loop'')\<rparr>),
     pv_github = \<lparr>gh_enabled = False, gh_token = [], gh_repo = [], gh_base_branch = ''main'', gh_uid = ''u'', gh_loads = (\<lambda>_. None),
       gh_dumps = (\<lambda>_. []), gh_rp = (\<lambda>_. []), gh_error_text = (\<lambda>_. []), gh_base_sha = Inl Other_failure, gh_file = Inl Other_failure,
       gh_create = None, gh_put = None, gh_pr = Inl Other_failure, gh_issue = Inl Other_failure, gh_repo_status = Inl Other_failure\<rparr>,
     pv_prompt_auto = True, pv_promotion_auto = True, pv_to_canary = True, pv_need_evidence = True, pv_paper = True,
     pv_uuid = (\<lambda>n. ''u'' @ nat_str n), pv_clock = (\<lambda>_. 0), pv_fixed4 = (\<lambda>_. ''x''),
     pv_fixed6 = (\<lambda>x. case map_of scale_table x of None \<Rightarrow> ''?'' | Some t \<Rightarrow> t),
     pv_issue_body = (\<lambda>_ _ _. []), pv_fails = (\<lambda>_. False)\<rparr>"

lemma prints_scales0: "prints_scales applier_env0"
proof -
  have "float_of_string (case map_of scale_table x of None \<Rightarrow> ''?'' | Some t \<Rightarrow> t) = Some (py_round 6 x)" if "x \<in> fst ` set scale_table" for x
  proof -
    obtain t where "map_of scale_table x = Some t" using \<open>x \<in> _\<close> by (metis map_of_eq_None_iff not_None_eq)
    then show ?thesis using table_reads by (auto simp: list_all_iff dest!: map_of_SomeD)
  qed
  moreover have "reduced_scale (scale_after k) \<in> fst ` set scale_table" for k
    using scale_cases [of k] by (elim insertE) (simp_all only: reduced_scales scale_table_def, simp_all)
  ultimately show ?thesis by (simp add: prints_scales_def applier_env0_def scale_step)
qed

definition applier0 :: applier where
  "applier0 = \<lparr>pa_bus = empty_bus, pa_beats = \<lparr>hb_store = empty_store, hb_redis = [], hb_rows = [], hb_instances = []\<rparr>,
     pa_lists = empty_lists, pa_logs = [], pa_tools = default_registry, pa_strategies = new_registry, pa_prompts = prompt0,
     pa_tracks = [], pa_fleet = [], pa_github = [], pa_scale = None, pa_suspended = [], pa_paused = None, pa_pause_reason = None,
     pa_applied_keys = [], pa_count = 0\<rparr>"

definition proposal0 :: "string \<Rightarrow> string \<Rightarrow> pydict" where
  "proposal0 m pt = [(''msg_id'', PStr m), (''proposal_type'', PStr pt), (''trace_id'', PStr ''t''),
     (''content'', PDict [(''strategy'', PStr ''mean_reversion''), (''reason'', PStr ''grade C'')])]"

theorem signal_weight_is_never_muted_witness:
  "\<exists>k. weight_scale_of (map_option fst (pa_scale (applier_run
       [(applier_env0, proposal0 ''m1'' ''signal_weight_reduction''), (applier_env0, proposal0 ''m2'' ''agent_retirement'')] applier0)))
     = scale_after k \<and> 5 / 100 \<le> scale_after k \<and> scale_after k \<le> 1"
  by (rule signal_weight_is_never_muted) (simp_all add: prints_scales0 applier0_def)

text \<open>a promotion whose challenger does not start has changed the directive and is never finished\<close>
theorem proposal_is_acted_on_once_witness:
  "let s = snd (applier_process applier_env0 (proposal0 ''m1'' ''challenger_promotion'') applier0)
   in map fst (pk_active (pa_prompts s)) = [''reasoning''] \<and> pa_tracks s = [] \<and> pa_count s = 0
    \<and> applier_process applier_env0 (proposal0 ''m1'' ''challenger_promotion'') s = (Inr (), s)"
proof -
  let ?s = "snd (applier_process applier_env0 (proposal0 ''m1'' ''challenger_promotion'') applier0)"
  have "map fst (pk_active (pa_prompts ?s)) = [''reasoning''] \<and> pa_tracks ?s = [] \<and> pa_count ?s = 0" by code_simp
  moreover have "applier_process applier_env0 (proposal0 ''m1'' ''challenger_promotion'') (applier_run [] ?s) = (Inr (), applier_run [] ?s)"
    by (rule proposal_is_acted_on_once) (simp_all add: proposal0_def py_get_def dget_def applier0_def)
  ultimately show ?thesis by (simp add: applier_run_def Let_def)
qed

end
