(* ===== verification/Shadow_Trading.thy ===== *)
theory Shadow_Trading
  imports Signal_Rules
begin

text \<open>
  The strategies (\<open>backtest/strategies.py\<close>) and the engine that runs one of them on the live ticks without capital
  (\<open>api/services/shadow_trader.py\<close>): one unit per symbol, long or short, profit in price terms.
\<close>

section \<open>Strategies\<close>

record Bar =
  ba_index :: nat
  ba_price :: real
  ba_prev_price :: real
  ba_pct :: real
  ba_history :: "real list"

type_synonym strategy = "Bar \<Rightarrow> string"

definition baseline_momentum :: strategy where
  "baseline_momentum b = cl_action (classify_signal (ba_pct b) (compute_return_sigma SIGMA_MIN_SAMPLES (ba_history b)))"

definition strong_only :: strategy where
  "strong_only b = (case compute_return_sigma SIGMA_MIN_SAMPLES (ba_history b) of
       None \<Rightarrow> ''hold''
     | Some sigma \<Rightarrow> if sigma < SIGMA_FLOOR_PCT then ''hold''
         else if \<bar>ba_pct b\<bar> / sigma < STRONG_MOMENTUM_SIGMA then ''hold''
         else if ba_pct b > 0 then ''buy'' else ''sell'')"

definition confirmed_trend :: "nat \<Rightarrow> strategy" where
  "confirmed_trend lookback b =
     (let hist = ba_history b in
      if length hist < lookback + 1 then ''hold''
      else let diffs = map (\<lambda>i. hist ! (i + 1) - hist ! i) [length hist - lookback - 1 ..< length hist - 1]
           in if list_all (\<lambda>d. d > 0) diffs then ''buy'' else if list_all (\<lambda>d. d < 0) diffs then ''sell'' else ''hold'')"

definition mean_reversion :: strategy where
  "mean_reversion b = (case compute_return_sigma SIGMA_MIN_SAMPLES (ba_history b) of
       None \<Rightarrow> ''hold''
     | Some sigma \<Rightarrow> if sigma < SIGMA_FLOOR_PCT then ''hold''
         else if \<bar>ba_pct b\<bar> / sigma < MOMENTUM_SIGMA then ''hold''
         else if ba_pct b > 0 then ''sell'' else ''buy'')"

definition STRATEGIES :: "(string \<times> strategy) list" where
  "STRATEGIES = [(''baseline_momentum'', baseline_momentum), (''strong_only'', strong_only),
     (''confirmed_trend'', confirmed_trend 5), (''mean_reversion'', mean_reversion)]"

section \<open>The engine\<close>

record ShadowTrade =
  sx_symbol :: pyval
  sx_direction :: string
  sx_entry_price :: real
  sx_exit_price :: real
  sx_pnl :: real
  sx_bars_held :: nat

text \<open>the directions are 0 for flat, 1 for long and -1 for short\<close>
record OpenPosition =
  so_direction :: int
  so_entry_price :: real
  so_entry_index :: nat

record ShadowMetrics =
  sm_trades :: nat
  sm_wins :: nat
  sm_realized_pnl :: real
  sm_pnls :: "real list"

definition no_metrics :: ShadowMetrics where
  "no_metrics = \<lparr>sm_trades = 0, sm_wins = 0, sm_realized_pnl = 0, sm_pnls = []\<rparr>"

definition shadow_win_rate :: "ShadowMetrics \<Rightarrow> real" where
  "shadow_win_rate m = (if sm_trades m \<noteq> 0 then real (sm_wins m) / real (sm_trades m) else 0)"

definition shadow_avg_pnl :: "ShadowMetrics \<Rightarrow> real" where
  "shadow_avg_pnl m = (if sm_trades m \<noteq> 0 then sm_realized_pnl m / real (sm_trades m) else 0)"

definition shadow_sharpe :: "ShadowMetrics \<Rightarrow> real" where
  "shadow_sharpe m =
     (let n = length (sm_pnls m) in
      if n < 2 then 0
      else let mean = sm_realized_pnl m / real n;
               var = sum_list (map (\<lambda>p. (p - mean)\<^sup>2) (sm_pnls m)) / real n;
               sd = sqrt var
           in if sd > 0 then mean / sd else 0)"

text \<open>dictionaries by symbol; numbers that Python holds equal across types count as different symbols\<close>
record shadow_engine =
  sd_name :: string
  sd_strategy :: strategy
  sd_maxlen :: nat
  sd_history :: "(pyval \<times> real list) list"
  sd_positions :: "(pyval \<times> OpenPosition) list"
  sd_index :: nat
  sd_metrics :: ShadowMetrics

definition DEFAULT_HISTORY_MAXLEN :: nat where "DEFAULT_HISTORY_MAXLEN = 50"

definition no_position :: OpenPosition where
  "no_position = \<lparr>so_direction = 0, so_entry_price = 0, so_entry_index = 0\<rparr>"

definition new_shadow_engine :: "string \<Rightarrow> strategy \<Rightarrow> nat \<Rightarrow> shadow_engine" where
  "new_shadow_engine strategy_name strat history_maxlen = \<lparr>sd_name = strategy_name, sd_strategy = strat, sd_maxlen = max history_maxlen 2,
     sd_history = [], sd_positions = [], sd_index = 0, sd_metrics = no_metrics\<rparr>"

definition open_position_count :: "shadow_engine \<Rightarrow> nat" where
  "open_position_count s = length (filter (\<lambda>(k, p). so_direction p \<noteq> 0) (sd_positions s))"

definition record_pnl :: "real \<Rightarrow> ShadowMetrics \<Rightarrow> ShadowMetrics" where
  "record_pnl pnl m = \<lparr>sm_trades = sm_trades m + 1, sm_wins = (if pnl > 0 then sm_wins m + 1 else sm_wins m),
     sm_realized_pnl = sm_realized_pnl m + pnl, sm_pnls = sm_pnls m @ [pnl]\<rparr>"

definition close_shadow :: "pyval \<Rightarrow> OpenPosition \<Rightarrow> real \<Rightarrow> shadow_engine \<Rightarrow> ShadowTrade option \<times> shadow_engine" where
  "close_shadow symbol pos price s =
     (if so_direction pos = 0 then (None, s)
      else let pnl = (if so_direction pos = 1 then price - so_entry_price pos else so_entry_price pos - price)
           in (Some \<lparr>sx_symbol = symbol, sx_direction = (if so_direction pos = 1 then ''long'' else ''short''),
                 sx_entry_price = so_entry_price pos, sx_exit_price = price, sx_pnl = pnl,
                 sx_bars_held = sd_index s - so_entry_index pos\<rparr>, s\<lparr>sd_metrics := record_pnl pnl (sd_metrics s)\<rparr>))"

definition apply_action :: "pyval \<Rightarrow> string \<Rightarrow> real \<Rightarrow> shadow_engine \<Rightarrow> ShadowTrade option \<times> shadow_engine" where
  "apply_action symbol action price s0 =
     (let s = s0\<lparr>sd_positions := setdefault symbol no_position (sd_positions s0)\<rparr>;
          pos = dget (sd_positions s) symbol no_position
      in if action \<noteq> ''buy'' \<and> action \<noteq> ''sell'' then (None, s)
         else let target = (if action = ''buy'' then 1 else - 1)
         in if so_direction pos = target then (None, s)
            else case close_shadow symbol pos price s of (closed_trade, s1) \<Rightarrow>
              (closed_trade, s1\<lparr>sd_positions := dset symbol \<lparr>so_direction = target, so_entry_price = price,
                 so_entry_index = sd_index s1\<rparr> (sd_positions s1)\<rparr>))"

text \<open>the bar that the strategy sees, and the history that it leaves\<close>
definition next_bar :: "pyval \<Rightarrow> real \<Rightarrow> shadow_engine \<Rightarrow> Bar" where
  "next_bar symbol price s =
     (let hist = dget (sd_history s) symbol []; prev_price = (if hist \<noteq> [] then last hist else price)
      in \<lparr>ba_index = sd_index s + 1, ba_price = price, ba_prev_price = prev_price,
          ba_pct = (if prev_price \<noteq> 0 then (price - prev_price) / prev_price * 100 else 0),
          ba_history = push_capped (sd_maxlen s) price hist\<rparr>)"

definition take_tick :: "pyval \<Rightarrow> real \<Rightarrow> shadow_engine \<Rightarrow> ShadowTrade option \<times> shadow_engine" where
  "take_tick symbol price s =
     (let bar = next_bar symbol price s
      in apply_action symbol (py_lower (sd_strategy s bar)) price
           (s\<lparr>sd_history := dset symbol (ba_history bar) (sd_history s), sd_index := ba_index bar\<rparr>))"

text \<open>\<open>observe\<close> for a symbol that can be a key of a dictionary\<close>
definition observe_price :: "pyval \<Rightarrow> real \<Rightarrow> shadow_engine \<Rightarrow> ShadowTrade option \<times> shadow_engine" where
  "observe_price symbol price s = (if \<not> truthy symbol \<or> price \<le> 0 then (None, s) else take_tick symbol price s)"

section \<open>The candidates against the baseline\<close>

definition sigma_of :: "Bar \<Rightarrow> real option" where
  "sigma_of b = compute_return_sigma SIGMA_MIN_SAMPLES (ba_history b)"

definition opposite :: "string \<Rightarrow> string" where
  "opposite a = (if a = ''buy'' then ''sell'' else if a = ''sell'' then ''buy'' else a)"

lemma baseline_eq:
  "baseline_momentum b = (if \<bar>ba_pct b\<bar> < trade_threshold (sigma_of b) then ''hold''
     else if ba_pct b > 0 then ''buy'' else ''sell'')"
  using thresholds_ordered(1) [of "sigma_of b"]
  by (auto simp: baseline_momentum_def sigma_of_def classify_signal_def tier_eq direction_of_move_def)

lemma floor_positive: "0 < SIGMA_FLOOR_PCT"
  by (simp add: SIGMA_FLOOR_PCT_def)

lemma calibrated_cases:
  obtains "\<not> calibrated sigma" "sigma = None"
  | x where "\<not> calibrated sigma" "sigma = Some x" "x < SIGMA_FLOOR_PCT"
  | x where "calibrated sigma" "sigma = Some x" "SIGMA_FLOOR_PCT \<le> x" "0 < x"
  using floor_positive by (cases sigma) (force simp: calibrated_def)+

text \<open>The candidate strategies are the baseline restricted or mirrored: \<open>strong_only\<close> calls what the baseline calls
  on a strong move, \<open>mean_reversion\<close> calls the opposite, and both stay out while the volatility is not calibrated.
\<close>
lemma candidates_derive_from_the_baseline:
  "strong_only b = (if calibrated (sigma_of b) \<and> \<bar>ba_pct b\<bar> \<ge> strong_threshold (sigma_of b) then baseline_momentum b else ''hold'')
   \<and> mean_reversion b = (if calibrated (sigma_of b) then opposite (baseline_momentum b) else ''hold'')"
proof (cases rule: calibrated_cases [of "sigma_of b"])
  case 1
  then show ?thesis by (simp add: strong_only_def mean_reversion_def sigma_of_def)
next
  case (2 x)
  then show ?thesis by (simp add: strong_only_def mean_reversion_def sigma_of_def)
next
  case (3 x)
  define p where "p = ba_pct b"
  have c: "compute_return_sigma SIGMA_MIN_SAMPLES (ba_history b) = Some x" using 3 by (simp add: sigma_of_def)
  have th: "strong_threshold (Some x) = STRONG_MOMENTUM_SIGMA * x" "trade_threshold (Some x) = MOMENTUM_SIGMA * x"
    using 3 by (simp_all add: strong_threshold_def trade_threshold_def)
  have cal: "calibrated (Some x)" using 3 by simp
  have "MOMENTUM_SIGMA * x \<le> STRONG_MOMENTUM_SIGMA * x" using 3 by (simp add: MOMENTUM_SIGMA_def STRONG_MOMENTUM_SIGMA_def)
  then have le: "\<And>q. q < MOMENTUM_SIGMA * x \<Longrightarrow> q < STRONG_MOMENTUM_SIGMA * x" by linarith
  have base: "baseline_momentum b = (if \<bar>p\<bar> < MOMENTUM_SIGMA * x then ''hold'' else if p > 0 then ''buy'' else ''sell'')"
    using baseline_eq [of b] by (simp add: 3 th p_def)
  have "strong_only b = (if \<bar>p\<bar> < STRONG_MOMENTUM_SIGMA * x then ''hold'' else if p > 0 then ''buy'' else ''sell'')"
    "mean_reversion b = (if \<bar>p\<bar> < MOMENTUM_SIGMA * x then ''hold'' else if p > 0 then ''sell'' else ''buy'')"
    using 3 by (simp_all add: strong_only_def mean_reversion_def c p_def pos_divide_less_eq)
  then show ?thesis using le by (simp add: 3(2) cal th base opposite_def not_less flip: p_def)
qed

lemma diffs_sorted:
  fixes xs :: "real list"
  shows "list_all (\<lambda>d. d > 0) (map (\<lambda>i. xs ! (i + 1) - xs ! i) [m ..< length xs - 1]) = sorted_wrt (<) (drop m xs)"
  "list_all (\<lambda>d. d < 0) (map (\<lambda>i. xs ! (i + 1) - xs ! i) [m ..< length xs - 1]) = sorted_wrt (>) (drop m xs)"
proof -
  have shift: "(\<forall>i. m \<le> i \<and> Suc i < length xs \<longrightarrow> P i) = (\<forall>j. Suc (j + m) < length xs \<longrightarrow> P (j + m))" for P
    by (metis le_add2 le_add_diff_inverse2)
  show "list_all (\<lambda>d. d > 0) (map (\<lambda>i. xs ! (i + 1) - xs ! i) [m ..< length xs - 1]) = sorted_wrt (<) (drop m xs)"
    unfolding Ball_set [symmetric] set_map ball_simps set_upt
    by (simp add: sorted_wrt_iff_nth_Suc_transp Ball_def less_diff_conv add.commute [of m] shift)
  show "list_all (\<lambda>d. d < 0) (map (\<lambda>i. xs ! (i + 1) - xs ! i) [m ..< length xs - 1]) = sorted_wrt (>) (drop m xs)"
    unfolding Ball_set [symmetric] set_map ball_simps set_upt
    by (simp add: sorted_wrt_iff_nth_Suc_transp Ball_def less_diff_conv add.commute [of m] shift)
qed

text \<open>\<open>confirmed_trend\<close> buys exactly on a strictly rising run of the last prices and sells exactly on a falling one.
\<close>
lemma confirmed_trend_follows_runs:
  "confirmed_trend (Suc k) b =
     (if length (ba_history b) \<le> Suc k then ''hold''
      else if sorted_wrt (<) (last_n (k + 2) (ba_history b)) then ''buy''
      else if sorted_wrt (>) (last_n (k + 2) (ba_history b)) then ''sell'' else ''hold'')"
proof -
  have "length xs - Suc k - Suc 0 = length xs - Suc (Suc k)" for xs :: "real list" by simp
  then show ?thesis
    using diffs_sorted [of "ba_history b" "length (ba_history b) - Suc (Suc k)"]
    by (simp add: confirmed_trend_def Let_def last_n_def)
qed

section \<open>The books\<close>

fun run_ticks :: "(pyval \<times> real) list \<Rightarrow> shadow_engine \<Rightarrow> shadow_engine" where
  "run_ticks [] s = s"
| "run_ticks ((symbol, price) # ticks) s = run_ticks ticks (snd (observe_price symbol price s))"

definition books_ok :: "ShadowMetrics \<Rightarrow> bool" where
  "books_ok m \<longleftrightarrow> sm_trades m = length (sm_pnls m) \<and> sm_wins m = length (filter (\<lambda>p. p > 0) (sm_pnls m))
     \<and> sm_realized_pnl m = sum_list (sm_pnls m)"

definition position_ok :: "OpenPosition \<Rightarrow> bool" where
  "position_ok p \<longleftrightarrow> so_direction p \<in> {0, 1, -1} \<and> (so_direction p \<noteq> 0 \<longrightarrow> 0 < so_entry_price p)"

definition shadow_ok :: "shadow_engine \<Rightarrow> bool" where
  "shadow_ok s \<longleftrightarrow> books_ok (sd_metrics s) \<and> distinct (map fst (sd_positions s))
     \<and> list_all (\<lambda>(k, p). position_ok p \<and> dget (sd_history s) k [] \<noteq> []) (sd_positions s)"

lemma books_record: "books_ok m \<Longrightarrow> books_ok (record_pnl pnl m)"
  by (simp add: books_ok_def record_pnl_def)

lemma books_empty: "books_ok no_metrics"
  by (simp add: books_ok_def no_metrics_def)

lemma shadow_ok_new: "shadow_ok (new_shadow_engine n f m)"
  by (simp add: shadow_ok_def new_shadow_engine_def books_empty)

lemma setdefault_eq_dset: "setdefault k v d = dset k (dget d k v) d"
  by (induction d) (auto simp: setdefault_def dget_def split: option.splits)

lemma dset_twice: "dset k v (dset k w d) = dset k v d"
  by (induction d) auto

lemma distinct_dset: "distinct (map fst d) \<Longrightarrow> distinct (map fst (dset k v d))"
  by (rule distinct_update)

text \<open>one tick: the new position of the symbol and the metrics; trading at the price of the tick makes no profit\<close>
definition trade_to :: "string \<Rightarrow> real \<Rightarrow> nat \<Rightarrow> OpenPosition \<Rightarrow> OpenPosition" where
  "trade_to a price i p =
     (let target = (if a = ''buy'' then 1 else if a = ''sell'' then - 1 else so_direction p)
      in if so_direction p = target then p else \<lparr>so_direction = target, so_entry_price = price, so_entry_index = i\<rparr>)"

definition open_profit :: "OpenPosition \<Rightarrow> real \<Rightarrow> real" where
  "open_profit p price = of_int (so_direction p) * (price - so_entry_price p)"

definition metrics_after :: "OpenPosition \<Rightarrow> OpenPosition \<Rightarrow> real \<Rightarrow> ShadowMetrics \<Rightarrow> ShadowMetrics" where
  "metrics_after p p' price m =
     (if so_direction p' = so_direction p \<or> so_direction p = 0 then m
      else record_pnl (if so_direction p = 1 then price - so_entry_price p else so_entry_price p - price) m)"

definition called :: "pyval \<Rightarrow> real \<Rightarrow> shadow_engine \<Rightarrow> string" where
  "called k price s = py_lower (sd_strategy s (next_bar k price s))"

definition position_of :: "pyval \<Rightarrow> shadow_engine \<Rightarrow> OpenPosition" where
  "position_of k s = dget (sd_positions s) k no_position"

definition stance_after :: "pyval \<Rightarrow> real \<Rightarrow> shadow_engine \<Rightarrow> OpenPosition" where
  "stance_after k price s = trade_to (called k price s) price (sd_index s + 1) (position_of k s)"

lemma apply_action_eq:
  fixes s k
  defines "p \<equiv> dget (sd_positions s) k no_position"
  shows "snd (apply_action k a price s) = s\<lparr>sd_positions := dset k (trade_to a price (sd_index s) p) (sd_positions s),
     sd_metrics := metrics_after p (trade_to a price (sd_index s) p) price (sd_metrics s)\<rparr>"
  by (simp add: apply_action_def setdefault_eq_dset dset_twice close_shadow_def trade_to_def metrics_after_def Let_def p_def)

lemma take_tick_eq:
  "snd (take_tick k price s) = s\<lparr>sd_history := dset k (ba_history (next_bar k price s)) (sd_history s), sd_index := sd_index s + 1,
     sd_positions := dset k (stance_after k price s) (sd_positions s),
     sd_metrics := metrics_after (position_of k s) (stance_after k price s) price (sd_metrics s)\<rparr>"
proof -
  have i: "ba_index (next_bar k price s) = sd_index s + 1" by (simp add: next_bar_def Let_def)
  show ?thesis
    by (simp add: take_tick_def apply_action_eq stance_after_def position_of_def called_def i Let_def)
qed

lemma history_nonempty: "ba_history (next_bar k price s) \<noteq> []" "last (ba_history (next_bar k price s)) = price"
  by (auto simp: next_bar_def push_capped_def last_n_def Let_def last_drop)

lemma trade_to_ok: "position_ok p \<Longrightarrow> 0 < price \<Longrightarrow> position_ok (trade_to a price i p)"
  by (auto simp: position_ok_def trade_to_def Let_def)

lemma flat_ok: "position_ok no_position"
  by (simp add: position_ok_def no_position_def)

lemma position_of_ok: "shadow_ok s \<Longrightarrow> position_ok (position_of k s)"
  by (auto simp: shadow_ok_def list_all_iff position_of_def dget_def flat_ok split: option.splits dest!: map_of_SomeD)

lemma trading_is_neutral:
  assumes "position_ok p"
  shows "sm_realized_pnl (metrics_after p (trade_to a price i p) price m) + open_profit (trade_to a price i p) price
     = sm_realized_pnl m + open_profit p price"
  using assms by (auto simp: position_ok_def metrics_after_def trade_to_def open_profit_def record_pnl_def Let_def)

lemma shadow_ok_tick:
  assumes "shadow_ok s" "0 < price"
  shows "shadow_ok (snd (take_tick k price s))"
proof -
  have "books_ok (metrics_after (position_of k s) p' price (sd_metrics s))" for p'
    using assms by (simp add: metrics_after_def shadow_ok_def books_record)
  moreover have "\<forall>x \<in> set (dset k (stance_after k price s) (sd_positions s)).
      case x of (j, p) \<Rightarrow> position_ok p \<and> dget (dset k (ba_history (next_bar k price s)) (sd_history s)) j [] \<noteq> []"
    by (rule dset_all) (use assms position_of_ok [OF assms(1)] in \<open>auto simp: stance_after_def trade_to_ok history_nonempty shadow_ok_def list_all_iff split: if_splits\<close>)
  ultimately show ?thesis
    using assms by (simp add: take_tick_eq shadow_ok_def distinct_dset list_all_iff)
qed

lemma shadow_ok_observe: "shadow_ok s \<Longrightarrow> shadow_ok (snd (observe_price k price s))"
  by (simp add: observe_price_def shadow_ok_tick)

lemma shadow_ok_run: "shadow_ok s \<Longrightarrow> shadow_ok (run_ticks ticks s)"
  by (induction ticks s rule: run_ticks.induct) (simp_all add: shadow_ok_observe)

text \<open>Whatever ticks arrive, the counters of a shadow engine agree with its list of profits, every open position has
  a positive entry price, and a strategy holds at most one unit per symbol.
\<close>
lemma shadow_books_stay_consistent:
  "books_ok (sd_metrics (run_ticks ticks (new_shadow_engine n f m)))
   \<and> distinct (map fst (sd_positions (run_ticks ticks (new_shadow_engine n f m))))
   \<and> list_all (position_ok \<circ> snd) (sd_positions (run_ticks ticks (new_shadow_engine n f m)))"
  using shadow_ok_run [OF shadow_ok_new, of ticks n f m] by (auto simp: shadow_ok_def list_all_iff)

section \<open>What a shadow position earns\<close>

definition last_price :: "shadow_engine \<Rightarrow> pyval \<Rightarrow> real" where
  "last_price s k = last (dget (sd_history s) k [])"

text \<open>realized profit and the open positions at the last price of their symbol\<close>
definition worth :: "shadow_engine \<Rightarrow> real" where
  "worth s = sm_realized_pnl (sd_metrics s) + (\<Sum>x\<leftarrow>sd_positions s. open_profit (snd x) (last_price s (fst x)))"

text \<open>the specification: the direction held in a symbol times the move of its price\<close>
fun earned :: "(pyval \<times> real) list \<Rightarrow> shadow_engine \<Rightarrow> real" where
  "earned [] s = 0"
| "earned ((k, price) # ticks) s =
     (if \<not> truthy k \<or> price \<le> 0 then 0 else of_int (so_direction (position_of k s)) * (price - last_price s k))
       + earned ticks (snd (observe_price k price s))"

lemma sum_dset:
  fixes g :: "'k \<times> 'v \<Rightarrow> real"
  assumes "distinct (map fst d)" "\<And>x. fst x \<noteq> k \<Longrightarrow> g' x = g x" "g (k, v0) = 0"
  shows "(\<Sum>x\<leftarrow>dset k v d. g' x) = (\<Sum>x\<leftarrow>d. g x) + g' (k, v) - g (k, dget d k v0)"
  using assms(1)
proof (induction d)
  case Nil
  then show ?case using assms(3) by (simp add: dget_def)
next
  case (Cons x d)
  obtain j u where x: "x = (j, u)" by (cases x)
  show ?case
  proof (cases "j = k")
    case True
    then have "\<forall>y \<in> set d. fst y \<noteq> k" using Cons.prems by (force simp: x)
    then have same: "map g' d = map g d" using assms(2) by simp
    show ?thesis using True by (simp add: x dget_def same)
  next
    case False
    then have "dget (x # d) k v0 = dget d k v0" by (simp add: x dget_def)
    then show ?thesis using Cons False assms(2) [of x] by (simp add: x)
  qed
qed

lemma worth_tick:
  assumes "shadow_ok s" "0 < price"
  shows "worth (snd (take_tick k price s)) = worth s + of_int (so_direction (position_of k s)) * (price - last_price s k)"
proof -
  let ?s = "snd (take_tick k price s)" and ?p = "position_of k s" and ?q = "stance_after k price s"
  have last: "last_price ?s j = (if j = k then price else last_price s j)" for j
    by (simp add: last_price_def take_tick_eq history_nonempty)
  have "(\<Sum>x\<leftarrow>sd_positions ?s. open_profit (snd x) (last_price ?s (fst x)))
      = (\<Sum>x\<leftarrow>sd_positions s. open_profit (snd x) (last_price s (fst x))) + open_profit ?q price - open_profit ?p (last_price s k)"
  proof -
    have pos: "sd_positions ?s = dset k ?q (sd_positions s)" by (simp add: take_tick_eq)
    let ?g = "\<lambda>x. open_profit (snd x) (last_price s (fst x))" and ?h = "\<lambda>x. open_profit (snd x) (last_price ?s (fst x))"
    have "distinct (map fst (sd_positions s))" using assms(1) by (simp add: shadow_ok_def)
    moreover have "?h x = ?g x" if "fst x \<noteq> k" for x using that by (simp add: last)
    moreover have "?g (k, no_position) = 0" by (simp add: open_profit_def no_position_def)
    ultimately have "(\<Sum>x\<leftarrow>dset k ?q (sd_positions s). ?h x) = (\<Sum>x\<leftarrow>sd_positions s. ?g x) + ?h (k, ?q)
        - ?g (k, dget (sd_positions s) k no_position)"
      by (rule sum_dset)
    then show ?thesis by (simp add: pos position_of_def last)
  qed
  moreover have "sm_realized_pnl (sd_metrics ?s) + open_profit ?q price = sm_realized_pnl (sd_metrics s) + open_profit ?p price"
    using trading_is_neutral [OF position_of_ok [OF assms(1)], of k] by (simp add: take_tick_eq stance_after_def)
  ultimately show ?thesis by (simp add: worth_def open_profit_def algebra_simps)
qed

lemma worth_run: "shadow_ok s \<Longrightarrow> worth (run_ticks ticks s) = worth s + earned ticks s"
proof (induction ticks s rule: run_ticks.induct)
  case (2 k price ticks s)
  show ?case
  proof (cases "\<not> truthy k \<or> price \<le> 0")
    case True
    then have "snd (observe_price k price s) = s" by (simp add: observe_price_def)
    then show ?thesis using 2 True by simp
  next
    case False
    then have o: "snd (observe_price k price s) = snd (take_tick k price s)" by (simp add: observe_price_def)
    have "shadow_ok (snd (take_tick k price s))" using 2(2) False by (simp add: shadow_ok_tick)
    then show ?thesis using 2(1) worth_tick [OF 2(2), of price k] False by (simp add: o)
  qed
qed simp

text \<open>C40: Realized and open profit of a shadow engine are the price moves of each symbol times the direction it held,
  whatever the strategy and the ticks: no profit is lost or counted twice at a flip.
\<close>
lemma shadow_profit_is_the_moves_held:
  "worth (run_ticks ticks (new_shadow_engine n f m)) = earned ticks (new_shadow_engine n f m)"
proof -
  have "worth (new_shadow_engine n f m) = 0" by (simp add: worth_def new_shadow_engine_def no_metrics_def)
  then show ?thesis using worth_run [OF shadow_ok_new, of ticks n f m] by simp
qed

end
