(* ===== verification/Backtest_Harness.thy ===== *)
theory Backtest_Harness
  imports Shadow_Trading Trade_Scorer
begin

text \<open>
  The offline harness (\<open>backtest/engine.py\<close>, \<open>compare.py\<close>, \<open>challenger.py\<close>, \<open>distribution.py\<close>): a series of prices is
  run through a strategy, the fills slip, every round trip is scored by the production scorer, and the best
  candidate is judged against the baseline. The draws of the seeded generator are a parameter.
\<close>

section \<open>One run\<close>

definition HARNESS_SLIPPAGE_MIN_PCT :: real where "HARNESS_SLIPPAGE_MIN_PCT = 1 / 10000"
definition HARNESS_SLIPPAGE_MAX_PCT :: real where "HARNESS_SLIPPAGE_MAX_PCT = 5 / 10000"
definition DEFAULT_CONFIDENCE :: real where "DEFAULT_CONFIDENCE = 6 / 10"
definition HARNESS_HISTORY_WINDOW :: nat where "HARNESS_HISTORY_WINDOW = 64"

text \<open>the arguments of \<open>run_backtest\<close>; \<open>bq_draw i\<close> is what the \<open>i\<close>-th call of \<open>rng.uniform\<close> returns\<close>
record backtest_args =
  bq_rp :: "pyval \<Rightarrow> string"
  bq_draw :: "nat \<Rightarrow> real"
  bq_strategy :: strategy
  bq_name :: string
  bq_symbol :: string
  bq_equity :: real
  bq_fraction :: real
  bq_minutes :: real

record backtest_run =
  bx_cash :: real
  bx_qty :: real
  bx_dir :: int
  bx_price :: real
  bx_open_qty :: real
  bx_bar :: nat
  bx_confidence :: real
  bx_evals :: "pydict list"
  bx_curve :: "real list"
  bx_holds :: nat
  bx_signals :: nat
  bx_draws :: nat

record BacktestResult =
  br_symbol :: string
  br_bars :: nat
  br_trades :: nat
  br_holds :: nat
  br_signals :: nat
  br_starting_equity :: real
  br_final_equity :: real
  br_total_return_pct :: real
  br_win_rate :: real
  br_sharpe :: real
  br_max_drawdown_pct :: real
  br_avg_trade_pnl :: real
  br_strategy :: string
  br_metrics :: learning_metrics
  br_evaluations :: "pydict list"
  br_equity_curve :: "real list"

definition start_run :: "backtest_args \<Rightarrow> backtest_run" where
  "start_run q = \<lparr>bx_cash = bq_equity q, bx_qty = 0, bx_dir = 0, bx_price = 0, bx_open_qty = 0, bx_bar = 0, bx_confidence = 0,
     bx_evals = [], bx_curve = [], bx_holds = 0, bx_signals = 0, bx_draws = 0\<rparr>"

definition slipped :: "backtest_args \<Rightarrow> real \<Rightarrow> real \<Rightarrow> backtest_run \<Rightarrow> real" where
  "slipped q price signed_delta s = price * (1 + (if signed_delta > 0 then 1 else - 1) * bq_draw q (bx_draws s))"

definition score_round_trip :: "backtest_args \<Rightarrow> real \<Rightarrow> nat \<Rightarrow> backtest_run \<Rightarrow> pydict pyres" where
  "score_round_trip q exit_fill exit_bar s =
     (if bx_price s = 0 then Inl ZeroDivisionError
      else score_trade (bq_rp q)
        [(''symbol'', PStr (bq_symbol q)), (''side'', PStr (if bx_dir s > 0 then ''sell'' else ''buy'')),
         (''action'', PStr (if bx_dir s > 0 then ''buy'' else ''sell'')), (''entry_price'', PFloat (bx_price s)),
         (''exit_price'', PFloat exit_fill), (''pnl'', PFloat (of_int (bx_dir s) * bx_open_qty s * (exit_fill - bx_price s))),
         (''pnl_percent'', PFloat (of_int (bx_dir s) * (exit_fill - bx_price s) / bx_price s * 100)),
         (''holding_period_minutes'', PFloat ((real exit_bar - real (bx_bar s)) * bq_minutes q)),
         (''confidence'', PFloat (bx_confidence s))])"

definition close_lot :: "backtest_args \<Rightarrow> real \<Rightarrow> nat \<Rightarrow> backtest_run \<Rightarrow> backtest_run pyres" where
  "close_lot q price i s =
     (if bx_dir s = 0 then Inr s
      else let close_fill = slipped q price (- bx_qty s) s
           in res_bind (score_round_trip q close_fill i s) (\<lambda>ev.
              Inr (s\<lparr>bx_cash := bx_cash s - (- bx_qty s) * close_fill, bx_evals := bx_evals s @ [ev], bx_qty := 0,
                     bx_dir := 0, bx_draws := bx_draws s + 1\<rparr>)))"

definition open_lot :: "backtest_args \<Rightarrow> real \<Rightarrow> nat \<Rightarrow> int \<Rightarrow> backtest_run \<Rightarrow> backtest_run pyres" where
  "open_lot q cur i target s =
     (if cur = 0 then Inl ZeroDivisionError
      else let equity = bx_cash s + bx_qty s * cur; qty = bq_fraction q * equity / cur; signed = of_int target * qty;
               open_fill = slipped q cur signed s
           in Inr (s\<lparr>bx_cash := bx_cash s - signed * open_fill, bx_qty := signed, bx_dir := target, bx_price := open_fill,
                     bx_open_qty := qty, bx_bar := i, bx_confidence := DEFAULT_CONFIDENCE, bx_draws := bx_draws s + 1\<rparr>))"

definition harness_bar :: "real list \<Rightarrow> nat \<Rightarrow> Bar" where
  "harness_bar prices i =
     (let prev = prices ! (i - 1); cur = prices ! i
      in \<lparr>ba_index = i, ba_price = cur, ba_prev_price = prev, ba_pct = (if prev \<noteq> 0 then (cur - prev) / prev * 100 else 0),
          ba_history = drop (i - HARNESS_HISTORY_WINDOW) (take (i + 1) prices)\<rparr>)"

definition bx_act :: "backtest_args \<Rightarrow> real \<Rightarrow> nat \<Rightarrow> string \<Rightarrow> backtest_run \<Rightarrow> backtest_run pyres" where
  "bx_act q cur i action s =
     (if action = ''hold'' then Inr (s\<lparr>bx_holds := bx_holds s + 1\<rparr>)
      else let s1 = s\<lparr>bx_signals := bx_signals s + 1\<rparr>; target_dir = (if action = ''buy'' then 1 else - 1)
           in if target_dir = bx_dir s1 then Inr (s1\<lparr>bx_holds := bx_holds s1 + 1\<rparr>)
              else res_bind (close_lot q cur i s1) (open_lot q cur i target_dir))"

definition bx_step :: "backtest_args \<Rightarrow> real list \<Rightarrow> nat \<Rightarrow> backtest_run \<Rightarrow> backtest_run pyres" where
  "bx_step q prices i s = res_bind (bx_act q (prices ! i) i (bq_strategy q (harness_bar prices i)) s)
     (\<lambda>s. Inr (s\<lparr>bx_curve := bx_curve s @ [bx_cash s + bx_qty s * prices ! i]\<rparr>))"

fun bx_loop :: "backtest_args \<Rightarrow> real list \<Rightarrow> nat list \<Rightarrow> backtest_run \<Rightarrow> backtest_run pyres" where
  "bx_loop q prices [] s = Inr s"
| "bx_loop q prices (i # is) s = res_bind (bx_step q prices i s) (bx_loop q prices is)"

text \<open>the walk over the equity curve, with the peak and the largest drawdown so far\<close>
fun max_drawdown :: "real list \<Rightarrow> real \<Rightarrow> real \<Rightarrow> real" where
  "max_drawdown [] peak dd = dd"
| "max_drawdown (eq # eqs) peak dd =
     (let p = max peak eq in max_drawdown eqs p (if p > 0 then max dd ((p - eq) / p * 100) else dd))"

definition bx_result :: "backtest_args \<Rightarrow> real list \<Rightarrow> backtest_run \<Rightarrow> BacktestResult pyres" where
  "bx_result q prices s =
     (let final_equity = bx_cash s; curve = (if bx_curve s = [] then [final_equity] else butlast (bx_curve s) @ [final_equity])
      in if bq_equity q = 0 then Inl ZeroDivisionError
         else res_bind (compute_learning_metrics (bx_evals s)) (\<lambda>metrics.
              res_bind (res_map (\<lambda>e. float_or (py_get e ''pnl'') 0) (bx_evals s)) (\<lambda>pnls.
              let trades = length (bx_evals s) in
              Inr \<lparr>br_symbol = bq_symbol q, br_bars = length prices, br_trades = trades, br_holds = bx_holds s,
                   br_signals = bx_signals s, br_starting_equity = bq_equity q, br_final_equity = final_equity,
                   br_total_return_pct = (final_equity - bq_equity q) / bq_equity q * 100,
                   br_win_rate = lm_win_rate metrics, br_sharpe = lm_sharpe metrics,
                   br_max_drawdown_pct = max_drawdown curve (hd curve) 0,
                   br_avg_trade_pnl = (if trades \<noteq> 0 then sum_list pnls / real trades else 0), br_strategy = bq_name q,
                   br_metrics = metrics, br_evaluations = bx_evals s, br_equity_curve = curve\<rparr>)))"

definition run_backtest :: "backtest_args \<Rightarrow> real list \<Rightarrow> BacktestResult pyres" where
  "run_backtest q prices =
     res_bind (bx_loop q prices [1 ..< length prices] (start_run q)) (\<lambda>s.
     res_bind (if bx_dir s \<noteq> 0 \<and> length prices \<ge> 1 then close_lot q (last prices) (length prices - 1) s else Inr s)
       (bx_result q prices))"

section \<open>Comparison and verdict\<close>

record StrategyStats =
  bs_name :: string
  bs_mean_return_pct :: real
  bs_mean_trades :: real
  bs_mean_sharpe :: real
  bs_mean_win_rate :: real
  bs_mean_signals :: real

definition stats_of :: "string \<Rightarrow> BacktestResult \<Rightarrow> StrategyStats" where
  "stats_of name res = \<lparr>bs_name = name, bs_mean_return_pct = py_round 2 (br_total_return_pct res), bs_mean_trades = real (br_trades res),
     bs_mean_sharpe = py_round 3 (br_sharpe res), bs_mean_win_rate = py_round 4 (br_win_rate res),
     bs_mean_signals = real (br_signals res)\<rparr>"

text \<open>\<open>q\<close>: the other arguments, one generator with the same seed for every strategy\<close>
definition compare_on_prices :: "backtest_args \<Rightarrow> real list \<Rightarrow> (string \<times> strategy) list \<Rightarrow> StrategyStats list pyres" where
  "compare_on_prices q prices strategies =
     res_map (\<lambda>(name, strat). res_bind (run_backtest (q\<lparr>bq_strategy := strat, bq_name := name\<rparr>) prices) (\<lambda>res. Inr (stats_of name res)))
       (if strategies = [] then STRATEGIES else strategies)"

datatype verdict_decision = PROMOTE | REJECT | INSUFFICIENT_DATA
datatype verdict_reason = Too_few_trades | Different_and_better | Identical | Not_by_the_margin

record HarnessVerdict =
  vd_candidate :: string
  vd_baseline :: string
  vd_is_different :: bool
  vd_beats_baseline :: bool
  vd_decision :: verdict_decision
  vd_reason :: verdict_reason
  vd_candidate_stats :: StrategyStats
  vd_baseline_stats :: StrategyStats

text \<open>\<open>max\<close> keeps the first of equals\<close>
fun best_of :: "StrategyStats \<Rightarrow> StrategyStats list \<Rightarrow> StrategyStats" where
  "best_of b [] = b"
| "best_of b (c # cs) = best_of (if bs_mean_return_pct c > bs_mean_return_pct b then c else b) cs"

definition evaluate_from_stats :: "StrategyStats list \<Rightarrow> string \<Rightarrow> real \<Rightarrow> real \<Rightarrow> HarnessVerdict option" where
  "evaluate_from_stats stats baseline margin_pct min_trades =
     (case map_of (rev (map (\<lambda>s. (bs_name s, s)) stats)) baseline of None \<Rightarrow> None
      | Some base \<Rightarrow> (case filter (\<lambda>s. bs_name s \<noteq> baseline) stats of [] \<Rightarrow> None
        | c # cs \<Rightarrow>
          let best = best_of c cs;
              is_different = (bs_mean_trades best \<noteq> bs_mean_trades base
                \<or> \<bar>bs_mean_return_pct best - bs_mean_return_pct base\<bar> > 1 / 10 ^ 9);
              beats_baseline = (bs_mean_return_pct best > bs_mean_return_pct base + margin_pct);
              (decision, reason) =
                (if bs_mean_trades base < min_trades \<or> bs_mean_trades best < min_trades then (INSUFFICIENT_DATA, Too_few_trades)
                 else if is_different \<and> beats_baseline then (PROMOTE, Different_and_better)
                 else if \<not> is_different then (REJECT, Identical) else (REJECT, Not_by_the_margin))
          in Some \<lparr>vd_candidate = bs_name best, vd_baseline = baseline, vd_is_different = is_different,
               vd_beats_baseline = beats_baseline, vd_decision = decision, vd_reason = reason,
               vd_candidate_stats = best, vd_baseline_stats = base\<rparr>))"

section \<open>The distribution of moves\<close>

fun signed_pct_changes :: "real list \<Rightarrow> real list" where
  "signed_pct_changes (prev # cur # ps) =
     (if prev \<noteq> 0 then (cur - prev) / prev * 100 # signed_pct_changes (cur # ps) else signed_pct_changes (cur # ps))"
| "signed_pct_changes _ = []"

definition abs_pct_changes :: "real list \<Rightarrow> real list" where
  "abs_pct_changes prices = map abs (signed_pct_changes prices)"

text \<open>an index past the end raises\<close>
definition percentile_at :: "real list \<Rightarrow> real \<Rightarrow> real pyres" where
  "percentile_at values p =
     (if values = [] then Inr 0
      else let ordered = sort values; n = length ordered in
        if n = 1 then Inr (py_round 6 (ordered ! 0))
        else let rank = p / 100 * real (n - 1); lo = nat (trunc_real rank); hi = min (lo + 1) (n - 1)
             in if lo \<ge> n then Inl IndexError
                else Inr (py_round 6 (ordered ! lo + (ordered ! hi - ordered ! lo) * (rank - real lo))))"

text \<open>\<open>pkey\<close>: the key of a percentile, \<open>f"p{p:g}"\<close>\<close>
definition percentiles :: "(real \<Rightarrow> string) \<Rightarrow> real list \<Rightarrow> real list \<Rightarrow> (string \<times> real) list pyres" where
  "percentiles pkey values ps = res_bind (res_map (\<lambda>p. res_bind (percentile_at values p) (\<lambda>x. Inr (pkey p, x))) ps)
     (\<lambda>kvs. Inr (dmerge [] kvs))"

definition percentile_of_value :: "real list \<Rightarrow> real \<Rightarrow> real" where
  "percentile_of_value values threshold =
     (if values = [] then 0 else py_round 4 (real (length (filter (\<lambda>v. v < threshold) values)) / real (length values) * 100))"

definition rolling_sigma :: "real list \<Rightarrow> nat \<Rightarrow> real list" where
  "rolling_sigma values window =
     (if window < 2 \<or> length values < window then []
      else map (\<lambda>i. let chunk = drop (i - window) (take i values); mean = sum_list chunk / real window;
                        var = sum_list (map (\<lambda>x. (x - mean)\<^sup>2) chunk) / real (window - 1)
                    in sqrt var) [window ..< length values + 1])"

text \<open>\<open>prices[::k]\<close>\<close>
definition every_nth :: "nat \<Rightarrow> 'a list \<Rightarrow> 'a list" where
  "every_nth k xs = map (\<lambda>i. xs ! (i * k)) [0 ..< (length xs + k - 1) div k]"

definition hit_rate :: "real list \<Rightarrow> real \<Rightarrow> real" where
  "hit_rate moves t = (if moves \<noteq> [] then py_round 6 (real (length (filter (\<lambda>m. m \<ge> t) moves)) / real (length moves)) else 0)"

record distribution_block =
  db_timeframe :: nat
  db_sample_size :: nat
  db_abs_pct :: "(string \<times> real) list"
  db_rolling_sigma :: "(string \<times> real) list"
  db_thresholds :: "(real \<times> real \<times> real) list"

definition distribution_block_of ::
  "(real \<Rightarrow> string) \<Rightarrow> real list \<Rightarrow> real list \<Rightarrow> nat \<Rightarrow> nat \<Rightarrow> distribution_block pyres" where
  "distribution_block_of pkey prices thresholds sigma_window tf =
     (let sampled = (if tf > 1 then every_nth tf prices else prices); moves = abs_pct_changes sampled;
          sigmas = rolling_sigma (signed_pct_changes sampled) sigma_window
      in res_bind (percentiles pkey moves [50, 90, 95, 99, 999 / 10]) (\<lambda>abs_pct.
         res_bind (if sigmas \<noteq> [] then percentiles pkey sigmas [50, 95] else Inr [(''p50'', 0), (''p95'', 0)]) (\<lambda>rolling.
         Inr \<lparr>db_timeframe = tf, db_sample_size = length moves,
              db_abs_pct = dset ''max'' (if moves \<noteq> [] then py_round 6 (Max (set moves)) else 0) abs_pct,
              db_rolling_sigma = rolling,
              db_thresholds = map (\<lambda>t. (t, percentile_of_value moves t, hit_rate moves t)) thresholds\<rparr>)))"

definition distribution_report ::
  "(real \<Rightarrow> string) \<Rightarrow> real list \<Rightarrow> nat list \<Rightarrow> real list \<Rightarrow> nat \<Rightarrow> distribution_block list pyres" where
  "distribution_report pkey prices timeframes thresholds sigma_window =
     res_map (distribution_block_of pkey prices thresholds sigma_window) timeframes"

section \<open>A scored round trip\<close>

definition pnl_of :: "pydict \<Rightarrow> real" where
  "pnl_of ev = (case py_get ev ''pnl'' of PFloat x \<Rightarrow> x | _ \<Rightarrow> 0)"

definition numeric_eval :: "pydict \<Rightarrow> bool" where
  "numeric_eval ev \<longleftrightarrow> py_get ev ''pnl'' = PFloat (pnl_of ev)
     \<and> (\<exists>x. py_get ev ''pnl_percent'' = PFloat x) \<and> (\<exists>x. py_get ev ''overall_score'' = PFloat x)"

lemma float_or_number: "\<exists>x. float_or (PFloat a) d = Inr x"
  by simp

lemma score_numbers:
  assumes "py_get t ''pnl'' = PFloat a" "py_get t ''pnl_percent'' = PFloat b"
    "py_or (py_get t ''confidence'') (py_get t ''signal_confidence'') = PFloat c" "py_get t ''decision_cost_usd'' = PNone"
  shows "\<exists>ev. score_trade rp t = Inr ev \<and> numeric_eval ev \<and> pnl_of ev = a"
proof -
  obtain nr where nr: "score_normalized_return (PFloat b) = Inr nr" by (simp add: score_normalized_return_def)
  obtain rr where rr: "score_risk_reward (PFloat a) (PFloat b) = Inr rr" by (simp add: score_risk_reward_def)
  obtain eq where eq: "score_entry_quality (PFloat c) = Inr eq" by (simp add: score_entry_quality_def)
  obtain xq where xq: "score_exit_quality (PFloat b) = Inr xq" by (simp add: score_exit_quality_def)
  obtain cx where cx: "build_trade_context rp t = Inr cx" by (simp add: build_trade_context_def Let_def assms)
  have pv: "pnl_value (PFloat a) = Inr a" "opt_float (PFloat a) = Inr (PFloat a)" "opt_float (PFloat b) = Inr (PFloat b)"
    "float_or PNone 0 = Inr 0"
    by (simp_all add: pnl_value_def opt_float_def)
  show ?thesis
    unfolding score_trade_def Let_def assms nr rr eq xq cx pv res_bind_def sum.case
    by (simp add: numeric_eval_def pnl_of_def py_get_def)
qed

lemma score_round_trip_total:
  assumes "bx_price s \<noteq> 0" "bx_confidence s = DEFAULT_CONFIDENCE"
  shows "\<exists>ev. score_round_trip q x i s = Inr ev \<and> numeric_eval ev
    \<and> pnl_of ev = of_int (bx_dir s) * bx_open_qty s * (x - bx_price s)"
  unfolding score_round_trip_def if_not_P [OF assms(1)] assms(2)
  by (rule score_numbers [where c = "6 / 10"]) (simp_all add: py_get_def py_or_def DEFAULT_CONFIDENCE_def)

section \<open>The books of a run\<close>

text \<open>after \<open>n\<close> bars: every lot was closed once, cash is the start, the profits and what the open lot cost\<close>
definition bx_ok :: "backtest_args \<Rightarrow> nat \<Rightarrow> backtest_run \<Rightarrow> bool" where
  "bx_ok q n s \<longleftrightarrow> list_all numeric_eval (bx_evals s) \<and> bx_dir s \<in> {0, 1, -1}
     \<and> bx_qty s = of_int (bx_dir s) * bx_open_qty s
     \<and> bx_cash s + of_int (bx_dir s) * bx_open_qty s * bx_price s = bq_equity q + sum_list (map pnl_of (bx_evals s))
     \<and> (bx_dir s \<noteq> 0 \<longrightarrow> 0 < bx_price s \<and> bx_confidence s = DEFAULT_CONFIDENCE)
     \<and> length (bx_evals s) + (if bx_dir s = 0 then 0 else 1) + bx_holds s = n
     \<and> length (bx_evals s) + (if bx_dir s = 0 then 0 else 1) \<le> bx_signals s"

definition fair_draws :: "backtest_args \<Rightarrow> bool" where
  "fair_draws q \<longleftrightarrow> (\<forall>i. HARNESS_SLIPPAGE_MIN_PCT \<le> bq_draw q i \<and> bq_draw q i \<le> HARNESS_SLIPPAGE_MAX_PCT)"

lemma slipped_positive: "fair_draws q \<Longrightarrow> 0 < price \<Longrightarrow> 0 < slipped q price d s"
  unfolding fair_draws_def slipped_def HARNESS_SLIPPAGE_MIN_PCT_def HARNESS_SLIPPAGE_MAX_PCT_def
  by (intro mult_pos_pos) (auto dest!: spec [of _ "bx_draws s"])

lemma bx_ok_start: "bx_ok q 0 (start_run q)"
  by (simp add: bx_ok_def start_run_def)

lemma close_lot_ok:
  assumes ok: "bx_ok q n s" and d: "bx_dir s \<noteq> 0"
  shows "\<exists>s'. close_lot q price i s = Inr s' \<and> bx_dir s' = 0 \<and> bx_qty s' = 0 \<and> list_all numeric_eval (bx_evals s')
    \<and> bx_cash s' = bq_equity q + sum_list (map pnl_of (bx_evals s')) \<and> length (bx_evals s') = length (bx_evals s) + 1
    \<and> bx_holds s' = bx_holds s \<and> bx_signals s' = bx_signals s \<and> bx_curve s' = bx_curve s"
proof -
  define x where "x = slipped q price (- bx_qty s) s"
  have p: "bx_price s \<noteq> 0" "bx_confidence s = DEFAULT_CONFIDENCE" using ok d by (auto simp: bx_ok_def)
  obtain ev where ev: "score_round_trip q x i s = Inr ev" "numeric_eval ev"
    "pnl_of ev = of_int (bx_dir s) * bx_open_qty s * (x - bx_price s)"
    using score_round_trip_total [OF p] by blast
  have "bx_cash s + of_int (bx_dir s) * bx_open_qty s * bx_price s = bq_equity q + sum_list (map pnl_of (bx_evals s))"
    "bx_qty s = of_int (bx_dir s) * bx_open_qty s" using ok by (simp_all add: bx_ok_def)
  then have "bx_cash s + bx_qty s * x = bq_equity q + sum_list (map pnl_of (bx_evals s)) + pnl_of ev"
    by (simp add: ev algebra_simps)
  moreover have "close_lot q price i s = Inr (s\<lparr>bx_cash := bx_cash s + bx_qty s * x, bx_evals := bx_evals s @ [ev], bx_qty := 0,
      bx_dir := 0, bx_draws := bx_draws s + 1\<rparr>)"
    using d ev(1) by (simp add: close_lot_def Let_def flip: x_def)
  moreover have "list_all numeric_eval (bx_evals s)" using ok by (simp add: bx_ok_def)
  ultimately show ?thesis using ev(2) by simp
qed

lemma open_lot_ok:
  assumes "fair_draws q" "0 < cur" "t \<in> {1, -1}"
    and s: "bx_dir s = 0" "bx_qty s = 0" "list_all numeric_eval (bx_evals s)" "bx_cash s = bq_equity q + sum_list (map pnl_of (bx_evals s))"
      "length (bx_evals s) + bx_holds s = n" "length (bx_evals s) + 1 \<le> bx_signals s"
  shows "\<exists>s'. open_lot q cur i t s = Inr s' \<and> bx_ok q (Suc n) s' \<and> bx_curve s' = bx_curve s"
proof -
  define qty where "qty = bq_fraction q * bx_cash s / cur"
  define x where "x = slipped q cur (of_int t * qty) s"
  have x: "0 < x" by (simp add: x_def slipped_positive assms(1,2))
  have o: "open_lot q cur i t s = Inr (s\<lparr>bx_cash := bx_cash s - of_int t * qty * x, bx_qty := of_int t * qty, bx_dir := t,
      bx_price := x, bx_open_qty := qty, bx_bar := i, bx_confidence := DEFAULT_CONFIDENCE, bx_draws := bx_draws s + 1\<rparr>)"
    using assms(2) s(2) by (simp add: open_lot_def Let_def x_def qty_def)
  have t: "t \<noteq> 0" "t \<in> {0, 1, - 1}" using assms(3) by auto
  show ?thesis unfolding o using t x s by (simp add: bx_ok_def)
qed

lemma bx_act_ok:
  assumes ok: "bx_ok q n s" and "fair_draws q" "0 < cur"
  shows "\<exists>s'. bx_act q cur i a s = Inr s' \<and> bx_ok q (Suc n) s' \<and> bx_curve s' = bx_curve s"
proof -
  let ?t = "if a = ''buy'' then 1 else - 1 :: int" and ?s = "s\<lparr>bx_signals := bx_signals s + 1\<rparr>"
  have k: "bx_ok q n ?s" using ok by (auto simp: bx_ok_def)
  consider "a = ''hold'' \<or> ?t = bx_dir s" | "a \<noteq> ''hold''" "?t \<noteq> bx_dir s" by blast
  then show ?thesis
  proof cases
    case 1
    then show ?thesis using ok by (elim disjE) (simp_all add: bx_act_def bx_ok_def Let_def)
  next
    case 2
    have "\<exists>s1. close_lot q cur i ?s = Inr s1 \<and> bx_dir s1 = 0 \<and> bx_qty s1 = 0 \<and> list_all numeric_eval (bx_evals s1)
      \<and> bx_cash s1 = bq_equity q + sum_list (map pnl_of (bx_evals s1)) \<and> length (bx_evals s1) + bx_holds s1 = n
      \<and> length (bx_evals s1) + 1 \<le> bx_signals s1 \<and> bx_curve s1 = bx_curve s"
    proof (cases "bx_dir s = 0")
      case True
      then show ?thesis using ok by (simp add: close_lot_def bx_ok_def)
    next
      case False
      then have nz: "bx_dir ?s \<noteq> 0" by simp
      obtain s1 where "close_lot q cur i ?s = Inr s1" "bx_dir s1 = 0" "bx_qty s1 = 0" "list_all numeric_eval (bx_evals s1)"
        "bx_cash s1 = bq_equity q + sum_list (map pnl_of (bx_evals s1))" "length (bx_evals s1) = length (bx_evals ?s) + 1"
        "bx_holds s1 = bx_holds ?s" "bx_signals s1 = bx_signals ?s" "bx_curve s1 = bx_curve ?s"
        using close_lot_ok [OF k nz, of cur i] by blast
      then show ?thesis using ok False by (auto simp: bx_ok_def)
    qed
    then obtain s1 where s1: "close_lot q cur i ?s = Inr s1" "bx_curve s1 = bx_curve s"
      and o: "\<exists>s'. open_lot q cur i ?t s1 = Inr s' \<and> bx_ok q (Suc n) s' \<and> bx_curve s' = bx_curve s1"
      using open_lot_ok [OF assms(2,3), of ?t] by (metis insert_iff)
    then show ?thesis using 2 by (auto simp: bx_act_def Let_def)
  qed
qed

lemma bx_loop_ok:
  assumes "bx_ok q n s" "fair_draws q" "\<forall>i \<in> set is. 0 < prices ! i"
  shows "\<exists>s'. bx_loop q prices is s = Inr s' \<and> bx_ok q (n + length is) s' \<and> length (bx_curve s') = length (bx_curve s) + length is"
  using assms(1,3)
proof (induction "is" arbitrary: n s)
  case (Cons i "is")
  obtain s1 where a: "bx_act q (prices ! i) i (bq_strategy q (harness_bar prices i)) s = Inr s1" "bx_ok q (Suc n) s1" "bx_curve s1 = bx_curve s"
    using bx_act_ok [OF Cons.prems(1) assms(2)] Cons.prems(2) by force
  define s2 where "s2 = s1\<lparr>bx_curve := bx_curve s1 @ [bx_cash s1 + bx_qty s1 * prices ! i]\<rparr>"
  have "bx_ok q (Suc n) s2" using a(2) unfolding bx_ok_def s2_def by simp
  then obtain s' where "bx_loop q prices is s2 = Inr s'" "bx_ok q (Suc n + length is) s'" "length (bx_curve s') = length (bx_curve s2) + length is"
    using Cons.IH [of "Suc n" s2] Cons.prems(2) by auto
  then show ?case using a(1,3) by (auto simp: bx_step_def s2_def)
qed simp

text \<open>C25: On positive prices the harness always returns, every lot it opens is closed exactly once, and what the account
  gained is the sum of the profits of the scored trades, whatever the strategy does.
\<close>
theorem backtest_books_close:
  assumes "\<forall>p \<in> set prices. 0 < p" "fair_draws q" "bq_equity q \<noteq> 0" "prices \<noteq> []"
  shows "\<exists>r. run_backtest q prices = Inr r
    \<and> br_final_equity r = bq_equity q + sum_list (map pnl_of (br_evaluations r))
    \<and> br_trades r = length (br_evaluations r) \<and> br_trades r + br_holds r = length prices - 1 \<and> br_trades r \<le> br_signals r
    \<and> last (br_equity_curve r) = br_final_equity r \<and> length (br_equity_curve r) = max 1 (length prices - 1)"
proof -
  obtain s where s: "bx_loop q prices [1 ..< length prices] (start_run q) = Inr s" "bx_ok q (length prices - 1) s"
      "length (bx_curve s) = length prices - 1"
    using bx_loop_ok [OF bx_ok_start assms(2), of "[1 ..< length prices]" prices] assms(1) by (auto simp: start_run_def)
  obtain s' where c: "(if bx_dir s \<noteq> 0 \<and> length prices \<ge> 1 then close_lot q (last prices) (length prices - 1) s else Inr s) = Inr s'"
    and e: "list_all numeric_eval (bx_evals s')" "bx_cash s' = bq_equity q + sum_list (map pnl_of (bx_evals s'))"
      "length (bx_evals s') + bx_holds s' = length prices - 1" "length (bx_evals s') \<le> bx_signals s'" "bx_curve s' = bx_curve s"
  proof (cases "bx_dir s = 0")
    case True
    then show thesis using that [of s] s(2) by (simp add: bx_ok_def)
  next
    case False
    then show thesis
      using that close_lot_ok [OF s(2) False, of "last prices" "length prices - 1"] assms(4) s(2) by (auto simp: bx_ok_def Suc_le_eq)
  qed
  have num: "\<And>x. x \<in> set (bx_evals s') \<Longrightarrow> numeric_eval x" using e(1) by (simp add: list_all_iff)
  then have pnls: "res_map (\<lambda>e. float_or (py_get e ''pnl'') 0) (bx_evals s') = Inr (map pnl_of (bx_evals s'))"
    by (intro res_map_Inr) (auto simp: numeric_eval_def)
  obtain m where m: "compute_learning_metrics (bx_evals s') = Inr m"
  proof (cases "bx_evals s' = []")
    case False
    have "\<forall>x \<in> set (bx_evals s'). \<exists>a b. py_get x ''pnl_percent'' = PFloat a \<and> py_get x ''overall_score'' = PFloat b"
      using num by (auto simp: numeric_eval_def)
    then obtain f h where "\<forall>x \<in> set (bx_evals s'). py_get x ''pnl_percent'' = PFloat (f x) \<and> py_get x ''overall_score'' = PFloat (h x)"
      by metis
    then show thesis using metrics_of_numbers [OF False, of f pnl_of h] num that by (auto simp: numeric_eval_def)
  qed (simp add: compute_learning_metrics_def that)
  define curve where "curve = (if bx_curve s' = [] then [bx_cash s'] else butlast (bx_curve s') @ [bx_cash s'])"
  have curve: "last curve = bx_cash s'" "length curve = max 1 (length prices - 1)"
    using s(3) by (auto simp: curve_def e(5))
  have "\<exists>r. bx_result q prices s' = Inr r \<and> br_final_equity r = bx_cash s' \<and> br_evaluations r = bx_evals s'
      \<and> br_trades r = length (bx_evals s') \<and> br_holds r = bx_holds s' \<and> br_signals r = bx_signals s' \<and> br_equity_curve r = curve"
    using assms(3) by (simp add: bx_result_def Let_def m pnls curve_def)
  then show ?thesis
    unfolding run_backtest_def s(1) using c e(2-4) curve by (auto simp: res_bind_def)
qed


definition args0 :: backtest_args where
  "args0 = \<lparr>bq_rp = (\<lambda>_. []), bq_draw = (\<lambda>_. 1 / 5000), bq_strategy = (\<lambda>b. if ba_pct b > 0 then ''buy'' else ''sell''),
     bq_name = ''x'', bq_symbol = ''S'', bq_equity = 1000, bq_fraction = 19 / 20, bq_minutes = 1\<rparr>"

lemma args0_facts: "fair_draws args0" "bq_equity args0 \<noteq> 0" "bq_equity args0 = 1000"
  by (simp_all add: fair_draws_def args0_def HARNESS_SLIPPAGE_MIN_PCT_def HARNESS_SLIPPAGE_MAX_PCT_def)

lemma backtest_books_close_witness:
  "\<exists>r. run_backtest args0 [100, 102, 99, 101] = Inr r
    \<and> br_final_equity r = 1000 + sum_list (map pnl_of (br_evaluations r)) \<and> br_trades r + br_holds r = 3"
proof -
  have p: "\<forall>p \<in> set [100, 102, 99, 101 :: real]. 0 < p" "[100, 102, 99, 101 :: real] \<noteq> []" by simp_all
  show ?thesis using backtest_books_close [OF p(1) args0_facts(1,2) p(2)] by (auto simp: args0_facts)
qed

section \<open>No look-ahead\<close>

lemma harness_bar_prefix: "i < length prices \<Longrightarrow> harness_bar (prices @ later) i = harness_bar prices i"
  by (simp add: harness_bar_def nth_append)

lemma bx_loop_prefix:
  "\<forall>i \<in> set is. i < length prices \<Longrightarrow> bx_loop q (prices @ later) is s = bx_loop q prices is s"
proof (induction "is" arbitrary: s)
  case (Cons i "is")
  then have "bx_step q (prices @ later) i s = bx_step q prices i s"
    by (simp add: bx_step_def harness_bar_prefix nth_append)
  then show ?case using Cons by (simp add: res_bind_def split: sum.splits)
qed simp

text \<open>Everything the harness does up to a bar is decided by the prices up to that bar: later prices change no
  decision, no fill, no score and no equity before them.
\<close>
theorem harness_sees_no_later_price:
  "bx_loop q (prices @ later) [1 ..< length prices] (start_run q) = bx_loop q prices [1 ..< length prices] (start_run q)"
  by (rule bx_loop_prefix) simp

section \<open>A bankrupt account\<close>

lemma negative_equity_reverses_a_buy:
  assumes "bx_dir s = 0" "bx_qty s = 0" "bx_cash s < 0" "0 < cur" "0 < bq_fraction q"
  shows "\<exists>s'. open_lot q cur i 1 s = Inr s' \<and> bx_dir s' = 1 \<and> bx_qty s' < 0"
  using assms by (simp add: open_lot_def Let_def divide_neg_pos mult_pos_neg)

definition args1 :: backtest_args where
  "args1 = args0\<lparr>bq_strategy := (\<lambda>b. if ba_index b = 1 then ''sell'' else ''buy'')\<rparr>"

text \<open>An account that a short position has ruined goes on trading with the signs reversed: equity below zero makes
  the quantity negative, so the \<open>buy\<close> at 300 opens a short position that the books call long.
\<close>
theorem ruined_account_buys_by_selling:
  "\<exists>s. bx_loop args1 [100, 100, 300] [1 ..< 3] (start_run args1) = Inr s \<and> bx_dir s = 1 \<and> bx_qty s < 0"
proof -
  define s1 where "s1 = (start_run args1)\<lparr>bx_signals := 1, bx_cash := 194981 / 100, bx_qty := - 19 / 2, bx_dir := - 1,
    bx_price := 4999 / 50, bx_open_qty := 19 / 2, bx_bar := 1, bx_confidence := DEFAULT_CONFIDENCE, bx_draws := 1, bx_curve := [99981 / 100]\<rparr>"
  have one: "bx_step args1 [100, 100, 300] 1 (start_run args1) = Inr s1"
    by (simp add: bx_step_def bx_act_def close_lot_def open_lot_def slipped_def harness_bar_def Let_def args1_def args0_def
        start_run_def s1_def)
  obtain ev where ev: "score_round_trip args1 (15003 / 50) 2 (s1\<lparr>bx_signals := 2\<rparr>) = Inr ev"
  proof -
    have "bx_price (s1\<lparr>bx_signals := 2\<rparr>) \<noteq> 0" "bx_confidence (s1\<lparr>bx_signals := 2\<rparr>) = DEFAULT_CONFIDENCE"
      by (simp_all add: s1_def)
    then show thesis using score_round_trip_total that by blast
  qed
  define s2 where "s2 = s1\<lparr>bx_signals := 2, bx_cash := - 90076 / 100, bx_evals := [ev], bx_qty := 0, bx_dir := 0, bx_draws := 2\<rparr>"
  have close: "close_lot args1 300 2 (s1\<lparr>bx_signals := 2\<rparr>) = Inr s2"
  proof -
    have sl: "slipped args1 300 (- bx_qty (s1\<lparr>bx_signals := 2\<rparr>)) (s1\<lparr>bx_signals := 2\<rparr>) = 15003 / 50"
      by (simp add: slipped_def args1_def args0_def s1_def)
    show ?thesis unfolding close_lot_def Let_def sl ev res_bind_def sum.case by (simp add: s2_def s1_def start_run_def)
  qed
  obtain s3 where open3: "open_lot args1 300 2 1 s2 = Inr s3" "bx_dir s3 = 1" "bx_qty s3 < 0"
    using negative_equity_reverses_a_buy [of s2 300 args1 2] by (auto simp: s2_def args1_def args0_def)
  have "bx_step args1 [100, 100, 300] 2 s1 = Inr (s3\<lparr>bx_curve := bx_curve s3 @ [bx_cash s3 + bx_qty s3 * 300]\<rparr>)"
  proof -
    have a: "bq_strategy args1 (harness_bar [100, 100, 300] 2) = ''buy''" "[100, 100, 300 :: real] ! 2 = 300"
      by (simp_all add: args1_def harness_bar_def)
    have s: "bx_signals s1 + 1 = 2" "(1 :: int) \<noteq> bx_dir (s1\<lparr>bx_signals := 2\<rparr>)" by (simp_all add: s1_def)
    show ?thesis
      using s(2) unfolding bx_step_def bx_act_def a Let_def s(1) by (simp add: close open3(1))
  qed
  then show ?thesis using one open3(2,3) by (simp add: numeral_eq_Suc upt_conv_Cons)
qed

section \<open>The harness and the live signal\<close>

lemma history_run:
  assumes "\<forall>p \<in> set ps. 0 < p" "truthy k" "2 \<le> sd_maxlen s" "length (dget (sd_history s) k []) \<le> sd_maxlen s"
  shows "dget (sd_history (run_ticks (map (Pair k) ps) s)) k []
    = drop (length (dget (sd_history s) k []) + length ps - sd_maxlen s) (dget (sd_history s) k [] @ ps)"
  using assms
proof (induction ps arbitrary: s)
  case (Cons p ps)
  let ?s = "snd (observe_price k p s)" and ?h = "dget (sd_history s) k []"
  have h: "dget (sd_history ?s) k [] = drop (length ?h + 1 - sd_maxlen s) (?h @ [p])" "sd_maxlen ?s = sd_maxlen s"
    using Cons.prems by (simp_all add: observe_price_def take_tick_eq next_bar_def push_capped_def last_n_def Let_def)
  have "dget (sd_history (run_ticks (map (Pair k) ps) ?s)) k []
      = drop (length (dget (sd_history ?s) k []) + length ps - sd_maxlen ?s) (dget (sd_history ?s) k [] @ ps)"
    by (rule Cons.IH) (use Cons.prems h in auto)
  also have "\<dots> = drop (length ?h + length (p # ps) - sd_maxlen s) (?h @ p # ps)"
  proof (cases "length ?h < sd_maxlen s")
    case False
    then have e: "length ?h = sd_maxlen s" "1 \<le> length ?h" using Cons.prems(3,4) by auto
    then have "dget (sd_history ?s) k [] @ ps = drop 1 (?h @ p # ps)" "length (dget (sd_history ?s) k []) = sd_maxlen s"
      by (simp_all add: h)
    then show ?thesis using e by (simp add: h(2))
  qed (simp add: h)
  finally show ?case by simp
qed simp

text \<open>a volatile start, a flat market, and a tick two percent up\<close>
definition series0 :: "real list" where
  "series0 = [1, 2, 1, 2, 1, 2, 1, 2, 1, 2, 1, 2, 1, 2, 1, 2] @ replicate 48 2 @ [51 / 25]"

lemma pct_returns_flat: "a \<noteq> 0 \<Longrightarrow> pct_returns (a # replicate n a @ xs) = replicate n 0 @ pct_returns (a # xs)"
  by (induction n) auto

lemma sigma_live: "compute_return_sigma SIGMA_MIN_SAMPLES (replicate 49 2 @ [51 / 25]) = Some (sqrt (192 / 2401))"
proof -
  have "replicate 49 (2 :: real) = 2 # replicate 48 2" by (simp add: numeral_eq_Suc)
  then have "pct_returns (replicate 49 2 @ [51 / 25]) = replicate 48 0 @ [2]"
    using pct_returns_flat [of 2 48 "[51 / 25]"] by simp
  then show ?thesis
    by (simp add: compute_return_sigma_def SIGMA_MIN_SAMPLES_def Let_def sum_list_replicate power2_eq_square)
qed

lemma sigma_harness: "\<exists>v. compute_return_sigma SIGMA_MIN_SAMPLES series0 = Some (sqrt v) \<and> 100 \<le> v"
proof -
  have "pct_returns series0 = [100, - 50, 100, - 50, 100, - 50, 100, - 50, 100, - 50, 100, - 50, 100, - 50, 100] @ replicate 48 0 @ [2]"
    using pct_returns_flat [of 2 48 "[51 / 25]"] by (simp add: series0_def)
  moreover have "length series0 = 65" "series0 \<noteq> []" by (simp_all add: series0_def)
  ultimately have "compute_return_sigma SIGMA_MIN_SAMPLES series0 = Some (sqrt (377247 / 256))"
    by (simp add: compute_return_sigma_def SIGMA_MIN_SAMPLES_def Let_def sum_list_replicate power2_eq_square)
  then show ?thesis by (intro exI [of _ "377247 / 256"] conjI) simp_all
qed

text \<open>C24: The harness does not measure the live signal: it shows the strategy 65 prices where the live history keeps 50.
  On one series the baseline buys live and in the shadow engine, and holds in the harness, at the same tick.
\<close>
theorem harness_baseline_is_not_the_live_one:
  "baseline_momentum (next_bar (PStr ''S'') (51 / 25) (run_ticks (map (Pair (PStr ''S'')) (butlast series0))
       (new_shadow_engine ''b'' baseline_momentum DEFAULT_HISTORY_MAXLEN))) = ''buy''
   \<and> baseline_momentum (harness_bar series0 64) = ''hold''"
proof
  let ?s = "run_ticks (map (Pair (PStr ''S'')) (butlast series0)) (new_shadow_engine ''b'' baseline_momentum DEFAULT_HISTORY_MAXLEN)"
  have b: "butlast series0 = [1, 2, 1, 2, 1, 2, 1, 2, 1, 2, 1, 2, 1, 2, 1, 2] @ replicate 48 2"
    by (simp add: series0_def butlast_append)
  have m: "sd_maxlen (run_ticks ts s) = sd_maxlen s" for ts s
    by (induction ts s rule: run_ticks.induct) (simp_all add: observe_price_def take_tick_eq)
  have "dget (sd_history ?s) (PStr ''S'') [] = 1 # 2 # replicate 48 2"
    using history_run [of "butlast series0" "PStr ''S''" "new_shadow_engine ''b'' baseline_momentum DEFAULT_HISTORY_MAXLEN"]
    by (simp add: b new_shadow_engine_def DEFAULT_HISTORY_MAXLEN_def)
  then have live: "ba_history (next_bar (PStr ''S'') (51 / 25) ?s) = replicate 49 2 @ [51 / 25]"
      "ba_pct (next_bar (PStr ''S'') (51 / 25) ?s) = 2"
    by (simp_all add: next_bar_def push_capped_def last_n_def Let_def m new_shadow_engine_def DEFAULT_HISTORY_MAXLEN_def numeral_eq_Suc)
  have "3 * sqrt (192 / 2401) \<le> 3 * (1 :: real)" by (rule mult_left_mono) simp_all
  then have hi: "\<not> 4 < 3 * sqrt (192 / 2401 :: real)" by linarith
  have "1 / 50 \<le> sqrt (192 / 2401 :: real)"
    by (rule real_le_rsqrt) (simp add: power2_eq_square)
  then show "baseline_momentum (next_bar (PStr ''S'') (51 / 25) ?s) = ''buy''"
    unfolding baseline_eq sigma_of_def live sigma_live
    by (simp add: hi trade_threshold_def calibrated_def SIGMA_FLOOR_PCT_def MOMENTUM_SIGMA_def)
  obtain v where v: "compute_return_sigma SIGMA_MIN_SAMPLES series0 = Some (sqrt v)" "100 \<le> v" using sigma_harness by blast
  then have "10 \<le> sqrt v" by (intro real_le_rsqrt) simp
  moreover have "ba_history (harness_bar series0 64) = series0" "ba_pct (harness_bar series0 64) = 2"
    by (simp_all add: harness_bar_def HARNESS_HISTORY_WINDOW_def series0_def nth_append Let_def)
  ultimately show "baseline_momentum (harness_bar series0 64) = ''hold''"
    unfolding baseline_eq sigma_of_def
    by (simp add: v trade_threshold_def calibrated_def SIGMA_FLOOR_PCT_def MOMENTUM_SIGMA_def)
qed


section \<open>The verdict\<close>

lemma best_of_spec: "best_of b cs \<in> set (b # cs) \<and> (\<forall>c \<in> set (b # cs). bs_mean_return_pct c \<le> bs_mean_return_pct (best_of b cs))"
proof (induction cs arbitrary: b)
  case (Cons c cs)
  let ?b = "if bs_mean_return_pct c > bs_mean_return_pct b then c else b"
  have "best_of ?b cs \<in> set (?b # cs)" "\<forall>x \<in> set (?b # cs). bs_mean_return_pct x \<le> bs_mean_return_pct (best_of ?b cs)"
    using Cons.IH [of ?b] by blast+
  then show ?case by (auto split: if_splits)
qed simp

text \<open>The harness recommends a promotion only for the best candidate, when it and the baseline made enough trades
  and it returned more than the baseline by the margin, and then always: the test that the candidate behaves
  differently never decides.
\<close>
theorem promotion_needs_trades_and_margin:
  assumes "evaluate_from_stats stats baseline margin min_trades = Some v" "1 / 10 ^ 9 \<le> margin"
  shows "vd_candidate_stats v \<in> set stats \<and> bs_name (vd_candidate_stats v) \<noteq> baseline
    \<and> vd_baseline_stats v \<in> set stats \<and> bs_name (vd_baseline_stats v) = baseline
    \<and> (\<forall>s \<in> set stats. bs_name s = baseline \<or> bs_mean_return_pct s \<le> bs_mean_return_pct (vd_candidate_stats v))
    \<and> (vd_decision v = PROMOTE) = (min_trades \<le> bs_mean_trades (vd_baseline_stats v)
        \<and> min_trades \<le> bs_mean_trades (vd_candidate_stats v)
        \<and> bs_mean_return_pct (vd_baseline_stats v) + margin < bs_mean_return_pct (vd_candidate_stats v))"
proof -
  obtain base where base: "map_of (rev (map (\<lambda>s. (bs_name s, s)) stats)) baseline = Some base"
    using assms(1) by (auto simp: evaluate_from_stats_def split: option.splits)
  obtain c cs where c: "filter (\<lambda>s. bs_name s \<noteq> baseline) stats = c # cs"
    using assms(1) by (auto simp: evaluate_from_stats_def base split: list.splits)
  have "base \<in> set stats \<and> bs_name base = baseline" using map_of_SomeD [OF base] by auto
  moreover have "set (c # cs) = {s \<in> set stats. bs_name s \<noteq> baseline}" by (metis c set_filter)
  then have "best_of c cs \<in> set stats \<and> bs_name (best_of c cs) \<noteq> baseline"
    "\<forall>s \<in> set stats. bs_name s = baseline \<or> bs_mean_return_pct s \<le> bs_mean_return_pct (best_of c cs)"
    using best_of_spec [of c cs] by blast+
  moreover have "vd_candidate_stats v = best_of c cs" "vd_baseline_stats v = base"
    "(vd_decision v = PROMOTE) = (min_trades \<le> bs_mean_trades base \<and> min_trades \<le> bs_mean_trades (best_of c cs)
       \<and> bs_mean_return_pct base + margin < bs_mean_return_pct (best_of c cs))"
    using assms by (auto simp: evaluate_from_stats_def base c Let_def split: if_splits)
  ultimately show ?thesis by simp
qed

definition stats0 :: "string \<Rightarrow> real \<Rightarrow> StrategyStats" where
  "stats0 name x = \<lparr>bs_name = name, bs_mean_return_pct = x, bs_mean_trades = 40, bs_mean_sharpe = 1, bs_mean_win_rate = 1 / 2,
     bs_mean_signals = 50\<rparr>"

lemma promotion_needs_trades_and_margin_witness:
  "\<exists>v. evaluate_from_stats [stats0 ''b'' 1, stats0 ''c'' 4, stats0 ''d'' 3] ''b'' 1 30 = Some v
     \<and> vd_decision v = PROMOTE \<and> vd_candidate_stats v \<in> set [stats0 ''b'' 1, stats0 ''c'' 4, stats0 ''d'' 3]"
proof -
  have "\<exists>v. evaluate_from_stats [stats0 ''b'' 1, stats0 ''c'' 4, stats0 ''d'' 3] ''b'' 1 30 = Some v \<and> vd_decision v = PROMOTE"
    by (simp add: evaluate_from_stats_def stats0_def)
  then obtain v where "evaluate_from_stats [stats0 ''b'' 1, stats0 ''c'' 4, stats0 ''d'' 3] ''b'' 1 30 = Some v" "vd_decision v = PROMOTE"
    by blast
  then show ?thesis using promotion_needs_trades_and_margin [of "[stats0 ''b'' 1, stats0 ''c'' 4, stats0 ''d'' 3]" "''b''" 1 30 v]
    by auto
qed

section \<open>Percentiles stay inside the data\<close>

lemma convex_between:
  fixes a b :: real
  assumes "lo \<le> a" "a \<le> hi" "lo \<le> b" "b \<le> hi" "0 \<le> t" "t \<le> 1"
  shows "lo \<le> a + (b - a) * t \<and> a + (b - a) * t \<le> hi"
proof -
  have e: "a + (b - a) * t = (1 - t) * a + t * b" by (simp add: algebra_simps)
  have "(1 - t) * lo + t * lo \<le> (1 - t) * a + t * b" by (intro add_mono mult_left_mono) (use assms in auto)
  moreover have "(1 - t) * a + t * b \<le> (1 - t) * hi + t * hi" by (intro add_mono mult_left_mono) (use assms in auto)
  ultimately show ?thesis unfolding e by (simp add: algebra_simps)
qed

text \<open>A percentile between 0 and 100 is always found and lies between the smallest and the largest value, before it
  is rounded; the percentile rank of a threshold and its hit rate lie in their ranges.
\<close>
theorem percentile_lies_in_the_data:
  assumes "values \<noteq> []" "0 \<le> p" "p \<le> 100"
  shows "(\<exists>x. percentile_at values p = Inr (py_round 6 x) \<and> Min (set values) \<le> x \<and> x \<le> Max (set values))
    \<and> 0 \<le> percentile_of_value values t \<and> percentile_of_value values t \<le> 100 \<and> 0 \<le> hit_rate values t \<and> hit_rate values t \<le> 1"
proof -
  let ?o = "sort values" and ?n = "length values"
  have in_range: "Min (set values) \<le> ?o ! i \<and> ?o ! i \<le> Max (set values)" if "i < ?n" for i
  proof -
    have "?o ! i \<in> set values" using that by (metis length_sort nth_mem set_sort)
    then show ?thesis by simp
  qed
  have "\<exists>x. percentile_at values p = Inr (py_round 6 x) \<and> Min (set values) \<le> x \<and> x \<le> Max (set values)"
  proof (cases "?n = 1")
    case True
    then show ?thesis using in_range [of 0] by (auto simp: percentile_at_def Let_def assms(1))
  next
    case False
    define rank where "rank = p / 100 * real (?n - 1)"
    define lo where "lo = nat \<lfloor>rank\<rfloor>"
    have n: "2 \<le> ?n" using False assms(1) by (cases "values") (auto simp: Suc_le_eq)
    have "p / 100 * real (?n - 1) \<le> 1 * real (?n - 1)" using assms by (intro mult_right_mono) auto
    then have r: "0 \<le> rank" "rank \<le> real (?n - 1)" using assms by (auto simp: rank_def)
    then have "\<lfloor>rank\<rfloor> \<le> int (?n - 1)" by linarith
    then have lo: "lo < ?n" "real lo \<le> rank" "rank - real lo \<le> 1" using r n by (auto simp: lo_def) linarith+
    have hi: "min (lo + 1) (?n - 1) < ?n" using n by linarith
    have "Min (set values) \<le> ?o ! lo + (?o ! min (lo + 1) (?n - 1) - ?o ! lo) * (rank - real lo)
      \<and> ?o ! lo + (?o ! min (lo + 1) (?n - 1) - ?o ! lo) * (rank - real lo) \<le> Max (set values)"
      by (rule convex_between) (use in_range [OF lo(1)] in_range [OF hi] lo(2,3) in auto)
    moreover have "percentile_at values p = Inr (py_round 6 (?o ! lo + (?o ! min (lo + 1) (?n - 1) - ?o ! lo) * (rank - real lo)))"
    proof -
      have tr: "nat (trunc_real rank) = lo" using r(1) by (simp add: trunc_real_def lo_def)
      show ?thesis unfolding percentile_at_def Let_def length_sort rank_def [symmetric] tr using lo(1) False assms(1) by simp
    qed
    ultimately show ?thesis by blast
  qed
  moreover have "0 \<le> percentile_of_value values t" "percentile_of_value values t \<le> 100"
  proof -
    have "real (length (filter (\<lambda>v. v < t) values)) / real ?n * 100 \<le> 1 * 100"
      using share_01 [of "values" "values" "\<lambda>v. v < t"] by (intro mult_right_mono) auto
    moreover have "decimals 4 0" "decimals 4 100" by (auto simp: decimals_def intro: exI [of _ "1000000"])
    ultimately show "0 \<le> percentile_of_value values t" "percentile_of_value values t \<le> 100"
      by (auto simp: percentile_of_value_def assms(1) intro!: py_round_bounds)
  qed
  moreover have "0 \<le> hit_rate values t \<and> hit_rate values t \<le> 1"
    using share_01 [of "values" "values" "\<lambda>m. m \<ge> t"] by (simp add: hit_rate_def assms(1) round_01)
  ultimately show ?thesis by blast
qed

lemma percentile_lies_in_the_data_witness:
  "\<exists>x. percentile_at [3, 1, 2] 50 = Inr (py_round 6 x) \<and> 1 \<le> x \<and> x \<le> 3"
  using percentile_lies_in_the_data [of "[3, 1, 2]" 50] by simp

end
