(* ===== verification/Challenger_Agent.thy ===== *)
theory Challenger_Agent
  imports Shadow_Trading Challenger_Store Strategy_Registry Agent_Records Signal_Generator Reasoning_Agent
begin

text \<open>
  A challenger (\<open>api/services/agents/challenger_agent.py\<close>): its strategy and the baseline trade the live ticks in the
  shadow, its record survives restarts, it proposes its own promotion once, grades itself and retires. \<open>challenger\<close>
  is its state with everything it writes to; JSON, the clock, ids, number formats and the text of the backtest
  verdict are parameters. What is published is the list \<open>ca_sent\<close>; a failing bus does not raise.
\<close>

definition STREAM_TRADE_PERFORMANCE :: string where "STREAM_TRADE_PERFORMANCE = ''trade_performance''"
definition STREAM_EXECUTIONS :: string where "STREAM_EXECUTIONS = ''executions''"
definition STREAM_PROPOSALS :: string where "STREAM_PROPOSALS = ''proposals''"
definition STREAM_AGENT_GRADES :: string where "STREAM_AGENT_GRADES = ''agent_grades''"
definition CHALLENGER_MIN_SHADOW_TRADES :: nat where "CHALLENGER_MIN_SHADOW_TRADES = 40"
definition CHALLENGER_MIN_SHADOW_WIN_RATE :: real where "CHALLENGER_MIN_SHADOW_WIN_RATE = 55 / 100"

record challenger_env =
  ch_rp :: "pyval \<Rightarrow> string"
  ch_id :: string
  ch_instance :: string
  ch_config :: pydict
  ch_max_fills :: int
  ch_loads :: "string \<Rightarrow> pyval option"
  ch_now :: string
  ch_uuid :: "nat \<Rightarrow> string"
  ch_percent :: "real \<Rightarrow> string"
  ch_signed2 :: "real \<Rightarrow> string"
  ch_store :: "track_env option"
  ch_clock :: "nat \<Rightarrow> real"
  ch_hash :: "pydict \<Rightarrow> string"
  ch_verdict :: string
  ch_db_up :: bool
  ch_db_fails :: bool
  ch_lists :: "redis_env option"

record challenger =
  ca_fills :: nat
  ca_pnl_buffer :: "real list"
  ca_grade_history :: "pydict list"
  ca_registered :: bool
  ca_shadow :: "shadow_engine option"
  ca_baseline :: "shadow_engine option"
  ca_emitted :: bool
  ca_last_tick :: "string option"
  ca_last_trade :: "string option"
  ca_ticks :: nat
  ca_recent :: "pydict list"
  ca_running :: bool
  ca_sent :: "(string \<times> pydict) list"
  ca_tracks :: tracks
  ca_strategies :: StrategyRegistry
  ca_proposals :: "mem_store \<times> log_row list \<times> redis_lists"

type_synonym 'a chrun = "(challenger, 'a) eff"

section \<open>Construction and warm start\<close>

definition strategy_name :: "challenger_env \<Rightarrow> string" where
  "strategy_name e = py_str (ch_rp e) (py_or (py_get (ch_config e) ''strategy'') (PStr []))"

definition build_shadow_engines :: "challenger_env \<Rightarrow> shadow_engine option \<times> shadow_engine option" where
  "build_shadow_engines e =
     (if strategy_name e = [] then (None, None)
      else case map_of STRATEGIES (strategy_name e) of None \<Rightarrow> (None, None)
        | Some strat \<Rightarrow> (Some (new_shadow_engine (strategy_name e) strat DEFAULT_HISTORY_MAXLEN),
            map_option (\<lambda>b. new_shadow_engine ''baseline_momentum'' b DEFAULT_HISTORY_MAXLEN) (map_of STRATEGIES ''baseline_momentum'')))"

text \<open>a fresh agent over what the process already holds\<close>
definition challenger_init ::
  "challenger_env \<Rightarrow> tracks \<Rightarrow> StrategyRegistry \<Rightarrow> mem_store \<times> log_row list \<times> redis_lists \<Rightarrow> challenger" where
  "challenger_init e ts reg ps = (case build_shadow_engines e of (own, base) \<Rightarrow>
     \<lparr>ca_fills = 0, ca_pnl_buffer = [], ca_grade_history = [], ca_registered = False, ca_shadow = own, ca_baseline = base,
      ca_emitted = False, ca_last_tick = None, ca_last_trade = None, ca_ticks = 0, ca_recent = [], ca_running = False,
      ca_sent = [], ca_tracks = ts, ca_strategies = reg, ca_proposals = ps\<rparr>)"

definition restore_metrics :: "real list \<Rightarrow> ShadowMetrics" where
  "restore_metrics pnls = \<lparr>sm_trades = length pnls, sm_wins = length (filter (\<lambda>p. p > 0) pnls),
     sm_realized_pnl = sum_list pnls, sm_pnls = pnls\<rparr>"

definition hydrate_shadow_state :: "challenger_env \<Rightarrow> challenger \<Rightarrow> challenger" where
  "hydrate_shadow_state e s = (case (ca_shadow s, ch_store e) of
       (Some own, Some k) \<Rightarrow>
         (if strategy_name e = [] then s
          else case load_track k (strategy_name e) (ca_tracks s) of None \<Rightarrow> s
            | Some r \<Rightarrow> s\<lparr>ca_shadow := Some (own\<lparr>sd_metrics := restore_metrics (kr_pnls r)\<rparr>),
                ca_baseline := map_option (\<lambda>b. b\<lparr>sd_metrics := restore_metrics (kr_baseline r)\<rparr>) (ca_baseline s),
                ca_emitted := kr_emitted r\<rparr>)
     | _ \<Rightarrow> s)"

definition persist_shadow_state :: "challenger_env \<Rightarrow> challenger \<Rightarrow> challenger" where
  "persist_shadow_state e s = (case (ca_shadow s, ch_store e) of
       (Some own, Some k) \<Rightarrow>
         (if strategy_name e = [] then s
          else s\<lparr>ca_tracks := save_performance k (strategy_name e) (sm_pnls (sd_metrics own))
                 (case ca_baseline s of None \<Rightarrow> [] | Some b \<Rightarrow> sm_pnls (sd_metrics b)) (ca_emitted s) (ca_tracks s)\<rparr>)
     | _ \<Rightarrow> s)"

text \<open>an error inside leaves the registry as far as it came\<close>
definition seed_lifecycle :: "challenger_env \<Rightarrow> StrategyRegistry \<Rightarrow> StrategyRegistry" where
  "seed_lifecycle e reg =
     (if find_by_strategy (strategy_name e) reg \<noteq> None then reg
      else case register_version (ch_hash e) [(''strategy'', PStr (strategy_name e))] None (ch_clock e 0) reg of
        (version, reg1) \<Rightarrow> (case transition (sv_version_id version) BACKTESTED (\<lambda>i. ch_clock e (i + 1)) reg1 of
            (Inl _, reg2) \<Rightarrow> reg2
          | (Inr _, reg2) \<Rightarrow> snd (transition (sv_version_id version) SHADOW (\<lambda>i. ch_clock e (i + 2)) reg2)))"

definition ensure_lifecycle_registered :: "challenger_env \<Rightarrow> challenger \<Rightarrow> challenger" where
  "ensure_lifecycle_registered e s =
     (if ca_registered s then s
      else let s1 = s\<lparr>ca_registered := True\<rparr>
           in if strategy_name e = [] then s1 else s1\<lparr>ca_strategies := seed_lifecycle e (ca_strategies s1)\<rparr>)"

definition challenger_start :: "challenger_env \<Rightarrow> challenger \<Rightarrow> challenger" where
  "challenger_start e s = ensure_lifecycle_registered e (hydrate_shadow_state e (s\<lparr>ca_running := True\<rparr>))"

section \<open>Ticks\<close>

definition recent_trade :: "challenger_env \<Rightarrow> ShadowTrade \<Rightarrow> pydict" where
  "recent_trade e t = [(''symbol'', sx_symbol t), (''direction'', PStr (sx_direction t)), (''pnl'', PFloat (py_round 4 (sx_pnl t))),
     (''entry_price'', PFloat (py_round 4 (sx_entry_price t))), (''exit_price'', PFloat (py_round 4 (sx_exit_price t))),
     (''timestamp'', PStr (ch_now e))]"

text \<open>None for a payload that is no JSON\<close>
definition market_payload :: "challenger_env \<Rightarrow> pydict \<Rightarrow> pyval option" where
  "market_payload e data = (case py_get data ''payload'' of PStr t \<Rightarrow> ch_loads e t | PDict d \<Rightarrow> Some (PDict d) | _ \<Rightarrow> Some (PDict data))"

definition observe_both :: "challenger_env \<Rightarrow> pyval \<Rightarrow> real \<Rightarrow> shadow_engine \<Rightarrow> challenger \<Rightarrow> bool \<times> challenger" where
  "observe_both e symbol price own s = (case observe_price symbol price own of (closed_trade, own') \<Rightarrow>
     let s1 = s\<lparr>ca_shadow := Some own'\<rparr>;
         s2 = (case closed_trade of None \<Rightarrow> s1
                | Some t \<Rightarrow> s1\<lparr>ca_last_trade := Some (ch_now e), ca_recent := take 10 (recent_trade e t # ca_recent s1)\<rparr>)
     in case ca_baseline s2 of None \<Rightarrow> (closed_trade \<noteq> None, s2)
        | Some b \<Rightarrow> (case observe_price symbol price b of (baseline_closed, b') \<Rightarrow>
            (closed_trade \<noteq> None \<or> baseline_closed \<noteq> None, s2\<lparr>ca_baseline := Some b'\<rparr>)))"

definition observe_shadow :: "challenger_env \<Rightarrow> pydict \<Rightarrow> bool chrun" where
  "observe_shadow e data s = (case ca_shadow s of None \<Rightarrow> (Inr False, s)
     | Some own \<Rightarrow> (case market_payload e data of None \<Rightarrow> (Inr False, s)
       | Some (PDict p) \<Rightarrow>
           (case py_float (py_or (py_get p ''price'') (PFloat 0)) of Inl _ \<Rightarrow> (Inr False, s)
            | Inr price \<Rightarrow>
              let symbol = py_get p ''symbol'' in
              if \<not> truthy symbol \<or> price \<le> 0 then (Inr False, s)
              else let s1 = s\<lparr>ca_last_tick := Some (ch_now e), ca_ticks := ca_ticks s + 1\<rparr>
                   in if \<not> hashable symbol then (Inl TypeError, s1)
                      else case observe_both e symbol price own s1 of (b, s2) \<Rightarrow> (Inr b, s2))
       | Some _ \<Rightarrow> (Inl AttributeError, s)))"

section \<open>The summary and the bar for a promotion\<close>

text \<open>\<open>ys_baseline\<close>: trades, win rate and profit of the baseline, and whether the own profit is larger\<close>
record shadow_report =
  ys_trades :: nat
  ys_win_rate :: real
  ys_pnl :: real
  ys_sharpe :: real
  ys_baseline :: "(nat \<times> real \<times> real \<times> bool) option"

definition shadow_summary :: "challenger \<Rightarrow> shadow_report option" where
  "shadow_summary s = map_option (\<lambda>own. let m = sd_metrics own in
     \<lparr>ys_trades = sm_trades m, ys_win_rate = py_round 4 (shadow_win_rate m), ys_pnl = py_round 4 (sm_realized_pnl m),
      ys_sharpe = py_round 4 (shadow_sharpe m),
      ys_baseline = map_option (\<lambda>base. let b = sd_metrics base in
        (sm_trades b, py_round 4 (shadow_win_rate b), py_round 4 (sm_realized_pnl b), sm_realized_pnl m > sm_realized_pnl b)) (ca_baseline s)\<rparr>)
     (ca_shadow s)"

definition summary_dict :: "shadow_report option \<Rightarrow> pydict" where
  "summary_dict r = (case r of None \<Rightarrow> []
     | Some y \<Rightarrow> [(''shadow_trades'', PInt (int (ys_trades y))), (''shadow_win_rate'', PFloat (ys_win_rate y)),
         (''shadow_pnl'', PFloat (ys_pnl y)), (''shadow_sharpe'', PFloat (ys_sharpe y))]
       @ (case ys_baseline y of None \<Rightarrow> []
          | Some (n, w, p, b) \<Rightarrow> [(''baseline_shadow_trades'', PInt (int n)), (''baseline_shadow_win_rate'', PFloat w),
              (''baseline_shadow_pnl'', PFloat p), (''beats_baseline_shadow'', PBool b)]))"

datatype blocker = Needs_more_trades nat | Win_rate_below real | Pnl_not_positive | Sharpe_not_positive | Not_beating_the_baseline

definition promotion_blockers :: "shadow_report \<Rightarrow> blocker list" where
  "promotion_blockers y =
     (if ys_trades y < CHALLENGER_MIN_SHADOW_TRADES then [Needs_more_trades (CHALLENGER_MIN_SHADOW_TRADES - ys_trades y)] else [])
     @ (if ys_win_rate y < CHALLENGER_MIN_SHADOW_WIN_RATE then [Win_rate_below (ys_win_rate y)] else [])
     @ (if ys_pnl y \<le> 0 then [Pnl_not_positive] else [])
     @ (if ys_sharpe y \<le> 0 then [Sharpe_not_positive] else [])
     @ (if (case ys_baseline y of Some (_, _, _, b) \<Rightarrow> \<not> b | None \<Rightarrow> True) then [Not_beating_the_baseline] else [])"

definition shadow_edge :: "shadow_report \<Rightarrow> real option" where
  "shadow_edge y = map_option (\<lambda>(_, _, p, _). py_round 4 (ys_pnl y - p)) (ys_baseline y)"

datatype learning_status = WARMING | BUILDING | ELIGIBLE | PROMOTION_PROPOSED

definition learning_status_of :: "challenger \<Rightarrow> learning_status" where
  "learning_status_of s =
     (let y = shadow_summary s; trades = (case y of None \<Rightarrow> 0 | Some y \<Rightarrow> ys_trades y)
      in if ca_emitted s then PROMOTION_PROPOSED
         else if ca_baseline s \<noteq> None \<and> (case y of None \<Rightarrow> False | Some y \<Rightarrow> promotion_blockers y = []) \<and> trades > 0 then ELIGIBLE
         else if trades > 0 then BUILDING else WARMING)"

definition promotion_content :: "challenger_env \<Rightarrow> shadow_report \<Rightarrow> real \<Rightarrow> pydict" where
  "promotion_content e y edge = [(''strategy'', PStr (strategy_name e)), (''shadow_edge'', PFloat edge), (''confidence'', PFloat (ys_win_rate y)),
     (''reason'', PStr (''Shadow challenger '' @ [CHR 0x27] @ strategy_name e @ [CHR 0x27] @ '' beats baseline by '' @ ch_signed2 e edge @ '' PnL over ''
        @ nat_str (ys_trades y) @ '' shadow trades (win '' @ ch_percent e (ys_win_rate y) @ '').'' @ ch_verdict e))]"

definition promotion_payload :: "challenger_env \<Rightarrow> shadow_report \<Rightarrow> real \<Rightarrow> pydict" where
  "promotion_payload e y edge = dmerge
     [(''msg_id'', PStr (ch_uuid e 1)), (''source'', PStr (''challenger-'' @ ch_id e)), (''type'', PStr ''proposal''),
      (''proposal_type'', PStr ''challenger_promotion''), (''requires_approval'', PBool True), (''challenger_id'', PStr (ch_id e)),
      (''instance_id'', PStr (ch_instance e)), (''config'', PDict (ch_config e)), (''confidence'', PFloat (ys_win_rate y)),
      (''content'', PDict (promotion_content e y edge)), (''trace_id'', PStr (ch_uuid e 0)), (''timestamp'', PStr (ch_now e))]
     (summary_dict (Some y))"

definition send :: "string \<Rightarrow> pydict \<Rightarrow> challenger \<Rightarrow> challenger" where
  "send stream event s = s\<lparr>ca_sent := ca_sent s @ [(stream, event)]\<rparr>"

definition save_proposal :: "challenger_env \<Rightarrow> pydict \<Rightarrow> challenger \<Rightarrow> challenger" where
  "save_proposal e payload s =
     s\<lparr>ca_proposals := persist_proposal (ch_db_up e) (ch_db_fails e) (ch_clock e 0) (ch_lists e) payload (ca_proposals s)\<rparr>"

definition maybe_propose_shadow_promotion :: "challenger_env \<Rightarrow> challenger \<Rightarrow> challenger" where
  "maybe_propose_shadow_promotion e s =
     (if ca_emitted s \<or> ca_baseline s = None then s
      else case shadow_summary s of None \<Rightarrow> s
        | Some y \<Rightarrow> if promotion_blockers y \<noteq> [] then s
            else let payload = promotion_payload e y (the (shadow_edge y))
                 in persist_shadow_state e (save_proposal e payload (send STREAM_PROPOSALS payload (s\<lparr>ca_emitted := True\<rparr>))))"

section \<open>Grades and retirement\<close>

definition win_share :: "real list \<Rightarrow> real" where
  "win_share pnls = real (length (filter (\<lambda>p. p > 0) pnls)) / real (length pnls)"

definition grade_result :: "challenger_env \<Rightarrow> real list \<Rightarrow> challenger \<Rightarrow> pydict" where
  "grade_result e recent s = dmerge
     [(''challenger_id'', PStr (ch_id e)), (''instance_id'', PStr (ch_instance e)), (''fills'', PInt (int (ca_fills s))),
      (''win_rate'', PFloat (py_round 4 (win_share recent))), (''avg_pnl'', PFloat (py_round 4 (sum_list recent / real (length recent)))),
      (''config'', PDict (ch_config e)), (''timestamp'', PStr (ch_now e))]
     (summary_dict (shadow_summary s))"

definition grade_event :: "challenger_env \<Rightarrow> real \<Rightarrow> pydict \<Rightarrow> pydict" where
  "grade_event e win_rate g = [(''msg_id'', PStr (ch_uuid e 2)), (''type'', PStr ''challenger_grade''),
     (''source'', PStr (''challenger-'' @ ch_id e)), (''agent'', PStr ''challenger''),
     (''grade'', PStr (if win_rate \<ge> 1 / 2 then ''B'' else ''C'')), (''score'', PFloat win_rate),
     (''score_pct'', PFloat (py_round 1 (win_rate * 100))), (''metrics'', PDict g), (''timestamp'', PStr (ch_now e))]"

definition grade_challenger :: "challenger_env \<Rightarrow> challenger \<Rightarrow> challenger" where
  "grade_challenger e s =
     (let recent = last_n 20 (ca_pnl_buffer s)
      in if recent = [] then s
         else let g = grade_result e recent s
              in send STREAM_AGENT_GRADES (grade_event e (win_share recent) g) (s\<lparr>ca_grade_history := ca_grade_history s @ [g]\<rparr>))"

definition retirement_event :: "challenger_env \<Rightarrow> challenger \<Rightarrow> pydict" where
  "retirement_event e s =
     (let total_pnl = sum_list (ca_pnl_buffer s); win_rate = (if ca_pnl_buffer s \<noteq> [] then win_share (ca_pnl_buffer s) else 0)
      in dmerge (dmerge
        [(''msg_id'', PStr (ch_uuid e 3)), (''type'', PStr ''challenger_summary''), (''source'', PStr (''challenger-'' @ ch_id e)),
         (''challenger_id'', PStr (ch_id e)), (''instance_id'', PStr (ch_instance e)), (''total_fills'', PInt (int (ca_fills s))),
         (''total_pnl'', PFloat (py_round 4 total_pnl)), (''win_rate'', PFloat (py_round 4 win_rate)), (''config'', PDict (ch_config e)),
         (''grade_history'', PList (map PDict (last_n 5 (ca_grade_history s)))), (''timestamp'', PStr (ch_now e))]
        (summary_dict (shadow_summary s)))
        [(''proposal_type'', PStr ''challenger_result''), (''requires_approval'', PBool False),
         (''content'', PDict [(''description'', PStr (''Challenger '' @ ch_id e @ '' completed '' @ nat_str (ca_fills s) @ '' fills. Win rate: ''
              @ ch_percent e win_rate @ '', Total PnL: '' @ ch_signed2 e total_pnl @ ''.'' @ ch_verdict e)), (''confidence'', PFloat win_rate)])])"

text \<open>\<open>stop()\<close> inside the agent's own task: the loop over the messages already read goes on\<close>
definition retire_with_summary :: "challenger_env \<Rightarrow> challenger \<Rightarrow> challenger" where
  "retire_with_summary e s = (send STREAM_PROPOSALS (retirement_event e s) s)\<lparr>ca_running := False\<rparr>"

definition record_fill :: "pydict \<Rightarrow> unit chrun" where
  "record_fill data = bnd (lift_res (py_float (py_or (py_get data ''pnl'') (PFloat 0)))) (\<lambda>pnl.
     modify (\<lambda>s. s\<lparr>ca_pnl_buffer := push_capped 100 pnl (ca_pnl_buffer s), ca_fills := ca_fills s + 1\<rparr>))"

definition grade_due :: "challenger_env \<Rightarrow> nat \<Rightarrow> bool pyres" where
  "grade_due e fills =
     (if fills = 0 then Inr False
      else res_bind (py_int (dget (ch_config e) ''grade_every'' (PInt 10))) (\<lambda>n. Inr (int fills mod max n 1 = 0)))"

definition challenger_process :: "challenger_env \<Rightarrow> string \<Rightarrow> pydict \<Rightarrow> unit chrun" where
  "challenger_process e stream data =
     andthen (modify (ensure_lifecycle_registered e))
       (if stream = STREAM_MARKET_EVENTS
        then bnd (observe_shadow e data) (\<lambda>closed_any.
             modify (\<lambda>s. maybe_propose_shadow_promotion e (if closed_any then persist_shadow_state e s else s)))
        else andthen (if stream = STREAM_TRADE_PERFORMANCE then record_fill data else ret ())
          (bnd (gets ca_fills) (\<lambda>fills.
           bnd (lift_res (grade_due e fills)) (\<lambda>due.
           andthen (if due then modify (grade_challenger e) else ret ())
             (if int fills \<ge> ch_max_fills e then modify (retire_with_summary e) else ret ())))))"

text \<open>
  the messages of one turn of the agent's loop, each with its view of the outside; an error goes to the dead letters
  and the loop goes on
\<close>
fun challenger_turn :: "(challenger_env \<times> string \<times> pydict) list \<Rightarrow> challenger \<Rightarrow> challenger" where
  "challenger_turn [] s = s"
| "challenger_turn ((e, stream, data) # ms) s = challenger_turn ms (snd (challenger_process e stream data s))"


section \<open>One promotion, and an earned one\<close>

definition is_promotion :: "string \<times> pydict \<Rightarrow> bool" where
  "is_promotion m \<longleftrightarrow> py_get (snd m) ''proposal_type'' = PStr ''challenger_promotion''"

text \<open>what the payload must show: enough trades, a win rate, profit and Sharpe above the bar, and more profit than the baseline\<close>
definition earned_promotion :: "string \<times> pydict \<Rightarrow> bool" where
  "earned_promotion m \<longleftrightarrow> fst m = STREAM_PROPOSALS \<and> py_get (snd m) ''requires_approval'' = PBool True
     \<and> (\<exists>n w p sh. py_get (snd m) ''shadow_trades'' = PInt (int n) \<and> CHALLENGER_MIN_SHADOW_TRADES \<le> n
         \<and> py_get (snd m) ''shadow_win_rate'' = PFloat w \<and> CHALLENGER_MIN_SHADOW_WIN_RATE \<le> w
         \<and> py_get (snd m) ''shadow_pnl'' = PFloat p \<and> 0 < p \<and> py_get (snd m) ''shadow_sharpe'' = PFloat sh \<and> 0 < sh
         \<and> py_get (snd m) ''beats_baseline_shadow'' = PBool True)"

definition promotion_inv :: "challenger \<Rightarrow> bool" where
  "promotion_inv s \<longleftrightarrow> length (filter is_promotion (ca_sent s)) \<le> (if ca_emitted s then 1 else 0)
     \<and> list_all earned_promotion (filter is_promotion (ca_sent s))"

definition promotion_step :: "challenger \<Rightarrow> challenger \<Rightarrow> bool" where
  "promotion_step s s' \<longleftrightarrow> promotion_inv s \<longrightarrow> promotion_inv s'"

interpretation prom: frame promotion_step
  by unfold_locales (auto simp: promotion_step_def)

lemma no_blockers:
  "promotion_blockers y = [] \<longleftrightarrow> CHALLENGER_MIN_SHADOW_TRADES \<le> ys_trades y \<and> CHALLENGER_MIN_SHADOW_WIN_RATE \<le> ys_win_rate y
     \<and> 0 < ys_pnl y \<and> 0 < ys_sharpe y \<and> (\<exists>n w p. ys_baseline y = Some (n, w, p, True))"
  by (auto simp: promotion_blockers_def split: option.splits)

lemma promotion_payload_earned:
  assumes "promotion_blockers y = []"
  shows "earned_promotion (STREAM_PROPOSALS, promotion_payload e y edge)" "is_promotion (STREAM_PROPOSALS, promotion_payload e y edge)"
proof -
  obtain n w p where b: "ys_baseline y = Some (n, w, p, True)" using assms by (auto simp: no_blockers)
  have g: "py_get (promotion_payload e y edge) ''requires_approval'' = PBool True"
    "py_get (promotion_payload e y edge) ''proposal_type'' = PStr ''challenger_promotion''"
    "py_get (promotion_payload e y edge) ''shadow_trades'' = PInt (int (ys_trades y))"
    "py_get (promotion_payload e y edge) ''shadow_win_rate'' = PFloat (ys_win_rate y)"
    "py_get (promotion_payload e y edge) ''shadow_pnl'' = PFloat (ys_pnl y)"
    "py_get (promotion_payload e y edge) ''shadow_sharpe'' = PFloat (ys_sharpe y)"
    "py_get (promotion_payload e y edge) ''beats_baseline_shadow'' = PBool True"
    by (simp_all add: promotion_payload_def summary_dict_def b dmerge_def py_get_def)
  show "earned_promotion (STREAM_PROPOSALS, promotion_payload e y edge)"
    using assms by (auto simp: earned_promotion_def g no_blockers)
  show "is_promotion (STREAM_PROPOSALS, promotion_payload e y edge)" by (simp add: is_promotion_def g)
qed

lemma sent_unchanged [simp]:
  "ca_sent (persist_shadow_state e s) = ca_sent s" "ca_emitted (persist_shadow_state e s) = ca_emitted s"
  "ca_sent (save_proposal e p s) = ca_sent s" "ca_emitted (save_proposal e p s) = ca_emitted s"
  "ca_sent (ensure_lifecycle_registered e s) = ca_sent s" "ca_emitted (ensure_lifecycle_registered e s) = ca_emitted s"
  by (simp_all add: persist_shadow_state_def save_proposal_def ensure_lifecycle_registered_def Let_def split: option.splits)

lemma promotion_inv_cong: "ca_sent s' = ca_sent s \<Longrightarrow> ca_emitted s' = ca_emitted s \<Longrightarrow> promotion_inv s' = promotion_inv s"
  by (simp add: promotion_inv_def)

lemma inv_propose: "promotion_inv s \<Longrightarrow> promotion_inv (maybe_propose_shadow_promotion e s)"
  using promotion_payload_earned
  by (auto simp: maybe_propose_shadow_promotion_def promotion_inv_def send_def Let_def split: option.splits if_splits)

lemma inv_send: "\<not> is_promotion (st, ev) \<Longrightarrow> promotion_inv s \<Longrightarrow> promotion_inv (send st ev s)"
  by (simp add: promotion_inv_def send_def)

lemma grade_is_no_promotion: "\<not> is_promotion (st, grade_event e w g)"
  by (simp add: is_promotion_def grade_event_def py_get_def)

lemma retirement_is_no_promotion: "\<not> is_promotion (st, retirement_event e s)"
proof -
  have "py_get (dmerge d [(''proposal_type'', v), x, y]) ''proposal_type'' = (case map_of [y, x, (''proposal_type'', v)] ''proposal_type'' of None \<Rightarrow> PNone | Some w \<Rightarrow> w)" for d :: pydict and v x y
    by (cases x; cases y) (simp add: dmerge_def)
  then show ?thesis by (simp add: is_promotion_def retirement_event_def Let_def)
qed

lemma inv_grade: "promotion_inv s \<Longrightarrow> promotion_inv (grade_challenger e s)"
  by (simp add: grade_challenger_def Let_def inv_send grade_is_no_promotion promotion_inv_cong [of "s\<lparr>ca_grade_history := h\<rparr>" s for h])

lemma inv_retire: "promotion_inv s \<Longrightarrow> promotion_inv (retire_with_summary e s)"
  using inv_send [OF retirement_is_no_promotion, of s STREAM_PROPOSALS e s]
  by (simp add: retire_with_summary_def promotion_inv_def)

lemma observe_both_sent:
  "ca_sent (snd (observe_both e k p own s)) = ca_sent s" "ca_emitted (snd (observe_both e k p own s)) = ca_emitted s"
  by (auto simp: observe_both_def Let_def split: prod.splits option.splits)

lemma observe_both_result: "observe_both e k p own s = (b, s') \<Longrightarrow> ca_sent s' = ca_sent s \<and> ca_emitted s' = ca_emitted s"
  using observe_both_sent [of e k p own s] by simp

lemma observe_shadow_sent:
  "ca_sent (snd (observe_shadow e data s)) = ca_sent s \<and> ca_emitted (snd (observe_shadow e data s)) = ca_emitted s"
  by (auto simp: observe_shadow_def Let_def split: option.split pyval.split sum.split prod.split dest!: observe_both_result)

lemma prom_observe: "keeps promotion_step (observe_shadow e data)"
  unfolding keeps_def promotion_step_def using observe_shadow_sent promotion_inv_cong by blast

lemma prom_process: "keeps promotion_step (challenger_process e stream data)"
proof -
  have tick: "promotion_inv s \<Longrightarrow> promotion_inv (maybe_propose_shadow_promotion e (persist_shadow_state e s))" for s
    by (rule inv_propose) (simp add: promotion_inv_cong [of "persist_shadow_state e s" s])
  have reg: "promotion_inv (ensure_lifecycle_registered e s) = promotion_inv s" for s by (simp add: promotion_inv_def)
  have fill: "promotion_inv (s\<lparr>ca_pnl_buffer := b, ca_fills := n\<rparr>) = promotion_inv s" for s b n by (simp add: promotion_inv_def)
  show ?thesis
    unfolding challenger_process_def record_fill_def
    by (intro prom.keeps_rules prom_observe)
      (auto simp: promotion_step_def reg fill intro: tick inv_propose inv_grade inv_retire)
qed

lemma prom_turn: "promotion_inv s \<Longrightarrow> promotion_inv (challenger_turn ms s)"
proof (induction ms s rule: challenger_turn.induct)
  case (2 e stream data ms s)
  then show ?case using prom_process [of e stream data] by (simp add: keeps_def promotion_step_def)
qed simp

lemma start_inv: "promotion_inv (challenger_start e (challenger_init e' ts reg ps))"
  by (auto simp: challenger_start_def hydrate_shadow_state_def challenger_init_def promotion_inv_def Let_def split: prod.splits option.splits)

text \<open>C23: Whatever a challenger is sent after its start, it proposes its promotion at most once, always for approval, and
  the proposal shows enough trades, a win rate and a profit above the bar, and more profit than the baseline.
\<close>
theorem promotion_is_proposed_once_and_earned:
  "length (filter is_promotion (ca_sent (challenger_turn ms (challenger_start e (challenger_init e ts reg ps))))) \<le> 1
   \<and> list_all earned_promotion (filter is_promotion (ca_sent (challenger_turn ms (challenger_start e (challenger_init e ts reg ps)))))"
  using prom_turn [OF start_inv, of ms e e ts reg ps] by (auto simp: promotion_inv_def split: if_splits)

section \<open>After the last fill\<close>

definition is_summary :: "string \<times> pydict \<Rightarrow> bool" where
  "is_summary m \<longleftrightarrow> py_get (snd m) ''type'' = PStr ''challenger_summary''"

lemma py_get_merge: "py_get (dmerge a b) k = (case map_of (rev b) k of None \<Rightarrow> py_get a k | Some v \<Rightarrow> v)"
  by (simp add: py_get_def map_of_merge split: option.split)

lemma summary_has_no_type: "map_of (rev (summary_dict y)) ''type'' = None"
  by (auto simp: summary_dict_def split: option.split)

lemma retirement_is_summary: "is_summary (STREAM_PROPOSALS, retirement_event e s)"
  unfolding is_summary_def snd_conv retirement_event_def Let_def py_get_merge summary_has_no_type
  by (simp add: py_get_def)

lemma grade_is_no_summary: "\<not> is_summary (STREAM_AGENT_GRADES, grade_event e w g)"
  by (simp add: is_summary_def grade_event_def py_get_def)

lemma last_n_empty: "0 < n \<Longrightarrow> (last_n n xs = []) = (xs = [])"
  by (cases xs) (auto simp: last_n_def)

lemma grade_facts:
  "ca_fills (grade_challenger e s) = ca_fills s" "ca_pnl_buffer (grade_challenger e s) = ca_pnl_buffer s"
  "filter is_summary (ca_sent (grade_challenger e s)) = filter is_summary (ca_sent s)"
  "length (ca_grade_history (grade_challenger e s)) = length (ca_grade_history s) + (if ca_pnl_buffer s \<noteq> [] then 1 else 0)"
  by (simp_all add: grade_challenger_def Let_def send_def grade_is_no_summary last_n_empty)

lemma retire_facts:
  "ca_fills (retire_with_summary e s) = ca_fills s" "ca_pnl_buffer (retire_with_summary e s) = ca_pnl_buffer s"
  "length (filter is_summary (ca_sent (retire_with_summary e s))) = Suc (length (filter is_summary (ca_sent s)))"
  "ca_grade_history (retire_with_summary e s) = ca_grade_history s"
  by (simp_all add: retire_with_summary_def send_def retirement_is_summary)

lemma register_facts:
  "ca_fills (ensure_lifecycle_registered e s) = ca_fills s" "ca_pnl_buffer (ensure_lifecycle_registered e s) = ca_pnl_buffer s"
  "ca_grade_history (ensure_lifecycle_registered e s) = ca_grade_history s"
  by (simp_all add: ensure_lifecycle_registered_def Let_def)

text \<open>one event of the executions stream, which is no fill of this agent\<close>
lemma execution_step:
  assumes "grade_due e (ca_fills s) = Inr due"
  shows "snd (challenger_process e STREAM_EXECUTIONS data s) =
    (let s1 = ensure_lifecycle_registered e s; s2 = (if due then grade_challenger e s1 else s1)
     in if int (ca_fills s) \<ge> ch_max_fills e then retire_with_summary e s2 else s2)"
proof -
  have "STREAM_EXECUTIONS \<noteq> STREAM_MARKET_EVENTS" "STREAM_EXECUTIONS \<noteq> STREAM_TRADE_PERFORMANCE"
    by (simp_all add: STREAM_EXECUTIONS_def STREAM_MARKET_EVENTS_def STREAM_TRADE_PERFORMANCE_def)
  then show ?thesis
    using assms by (cases due) (simp_all add: challenger_process_def register_facts Let_def grade_facts)
qed

lemma turn_replicate:
  assumes "grade_due e (ca_fills s) = Inr due"
  shows "ca_fills (challenger_turn (replicate n (e, STREAM_EXECUTIONS, data)) s) = ca_fills s
    \<and> ca_pnl_buffer (challenger_turn (replicate n (e, STREAM_EXECUTIONS, data)) s) = ca_pnl_buffer s
    \<and> length (filter is_summary (ca_sent (challenger_turn (replicate n (e, STREAM_EXECUTIONS, data)) s)))
        = length (filter is_summary (ca_sent s)) + (if int (ca_fills s) \<ge> ch_max_fills e then n else 0)
    \<and> length (ca_grade_history (challenger_turn (replicate n (e, STREAM_EXECUTIONS, data)) s))
        = length (ca_grade_history s) + (if due \<and> ca_pnl_buffer s \<noteq> [] then n else 0)"
  using assms
proof (induction n arbitrary: s)
  case (Suc n)
  let ?s = "snd (challenger_process e STREAM_EXECUTIONS data s)"
  have f: "ca_fills ?s = ca_fills s" "ca_pnl_buffer ?s = ca_pnl_buffer s"
    "length (filter is_summary (ca_sent ?s)) = length (filter is_summary (ca_sent s)) + (if int (ca_fills s) \<ge> ch_max_fills e then 1 else 0)"
    "length (ca_grade_history ?s) = length (ca_grade_history s) + (if due \<and> ca_pnl_buffer s \<noteq> [] then 1 else 0)"
    unfolding execution_step [OF Suc.prems] Let_def
    by (auto simp: grade_facts retire_facts register_facts)
  then have "grade_due e (ca_fills ?s) = Inr due" using Suc.prems by simp
  note IH = Suc.IH [OF this]
  show ?case using IH by (simp add: f)
qed simp

text \<open>A challenger grades itself by the number of its fills but is woken by executions too: while the number rests on
  a multiple of the cadence, every execution repeats the grade of the same window, and after the last fill every
  message that was already read publishes one more final summary.
\<close>
theorem executions_repeat_grades_and_summaries:
  assumes "grade_due e (ca_fills s) = Inr True" "ca_pnl_buffer s \<noteq> []" "ch_max_fills e \<le> int (ca_fills s)"
  shows "ca_fills (challenger_turn (replicate n (e, STREAM_EXECUTIONS, data)) s) = ca_fills s
    \<and> length (ca_grade_history (challenger_turn (replicate n (e, STREAM_EXECUTIONS, data)) s)) = length (ca_grade_history s) + n
    \<and> length (filter is_summary (ca_sent (challenger_turn (replicate n (e, STREAM_EXECUTIONS, data)) s)))
        = length (filter is_summary (ca_sent s)) + n"
  using turn_replicate [OF assms(1)] assms(2,3) by simp

section \<open>A restart\<close>

lemma restore_books: "books_ok m \<Longrightarrow> restore_metrics (sm_pnls m) = m"
  by (cases m) (simp add: books_ok_def restore_metrics_def)

lemma saved_track:
  assumes "strategy \<noteq> []" "\<not> kt_fails k" "number_codec k (last_n CHALLENGER_PERF_PNL_CAP own)"
    "number_codec k (last_n CHALLENGER_PERF_PNL_CAP base)"
  shows "\<exists>r. load_track k strategy (save_performance k strategy own base emitted ts) = Some r
    \<and> kr_pnls r = last_n CHALLENGER_PERF_PNL_CAP own \<and> kr_baseline r = last_n CHALLENGER_PERF_PNL_CAP base \<and> kr_emitted r = emitted"
  using assms by (auto simp: load_track_def save_performance_def dget_hset coerce_record_def merge_nonempty map_of_merge parse_floats_def number_codec_def)

text \<open>A challenger that restarts resumes the counters, profits and ratios of both engines as they were saved, while
  they are within the cap of the record; and it resumes the latch: a fresh challenger of a strategy that was once
  proposed never proposes again.
\<close>
theorem restart_resumes_the_evidence:
  assumes "ca_shadow s = Some own" "ca_baseline s = Some base" "books_ok (sd_metrics own)" "books_ok (sd_metrics base)"
    and "length (sm_pnls (sd_metrics own)) \<le> CHALLENGER_PERF_PNL_CAP" "length (sm_pnls (sd_metrics base)) \<le> CHALLENGER_PERF_PNL_CAP"
    and "build_shadow_engines e = (Some own0, Some base0)" "strategy_name e \<noteq> []" "ch_store e = Some k" "\<not> kt_fails k"
    and "number_codec k (sm_pnls (sd_metrics own))" "number_codec k (sm_pnls (sd_metrics base))"
  shows "map_option sd_metrics (ca_shadow (challenger_start e (challenger_init e (ca_tracks (persist_shadow_state e s)) reg ps))) = Some (sd_metrics own)
    \<and> map_option sd_metrics (ca_baseline (challenger_start e (challenger_init e (ca_tracks (persist_shadow_state e s)) reg ps))) = Some (sd_metrics base)
    \<and> ca_emitted (challenger_start e (challenger_init e (ca_tracks (persist_shadow_state e s)) reg ps)) = ca_emitted s"
proof -
  let ?p = "sm_pnls (sd_metrics own)" and ?b = "sm_pnls (sd_metrics base)"
  have cap: "last_n CHALLENGER_PERF_PNL_CAP ?p = ?p" "last_n CHALLENGER_PERF_PNL_CAP ?b = ?b" using assms(5,6) by (simp_all add: last_n_def)
  obtain r where r: "load_track k (strategy_name e) (save_performance k (strategy_name e) ?p ?b (ca_emitted s) (ca_tracks s)) = Some r"
      "kr_pnls r = ?p" "kr_baseline r = ?b" "kr_emitted r = ca_emitted s"
    using saved_track [of "strategy_name e" k ?p ?b "ca_emitted s" "ca_tracks s"] assms(8,10-12) by (auto simp: cap)
  have t: "ca_tracks (persist_shadow_state e s) = save_performance k (strategy_name e) ?p ?b (ca_emitted s) (ca_tracks s)"
    using assms(1,2,8,9) by (simp add: persist_shadow_state_def)
  have reg: "ca_shadow (ensure_lifecycle_registered e x) = ca_shadow x" "ca_baseline (ensure_lifecycle_registered e x) = ca_baseline x" for x
    by (simp_all add: ensure_lifecycle_registered_def Let_def)
  show ?thesis
    using assms(8,9) r by (simp add: challenger_start_def reg hydrate_shadow_state_def challenger_init_def assms(7) t restore_books assms(3,4))
qed


section \<open>Instances\<close>

definition chal_env0 :: challenger_env where
  "chal_env0 = \<lparr>ch_rp = (\<lambda>_. []), ch_id = ''c1'', ch_instance = ''c1'', ch_config = [(''strategy'', PStr ''strong_only'')], ch_max_fills = 20,
     ch_loads = (\<lambda>_. None), ch_now = ''t0'', ch_uuid = (\<lambda>n. nat_str n), ch_percent = (\<lambda>_. []), ch_signed2 = (\<lambda>_. []),
     ch_store = Some track_env0, ch_clock = (\<lambda>_. 0), ch_hash = (\<lambda>_. ''h''), ch_verdict = [], ch_db_up = False, ch_db_fails = False, ch_lists = None\<rparr>"

definition traded :: "real list \<Rightarrow> string \<Rightarrow> strategy \<Rightarrow> shadow_engine" where
  "traded pnls n f = (new_shadow_engine n f DEFAULT_HISTORY_MAXLEN)\<lparr>sd_metrics := restore_metrics pnls\<rparr>"

definition chal0 :: challenger where
  "chal0 = (challenger_init chal_env0 [] new_registry (empty_store, [], empty_lists))
     \<lparr>ca_fills := 20, ca_pnl_buffer := [1], ca_emitted := True, ca_shadow := Some (traded [5, -2] ''strong_only'' strong_only),
      ca_baseline := Some (traded [] ''baseline_momentum'' baseline_momentum)\<rparr>"

lemma chal0_facts:
  "grade_due chal_env0 (ca_fills chal0) = Inr True" "ca_pnl_buffer chal0 = [1]" "ch_max_fills chal_env0 = 20" "ca_fills chal0 = 20"
  "ca_shadow chal0 = Some (traded [5, -2] ''strong_only'' strong_only)"
  "ca_baseline chal0 = Some (traded [] ''baseline_momentum'' baseline_momentum)" "ca_emitted chal0"
  by (simp_all add: grade_due_def chal_env0_def chal0_def challenger_init_def py_int_def dget_def split: prod.split)

lemma executions_repeat_grades_and_summaries_witness:
  "length (filter is_summary (ca_sent (challenger_turn (replicate 3 (chal_env0, STREAM_EXECUTIONS, [])) chal0)))
     = length (filter is_summary (ca_sent chal0)) + 3"
  using executions_repeat_grades_and_summaries [OF chal0_facts(1), of 3 "[]"] by (simp add: chal0_facts)

lemma restart_resumes_the_evidence_witness:
  "ca_emitted (challenger_start chal_env0 (challenger_init chal_env0 (ca_tracks (persist_shadow_state chal_env0 chal0)) new_registry
     (empty_store, [], empty_lists)))"
proof -
  have m: "sd_metrics (traded ps n f) = restore_metrics ps" "books_ok (restore_metrics ps)" "sm_pnls (restore_metrics ps) = ps" for ps n f
    by (simp_all add: traded_def books_ok_def restore_metrics_def)
  have b: "build_shadow_engines chal_env0 = (Some (new_shadow_engine ''strong_only'' strong_only DEFAULT_HISTORY_MAXLEN),
      Some (new_shadow_engine ''baseline_momentum'' baseline_momentum DEFAULT_HISTORY_MAXLEN))" "strategy_name chal_env0 \<noteq> []"
      "ch_store chal_env0 = Some track_env0" "\<not> kt_fails track_env0"
    by (simp_all add: build_shadow_engines_def strategy_name_def chal_env0_def py_get_def py_or_def py_str_def STRATEGIES_def track_env0_def)
  have c: "number_codec track_env0 [5, -2]" "number_codec track_env0 []" by (simp_all add: number_codec_def track_env0_def)
  have l: "Suc (Suc 0) \<le> CHALLENGER_PERF_PNL_CAP" by (simp_all add: CHALLENGER_PERF_PNL_CAP_def)
  show ?thesis
    using restart_resumes_the_evidence [OF chal0_facts(5,6) _ _ _ _ b] chal0_facts(7) by (simp add: m l c)
qed

end
