(* ===== verification/Spec2Isabelle.thy ===== *)
theory Spec2Isabelle
  imports Decision_Policy Guardian_Engine Cog_Evolution Stream_Consumer Signal_Generator Reasoning_Properties
    Param_Evolution IC_Updater Proposal_Applier Backtest_Harness Challenger_Agent
begin

text \<open>
  Verification of the trading control system.

  \<^bold>\<open>The program.\<close> A Python service trades on paper or through a brokerage. Agents consume Redis
  streams: market ticks become signals, signals become advisory decisions, an execution engine is
  the only component that turns a decision into an order, a guardian closes positions that breach
  a limit, and closed trades are scored and kept in a registry of strategies. Beside it a second,
  deterministic brain learns from closed trades and proposes changes of its own configuration as
  pull requests. The development follows that structure: transport, signals and decisions, then
  execution, then the guardian and the registry (all under \<open>src/api\<close>), and the cognitive side
  (under \<open>src/cognitive\<close>).

  \<^bold>\<open>Shared ground.\<close>
  \<^item> \<open>Py_Prelude\<close>: the dynamic values of Python (\<open>pyval\<close>), dictionaries as association lists in
    insertion order, \<open>float\<close>, \<open>int\<close>, \<open>str\<close>, truthiness, \<open>round\<close> (half to even on the decimal
    grid), the exceptions as the datatype \<open>py_exc\<close> and results \<open>py_exc + 'a\<close>.
  \<^item> \<open>Effects\<close>: stateful code that may raise; what was written before a raise stays written. The
    locale \<open>frame\<close> gives the proof rules for what an operation leaves alone and \<open>once_frame\<close> those
    for what it does at most once; both are interpreted on the engine and \<open>frame\<close> on the loop.

  \<^bold>\<open>Transport and stores.\<close>
  \<^item> \<open>Event_Bus\<close> (\<open>api/events/bus.py\<close>, \<open>dlq.py\<close>): the streams, consumer groups and dead letters of
    Redis as the record \<open>bus\<close>, with the documented behaviour of the commands; a published event is
    what a caught-up group reads next.
  \<^item> \<open>Stream_Consumer\<close> (\<open>api/events/consumer.py\<close>, \<open>api/services/agents/base.py\<close>, \<open>agent_supervisor.py\<close>):
    a message is handled at least once or dead-lettered; a failed one waits for a restart, and an agent
    that crashes inside its own loop is never restarted.
  \<^item> \<open>Redis_Store\<close> (\<open>services/redis_store.py\<close>): the capped lists behind the dashboard, one locale
    \<open>capped_log\<close> interpreted on each of them.
  \<^item> \<open>Agent_Heartbeat\<close> (\<open>services/agent_heartbeat.py\<close>) and \<open>Agent_Records\<close> (\<open>agents/db_helpers.py\<close>,
    \<open>agents/vector_helpers.py\<close>): what agents write down, in the tables or in the store.

  \<^bold>\<open>Signals and decisions.\<close>
  \<^item> \<open>Signal_Rules\<close> and \<open>Signal_Generator\<close> (\<open>services/signal_generator.py\<close>): the classifier follows one
    score curve; \<open>generator_process\<close> turns a tick into at most one signal, a recorded tick into none,
    and its three persistence paths are explicit: under enforced foreign keys every record is lost.
  \<^item> \<open>Tool_Registry\<close> (\<open>services/tool_registry.py\<close>): selection is exact and never offers an execution
    tool without approval, a snapshot restores the registry.
  \<^item> \<open>Reasoning_Rules\<close>, \<open>Reasoning_Agent\<close> and \<open>Reasoning_Properties\<close>
    (\<open>services/agents/reasoning_agent.py\<close>): \<open>reasoning_process\<close> takes a signal through admission,
    context, decision, critique, risk hierarchy, records and publication; \<open>reasoner\<close> is the state
    behind it, \<open>reason_env\<close> one call's view of the outside. One signal gives at most one decision,
    within the risk cap, a sale only of an open long; in policy mode the language model has no
    influence; and four ways the code differs from its intent are theorems.

  \<^bold>\<open>Execution side.\<close>
  \<^item> \<open>Regime_Risk\<close> (\<open>services/regime_risk.py\<close>), \<open>Risk_Filters\<close> (\<open>services/risk_filters.py\<close>) and
    \<open>Decision_Policy\<close> (\<open>services/decision_policy.py\<close>): the pure risk and policy functions.
    No regime loosens a parameter, the cooling-off loop computes the decayed loss ratio, and the
    shipped policy never buys bearish momentum.
  \<^item> \<open>Position_Math\<close>, \<open>Decision_Utils\<close>, \<open>Paper_Broker\<close>, \<open>Order_Writer\<close>, \<open>Fill_Publisher\<close>
    (\<open>services/execution/*.py\<close>) and \<open>In_Memory_Store\<close> (\<open>api/in_memory_store.py\<close>,
    \<open>services/metrics_calc.py\<close>): the parts the engine calls. Position updates refine signed
    addition, an order conserves equity, the reported profit of a round trip is the cash it made,
    the store stays within its caps, the paired profit summary equals the canonical statistics.
  \<^item> \<open>Execution_Engine\<close> (\<open>services/execution/execution_engine.py\<close>): the record \<open>engine\<close> is the
    state behind the engine (broker, tables, store, Redis flags and lists, published messages),
    \<open>engine_env\<close> is what one call reads from outside: settings, clock, uuid, digest, market
    window and the fault points, one for every external call that may raise. \<open>process\<close> is the
    entry point, \<open>process_with_db\<close> and \<open>process_in_memory\<close> its two paths, with their
    \<open>try/except/finally\<close> structure and the fallback after a database failure.
    \<open>Engine_Frames\<close> and \<open>Engine_Safety\<close> carry the invariants, \<open>Engine_Properties\<close> states the
    results: positions stay long or flat and within the cap in every reachable state, one call
    orders at most once, closed gates order nothing, replays order nothing, locks are released,
    tables and store stay well formed, and a decision that passes the cage does reach the broker.

  \<^bold>\<open>Guardian, trades and strategies.\<close>
  \<^item> \<open>Risk_Guardian\<close> (\<open>agents/risk_guardian.py\<close>): the cycle over open positions, stops, targets,
    trailing stop, daily loss and circuit breaker; \<open>Guardian_Properties\<close> says it closes every
    breach it sees and nothing else, \<open>Guardian_Engine\<close> composes it with the engine, where a close is
    sized by cash over price.
  \<^item> \<open>Trade_Scorer\<close> (\<open>agents/trade_scorer.py\<close>): the score and grade of a trade.
  \<^item> \<open>Strategy_Registry\<close> (\<open>services/strategy_registry.py\<close>, \<open>circuit_breaker.py\<close>,
    \<open>replay_harness.py\<close>, \<open>regression_validator.py\<close>, \<open>promotion_gate.py\<close>): a version goes live only
    through every stage, and the breaker unwinds it.

  \<^bold>\<open>Learning loop.\<close>
  \<^item> \<open>IC_Updater\<close> (\<open>agents/scoring.py\<close>, \<open>agents/ic_updater.py\<close>): closed trades become rank correlations
    and these the weights of the reasoning agent; the weights are a distribution, and three ways in
    which they do not measure what they name are theorems.
  \<^item> \<open>Param_Evolution\<close> (\<open>services/param_evolution.py\<close>, \<open>param_overrides.py\<close>,
    \<open>agents/proposal_guardrails.py\<close>): which constants may be tuned, the overrides file, the daily quota.
    Whatever the file holds, an override that is applied is within its bounds.
  \<^item> \<open>Prompt_Store\<close>, \<open>Challenger_Store\<close> (\<open>services/prompt_store.py\<close>, \<open>challenger_store.py\<close>,
    \<open>challenger_spawner.py\<close>) and \<open>Gitops_Publisher\<close> (\<open>services/gitops_publisher.py\<close>): the directive, the shadow
    records and the fleet, the requests to GitHub.
  \<^item> \<open>Proposal_Applier\<close> (\<open>agents/proposal_applier.py\<close>): every handler, over one record \<open>applier\<close>. Two locales
    extend \<open>frame\<close> by the handlers and by the whole agent; each relation between the states before and
    after (no strategy goes live, the scale stays above its floor, only checked changes are requested)
    is an interpretation that proves the primitive writes.

  \<^bold>\<open>Strategies on trial.\<close>
  \<^item> \<open>Shadow_Trading\<close> (\<open>backtest/strategies.py\<close>, \<open>services/shadow_trader.py\<close>): the candidate strategies are the
    baseline restricted or mirrored; the profit of a shadow engine is the price moves it held.
  \<^item> \<open>Backtest_Harness\<close> (\<open>backtest/engine.py\<close>, \<open>compare.py\<close>, \<open>challenger.py\<close>, \<open>distribution.py\<close>): a run closes its
    books and sees no later price, a promotion needs trades and the margin; its window is not the live
    one, and a ruined account trades with reversed signs.
  \<^item> \<open>Challenger_Agent\<close> (\<open>agents/challenger_agent.py\<close>): one promotion, earned and for approval; a restart
    resumes the evidence; grades and final summaries repeat.

  \<^bold>\<open>Cognitive side.\<close>
  \<^item> \<open>Cog_Events\<close> (\<open>events.py\<close>, \<open>trace.py\<close>, \<open>health.py\<close>): the capped append-only stream.
  \<^item> \<open>Cog_Config\<close> (\<open>config.py\<close>): the versioned configuration, its validator and loader.
  \<^item> \<open>Cog_Agents\<close> (\<open>agents.py\<close>, \<open>registry.py\<close>, \<open>aggregation.py\<close>), \<open>Cog_Decision\<close> (\<open>decision.py\<close>,
    \<open>risk.py\<close>, \<open>execution.py\<close>, \<open>counterfactual.py\<close>): the forward pass.
  \<^item> \<open>Cog_Grading\<close> (\<open>grading.py\<close>), \<open>Cog_Learning\<close> (\<open>learning.py\<close>, \<open>drift.py\<close>): what a closed
    trade teaches.
  \<^item> \<open>Cog_Proposal\<close> (\<open>proposal.py\<close>, \<open>governance.py\<close>), \<open>Cog_Backtest\<close> (\<open>backtest_gate.py\<close>,
    \<open>challenger.py\<close>), \<open>Cog_Gitops\<close> (\<open>gitops.py\<close>): a change from observation to pull request.
  \<^item> \<open>Cog_Loop\<close> (\<open>loop.py\<close>) composes them; \<open>Cog_Evolution\<close> states the life cycle as the inductive
    relation \<open>loop_life\<close>: whatever the order of calls, the active configuration is inside the
    guardrails and changes only by merging a pull request that carries the challenger's evidence.

  \<^bold>\<open>Conventions and bounds.\<close>
  \<^item> Floats are exact reals and rounding is \<open>py_round\<close>; infinities, nan, binary rounding error and
    literals such as \<open>1_000\<close> are outside the model. Python integers are \<open>int\<close> or \<open>nat\<close>.
  \<^item> The printing of a number or a dictionary (\<open>rp\<close>), JSON (\<open>loads\<close>, \<open>dumps\<close>), the seeded
    generator (\<open>rng\<close>), the clock, uuid and md5 are arguments of the definitions.
  \<^item> Log lines are left out; messages are constructors where no code reads them and strings
    where it does. Non-ASCII characters of messages are their UTF-8 bytes.
  \<^item> One call of an operation is one step: the interleaving of two engine calls inside one
    another is covered only by the locks and flags the code itself keeps. The Redis writes of one
    broker order are one write.
  \<^item> Every recursion is structural or has a termination proof; no definition uses fuel.

  \<^bold>\<open>Parameters.\<close> The reply of the language model and of its critic, the market-intelligence tools, the
  embedding of a text, the similarity query of the database and the ids it assigns are fields of
  the environments. A database row that the code reads back is a field of the state.

  \<^bold>\<open>Not modelled.\<close> The HTTP clients of language models and their routing, the agents that
  grade, reflect and draft proposals, the price poller, the HTTP routes, dashboards and websockets,
  the database schema beyond the constraints the writers rely on, the Alpaca client and the rows of
  \<open>upsert_trade_lifecycle\<close>: transport, prompts and presentation, whose outputs are inputs of the
  modelled parts.
\<close>

end
